(* ===== verification/Prelude.thy ===== *)
theory Prelude imports Main "HOL-Library.AList" "HOL-Library.Char_ord" "HOL-Library.List_Lexorder" begin

text \<open>
  Shared material of the development: the association lists that stand for JavaScript
  maps, generic facts about lists, and the collections of facts the component theories
  fill.

  A JavaScript \<open>Map\<close> keeps its keys in insertion order. It is modelled by an
  association list: \<open>map_of\<close> is \<open>get\<close>, \<^term>\<open>AList.update\<close> is \<open>set\<close> (in place for a
  known key, appended otherwise) and \<^term>\<open>AList.delete\<close> is \<open>delete\<close>. Time stamps are
  integers (milliseconds or seconds, as the code has them). A JavaScript string is a
  \<^typ>\<open>string\<close>; the code only compares, searches and concatenates them, and the
  lengths it takes are those of ASCII text.
\<close>

named_theorems guard_simps \<open>unfolding of the checks of a decision\<close>
named_theorems inv_intros \<open>operations keep the invariant of their component\<close>

type_synonym ('k, 'v) jsmap = "('k \<times> 'v) list"

abbreviation js_keys :: "('k, 'v) jsmap \<Rightarrow> 'k list" where
  "js_keys m \<equiv> map fst m"

abbreviation js_values :: "('k, 'v) jsmap \<Rightarrow> 'v list" where
  "js_values m \<equiv> map snd m"

definition js_has :: "('k, 'v) jsmap \<Rightarrow> 'k \<Rightarrow> bool" where
  "js_has m k = (map_of m k \<noteq> None)"

definition js_evict :: "('v \<Rightarrow> bool) \<Rightarrow> ('k, 'v) jsmap \<Rightarrow> ('k, 'v) jsmap" where
  \<comment> \<open>\<open>for (const [k, v] of m) if (p(v)) m.delete(k)\<close>\<close>
  "js_evict p m = filter (\<lambda>kv. \<not> p (snd kv)) m"

lemma js_has_iff: "js_has m k \<longleftrightarrow> k \<in> set (js_keys m)"
  by (simp add: js_has_def map_of_eq_None_iff)

lemma map_of_js_evict:
  "distinct (js_keys m) \<Longrightarrow>
   map_of (js_evict p m) k = (case map_of m k of None \<Rightarrow> None | Some v \<Rightarrow> if p v then None else Some v)"
proof (induction m)
  case Nil
  then show ?case by (simp add: js_evict_def)
next
  case (Cons a m)
  obtain k' v' where a: "a = (k', v')" by (cases a)
  have "map_of m k' = None"
    using Cons.prems a by (simp add: map_of_eq_None_iff)
  with Cons a show ?case
    by (auto simp: js_evict_def split: option.splits)
qed

lemma distinct_js_evict [simp]:
  "distinct (js_keys m) \<Longrightarrow> distinct (js_keys (js_evict p m))"
  by (simp add: js_evict_def distinct_map_filter)

lemma length_js_evict: "length (js_evict p m) \<le> length m"
  by (simp add: js_evict_def)

lemma set_js_evict: "set (js_evict p m) = {kv \<in> set m. \<not> p (snd kv)}"
  by (auto simp: js_evict_def)

lemma distinct_js_set [simp]:
  "distinct (js_keys m) \<Longrightarrow> distinct (js_keys (AList.update k v m))"
  by (rule distinct_update)

lemma distinct_js_delete [simp]:
  "distinct (js_keys m) \<Longrightarrow> distinct (js_keys (AList.delete k m))"
  by (rule distinct_delete)

lemma map_of_js_set [simp]:
  "map_of (AList.update k v m) k' = (if k' = k then Some v else map_of m k')"
  by (simp add: update_conv')

lemma map_of_js_delete [simp]:
  "map_of (AList.delete k m) k' = (if k' = k then None else map_of m k')"
  by (simp add: delete_conv')

lemma length_js_set:
  "length (AList.update k v m) = (if js_has m k then length m else Suc (length m))"
  by (induction m) (auto simp: js_has_def)

lemma js_set_new:
  "\<not> js_has m k \<Longrightarrow> AList.update k v m = m @ [(k, v)]"
  by (induction m) (auto simp: js_has_def split: if_splits)

lemma distinct_map_of_SomeI:
  "distinct (js_keys m) \<Longrightarrow> (k, v) \<in> set m \<Longrightarrow> map_of m k = Some v"
  by simp

lemma list_all_update:
  "list_all (\<lambda>(k, r). P k r) m \<Longrightarrow> P k r \<Longrightarrow> list_all (\<lambda>(k, r). P k r) (AList.update k r m)"
  by (induction m) auto

lemma list_all_delete:
  "list_all (\<lambda>(k, r). P k r) m \<Longrightarrow> list_all (\<lambda>(k, r). P k r) (AList.delete k m)"
  by (auto simp: list_all_iff AList.delete_eq)

lemma js_keys_update: "fst ` set (AList.update k v m) = insert k (fst ` set m)"
  by (induction m) auto

lemma js_keys_delete: "fst ` set (AList.delete k m) = fst ` set m - {k}"
  by (auto simp: AList.delete_eq)

text \<open>
  A chain of guards \<open>if (c) return e; ...\<close>: the error of the first condition that holds.
\<close>

fun first_failure :: "(bool \<times> 'e) list \<Rightarrow> 'e option" where
  "first_failure [] = None"
| "first_failure ((c, e) # cs) = (if c then Some e else first_failure cs)"

lemma first_failure_None [simp]: "first_failure gs = None \<longleftrightarrow> list_all (\<lambda>(c, e). \<not> c) gs"
  by (induction gs rule: first_failure.induct) (auto simp: first_failure.simps)

declare first_failure.simps [simp del]

lemma first_failure_Some: "first_failure gs = Some e \<Longrightarrow> (True, e) \<in> set gs"
  by (induction gs rule: first_failure.induct) (auto simp: first_failure.simps split: if_splits)

text \<open>The truncation \<open>xs.splice(0, xs.length - n)\<close> keeps the newest \<open>n\<close> entries.\<close>

definition keep_last :: "nat \<Rightarrow> 'a list \<Rightarrow> 'a list" where
  "keep_last n xs = (if length xs > n then drop (length xs - n) xs else xs)"

lemma length_keep_last: "length (keep_last n xs) = min n (length xs)"
  by (simp add: keep_last_def)

lemma keep_last_suffix: "\<exists>ys. xs = ys @ keep_last n xs"
  by (cases "length xs > n")
     (auto simp: keep_last_def intro: exI [of _ "take (length xs - n) xs"])

lemma last_keep_last: "0 < n \<Longrightarrow> xs \<noteq> [] \<Longrightarrow> last (keep_last n xs) = last xs"
  by (simp add: keep_last_def)

lemma keep_last_not_Nil: "0 < n \<Longrightarrow> xs \<noteq> [] \<Longrightarrow> keep_last n xs \<noteq> []"
  using length_keep_last [of n xs] by (auto simp: min_def split: if_splits)

lemma set_keep_last: "set (keep_last n xs) \<subseteq> set xs"
  by (auto simp: keep_last_def dest: in_set_dropD)

lemma list_all_keep_last: "list_all P xs \<Longrightarrow> list_all P (keep_last n xs)"
  using set_keep_last [of n xs] by (auto simp: list_all_iff)

text \<open>A list of consecutive numbers.\<close>

fun consecutive :: "int list \<Rightarrow> bool" where
  "consecutive [] = True"
| "consecutive [x] = True"
| "consecutive (x # y # ys) = (y = x + 1 \<and> consecutive (y # ys))"

lemma consecutive_iff_nth:
  "consecutive xs \<longleftrightarrow> (\<forall>i < length xs. xs ! i = xs ! 0 + int i)"
proof (induction xs rule: consecutive.induct)
  case (3 x y ys)
  show ?case (is "?l \<longleftrightarrow> ?r")
  proof
    assume l: ?l
    then have IH: "\<forall>i < length (y # ys). (y # ys) ! i = y + int i" and y: "y = x + 1"
      using 3 by auto
    show ?r
    proof (intro allI impI)
      fix i assume "i < length (x # y # ys)"
      then show "(x # y # ys) ! i = (x # y # ys) ! 0 + int i"
        using IH y by (cases i) auto
    qed
  next
    assume r: ?r
    then have y: "y = x + 1" by (auto dest: spec [of _ 1])
    have "\<forall>i < length (y # ys). (y # ys) ! i = y + int i"
    proof (intro allI impI)
      fix i assume "i < length (y # ys)"
      with r [rule_format, of "Suc i"] y show "(y # ys) ! i = y + int i" by simp
    qed
    with 3 y show ?l by simp
  qed
qed auto

lemma consecutive_append1:
  "consecutive (xs @ [x]) \<longleftrightarrow> consecutive xs \<and> (xs = [] \<or> x = last xs + 1)"
  by (induction xs rule: consecutive.induct) auto

lemma consecutive_tl: "consecutive (x # xs) \<Longrightarrow> consecutive xs"
  by (cases xs) auto

lemma consecutive_drop: "consecutive xs \<Longrightarrow> consecutive (drop n xs)"
proof (induction n arbitrary: xs)
  case 0
  then show ?case by simp
next
  case (Suc n)
  then show ?case
    by (cases xs) (auto dest: consecutive_tl)
qed

lemma consecutive_keep_last: "consecutive (map f xs) \<Longrightarrow> consecutive (map f (keep_last n xs))"
  by (simp add: keep_last_def consecutive_drop flip: drop_map)

lemma consecutive_hd_le: "consecutive (x # xs) \<Longrightarrow> y \<in> set xs \<Longrightarrow> x < y"
proof (induction xs arbitrary: x)
  case (Cons z zs)
  then show ?case by (cases "y = z") force+
qed simp

lemma consecutive_le_last: "consecutive xs \<Longrightarrow> y \<in> set xs \<Longrightarrow> y \<le> last xs"
proof (induction xs rule: rev_induct)
  case (snoc x xs)
  then show ?case by (cases "xs = []") (auto simp: consecutive_append1)
qed simp

end
