(* ===== verification/TtlCache.thy ===== *)
theory TtlCache imports Prelude begin

text \<open>
  The replay and duplicate guards: \<open>src/idempotency.ts\<close> (\<open>IdempotencyGuard\<close>),
  \<open>src/relay_ticket.ts\<close> (\<open>RelayBindTicketReplayCache\<close>) and
  \<open>src/dispatch_ticket_trust.ts\<close> (\<open>LocalDispatchReplayCache\<close>). Each is a map from a key
  to an expiry that is cleaned lazily when it is asked. The locale states what the three
  promise; its theorem says that over any sequence of requests with a clock that does
  not run backwards a key is admitted at most once before the expiry it was admitted
  with.
\<close>

section \<open>The contract\<close>

text \<open>
  \<open>admit s now r\<close> is one request: whether it was let through and the new state.
  \<open>held s t k\<close> says that at time \<open>t\<close> the state still remembers key \<open>k\<close>.
  \<open>tracked r\<close> is false for a request the code lets through without recording it.
\<close>

fun run_requests :: "('s \<Rightarrow> int \<Rightarrow> 'r \<Rightarrow> bool \<times> 's) \<Rightarrow> 's \<Rightarrow> (int \<times> 'r) list \<Rightarrow> bool list" where
  "run_requests admit s [] = []"
| "run_requests admit s ((now, r) # rs) =
     (let (ok, s') = admit s now r in ok # run_requests admit s' rs)"

fun monotone_clock :: "int \<Rightarrow> (int \<times> 'r) list \<Rightarrow> bool" where
  "monotone_clock t [] = True"
| "monotone_clock t ((now, r) # rs) = (t \<le> now \<and> monotone_clock now rs)"

lemma length_run_requests [simp]: "length (run_requests admit s rs) = length rs"
  by (induction rs arbitrary: s) (auto split: prod.splits)

lemma monotone_clock_nth:
  "monotone_clock t rs \<Longrightarrow> j < length rs \<Longrightarrow> t \<le> fst (rs ! j)"
proof (induction rs arbitrary: t j)
  case (Cons a rs)
  then show ?case by (cases a; cases j) force+
qed simp

locale ttl_guard =
  fixes admit :: "'s \<Rightarrow> int \<Rightarrow> 'r \<Rightarrow> bool \<times> 's"
    and held :: "'s \<Rightarrow> int \<Rightarrow> 'k \<Rightarrow> bool"
    and key :: "'r \<Rightarrow> 'k"
    and expiry :: "int \<Rightarrow> 'r \<Rightarrow> int"
    and tracked :: "'r \<Rightarrow> bool"
    and inv :: "'s \<Rightarrow> bool"
  assumes admit_inv: "inv s \<Longrightarrow> inv (snd (admit s now r))"
    and admit_free: "inv s \<Longrightarrow> tracked r \<Longrightarrow> fst (admit s now r) \<Longrightarrow> \<not> held s now (key r)"
    and admit_holds: "inv s \<Longrightarrow> tracked r \<Longrightarrow> fst (admit s now r) \<Longrightarrow> t < expiry now r
      \<Longrightarrow> held (snd (admit s now r)) t (key r)"
    and admit_keeps: "inv s \<Longrightarrow> now \<le> t \<Longrightarrow> held s t k \<Longrightarrow> held (snd (admit s now r)) t k"
begin

lemma held_blocks:
  "inv s \<Longrightarrow> monotone_clock t0 rs \<Longrightarrow> j < length rs \<Longrightarrow> tracked (snd (rs ! j)) \<Longrightarrow>
   held s (fst (rs ! j)) (key (snd (rs ! j))) \<Longrightarrow> \<not> run_requests admit s rs ! j"
proof (induction rs arbitrary: s t0 j)
  case (Cons a rs)
  obtain now r where a: "a = (now, r)" by (cases a)
  obtain ok s' where ad: "admit s now r = (ok, s')" by (cases "admit s now r")
  show ?case
  proof (cases j)
    case 0
    with Cons.prems a ad admit_free [of s r now] show ?thesis by auto
  next
    case (Suc i)
    let ?t = "fst (rs ! i)" and ?k = "key (snd (rs ! i))"
    have "now \<le> ?t"
      using Cons.prems a Suc by (auto dest: monotone_clock_nth)
    then have "held s' ?t ?k"
      using Cons.prems a Suc ad admit_keeps [of s now ?t ?k r] by simp
    moreover have "inv s'"
      using Cons.prems ad admit_inv [of s now r] by simp
    ultimately have "\<not> run_requests admit s' rs ! i"
      using Cons.prems a Suc by (intro Cons.IH [of s' now i]) auto
    then show ?thesis using a ad Suc by simp
  qed
qed simp

theorem admitted_once:
  "inv s \<Longrightarrow> monotone_clock t0 rs \<Longrightarrow> i < j \<Longrightarrow> j < length rs \<Longrightarrow>
   tracked (snd (rs ! i)) \<Longrightarrow> tracked (snd (rs ! j)) \<Longrightarrow> key (snd (rs ! i)) = key (snd (rs ! j)) \<Longrightarrow>
   run_requests admit s rs ! i \<Longrightarrow> fst (rs ! j) < expiry (fst (rs ! i)) (snd (rs ! i)) \<Longrightarrow>
   \<not> run_requests admit s rs ! j"
proof (induction rs arbitrary: s t0 i j)
  case (Cons a rs)
  obtain now r where a: "a = (now, r)" by (cases a)
  obtain ok s' where ad: "admit s now r = (ok, s')" by (cases "admit s now r")
  obtain j' where j: "j = Suc j'" using Cons.prems by (cases j) auto
  have inv': "inv s'" using Cons.prems ad admit_inv [of s now r] by simp
  show ?case
  proof (cases i)
    case 0
    let ?t = "fst (rs ! j')"
    have "held s' ?t (key r)"
      using Cons.prems a ad j 0 admit_holds [of s r now ?t] by simp
    then have "\<not> run_requests admit s' rs ! j'"
      using Cons.prems a j 0 inv' by (intro held_blocks [of s' now rs j']) auto
    then show ?thesis using a ad j by simp
  next
    case (Suc i')
    have "\<not> run_requests admit s' rs ! j'"
      using Cons.prems a ad j Suc inv' by (intro Cons.IH [of s' now i' j']) auto
    then show ?thesis using a ad j by simp
  qed
qed simp

end

text \<open>
  The specification without eviction: a history of the admitted keys with their expiry,
  never cleaned; a tracked request is admitted when no entry of its key is still running.
\<close>

fun history_requests ::
  "('r \<Rightarrow> 'k) \<Rightarrow> (int \<Rightarrow> 'r \<Rightarrow> int) \<Rightarrow> ('r \<Rightarrow> bool) \<Rightarrow> ('k \<times> int) list \<Rightarrow> (int \<times> 'r) list \<Rightarrow> bool list" where
  "history_requests key expiry tracked hist [] = []"
| "history_requests key expiry tracked hist ((now, r) # rs) =
     (if tracked r then
        let ok = list_all (\<lambda>(k, e). k = key r \<longrightarrow> e \<le> now) hist
        in ok # history_requests key expiry tracked
                  (if ok then (key r, expiry now r) # hist else hist) rs
      else True # history_requests key expiry tracked hist rs)"

definition history_held :: "('k \<times> int) list \<Rightarrow> int \<Rightarrow> 'k \<Rightarrow> bool" where
  "history_held hist t k = list_ex (\<lambda>(k', e). k' = k \<and> t < e) hist"

lemma history_held_Nil [simp]: "\<not> history_held [] t k"
  by (simp add: history_held_def)

lemma history_held_Cons [simp]:
  "history_held ((k', e) # hist) t k \<longleftrightarrow> k' = k \<and> t < e \<or> history_held hist t k"
  by (simp add: history_held_def)

lemma history_ok_iff:
  "list_all (\<lambda>(k', e). k' = k \<longrightarrow> e \<le> t) hist \<longleftrightarrow> \<not> history_held hist t k"
  by (force simp: history_held_def list_all_iff list_ex_iff)

text \<open>A guard that refuses only what it holds and holds only what it admitted.\<close>

locale exact_ttl_guard = ttl_guard +
  assumes admit_complete: "inv s \<Longrightarrow> tracked r \<Longrightarrow> \<not> held s now (key r) \<Longrightarrow> fst (admit s now r)"
    and untracked_admitted: "inv s \<Longrightarrow> \<not> tracked r \<Longrightarrow> fst (admit s now r)"
    and admit_only: "inv s \<Longrightarrow> now \<le> t \<Longrightarrow> held (snd (admit s now r)) t k \<Longrightarrow>
      held s t k \<or> (tracked r \<and> fst (admit s now r) \<and> k = key r \<and> t < expiry now r)"
begin

lemma admit_iff: "inv s \<Longrightarrow> fst (admit s now r) \<longleftrightarrow> (tracked r \<longrightarrow> \<not> held s now (key r))"
  using admit_free admit_complete untracked_admitted by blast

lemma held_step:
  "inv s \<Longrightarrow> now \<le> t \<Longrightarrow> held (snd (admit s now r)) t k \<longleftrightarrow>
     held s t k \<or> (tracked r \<and> fst (admit s now r) \<and> k = key r \<and> t < expiry now r)"
  using admit_keeps admit_holds admit_only by blast

theorem refines_history:
  "inv s \<Longrightarrow> monotone_clock t0 rs \<Longrightarrow>
   (\<And>t k. t0 \<le> t \<Longrightarrow> held s t k \<longleftrightarrow> history_held hist t k) \<Longrightarrow>
   run_requests admit s rs = history_requests key expiry tracked hist rs"
proof (induction rs arbitrary: s t0 hist)
  case (Cons a rs)
  obtain now r where a: "a = (now, r)" by (cases a)
  obtain ok s' where ad: "admit s now r = (ok, s')" by (cases "admit s now r")
  have t0: "t0 \<le> now" and rs: "monotone_clock now rs" and inv': "inv s'"
    using Cons.prems a ad admit_inv [of s now r] by auto
  let ?hist = "if tracked r \<and> ok then (key r, expiry now r) # hist else hist"
  have ok: "ok \<longleftrightarrow> (tracked r \<longrightarrow> \<not> history_held hist now (key r))"
    using admit_iff [of s now r] Cons.prems t0 ad by simp
  have "held s' t k \<longleftrightarrow> history_held ?hist t k" if "now \<le> t" for t k
    using held_step [of s now t r k] Cons.prems that t0 ad by auto
  then have "run_requests admit s' rs = history_requests key expiry tracked ?hist rs"
    using rs inv' by (intro Cons.IH [of s' now]) auto
  then show ?case
    using a ad ok by (auto simp: history_ok_iff Let_def)
qed simp

end

section \<open>The map with lazy eviction\<close>

type_synonym 'k expiry_map = "('k, int) jsmap"

definition seen_inv :: "'k expiry_map \<Rightarrow> bool" where
  "seen_inv m = distinct (js_keys m)"

definition seen_held :: "'k expiry_map \<Rightarrow> int \<Rightarrow> 'k \<Rightarrow> bool" where
  "seen_held m t k = (case map_of m k of None \<Rightarrow> False | Some e \<Rightarrow> t < e)"

definition evict_expired :: "int \<Rightarrow> 'k expiry_map \<Rightarrow> 'k expiry_map" where
  "evict_expired now m = js_evict (\<lambda>e. e \<le> now) m"

lemma seen_inv_evict [simp]: "seen_inv m \<Longrightarrow> seen_inv (evict_expired now m)"
  by (simp add: seen_inv_def evict_expired_def)

lemma seen_inv_set [simp]: "seen_inv m \<Longrightarrow> seen_inv (AList.update k e m)"
  by (simp add: seen_inv_def)

lemma has_evict_expired:
  "seen_inv m \<Longrightarrow> js_has (evict_expired now m) k \<longleftrightarrow> seen_held m now k"
  by (auto simp: seen_inv_def js_has_def seen_held_def evict_expired_def map_of_js_evict
      split: option.splits)

lemma seen_held_evict:
  "seen_inv m \<Longrightarrow> now \<le> t \<Longrightarrow> seen_held (evict_expired now m) t k \<longleftrightarrow> seen_held m t k"
  by (auto simp: seen_inv_def seen_held_def evict_expired_def map_of_js_evict split: option.splits)

lemma seen_held_set:
  "seen_held (AList.update k e m) t k' \<longleftrightarrow> (if k' = k then t < e else seen_held m t k')"
  by (simp add: seen_held_def)

lemma seen_held_mono: "seen_held m t k \<Longrightarrow> now \<le> t \<Longrightarrow> seen_held m now k"
  by (auto simp: seen_held_def split: option.splits)

section \<open>IdempotencyGuard\<close>

record idempotency_guard =
  ig_seen :: "string expiry_map"
  ig_ttl :: int

definition checkAndRegister :: "idempotency_guard \<Rightarrow> int \<Rightarrow> string option \<Rightarrow> bool \<times> idempotency_guard" where
  "checkAndRegister g now taskId =
     (case taskId of
        None \<Rightarrow> (True, g)
      | Some i \<Rightarrow>
          if i = [] then (True, g)
          else
            let seen = evict_expired now (ig_seen g) in
            if js_has seen i then (False, g\<lparr>ig_seen := seen\<rparr>)
            else (True, g\<lparr>ig_seen := AList.update i (now + ig_ttl g) seen\<rparr>))"

definition guard_size :: "idempotency_guard \<Rightarrow> nat" where
  "guard_size g = length (ig_seen g)"

definition guard_inv :: "int \<Rightarrow> idempotency_guard \<Rightarrow> bool" where
  "guard_inv ttl g = (seen_inv (ig_seen g) \<and> ig_ttl g = ttl)"

interpretation idem: exact_ttl_guard checkAndRegister "\<lambda>g. seen_held (ig_seen g)"
  "\<lambda>r. the r" "\<lambda>now r. now + ttl" "\<lambda>r. r \<noteq> None \<and> r \<noteq> Some []" "guard_inv ttl" for ttl
  by unfold_locales
     (auto simp: checkAndRegister_def guard_inv_def Let_def has_evict_expired seen_held_evict
        seen_held_set split: option.splits if_splits dest: seen_held_mono)

section \<open>RelayBindTicketReplayCache\<close>

record relay_bind_claims =
  rb_v :: int
  rb_typ :: string
  rb_jti :: string
  rb_iss :: string
  rb_sub :: string
  rb_aud :: string
  rb_iat :: int
  rb_exp :: int

definition consumeRelayBindTicket ::
  "string expiry_map \<Rightarrow> int \<Rightarrow> relay_bind_claims \<Rightarrow> bool \<times> string expiry_map" where
  "consumeRelayBindTicket seen nowSec claims =
     (let seen = evict_expired nowSec seen in
      if js_has seen (rb_jti claims) then (False, seen)
      else (True, AList.update (rb_jti claims) (rb_exp claims) seen))"

interpretation relay_replay: exact_ttl_guard consumeRelayBindTicket seen_held
  rb_jti "\<lambda>_. rb_exp" "\<lambda>_. True" seen_inv
  by unfold_locales
     (auto simp: consumeRelayBindTicket_def Let_def has_evict_expired seen_held_evict seen_held_set
        split: if_splits dest: seen_held_mono)

section \<open>LocalDispatchReplayCache\<close>

definition replay_contains :: "string expiry_map \<Rightarrow> string \<Rightarrow> int \<Rightarrow> bool \<times> string expiry_map" where
  "replay_contains seen jti now =
     (let seen = evict_expired now seen in (js_has seen jti, seen))"

definition replay_remember :: "string expiry_map \<Rightarrow> string \<Rightarrow> int \<Rightarrow> string expiry_map" where
  "replay_remember seen jti expiresAt = AList.update jti expiresAt seen"

text \<open>The use \<open>verifyDispatchTicketV2\<close> makes of it: ask, then remember what was new.\<close>

definition replay_check :: "string expiry_map \<Rightarrow> int \<Rightarrow> string \<times> int \<Rightarrow> bool \<times> string expiry_map" where
  "replay_check seen now r =
     (let (dup, seen) = replay_contains seen (fst r) now in
      if dup then (False, seen) else (True, replay_remember seen (fst r) (snd r)))"

interpretation dispatch_replay: exact_ttl_guard replay_check seen_held
  fst "\<lambda>_. snd" "\<lambda>_. True" seen_inv
  by unfold_locales
     (auto simp: replay_check_def replay_contains_def replay_remember_def Let_def has_evict_expired
        seen_held_evict seen_held_set split: if_splits prod.splits dest: seen_held_mono)

section \<open>Properties\<close>

definition new_idempotency_guard :: "int \<Rightarrow> idempotency_guard" where
  "new_idempotency_guard ttl = \<lparr>ig_seen = [], ig_ttl = ttl\<rparr>"

lemma guard_inv_new: "guard_inv ttl (new_idempotency_guard ttl)"
  by (simp add: guard_inv_def new_idempotency_guard_def seen_inv_def)

lemma seen_held_Nil [simp]: "\<not> seen_held [] t k"
  by (simp add: seen_held_def)

text \<open>
  C8 The duplicate guard of the provider answers exactly as the guard that remembers every
  admitted task for its window and never forgets: whatever the sequence of task ids, with
  or without an id, and whatever the times, as long as the clock does not run backwards.
  So the lazy eviction is not observable, no task id is executed twice within the window,
  and no task is refused without an admitted one in the window before it.
\<close>

theorem idempotency_refines_history:
  assumes "monotone_clock t0 rs"
  shows "run_requests checkAndRegister (new_idempotency_guard ttl) rs =
    history_requests the (\<lambda>now r. now + ttl) (\<lambda>r. r \<noteq> None \<and> r \<noteq> Some []) [] rs"
  by (rule idem.refines_history [OF guard_inv_new assms])
     (simp add: new_idempotency_guard_def)

theorem idempotency_refines_history_witness:
  "run_requests checkAndRegister (new_idempotency_guard 300)
     [(0, Some ''t1''), (10, Some ''t1''), (20, None), (299, Some ''t1''), (300, Some ''t1'')]
   = [True, False, True, False, True]"
proof -
  let ?rs = "[(0, Some ''t1''), (10, Some ''t1''), (20, None), (299, Some ''t1''), (300, Some ''t1'')]
    :: (int \<times> string option) list"
  have "monotone_clock 0 ?rs" by simp
  from idempotency_refines_history [OF this, of 300] show ?thesis by simp
qed

text \<open>
  A relay bind ticket is consumed at most once while it is valid: if a request with some
  ticket id was let through, then no later request with the same id is let through before
  the expiry of the first one, whatever other tickets are consumed in between.
\<close>

lemma relay_ticket_consumed_once:
  assumes "monotone_clock start rs" and "i < j" and "j < length rs"
    and "rb_jti (snd (rs ! i)) = rb_jti (snd (rs ! j))"
    and "run_requests consumeRelayBindTicket [] rs ! i"
    and "fst (rs ! j) < rb_exp (snd (rs ! i))"
  shows "\<not> run_requests consumeRelayBindTicket [] rs ! j"
  by (rule relay_replay.admitted_once [OF _ assms(1-3) _ _ assms(4-6)]) (simp_all add: seen_inv_def)

lemma relay_ticket_consumed_once_example:
  "\<not> run_requests consumeRelayBindTicket []
     [(10, \<lparr>rb_v = 1, rb_typ = ''relay-bind-ticket'', rb_jti = ''a'', rb_iss = ''d'', rb_sub = ''w'', rb_aud = ''*'', rb_iat = 0, rb_exp = 50\<rparr>),
      (20, \<lparr>rb_v = 1, rb_typ = ''relay-bind-ticket'', rb_jti = ''b'', rb_iss = ''d'', rb_sub = ''w'', rb_aud = ''*'', rb_iat = 0, rb_exp = 60\<rparr>),
      (40, \<lparr>rb_v = 1, rb_typ = ''relay-bind-ticket'', rb_jti = ''a'', rb_iss = ''d'', rb_sub = ''w'', rb_aud = ''*'', rb_iat = 0, rb_exp = 90\<rparr>)] ! 2"
  by (rule relay_ticket_consumed_once [where i = 0 and start = 0])
     (simp_all add: consumeRelayBindTicket_def evict_expired_def js_evict_def js_has_def)

end
