(* ===== verification/Gate.thy ===== *)
theory Gate imports Prelude Complex_Main begin

text \<open>
  Admission by slots: \<open>src/concurrency.ts\<close> (\<open>ConcurrencyGate\<close>),
  \<open>src/cip_policy.ts\<close> (\<open>CooperativeInferencePolicy\<close>) and \<open>src/scheduler.ts\<close> (the
  quality-of-service classes). The two slot counters are interpretations of one locale,
  whose theorem counts the holders over any disciplined sequence of calls.
\<close>

section \<open>The contract of a slot counter\<close>

datatype slot_event = Acquire | Release

locale slot_counter =
  fixes try_acquire :: "'g \<Rightarrow> 'g option"
    and give_back :: "'g \<Rightarrow> 'g"
    and used :: "'g \<Rightarrow> int"
    and cap :: "'g \<Rightarrow> int"
  assumes acquire_None: "try_acquire g = None \<longleftrightarrow> cap g \<le> used g"
    and acquire_used: "try_acquire g = Some g' \<Longrightarrow> used g' = used g + 1"
    and acquire_cap: "try_acquire g = Some g' \<Longrightarrow> cap g' = cap g"
    and give_back_used: "used (give_back g) = (if 0 < used g then used g - 1 else used g)"
    and give_back_cap: "cap (give_back g) = cap g"
begin

text \<open>
  A run of the callers: \<open>n\<close> is the number of slots they hold. A caller gives a slot
  back only when it holds one (the \<open>finally\<close> of the code), and a refused caller holds
  nothing.
\<close>

fun holders_run :: "'g \<Rightarrow> nat \<Rightarrow> slot_event list \<Rightarrow> ('g \<times> nat) option" where
  "holders_run g n [] = Some (g, n)"
| "holders_run g n (Acquire # es) =
     (case try_acquire g of None \<Rightarrow> holders_run g n es | Some g' \<Rightarrow> holders_run g' (Suc n) es)"
| "holders_run g n (Release # es) =
     (if n = 0 then None else holders_run (give_back g) (n - 1) es)"

lemma holders_run_counts:
  "used g = int n \<Longrightarrow> used g \<le> cap g \<Longrightarrow> holders_run g n es = Some (g', n') \<Longrightarrow>
   used g' = int n' \<and> int n' \<le> cap g \<and> cap g' = cap g"
proof (induction g n es rule: holders_run.induct)
  case (2 g n es)
  show ?case
  proof (cases "try_acquire g")
    case None
    with 2 show ?thesis by simp
  next
    case (Some h)
    then have "used g < cap g" by (metis acquire_None not_le option.distinct(1))
    with 2 Some show ?thesis using acquire_used [OF Some] acquire_cap [OF Some] by simp
  qed
next
  case (3 g n es)
  then show ?case by (auto simp: give_back_used give_back_cap split: if_splits)
qed simp

lemma refused_iff_full:
  "used g = int n \<Longrightarrow> try_acquire g = None \<longleftrightarrow> cap g \<le> int n"
  by (simp add: acquire_None)

end

section \<open>ConcurrencyGate\<close>

record concurrency_gate =
  cg_max :: int
  cg_active :: int

datatype gate_error = MaxConcurrentTooSmall int | CapacityExceeded int

definition new_concurrency_gate :: "int \<Rightarrow> gate_error + concurrency_gate" where
  "new_concurrency_gate maxConcurrent =
     (if maxConcurrent < 1 then Inl (MaxConcurrentTooSmall maxConcurrent)
      else Inr \<lparr>cg_max = maxConcurrent, cg_active = 0\<rparr>)"

definition gate_acquire :: "concurrency_gate \<Rightarrow> gate_error + concurrency_gate" where
  "gate_acquire g =
     (if cg_active g \<ge> cg_max g then Inl (CapacityExceeded (cg_max g))
      else Inr (g\<lparr>cg_active := cg_active g + 1\<rparr>))"

definition gate_release :: "concurrency_gate \<Rightarrow> concurrency_gate" where
  "gate_release g = (if cg_active g > 0 then g\<lparr>cg_active := cg_active g - 1\<rparr> else g)"

text \<open>
  \<open>run(fn)\<close>: the slot is released whether \<open>fn\<close> returns or throws; \<open>fn\<close> gets the gate with
  the slot taken and returns the gate its own work leaves (other callers may come and go
  while it is awaited) with a result or an error.
\<close>

definition gate_run ::
  "concurrency_gate \<Rightarrow> (concurrency_gate \<Rightarrow> concurrency_gate \<times> ('e + 'a)) \<Rightarrow>
   concurrency_gate \<times> ((gate_error + 'e) + 'a)" where
  "gate_run g fn =
     (case gate_acquire g of
        Inl e \<Rightarrow> (g, Inl (Inl e))
      | Inr g1 \<Rightarrow>
          let (g2, res) = fn g1 in
          (gate_release g2, case res of Inl e \<Rightarrow> Inl (Inr e) | Inr a \<Rightarrow> Inr a))"

definition activeJobs :: "concurrency_gate \<Rightarrow> int" where
  "activeJobs g = cg_active g"

definition gate_load :: "concurrency_gate \<Rightarrow> rat" where
  "gate_load g = (if cg_max g = 0 then 1 else of_int (cg_active g) / of_int (cg_max g))"

definition gate_inv :: "concurrency_gate \<Rightarrow> bool" where
  "gate_inv g = (0 \<le> cg_active g \<and> cg_active g \<le> cg_max g \<and> 1 \<le> cg_max g)"

definition gate_try :: "concurrency_gate \<Rightarrow> concurrency_gate option" where
  "gate_try g = (case gate_acquire g of Inl _ \<Rightarrow> None | Inr g' \<Rightarrow> Some g')"

interpretation task_gate: slot_counter gate_try gate_release cg_active cg_max
  by unfold_locales (auto simp: gate_try_def gate_acquire_def gate_release_def split: if_splits)

lemma gate_inv_new [inv_intros]: "new_concurrency_gate m = Inr g \<Longrightarrow> gate_inv g"
  by (auto simp: new_concurrency_gate_def gate_inv_def split: if_splits)

lemma gate_inv_acquire [inv_intros]: "gate_inv g \<Longrightarrow> gate_acquire g = Inr g' \<Longrightarrow> gate_inv g'"
  by (auto simp: gate_acquire_def gate_inv_def split: if_splits)

lemma gate_inv_release [inv_intros]: "gate_inv g \<Longrightarrow> gate_inv (gate_release g)"
  by (auto simp: gate_release_def gate_inv_def)

section \<open>CooperativeInferencePolicy\<close>

record cip_policy =
  cp_enabled :: bool
  cp_allowCoordinator :: bool
  cp_allowWorker :: bool
  cp_maxReplicas :: int
  cp_maxWorkerTimeoutMs :: int
  cp_maxConcurrentRemote :: int
  cp_allowToolExecution :: bool
  cp_inFlight :: int

record cip_policy_options =
  co_enabled :: "bool option"
  co_allowCoordinator :: "bool option"
  co_allowWorker :: "bool option"
  co_maxReplicas :: "int option"
  co_maxWorkerTimeoutMs :: "int option"
  co_maxConcurrentRemote :: "int option"
  co_allowToolExecution :: "bool option"

abbreviation or_default :: "'a option \<Rightarrow> 'a \<Rightarrow> 'a" where
  \<comment> \<open>\<open>x ?? d\<close>\<close>
  "or_default x d \<equiv> (case x of None \<Rightarrow> d | Some a \<Rightarrow> a)"

definition new_cip_policy :: "cip_policy_options \<Rightarrow> cip_policy" where
  "new_cip_policy opts =
     \<lparr>cp_enabled = or_default (co_enabled opts) False,
      cp_allowCoordinator = or_default (co_allowCoordinator opts) False,
      cp_allowWorker = or_default (co_allowWorker opts) False,
      cp_maxReplicas = max 1 (or_default (co_maxReplicas opts) 3),
      cp_maxWorkerTimeoutMs = max 1 (min 60000 (or_default (co_maxWorkerTimeoutMs opts) 30000)),
      cp_maxConcurrentRemote = max 1 (or_default (co_maxConcurrentRemote opts) 2),
      cp_allowToolExecution = or_default (co_allowToolExecution opts) False,
      cp_inFlight = 0\<rparr>"

text \<open>\<open>intent.split(":")\<close>: the parts between the separators, one more than separators.\<close>

fun split_on :: "char \<Rightarrow> string \<Rightarrow> string list" where
  "split_on sep [] = [[]]"
| "split_on sep (c # cs) =
     (if c = sep then [] # split_on sep cs
      else (case split_on sep cs of [] \<Rightarrow> [[c]] | p # ps \<Rightarrow> (c # p) # ps))"

definition permitsIntent :: "cip_policy \<Rightarrow> string \<Rightarrow> bool" where
  "permitsIntent p intent =
     (let parts = split_on (CHR '':'') intent;
          domain = (if 3 < length parts then parts ! 3 else [])
      in cp_allowToolExecution p \<or> domain \<noteq> ''tool'')"

definition checkCoordinator :: "cip_policy \<Rightarrow> bool" where
  "checkCoordinator p = (cp_enabled p \<and> cp_allowCoordinator p)"

definition checkWorker :: "cip_policy \<Rightarrow> bool" where
  "checkWorker p = (cp_enabled p \<and> cp_allowWorker p)"

definition tryAcquireCipSlot :: "cip_policy \<Rightarrow> bool \<times> cip_policy" where
  "tryAcquireCipSlot p =
     (if cp_inFlight p \<ge> cp_maxConcurrentRemote p then (False, p)
      else (True, p\<lparr>cp_inFlight := cp_inFlight p + 1\<rparr>))"

definition releaseCipSlot :: "cip_policy \<Rightarrow> cip_policy" where
  "releaseCipSlot p = (if cp_inFlight p > 0 then p\<lparr>cp_inFlight := cp_inFlight p - 1\<rparr> else p)"

definition asRegisterPolicyBlock :: "cip_policy \<Rightarrow> (string \<times> bool) list" where
  "asRegisterPolicyBlock p =
     (if \<not> cp_enabled p then []
      else [(''allow_remote_inference'', cp_allowWorker p),
            (''allow_tool_execution'', cp_allowToolExecution p)])"

definition cip_try :: "cip_policy \<Rightarrow> cip_policy option" where
  "cip_try p = (let (ok, p') = tryAcquireCipSlot p in if ok then Some p' else None)"

text \<open>The module's policy, replaced as a whole: the slots in use are forgotten with it.\<close>

definition configureCipPolicy :: "cip_policy_options \<Rightarrow> cip_policy \<Rightarrow> cip_policy \<times> cip_policy" where
  "configureCipPolicy opts old = (let new = new_cip_policy opts in (new, new))"

interpretation cip_slots: slot_counter cip_try releaseCipSlot cp_inFlight cp_maxConcurrentRemote
  by unfold_locales
     (auto simp: cip_try_def tryAcquireCipSlot_def releaseCipSlot_def split: if_splits)

lemma new_cip_policy_bounds:
  "1 \<le> cp_maxReplicas (new_cip_policy o')"
  "1 \<le> cp_maxWorkerTimeoutMs (new_cip_policy o')"
  "cp_maxWorkerTimeoutMs (new_cip_policy o') \<le> 60000"
  "1 \<le> cp_maxConcurrentRemote (new_cip_policy o')"
  by (simp_all add: new_cip_policy_def)

lemma split_on_not_Nil [simp]: "split_on sep s \<noteq> []"
  by (induction s) (auto split: list.splits)

lemma split_on_append:
  "sep \<notin> set xs \<Longrightarrow> split_on sep (xs @ sep # ys) = xs # split_on sep ys"
  by (induction xs) auto

lemma split_on_single: "sep \<notin> set xs \<Longrightarrow> split_on sep xs = [xs]"
  by (induction xs) auto

section \<open>Quality of service\<close>

definition QOS_PRIORITY :: "(string \<times> nat) list" where
  "QOS_PRIORITY = [(''realtime'', 0), (''interactive'', 1), (''batch'', 2),
     (''best_effort'', 3), (''best-effort'', 3)]"

definition QUEUE_WAIT_MS :: int where
  "QUEUE_WAIT_MS = 2000"

definition qosPriority :: "string option \<Rightarrow> nat" where
  "qosPriority qos =
     (case qos of None \<Rightarrow> 3 | Some q \<Rightarrow> or_default (map_of QOS_PRIORITY q) 3)"

definition isQueueEligible :: "string option \<Rightarrow> bool" where
  "isQueueEligible qos =
     (case qos of None \<Rightarrow> False | Some q \<Rightarrow> q \<in> set [''realtime'', ''interactive''])"

lemma queue_eligible_iff_priority: "isQueueEligible qos \<longleftrightarrow> qosPriority qos \<le> 1"
  by (auto simp: isQueueEligible_def qosPriority_def QOS_PRIORITY_def split: option.splits)

section \<open>Properties\<close>

text \<open>
  C9 The concurrency gate counts the work in flight exactly: however callers acquire, are
  refused and give back the slots they hold, \<open>activeJobs\<close> is the number of holders, it
  never exceeds the configured maximum, the reported load is a fraction between zero and
  one, and the next caller is refused exactly when the gate is full.
\<close>

theorem gate_counts_holders:
  assumes "new_concurrency_gate m = Inr g"
    and "task_gate.holders_run g 0 events = Some (g', n)"
  shows "activeJobs g' = int n \<and> int n \<le> m \<and> 0 \<le> gate_load g' \<and> gate_load g' \<le> 1 \<and>
    ((\<exists>e. gate_acquire g' = Inl e) \<longleftrightarrow> int n = m)"
proof -
  have g: "cg_active g = 0" "cg_max g = m" "1 \<le> m"
    using assms(1) by (auto simp: new_concurrency_gate_def split: if_splits)
  then have "cg_active g' = int n \<and> int n \<le> cg_max g \<and> cg_max g' = cg_max g"
    using task_gate.holders_run_counts [OF _ _ assms(2)] by simp
  then show ?thesis
    using g by (auto simp: activeJobs_def gate_load_def gate_acquire_def divide_le_eq split: if_splits)
qed

theorem gate_counts_holders_witness:
  "activeJobs \<lparr>cg_max = 2, cg_active = 1\<rparr> = int 1"
proof -
  let ?g = "\<lparr>cg_max = 2, cg_active = 0\<rparr>"
  have "new_concurrency_gate 2 = Inr ?g" by (simp add: new_concurrency_gate_def)
  moreover have "task_gate.holders_run ?g 0 [Acquire, Acquire, Acquire, Release] =
      Some (\<lparr>cg_max = 2, cg_active = 1\<rparr>, 1)"
    by (simp add: gate_try_def gate_acquire_def gate_release_def)
  ultimately show ?thesis by (rule gate_counts_holders [THEN conjunct1])
qed

text \<open>
  With the safe defaults a provider refuses every intent of the tool domain, whatever
  follows the domain segment, and lets every other well-formed intent through.
\<close>

lemma tool_intents_refused:
  assumes "co_allowToolExecution opts = None"
    and "list_all (\<lambda>p. CHR '':'' \<notin> set p) [a, b, c, domain]"
  shows "permitsIntent (new_cip_policy opts)
      (a @ CHR '':'' # b @ CHR '':'' # c @ CHR '':'' # domain @ CHR '':'' # rest)
    \<longleftrightarrow> domain \<noteq> ''tool''"
  using assms by (simp add: permitsIntent_def new_cip_policy_def split_on_append)

lemma tool_shell_refused:
  "\<not> permitsIntent (new_cip_policy
      \<lparr>co_enabled = Some True, co_allowCoordinator = None, co_allowWorker = Some True,
       co_maxReplicas = None, co_maxWorkerTimeoutMs = None, co_maxConcurrentRemote = None,
       co_allowToolExecution = None\<rparr>) ''urn:iicp:intent:tool:shell:v1''"
  using tool_intents_refused [of "\<lparr>co_enabled = Some True, co_allowCoordinator = None,
       co_allowWorker = Some True, co_maxReplicas = None, co_maxWorkerTimeoutMs = None,
       co_maxConcurrentRemote = None, co_allowToolExecution = None\<rparr>" "''urn''" "''iicp''" "''intent''"
       "''tool''" "''shell:v1''"] by simp

end
