(* ===== verification/Availability.thy ===== *)
theory Availability imports Prelude Complex_Main begin

text \<open>
  Availability windows: \<open>src/availability.ts\<close>. The code compares times of day as
  strings \<open>"HH:MM"\<close>; the theory shows that the comparison is membership in a circular
  interval of minutes, so that a window that spans midnight is handled like any other.
  A share is a double. The product \<open>baseMax * share\<close> is rounded: the rounding \<open>rnd\<close> is
  a parameter of \<open>effectiveMaxConcurrent\<close>, and the bound below asks of it only that it
  is monotone and exact on the bounds themselves, as IEEE rounding of a product is.
\<close>

record window =
  w_start :: string
  w_end :: string
  w_share :: rat

text \<open>\<open>hhmm(d)\<close>: hours and minutes of the local time, each padded to two digits.\<close>

definition digit_char :: "nat \<Rightarrow> char" where
  "digit_char d = char_of (48 + d)"

definition pad2 :: "nat \<Rightarrow> string" where
  "pad2 n = [digit_char (n div 10), digit_char (n mod 10)]"

definition hhmm :: "nat \<Rightarrow> nat \<Rightarrow> string" where
  "hhmm h m = pad2 h @ '':'' @ pad2 m"

fun first_share :: "string \<Rightarrow> window list \<Rightarrow> rat option" where
  "first_share current [] = None"
| "first_share current (w # ws) =
     (if w_start w \<le> w_end w then
        if w_start w \<le> current \<and> current \<le> w_end w then Some (w_share w) else first_share current ws
      else
        if current \<ge> w_start w \<or> current \<le> w_end w then Some (w_share w) else first_share current ws)"

definition currentShare :: "window list \<Rightarrow> string \<Rightarrow> rat" where
  "currentShare windows current =
     (if windows = [] then 1
      else case first_share current windows of Some s \<Rightarrow> s | None \<Rightarrow> 1 / 2)"

definition effectiveMaxConcurrent :: "(rat \<Rightarrow> rat) \<Rightarrow> window list \<Rightarrow> int \<Rightarrow> string \<Rightarrow> int" where
  "effectiveMaxConcurrent rnd windows baseMax current =
     (if baseMax \<le> 0 then 0
      else let share = currentShare windows current in
        if share \<le> 0 then 0
        else max 1 \<lfloor>rnd (of_int baseMax * share)\<rfloor>)"

definition isWithinWindow :: "window list \<Rightarrow> string \<Rightarrow> bool" where
  "isWithinWindow windows current =
     (if windows = [] then True else currentShare windows current > 0)"

section \<open>Times of day as minutes\<close>

lemma digit_char_less: "a < 10 \<Longrightarrow> b < 10 \<Longrightarrow> digit_char a < digit_char b \<longleftrightarrow> a < b"
  by (simp add: digit_char_def less_char_def)

lemma digit_char_eq:
  assumes "a < 10" and "b < 10"
  shows "digit_char a = digit_char b \<longleftrightarrow> a = b"
proof
  assume "digit_char a = digit_char b"
  then have "\<not> a < b" and "\<not> b < a"
    using digit_char_less assms by (metis less_irrefl)+
  then show "a = b" by simp
qed simp

lemma digit_char_le: "a < 10 \<Longrightarrow> b < 10 \<Longrightarrow> digit_char a \<le> digit_char b \<longleftrightarrow> a \<le> b"
  by (metis digit_char_less linorder_not_less)

lemma two_digits:
  "(c::nat) < 10 \<Longrightarrow> d < 10 \<Longrightarrow> 10 * a + c < 10 * b + d \<longleftrightarrow> a < b \<or> a = b \<and> c < d"
  "(c::nat) < 10 \<Longrightarrow> d < 10 \<Longrightarrow> 10 * a + c = 10 * b + d \<longleftrightarrow> a = b \<and> c = d"
  by arith+

lemma digits_less:
  "(h::nat) < h' \<longleftrightarrow> h div 10 < h' div 10 \<or> h div 10 = h' div 10 \<and> h mod 10 < h' mod 10"
  using two_digits(1) [of "h mod 10" "h' mod 10" "h div 10" "h' div 10"] by simp

lemma digits_eq: "(h::nat) = h' \<longleftrightarrow> h div 10 = h' div 10 \<and> h mod 10 = h' mod 10"
  using two_digits(2) [of "h mod 10" "h' mod 10" "h div 10" "h' div 10"] by simp

lemma pad2_less:
  assumes "h < 100" and "h' < 100"
  shows "pad2 h @ xs \<le> pad2 h' @ ys \<longleftrightarrow> h < h' \<or> h = h' \<and> xs \<le> ys"
proof -
  have d: "h div 10 < 10" "h' div 10 < 10" using assms by auto
  have "pad2 h @ xs \<le> pad2 h' @ ys \<longleftrightarrow>
    h div 10 < h' div 10 \<or> h div 10 = h' div 10 \<and>
      (h mod 10 < h' mod 10 \<or> h mod 10 = h' mod 10 \<and> xs \<le> ys)"
    using d by (simp add: pad2_def digit_char_less digit_char_eq)
  then show ?thesis
    using digits_less [of h h'] digits_eq [of h h'] by blast
qed

lemma hhmm_le:
  assumes "h < 24" "m < 60" "h' < 24" "m' < 60"
  shows "hhmm h m \<le> hhmm h' m' \<longleftrightarrow> h * 60 + m \<le> h' * 60 + m'"
proof -
  have "pad2 m \<le> pad2 m' \<longleftrightarrow> m \<le> m'"
    using pad2_less [of m m' "[]" "[]"] assms by auto
  then have "hhmm h m \<le> hhmm h' m' \<longleftrightarrow> h < h' \<or> h = h' \<and> m \<le> m'"
    using assms by (simp add: hhmm_def pad2_less)
  also have "\<dots> \<longleftrightarrow> h * 60 + m \<le> h' * 60 + m'"
    using assms by auto
  finally show ?thesis .
qed

text \<open>Minute \<open>t\<close> of the day, as the code writes it.\<close>

definition time_string :: "nat \<Rightarrow> string" where
  "time_string t = hhmm (t div 60) (t mod 60)"

lemma time_string_le:
  "t < 1440 \<Longrightarrow> u < 1440 \<Longrightarrow> time_string t \<le> time_string u \<longleftrightarrow> t \<le> u"
  using hhmm_le [of "t div 60" "t mod 60" "u div 60" "u mod 60"] by (simp add: time_string_def)

definition circular_between :: "nat \<Rightarrow> nat \<Rightarrow> nat \<Rightarrow> bool" where
  "circular_between s e t = ((t + 1440 - s) mod 1440 \<le> (e + 1440 - s) mod 1440)"

lemma shift_mod:
  "t < (1440::nat) \<Longrightarrow> s < 1440 \<Longrightarrow> (t + 1440 - s) mod 1440 = (if s \<le> t then t - s else t + 1440 - s)"
  by (auto simp: mod_if)

lemma window_is_circular:
  assumes "s < 1440" "e < 1440" "t < 1440"
  shows "(if time_string s \<le> time_string e
          then time_string s \<le> time_string t \<and> time_string t \<le> time_string e
          else time_string s \<le> time_string t \<or> time_string t \<le> time_string e)
     \<longleftrightarrow> circular_between s e t"
  using assms by (auto simp: time_string_le circular_between_def shift_mod)

fun minute_windows :: "(nat \<times> nat \<times> rat) list \<Rightarrow> window list" where
  "minute_windows [] = []"
| "minute_windows ((s, e, sh) # ws) =
     \<lparr>w_start = time_string s, w_end = time_string e, w_share = sh\<rparr> # minute_windows ws"

fun circular_share :: "nat \<Rightarrow> (nat \<times> nat \<times> rat) list \<Rightarrow> rat option" where
  "circular_share t [] = None"
| "circular_share t ((s, e, sh) # ws) = (if circular_between s e t then Some sh else circular_share t ws)"

definition in_day :: "nat \<times> nat \<times> rat \<Rightarrow> bool" where
  "in_day w = (fst w < 1440 \<and> fst (snd w) < 1440)"

lemma first_share_circular:
  "t < 1440 \<Longrightarrow> list_all in_day ws \<Longrightarrow>
   first_share (time_string t) (minute_windows ws) = circular_share t ws"
proof (induction ws)
  case (Cons w ws)
  obtain s e sh where w: "w = (s, e, sh)" by (cases w)
  show ?case
    using Cons window_is_circular [of s e t] w by (auto simp: in_day_def split: if_splits)
qed simp

section \<open>Properties\<close>

text \<open>
  For well-formed windows the code's comparison of \<open>"HH:MM"\<close> strings selects the share
  of the first window whose circular interval of minutes contains the current minute,
  windows that span midnight included; with no window the share is full, outside all
  windows it is one half.
\<close>

lemma currentShare_circular:
  assumes "t < 1440" and "list_all in_day ws"
  shows "currentShare (minute_windows ws) (time_string t) =
    (if ws = [] then 1 else case circular_share t ws of Some s \<Rightarrow> s | None \<Rightarrow> 1 / 2)"
proof -
  have "minute_windows ws = [] \<longleftrightarrow> ws = []" by (cases ws) auto
  then show ?thesis
    by (simp add: currentShare_def first_share_circular [OF assms])
qed

lemma currentShare_circular_example:
  "currentShare (minute_windows [(1320, 360, 1), (540, 1020, 1 / 4)]) (time_string 90) = 1"
  by (subst currentShare_circular) (simp_all add: in_day_def circular_between_def)

text \<open>
  The effective capacity stays between zero and the configured maximum when every share is
  a fraction, is zero exactly when the base is disabled or the share is closed, and is at
  least one otherwise: a share, however small, never starves an open window.
\<close>

lemma effectiveMaxConcurrent_bounds:
  assumes mono: "\<And>x y. x \<le> y \<Longrightarrow> rnd x \<le> rnd y" and exact: "rnd (of_int base) = of_int base"
    and "list_all (\<lambda>w. w_share w \<le> 1) windows" and "0 \<le> base"
  shows "0 \<le> effectiveMaxConcurrent rnd windows base t \<and>
    effectiveMaxConcurrent rnd windows base t \<le> base \<and>
    (effectiveMaxConcurrent rnd windows base t = 0 \<longleftrightarrow> base = 0 \<or> currentShare windows t \<le> 0)"
proof -
  have first: "first_share t ws = Some s \<Longrightarrow> list_all (\<lambda>w. w_share w \<le> 1) ws \<Longrightarrow> s \<le> 1" for s ws
    by (induction ws) (auto split: if_splits)
  then have le1: "currentShare windows t \<le> 1"
    using assms(3) by (auto simp: currentShare_def split: option.splits)
  have "rnd (of_int base * currentShare windows t) \<le> rnd (of_int base)"
    using le1 assms(4) by (intro mono) (simp add: mult_left_le)
  then have "\<lfloor>rnd (of_int base * currentShare windows t)\<rfloor> \<le> base"
    by (simp add: exact floor_le_iff)
  then show ?thesis
    using assms(4) by (auto simp: effectiveMaxConcurrent_def Let_def)
qed

lemma effectiveMaxConcurrent_small_share:
  "effectiveMaxConcurrent id [\<lparr>w_start = ''09:00'', w_end = ''17:00'', w_share = 1 / 10\<rparr>] 4 ''12:00'' \<le> 4"
  using effectiveMaxConcurrent_bounds [of id 4
      "[\<lparr>w_start = ''09:00'', w_end = ''17:00'', w_share = 1 / 10\<rparr>]" "''12:00''"] by simp

end
