(* ===== verification/Framing.thy ===== *)
theory Framing imports Prelude "HOL-Library.Word" begin

text \<open>
  The frames of the native transport: \<open>src/iicp_tcp.ts\<close> (constants,
  \<open>stableTaskMessageTypeError\<close>, \<open>MsgType\<close>, \<open>encodeFrame\<close>, \<open>decodeFrame\<close>). A \<open>Buffer\<close> is a
  list of bytes. The header is twelve bytes: magic (4), version, type, flags, reserved and
  the length of the payload as an unsigned 32-bit big-endian number.
\<close>

type_synonym byte = "8 word"

section \<open>Constants\<close>

definition IICP_MAGIC :: "byte list" where
  "IICP_MAGIC = [0x49, 0x49, 0x43, 0x50]"

definition FRAMING_VERSION :: int where
  "FRAMING_VERSION = 1"

definition FRAME_HEADER_LEN :: nat where
  "FRAME_HEADER_LEN = 12"

definition MAX_FRAME_PAYLOAD :: nat where
  "MAX_FRAME_PAYLOAD = 16 * 1024 * 1024"

definition STABLE_TASK_MESSAGE_TYPES :: "int list" where
  "STABLE_TASK_MESSAGE_TYPES =
     [0x01, 0x02, 0x03, 0x04, 0x05, 0x06, 0x07, 0x08, 0x09, 0x0a, 0x0d, 0x0e]"

definition stableTaskMessageTypeError :: "int \<Rightarrow> string option" where
  "stableTaskMessageTypeError msgType =
     (if msgType \<in> set STABLE_TASK_MESSAGE_TYPES then None
      else if msgType = 0x00 \<or> msgType = 0xff then Some ''invalid_type''
      else if msgType = 0x0b \<or> msgType = 0x0c then Some ''conflicted_type''
      else if msgType \<ge> 0xf0 \<and> msgType \<le> 0xfe then Some ''unsupported_extension''
      else Some ''unknown_type'')"

datatype MsgType = INIT | ACK | DISCOVER | SUB_PROTOCOL | CALL | RESPONSE | CLOSE | FEEDBACK
  | PING | PONG | RELAY_BIND | RELAY_ACK

primrec msg_code :: "MsgType \<Rightarrow> int" where
  "msg_code INIT = 0x01"
| "msg_code ACK = 0x02"
| "msg_code DISCOVER = 0x03"
| "msg_code SUB_PROTOCOL = 0x04"
| "msg_code CALL = 0x05"
| "msg_code RESPONSE = 0x06"
| "msg_code CLOSE = 0x07"
| "msg_code FEEDBACK = 0x08"
| "msg_code PING = 0x09"
| "msg_code PONG = 0x0a"
| "msg_code RELAY_BIND = 0x0b"
| "msg_code RELAY_ACK = 0x0c"

section \<open>The 32-bit big-endian length\<close>

text \<open>\<open>writeUInt8\<close> throws on a number that is no byte.\<close>

definition is_uint8 :: "int \<Rightarrow> bool" where
  "is_uint8 n = (0 \<le> n \<and> n \<le> 255)"

definition writeUInt32BE :: "nat \<Rightarrow> byte list" where
  "writeUInt32BE n = [of_nat (n div 2 ^ 24), of_nat (n div 2 ^ 16), of_nat (n div 2 ^ 8), of_nat n]"

fun readUInt32BE :: "byte list \<Rightarrow> nat" where
  "readUInt32BE (a # b # c # d # _) = unat a * 2 ^ 24 + unat b * 2 ^ 16 + unat c * 2 ^ 8 + unat d"
| "readUInt32BE _ = 0"

lemma length_writeUInt32BE [simp]: "length (writeUInt32BE n) = 4"
  by (simp add: writeUInt32BE_def)

lemma byte_less: "unat (x :: byte) < 256"
  using unsigned_less [of x] by simp

lemma div_powers: "(n::nat) div 65536 = n div 256 div 256" "n div 16777216 = n div 256 div 256 div 256"
  by (simp_all add: div_mult2_eq [symmetric])

lemma read_write_UInt32BE:
  assumes "n < 2 ^ 32"
  shows "readUInt32BE (writeUInt32BE n @ rest) = n"
proof -
  let ?n1 = "n div 256" let ?n2 = "?n1 div 256" let ?n3 = "?n2 div 256"
  have "n < 256 * 256 * 256 * 256" using assms by simp
  then have top: "?n3 mod 256 = ?n3"
    by (simp add: less_mult_imp_div_less)
  have "?n3 * 256 + ?n2 mod 256 = ?n2" "?n2 * 256 + ?n1 mod 256 = ?n1" "?n1 * 256 + n mod 256 = n"
    by (simp_all only: div_mult_mod_eq)
  then have "?n3 * 16777216 + ?n2 mod 256 * 65536 + ?n1 mod 256 * 256 + n mod 256 = n"
    by linarith
  then show ?thesis
    using top by (simp add: writeUInt32BE_def unat_of_nat take_bit_eq_mod div_powers)
qed

lemma read_write_UInt32BE' [simp]: "n < 2 ^ 32 \<Longrightarrow> readUInt32BE (writeUInt32BE n) = n"
  using read_write_UInt32BE [of n "[]"] by simp

lemma write_read_UInt32BE: "writeUInt32BE (readUInt32BE [a, b, c, d]) = [a, b, c, d]"
proof -
  note lt = byte_less
  have unat_of: "unat (of_nat m :: byte) = m mod 256" for m
    by (simp add: unat_of_nat take_bit_eq_mod)
  have "(unat a * 2 ^ 24 + unat b * 2 ^ 16 + unat c * 2 ^ 8 + unat d) mod 256 = unat d"
    using lt [of d] by (simp add: mod_add_left_eq [symmetric] mod_mult_right_eq [symmetric])
  moreover have "(65536 * unat a + unat b * 256 + unat c) mod 256 = unat c"
    "(unat a * 256 + unat b) mod 256 = unat b"
    using mod_mult_self3 [of "256 * unat a + unat b" 256 "unat c"] mod_mult_self3 [of "unat a" 256 "unat b"]
      lt [of b] lt [of c] by (simp_all add: algebra_simps)
  moreover have "((unat a * 2 ^ 24 + unat b * 2 ^ 16 + unat c * 2 ^ 8 + unat d) div 2 ^ 24) = unat a"
    "((unat a * 2 ^ 24 + unat b * 2 ^ 16 + unat c * 2 ^ 8 + unat d) div 2 ^ 16) = unat a * 256 + unat b"
    "((unat a * 2 ^ 24 + unat b * 2 ^ 16 + unat c * 2 ^ 8 + unat d) div 2 ^ 8)
       = (unat a * 256 + unat b) * 256 + unat c"
    using lt [of b] lt [of c] lt [of d] by simp_all
  ultimately show ?thesis
    unfolding writeUInt32BE_def readUInt32BE.simps list.inject word_unat_eq_iff unat_of
    using lt [of a] lt [of b] lt [of c] by (simp add: mod_simps)
qed

lemma readUInt32BE_append [simp]:
  "4 \<le> length xs \<Longrightarrow> readUInt32BE (xs @ ys) = readUInt32BE xs"
  by (cases xs rule: readUInt32BE.cases) auto

section \<open>Frames\<close>

record IicpFrame =
  fr_version :: int
  fr_msgType :: int
  fr_flags :: int
  fr_payload :: "byte list"

datatype frame_error =
    PayloadTooLarge nat
  | RangeError int
  | FrameTooShort nat
  | InvalidMagic "byte list"
  | UnsupportedVersion int
  | PayloadTruncated nat nat

definition encodeFrame :: "int \<Rightarrow> byte list \<Rightarrow> int \<Rightarrow> frame_error + byte list" where
  "encodeFrame msgType payload flags =
     (if length payload > MAX_FRAME_PAYLOAD then Inl (PayloadTooLarge (length payload))
      else if \<not> is_uint8 msgType then Inl (RangeError msgType)
      else if \<not> is_uint8 flags then Inl (RangeError flags)
      else Inr (IICP_MAGIC @ [of_int FRAMING_VERSION, of_int msgType, of_int flags, 0] @
                writeUInt32BE (length payload) @ payload))"

definition decodeFrame :: "byte list \<Rightarrow> frame_error + IicpFrame \<times> nat" where
  "decodeFrame data =
     (if length data < FRAME_HEADER_LEN then Inl (FrameTooShort (length data))
      else if take 4 data \<noteq> IICP_MAGIC then Inl (InvalidMagic (take 4 data))
      else let version = uint (data ! 4) in
        if version \<noteq> FRAMING_VERSION then Inl (UnsupportedVersion version)
        else let
            msgType = uint (data ! 5);
            flags = uint (data ! 6);
            payloadLen = readUInt32BE (drop 8 data)
          in if payloadLen > MAX_FRAME_PAYLOAD then Inl (PayloadTooLarge payloadLen)
          else let total = FRAME_HEADER_LEN + payloadLen in
            if length data < total then Inl (PayloadTruncated total (length data))
            else Inr (\<lparr>fr_version = version, fr_msgType = msgType, fr_flags = flags,
                        fr_payload = take payloadLen (drop FRAME_HEADER_LEN data)\<rparr>, total))"

text \<open>A buffer that holds a whole header, by its fields.\<close>

definition header_bytes :: "int \<Rightarrow> int \<Rightarrow> int \<Rightarrow> byte \<Rightarrow> nat \<Rightarrow> byte list" where
  "header_bytes v t f r n = IICP_MAGIC @ [of_int v, of_int t, of_int f, r] @ writeUInt32BE n"

lemma length_header_bytes [simp]: "length (header_bytes v t f r n) = 12"
  by (simp add: header_bytes_def IICP_MAGIC_def)

lemma MAX_FRAME_PAYLOAD_word: "MAX_FRAME_PAYLOAD < 2 ^ 32"
  by (simp add: MAX_FRAME_PAYLOAD_def)

lemma uint_of_byte [simp]: "is_uint8 n \<Longrightarrow> uint (of_int n :: byte) = n"
  by (simp add: is_uint8_def uint_word_of_int take_bit_int_eq_self_iff)

lemma is_uint8_uint [simp]: "is_uint8 (uint (b :: byte))"
  using unsigned_less [of b, where 'a=int] by (simp add: is_uint8_def)

lemma decode_header:
  assumes "is_uint8 v" "is_uint8 t" "is_uint8 f" "n < 2 ^ 32"
  shows "decodeFrame (header_bytes v t f r n @ rest) =
    (if v \<noteq> FRAMING_VERSION then Inl (UnsupportedVersion v)
     else if n > MAX_FRAME_PAYLOAD then Inl (PayloadTooLarge n)
     else if length rest < n then Inl (PayloadTruncated (12 + n) (12 + length rest))
     else Inr (\<lparr>fr_version = v, fr_msgType = t, fr_flags = f, fr_payload = take n rest\<rparr>, 12 + n))"
  using assms
  using read_write_UInt32BE' [of n]
  by (simp add: decodeFrame_def header_bytes_def IICP_MAGIC_def FRAME_HEADER_LEN_def Let_def
      nth_append)

lemma header_cases:
  assumes "12 \<le> length data" and "take 4 data = IICP_MAGIC"
  obtains v t f r n rest where "data = header_bytes v t f r n @ rest"
    "is_uint8 v" "is_uint8 t" "is_uint8 f" "n < 2 ^ 32"
proof -
  obtain a b c d v t f r l1 l2 l3 l4 rest where
    data: "data = [a, b, c, d, v, t, f, r, l1, l2, l3, l4] @ rest"
    using assms(1) by (auto simp: Suc_le_length_iff numeral_eq_Suc)
  have "[a, b, c, d] = IICP_MAGIC" using assms(2) data by simp
  moreover have "readUInt32BE [l1, l2, l3, l4] < 2 ^ 32"
    using byte_less [of l1] byte_less [of l2] byte_less [of l3] byte_less [of l4] by simp
  ultimately show ?thesis
    using data
    by (intro that [of "uint v" "uint t" "uint f" r "readUInt32BE [l1, l2, l3, l4]" rest])
       (simp_all add: header_bytes_def write_read_UInt32BE del: readUInt32BE.simps)
qed

section \<open>Properties\<close>

lemma encodeFrame_header:
  "encodeFrame t p f = Inr bs \<Longrightarrow>
   bs = header_bytes FRAMING_VERSION t f 0 (length p) @ p \<and>
   is_uint8 t \<and> is_uint8 f \<and> length p \<le> MAX_FRAME_PAYLOAD"
  by (simp add: encodeFrame_def header_bytes_def split: if_splits)

lemma decode_success_header:
  assumes "decodeFrame data = Inr (fr, n)"
  obtains r rest where "data = header_bytes FRAMING_VERSION (fr_msgType fr) (fr_flags fr) r
      (length (fr_payload fr)) @ fr_payload fr @ rest"
    "fr_version fr = FRAMING_VERSION" "n = 12 + length (fr_payload fr)"
    "is_uint8 (fr_msgType fr)" "is_uint8 (fr_flags fr)" "length (fr_payload fr) \<le> MAX_FRAME_PAYLOAD"
proof -
  have "12 \<le> length data" "take 4 data = IICP_MAGIC"
    using assms by (auto simp: decodeFrame_def FRAME_HEADER_LEN_def split: if_splits)
  then obtain v t f r m rest where data: "data = header_bytes v t f r m @ rest"
    and b: "is_uint8 v" "is_uint8 t" "is_uint8 f" "m < 2 ^ 32"
    by (rule header_cases)
  have "v = FRAMING_VERSION" "m \<le> MAX_FRAME_PAYLOAD" "m \<le> length rest" "n = 12 + m"
    "fr = \<lparr>fr_version = v, fr_msgType = t, fr_flags = f, fr_payload = take m rest\<rparr>"
    using assms unfolding data decode_header [OF b] by (auto split: if_splits)
  then show ?thesis
    using data b by (intro that [of r "drop m rest"]) simp_all
qed

lemma decode_encodeFrame:
  assumes "encodeFrame t p f = Inr bs"
  shows "decodeFrame (bs @ rest) =
    Inr (\<lparr>fr_version = FRAMING_VERSION, fr_msgType = t, fr_flags = f, fr_payload = p\<rparr>, length bs)"
proof -
  have bs: "bs = header_bytes FRAMING_VERSION t f 0 (length p) @ p"
    and b: "is_uint8 t" "is_uint8 f" "length p \<le> MAX_FRAME_PAYLOAD"
    using encodeFrame_header [OF assms] by simp_all
  moreover have "length p < 2 ^ 32" using b MAX_FRAME_PAYLOAD_word by linarith
  moreover have "is_uint8 FRAMING_VERSION" by (simp add: is_uint8_def FRAMING_VERSION_def)
  ultimately show ?thesis
    using decode_header [of FRAMING_VERSION t f "length p" 0 "p @ rest"] by simp
qed

text \<open>
  C1 Encoding and decoding are inverse: an encoded frame decodes, whatever follows it in the
  buffer, to the type, flags and payload it was built from, and exactly its own bytes are
  consumed, so frames written back to back are read one after the other.
\<close>

theorem frame_roundtrip:
  assumes "encodeFrame t p f = Inr bs"
  shows "decodeFrame (bs @ rest) =
    Inr (\<lparr>fr_version = FRAMING_VERSION, fr_msgType = t, fr_flags = f, fr_payload = p\<rparr>, length bs)"
  by (rule decode_encodeFrame [OF assms])

theorem frame_roundtrip_witness:
  "\<exists>bs. encodeFrame 9 [1, 2, 3] 0 = Inr bs \<and> length bs = 15 \<and>
     decodeFrame (bs @ [0x49]) =
       Inr (\<lparr>fr_version = FRAMING_VERSION, fr_msgType = 9, fr_flags = 0, fr_payload = [1, 2, 3]\<rparr>, length bs)"
proof -
  obtain bs where bs: "encodeFrame 9 [1, 2, 3] 0 = Inr bs"
    by (simp add: encodeFrame_def MAX_FRAME_PAYLOAD_def is_uint8_def)
  moreover have "length bs = 15" using encodeFrame_header [OF bs] by simp
  ultimately show ?thesis using frame_roundtrip [OF bs, of "[0x49]"] by simp
qed

text \<open>
  Rejection is final and waiting is not: once a buffer decodes to an error that is not
  for want of bytes, no continuation of the stream changes the verdict; and a buffer that
  was refused for want of bytes after its header announces exactly how many are missing:
  with that many more bytes, whatever they are, it decodes.
\<close>

lemma decode_errors_are_final:
  assumes "decodeFrame data = Inl e"
  shows "case e of
      FrameTooShort n \<Rightarrow> n = length data \<and> n < FRAME_HEADER_LEN
    | PayloadTruncated need got \<Rightarrow>
        got = length data \<and> got < need \<and> need \<le> FRAME_HEADER_LEN + MAX_FRAME_PAYLOAD \<and>
        (\<forall>more. (\<exists>fr. decodeFrame (data @ more) = Inr (fr, need)) \<longleftrightarrow> need \<le> got + length more)
    | _ \<Rightarrow> \<forall>more. decodeFrame (data @ more) = Inl e"
proof (cases "length data < 12 \<or> take 4 data \<noteq> IICP_MAGIC")
  case True
  then show ?thesis
    using assms by (auto simp: decodeFrame_def FRAME_HEADER_LEN_def split: if_splits)
next
  case False
  then obtain v t f r n rest where data: "data = header_bytes v t f r n @ rest"
    and b: "is_uint8 v" "is_uint8 t" "is_uint8 f" "n < 2 ^ 32"
    using header_cases [of data] by (metis not_less)
  have dec: "decodeFrame (header_bytes v t f r n @ xs) =
    (if v \<noteq> FRAMING_VERSION then Inl (UnsupportedVersion v)
     else if n > MAX_FRAME_PAYLOAD then Inl (PayloadTooLarge n)
     else if length xs < n then Inl (PayloadTruncated (12 + n) (12 + length xs))
     else Inr (\<lparr>fr_version = v, fr_msgType = t, fr_flags = f, fr_payload = take n xs\<rparr>, 12 + n))" for xs
    by (rule decode_header [OF b])
  show ?thesis
    using assms unfolding data append_assoc dec
    by (auto simp: FRAME_HEADER_LEN_def split: if_splits)
qed

lemma decode_errors_are_final_example:
  "\<forall>more. decodeFrame ([0x48, 0x54, 0x54, 0x50, 0, 0, 0, 0, 0, 0, 0, 0] @ more)
     = Inl (InvalidMagic [0x48, 0x54, 0x54, 0x50])"
proof -
  have "decodeFrame [0x48, 0x54, 0x54, 0x50, 0, 0, 0, 0, 0, 0, 0, 0]
      = Inl (InvalidMagic [0x48, 0x54, 0x54, 0x50])"
    by (simp add: decodeFrame_def FRAME_HEADER_LEN_def IICP_MAGIC_def)
  from decode_errors_are_final [OF this] show ?thesis by simp
qed

end
