(* ===== verification/FrameStream.thy ===== *)
theory FrameStream imports Framing begin

text \<open>
  Reading frames from a socket. TCP delivers the bytes in chunks of any size; every reader of
  the program appends a chunk to its buffer and takes whole frames off the front. Modelled:
  the connection loop of the server and the client's \<open>_readFrame\<close> (\<open>src/iicp_tcp.ts\<close>), the
  worker's \<open>readFrame\<close> (\<open>src/relay_worker_client.ts\<close>) and the frame loop of the relay's
  accept server (\<open>src/relay_session.ts\<close>). They are interpretations of one locale, which
  shows that the frames read do not depend on how the bytes were cut into chunks.
\<close>

section \<open>The contract of an incremental reader\<close>

datatype ('s, 'e) read_step = Wait | Stop 'e 's | Emit 'e 's nat

datatype ('s, 'b) reader_state = Reading 's "'b list" | Stopped 's

locale stream_reader =
  fixes step :: "'s \<Rightarrow> 'b list \<Rightarrow> ('s, 'e) read_step"
  assumes emit_consumes: "step s buf = Emit e s' n \<Longrightarrow> 0 < n \<and> n \<le> length buf"
    and emit_stable: "step s buf = Emit e s' n \<Longrightarrow> step s (buf @ ext) = Emit e s' n"
    and stop_stable: "step s buf = Stop e s' \<Longrightarrow> step s (buf @ ext) = Stop e s'"
begin

text \<open>Take frames off the buffer until it holds no whole frame or the reader stops.\<close>

function drain :: "'s \<Rightarrow> 'b list \<Rightarrow> 'e list \<times> ('s, 'b) reader_state" where
  "drain s buf =
     (case step s buf of
        Wait \<Rightarrow> ([], Reading s buf)
      | Stop e s' \<Rightarrow> ([e], Stopped s')
      | Emit e s' n \<Rightarrow> let (es, r) = drain s' (drop n buf) in (e # es, r))"
  by auto
termination
  by (relation "measure (\<lambda>(s, buf). length buf)") (auto dest!: emit_consumes)

declare drain.simps [simp del]

fun feed :: "('s, 'b) reader_state \<Rightarrow> 'b list \<Rightarrow> 'e list \<times> ('s, 'b) reader_state" where
  "feed (Reading s buf) chunk = drain s (buf @ chunk)"
| "feed (Stopped s) chunk = ([], Stopped s)"

fun feed_all :: "('s, 'b) reader_state \<Rightarrow> 'b list list \<Rightarrow> 'e list \<times> ('s, 'b) reader_state" where
  "feed_all r [] = ([], r)"
| "feed_all r (c # cs) = (let (es, r') = feed r c; (es', r'') = feed_all r' cs in (es @ es', r''))"

lemma drain_append:
  "drain s (buf @ ext) =
     (let (es, r) = drain s buf; (es', r') = feed r ext in (es @ es', r'))"
proof (induction s buf rule: drain.induct)
  case (1 s buf)
  show ?case
  proof (cases "step s buf")
    case Wait
    then have "drain s buf = ([], Reading s buf)" by (subst drain.simps) simp
    then show ?thesis by simp
  next
    case (Stop e s')
    then have "drain s buf = ([e], Stopped s')" by (subst drain.simps) simp
    moreover have "drain s (buf @ ext) = ([e], Stopped s')"
      by (subst drain.simps) (simp add: stop_stable [OF Stop])
    ultimately show ?thesis by simp
  next
    case (Emit e s' n)
    have n: "n \<le> length buf" using emit_consumes [OF Emit] by simp
    have "drain s (buf @ ext) = (let (es, r) = drain s' (drop n buf @ ext) in (e # es, r))"
      by (subst drain.simps) (simp add: emit_stable [OF Emit] n)
    also have "\<dots> = (let (es, r) = drain s' (drop n buf); (es', r') = feed r ext in (e # es @ es', r'))"
      using 1 [OF Emit] by (simp add: Let_def split: prod.splits)
    also have "\<dots> = (let (es, r) = drain s buf; (es', r') = feed r ext in (es @ es', r'))"
      by (subst drain.simps [of s buf]) (simp add: Emit Let_def split: prod.splits)
    finally show ?thesis .
  qed
qed

lemma feed_append: "feed r (c @ d) = (let (es, r') = feed r c; (es', r'') = feed r' d in (es @ es', r''))"
  by (cases r) (simp_all add: drain_append [of _ "_ @ c" d, simplified])

text \<open>A reader at rest: what is in its buffer is no whole frame.\<close>

definition resting :: "('s, 'b) reader_state \<Rightarrow> bool" where
  "resting r = (case r of Reading s buf \<Rightarrow> step s buf = Wait | Stopped s \<Rightarrow> True)"

lemma resting_drain: "resting (snd (drain s buf))"
proof (induction s buf rule: drain.induct)
  case (1 s buf)
  then show ?case
    by (subst drain.simps) (auto simp: resting_def split: read_step.splits prod.splits)
qed

lemma feed_Nil: "resting r \<Longrightarrow> feed r [] = ([], r)"
  by (cases r) (simp_all add: resting_def drain.simps)

lemma feed_all_concat: "resting r \<Longrightarrow> feed_all r cs = feed r (concat cs)"
proof (induction cs arbitrary: r)
  case Nil
  then show ?case by (simp add: feed_Nil)
next
  case (Cons c cs)
  have "resting (snd (feed r c))"
    using Cons.prems resting_drain by (cases r) (auto simp: resting_def)
  then show ?case
    using Cons.IH [of "snd (feed r c)"] by (cases "feed r c") (simp add: feed_append)
qed

lemma chunks_do_not_matter:
  "resting r \<Longrightarrow> concat cs = concat ds \<Longrightarrow> feed_all r cs = feed_all r ds"
  by (simp add: feed_all_concat)

end

section \<open>The header\<close>

text \<open>
  Every reader first waits for twelve bytes and then for the announced payload; they differ
  in what they check in between. The fields as the readers read them off the buffer:
\<close>

definition buf_version :: "byte list \<Rightarrow> int" where "buf_version buf = uint (buf ! 4)"
definition buf_msgType :: "byte list \<Rightarrow> int" where "buf_msgType buf = uint (buf ! 5)"
definition buf_payloadLen :: "byte list \<Rightarrow> nat" where "buf_payloadLen buf = readUInt32BE (drop 8 buf)"

lemma buf_fields_append [simp]:
  assumes "\<not> length buf < FRAME_HEADER_LEN"
  shows "take 4 (buf @ ext) = take 4 buf" "buf_version (buf @ ext) = buf_version buf"
    "buf_msgType (buf @ ext) = buf_msgType buf" "buf_payloadLen (buf @ ext) = buf_payloadLen buf"
  using assms
  by (simp_all add: FRAME_HEADER_LEN_def buf_version_def buf_msgType_def buf_payloadLen_def nth_append)

section \<open>The server's connection loop\<close>

datatype server_event = Dispatched IicpFrame | Destroyed | EndedAfter IicpFrame | DestroyedAfter IicpFrame

text \<open>
  The loop of \<open>_handleConnection\<close>. The state is the flag \<open>initialized\<close> and the state \<open>'a\<close> of
  the handlers; \<open>dispatch\<close> says whether to keep the connection open, or \<open>None\<close> when it threw.
  The test of the magic bytes before the loop is the test in its first round.
\<close>

definition server_step ::
  "(IicpFrame \<Rightarrow> 'a \<Rightarrow> bool option \<times> 'a) \<Rightarrow> bool \<times> 'a \<Rightarrow> byte list \<Rightarrow> (bool \<times> 'a, server_event) read_step" where
  "server_step dispatch st buf =
     (if length buf < FRAME_HEADER_LEN then Wait
      else if take 4 buf \<noteq> IICP_MAGIC then Stop Destroyed st
      else if buf_version buf \<noteq> FRAMING_VERSION then Stop Destroyed st
      else if stableTaskMessageTypeError (buf_msgType buf) \<noteq> None then Stop Destroyed st
      else if buf_payloadLen buf > MAX_FRAME_PAYLOAD then Stop Destroyed st
      else if length buf < FRAME_HEADER_LEN + buf_payloadLen buf then Wait
      else (case decodeFrame buf of
          Inl _ \<Rightarrow> Stop Destroyed st
        | Inr (frame, consumed) \<Rightarrow>
            let (initialized, a) = st; msgType = buf_msgType buf in
            if (\<not> initialized \<and> msgType \<noteq> msg_code INIT) \<or> (initialized \<and> msgType = msg_code INIT)
            then Stop Destroyed st
            else (case dispatch frame a of
                (None, a') \<Rightarrow> Stop (DestroyedAfter frame) (initialized, a')
              | (Some keepOpen, a') \<Rightarrow>
                  if keepOpen then Emit (Dispatched frame) (True, a') consumed
                  else Stop (EndedAfter frame) (True, a'))))"

lemma decode_append:
  assumes "decodeFrame buf = Inr (fr, n)"
  shows "decodeFrame (buf @ ext) = Inr (fr, n) \<and> 0 < n \<and> n \<le> length buf"
proof -
  obtain r rest where d: "buf = header_bytes FRAMING_VERSION (fr_msgType fr) (fr_flags fr) r
      (length (fr_payload fr)) @ fr_payload fr @ rest" "n = 12 + length (fr_payload fr)"
    and b: "is_uint8 (fr_msgType fr)" "is_uint8 (fr_flags fr)" "length (fr_payload fr) \<le> MAX_FRAME_PAYLOAD"
    and v: "fr_version fr = FRAMING_VERSION"
    using decode_success_header [OF assms] by metis
  have "length (fr_payload fr) < 2 ^ 32" using b MAX_FRAME_PAYLOAD_word by linarith
  moreover have "is_uint8 FRAMING_VERSION" by (simp add: is_uint8_def FRAMING_VERSION_def)
  ultimately show ?thesis
    using decode_header [of FRAMING_VERSION "fr_msgType fr" "fr_flags fr" "length (fr_payload fr)" r
        "fr_payload fr @ rest @ ext"] d b v by simp
qed

lemma decode_complete:
  assumes "\<not> length buf < FRAME_HEADER_LEN" "take 4 buf = IICP_MAGIC"
    "buf_version buf = FRAMING_VERSION" "\<not> buf_payloadLen buf > MAX_FRAME_PAYLOAD"
    "\<not> length buf < FRAME_HEADER_LEN + buf_payloadLen buf"
  shows "decodeFrame buf = Inr (\<lparr>fr_version = FRAMING_VERSION, fr_msgType = buf_msgType buf,
      fr_flags = uint (buf ! 6), fr_payload = take (buf_payloadLen buf) (drop FRAME_HEADER_LEN buf)\<rparr>,
      FRAME_HEADER_LEN + buf_payloadLen buf)"
  using assms by (simp add: decodeFrame_def Let_def buf_version_def buf_msgType_def buf_payloadLen_def)

lemma server_step_emit:
  assumes "server_step dispatch st buf = Emit e st' n"
  obtains fr where "decodeFrame buf = Inr (fr, n)" "e = Dispatched fr"
  using assms
  by (auto simp: server_step_def Let_def split: if_splits sum.splits prod.splits option.splits)

interpretation server_reader: stream_reader "server_step dispatch" for dispatch
proof unfold_locales
  fix s buf e s' n ext
  assume a: "server_step dispatch s buf = Emit e s' n"
  then obtain fr where fr: "decodeFrame buf = Inr (fr, n)" by (rule server_step_emit)
  show "0 < n \<and> n \<le> length buf" using decode_append [OF fr] by blast
  show "server_step dispatch s (buf @ ext) = Emit e s' n"
    using a decode_append [OF fr, of ext]
    by (auto simp: server_step_def Let_def fr simp del: take_append split: if_splits)
next
  fix s buf e s' ext
  assume a: "server_step dispatch s buf = Stop e s'"
  show "server_step dispatch s (buf @ ext) = Stop e s'"
  proof (cases "decodeFrame buf")
    case (Inl err)
    then show ?thesis
      using a decode_complete [of buf] by (auto simp: server_step_def Let_def simp del: take_append split: if_splits)
  next
    case (Inr p)
    then obtain fr n where fr: "decodeFrame buf = Inr (fr, n)" by (cases p) simp
    then show ?thesis
      using a decode_append [OF fr, of ext]
      by (auto simp: server_step_def Let_def fr simp del: take_append split: if_splits)
  qed
qed

section \<open>The client's reader\<close>

datatype client_error =
    BadMagic "byte list"
  | UnsupportedFraming int
  | RejectedType int string
  | ResponseTooLarge nat
  | ConnectionClosed
  | ConnectionClosedMidFrame
  | ReadTimeout

definition client_step :: "unit \<Rightarrow> byte list \<Rightarrow> (unit, client_error + int \<times> byte list) read_step" where
  "client_step u buf =
     (if length buf < FRAME_HEADER_LEN then Wait
      else if take 4 buf \<noteq> IICP_MAGIC then Stop (Inl (BadMagic (take 4 buf))) ()
      else if buf_version buf \<noteq> FRAMING_VERSION then Stop (Inl (UnsupportedFraming (buf_version buf))) ()
      else (case stableTaskMessageTypeError (buf_msgType buf) of
          Some typeError \<Rightarrow> Stop (Inl (RejectedType (buf_msgType buf) typeError)) ()
        | None \<Rightarrow>
            if buf_payloadLen buf > MAX_FRAME_PAYLOAD then Stop (Inl (ResponseTooLarge (buf_payloadLen buf))) ()
            else let total = FRAME_HEADER_LEN + buf_payloadLen buf in
              if length buf < total then Wait
              else Emit (Inr (buf_msgType buf, take (buf_payloadLen buf) (drop FRAME_HEADER_LEN buf))) () total))"

interpretation client_reader: stream_reader client_step
proof unfold_locales
  fix s buf e s' n ext
  assume a: "client_step s buf = Emit e s' n"
  then show "0 < n \<and> n \<le> length buf"
    by (auto simp: client_step_def Let_def FRAME_HEADER_LEN_def split: if_splits option.splits)
  from a show "client_step s (buf @ ext) = Emit e s' n"
    by (auto simp: client_step_def Let_def simp del: take_append split: if_splits option.splits) simp
next
  fix s buf e s' ext
  assume "client_step s buf = Stop e s'"
  then show "client_step s (buf @ ext) = Stop e s'"
    by (auto simp: client_step_def Let_def simp del: take_append split: if_splits option.splits)
qed

text \<open>
  \<open>_readFrame\<close> against what the socket does while it waits: bytes arrive, the socket closes,
  or the deadline passes. The result carries the buffer and the closed flag it leaves, and
  the events not yet seen; it is \<open>None\<close> when the events end and it still waits.
\<close>

datatype socket_event = Data "byte list" | SocketClosed | DeadlinePassed

fun client_readFrame ::
  "byte list \<Rightarrow> bool \<Rightarrow> socket_event list \<Rightarrow>
   ((client_error + int \<times> byte list) \<times> byte list \<times> bool \<times> socket_event list) option" where
  "client_readFrame buf closed evs =
     (case client_step () buf of
        Emit r _ n \<Rightarrow> Some (r, drop n buf, closed, evs)
      | Stop r _ \<Rightarrow> Some (r, buf, closed, evs)
      | Wait \<Rightarrow>
          if closed then
            Some (Inl (if length buf < FRAME_HEADER_LEN then ConnectionClosed else ConnectionClosedMidFrame),
                  buf, closed, evs)
          else (case evs of
              [] \<Rightarrow> None
            | Data chunk # evs' \<Rightarrow> client_readFrame (buf @ chunk) closed evs'
            | SocketClosed # evs' \<Rightarrow> client_readFrame buf True evs'
            | DeadlinePassed # evs' \<Rightarrow> Some (Inl ReadTimeout, buf, closed, evs')))"

declare client_readFrame.simps [simp del]

section \<open>The readers of the relay protocol\<close>

text \<open>
  \<open>readFrame\<close> of the relay worker; the frame loop of the relay's accept server makes the same
  checks in the same order. Both take the header off before they wait for the payload, which
  nothing observes. They accept every frame type.
\<close>

definition relay_step :: "unit \<Rightarrow> byte list \<Rightarrow> (unit, (int \<times> byte list) option) read_step" where
  "relay_step u buf =
     (if length buf < FRAME_HEADER_LEN then Wait
      else if take 4 buf \<noteq> IICP_MAGIC \<or> buf_version buf \<noteq> FRAMING_VERSION then Stop None ()
      else if buf_payloadLen buf > MAX_FRAME_PAYLOAD then Stop None ()
      else if length buf < FRAME_HEADER_LEN + buf_payloadLen buf then Wait
      else Emit (Some (buf_msgType buf, take (buf_payloadLen buf) (drop FRAME_HEADER_LEN buf))) ()
             (FRAME_HEADER_LEN + buf_payloadLen buf))"

interpretation relay_reader: stream_reader relay_step
proof unfold_locales
  fix s buf e s' n ext
  assume a: "relay_step s buf = Emit e s' n"
  then show "0 < n \<and> n \<le> length buf"
    by (auto simp: relay_step_def FRAME_HEADER_LEN_def split: if_splits)
  from a show "relay_step s (buf @ ext) = Emit e s' n"
    by (auto simp: relay_step_def simp del: take_append split: if_splits) simp
next
  fix s buf e s' ext
  assume "relay_step s buf = Stop e s'"
  then show "relay_step s (buf @ ext) = Stop e s'"
    by (auto simp: relay_step_def simp del: take_append split: if_splits)
qed

text \<open>\<open>makeFrame\<close> of the relay modules: \<open>encodeFrame\<close> without flags.\<close>

definition makeFrame :: "int \<Rightarrow> byte list \<Rightarrow> frame_error + byte list" where
  "makeFrame msgType payload =
     (if length payload > MAX_FRAME_PAYLOAD then Inl (PayloadTooLarge (length payload))
      else if \<not> is_uint8 msgType then Inl (RangeError msgType)
      else Inr (IICP_MAGIC @ [of_int FRAMING_VERSION, of_int msgType, 0, 0] @
                writeUInt32BE (length payload) @ payload))"

lemma makeFrame_encodeFrame: "makeFrame t p = encodeFrame t p 0"
  by (simp add: makeFrame_def encodeFrame_def is_uint8_def)

section \<open>Properties\<close>

lemma server_resting: "server_reader.resting dispatch (Reading st [])"
  by (simp add: server_reader.resting_def server_step_def FRAME_HEADER_LEN_def)

text \<open>
  What the server handles on a connection does not depend on how the network cut the bytes
  into chunks: for any handlers, feeding the chunks one by one gives the same sequence of
  handled frames, the same end of the connection and the same rest in the buffer as the bytes
  in one piece.
\<close>

lemma server_chunking:
  "server_reader.feed_all dispatch (Reading (False, a) []) chunks =
   server_reader.feed dispatch (Reading (False, a) []) (concat chunks)"
  by (rule server_reader.feed_all_concat [OF server_resting])

fun handled_frames :: "server_event list \<Rightarrow> IicpFrame list" where
  "handled_frames [] = []"
| "handled_frames (Dispatched fr # es) = fr # handled_frames es"
| "handled_frames (EndedAfter fr # es) = fr # handled_frames es"
| "handled_frames (DestroyedAfter fr # es) = fr # handled_frames es"
| "handled_frames (Destroyed # es) = handled_frames es"

definition well_formed_frame :: "IicpFrame \<Rightarrow> bool" where
  "well_formed_frame fr = (fr_version fr = FRAMING_VERSION \<and>
     stableTaskMessageTypeError (fr_msgType fr) = None \<and> length (fr_payload fr) \<le> MAX_FRAME_PAYLOAD)"

definition init_first :: "bool \<Rightarrow> IicpFrame list \<Rightarrow> bool" where
  "init_first initialized frs =
     (if initialized then list_all (\<lambda>fr. fr_msgType fr \<noteq> msg_code INIT) frs
      else case frs of [] \<Rightarrow> True
        | fr # rest \<Rightarrow> fr_msgType fr = msg_code INIT \<and> list_all (\<lambda>fr. fr_msgType fr \<noteq> msg_code INIT) rest)"

lemma server_step_handles:
  assumes "decodeFrame buf = Inr (fr, n)" and "stableTaskMessageTypeError (buf_msgType buf) = None"
  shows "well_formed_frame fr \<and> fr_msgType fr = buf_msgType buf"
  using assms(1)
proof (rule decode_success_header)
  fix r rest
  assume d: "buf = header_bytes FRAMING_VERSION (fr_msgType fr) (fr_flags fr) r
      (length (fr_payload fr)) @ fr_payload fr @ rest"
    and b: "is_uint8 (fr_msgType fr)" "fr_version fr = FRAMING_VERSION"
      "length (fr_payload fr) \<le> MAX_FRAME_PAYLOAD"
  have "buf_msgType buf = fr_msgType fr"
    using b(1) by (simp add: d buf_msgType_def header_bytes_def IICP_MAGIC_def)
  then show ?thesis using assms(2) b by (simp add: well_formed_frame_def)
qed

lemma server_step_stop:
  assumes "server_step dispatch st buf = Stop e st'"
  shows "e = Destroyed \<or> (\<exists>fr n. decodeFrame buf = Inr (fr, n) \<and> handled_frames [e] = [fr] \<and>
    stableTaskMessageTypeError (buf_msgType buf) = None \<and> (fst st \<longleftrightarrow> buf_msgType buf \<noteq> msg_code INIT))"
  using assms
  by (auto simp: server_step_def Let_def split: if_splits sum.splits prod.splits option.splits)

lemma server_drain_discipline:
  "list_all well_formed_frame (handled_frames (fst (server_reader.drain dispatch st buf))) \<and>
   init_first (fst st) (handled_frames (fst (server_reader.drain dispatch st buf)))"
proof (induction st buf rule: server_reader.drain.induct [where dispatch = dispatch])
  case (1 st buf)
  show ?case
  proof (cases "server_step dispatch st buf")
    case Wait
    then have "server_reader.drain dispatch st buf = ([], Reading st buf)"
      by (subst server_reader.drain.simps) simp
    then show ?thesis by (simp add: init_first_def)
  next
    case (Stop e s')
    then have "server_reader.drain dispatch st buf = ([e], Stopped s')"
      by (subst server_reader.drain.simps) simp
    then show ?thesis
      using server_step_stop [OF Stop] server_step_handles [of buf] by (auto simp: init_first_def)
  next
    case (Emit e s' n)
    obtain fr where fr: "decodeFrame buf = Inr (fr, n)" and e: "e = Dispatched fr"
      using Emit by (rule server_step_emit)
    have st: "stableTaskMessageTypeError (buf_msgType buf) = None" "fst s'"
      "fst st \<longleftrightarrow> buf_msgType buf \<noteq> msg_code INIT"
      using Emit fr by (auto simp: server_step_def Let_def split: if_splits prod.splits option.splits)
    have "server_reader.drain dispatch st buf =
        (let (es, r) = server_reader.drain dispatch s' (drop n buf) in (e # es, r))"
      by (subst server_reader.drain.simps) (simp add: Emit)
    then show ?thesis
      using 1 [OF Emit] server_step_handles [OF fr st(1)] st(2,3)
      by (cases "server_reader.drain dispatch s' (drop n buf)") (simp add: e init_first_def)
  qed
qed

lemma server_rest_bounded:
  "server_reader.resting dispatch (Reading st buf) \<Longrightarrow> length buf < FRAME_HEADER_LEN + MAX_FRAME_PAYLOAD"
  by (auto simp: server_reader.resting_def server_step_def Let_def
      split: if_splits sum.splits prod.splits option.splits)

text \<open>
  C6 Whatever bytes arrive, in whatever chunks, the server hands its handlers only frames of
  this framing version, of a stable message type and within the size limit; the first frame
  handled on a connection is \<open>INIT\<close> and no later one is; and what it keeps in the buffer
  between reads is less than one maximal frame.
\<close>

theorem server_session_discipline:
  "(let (es, r) = server_reader.feed_all dispatch (Reading (False, a) []) chunks
    in list_all well_formed_frame (handled_frames es) \<and> init_first False (handled_frames es) \<and>
       (case r of Reading _ buf \<Rightarrow> length buf < FRAME_HEADER_LEN + MAX_FRAME_PAYLOAD | Stopped _ \<Rightarrow> True))"
proof -
  let ?d = "server_reader.drain dispatch (False, a) (concat chunks)"
  have "server_reader.feed_all dispatch (Reading (False, a) []) chunks = ?d"
    using server_reader.feed_all_concat [OF server_resting] by simp
  moreover have "server_reader.resting dispatch (snd ?d)"
    by (rule server_reader.resting_drain)
  ultimately show ?thesis
    using server_drain_discipline [of dispatch "(False, a)" "concat chunks"] server_rest_bounded
    by (cases ?d) (auto split: reader_state.splits)
qed

fun encode_frames :: "IicpFrame list \<Rightarrow> frame_error + byte list" where
  "encode_frames [] = Inr []"
| "encode_frames (fr # frs) =
     (case encodeFrame (fr_msgType fr) (fr_payload fr) (fr_flags fr) of
        Inl e \<Rightarrow> Inl e
      | Inr bs \<Rightarrow> (case encode_frames frs of Inl e \<Rightarrow> Inl e | Inr rest \<Rightarrow> Inr (bs @ rest)))"

fun dispatch_all :: "(IicpFrame \<Rightarrow> 'a \<Rightarrow> bool option \<times> 'a) \<Rightarrow> 'a \<Rightarrow> IicpFrame list \<Rightarrow> 'a option" where
  "dispatch_all dispatch a [] = Some a"
| "dispatch_all dispatch a (fr # frs) =
     (case dispatch fr a of (Some True, a') \<Rightarrow> dispatch_all dispatch a' frs | _ \<Rightarrow> None)"

lemma server_step_encoded:
  assumes "encodeFrame (fr_msgType fr) (fr_payload fr) (fr_flags fr) = Inr bs"
    and "well_formed_frame fr" and "dispatch fr a = (Some True, a')"
    and "i \<longleftrightarrow> fr_msgType fr \<noteq> msg_code INIT"
  shows "server_step dispatch (i, a) (bs @ rest) = Emit (Dispatched fr) (True, a') (length bs)"
proof -
  have bs: "bs = header_bytes FRAMING_VERSION (fr_msgType fr) (fr_flags fr) 0 (length (fr_payload fr)) @ fr_payload fr"
    and b: "is_uint8 (fr_msgType fr)" "length (fr_payload fr) \<le> MAX_FRAME_PAYLOAD"
    using encodeFrame_header [OF assms(1)] by simp_all
  have n: "length (fr_payload fr) < 2 ^ 32" using b MAX_FRAME_PAYLOAD_word by linarith
  have v: "uint (of_int FRAMING_VERSION :: byte) = FRAMING_VERSION" by (simp add: FRAMING_VERSION_def)
  have "take 4 (bs @ rest) = IICP_MAGIC" "buf_version (bs @ rest) = FRAMING_VERSION"
    "buf_msgType (bs @ rest) = fr_msgType fr" "buf_payloadLen (bs @ rest) = length (fr_payload fr)"
    "length bs = FRAME_HEADER_LEN + length (fr_payload fr)"
    using n b(1) v
    by (simp_all add: bs header_bytes_def IICP_MAGIC_def buf_version_def buf_msgType_def
        buf_payloadLen_def FRAME_HEADER_LEN_def)
  moreover have "fr = \<lparr>fr_version = FRAMING_VERSION, fr_msgType = fr_msgType fr, fr_flags = fr_flags fr,
      fr_payload = fr_payload fr\<rparr>"
    using assms(2) by (cases fr) (simp add: well_formed_frame_def)
  then have "decodeFrame (bs @ rest) = Inr (fr, length bs)"
    using decode_encodeFrame [OF assms(1), of rest] by simp
  ultimately show ?thesis
    using assms(2-4) b(2) by (simp add: server_step_def Let_def well_formed_frame_def)
qed

lemma server_drain_encoded:
  "encode_frames frs = Inr bytes \<Longrightarrow> init_first i frs \<Longrightarrow> list_all well_formed_frame frs \<Longrightarrow>
   dispatch_all dispatch a frs = Some a' \<Longrightarrow>
   server_reader.drain dispatch (i, a) bytes = (map Dispatched frs, Reading (i \<or> frs \<noteq> [], a') [])"
proof (induction frs arbitrary: i a bytes)
  case Nil
  then show ?case
    by (subst server_reader.drain.simps) (simp add: server_step_def FRAME_HEADER_LEN_def)
next
  case (Cons fr frs)
  obtain bs rest where enc: "encodeFrame (fr_msgType fr) (fr_payload fr) (fr_flags fr) = Inr bs"
    and rest: "encode_frames frs = Inr rest" and bytes: "bytes = bs @ rest"
    using Cons.prems(1) by (auto split: sum.splits)
  obtain a1 where d: "dispatch fr a = (Some True, a1)" and ds: "dispatch_all dispatch a1 frs = Some a'"
    using Cons.prems(4) by (auto split: prod.splits option.splits bool.splits)
  have "i \<longleftrightarrow> fr_msgType fr \<noteq> msg_code INIT" "init_first True frs"
    using Cons.prems(2) by (auto simp: init_first_def split: if_splits)
  then show ?case
    using server_step_encoded [of fr bs dispatch a a1 i rest, OF enc _ d] Cons.IH [OF rest _ _ ds, of True] Cons.prems(3)
    by (subst server_reader.drain.simps) (simp add: bytes)
qed

text \<open>
  C2 Frames written by the client arrive: if a sequence of frames is encoded and sent, the first
  an \<open>INIT\<close>, the others of stable types other than \<open>INIT\<close>, and the handlers keep the
  connection open, then the server dispatches exactly these frames in this order, however the
  bytes are cut, and nothing is left in its buffer.
\<close>

theorem server_receives_what_was_sent:
  assumes "encode_frames frs = Inr (concat chunks)" and "init_first False frs"
    and "list_all well_formed_frame frs" and "dispatch_all dispatch a frs = Some a'"
  shows "server_reader.feed_all dispatch (Reading (False, a) []) chunks =
    (map Dispatched frs, Reading (frs \<noteq> [], a') [])"
  by (simp add: server_reader.feed_all_concat [OF server_resting] server_drain_encoded [OF assms])

theorem server_receives_what_was_sent_witness:
  "\<exists>bs. server_reader.feed_all (\<lambda>fr n. (Some True, Suc n)) (Reading (False, 0) []) [take 5 bs, drop 5 bs] =
     (map Dispatched
        [\<lparr>fr_version = FRAMING_VERSION, fr_msgType = 1, fr_flags = 0, fr_payload = [7]\<rparr>,
         \<lparr>fr_version = FRAMING_VERSION, fr_msgType = 9, fr_flags = 0, fr_payload = []\<rparr>],
      Reading (True, 2) [])"
proof -
  let ?frs = "[\<lparr>fr_version = FRAMING_VERSION, fr_msgType = 1, fr_flags = 0, fr_payload = [7]\<rparr>,
         \<lparr>fr_version = FRAMING_VERSION, fr_msgType = 9, fr_flags = 0, fr_payload = []\<rparr>]"
  obtain bs where "encode_frames ?frs = Inr bs"
    by (simp add: encodeFrame_def MAX_FRAME_PAYLOAD_def is_uint8_def)
  then have "encode_frames ?frs = Inr (concat [take 5 bs, drop 5 bs])" by simp
  moreover have "init_first False ?frs" by (simp add: init_first_def)
  moreover have "list_all well_formed_frame ?frs"
    by (simp add: well_formed_frame_def stableTaskMessageTypeError_def STABLE_TASK_MESSAGE_TYPES_def
        MAX_FRAME_PAYLOAD_def)
  moreover have "dispatch_all (\<lambda>fr n. (Some True, Suc n)) 0 ?frs = Some 2" by simp
  ultimately have "server_reader.feed_all (\<lambda>fr n. (Some True, Suc n)) (Reading (False, 0) []) [take 5 bs, drop 5 bs] =
      (map Dispatched ?frs, Reading (?frs \<noteq> [], 2) [])"
    by (rule server_receives_what_was_sent)
  then show ?thesis by (intro exI [of _ bs]) (simp only: list.simps not_False_eq_True)
qed

end
