(* ===== verification/JsValue.thy ===== *)
theory JsValue imports Prelude Framing Complex_Main begin

text \<open>
  The values of the language that the program inspects at run time: the type \<open>unknown\<close> of
  decoded CBOR and JSON. A number is a finite double (a rational) or one of the special
  values. A plain object is the list of its own properties; the byte buffers and the
  \<open>Map\<close>s that CBOR yields are values of their own. What the runtime does when it renders a
  number or an object as text, or reads a number out of a string, is the record
  \<open>js_runtime\<close>, a parameter of the definitions that use it.
\<close>

datatype number = Fin rat | NaN | PosInfinity | NegInfinity

datatype js = JUndef | JNull | JBool bool | JNum number | JStr string | JBytes "byte list"
  | JArr "js list" | JObj "(string \<times> js) list" | JMap "(js \<times> js) list"

abbreviation jint :: "int \<Rightarrow> js" where
  "jint n \<equiv> JNum (Fin (of_int n))"

record js_runtime =
  rt_string :: "js \<Rightarrow> string"
  rt_number :: "js \<Rightarrow> number"

section \<open>Tests\<close>

text \<open>The value in a condition; \<open>typeof v === "object"\<close>; \<open>v && typeof v === "object"\<close>.\<close>

fun truthy :: "js \<Rightarrow> bool" where
  "truthy JUndef = False"
| "truthy JNull = False"
| "truthy (JBool b) = b"
| "truthy (JNum n) = (n \<noteq> Fin 0 \<and> n \<noteq> NaN)"
| "truthy (JStr s) = (s \<noteq> [])"
| "truthy _ = True"

fun is_object :: "js \<Rightarrow> bool" where
  "is_object (JBytes _) = True"
| "is_object (JArr _) = True"
| "is_object (JObj _) = True"
| "is_object (JMap _) = True"
| "is_object _ = False"

definition nullish :: "js \<Rightarrow> bool" where
  "nullish v = (v = JUndef \<or> v = JNull)"

text \<open>\<open>v ?? d\<close>\<close>

definition coalesce :: "js \<Rightarrow> js \<Rightarrow> js" where
  "coalesce v d = (if nullish v then d else v)"

section \<open>Properties\<close>

text \<open>
  An array index or integer key as a property name. A lookup of a name that is no own property
  of a plain object gives \<open>undefined\<close>; the names that every object inherits are listed, since
  a lookup of one of them gives a function.
\<close>

fun digits :: "nat \<Rightarrow> string" where
  "digits n = (if n < 10 then [char_of (48 + n)] else digits (n div 10) @ [char_of (48 + n mod 10)])"

declare digits.simps [simp del]

definition inherited_names :: "string list" where
  "inherited_names = [''constructor'', ''__defineGetter__'', ''__defineSetter__'', ''hasOwnProperty'',
     ''__lookupGetter__'', ''__lookupSetter__'', ''isPrototypeOf'', ''propertyIsEnumerable'',
     ''toString'', ''valueOf'', ''__proto__'', ''toLocaleString'']"

fun own_property :: "js \<Rightarrow> string \<Rightarrow> js" where
  "own_property (JObj kvs) k = (case map_of kvs k of None \<Rightarrow> JUndef | Some v \<Rightarrow> v)"
| "own_property _ k = JUndef"

text \<open>\<open>body[n]\<close> for a numeric key: the property named by its digits, an element or a byte.\<close>

fun numeric_property :: "js \<Rightarrow> nat \<Rightarrow> js" where
  "numeric_property (JObj kvs) n = own_property (JObj kvs) (digits n)"
| "numeric_property (JArr xs) n = (if n < length xs then xs ! n else JUndef)"
| "numeric_property (JBytes bs) n = (if n < length bs then jint (uint (bs ! n)) else JUndef)"
| "numeric_property (JStr s) n = (if n < length s then JStr [s ! n] else JUndef)"
| "numeric_property _ n = JUndef"

text \<open>\<open>n in body\<close>\<close>

fun has_numeric :: "js \<Rightarrow> nat \<Rightarrow> bool" where
  "has_numeric (JObj kvs) n = (map_of kvs (digits n) \<noteq> None)"
| "has_numeric (JArr xs) n = (n < length xs)"
| "has_numeric (JBytes bs) n = (n < length bs)"
| "has_numeric _ n = False"

text \<open>\<open>map.get(n)\<close> and \<open>map.has(n)\<close> for a number.\<close>

definition map_get :: "(js \<times> js) list \<Rightarrow> int \<Rightarrow> js" where
  "map_get kvs n = (case map_of kvs (jint n) of None \<Rightarrow> JUndef | Some v \<Rightarrow> v)"

definition map_has :: "(js \<times> js) list \<Rightarrow> int \<Rightarrow> bool" where
  "map_has kvs n = (map_of kvs (jint n) \<noteq> None)"

section \<open>Conversions\<close>

fun String_of :: "js_runtime \<Rightarrow> js \<Rightarrow> string" where
  "String_of rt JUndef = ''undefined''"
| "String_of rt JNull = ''null''"
| "String_of rt (JBool b) = (if b then ''true'' else ''false'')"
| "String_of rt (JStr s) = s"
| "String_of rt v = rt_string rt v"

fun Number_of :: "js_runtime \<Rightarrow> js \<Rightarrow> number" where
  "Number_of rt JUndef = NaN"
| "Number_of rt JNull = Fin 0"
| "Number_of rt (JBool b) = Fin (if b then 1 else 0)"
| "Number_of rt (JNum n) = n"
| "Number_of rt v = rt_number rt v"

section \<open>Numbers\<close>

fun is_finite_number :: "js \<Rightarrow> bool" where
  "is_finite_number (JNum (Fin _)) = True"
| "is_finite_number _ = False"

fun is_integer_number :: "js \<Rightarrow> bool" where
  "is_integer_number (JNum (Fin q)) = (of_int \<lfloor>q\<rfloor> = q)"
| "is_integer_number _ = False"

definition MAX_SAFE_INTEGER :: int where
  "MAX_SAFE_INTEGER = 2 ^ 53 - 1"

fun is_safe_integer :: "js \<Rightarrow> bool" where
  "is_safe_integer (JNum (Fin q)) = (of_int \<lfloor>q\<rfloor> = q \<and> \<bar>q\<bar> \<le> of_int MAX_SAFE_INTEGER)"
| "is_safe_integer _ = False"

lemma truthy_not_nullish: "truthy v \<Longrightarrow> \<not> nullish v"
  by (auto simp: nullish_def)

lemma coalesce_simps [simp]:
  "coalesce JUndef d = d" "coalesce JNull d = d"
  "coalesce (JStr s) d = JStr s" "coalesce (JNum n) d = JNum n" "coalesce (JBool b) d = JBool b"
  "coalesce (JBytes bs) d = JBytes bs" "coalesce (JObj kvs) d = JObj kvs"
  by (simp_all add: coalesce_def nullish_def)

section \<open>Comparison\<close>

text \<open>
  \<open>===\<close>: \<open>NaN\<close> equals nothing, and two values parsed from a document are never the same
  object.
\<close>

definition strict_eq :: "js \<Rightarrow> js \<Rightarrow> bool" where
  "strict_eq v w = (v = w \<and> v \<noteq> JNum NaN \<and> \<not> is_object v)"

fun num_less :: "number \<Rightarrow> number \<Rightarrow> bool" where
  "num_less NaN _ = False"
| "num_less _ NaN = False"
| "num_less (Fin a) (Fin b) = (a < b)"
| "num_less NegInfinity b = (b \<noteq> NegInfinity)"
| "num_less (Fin a) b = (b = PosInfinity)"
| "num_less PosInfinity b = False"

definition num_le :: "number \<Rightarrow> number \<Rightarrow> bool" where
  "num_le a b = (num_less a b \<or> a = b \<and> a \<noteq> NaN)"

fun num_plus_one :: "number \<Rightarrow> number" where
  "num_plus_one (Fin a) = Fin (a + 1)"
| "num_plus_one n = n"

text \<open>\<open>Object.keys(v)\<close> for \<open>v\<close> an object, and no keys otherwise.\<close>

fun object_keys :: "js \<Rightarrow> string list" where
  "object_keys (JObj kvs) = map fst kvs"
| "object_keys (JArr xs) = map digits [0..<length xs]"
| "object_keys (JBytes bs) = map digits [0..<length bs]"
| "object_keys _ = []"

text \<open>\<open>{...base, ...v}\<close>\<close>

definition spread :: "(string \<times> js) list \<Rightarrow> js \<Rightarrow> (string \<times> js) list" where
  "spread base v =
     (case v of
        JObj kvs \<Rightarrow> fold (\<lambda>(k, x) acc. AList.update k x acc) kvs base
      | JArr xs \<Rightarrow> fold (\<lambda>(i, x) acc. AList.update (digits i) x acc) (List.enumerate 0 xs) base
      | JStr cs \<Rightarrow> fold (\<lambda>(i, c) acc. AList.update (digits i) (JStr [c]) acc) (List.enumerate 0 cs) base
      | _ \<Rightarrow> base)"

lemma strict_eq_str [simp]: "strict_eq v (JStr s) \<longleftrightarrow> v = JStr s"
  by (auto simp: strict_eq_def)

lemma strict_eq_bool [simp]: "strict_eq v (JBool b) \<longleftrightarrow> v = JBool b"
  by (auto simp: strict_eq_def)

lemma num_less_Fin [simp]: "num_less (Fin a) (Fin b) \<longleftrightarrow> a < b"
  by simp

end
