(* ===== verification/ResponseSequence.thy ===== *)
theory ResponseSequence imports JsValue Gate begin

text \<open>
  Streams of \<open>RESPONSE\<close> frames: the receiver's validation \<open>NativeResponseSequence\<close>
  (\<open>src/native_response_sequence.ts\<close>), the sender \<open>encodeLifecycleResponse\<close> and
  \<open>_onStreamCall\<close>, and the receiver's \<open>decodeLifecycleResponse\<close> (\<open>src/iicp_tcp.ts\<close>). The
  last property composes them: what the server sends, the client accepts.
\<close>

section \<open>NativeResponseSequence\<close>

record lifecycle_envelope =
  le_task_id :: string
  le_sequence :: number
  le_event :: string
  le_is_final :: bool

record response_frame =
  rf_session_id :: string
  rf_call_id :: string
  rf_status :: string
  rf_is_final :: bool
  rf_lifecycle :: "lifecycle_envelope option"
  rf_result :: js
  rf_error :: "(js \<times> js) option"
  rf_tokens_used :: "number option"

record response_sequence =
  rs_sessionId :: string
  rs_callId :: string
  rs_taskId :: string
  rs_nextSequence :: nat
  rs_terminalSeen :: bool

text \<open>An error with a code, or the \<open>TypeError\<close> of a call on an inherited member.\<close>

datatype sequence_error = SequenceError string | SequenceTypeError

definition new_sequence :: "string \<Rightarrow> string \<Rightarrow> string \<Rightarrow> response_sequence" where
  "new_sequence sessionId callId taskId =
     \<lparr>rs_sessionId = sessionId, rs_callId = callId, rs_taskId = taskId,
      rs_nextSequence = 0, rs_terminalSeen = False\<rparr>"

definition expectedEvents :: "(string \<times> string list) list" where
  "expectedEvents =
     [(''partial'', [''partial'']), (''success'', [''completed'']),
      (''error'', [''failed'', ''cancelled'']), (''timeout'', [''timed_out'', ''expired''])]"

definition sequence_accept :: "response_frame \<Rightarrow> response_sequence \<Rightarrow> sequence_error + response_sequence" where
  "sequence_accept frame sq =
     (if rs_terminalSeen sq then Inl (SequenceError ''response_after_terminal'')
      else case rf_lifecycle frame of
        None \<Rightarrow> Inl (SequenceError ''missing_lifecycle'')
      | Some lc \<Rightarrow>
          if rf_session_id frame \<noteq> rs_sessionId sq then Inl (SequenceError ''session_id_drift'')
          else if rf_call_id frame \<noteq> rs_callId sq then Inl (SequenceError ''call_id_drift'')
          else if le_task_id lc \<noteq> rs_taskId sq then Inl (SequenceError ''task_id_drift'')
          else if le_sequence lc \<noteq> Fin (of_nat (rs_nextSequence sq)) then Inl (SequenceError ''sequence_drift'')
          else if rf_is_final frame \<noteq> le_is_final lc then Inl (SequenceError ''finality_disagreement'')
          else if rf_status frame \<in> set inherited_names then Inl SequenceTypeError
          else if (case map_of expectedEvents (rf_status frame) of
                     None \<Rightarrow> True | Some evs \<Rightarrow> le_event lc \<notin> set evs)
            then Inl (SequenceError ''status_event_disagreement'')
          else if (rf_status frame = ''partial'' \<and> rf_is_final frame) \<or>
                  (rf_status frame \<noteq> ''partial'' \<and> \<not> rf_is_final frame)
            then Inl (SequenceError ''terminal_flag_mismatch'')
          else Inr (sq\<lparr>rs_nextSequence := rs_nextSequence sq + 1,
                       rs_terminalSeen := rf_is_final frame\<rparr>))"

definition sequence_finish :: "response_sequence \<Rightarrow> sequence_error option" where
  "sequence_finish sq =
     (if \<not> rs_terminalSeen sq then Some (SequenceError ''missing_terminal_response'') else None)"

fun accept_all :: "response_frame list \<Rightarrow> response_sequence \<Rightarrow> sequence_error + response_sequence" where
  "accept_all [] sq = Inr sq"
| "accept_all (f # fs) sq = (case sequence_accept f sq of Inl e \<Rightarrow> Inl e | Inr sq' \<Rightarrow> accept_all fs sq')"

text \<open>The specification of one frame of a stream: its ids, its number, and the agreement of its flags.\<close>

definition stream_frame_ok :: "string \<Rightarrow> string \<Rightarrow> string \<Rightarrow> nat \<Rightarrow> response_frame \<Rightarrow> bool" where
  "stream_frame_ok s c t i f =
     (case rf_lifecycle f of None \<Rightarrow> False
      | Some lc \<Rightarrow> rf_session_id f = s \<and> rf_call_id f = c \<and> le_task_id lc = t \<and>
          le_sequence lc = Fin (of_nat i) \<and> le_is_final lc = rf_is_final f \<and>
          (rf_status f, le_event lc) \<in> set
            [(''partial'', ''partial''), (''success'', ''completed''), (''error'', ''failed''),
             (''error'', ''cancelled''), (''timeout'', ''timed_out''), (''timeout'', ''expired'')] \<and>
          (rf_is_final f \<longleftrightarrow> rf_status f \<noteq> ''partial''))"

lemma sequence_accept_iff:
  "sequence_accept f sq = Inr sq' \<longleftrightarrow>
   \<not> rs_terminalSeen sq \<and>
   stream_frame_ok (rs_sessionId sq) (rs_callId sq) (rs_taskId sq) (rs_nextSequence sq) f \<and>
   sq' = sq\<lparr>rs_nextSequence := Suc (rs_nextSequence sq), rs_terminalSeen := rf_is_final f\<rparr>"
  by (auto simp: sequence_accept_def stream_frame_ok_def expectedEvents_def inherited_names_def
      split: option.splits if_splits)

lemma accept_all_append:
  "accept_all (fs @ gs) sq = (case accept_all fs sq of Inl e \<Rightarrow> Inl e | Inr sq' \<Rightarrow> accept_all gs sq')"
  by (induction fs arbitrary: sq) (auto split: sum.splits)

lemma accept_all_snoc:
  "accept_all (fs @ [f]) sq = Inr sq' \<longleftrightarrow>
   (\<exists>sq1. accept_all fs sq = Inr sq1 \<and> sequence_accept f sq1 = Inr sq')"
  by (auto simp: accept_all_append split: sum.splits)

lemma accept_all_iff:
  "accept_all fs (new_sequence s c t) = Inr sq \<longleftrightarrow>
   list_all (\<lambda>(i, f). stream_frame_ok s c t i f) (enumerate 0 fs) \<and>
   list_all (\<lambda>f. \<not> rf_is_final f) (butlast fs) \<and>
   sq = \<lparr>rs_sessionId = s, rs_callId = c, rs_taskId = t, rs_nextSequence = length fs,
         rs_terminalSeen = (fs \<noteq> [] \<and> rf_is_final (last fs))\<rparr>"
proof (induction fs arbitrary: sq rule: rev_induct)
  case Nil
  then show ?case by (auto simp: new_sequence_def)
next
  case (snoc f fs)
  have "list_all (\<lambda>f. \<not> rf_is_final f) fs \<longleftrightarrow>
    list_all (\<lambda>f. \<not> rf_is_final f) (butlast fs) \<and> (fs = [] \<or> \<not> rf_is_final (last fs))"
    by (cases fs rule: rev_cases) auto
  then show ?case
    by (auto simp: accept_all_snoc snoc.IH sequence_accept_iff enumerate_append_eq)
qed

section \<open>The wire values\<close>

datatype stream_status = Partial | Success | Error | Timeout

primrec status_name :: "stream_status \<Rightarrow> string" where
  "status_name Partial = ''partial''"
| "status_name Success = ''success''"
| "status_name Error = ''error''"
| "status_name Timeout = ''timeout''"

primrec default_event :: "stream_status \<Rightarrow> string" where
  "default_event Partial = ''partial''"
| "default_event Success = ''completed''"
| "default_event Error = ''failed''"
| "default_event Timeout = ''timed_out''"

text \<open>What a streaming handler yields; \<open>JUndef\<close> and \<open>None\<close> are absent fields.\<close>

record stream_item =
  si_status :: stream_status
  si_result :: js
  si_error_code :: "string option"
  si_error_message :: "string option"
  si_tokens_used :: "number option"
  si_event :: "string option"

definition encodeLifecycleResponse ::
  "string \<Rightarrow> string \<Rightarrow> string \<Rightarrow> nat \<Rightarrow> stream_item \<Rightarrow> js" where
  "encodeLifecycleResponse sessionId callId taskId sequence item =
     (let isFinal = JBool (si_status item \<noteq> Partial);
          event = or_default (si_event item) (default_event (si_status item))
      in JMap ([(jint 1, jint FRAMING_VERSION), (jint 2, JStr sessionId), (jint 3, JStr callId),
                (jint 4, JStr (status_name (si_status item))), (jint 12, isFinal),
                (jint 13, JMap [(jint 1, JStr taskId), (jint 2, jint (int sequence)),
                                (jint 3, JStr event), (jint 4, isFinal)])] @
         (if si_result item \<noteq> JUndef then [(jint 5, si_result item)] else []) @
         (if si_error_code item \<noteq> None \<or> si_error_message item \<noteq> None
          then [(jint 6, JMap [(jint 1, JStr (or_default (si_error_code item) ''stream_error'')),
                               (jint 2, JStr (or_default (si_error_message item) ''stream failed''))])]
          else []) @
         (case si_tokens_used item of None \<Rightarrow> [] | Some n \<Rightarrow> [(jint 7, JNum n)])))"

definition numericField :: "js \<Rightarrow> nat \<Rightarrow> js" where
  "numericField v k =
     (case v of JMap kvs \<Rightarrow> map_get kvs (int k)
      | _ \<Rightarrow> if truthy v \<and> is_object v then numeric_property v k else JUndef)"

definition decodeLifecycleResponse :: "js_runtime \<Rightarrow> js \<Rightarrow> string + response_frame" where
  "decodeLifecycleResponse rt v =
     (let lifecycle = numericField v 13 in
      if \<not> truthy lifecycle \<or> \<not> is_object lifecycle then Inl ''missing_lifecycle''
      else let error = numericField v 6 in
        Inr \<lparr>rf_session_id = String_of rt (coalesce (numericField v 2) (JStr [])),
             rf_call_id = String_of rt (coalesce (numericField v 3) (JStr [])),
             rf_status = String_of rt (coalesce (numericField v 4) (JStr [])),
             rf_is_final = (numericField v 12 = JBool True),
             rf_lifecycle = Some
               \<lparr>le_task_id = String_of rt (coalesce (numericField lifecycle 1) (JStr [])),
                le_sequence = Number_of rt (numericField lifecycle 2),
                le_event = String_of rt (coalesce (numericField lifecycle 3) (JStr [])),
                le_is_final = (numericField lifecycle 4 = JBool True)\<rparr>,
             rf_result = numericField v 5,
             rf_error = (if truthy error \<and> is_object error
                         then Some (numericField error 1, numericField error 2) else None),
             rf_tokens_used = (if numericField v 7 = JUndef then None
                               else Some (Number_of rt (numericField v 7)))\<rparr>)"

section \<open>The server's stream\<close>

text \<open>
  \<open>_onStreamCall\<close>. The handler is an asynchronous iterator: the items it yields and whether
  it throws after them. \<open>sendable v\<close> says that the value can be encoded and framed; \<open>emit\<close>
  throws otherwise, before it counts the frame. The state is the sequence number, the flag
  \<open>terminalSent\<close> and the values written so far.
\<close>

record stream_state =
  ss_sequence :: nat
  ss_terminalSent :: bool
  ss_written :: "js list"

record stream_args =
  sa_sessionId :: string
  sa_callId :: string
  sa_taskId :: string

definition stream_emit ::
  "(js \<Rightarrow> bool) \<Rightarrow> stream_args \<Rightarrow> stream_item \<Rightarrow> stream_state \<Rightarrow> bool \<times> stream_state" where
  "stream_emit sendable args item st =
     (if ss_terminalSent st then (False, st)
      else let v = encodeLifecycleResponse (sa_sessionId args) (sa_callId args) (sa_taskId args)
                     (ss_sequence st) item in
        if \<not> sendable v then (False, st)
        else (True, \<lparr>ss_sequence = ss_sequence st + 1, ss_terminalSent = (si_status item \<noteq> Partial),
                     ss_written = ss_written st @ [v]\<rparr>))"

text \<open>The loop over the items; it ends early when \<open>emit\<close> throws.\<close>

fun emit_items ::
  "(js \<Rightarrow> bool) \<Rightarrow> stream_args \<Rightarrow> stream_item list \<Rightarrow> stream_state \<Rightarrow> bool \<times> stream_state" where
  "emit_items sendable args [] st = (True, st)"
| "emit_items sendable args (item # items) st =
     (let (ok, st') = stream_emit sendable args item st in
      if ok then emit_items sendable args items st' else (False, st'))"

definition error_item :: "string \<Rightarrow> string \<Rightarrow> stream_item" where
  "error_item code message =
     \<lparr>si_status = Error, si_result = JUndef, si_error_code = Some code, si_error_message = Some message,
      si_tokens_used = None, si_event = None\<rparr>"

definition stream_run ::
  "(js \<Rightarrow> bool) \<Rightarrow> stream_args \<Rightarrow> stream_item list \<times> bool \<Rightarrow> stream_state \<Rightarrow> bool \<times> stream_state" where
  "stream_run sendable args handler st =
     (let (items, throws) = handler; (ok, st') = emit_items sendable args items st in
      if \<not> ok \<or> throws then (False, st')
      else if \<not> ss_terminalSent st' then
        stream_emit sendable args
          (error_item ''stream_incomplete'' ''stream ended without a terminal response'') st'
      else (True, st'))"

text \<open>The result: whether the call returned (\<open>true\<close>) or threw, what was written, and the gate.\<close>

definition onStreamCall ::
  "(js \<Rightarrow> bool) \<Rightarrow> stream_args \<Rightarrow> stream_item list \<times> bool \<Rightarrow> concurrency_gate option \<Rightarrow>
   bool \<times> js list \<times> concurrency_gate option" where
  "onStreamCall sendable args handler gate =
     (let start = \<lparr>ss_sequence = 0, ss_terminalSent = False, ss_written = []\<rparr>;
          (ok, st, gate') =
            (case gate of
               None \<Rightarrow> (let (ok, st) = stream_run sendable args handler start in (ok, st, None))
             | Some g \<Rightarrow>
                 (case gate_acquire g of
                    Inl _ \<Rightarrow> (False, start, Some g)
                  | Inr g' \<Rightarrow> (let (ok, st) = stream_run sendable args handler start
                              in (ok, st, Some (gate_release g')))))
      in if ok \<or> ss_terminalSent st then (True, ss_written st, gate')
         else (let (ok', st') = stream_emit sendable args
                   (error_item ''backend_error'' ''streaming handler raised exception'') st
               in (ok', ss_written st', gate')))"

section \<open>What is sent is accepted\<close>

text \<open>
  The codec between the two ends: \<open>wire v\<close> is what the client decodes when the server encoded
  \<open>v\<close>. Documented behaviour: it is the identity on scalars, and the fields of a map are
  the fields of the decoded object.
\<close>

definition faithful_wire :: "(js \<Rightarrow> js) \<Rightarrow> bool" where
  "faithful_wire wire = ((\<forall>v. is_object v = is_object (wire v)) \<and>
     (\<forall>v k. numericField (wire v) k = wire (numericField v k)) \<and>
     (\<forall>v. \<not> is_object v \<longrightarrow> wire v = v))"

definition item_event_ok :: "stream_item \<Rightarrow> bool" where
  "item_event_ok item =
     (case si_event item of None \<Rightarrow> True
      | Some e \<Rightarrow> (status_name (si_status item), e) \<in> set
            [(''partial'', ''partial''), (''success'', ''completed''), (''error'', ''failed''),
             (''error'', ''cancelled''), (''timeout'', ''timed_out''), (''timeout'', ''expired'')])"

lemma is_object_truthy: "is_object v \<Longrightarrow> truthy v"
  by (cases v) auto

lemma decode_encoded:
  assumes "faithful_wire wire" and "item_event_ok item"
  shows "\<exists>f. decodeLifecycleResponse rt (wire (encodeLifecycleResponse s c t i item)) = Inr f \<and>
    stream_frame_ok s c t i f \<and> rf_is_final f = (si_status item \<noteq> Partial)"
proof -
  let ?v = "encodeLifecycleResponse s c t i item"
  have w: "numericField (wire v) k = wire (numericField v k)" "is_object (wire v) = is_object v" for v k
    using assms(1) by (simp_all add: faithful_wire_def)
  have scalar: "wire (JStr x) = JStr x" "wire (JNum n) = JNum n" "wire (JBool b) = JBool b" for x n b
    using assms(1) by (simp_all add: faithful_wire_def)
  have f2: "numericField ?v 2 = JStr s" and f3: "numericField ?v 3 = JStr c"
    and f4: "numericField ?v 4 = JStr (status_name (si_status item))"
    and f12: "numericField ?v 12 = JBool (si_status item \<noteq> Partial)"
    and f13: "numericField ?v 13 = JMap [(jint 1, JStr t), (jint 2, jint (int i)),
        (jint 3, JStr (or_default (si_event item) (default_event (si_status item)))),
        (jint 4, JBool (si_status item \<noteq> Partial))]"
    by (simp_all add: encodeLifecycleResponse_def numericField_def map_get_def Let_def)
  have lc: "is_object (numericField (wire ?v) 13)" "truthy (numericField (wire ?v) 13)"
    using w f13 is_object_truthy by simp_all
  have e: "(status_name (si_status item), or_default (si_event item) (default_event (si_status item))) \<in> set
            [(''partial'', ''partial''), (''success'', ''completed''), (''error'', ''failed''),
             (''error'', ''cancelled''), (''timeout'', ''timed_out''), (''timeout'', ''expired'')]"
    using assms(2) by (cases "si_event item"; cases "si_status item") (auto simp: item_event_ok_def)
  have p: "status_name st = ''partial'' \<longleftrightarrow> st = Partial" for st
    by (cases st) simp_all
  show ?thesis
    using lc e
    by (simp add: decodeLifecycleResponse_def Let_def w f2 f3 f4 f12 f13 scalar stream_frame_ok_def p
        numericField_def [of "JMap _"] map_get_def)
qed

text \<open>The state of the sender and what a client made of the frames written so far.\<close>

definition stream_inv ::
  "js_runtime \<Rightarrow> (js \<Rightarrow> js) \<Rightarrow> stream_args \<Rightarrow> stream_state \<Rightarrow> bool" where
  "stream_inv rt wire args st =
     (\<exists>fs sq. map (\<lambda>v. decodeLifecycleResponse rt (wire v)) (ss_written st) = map Inr fs \<and>
        accept_all fs (new_sequence (sa_sessionId args) (sa_callId args) (sa_taskId args)) = Inr sq \<and>
        rs_nextSequence sq = ss_sequence st \<and> rs_terminalSeen sq = ss_terminalSent st)"

lemma accept_all_ids:
  "accept_all fs sq = Inr sq' \<Longrightarrow> rs_sessionId sq' = rs_sessionId sq \<and> rs_callId sq' = rs_callId sq \<and>
   rs_taskId sq' = rs_taskId sq"
  by (induction fs arbitrary: sq) (auto simp: sequence_accept_iff split: sum.splits)

lemma stream_inv_emit [inv_intros]:
  assumes "faithful_wire wire" and "item_event_ok item" and "stream_inv rt wire args st"
  shows "stream_inv rt wire args (snd (stream_emit sendable args item st))"
proof (cases "fst (stream_emit sendable args item st)")
  case False
  then have "snd (stream_emit sendable args item st) = st"
    by (auto simp: stream_emit_def Let_def split: if_splits)
  then show ?thesis using assms(3) by simp
next
  case True
  let ?v = "encodeLifecycleResponse (sa_sessionId args) (sa_callId args) (sa_taskId args) (ss_sequence st) item"
  have st': "\<not> ss_terminalSent st" "snd (stream_emit sendable args item st) =
      \<lparr>ss_sequence = ss_sequence st + 1, ss_terminalSent = (si_status item \<noteq> Partial),
       ss_written = ss_written st @ [?v]\<rparr>"
    using True by (auto simp: stream_emit_def Let_def split: if_splits)
  obtain fs sq where fs: "map (\<lambda>v. decodeLifecycleResponse rt (wire v)) (ss_written st) = map Inr fs"
    and sq: "accept_all fs (new_sequence (sa_sessionId args) (sa_callId args) (sa_taskId args)) = Inr sq"
      "rs_nextSequence sq = ss_sequence st" "rs_terminalSeen sq = ss_terminalSent st"
    using assms(3) by (auto simp: stream_inv_def)
  obtain f where f: "decodeLifecycleResponse rt (wire ?v) = Inr f"
    "stream_frame_ok (sa_sessionId args) (sa_callId args) (sa_taskId args) (ss_sequence st) f"
    "rf_is_final f = (si_status item \<noteq> Partial)"
    using decode_encoded [OF assms(1,2)] by blast
  have "sequence_accept f sq = Inr (sq\<lparr>rs_nextSequence := Suc (rs_nextSequence sq),
      rs_terminalSeen := rf_is_final f\<rparr>)"
    using accept_all_ids [OF sq(1)] sq st'(1) f
    by (subst sequence_accept_iff) (simp add: new_sequence_def)
  then show ?thesis
    unfolding stream_inv_def st'
    using fs f sq by (intro exI [of _ "fs @ [f]"]) (simp add: accept_all_append)
qed

lemma stream_inv_items:
  "faithful_wire wire \<Longrightarrow> list_all item_event_ok items \<Longrightarrow> stream_inv rt wire args st \<Longrightarrow>
   stream_inv rt wire args (snd (emit_items sendable args items st))"
proof (induction items arbitrary: st)
  case (Cons item items)
  have "stream_inv rt wire args (snd (stream_emit sendable args item st))"
    using Cons.prems by (intro stream_inv_emit) simp_all
  then show ?case
    using Cons.IH Cons.prems by (cases "stream_emit sendable args item st") simp
qed simp

lemma error_item_ok [simp]: "item_event_ok (error_item c m)"
  by (simp add: item_event_ok_def error_item_def)

lemma stream_inv_run:
  assumes "faithful_wire wire" and "list_all item_event_ok (fst handler)" and "stream_inv rt wire args st"
  shows "stream_inv rt wire args (snd (stream_run sendable args handler st))"
proof -
  obtain items throws where h: "handler = (items, throws)" by (cases handler)
  obtain ok st' where e: "emit_items sendable args items st = (ok, st')"
    by (cases "emit_items sendable args items st")
  have "stream_inv rt wire args st'"
    using stream_inv_items [OF assms(1) _ assms(3), of items] assms(2) h e by (metis fst_conv snd_conv)
  then show ?thesis
    using stream_inv_emit [OF assms(1) error_item_ok] by (simp add: stream_run_def h e)
qed

lemma stream_emit_error_terminal:
  "fst (stream_emit sendable args (error_item c m) st) \<Longrightarrow>
   ss_terminalSent (snd (stream_emit sendable args (error_item c m) st))"
  by (auto simp: stream_emit_def error_item_def Let_def split: if_splits)

lemma stream_run_returns_terminal:
  "fst (stream_run sendable args handler st) \<Longrightarrow>
   ss_terminalSent (snd (stream_run sendable args handler st))"
  using stream_emit_error_terminal
  by (auto simp: stream_run_def Let_def split: prod.splits if_splits)

lemma acquire_release: "gate_inv g \<Longrightarrow> gate_acquire g = Inr g' \<Longrightarrow> gate_release g' = g"
  by (auto simp: gate_inv_def gate_acquire_def gate_release_def split: if_splits)

text \<open>The two ways through the gate, as one run from the start.\<close>

lemma onStreamCall_cases:
  obtains ok st where
    "stream_run sendable args handler \<lparr>ss_sequence = 0, ss_terminalSent = False, ss_written = []\<rparr> = (ok, st) \<or>
     (ok, st) = (False, \<lparr>ss_sequence = 0, ss_terminalSent = False, ss_written = []\<rparr>)"
    "fst (onStreamCall sendable args handler gate) =
       (if ok \<or> ss_terminalSent st then True
        else fst (stream_emit sendable args (error_item ''backend_error'' ''streaming handler raised exception'') st))"
    "fst (snd (onStreamCall sendable args handler gate)) =
       (if ok \<or> ss_terminalSent st then ss_written st
        else ss_written (snd (stream_emit sendable args (error_item ''backend_error'' ''streaming handler raised exception'') st)))"
proof -
  let ?start = "\<lparr>ss_sequence = 0, ss_terminalSent = False, ss_written = []\<rparr>"
  obtain ok st where r: "stream_run sendable args handler ?start = (ok, st)"
    by (cases "stream_run sendable args handler ?start")
  show ?thesis
  proof (cases "\<exists>g e. gate = Some g \<and> gate_acquire g = Inl e")
    case True
    then show ?thesis
      by (intro that [of False ?start]) (auto simp: onStreamCall_def Let_def split: prod.splits)
  next
    case False
    then show ?thesis
      using r
      by (intro that [of ok st])
         (auto simp: onStreamCall_def Let_def split: prod.splits option.splits sum.splits)
  qed
qed

lemma onStreamCall_gate:
  "case gate of None \<Rightarrow> True | Some g \<Rightarrow> gate_inv g \<Longrightarrow>
   snd (snd (onStreamCall sendable args handler gate)) = gate"
  by (auto simp: onStreamCall_def Let_def acquire_release split: prod.splits option.splits sum.splits)

lemma stream_call_inv:
  assumes "faithful_wire wire" and "list_all item_event_ok items"
  obtains st where "stream_inv rt wire args st"
    "fst (snd (onStreamCall sendable args (items, throws) gate)) = ss_written st"
    "fst (onStreamCall sendable args (items, throws) gate) \<Longrightarrow> ss_terminalSent st"
proof -
  let ?start = "\<lparr>ss_sequence = 0, ss_terminalSent = False, ss_written = []\<rparr>"
  let ?o = "onStreamCall sendable args (items, throws) gate"
  have start: "stream_inv rt wire args ?start"
    unfolding stream_inv_def by (rule exI [of _ "[]"]) (simp add: new_sequence_def)
  obtain ok st where run: "stream_run sendable args (items, throws) ?start = (ok, st) \<or> (ok, st) = (False, ?start)"
    and o1: "fst ?o = (if ok \<or> ss_terminalSent st then True
        else fst (stream_emit sendable args (error_item ''backend_error'' ''streaming handler raised exception'') st))"
    and o2: "fst (snd ?o) = (if ok \<or> ss_terminalSent st then ss_written st
        else ss_written (snd (stream_emit sendable args (error_item ''backend_error'' ''streaming handler raised exception'') st)))"
    by (rule onStreamCall_cases)
  have inv: "stream_inv rt wire args st" and ok: "ok \<Longrightarrow> ss_terminalSent st"
    using run start stream_inv_run [OF assms(1) _ start, of "(items, throws)" sendable]
      stream_run_returns_terminal [of sendable args "(items, throws)" ?start] assms(2) by auto
  show thesis
  proof (cases "ok \<or> ss_terminalSent st")
    case True
    then show ?thesis using that [of st] inv ok o2 by auto
  next
    case False
    let ?st = "snd (stream_emit sendable args (error_item ''backend_error'' ''streaming handler raised exception'') st)"
    have "fst ?o \<Longrightarrow> ss_terminalSent ?st" using False o1 stream_emit_error_terminal by simp
    then show ?thesis
      using that [of ?st] False o2 stream_inv_emit [OF assms(1) error_item_ok inv] by simp
  qed
qed

text \<open>
  C3 What the server streams, the client accepts. For any streaming handler whose events agree
  with their status (the default events do), whatever it yields after its terminal item,
  wherever it throws, whichever frame cannot be sent and whether or not the gate refuses the
  call: the frames written decode and pass the client's validation one by one, and if the
  call returned then a terminal frame was among them, so the client's stream finishes. The
  gate has as many holders afterwards as before.
\<close>

theorem stream_is_accepted:
  assumes "faithful_wire wire" and "list_all item_event_ok items"
    and "case gate of None \<Rightarrow> True | Some g \<Rightarrow> gate_inv g"
  shows "(case onStreamCall sendable args (items, throws) gate of
      (returned, written, gate') \<Rightarrow>
        (\<exists>fs sq. map (\<lambda>v. decodeLifecycleResponse rt (wire v)) written = map Inr fs \<and>
          accept_all fs (new_sequence (sa_sessionId args) (sa_callId args) (sa_taskId args)) = Inr sq \<and>
          (returned \<longrightarrow> sequence_finish sq = None)) \<and> gate' = gate)"
proof -
  obtain st where "stream_inv rt wire args st"
    "fst (snd (onStreamCall sendable args (items, throws) gate)) = ss_written st"
    "fst (onStreamCall sendable args (items, throws) gate) \<Longrightarrow> ss_terminalSent st"
    using stream_call_inv [OF assms(1,2)] by metis
  then show ?thesis
    using onStreamCall_gate [OF assms(3), of sendable args "(items, throws)"]
    by (cases "onStreamCall sendable args (items, throws) gate") (auto simp: stream_inv_def sequence_finish_def)
qed

theorem stream_is_accepted_witness:
  "(case onStreamCall (\<lambda>_. True) \<lparr>sa_sessionId = ''s'', sa_callId = ''c'', sa_taskId = ''t''\<rparr>
      ([\<lparr>si_status = Partial, si_result = JStr ''a'', si_error_code = None, si_error_message = None,
         si_tokens_used = None, si_event = None\<rparr>], True) None of
      (returned, written, gate') \<Rightarrow>
        (\<exists>fs sq. map (\<lambda>v. decodeLifecycleResponse \<lparr>rt_string = \<lambda>_. [], rt_number = \<lambda>_. NaN\<rparr> (id v)) written = map Inr fs \<and>
          accept_all fs (new_sequence ''s'' ''c'' ''t'') = Inr sq \<and>
          (returned \<longrightarrow> sequence_finish sq = None)) \<and> gate' = None)"
  using stream_is_accepted [where wire = id and gate = None and sendable = "\<lambda>_. True" and throws = True
      and rt = "\<lparr>rt_string = \<lambda>_. [], rt_number = \<lambda>_. NaN\<rparr>"
      and items = "[\<lparr>si_status = Partial, si_result = JStr ''a'', si_error_code = None, si_error_message = None,
         si_tokens_used = None, si_event = None\<rparr>]"
      and args = "\<lparr>sa_sessionId = ''s'', sa_callId = ''c'', sa_taskId = ''t''\<rparr>"]
  by (simp add: faithful_wire_def item_event_ok_def)

text \<open>
  C7 The client's validation of a stream is exactly its specification: it accepts a sequence
  of frames if and only if every frame carries the ids of the call and its own position as
  sequence number, its status, event and finality agree, and none but the last is terminal;
  and it then finishes without error if and only if the last one is.
\<close>

theorem response_sequence_spec:
  "((\<exists>sq. accept_all fs (new_sequence s c t) = Inr sq \<and> sequence_finish sq = None) \<longleftrightarrow>
     list_all (\<lambda>(i, f). stream_frame_ok s c t i f) (enumerate 0 fs) \<and>
     list_all (\<lambda>f. \<not> rf_is_final f) (butlast fs) \<and> fs \<noteq> [] \<and> rf_is_final (last fs))"
  by (auto simp: accept_all_iff sequence_finish_def)

end
