(* ===== verification/Lifecycle.thy ===== *)
theory Lifecycle imports Prelude JsValue begin

text \<open>
  The service lifecycle: \<open>src/service_lifecycle.ts\<close> (\<open>LifecycleStore\<close>,
  \<open>BoundedObserverBuffer\<close>, \<open>BackendCancellationRegistry\<close>). Every operation takes the store
  and the readings of the clock it makes and returns the store it leaves together with its
  result or error. States are strings, since a snapshot may bring any.
\<close>

section \<open>States and events\<close>

definition TERMINAL_LIFECYCLE_STATES :: "string list" where
  "TERMINAL_LIFECYCLE_STATES = [''rejected'', ''completed'', ''failed'', ''cancelled'', ''expired'']"

definition transitions :: "(string \<times> string list) list" where
  "transitions =
     [(''submitted'', [''accepted'', ''rejected'', ''expired'']),
      (''accepted'', [''queued'', ''running'', ''completed'', ''cancelled'', ''failed'', ''expired'']),
      (''queued'', [''running'', ''waiting'', ''cancelled'', ''failed'', ''expired'']),
      (''running'', [''waiting'', ''streaming'', ''completed'', ''cancelled'', ''failed'', ''expired'']),
      (''waiting'', [''queued'', ''running'', ''cancelled'', ''failed'', ''expired'']),
      (''streaming'', [''streaming'', ''waiting'', ''completed'', ''cancelled'', ''failed'', ''expired''])]"

abbreviation is_terminal :: "string \<Rightarrow> bool" where
  "is_terminal s \<equiv> s \<in> set TERMINAL_LIFECYCLE_STATES"

record lifecycle_event =
  ev_task_id :: string
  ev_sequence :: int
  ev_state :: string
  ev_is_final :: bool
  ev_observed_at_ms :: int
  ev_detail :: js

record lifecycle_record =
  lr_task_id :: string
  lr_idempotency_key :: string
  lr_request_digest :: string
  lr_state :: string
  lr_events :: "lifecycle_event list"
  lr_updated_at_ms :: int

record lifecycle_snapshot =
  sn_profile :: string
  sn_records :: "lifecycle_record list"

datatype lifecycle_error =
    LifecycleConflict string
  | UnknownLifecycleTask string
  | LifecycleResumeUnavailable lifecycle_record
  | ObserverLagged int int
  | LifecycleTypeError

definition SERVICE_LIFECYCLE_PROFILE :: string where
  "SERVICE_LIFECYCLE_PROFILE = ''urn:iicp:profile:service-lifecycle:v1''"

section \<open>LifecycleStore\<close>

record lifecycle_store =
  st_records :: "(string, lifecycle_record) jsmap"
  st_maxEvents :: int
  st_terminalStatusTtlMs :: int

definition new_store :: "int \<Rightarrow> int \<Rightarrow> lifecycle_store" where
  "new_store maxEvents ttl = \<lparr>st_records = [], st_maxEvents = maxEvents, st_terminalStatusTtlMs = ttl\<rparr>"

definition submit ::
  "lifecycle_store \<Rightarrow> int \<Rightarrow> string \<Rightarrow> string \<Rightarrow> string \<Rightarrow>
   (lifecycle_error + lifecycle_record \<times> bool) \<times> lifecycle_store" where
  "submit st now taskId idempotencyKey requestDigest =
     (case map_of (st_records st) taskId of
        Some existing \<Rightarrow>
          if lr_idempotency_key existing \<noteq> idempotencyKey \<or> lr_request_digest existing \<noteq> requestDigest
          then (Inl (LifecycleConflict ''task or idempotency identifier reused for different content''), st)
          else (Inr (existing, False), st)
      | None \<Rightarrow>
          if list_ex (\<lambda>r. lr_idempotency_key r = idempotencyKey) (js_values (st_records st))
          then (Inl (LifecycleConflict ''idempotency identifier reused with a different task identifier''), st)
          else
            let event = \<lparr>ev_task_id = taskId, ev_sequence = 0, ev_state = ''accepted'', ev_is_final = False,
                  ev_observed_at_ms = now, ev_detail = JUndef\<rparr>;
                rec = \<lparr>lr_task_id = taskId, lr_idempotency_key = idempotencyKey,
                  lr_request_digest = requestDigest, lr_state = ''accepted'', lr_events = [event],
                  lr_updated_at_ms = now\<rparr>
            in (Inr (rec, True), st\<lparr>st_records := AList.update taskId rec (st_records st)\<rparr>))"

definition status ::
  "lifecycle_store \<Rightarrow> int \<Rightarrow> string \<Rightarrow> (lifecycle_error + lifecycle_record) \<times> lifecycle_store" where
  "status st now taskId =
     (case map_of (st_records st) taskId of
        None \<Rightarrow> (Inl (UnknownLifecycleTask taskId), st)
      | Some rec \<Rightarrow>
          if is_terminal (lr_state rec) \<and> now - lr_updated_at_ms rec > st_terminalStatusTtlMs st
          then (Inl (UnknownLifecycleTask taskId), st\<lparr>st_records := AList.delete taskId (st_records st)\<rparr>)
          else (Inr rec, st))"

definition transition ::
  "lifecycle_store \<Rightarrow> int \<Rightarrow> string \<Rightarrow> string \<Rightarrow> js \<Rightarrow>
   (lifecycle_error + lifecycle_event) \<times> lifecycle_store" where
  "transition st now taskId requestedState detail =
     (case map_of (st_records st) taskId of
        None \<Rightarrow> (Inl (UnknownLifecycleTask taskId), st)
      | Some rec \<Rightarrow>
          let state = (if requestedState = ''timed_out'' then ''expired'' else requestedState) in
          if lr_state rec \<in> set inherited_names then (Inl LifecycleTypeError, st)
          else if (case map_of transitions (lr_state rec) of None \<Rightarrow> True | Some ss \<Rightarrow> state \<notin> set ss)
          then (Inl (LifecycleConflict (''illegal transition '' @ lr_state rec @ '' -> '' @ state)), st)
          else if lr_events rec = [] then (Inl LifecycleTypeError, st)
          else
            let event = \<lparr>ev_task_id = taskId, ev_sequence = ev_sequence (last (lr_events rec)) + 1,
                  ev_state = state, ev_is_final = is_terminal state, ev_observed_at_ms = now,
                  ev_detail = detail\<rparr>;
                mx = nat (max 2 (st_maxEvents st));
                rec' = rec\<lparr>lr_events := keep_last mx (lr_events rec @ [event]), lr_state := state,
                  lr_updated_at_ms := ev_observed_at_ms event\<rparr>
            in (Inr event, st\<lparr>st_records := AList.update taskId rec' (st_records st)\<rparr>))"

text \<open>\<open>cancel\<close> reads the clock up to three times.\<close>

definition cancel ::
  "lifecycle_store \<Rightarrow> int \<Rightarrow> int \<Rightarrow> int \<Rightarrow> string \<Rightarrow> (lifecycle_error + lifecycle_record) \<times> lifecycle_store" where
  "cancel st now1 now2 now3 taskId =
     (case status st now1 taskId of
        (Inl e, st1) \<Rightarrow> (Inl e, st1)
      | (Inr current, st1) \<Rightarrow>
          if \<not> is_terminal (lr_state current) then
            (case transition st1 now2 taskId ''cancelled'' (JObj [(''outcome'', JStr ''cancelled'')]) of
               (Inl e, st2) \<Rightarrow> (Inl e, st2)
             | (Inr _, st2) \<Rightarrow> status st2 now3 taskId)
          else status st1 now3 taskId)"

definition eventsAfter ::
  "lifecycle_store \<Rightarrow> int \<Rightarrow> string \<Rightarrow> int \<Rightarrow> int option \<Rightarrow>
   (lifecycle_error + lifecycle_event list) \<times> lifecycle_store" where
  "eventsAfter st now taskId afterSequence limit =
     (case status st now taskId of
        (Inl e, st') \<Rightarrow> (Inl e, st')
      | (Inr rec, st') \<Rightarrow>
          let lim = (case limit of None \<Rightarrow> st_maxEvents st | Some l \<Rightarrow> l) in
          if afterSequence \<ge> 0 \<and> lr_events rec = [] then (Inl LifecycleTypeError, st')
          else if afterSequence \<ge> 0 \<and> afterSequence + 1 < ev_sequence (hd (lr_events rec))
          then (Inl (LifecycleResumeUnavailable rec), st')
          else (Inr (take (nat (max 1 lim))
                  (filter (\<lambda>event. ev_sequence event > afterSequence) (lr_events rec))), st'))"

definition snapshot :: "lifecycle_store \<Rightarrow> lifecycle_snapshot" where
  "snapshot st = \<lparr>sn_profile = SERVICE_LIFECYCLE_PROFILE, sn_records = js_values (st_records st)\<rparr>"

text \<open>The loop of \<open>restore\<close> sets the records before the first invalid one.\<close>

fun restore_records ::
  "lifecycle_record list \<Rightarrow> lifecycle_store \<Rightarrow> (lifecycle_error + unit) \<times> lifecycle_store" where
  "restore_records [] st = (Inr (), st)"
| "restore_records (rec # recs) st =
     (if lr_events rec = [] \<or>
         \<not> list_all (\<lambda>(i, event). ev_sequence event = ev_sequence (hd (lr_events rec)) + int i)
             (enumerate 0 (lr_events rec))
      then (Inl (LifecycleConflict ''invalid lifecycle snapshot sequence''), st)
      else restore_records recs
             (st\<lparr>st_records := AList.update (lr_task_id rec) rec (st_records st)\<rparr>))"

definition restore ::
  "lifecycle_store \<Rightarrow> lifecycle_snapshot \<Rightarrow> (lifecycle_error + unit) \<times> lifecycle_store" where
  "restore st snap =
     (if sn_profile snap \<noteq> SERVICE_LIFECYCLE_PROFILE
      then (Inl (LifecycleConflict ''unsupported lifecycle snapshot profile''), st)
      else restore_records (sn_records snap) st)"

section \<open>The invariant of the store\<close>

text \<open>The states a record can be in: \<open>submitted\<close> and \<open>rejected\<close> are never stored.\<close>

definition store_states :: "string list" where
  "store_states = [''accepted'', ''queued'', ''running'', ''waiting'', ''streaming'',
     ''completed'', ''failed'', ''cancelled'', ''expired'']"

definition event_final_ok :: "lifecycle_event \<Rightarrow> bool" where
  "event_final_ok e = (ev_is_final e \<longleftrightarrow> is_terminal (ev_state e))"

definition record_ok :: "int \<Rightarrow> string \<Rightarrow> lifecycle_record \<Rightarrow> bool" where
  "record_ok maxEvents k r =
     (lr_task_id r = k \<and> lr_events r \<noteq> [] \<and>
      consecutive (map ev_sequence (lr_events r)) \<and> 0 \<le> ev_sequence (hd (lr_events r)) \<and>
      length (lr_events r) \<le> nat (max 2 maxEvents) \<and>
      list_all (\<lambda>e. ev_task_id e = k \<and> event_final_ok e) (lr_events r) \<and>
      list_all (\<lambda>e. \<not> ev_is_final e) (butlast (lr_events r)) \<and>
      ev_state (last (lr_events r)) = lr_state r \<and>
      ev_observed_at_ms (last (lr_events r)) = lr_updated_at_ms r \<and>
      lr_state r \<in> set store_states)"

definition store_inv :: "lifecycle_store \<Rightarrow> bool" where
  "store_inv st =
     (distinct (js_keys (st_records st)) \<and>
      list_all (\<lambda>(k, r). record_ok (st_maxEvents st) k r) (st_records st) \<and>
      distinct (map (\<lambda>kv. lr_idempotency_key (snd kv)) (st_records st)))"

lemma store_inv_record:
  "store_inv st \<Longrightarrow> map_of (st_records st) k = Some r \<Longrightarrow> record_ok (st_maxEvents st) k r"
  by (auto simp: store_inv_def list_all_iff dest: map_of_SomeD)

text \<open>Replacing a value by one with the same image leaves the list of images.\<close>

lemma values_update_same:
  "map_of m k = Some v \<Longrightarrow> f v' = f v \<Longrightarrow> distinct (js_keys m) \<Longrightarrow>
   map (\<lambda>kv. f (snd kv)) (AList.update k v' m) = map (\<lambda>kv. f (snd kv)) m"
proof (induction m)
  case (Cons kv m)
  then show ?case by (cases kv) auto
qed simp

lemma distinct_values_delete:
  "distinct (map (\<lambda>kv. f (snd kv)) m) \<Longrightarrow> distinct (map (\<lambda>kv. f (snd kv)) (AList.delete k m))"
  by (simp add: AList.delete_eq distinct_map_filter)

lemma store_inv_new [inv_intros]: "store_inv (new_store m ttl)"
  by (simp add: store_inv_def new_store_def)

lemma store_inv_submit [inv_intros]:
  assumes "store_inv st"
  shows "store_inv (snd (submit st now taskId key digest))"
proof (cases "map_of (st_records st) taskId")
  case (Some r)
  then show ?thesis using assms by (simp add: submit_def)
next
  case None
  then have "\<not> js_has (st_records st) taskId" by (simp add: js_has_def)
  moreover have "record_ok (st_maxEvents st) taskId
      \<lparr>lr_task_id = taskId, lr_idempotency_key = key, lr_request_digest = digest, lr_state = ''accepted'',
       lr_events = [\<lparr>ev_task_id = taskId, ev_sequence = 0, ev_state = ''accepted'', ev_is_final = False,
         ev_observed_at_ms = now, ev_detail = JUndef\<rparr>], lr_updated_at_ms = now\<rparr>"
    by (simp add: record_ok_def event_final_ok_def TERMINAL_LIFECYCLE_STATES_def store_states_def)
  moreover have "taskId \<notin> set (js_keys (st_records st))"
    using None by (simp add: map_of_eq_None_iff)
  moreover have "\<not> list_ex (\<lambda>r. lr_idempotency_key r = key) (js_values (st_records st)) \<Longrightarrow>
      key \<notin> (\<lambda>kv. lr_idempotency_key (snd kv)) ` set (st_records st)"
    by (auto simp: list_ex_iff)
  ultimately show ?thesis
    using assms by (simp add: submit_def None Let_def store_inv_def js_set_new)
qed

lemma store_inv_status [inv_intros]:
  "store_inv st \<Longrightarrow> store_inv (snd (status st now taskId))"
  by (auto simp: status_def store_inv_def list_all_delete distinct_values_delete split: option.splits)

lemma record_okI:
  assumes "k = lr_task_id r" "es \<noteq> []" "consecutive (map ev_sequence es)" "0 \<le> ev_sequence (hd es)"
    "length es \<le> nat (max 2 m)" "list_all (\<lambda>e. ev_task_id e = k \<and> event_final_ok e) es"
    "list_all (\<lambda>e. \<not> ev_is_final e) (butlast es)" "ev_state (last es) = s"
    "ev_observed_at_ms (last es) = t" "s \<in> set store_states"
  shows "record_ok m k (r\<lparr>lr_events := es, lr_state := s, lr_updated_at_ms := t\<rparr>)"
  using assms unfolding record_ok_def by simp

lemma record_ok_extend:
  assumes ok: "record_ok maxEvents k r" and nt: "\<not> is_terminal (lr_state r)"
    and s: "s \<in> set store_states"
  shows "record_ok maxEvents k
    (r\<lparr>lr_events := keep_last (nat (max 2 maxEvents)) (lr_events r @
        [\<lparr>ev_task_id = k, ev_sequence = ev_sequence (last (lr_events r)) + 1, ev_state = s,
          ev_is_final = is_terminal s, ev_observed_at_ms = now, ev_detail = d\<rparr>]),
       lr_state := s, lr_updated_at_ms := now\<rparr>)"
proof -
  let ?e = "\<lparr>ev_task_id = k, ev_sequence = ev_sequence (last (lr_events r)) + 1, ev_state = s,
          ev_is_final = is_terminal s, ev_observed_at_ms = now, ev_detail = d\<rparr>"
  let ?n = "nat (max 2 maxEvents)" let ?all = "lr_events r @ [?e]"
  let ?es = "keep_last ?n ?all"
  have n: "0 < ?n" by simp
  obtain pre where pre: "?all = pre @ ?es" using keep_last_suffix by metis
  have ne: "?es \<noteq> []" by (rule keep_last_not_Nil [OF n]) simp
  have c: "consecutive (map ev_sequence ?all)"
    using ok by (simp add: record_ok_def consecutive_append1 last_map)
  obtain front l where fl: "lr_events r = front @ [l]"
    using ok by (cases "lr_events r" rule: rev_cases) (auto simp: record_ok_def)
  have "list_all (\<lambda>e. \<not> ev_is_final e) front" "\<not> ev_is_final l"
    using ok nt by (simp_all add: record_ok_def fl event_final_ok_def)
  then have "list_all (\<lambda>e. \<not> ev_is_final e) (lr_events r)"
    by (simp add: fl)
  moreover have "butlast ?all = pre @ butlast ?es"
    using pre ne by (metis butlast_append)
  ultimately have nf: "list_all (\<lambda>e. \<not> ev_is_final e) (butlast ?es)"
    by (metis butlast_snoc list_all_append)
  have nonneg: "\<forall>e \<in> set ?all. 0 \<le> ev_sequence e"
  proof -
    have "\<forall>e \<in> set (lr_events r). 0 \<le> ev_sequence e"
      using ok consecutive_hd_le [of "ev_sequence (hd (lr_events r))" "map ev_sequence (tl (lr_events r))"]
      by (cases "lr_events r") (force simp: record_ok_def)+
    moreover have "last (lr_events r) \<in> set (lr_events r)" using ok by (simp add: record_ok_def)
    ultimately show ?thesis by force
  qed
  have "hd ?es \<in> set ?all" by (meson ne hd_in_set set_keep_last subsetD)
  then have hd: "0 \<le> ev_sequence (hd ?es)" using nonneg by blast
  have "list_all (\<lambda>e. ev_task_id e = k \<and> event_final_ok e) ?all"
    using ok by (simp add: record_ok_def event_final_ok_def)
  then have tasks: "list_all (\<lambda>e. ev_task_id e = k \<and> event_final_ok e) ?es"
    by (rule list_all_keep_last)
  have last: "last ?es = ?e" using last_keep_last [OF n, of ?all] by simp
  have len: "length ?es \<le> ?n" using length_keep_last [of ?n ?all] by simp
  have cons: "consecutive (map ev_sequence ?es)" using c by (rule consecutive_keep_last)
  have id: "k = lr_task_id r" using ok by (simp add: record_ok_def)
  show ?thesis
    by (rule record_okI [OF id ne cons hd len tasks nf]) (simp_all only: last lifecycle_event.select_convs s)
qed

lemma transition_targets:
  "map_of transitions s = Some ss \<Longrightarrow> s' \<in> set ss \<Longrightarrow> s \<noteq> ''submitted'' \<Longrightarrow>
   s' \<in> set store_states \<and> \<not> is_terminal s"
  by (auto simp: transitions_def TERMINAL_LIFECYCLE_STATES_def store_states_def split: if_splits)

lemma transition_ok:
  assumes "store_inv st" and "transition st now taskId req detail = (Inr e, st')"
  obtains r s where "map_of (st_records st) taskId = Some r" "\<not> is_terminal (lr_state r)"
    "s = (if req = ''timed_out'' then ''expired'' else req)" "s \<in> set store_states"
    "e = \<lparr>ev_task_id = taskId, ev_sequence = ev_sequence (last (lr_events r)) + 1, ev_state = s,
          ev_is_final = is_terminal s, ev_observed_at_ms = now, ev_detail = detail\<rparr>"
    "st' = st\<lparr>st_records := AList.update taskId
       (r\<lparr>lr_events := keep_last (nat (max 2 (st_maxEvents st))) (lr_events r @ [e]),
          lr_state := s, lr_updated_at_ms := now\<rparr>) (st_records st)\<rparr>"
proof -
  obtain r where r: "map_of (st_records st) taskId = Some r"
    using assms(2) by (auto simp: transition_def split: option.splits)
  have ok: "record_ok (st_maxEvents st) taskId r" using assms(1) r by (rule store_inv_record)
  have "lr_state r \<noteq> ''submitted''"
    using ok by (auto simp: record_ok_def store_states_def)
  then show ?thesis
    using assms(2) r transition_targets [of "lr_state r"]
    by (intro that [OF r, of "if req = ''timed_out'' then ''expired'' else req"])
       (auto simp: transition_def Let_def split: option.splits if_splits)
qed

lemma transition_error: "fst (transition st now taskId req detail) = Inl e \<Longrightarrow>
   snd (transition st now taskId req detail) = st"
  by (auto simp: transition_def Let_def split: option.splits if_splits)

lemma store_inv_transition [inv_intros]:
  assumes "store_inv st"
  shows "store_inv (snd (transition st now taskId req detail))"
proof (cases "transition st now taskId req detail")
  case (Pair res st')
  show ?thesis
  proof (cases res)
    case (Inl e)
    then show ?thesis using transition_error [of st now taskId req detail e] Pair assms by simp
  next
    case (Inr e)
    obtain r s where r: "map_of (st_records st) taskId = Some r" "\<not> is_terminal (lr_state r)"
      and s: "s \<in> set store_states"
      and e: "e = \<lparr>ev_task_id = taskId, ev_sequence = ev_sequence (last (lr_events r)) + 1, ev_state = s,
          ev_is_final = is_terminal s, ev_observed_at_ms = now, ev_detail = detail\<rparr>"
      and st': "st' = st\<lparr>st_records := AList.update taskId
       (r\<lparr>lr_events := keep_last (nat (max 2 (st_maxEvents st))) (lr_events r @ [e]),
          lr_state := s, lr_updated_at_ms := now\<rparr>) (st_records st)\<rparr>"
      using transition_ok [OF assms] Pair Inr by metis
    have "record_ok (st_maxEvents st) taskId (r\<lparr>lr_events := keep_last (nat (max 2 (st_maxEvents st))) (lr_events r @ [e]),
          lr_state := s, lr_updated_at_ms := now\<rparr>)"
      unfolding e by (rule record_ok_extend [OF store_inv_record [OF assms r(1)] r(2) s])
    then show ?thesis
      using assms values_update_same [OF r(1), of lr_idempotency_key]
      by (simp add: Pair st' store_inv_def list_all_update)
  qed
qed

lemma store_inv_cancel [inv_intros]:
  assumes "store_inv st"
  shows "store_inv (snd (cancel st n1 n2 n3 taskId))"
proof -
  let ?d = "JObj [(''outcome'', JStr ''cancelled'')]"
  have 1: "store_inv (snd (status st n1 taskId))" using assms by (rule store_inv_status)
  have 2: "store_inv (snd (transition (snd (status st n1 taskId)) n2 taskId ''cancelled'' ?d))"
    using 1 by (rule store_inv_transition)
  show ?thesis
    using 1 2 store_inv_status [OF 1, of n3 taskId] store_inv_status [OF 2, of n3 taskId]
    by (auto simp: cancel_def split: prod.splits sum.splits)
qed

lemma store_inv_eventsAfter [inv_intros]:
  "store_inv st \<Longrightarrow> store_inv (snd (eventsAfter st now taskId a l))"
  using store_inv_status [of st now taskId]
  by (auto simp: eventsAfter_def Let_def split: prod.splits sum.splits)

section \<open>Runs of the store\<close>

datatype store_op =
    Submit int string string string
  | Status int string
  | Transition int string string js
  | Cancel int int int string
  | EventsAfter int string int "int option"

fun store_step :: "store_op \<Rightarrow> lifecycle_store \<Rightarrow> lifecycle_store" where
  "store_step (Submit now t k d) st = snd (submit st now t k d)"
| "store_step (Status now t) st = snd (status st now t)"
| "store_step (Transition now t s d) st = snd (transition st now t s d)"
| "store_step (Cancel n1 n2 n3 t) st = snd (cancel st n1 n2 n3 t)"
| "store_step (EventsAfter now t a l) st = snd (eventsAfter st now t a l)"

lemma store_inv_step [inv_intros]: "store_inv st \<Longrightarrow> store_inv (store_step opn st)"
  by (cases opn) (auto intro: inv_intros)

lemma store_inv_run: "store_inv st \<Longrightarrow> store_inv (fold store_step ops st)"
  by (induction ops arbitrary: st) (auto intro: inv_intros)

lemma fold_new: "store_inv (fold store_step ops (new_store m ttl))"
  by (rule store_inv_run [OF store_inv_new])

lemma maxEvents_step [simp]: "st_maxEvents (store_step opn st) = st_maxEvents st"
  by (cases opn)
     (auto simp: submit_def status_def transition_def cancel_def eventsAfter_def Let_def
        split: option.splits prod.splits sum.splits if_splits)

lemma maxEvents_run [simp]: "st_maxEvents (fold store_step ops st) = st_maxEvents st"
  by (induction ops arbitrary: st) simp_all

section \<open>BoundedObserverBuffer\<close>

record observer_buffer =
  ob_events :: "lifecycle_event list"
  ob_observers :: "string list"
  ob_terminal :: bool
  ob_capacity :: int
  ob_maxObservers :: int

definition new_observer_buffer :: "int \<Rightarrow> int \<Rightarrow> observer_buffer" where
  "new_observer_buffer capacity maxObservers =
     \<lparr>ob_events = [], ob_observers = [], ob_terminal = False,
      ob_capacity = max 1 capacity, ob_maxObservers = max 1 maxObservers\<rparr>"

definition subscribe :: "observer_buffer \<Rightarrow> string \<Rightarrow> (lifecycle_error + unit) \<times> observer_buffer" where
  "subscribe ob observerId =
     (if observerId \<notin> set (ob_observers ob) \<and> int (length (ob_observers ob)) \<ge> ob_maxObservers ob
      then (Inl (LifecycleConflict ''observer capacity exhausted''), ob)
      else (Inr (), ob\<lparr>ob_observers := (if observerId \<in> set (ob_observers ob) then ob_observers ob
                                       else ob_observers ob @ [observerId])\<rparr>))"

definition disconnect :: "observer_buffer \<Rightarrow> string \<Rightarrow> observer_buffer" where
  "disconnect ob observerId = ob\<lparr>ob_observers := filter (\<lambda>i. i \<noteq> observerId) (ob_observers ob)\<rparr>"

definition publish :: "observer_buffer \<Rightarrow> lifecycle_event \<Rightarrow> (lifecycle_error + unit) \<times> observer_buffer" where
  "publish ob event =
     (if ob_events ob \<noteq> [] \<and> ev_sequence event \<le> ev_sequence (last (ob_events ob))
      then (Inl (LifecycleConflict ''observer sequence must increase''), ob)
      else (Inr (), ob\<lparr>ob_events := keep_last (nat (ob_capacity ob)) (ob_events ob @ [event]),
                       ob_terminal := ev_is_final event\<rparr>))"

definition poll :: "observer_buffer \<Rightarrow> int \<Rightarrow> lifecycle_error + lifecycle_event list" where
  "poll ob afterSequence =
     (if ob_events ob \<noteq> [] \<and> afterSequence + 1 < ev_sequence (hd (ob_events ob))
      then Inl (ObserverLagged (ev_sequence (hd (ob_events ob))) (ev_sequence (last (ob_events ob))))
      else Inr (filter (\<lambda>event. ev_sequence event > afterSequence) (ob_events ob)))"

definition buffer_closed :: "observer_buffer \<Rightarrow> bool" where
  "buffer_closed ob = ob_terminal ob"

definition observerCount :: "observer_buffer \<Rightarrow> nat" where
  "observerCount ob = length (ob_observers ob)"

text \<open>The unbounded hist the buffer stands for: every event that was published.\<close>

fun publish_all :: "observer_buffer \<Rightarrow> lifecycle_event list \<Rightarrow> lifecycle_event list \<times> observer_buffer" where
  "publish_all ob [] = ([], ob)"
| "publish_all ob (e # es) =
     (case publish ob e of
        (Inl _, ob') \<Rightarrow> publish_all ob' es
      | (Inr _, ob') \<Rightarrow> (let (hist, ob'') = publish_all ob' es in (e # hist, ob'')))"

definition buffer_of :: "observer_buffer \<Rightarrow> lifecycle_event list \<Rightarrow> bool" where
  "buffer_of ob hist =
     (1 \<le> ob_capacity ob \<and> ob_events ob = keep_last (nat (ob_capacity ob)) hist \<and>
      sorted_wrt (\<lambda>a b. ev_sequence a < ev_sequence b) hist)"

lemma keep_last_append1: "0 < n \<Longrightarrow> keep_last n (keep_last n xs @ [x]) = keep_last n (xs @ [x])"
  by (auto simp: keep_last_def Suc_diff_le)

lemma buffer_of_publish:
  assumes "buffer_of ob hist" and "publish ob e = (Inr (), ob')"
  shows "buffer_of ob' (hist @ [e]) \<and> ob_capacity ob' = ob_capacity ob"
proof -
  have n: "0 < nat (ob_capacity ob)" using assms(1) by (simp add: buffer_of_def)
  have "\<forall>a \<in> set hist. ev_sequence a < ev_sequence e"
  proof (cases hist rule: rev_cases)
    case (snoc front l)
    then have "last (ob_events ob) = l" "ob_events ob \<noteq> []"
      using assms(1) last_keep_last [OF n, of hist] keep_last_not_Nil [OF n, of hist]
      by (simp_all add: buffer_of_def)
    then have "ev_sequence l < ev_sequence e"
      using assms(2) by (auto simp: publish_def split: if_splits)
    then show ?thesis
      using assms(1) snoc by (auto simp: buffer_of_def sorted_wrt_append)
  qed simp
  then show ?thesis
    using assms n by (auto simp: buffer_of_def publish_def keep_last_append1 sorted_wrt_append split: if_splits)
qed

lemma buffer_of_all:
  "buffer_of ob hist \<Longrightarrow> publish_all ob es = (new, ob') \<Longrightarrow> buffer_of ob' (hist @ new)"
proof (induction es arbitrary: ob hist new)
  case (Cons e es)
  obtain res ob1 where p: "publish ob e = (res, ob1)" by (cases "publish ob e")
  show ?case
  proof (cases res)
    case (Inl x)
    then have "ob1 = ob" using p by (auto simp: publish_def split: if_splits)
    then show ?thesis using Cons p Inl by auto
  next
    case (Inr u)
    obtain hist' where "publish_all ob1 es = (hist', ob')" and new: "new = e # hist'"
      using Cons.prems(2) p Inr by (auto split: prod.splits)
    then show ?thesis
      using Cons.IH [of ob1 "hist @ [e]" hist'] buffer_of_publish [OF Cons.prems(1), of e ob1] p Inr by simp
  qed
qed simp

lemma keep_last_filter:
  assumes "sorted_wrt (\<lambda>a b. f a < f b) hist" and "keep_last n hist \<noteq> [] \<longrightarrow> f (hd (keep_last n hist)) \<le> a + 1"
    and "0 < n"
  shows "filter (\<lambda>e. (a::int) < f e) (keep_last n hist) = filter (\<lambda>e. a < f e) hist"
proof -
  obtain pre where pre: "hist = pre @ keep_last n hist" using keep_last_suffix by metis
  have "\<not> a < f x" if "x \<in> set pre" for x
  proof -
    have "hist \<noteq> []" using that by (subst pre) auto
    then have "keep_last n hist \<noteq> []" by (rule keep_last_not_Nil [OF assms(3)])
    then have "f x < f (hd (keep_last n hist))"
      using assms(1) that pre by (metis hd_in_set sorted_wrt_append)
    then show ?thesis using assms(2) \<open>keep_last n hist \<noteq> []\<close> by simp
  qed
  then have "filter (\<lambda>e. a < f e) pre = []" by (simp add: filter_empty_conv)
  then show ?thesis by (subst (2) pre) (simp del: filter_append add: filter_append [of _ pre])
qed

section \<open>BackendCancellationRegistry\<close>

datatype cancellation_level = CancelRequested | TransportAborted | BackendAcknowledged | ExecutionStopped
  | CancelUnsupportedLevel | AlreadyTerminalLevel

datatype cancellation_outcome = CancelSignalled | CancelUnsupported | AlreadyTerminal

record cancellation_evidence =
  ce_task_id :: string
  ce_outcome :: cancellation_level
  ce_cleanup_complete :: bool

record 'h cancellation_registry =
  cr_handlers :: "(string, 'h) jsmap"
  cr_signalled :: "string list"
  cr_evidence :: "(string, cancellation_evidence) jsmap"
  cr_order :: "string list"

definition new_registry :: "'h cancellation_registry" where
  "new_registry = \<lparr>cr_handlers = [], cr_signalled = [], cr_evidence = [], cr_order = []\<rparr>"

definition set_remove :: "string \<Rightarrow> string list \<Rightarrow> string list" where
  "set_remove x xs = filter (\<lambda>y. y \<noteq> x) xs"

definition register_handler :: "string \<Rightarrow> 'h \<Rightarrow> 'h cancellation_registry \<Rightarrow> 'h cancellation_registry" where
  "register_handler taskId handler cr =
     cr\<lparr>cr_handlers := AList.update taskId handler (cr_handlers cr),
        cr_signalled := set_remove taskId (cr_signalled cr)\<rparr>"

text \<open>\<open>remember\<close>: a new task may push the oldest one out; an empty oldest id is not deleted.\<close>

definition remember :: "cancellation_evidence \<Rightarrow> 'h cancellation_registry \<Rightarrow> 'h cancellation_registry" where
  "remember ev cr =
     (let cr1 =
        (if \<not> js_has (cr_evidence cr) (ce_task_id ev) then
           let order = cr_order cr @ [ce_task_id ev] in
           if length order > 256 then
             (let oldest = hd order in
              cr\<lparr>cr_order := tl order,
                 cr_evidence := (if oldest \<noteq> [] then AList.delete oldest (cr_evidence cr) else cr_evidence cr)\<rparr>)
           else cr\<lparr>cr_order := order\<rparr>
         else cr)
      in cr1\<lparr>cr_evidence := AList.update (ce_task_id ev) ev (cr_evidence cr1)\<rparr>)"

definition report ::
  "string \<Rightarrow> cancellation_level \<Rightarrow> 'h cancellation_registry \<Rightarrow> cancellation_evidence \<times> 'h cancellation_registry" where
  "report taskId outcome cr =
     (let ev = \<lparr>ce_task_id = taskId, ce_outcome = outcome,
                ce_cleanup_complete = (case map_of (cr_evidence cr) taskId of
                  None \<Rightarrow> False | Some current \<Rightarrow> ce_cleanup_complete current)\<rparr>
      in (ev, remember ev cr))"

definition complete ::
  "string \<Rightarrow> cancellation_level option \<Rightarrow> 'h cancellation_registry \<Rightarrow>
   cancellation_evidence \<times> 'h cancellation_registry" where
  "complete taskId outcome cr =
     (let cr1 = cr\<lparr>cr_handlers := AList.delete taskId (cr_handlers cr),
                   cr_signalled := set_remove taskId (cr_signalled cr)\<rparr>;
          current = map_of (cr_evidence cr1) taskId
      in if current = None \<and> outcome = None
         then (\<lparr>ce_task_id = taskId, ce_outcome = CancelUnsupportedLevel, ce_cleanup_complete = True\<rparr>, cr1)
         else
           let ev = \<lparr>ce_task_id = taskId,
                 ce_outcome = (case outcome of Some l \<Rightarrow> l
                   | None \<Rightarrow> (case current of Some c \<Rightarrow> ce_outcome c | None \<Rightarrow> CancelUnsupportedLevel)),
                 ce_cleanup_complete = True\<rparr>
           in (ev, remember ev cr1))"

definition evidence :: "string \<Rightarrow> 'h cancellation_registry \<Rightarrow> cancellation_evidence option" where
  "evidence taskId cr = map_of (cr_evidence cr) taskId"

text \<open>
  \<open>request\<close> calls the task's handler, which may itself use the registry: \<open>call\<close> gives the
  registry it leaves and whether it returned \<open>false\<close>, or \<open>None\<close> when it threw; the request
  then throws as well.
\<close>

definition request ::
  "('h \<Rightarrow> 'h cancellation_registry \<Rightarrow> bool option \<times> 'h cancellation_registry) \<Rightarrow> string \<Rightarrow> string \<Rightarrow>
   'h cancellation_registry \<Rightarrow> cancellation_outcome option \<times> 'h cancellation_registry" where
  "request call taskId state cr =
     (if is_terminal state then (Some AlreadyTerminal, snd (complete taskId (Some AlreadyTerminalLevel) cr))
      else if taskId \<in> set (cr_signalled cr) then (Some CancelSignalled, cr)
      else case map_of (cr_handlers cr) taskId of
        None \<Rightarrow> (Some CancelUnsupported, snd (complete taskId (Some CancelUnsupportedLevel) cr))
      | Some handler \<Rightarrow>
          (case call handler cr of
             (None, cr1) \<Rightarrow> (None, cr1)
           | (Some refused, cr1) \<Rightarrow>
               if refused then (Some CancelUnsupported, snd (complete taskId (Some CancelUnsupportedLevel) cr1))
               else
                 let cr2 = cr1\<lparr>cr_signalled := (if taskId \<in> set (cr_signalled cr1) then cr_signalled cr1
                                               else cr_signalled cr1 @ [taskId])\<rparr>
                 in (Some CancelSignalled, snd (report taskId CancelRequested cr2))))"

text \<open>The evidence of the registry: one entry per remembered task, at most 256 of them.\<close>

definition evidence_inv :: "'h cancellation_registry \<Rightarrow> bool" where
  "evidence_inv cr =
     (distinct (js_keys (cr_evidence cr)) \<and> distinct (cr_order cr) \<and> length (cr_order cr) \<le> 256 \<and>
      set (cr_order cr) \<subseteq> set (js_keys (cr_evidence cr)) \<and>
      set (js_keys (cr_evidence cr)) \<subseteq> insert [] (set (cr_order cr)))"

lemma evidence_inv_remember [inv_intros]:
  assumes "evidence_inv cr"
  shows "evidence_inv (remember ev cr)"
proof (cases "js_has (cr_evidence cr) (ce_task_id ev)")
  case True
  then show ?thesis
    using assms by (auto simp: remember_def evidence_inv_def js_keys_update js_has_iff)
next
  case False
  then have new: "ce_task_id ev \<notin> set (cr_order cr)" "ce_task_id ev \<notin> set (js_keys (cr_evidence cr))"
    using assms by (auto simp: evidence_inv_def js_has_iff)
  show ?thesis
  proof (cases "cr_order cr")
    case Nil
    then show ?thesis
      using assms False new by (auto simp: remember_def Let_def evidence_inv_def js_keys_update)
  next
    case (Cons oldest rest)
    then show ?thesis
      using assms False new
      by (auto simp: remember_def Let_def evidence_inv_def js_keys_update js_keys_delete)
  qed
qed

lemma evidence_inv_cong:
  "cr_evidence cr' = cr_evidence cr \<Longrightarrow> cr_order cr' = cr_order cr \<Longrightarrow> evidence_inv cr' = evidence_inv cr"
  by (simp add: evidence_inv_def)

lemma evidence_inv_report [inv_intros]: "evidence_inv cr \<Longrightarrow> evidence_inv (snd (report t l cr))"
  by (simp add: report_def Let_def evidence_inv_remember)

lemma evidence_inv_complete [inv_intros]:
  assumes "evidence_inv cr"
  shows "evidence_inv (snd (complete t l cr))"
proof -
  let ?cr1 = "cr\<lparr>cr_handlers := AList.delete t (cr_handlers cr), cr_signalled := set_remove t (cr_signalled cr)\<rparr>"
  have "evidence_inv ?cr1" using assms by (simp add: evidence_inv_def)
  then show ?thesis by (simp add: complete_def Let_def evidence_inv_remember)
qed

lemma evidence_inv_request [inv_intros]:
  assumes "evidence_inv cr" and "\<And>h c. evidence_inv c \<Longrightarrow> evidence_inv (snd (call h c))"
  shows "evidence_inv (snd (request call t s cr))"
proof (cases "map_of (cr_handlers cr) t")
  case None
  then show ?thesis using assms(1) by (simp add: request_def evidence_inv_complete)
next
  case (Some h)
  obtain r c where c: "call h cr = (r, c)" by (cases "call h cr")
  then have "evidence_inv c" using assms by (metis snd_conv)
  moreover have "evidence_inv (c\<lparr>cr_signalled := xs\<rparr>)" for xs
    using \<open>evidence_inv c\<close> by (simp add: evidence_inv_def)
  ultimately show ?thesis
    using assms(1) Some c
    by (auto simp: request_def Let_def evidence_inv_complete evidence_inv_report split: option.splits)
qed

lemma evidence_bound: "evidence_inv cr \<Longrightarrow> length (cr_evidence cr) \<le> 257"
proof -
  assume inv: "evidence_inv cr"
  then have d: "distinct (js_keys (cr_evidence cr))" and l: "length (cr_order cr) \<le> 256"
    by (auto simp: evidence_inv_def)
  have "card (set (js_keys (cr_evidence cr))) \<le> card (insert [] (set (cr_order cr)))"
    using inv by (intro card_mono) (auto simp: evidence_inv_def)
  also have "card (insert [] (set (cr_order cr))) \<le> Suc (length (cr_order cr))"
    using card_length [of "cr_order cr"] by (simp add: card_insert_if)
  finally show ?thesis using d l distinct_card [OF d] by simp
qed

section \<open>Properties\<close>

lemma status_ok:
  "status st now t = (Inr r, st') \<Longrightarrow> map_of (st_records st) t = Some r \<and> st' = st"
  by (auto simp: status_def split: option.splits if_splits)

lemma terminal_no_transition:
  "is_terminal s \<Longrightarrow> map_of transitions s = None \<and> s \<notin> set inherited_names"
proof -
  have "list_all (\<lambda>s. map_of transitions s = None \<and> s \<notin> set inherited_names) TERMINAL_LIFECYCLE_STATES"
    by (simp add: TERMINAL_LIFECYCLE_STATES_def transitions_def inherited_names_def)
  then show "is_terminal s \<Longrightarrow> map_of transitions s = None \<and> s \<notin> set inherited_names"
    by (simp add: list_all_iff)
qed


text \<open>
  Cancelling settles a task for good: after a cancel that returned, the task is in a terminal
  state, no transition of any kind is accepted any more or changes the store, and cancelling
  again while the record is retained returns the same record and changes nothing.
\<close>

lemma cancel_settles:
  assumes "cancel st n1 n2 n3 taskId = (Inr r, st')"
  shows "is_terminal (lr_state r) \<and>
    transition st' now taskId req detail =
      (Inl (LifecycleConflict (''illegal transition '' @ lr_state r @ '' -> '' @
         (if req = ''timed_out'' then ''expired'' else req))), st') \<and>
    (m1 - lr_updated_at_ms r \<le> st_terminalStatusTtlMs st' \<and> m3 - lr_updated_at_ms r \<le> st_terminalStatusTtlMs st' \<longrightarrow>
     cancel st' m1 m2 m3 taskId = (Inr r, st'))"
proof -
  have r: "map_of (st_records st') taskId = Some r \<and> is_terminal (lr_state r)"
  proof (cases "status st n1 taskId")
    case (Pair res st1)
    then obtain current where c: "status st n1 taskId = (Inr current, st1)"
      using assms by (cases res) (auto simp: cancel_def)
    then have st1: "st1 = st" "map_of (st_records st) taskId = Some current"
      using status_ok by blast+
    show ?thesis
    proof (cases "is_terminal (lr_state current)")
      case True
      then show ?thesis
        using assms c st1 status_ok [of st n3 taskId r st'] by (auto simp: cancel_def)
    next
      case False
      then obtain e st2 where t: "transition st n2 taskId ''cancelled'' (JObj [(''outcome'', JStr ''cancelled'')]) = (Inr e, st2)"
        and s: "status st2 n3 taskId = (Inr r, st')"
        using assms c st1 by (auto simp: cancel_def split: prod.splits sum.splits)
      have "\<exists>rec. map_of (st_records st2) taskId = Some rec \<and> lr_state rec = ''cancelled''"
        using t st1 by (auto simp: transition_def Let_def split: if_splits option.splits)
      then show ?thesis
        using status_ok [OF s] by (auto simp: TERMINAL_LIFECYCLE_STATES_def)
    qed
  qed
  then have "transition st' now taskId req detail =
      (Inl (LifecycleConflict (''illegal transition '' @ lr_state r @ '' -> '' @
         (if req = ''timed_out'' then ''expired'' else req))), st')"
    using terminal_no_transition [of "lr_state r"] by (simp add: transition_def Let_def)
  then show ?thesis using r by (auto simp: cancel_def status_def)
qed

lemma cancel_settles_example:
  "fst (transition (snd (cancel (snd (submit (new_store 8 100) 0 ''t'' ''k'' ''d'')) 1 2 3 ''t'')) 4 ''t'' ''running'' JUndef)
    = Inl (LifecycleConflict ''illegal transition cancelled -> running'')"
proof -
  let ?st = "snd (submit (new_store 8 100) 0 ''t'' ''k'' ''d'')"
  let ?r = "the (map_of (st_records (snd (cancel ?st 1 2 3 ''t''))) ''t'')"
  have c: "cancel ?st 1 2 3 ''t'' = (Inr ?r, snd (cancel ?st 1 2 3 ''t''))" and s: "lr_state ?r = ''cancelled''"
    by (simp_all add: submit_def new_store_def cancel_def status_def transition_def Let_def
        TERMINAL_LIFECYCLE_STATES_def transitions_def inherited_names_def keep_last_def)
  show ?thesis
    using cancel_settles [OF c, of 4 "''running''" JUndef] s by simp
qed

lemma consecutive_filter:
  "consecutive xs \<Longrightarrow> xs \<noteq> [] \<Longrightarrow> hd xs \<le> a + 1 \<Longrightarrow> filter (\<lambda>x. a < x) xs = [a + 1..last xs]"
proof (induction xs rule: rev_induct)
  case (snoc x xs)
  show ?case
  proof (cases "xs = []")
    case True
    then show ?thesis using snoc.prems by (cases "x = a + 1") auto
  next
    case False
    then have x: "x = last xs + 1" and IH: "filter (\<lambda>x. a < x) xs = [a + 1..last xs]"
      using snoc by (auto simp: consecutive_append1)
    show ?thesis
    proof (cases "a < x")
      case True
      then show ?thesis using IH x False by (simp add: upto_rec2)
    next
      case False
      then show ?thesis using IH x by simp
    qed
  qed
qed simp

lemma take_upto: "take n [a + 1..b] = [a + 1..min b (a + int n)]"
proof (induction n arbitrary: a)
  case (Suc n)
  show ?case
  proof (cases "a + 1 \<le> b")
    case True
    then have "take (Suc n) [a + 1..b] = (a + 1) # [a + 1 + 1..min b (a + 1 + int n)]"
      using Suc.IH [of "a + 1"] by (simp add: upto_rec1 [of "a + 1" b])
    also have "\<dots> = [a + 1..min b (a + int (Suc n))]"
      using True by (subst upto_rec1 [of "a + 1" "min b (a + int (Suc n))"]) (auto simp: algebra_simps)
    finally show ?thesis .
  qed simp
qed simp

text \<open>
  C13 A consumer that resumes after sequence number \<open>a\<close> misses nothing: in every reachable store,
  if the retained events answer the request at all, they are exactly the events numbered
  \<open>a + 1\<close>, \<open>a + 2\<close> and so on without a gap, and they reach the current state of the task
  unless the limit cut them.
\<close>

theorem resume_without_gap:
  assumes "st = fold store_step ops (new_store maxEvents ttl)" and "0 \<le> a"
    and "eventsAfter st now taskId a limit = (Inr es, st')"
    and "map_of (st_records st) taskId = Some r"
  shows "map ev_sequence es = [a + 1..a + int (length es)] \<and>
    (length es < nat (max 1 (case limit of None \<Rightarrow> maxEvents | Some l \<Rightarrow> l)) \<longrightarrow>
     ev_sequence (last (lr_events r)) \<le> a + int (length es))"
proof -
  let ?lim = "nat (max 1 (case limit of None \<Rightarrow> maxEvents | Some l \<Rightarrow> l))"
  let ?seqs = "map ev_sequence (lr_events r)"
  have mx: "st_maxEvents st = maxEvents" using assms(1) by (simp add: new_store_def)
  have ok: "record_ok maxEvents taskId r"
    using store_inv_record [OF fold_new] assms(1,4) mx by metis
  then have c: "consecutive ?seqs" "?seqs \<noteq> []" by (simp_all add: record_ok_def)
  have es: "es = take ?lim (filter (\<lambda>e. a < ev_sequence e) (lr_events r))"
    and hd: "hd ?seqs \<le> a + 1"
    using assms(2-4) mx c(2)
    by (auto simp: eventsAfter_def status_def Let_def hd_map split: option.splits if_splits)
  have "map ev_sequence es = take ?lim (filter (\<lambda>x. a < x) ?seqs)"
    by (simp add: es take_map [symmetric] filter_map comp_def)
  also have "\<dots> = [a + 1..min (last ?seqs) (a + int ?lim)]"
    by (simp add: consecutive_filter [OF c hd] take_upto)
  finally have m: "map ev_sequence es = [a + 1..min (last ?seqs) (a + int ?lim)]" .
  have "length (map ev_sequence es) = length [a + 1..min (last ?seqs) (a + int ?lim)]"
    by (simp only: m)
  then have len: "length es = nat (min (last ?seqs) (a + int ?lim) - a)"
    by (simp only: length_map length_upto) simp
  have "last ?seqs = ev_sequence (last (lr_events r))" using c(2) by (simp add: last_map)
  then show ?thesis
    using m len by (cases "min (last ?seqs) (a + int ?lim) \<le> a") auto
qed

theorem resume_without_gap_witness:
  "\<exists>es. fst (eventsAfter (fold store_step [Submit 0 ''t'' ''k'' ''d'', Transition 1 ''t'' ''running'' JUndef,
      Transition 2 ''t'' ''streaming'' JUndef, Transition 3 ''t'' ''completed'' JUndef] (new_store 3 100))
      4 ''t'' 1 None) = Inr es \<and> map ev_sequence es = [2..3]"
proof -
  let ?ops = "[Submit 0 ''t'' ''k'' ''d'', Transition 1 ''t'' ''running'' JUndef,
      Transition 2 ''t'' ''streaming'' JUndef, Transition 3 ''t'' ''completed'' JUndef]"
  define st where "st = fold store_step ?ops (new_store 3 100)"
  have st: "st = \<lparr>st_records = [(''t'', \<lparr>lr_task_id = ''t'', lr_idempotency_key = ''k'', lr_request_digest = ''d'',
      lr_state = ''completed'', lr_events = map (\<lambda>(i, s). \<lparr>ev_task_id = ''t'', ev_sequence = i, ev_state = s,
         ev_is_final = (s = ''completed''), ev_observed_at_ms = i, ev_detail = JUndef\<rparr>)
         [(1, ''running''), (2, ''streaming''), (3, ''completed'')], lr_updated_at_ms = 3\<rparr>)],
      st_maxEvents = 3, st_terminalStatusTtlMs = 100\<rparr>"
    by (simp add: st_def submit_def new_store_def transition_def Let_def
        TERMINAL_LIFECYCLE_STATES_def transitions_def inherited_names_def keep_last_def)
  obtain r where r: "map_of (st_records st) ''t'' = Some r" by (simp add: st)
  obtain es st' where e: "eventsAfter st 4 ''t'' 1 None = (Inr es, st')" and "length es = 2"
    by (simp add: st eventsAfter_def status_def TERMINAL_LIFECYCLE_STATES_def Let_def)
  then show ?thesis
    using resume_without_gap [OF st_def _ e r] by (simp add: st_def)
qed

lemma enumerate_consecutive:
  "consecutive (map f es) \<Longrightarrow> es \<noteq> [] \<Longrightarrow> list_all (\<lambda>(i, e). f e = f (hd es) + int i) (enumerate 0 es)"
proof (induction es rule: rev_induct)
  case (snoc e es)
  show ?case
  proof (cases "es = []")
    case False
    then have f: "f e = f (last es) + 1" and IH: "list_all (\<lambda>(i, e). f e = f (hd es) + int i) (enumerate 0 es)"
      using snoc by (simp_all add: consecutive_append1 last_map)
    have "(length es - 1, last es) \<in> set (enumerate 0 es)"
      using False by (simp add: in_set_enumerate_eq last_conv_nth)
    then have "f (last es) = f (hd es) + int (length es - 1)"
      using IH by (auto simp: list_all_iff)
    then show ?thesis
      using False f IH by (simp add: enumerate_append_eq of_nat_diff Suc_leI)
  qed simp
qed simp

lemma restore_records_ok:
  "list_all (\<lambda>(k, r). record_ok mx k r) kvs \<Longrightarrow> distinct (map fst (st_records st) @ map fst kvs) \<Longrightarrow>
   restore_records (map snd kvs) st = (Inr (), st\<lparr>st_records := st_records st @ kvs\<rparr>)"
proof (induction kvs arbitrary: st)
  case (Cons kv kvs)
  obtain k r where kv: "kv = (k, r)" by (cases kv)
  have ok: "lr_task_id r = k" "lr_events r \<noteq> []" "consecutive (map ev_sequence (lr_events r))"
    using Cons.prems(1) kv by (simp_all add: record_ok_def)
  have "\<not> js_has (st_records st) k"
    using Cons.prems(2) kv by (auto simp: js_has_iff)
  then have "AList.update k r (st_records st) = st_records st @ [(k, r)]" by (rule js_set_new)
  then show ?case
    using Cons.IH [of "st\<lparr>st_records := st_records st @ [(k, r)]\<rparr>"] Cons.prems ok
      enumerate_consecutive [OF ok(3,2)] by (simp add: kv)
qed simp

text \<open>
  A snapshot carries the whole store: restoring into a fresh store the snapshot of any store
  that the operations reach succeeds and gives back exactly its records, in their order.
\<close>

lemma snapshot_restores:
  "restore (new_store m ttl') (snapshot (fold store_step ops (new_store maxEvents ttl))) =
   (Inr (), (new_store m ttl')\<lparr>st_records := st_records (fold store_step ops (new_store maxEvents ttl))\<rparr>)"
proof -
  let ?st = "fold store_step ops (new_store maxEvents ttl)"
  have inv: "store_inv ?st" by (rule fold_new)
  have "restore_records (map snd (st_records ?st)) (new_store m ttl') =
      (Inr (), (new_store m ttl')\<lparr>st_records := st_records (new_store m ttl') @ st_records ?st\<rparr>)"
    using inv by (intro restore_records_ok [of "st_maxEvents ?st"]) (simp_all add: store_inv_def new_store_def)
  then show ?thesis
    by (simp add: restore_def snapshot_def new_store_def SERVICE_LIFECYCLE_PROFILE_def)
qed

text \<open>
  A slow consumer of the observer buffer is told, never cheated: whatever was published, when
  \<open>poll\<close> answers, it answers with exactly the accepted events after the given number, as if no
  event had ever been dropped; otherwise it fails with \<open>ObserverLagged\<close>, and only if an event
  the consumer has not seen was dropped. At most the capacity is retained.
\<close>

lemma observer_is_not_cheated:
  "(let (hist, ob) = publish_all (new_observer_buffer capacity maxObservers) events in
    length (ob_events ob) \<le> nat (max 1 capacity) \<and>
    (case poll ob a of
       Inr es \<Rightarrow> es = filter (\<lambda>e. a < ev_sequence e) hist
     | Inl err \<Rightarrow> (case err of ObserverLagged first latest \<Rightarrow>
           a + 1 < first \<and> latest = ev_sequence (last hist) | _ \<Rightarrow> False)))"
proof -
  let ?new = "new_observer_buffer capacity maxObservers"
  obtain hist ob where p: "publish_all ?new events = (hist, ob)" by (cases "publish_all ?new events")
  have "buffer_of ?new []"
    by (simp add: buffer_of_def new_observer_buffer_def keep_last_def)
  then have b: "buffer_of ob hist" using buffer_of_all [OF _ p] by fastforce
  have cap: "ob_capacity ob' = ob_capacity ob0" if "publish_all ob0 es = (h, ob')" for ob0 es h ob'
    using that
    by (induction ob0 es arbitrary: h rule: publish_all.induct)
       (auto simp: publish_def split: prod.splits sum.splits if_splits)
  have c: "ob_capacity ob = max 1 capacity"
    using cap [OF p] by (simp add: new_observer_buffer_def)
  then have n: "0 < nat (ob_capacity ob)" by simp
  have ev: "ob_events ob = keep_last (nat (ob_capacity ob)) hist"
    and sorted: "sorted_wrt (\<lambda>a b. ev_sequence a < ev_sequence b) hist"
    using b by (simp_all add: buffer_of_def)
  show ?thesis
  proof (cases "ob_events ob \<noteq> [] \<and> a + 1 < ev_sequence (hd (ob_events ob))")
    case True
    then have "hist \<noteq> []" using ev by (auto simp: keep_last_def)
    then have "last (ob_events ob) = last hist" using ev last_keep_last [OF n] by simp
    then show ?thesis using True p ev c by (simp add: poll_def length_keep_last)
  next
    case False
    then have "filter (\<lambda>e. a < ev_sequence e) (ob_events ob) = filter (\<lambda>e. a < ev_sequence e) hist"
      using keep_last_filter [OF sorted _ n, of a] ev by auto
    then show ?thesis using False p ev c by (auto simp: poll_def length_keep_last)
  qed
qed

end
