(* ===== verification/LifecyclePolicies.thy ===== *)
theory LifecyclePolicies imports JsValue begin

text \<open>
  The pure evaluators of the lifecycle profile: \<open>src/service_lifecycle_accounting.ts\<close>,
  \<open>src/service_lifecycle_identity.ts\<close> and \<open>src/service_lifecycle_distributed.ts\<close>. Their
  input is an untyped record, \<open>input.f\<close> is \<open>own_property input ''f''\<close>; a test against a string
  or \<open>true\<close> is strict. The property at the end runs the accounting decisions against a ledger.
\<close>

section \<open>Accounting\<close>

datatype reservation_action = ReservationNone | ReservationCreate | ReservationReuse | ReservationRelease
datatype settlement_action = SettlementNone | SettlementCreate | SettlementReuse

record accounting_decision =
  ad_decision :: string
  ad_reservation_action :: reservation_action
  ad_settlement_action :: settlement_action
  ad_new_execution :: bool

definition accounting_result ::
  "string \<Rightarrow> reservation_action \<Rightarrow> settlement_action \<Rightarrow> bool \<Rightarrow> accounting_decision" where
  "accounting_result decision reservation settlement new_execution =
     \<lparr>ad_decision = decision, ad_reservation_action = reservation, ad_settlement_action = settlement,
      ad_new_execution = new_execution\<rparr>"

abbreviation verdict :: "string \<Rightarrow> accounting_decision" where
  "verdict d \<equiv> accounting_result d ReservationNone SettlementNone False"

text \<open>The branches of the decision, one per operation that accounts.\<close>

definition account_resume :: "js \<Rightarrow> accounting_decision" where
  "account_resume input =
     (if own_property input ''resume_available'' = JBool True then verdict ''replay_events''
      else if own_property input ''explicit_new_task'' \<noteq> JBool True then verdict ''explicit_new_task_required''
      else if own_property input ''binding'' \<noteq> JStr ''fresh'' \<or> own_property input ''fresh_task_id'' \<noteq> JBool True \<or>
              own_property input ''fresh_idempotency_key'' \<noteq> JBool True
      then verdict ''reject_identifier_reuse''
      else accounting_result ''start_new_task'' ReservationCreate SettlementNone True)"

definition account_submit :: "js \<Rightarrow> bool \<Rightarrow> accounting_decision" where
  "account_submit binding reservationExists =
     (if binding = JStr ''conflict'' then verdict ''reject_conflict''
      else if binding = JStr ''same'' \<and> reservationExists
      then accounting_result ''reuse_execution'' ReservationReuse SettlementNone False
      else if binding = JStr ''same'' then verdict ''reject_missing_reservation''
      else if reservationExists then verdict ''reject_conflict''
      else accounting_result ''start_execution'' ReservationCreate SettlementNone True)"

definition account_cancel :: "bool \<Rightarrow> bool \<Rightarrow> bool \<Rightarrow> js \<Rightarrow> accounting_decision" where
  "account_cancel reservationExists settlementExists accepted delivery =
     (if settlementExists then accounting_result ''return_existing_settlement'' ReservationReuse SettlementReuse False
      else if \<not> reservationExists then verdict ''cancel_without_accounting''
      else if \<not> accepted then accounting_result ''cancel_before_acceptance'' ReservationRelease SettlementNone False
      else accounting_result
             (if delivery = JStr ''partial'' then ''cancel_after_partial_delivery'' else ''cancel_after_acceptance'')
             ReservationReuse SettlementCreate False)"

definition account_terminal :: "bool \<Rightarrow> bool \<Rightarrow> js \<Rightarrow> string \<Rightarrow> accounting_decision" where
  "account_terminal reservationExists settlementExists delivery terminal =
     (if settlementExists
      then accounting_result ''return_existing_settlement'' ReservationReuse SettlementReuse False
      else if \<not> reservationExists then verdict ''reject_missing_reservation''
      else if terminal \<notin> set [''completed'', ''failed'', ''cancelled'', ''expired''] then verdict ''reject_invalid_input''
      else accounting_result
             (''settle_'' @ terminal @ (if delivery = JStr ''partial'' then ''_partial'' else []))
             ReservationReuse SettlementCreate False)"

definition decideLifecycleAccounting :: "js_runtime \<Rightarrow> js \<Rightarrow> accounting_decision" where
  "decideLifecycleAccounting rt input =
     (let operation = own_property input ''operation'';
          binding = own_property input ''binding'';
          reservationExists = (own_property input ''reservation_exists'' = JBool True);
          settlementExists = (own_property input ''settlement_exists'' = JBool True);
          accepted = (own_property input ''accepted'' = JBool True);
          delivery = own_property input ''delivery''
      in
      if String_of rt operation \<notin> set [''submit'', ''status'', ''observe'', ''resume'', ''cancel'', ''terminal'']
      then verdict ''reject_invalid_input''
      else if String_of rt binding \<notin> set [''same'', ''conflict'', ''fresh''] then verdict ''reject_invalid_input''
      else if String_of rt delivery \<notin> set [''none'', ''partial'', ''complete''] then verdict ''reject_invalid_input''
      else if String_of rt operation \<in> set [''status'', ''observe'', ''cancel'', ''terminal''] \<and> binding \<noteq> JStr ''same''
      then verdict ''reject_conflict''
      else if operation = JStr ''status'' then verdict ''return_status''
      else if operation = JStr ''observe'' then verdict ''replay_events''
      else if operation = JStr ''resume'' then account_resume input
      else if operation = JStr ''submit'' then account_submit binding reservationExists
      else if operation = JStr ''cancel'' then account_cancel reservationExists settlementExists accepted delivery
      else account_terminal reservationExists settlementExists delivery
             (String_of rt (own_property input ''terminal_state'')))"

section \<open>Identity\<close>

definition ALLOWED_AUDIT :: "string list" where
  "ALLOWED_AUDIT = [''event_id'', ''task_ref'', ''principal_ref_digest'', ''credential_key_id'',
     ''revocation_epoch'', ''operation'', ''outcome'', ''reason_code'', ''occurred_at'']"

definition evaluateLifecycleIdentity :: "js_runtime \<Rightarrow> js \<Rightarrow> number \<Rightarrow> string" where
  "evaluateLifecycleIdentity rt input retentionSeconds =
     (if own_property input ''kind'' = JStr ''audit_retention'' then
        (if num_less retentionSeconds (Number_of rt (own_property input ''age_seconds''))
         then ''audit_record_pruned'' else ''audit_record_retained'')
      else if own_property input ''kind'' = JStr ''audit_redaction'' then
        (if list_all (\<lambda>field. field \<in> set ALLOWED_AUDIT) (object_keys (own_property input ''audit''))
         then ''audit_record_allowed'' else ''reject_before_write'')
      else if own_property input ''profile_requested'' \<noteq> JBool True \<and>
              own_property input ''surface'' = JStr ''ordinary_task''
      then ''legacy_open_mesh_unchanged''
      else if own_property input ''credential_status'' \<noteq> JStr ''valid'' then ''unauthenticated''
      else if num_less (Number_of rt (coalesce (own_property input ''credential_revocation_epoch'') (jint 0)))
                       (Number_of rt (coalesce (own_property input ''minimum_revocation_epoch'') (jint 0)))
      then ''unauthenticated''
      else
        let operation = String_of rt (coalesce (own_property input ''operation'') (JStr ''''));
            scopes = (case own_property input ''scope'' of JArr xs \<Rightarrow> xs | _ \<Rightarrow> [])
        in if operation = ''submit'' then (if JStr ''submit'' \<in> set scopes then ''allowed_bind_owner'' else ''forbidden'')
           else if \<not> strict_eq (own_property input ''principal_ref_digest'') (own_property input ''task_owner_ref_digest'')
           then (if own_property input ''operator_override'' = JBool True \<and> JStr (''operator:'' @ operation) \<in> set scopes
                 then ''allowed_operator_override'' else ''concealed_task'')
           else if JStr operation \<in> set scopes then ''allowed'' else ''forbidden'')"

section \<open>Distribution\<close>

definition ALLOWED_DETAIL :: "string list" where
  "ALLOWED_DETAIL = [''event_id'', ''progress'', ''reason_code'', ''outcome'', ''receipt_digest'', ''checkpoint_digest'']"

definition evaluateDistributedLifecycle :: "js_runtime \<Rightarrow> js \<Rightarrow> string" where
  "evaluateDistributedLifecycle rt vector =
     (let field = own_property vector; kind = field ''kind'' in
      if kind = JStr ''owner_write'' then
        (if strict_eq (field ''writer_epoch'') (field ''current_epoch'') then ''write_accepted'' else ''stale_owner_rejected'')
      else if kind = JStr ''failover_submit'' then
        (if field ''request_digest_matches'' \<noteq> JBool True \<or> field ''idempotency_key_matches'' \<noteq> JBool True
         then ''conflict_no_new_execution''
         else if field ''execution_started'' = JBool True then ''existing_execution_recovered''
         else ''existing_record_recovered'')
      else if kind = JStr ''append_event'' then
        (if field ''event_id_seen'' = JBool True then ''duplicate_event_ignored''
         else (case field ''sequence'' of
             JNum n \<Rightarrow> if n \<noteq> NaN \<and> n = num_plus_one (Number_of rt (field ''latest_sequence''))
                then ''event_appended'' else ''sequence_gap_rejected''
           | _ \<Rightarrow> ''sequence_gap_rejected''))
      else if kind = JStr ''observe'' then
        (let gap = num_less (num_plus_one (Number_of rt (field ''after_sequence'')))
                     (Number_of rt (field ''first_retained_sequence''))
         in if gap then (if field ''terminal'' = JBool True then ''terminal_snapshot_with_replay_gap''
                         else ''resume_unavailable'')
            else ''replay_available'')
      else if kind = JStr ''terminal_retention'' then
        (if num_less (Number_of rt (field ''ttl_ms'')) (Number_of rt (field ''age_ms''))
         then ''unknown_task_after_expiry'' else ''terminal_snapshot_available'')
      else if kind = JStr ''mutation_admission'' then
        (if field ''quorum_available'' = JBool True then ''mutation_allowed'' else ''temporarily_unavailable_no_write'')
      else if kind = JStr ''content_minimization'' then
        (if list_all (\<lambda>k. k \<in> set ALLOWED_DETAIL) (object_keys (field ''detail''))
         then ''accepted'' else ''reject_before_write'')
      else ''unsupported_vector'')"

section \<open>A ledger driven by the accounting decisions\<close>

text \<open>
  The ledger of one task: whether a reservation and a settlement exist, and how many of each
  were created. The request of a caller is an input without the two flags, which the ledger
  supplies. A resumption that starts a new task opens the ledger of that task, not this one.
\<close>

record ledger =
  lg_reservation :: bool
  lg_settlement :: bool
  lg_reservations_created :: nat
  lg_settlements_created :: nat
  lg_released :: nat

definition ledger_input :: "ledger \<Rightarrow> (string \<times> js) list \<Rightarrow> js" where
  "ledger_input lg req =
     JObj ([(''reservation_exists'', JBool (lg_reservation lg)), (''settlement_exists'', JBool (lg_settlement lg))] @ req)"

definition apply_decision :: "accounting_decision \<Rightarrow> ledger \<Rightarrow> ledger" where
  "apply_decision d lg =
     (if ad_decision d = ''start_new_task'' then lg
      else let lg1 = (case ad_reservation_action d of
            ReservationCreate \<Rightarrow> lg\<lparr>lg_reservation := True, lg_reservations_created := lg_reservations_created lg + 1\<rparr>
          | ReservationRelease \<Rightarrow> lg\<lparr>lg_reservation := False, lg_released := lg_released lg + 1\<rparr>
          | _ \<Rightarrow> lg)
      in (case ad_settlement_action d of
            SettlementCreate \<Rightarrow> lg1\<lparr>lg_settlement := True, lg_settlements_created := lg_settlements_created lg1 + 1\<rparr>
          | _ \<Rightarrow> lg1))"

definition ledger_step :: "js_runtime \<Rightarrow> (string \<times> js) list \<Rightarrow> ledger \<Rightarrow> ledger" where
  "ledger_step rt req lg = apply_decision (decideLifecycleAccounting rt (ledger_input lg req)) lg"

definition new_ledger :: ledger where
  "new_ledger = \<lparr>lg_reservation = False, lg_settlement = False, lg_reservations_created = 0,
     lg_settlements_created = 0, lg_released = 0\<rparr>"

definition ledger_inv :: "ledger \<Rightarrow> bool" where
  "ledger_inv lg =
     (lg_settlements_created lg = (if lg_settlement lg then 1 else 0) \<and>
      (lg_settlement lg \<longrightarrow> lg_reservation lg) \<and>
      lg_reservations_created lg = lg_released lg + (if lg_reservation lg then 1 else 0))"

lemma decision_shape:
  assumes "x = (if c1 then verdict a1 else if c2 then verdict a2 else if c3 then verdict a3
     else if c4 then verdict a4 else if c5 then verdict a5 else if c6 then verdict a6
     else if c7 then r else if c8 then s else if c9 then c else t)"
  shows "(\<exists>d. x = verdict d) \<or> x = r \<or> x = s \<or> x = c \<or> x = t"
  using assms by (simp split: if_splits) blast+

lemmas decision_cases = decision_shape [OF decideLifecycleAccounting_def [unfolded Let_def]]

lemma ledger_flags [simp]:
  "own_property (ledger_input lg req) ''reservation_exists'' = JBool (lg_reservation lg)"
  "own_property (ledger_input lg req) ''settlement_exists'' = JBool (lg_settlement lg)"
  by (simp_all add: ledger_input_def)

lemma ledger_inv_verdict: "ledger_inv lg \<Longrightarrow> ledger_inv (apply_decision (verdict d) lg)"
  by (simp add: apply_decision_def accounting_result_def Let_def)

lemma ledger_inv_resume: "ledger_inv lg \<Longrightarrow> ledger_inv (apply_decision (account_resume input) lg)"
  by (simp add: account_resume_def ledger_inv_verdict)
     (simp add: apply_decision_def accounting_result_def)

lemma ledger_inv_submit:
  "ledger_inv lg \<Longrightarrow> ledger_inv (apply_decision (account_submit b (lg_reservation lg)) lg)"
  by (simp add: account_submit_def ledger_inv_verdict)
     (auto simp: apply_decision_def accounting_result_def Let_def ledger_inv_def)

lemma ledger_inv_cancel:
  "ledger_inv lg \<Longrightarrow> ledger_inv (apply_decision (account_cancel (lg_reservation lg) (lg_settlement lg) a d) lg)"
  by (simp add: account_cancel_def ledger_inv_verdict)
     (auto simp: apply_decision_def accounting_result_def Let_def ledger_inv_def)

lemma ledger_inv_terminal:
  "ledger_inv lg \<Longrightarrow> ledger_inv (apply_decision (account_terminal (lg_reservation lg) (lg_settlement lg) d t) lg)"
proof -
  assume inv: "ledger_inv lg"
  have "ledger_inv (apply_decision (accounting_result x ReservationReuse SettlementCreate False) lg)"
    if "lg_reservation lg" "\<not> lg_settlement lg" "x \<noteq> ''start_new_task''" for x
    using inv that by (simp add: apply_decision_def accounting_result_def Let_def ledger_inv_def)
  moreover have "ledger_inv (apply_decision (accounting_result x ReservationReuse SettlementReuse False) lg)" for x
    using inv by (simp add: apply_decision_def accounting_result_def Let_def)
  ultimately show ?thesis
    using inv by (simp add: account_terminal_def ledger_inv_verdict del: insert_iff)
qed

lemma ledger_inv_step [inv_intros]: "ledger_inv lg \<Longrightarrow> ledger_inv (ledger_step rt req lg)"
  unfolding ledger_step_def
  using decision_cases [of rt "ledger_input lg req"]
  by (elim disjE exE)
     (simp_all only: ledger_flags js.inject ledger_inv_verdict ledger_inv_resume ledger_inv_submit
        ledger_inv_cancel ledger_inv_terminal eq_True)

text \<open>
  The accounting decisions keep the books: whatever a task's callers request, in whatever
  order, with whatever claims about acceptance, delivery and state, the reservations created
  are the reservations released plus the one that is open, a settlement is made at most once
  and only on an open reservation, and once made it is never undone.
\<close>

lemma accounting_settles_once:
  "ledger_inv (fold (ledger_step rt) reqs new_ledger) \<and>
   lg_settlements_created (fold (ledger_step rt) reqs new_ledger)
     \<le> lg_settlements_created (fold (ledger_step rt) (reqs @ later) new_ledger) \<and>
   lg_settlements_created (fold (ledger_step rt) (reqs @ later) new_ledger) \<le> 1"
proof -
  have inv: "ledger_inv (fold (ledger_step rt) rs lg)" if "ledger_inv lg" for rs lg
    using that by (induction rs arbitrary: lg) (auto intro: inv_intros)
  have step: "lg_settlements_created lg \<le> lg_settlements_created (ledger_step rt r lg)" for r lg
    by (simp add: ledger_step_def apply_decision_def Let_def split: reservation_action.splits settlement_action.splits)
  have mono: "lg_settlements_created lg \<le> lg_settlements_created (fold (ledger_step rt) rs lg)" for rs lg
    by (induction rs arbitrary: lg) (auto intro: order_trans [OF step])
  have new: "ledger_inv new_ledger" by (simp add: ledger_inv_def new_ledger_def)
  have "lg_settlements_created (fold (ledger_step rt) (reqs @ later) new_ledger) \<le> 1"
    using inv [OF new, of "reqs @ later"] by (simp add: ledger_inv_def)
  then show ?thesis using inv [OF new] mono by simp
qed

end

