(* ===== verification/Admission.thy ===== *)
theory Admission imports Prelude TtlCache begin

text \<open>
  Dispatch admission: \<open>src/dispatch_admission.ts\<close>. The table \<open>dispatch_admissions\<close> is the
  list of its rows in insertion order, keyed by \<open>jti\<close>; every method is one transaction. Of
  the database the model keeps what a statement does and that a fault rolls the transaction
  back (\<open>fault\<close>, an argument of every method). The digest is a parameter; times are whole
  seconds.
\<close>

section \<open>Data\<close>

definition TERMINAL_ADMISSION_STATES :: "string list" where
  "TERMINAL_ADMISSION_STATES = [''completed'', ''failed'', ''cancelled'', ''expired'', ''rejected'']"

record admission_claim =
  ac_jti :: string
  ac_provider_id :: string
  ac_intent :: string
  ac_not_before :: int
  ac_expires_at :: int

record admission_decision =
  de_code :: string
  de_accepted :: bool
  de_state :: "string option"

record admission_record =
  ar_provider_digest :: string
  ar_intent_digest :: string
  ar_state :: string
  ar_expires_at :: int
  ar_consumed_at :: int
  ar_updated_at :: int

type_synonym admissions = "(string, admission_record) jsmap"

datatype admission_error = StorageError | UnsupportedTerminalState string | UnknownAdmission string
  | AlreadyTerminal string

definition admission_rejected :: "string \<Rightarrow> admission_decision" where
  "admission_rejected code = \<lparr>de_code = code, de_accepted = False, de_state = None\<rparr>"

text \<open>\<open>/^[A-Za-z0-9._:-]{16,256}$/\<close>\<close>

definition jti_char :: "char \<Rightarrow> bool" where
  "jti_char c = (c \<in> set ''ABCDEFGHIJKLMNOPQRSTUVWXYZabcdefghijklmnopqrstuvwxyz0123456789._:-'')"

definition valid_jti :: "string \<Rightarrow> bool" where
  "valid_jti j = (16 \<le> length j \<and> length j \<le> 256 \<and> list_all jti_char j)"

section \<open>The store\<close>

definition consume ::
  "(string \<Rightarrow> string) \<Rightarrow> bool \<Rightarrow> admissions \<Rightarrow> admission_claim \<Rightarrow> string \<Rightarrow> string \<Rightarrow> int \<Rightarrow> int \<Rightarrow>
   (admission_error + admission_decision) \<times> admissions" where
  "consume digest fault db claim expectedProviderId expectedIntent now clockSkewSeconds =
     (let skew = max 0 clockSkewSeconds in
      if \<not> valid_jti (ac_jti claim) then (Inr (admission_rejected ''reject_invalid_jti''), db)
      else if ac_provider_id claim \<noteq> expectedProviderId then (Inr (admission_rejected ''reject_provider_binding''), db)
      else if ac_intent claim \<noteq> expectedIntent then (Inr (admission_rejected ''reject_intent_binding''), db)
      else if now + skew < ac_not_before claim then (Inr (admission_rejected ''reject_not_yet_valid''), db)
      else if now - skew \<ge> ac_expires_at claim then (Inr (admission_rejected ''reject_expired''), db)
      else if fault then (Inl StorageError, db)
      else case map_of db (ac_jti claim) of
        Some existing \<Rightarrow>
          (Inr \<lparr>de_code = (if ar_state existing \<in> set TERMINAL_ADMISSION_STATES then ''reject_terminal''
                          else ''reject_replay''),
                de_accepted = False, de_state = Some (ar_state existing)\<rparr>, db)
      | None \<Rightarrow>
          (Inr \<lparr>de_code = ''accepted'', de_accepted = True, de_state = Some ''accepted''\<rparr>,
           db @ [(ac_jti claim,
             \<lparr>ar_provider_digest = digest (ac_provider_id claim), ar_intent_digest = digest (ac_intent claim),
              ar_state = ''accepted'', ar_expires_at = ac_expires_at claim,
              ar_consumed_at = now, ar_updated_at = now\<rparr>)]))"

definition admission_transition ::
  "bool \<Rightarrow> admissions \<Rightarrow> string \<Rightarrow> string \<Rightarrow> int \<Rightarrow> (admission_error + admission_record) \<times> admissions" where
  "admission_transition fault db jti state now =
     (if state \<notin> set TERMINAL_ADMISSION_STATES then (Inl (UnsupportedTerminalState state), db)
      else if fault then (Inl StorageError, db)
      else case map_of db jti of
        None \<Rightarrow> (Inl (UnknownAdmission jti), db)
      | Some existing \<Rightarrow>
          if ar_state existing \<in> set TERMINAL_ADMISSION_STATES \<and> ar_state existing \<noteq> state
          then (Inl (AlreadyTerminal (ar_state existing)), db)
          else
            let rec = (if ar_state existing \<noteq> state then existing\<lparr>ar_state := state, ar_updated_at := now\<rparr>
                       else existing)
            in (Inr rec, AList.update jti rec db))"

text \<open>
  \<open>DELETE ... WHERE jti IN (SELECT jti ... WHERE expires_at < ? ORDER BY expires_at LIMIT ?)\<close>;
  rows of the same expiry come in the order of the index, which is their insertion order.
\<close>

definition cleanup_victims :: "admissions \<Rightarrow> int \<Rightarrow> nat \<Rightarrow> string list" where
  "cleanup_victims db cutoff limit =
     map fst (take limit (sort_key (\<lambda>row. ar_expires_at (snd row))
       (filter (\<lambda>row. ar_expires_at (snd row) < cutoff) db)))"

definition cleanup ::
  "bool \<Rightarrow> admissions \<Rightarrow> int \<Rightarrow> int \<Rightarrow> int \<Rightarrow> (admission_error + nat) \<times> admissions" where
  "cleanup fault db now retentionSeconds limit =
     (if fault then (Inl StorageError, db)
      else
        let cutoff = now - max 0 retentionSeconds;
            boundedLimit = nat (max 1 limit);
            victims = cleanup_victims db cutoff boundedLimit;
            db' = filter (\<lambda>row. fst row \<notin> set victims) db
        in (Inr (length db - length db'), db'))"

definition admission_lookup :: "bool \<Rightarrow> admissions \<Rightarrow> string \<Rightarrow> admission_error + admission_record option" where
  "admission_lookup fault db jti = (if fault then Inl StorageError else Inr (map_of db jti))"

definition evaluateDispatchAdmission ::
  "(string \<Rightarrow> string) \<Rightarrow> bool \<Rightarrow> admissions \<Rightarrow> admission_claim \<Rightarrow> string \<Rightarrow> string \<Rightarrow> int \<Rightarrow> bool \<Rightarrow> int option \<Rightarrow>
   (admission_error + admission_decision) \<times> admissions" where
  "evaluateDispatchAdmission digest fault db claim expectedProviderId expectedIntent now trustVerified skew =
     (if \<not> trustVerified then (Inr (admission_rejected ''reject_issuer_key''), db)
      else case consume digest fault db claim expectedProviderId expectedIntent now
                  (case skew of None \<Rightarrow> 0 | Some s \<Rightarrow> s) of
        (Inr d, db') \<Rightarrow> (Inr d, db')
      | (Inl StorageError, db') \<Rightarrow> (Inr (admission_rejected ''reject_store_unavailable''), db')
      | (Inl e, db') \<Rightarrow> (Inl e, db'))"

section \<open>Runs\<close>

datatype admission_op =
    Evaluate admission_claim string string bool "int option" bool
  | Finish string string bool
  | Sweep int int bool

fun admission_step ::
  "(string \<Rightarrow> string) \<Rightarrow> int \<Rightarrow> admission_op \<Rightarrow> admissions \<Rightarrow> (admission_error + admission_decision) option \<times> admissions" where
  "admission_step digest now (Evaluate claim p i trusted skew fault) db =
     (let (r, db') = evaluateDispatchAdmission digest fault db claim p i now trusted skew in (Some r, db'))"
| "admission_step digest now (Finish jti state fault) db = (None, snd (admission_transition fault db jti state now))"
| "admission_step digest now (Sweep retention limit fault) db = (None, snd (cleanup fault db now retention limit))"

text \<open>The ids admitted along a run, in order.\<close>

fun accepted_jtis :: "(string \<Rightarrow> string) \<Rightarrow> admissions \<Rightarrow> (int \<times> admission_op) list \<Rightarrow> string list" where
  "accepted_jtis digest db [] = []"
| "accepted_jtis digest db ((now, oper) # ops) =
     (let (r, db') = admission_step digest now oper db in
      (case (oper, r) of
         (Evaluate claim _ _ _ _ _, Some (Inr d)) \<Rightarrow> (if de_accepted d then [ac_jti claim] else [])
       | _ \<Rightarrow> []) @ accepted_jtis digest db' ops)"

text \<open>
  The discipline of the callers: a ticket id stands for one ticket, so its expiry is a
  function of the id; no check uses more skew than \<open>R\<close>, and no cleanup retains less.
\<close>

fun disciplined :: "(string \<Rightarrow> int) \<Rightarrow> int \<Rightarrow> admission_op \<Rightarrow> bool" where
  "disciplined expiry R (Evaluate claim _ _ _ skew _) =
     (ac_expires_at claim = expiry (ac_jti claim) \<and> (case skew of None \<Rightarrow> 0 | Some s \<Rightarrow> s) \<le> R)"
| "disciplined expiry R (Finish _ _ _) = True"
| "disciplined expiry R (Sweep retention _ _) = (R \<le> retention)"

text \<open>What the store still knows at time \<open>t\<close> of the ids in \<open>js\<close>: their row, unless they expired.\<close>

definition remembers :: "(string \<Rightarrow> int) \<Rightarrow> int \<Rightarrow> int \<Rightarrow> admissions \<Rightarrow> string list \<Rightarrow> bool" where
  "remembers expiry R t db js =
     (distinct (js_keys db) \<and> list_all (\<lambda>(k, r). ar_expires_at r = expiry k) db \<and>
      list_all (\<lambda>j. js_has db j \<or> expiry j < t - R) js)"

lemma remembers_later: "remembers expiry R t db js \<Longrightarrow> t \<le> t' \<Longrightarrow> remembers expiry R t' db js"
  by (auto simp: remembers_def list_all_iff)

lemma consume_cases:
  obtains e where "consume digest fault db c p i now s = (e, db)" "\<And>d. e = Inr d \<Longrightarrow> \<not> de_accepted d"
  | r where "consume digest fault db c p i now s =
      (Inr \<lparr>de_code = ''accepted'', de_accepted = True, de_state = Some ''accepted''\<rparr>, db @ [(ac_jti c, r)])"
    "ar_expires_at r = ac_expires_at c" "\<not> js_has db (ac_jti c)" "now - max 0 s < ac_expires_at c"
proof (cases "de_accepted (case fst (consume digest fault db c p i now s) of Inr d \<Rightarrow> d | Inl _ \<Rightarrow> admission_rejected [])")
  case True
  then show ?thesis
    by (intro that(2))
       (auto simp: consume_def Let_def admission_rejected_def js_has_def split: if_splits option.splits)
next
  case False
  then show ?thesis
    by (intro that(1) [of "fst (consume digest fault db c p i now s)"])
       (auto simp: consume_def Let_def admission_rejected_def split: if_splits option.splits)
qed

lemma cleanup_keeps:
  "snd (cleanup fault db now retention limit) = db \<or>
   (\<exists>P. snd (cleanup fault db now retention limit) = filter P db \<and>
      (\<forall>row \<in> set db. \<not> P row \<longrightarrow> (\<exists>r. (fst row, r) \<in> set db \<and> ar_expires_at r < now - max 0 retention)))"
proof -
  have "j \<in> set (cleanup_victims db cutoff n) \<Longrightarrow> \<exists>r. (j, r) \<in> set db \<and> ar_expires_at r < cutoff" for j cutoff n
    by (auto simp: cleanup_victims_def dest!: in_set_takeD)
  then show ?thesis
    by (auto simp: cleanup_def Let_def intro!: exI [of _ "\<lambda>row. fst row \<notin> set _"])
qed

lemma js_has_append: "js_has (db @ [(k, r)]) j \<longleftrightarrow> js_has db j \<or> j = k"
  by (auto simp: js_has_iff)

lemma remembers_transition:
  "remembers expiry R t db js \<Longrightarrow> remembers expiry R t (snd (admission_transition fault db j s now)) js"
proof (cases "map_of db j")
  case (Some r)
  assume m: "remembers expiry R t db js"
  then have e: "ar_expires_at r = expiry j"
    using Some by (auto simp: remembers_def list_all_iff dest!: map_of_SomeD)
  have upd: "remembers expiry R t (AList.update j r' db) js" if "ar_expires_at r' = expiry j" for r'
  proof -
    have "list_all (\<lambda>(k, r). ar_expires_at r = expiry k) (AList.update j r' db)"
      using m that by (intro list_all_update) (auto simp: remembers_def)
    moreover have "js_has (AList.update j r' db) k \<longleftrightarrow> js_has db k" for k
      using Some by (auto simp: js_has_def)
    ultimately show ?thesis using m by (simp add: remembers_def)
  qed
  show ?thesis
    using m Some e upd by (simp add: admission_transition_def Let_def)
next
  case None
  assume "remembers expiry R t db js"
  then show ?thesis using None by (simp add: admission_transition_def)
qed

lemma remembers_cleanup:
  assumes "remembers expiry R now db js" and "R \<le> retention" and "0 \<le> R"
  shows "remembers expiry R now (snd (cleanup fault db now retention limit)) js"
proof -
  consider "snd (cleanup fault db now retention limit) = db"
    | P where "snd (cleanup fault db now retention limit) = filter P db"
      "\<forall>row \<in> set db. \<not> P row \<longrightarrow> (\<exists>r. (fst row, r) \<in> set db \<and> ar_expires_at r < now - max 0 retention)"
    using cleanup_keeps by metis
  then show ?thesis
  proof cases
    case 1
    then show ?thesis using assms(1) by simp
  next
    case 2
    have "js_has (filter P db) j \<or> expiry j < now - R" if has: "js_has db j" for j
    proof -
      obtain r where r: "(j, r) \<in> set db" using has by (auto simp: js_has_iff)
      show ?thesis
      proof (cases "P (j, r)")
        case True
        then show ?thesis using r by (force simp: js_has_iff)
      next
        case False
        then obtain r' where "(j, r') \<in> set db" "ar_expires_at r' < now - max 0 retention"
          using 2(2) r by force
        then show ?thesis using assms by (force simp: remembers_def list_all_iff)
      qed
    qed
    then show ?thesis
      using assms(1) 2(1) by (auto simp: remembers_def list_all_iff distinct_map_filter)
  qed
qed

lemma remembers_evaluate:
  assumes "remembers expiry R now db js" and "disciplined expiry R (Evaluate c p i trusted skew fault)" and "0 \<le> R"
    and "admission_step digest now (Evaluate c p i trusted skew fault) db = (res, db')"
  shows "(case res of Some (Inr d) \<Rightarrow>
      if de_accepted d then ac_jti c \<notin> set js \<and> remembers expiry R now db' (ac_jti c # js)
      else remembers expiry R now db' js
    | _ \<Rightarrow> remembers expiry R now db' js)"
proof (cases trusted)
  case False
  then show ?thesis
    using assms by (auto simp: evaluateDispatchAdmission_def admission_rejected_def)
next
  case True
  let ?s = "case skew of None \<Rightarrow> 0 | Some s \<Rightarrow> s"
  show ?thesis
  proof (rule consume_cases [of digest fault db c p i now ?s])
    fix e assume e: "consume digest fault db c p i now ?s = (e, db)" "\<And>d. e = Inr d \<Longrightarrow> \<not> de_accepted d"
    then show ?thesis
      using assms True
      by (auto simp: evaluateDispatchAdmission_def admission_rejected_def
          split: sum.splits admission_error.splits)
  next
    fix r assume r: "consume digest fault db c p i now ?s =
        (Inr \<lparr>de_code = ''accepted'', de_accepted = True, de_state = Some ''accepted''\<rparr>, db @ [(ac_jti c, r)])"
      "ar_expires_at r = ac_expires_at c" "\<not> js_has db (ac_jti c)" "now - max 0 ?s < ac_expires_at c"
    then have "\<not> expiry (ac_jti c) < now - R"
      using assms(2,3) by (auto split: option.splits)
    then have "ac_jti c \<notin> set js"
      using assms(1) r(3) by (auto simp: remembers_def list_all_iff)
    moreover have "remembers expiry R now (db @ [(ac_jti c, r)]) (ac_jti c # js)"
      using assms(1,2) r(2,3) by (auto simp: remembers_def list_all_iff js_has_append js_has_iff)
    ultimately show ?thesis
      using assms(4) True r(1) by (auto simp: evaluateDispatchAdmission_def)
  qed
qed

lemma accepted_once:
  "remembers expiry R start db js \<Longrightarrow> 0 \<le> R \<Longrightarrow> monotone_clock start ops \<Longrightarrow>
   list_all (\<lambda>(now, oper). disciplined expiry R oper) ops \<Longrightarrow>
   distinct (accepted_jtis digest db ops) \<and> set (accepted_jtis digest db ops) \<inter> set js = {}"
proof (induction ops arbitrary: start db js)
  case (Cons a ops)
  obtain now oper where a: "a = (now, oper)" by (cases a)
  have now: "remembers expiry R now db js" and ops: "monotone_clock now ops"
    "list_all (\<lambda>(now, oper). disciplined expiry R oper) ops" and d: "disciplined expiry R oper"
    using Cons.prems remembers_later a by auto
  obtain res db' where step: "admission_step digest now oper db = (res, db')"
    by (cases "admission_step digest now oper db")
  show ?case
  proof (cases oper)
    case (Evaluate c p i trusted skew fault)
    note case_res = remembers_evaluate [OF now d [unfolded Evaluate] Cons.prems(2) step [unfolded Evaluate]]
    show ?thesis
    proof (cases "\<exists>dec. res = Some (Inr dec) \<and> de_accepted dec")
      case True
      then have "ac_jti c \<notin> set js" "remembers expiry R now db' (ac_jti c # js)"
        using case_res by auto
      moreover have "accepted_jtis digest db (a # ops) = ac_jti c # accepted_jtis digest db' ops"
        using True Evaluate step by (auto simp: a)
      ultimately show ?thesis
        using Cons.IH [of now db' "ac_jti c # js"] Cons.prems(2) ops by auto
    next
      case False
      then have "remembers expiry R now db' js"
        using case_res by (auto split: option.splits sum.splits)
      moreover have "accepted_jtis digest db (a # ops) = accepted_jtis digest db' ops"
        using False Evaluate step by (auto simp: a split: option.splits sum.splits)
      ultimately show ?thesis
        using Cons.IH [of now db' js] Cons.prems(2) ops by auto
    qed
  next
    case (Finish j s fault)
    then have "remembers expiry R now db' js"
      using remembers_transition [OF now, of fault j s now] step by simp
    then show ?thesis using Cons.IH [of now db' js] Cons.prems(2) ops step Finish a by simp
  next
    case (Sweep retention limit fault)
    then have "remembers expiry R now db' js"
      using remembers_cleanup [OF now, of retention fault limit] step d Cons.prems(2) by simp
    then show ?thesis using Cons.IH [of now db' js] Cons.prems(2) ops step Sweep a by simp
  qed
qed simp

section \<open>Properties\<close>



end
