(* ===== verification/CanonicalJson.thy ===== *)
theory CanonicalJson imports JsValue "HOL-Library.Multiset" begin

text \<open>
  Canonical JSON text: \<open>canonicalTicketClaims\<close> of \<open>src/dispatch_ticket_trust.ts\<close> and the value
  check of \<open>src/jcs.ts\<close>. \<open>JSON.stringify\<close> of a string is written out; the text of a number
  is the runtime's. The property: the text does not depend on the order in which the members
  of an object were given, so a signature over it does not either.
\<close>

section \<open>JSON.stringify\<close>

definition hex_digit :: "nat \<Rightarrow> char" where
  "hex_digit n = (if n < 10 then char_of (48 + n) else char_of (87 + n))"

definition escape_char :: "char \<Rightarrow> string" where
  "escape_char c =
     (let n = of_char c :: nat in
      if n = 34 then [char_of (92 :: nat), char_of (34 :: nat)]
      else if n = 92 then [char_of (92 :: nat), char_of (92 :: nat)]
      else if n = 8 then [char_of (92 :: nat), CHR ''b'']
      else if n = 9 then [char_of (92 :: nat), CHR ''t'']
      else if n = 10 then [char_of (92 :: nat), CHR ''n'']
      else if n = 12 then [char_of (92 :: nat), CHR ''f'']
      else if n = 13 then [char_of (92 :: nat), CHR ''r'']
      else if n < 32 then [char_of (92 :: nat), CHR ''u'', CHR ''0'', CHR ''0'', hex_digit (n div 16), hex_digit (n mod 16)]
      else [c])"

definition json_string :: "string \<Rightarrow> string" where
  "json_string s = char_of (34 :: nat) # concat (map escape_char s) @ [char_of (34 :: nat)]"

text \<open>\<open>JSON.stringify\<close> of a scalar; a number that is not finite becomes \<open>null\<close>.\<close>

fun json_scalar :: "js_runtime \<Rightarrow> js \<Rightarrow> string" where
  "json_scalar rt JNull = ''null''"
| "json_scalar rt (JBool b) = (if b then ''true'' else ''false'')"
| "json_scalar rt (JNum (Fin q)) = rt_string rt (JNum (Fin q))"
| "json_scalar rt (JNum n) = ''null''"
| "json_scalar rt (JStr s) = json_string s"
| "json_scalar rt v = ''undefined''"

fun join :: "string \<Rightarrow> string list \<Rightarrow> string" where
  "join sep [] = []"
| "join sep [x] = x"
| "join sep (x # y # ys) = x @ sep @ join sep (y # ys)"

section \<open>canonicalTicketClaims\<close>

text \<open>\<open>Object.keys(value).sort()\<close> compares the keys by code units.\<close>

fun canonicalTicketClaims :: "js_runtime \<Rightarrow> js \<Rightarrow> string" where
  "canonicalTicketClaims rt (JArr vs) = ''['' @ join '','' (map (canonicalTicketClaims rt) vs) @ '']''"
| "canonicalTicketClaims rt (JObj kvs) =
     ''{'' @ join '',''
        (map (\<lambda>(k, text). json_string k @ '':'' @ text)
          (sort_key fst (map (\<lambda>(k, v). (k, canonicalTicketClaims rt v)) kvs))) @ ''}''"
| "canonicalTicketClaims rt v = json_scalar rt v"

section \<open>The order of members does not matter\<close>

text \<open>Two documents that differ only in the order of the members of their objects.\<close>

inductive same_json :: "js \<Rightarrow> js \<Rightarrow> bool" where
  same_refl: "same_json v v"
| same_arr: "list_all2 same_json vs ws \<Longrightarrow> same_json (JArr vs) (JArr ws)"
| same_obj: "map fst kvs = map fst kvs' \<Longrightarrow> list_all2 same_json (map snd kvs) (map snd kvs') \<Longrightarrow>
    distinct (map fst kvs) \<Longrightarrow> mset kvs' = mset kvs'' \<Longrightarrow> same_json (JObj kvs) (JObj kvs'')"

lemma sort_key_unique:
  assumes "mset xs = mset ys" and "distinct (map f xs)"
  shows "sort_key f xs = sort_key f ys"
proof (rule sort_key_inj_key_eq)
  show "mset xs = mset (sort_key f ys)" using assms(1) by simp
  show "inj_on f (set xs)" using assms(2) by (simp add: distinct_map)
qed simp

lemma canonical_members:
  assumes "map fst kvs = map fst kvs'" "map (canonicalTicketClaims rt) (map snd kvs) = map (canonicalTicketClaims rt) (map snd kvs')"
  shows "map (\<lambda>(k, v). (k, canonicalTicketClaims rt v)) kvs = map (\<lambda>(k, v). (k, canonicalTicketClaims rt v)) kvs'"
proof -
  have zip: "map (\<lambda>(k, v). (k, canonicalTicketClaims rt v)) xs =
      zip (map fst xs) (map (canonicalTicketClaims rt) (map snd xs))" for xs
    by (induction xs) auto
  show ?thesis unfolding zip using assms by simp
qed

text \<open>
  The canonical text that a ticket or a trust bundle is signed and digested over depends only
  on the document: writing the members of any object in it, at any depth, in another order
  gives the same text.
\<close>

lemma canonical_order_irrelevant:
  assumes "same_json v w"
  shows "canonicalTicketClaims rt v = canonicalTicketClaims rt w"
  using assms
proof (induction rule: same_json.induct)
  case (same_arr vs ws)
  then have "map (canonicalTicketClaims rt) vs = map (canonicalTicketClaims rt) ws"
    by (induction rule: list_all2_induct) auto
  then show ?case by simp
next
  case (same_obj kvs kvs' kvs'')
  let ?c = "\<lambda>(k, v). (k, canonicalTicketClaims rt v)"
  have "map (canonicalTicketClaims rt) (map snd kvs) = map (canonicalTicketClaims rt) (map snd kvs')"
    using same_obj.IH by (induction "map snd kvs" "map snd kvs'" arbitrary: kvs kvs' rule: list_all2_induct) auto
  then have "map ?c kvs = map ?c kvs'" by (rule canonical_members [OF same_obj.hyps(1)])
  moreover have "mset (map ?c kvs') = mset (map ?c kvs'')"
    using same_obj.hyps by (simp only: mset_map)
  moreover have "distinct (map fst (map ?c kvs'))"
    using same_obj.hyps by (simp add: case_prod_unfold comp_def)
  ultimately have "sort_key fst (map ?c kvs) = sort_key fst (map ?c kvs'')"
    using sort_key_unique [of "map ?c kvs'" "map ?c kvs''" fst] by simp
  then show ?case by simp
qed simp

lemma canonical_order_irrelevant_example:
  "canonicalTicketClaims \<lparr>rt_string = \<lambda>_. ''7'', rt_number = \<lambda>_. NaN\<rparr>
     (JObj [(''jti'', JStr ''x''), (''exp'', jint 7)]) =
   canonicalTicketClaims \<lparr>rt_string = \<lambda>_. ''7'', rt_number = \<lambda>_. NaN\<rparr>
     (JObj [(''exp'', jint 7), (''jti'', JStr ''x'')])"
  by (rule canonical_order_irrelevant, rule same_obj [of _ "[(''jti'', JStr ''x''), (''exp'', jint 7)]"])
     (simp_all add: same_refl add_mset_commute)

end

