(* ===== verification/TrustBundle.thy ===== *)
theory TrustBundle imports CanonicalJson TtlCache Gate begin

text \<open>
  Dispatch trust: \<open>src/dispatch_ticket_trust.ts\<close>. The verification of a dispatch ticket against
  a trust bundle (\<open>verifyDispatchTicketV2\<close>) and the store that keeps the bundle
  (\<open>FileDispatchTrustBundleStore\<close>) with its high-water mark against rollback. Cryptography, the
  digest and the locale's collation are parameters; times are whole seconds. Of the file
  system the store's model keeps what a later call can observe.
\<close>

section \<open>Bundles\<close>

datatype key_state = Active | Retiring | Revoked

primrec key_state_name :: "key_state \<Rightarrow> string" where
  "key_state_name Active = ''active''"
| "key_state_name Retiring = ''retiring''"
| "key_state_name Revoked = ''revoked''"

record trust_key =
  tk_key_id :: string
  tk_public_key_b64url :: string
  tk_state :: key_state
  tk_valid_from :: int
  tk_valid_until :: int
  tk_allowed_profiles :: "string list option"
  tk_issuers :: "string list option"
  tk_audiences :: "string list option"

record trust_bundle =
  tb_bundle_version :: number
  tb_keys :: "trust_key list"
  tb_issuer :: "string option"
  tb_valid_from :: "int option"
  tb_valid_until :: "int option"

record ticket_bindings =
  bi_issuer :: string
  bi_provider_id :: string
  bi_intent :: string
  bi_constraints_digest :: string
  bi_audience :: "string option"

record trust_decision =
  td_accepted :: bool
  td_code :: string
  td_anchored :: bool
  td_key_id :: "string option"

definition DISPATCH_TICKET_V2_PROFILE :: string where
  "DISPATCH_TICKET_V2_PROFILE = ''dispatch_ticket_v2''"

text \<open>\<open>[...xs].sort(cmp)\<close>, a stable sort by a comparison.\<close>

fun insort_by :: "('a \<Rightarrow> 'a \<Rightarrow> bool) \<Rightarrow> 'a \<Rightarrow> 'a list \<Rightarrow> 'a list" where
  "insort_by le x [] = [x]"
| "insort_by le x (y # ys) = (if le x y then x # y # ys else y # insort_by le x ys)"

definition sort_by :: "('a \<Rightarrow> 'a \<Rightarrow> bool) \<Rightarrow> 'a list \<Rightarrow> 'a list" where
  "sort_by le xs = foldr (insort_by le) xs []"

definition canonical_key :: "trust_key \<Rightarrow> js" where
  "canonical_key k =
     (let strs = (\<lambda>xs. JArr (map JStr (sort xs))) in
      JObj [(''key_id'', JStr (tk_key_id k)), (''public_key_b64url'', JStr (tk_public_key_b64url k)),
            (''state'', JStr (key_state_name (tk_state k))), (''valid_from'', jint (tk_valid_from k)),
            (''valid_until'', jint (tk_valid_until k)),
            (''allowed_profiles'', strs (or_default (tk_allowed_profiles k) [DISPATCH_TICKET_V2_PROFILE])),
            (''issuers'', strs (or_default (tk_issuers k) [])),
            (''audiences'', strs (or_default (tk_audiences k) []))])"

text \<open>\<open>collate a b\<close> is \<open>a.localeCompare(b) <= 0\<close>.\<close>

definition canonicalDispatchTrustBundle ::
  "js_runtime \<Rightarrow> (string \<Rightarrow> string \<Rightarrow> bool) \<Rightarrow> trust_bundle \<Rightarrow> string" where
  "canonicalDispatchTrustBundle rt collate bundle =
     canonicalTicketClaims rt (JObj
       ([(''bundle_version'', JNum (tb_bundle_version bundle)),
         (''keys'', JArr (map canonical_key
            (sort_by (\<lambda>a b. collate (tk_key_id a) (tk_key_id b)) (tb_keys bundle))))] @
        (case tb_issuer bundle of None \<Rightarrow> [] | Some i \<Rightarrow> [(''issuer'', JStr i)]) @
        (case tb_valid_from bundle of None \<Rightarrow> [] | Some t \<Rightarrow> [(''valid_from'', jint t)]) @
        (case tb_valid_until bundle of None \<Rightarrow> [] | Some t \<Rightarrow> [(''valid_until'', jint t)])))"

section \<open>Verification of a ticket\<close>

definition trust_verdict :: "string \<Rightarrow> string option \<Rightarrow> bool \<Rightarrow> trust_decision" where
  "trust_verdict code keyId accepted =
     \<lparr>td_accepted = accepted, td_code = code, td_anchored = accepted,
      td_key_id = (case keyId of None \<Rightarrow> None | Some k \<Rightarrow> if k = [] then None else Some k)\<rparr>"

definition find_key :: "string option \<Rightarrow> trust_key list \<Rightarrow> trust_key option" where
  "find_key keyId keys =
     (case keyId of None \<Rightarrow> None
      | Some k \<Rightarrow> if k = [] then None else List.find (\<lambda>c. tk_key_id c = k) keys)"

definition as_string :: "js \<Rightarrow> string option" where
  "as_string v = (case v of JStr s \<Rightarrow> Some s | _ \<Rightarrow> None)"

definition safe_integer :: "js \<Rightarrow> int option" where
  "safe_integer v = (if is_safe_integer v then (case v of JNum (Fin q) \<Rightarrow> Some \<lfloor>q\<rfloor> | _ \<Rightarrow> None) else None)"

definition string_in :: "string list option \<Rightarrow> string \<Rightarrow> bool" where
  \<comment> \<open>\<open>xs?.length && !xs.includes(s)\<close>, negated: an absent or empty list admits every string\<close>
  "string_in xs s = (case xs of None \<Rightarrow> True | Some ys \<Rightarrow> ys = [] \<or> s \<in> set ys)"

text \<open>
  The checks before the replay cache, in the order of the code: \<open>Inl\<close> the rejection, \<open>Inr\<close> the
  key, the ticket id and its expiry. \<open>ed_verify key message signature\<close> is false also where
  the key or the signature cannot be decoded.
\<close>

definition bundle_guards :: "js \<Rightarrow> trust_bundle \<Rightarrow> int \<Rightarrow> int \<Rightarrow> (bool \<times> string) list" where
  "bundle_guards claims bundle now minimum =
     [(case safe_integer (JNum (tb_bundle_version bundle)) of None \<Rightarrow> True | Some v \<Rightarrow> v < minimum,
         ''reject_bundle_rollback''),
      (case tb_valid_from bundle of None \<Rightarrow> False | Some t \<Rightarrow> now < t, ''reject_bundle_not_yet_valid''),
      (case tb_valid_until bundle of None \<Rightarrow> False | Some t \<Rightarrow> now > t, ''reject_bundle_expired''),
      (own_property claims ''profile'' \<noteq> JStr DISPATCH_TICKET_V2_PROFILE, ''reject_required_profile_downgrade'')]"

definition key_guards ::
  "js_runtime \<Rightarrow> (string \<Rightarrow> string \<Rightarrow> string \<Rightarrow> bool) \<Rightarrow> js \<Rightarrow> string \<Rightarrow> ticket_bindings \<Rightarrow> int \<Rightarrow> trust_key \<Rightarrow>
   int option \<Rightarrow> string option \<Rightarrow> (bool \<times> string) list" where
  "key_guards rt ed_verify claims signature bindings now key expiresAt jti =
     (let field = own_property claims in
      [(tk_state key = Revoked, ''reject_key_revoked''),
       (now < tk_valid_from key \<or> now > tk_valid_until key, ''reject_key_expired''),
       (DISPATCH_TICKET_V2_PROFILE \<notin> set (or_default (tk_allowed_profiles key) [DISPATCH_TICKET_V2_PROFILE]),
          ''reject_profile_not_allowed''),
       (\<not> string_in (tk_issuers key) (String_of rt (field ''issuer'')), ''reject_issuer''),
       (\<not> string_in (tk_audiences key) (String_of rt (field ''audience'')), ''reject_audience''),
       (field ''issuer'' \<noteq> JStr (bi_issuer bindings) \<or>
        field ''provider_id'' \<noteq> JStr (bi_provider_id bindings) \<or>
        field ''intent'' \<noteq> JStr (bi_intent bindings) \<or>
        field ''constraints_digest'' \<noteq> JStr (bi_constraints_digest bindings), ''reject_claim_mismatch''),
       (case bi_audience bindings of None \<Rightarrow> False | Some a \<Rightarrow> field ''audience'' \<noteq> JStr a,
          ''reject_claim_mismatch''),
       (expiresAt = None \<or> the expiresAt \<le> now \<or> jti = None \<or> the jti = [], ''reject_claim_mismatch''),
       (\<not> ed_verify (tk_public_key_b64url key)
            (''IICP-DISPATCH-TICKET-V2'' @ [CHR 0x00] @ canonicalTicketClaims rt claims) signature,
          ''reject_signature'')])"

definition check_ticket ::
  "js_runtime \<Rightarrow> (string \<Rightarrow> string \<Rightarrow> string \<Rightarrow> bool) \<Rightarrow> js \<Rightarrow> string \<Rightarrow> trust_bundle \<Rightarrow> ticket_bindings \<Rightarrow>
   int \<Rightarrow> int option \<Rightarrow> trust_decision + string option \<times> string \<times> int" where
  "check_ticket rt ed_verify claims signature bundle bindings now minimumBundleVersion =
     (case first_failure (bundle_guards claims bundle now (or_default minimumBundleVersion 0)) of
        Some code \<Rightarrow> Inl (trust_verdict code None False)
      | None \<Rightarrow>
          (let keyId = as_string (own_property claims ''key_id'');
               expiresAt = safe_integer (own_property claims ''expires_at'');
               jti = as_string (own_property claims ''jti'')
           in case find_key keyId (tb_keys bundle) of
                None \<Rightarrow> Inl (trust_verdict ''reject_unknown_key'' keyId False)
              | Some key \<Rightarrow>
                  (case first_failure (key_guards rt ed_verify claims signature bindings now key expiresAt jti) of
                     Some code \<Rightarrow> Inl (trust_verdict code keyId False)
                   | None \<Rightarrow> Inr (keyId, the jti, the expiresAt))))"

definition verifyDispatchTicketV2 ::
  "js_runtime \<Rightarrow> (string \<Rightarrow> string \<Rightarrow> string \<Rightarrow> bool) \<Rightarrow> js \<Rightarrow> string \<Rightarrow> trust_bundle \<Rightarrow> ticket_bindings \<Rightarrow>
   int \<Rightarrow> int option \<Rightarrow> string expiry_map option \<Rightarrow> trust_decision \<times> string expiry_map option" where
  "verifyDispatchTicketV2 rt ed_verify claims signature bundle bindings now minimumBundleVersion cache =
     (case check_ticket rt ed_verify claims signature bundle bindings now minimumBundleVersion of
        Inl d \<Rightarrow> (d, cache)
      | Inr (keyId, jti, expiresAt) \<Rightarrow>
          (case cache of
             None \<Rightarrow> (trust_verdict ''accept_anchored'' keyId True, None)
           | Some seen \<Rightarrow>
               (let (dup, seen) = replay_contains seen jti now in
                if dup then (trust_verdict ''reject_local_replay'' keyId False, Some seen)
                else (trust_verdict ''accept_anchored'' keyId True, Some (replay_remember seen jti expiresAt)))))"

section \<open>The store\<close>

record stored_bundle =
  sb_bundle :: trust_bundle
  sb_canonical_bytes :: string
  sb_digest :: string
  sb_high_water :: int

datatype install_status = Installed | Unchanged | Stale | Conflict | Recovered | RecoveryRequired

datatype trust_store_error = StoreError string | StoreCorrupt | StoreLocked

text \<open>
  The file: absent; not acceptable as a store (a link, not owner-only, too large, not JSON, or
  with a malformed base64 text); or a JSON object with these members, the base64 text decoded.
\<close>

record file_content =
  fc_bundle_bytes :: string
  fc_bundle_digest :: js
  fc_bundle_version :: js
  fc_high_water :: js

datatype trust_file = Absent | Unacceptable | Present file_content

text \<open>
  What the store uses of its surroundings: the digest, the text of a bundle and the reading of
  it (\<open>JSON.parse\<close>; \<open>None\<close> when it throws).
\<close>

record trust_env =
  te_runtime :: js_runtime
  te_collate :: "string \<Rightarrow> string \<Rightarrow> bool"
  te_digest :: "string \<Rightarrow> string"
  te_parse :: "string \<Rightarrow> trust_bundle option"

definition bundle_text :: "trust_env \<Rightarrow> trust_bundle \<Rightarrow> string" where
  "bundle_text env b = canonicalDispatchTrustBundle (te_runtime env) (te_collate env) b"

definition bundle_version :: "trust_bundle \<Rightarrow> int option" where
  "bundle_version b = safe_integer (JNum (tb_bundle_version b))"

definition trust_load :: "trust_env \<Rightarrow> trust_file \<Rightarrow> trust_store_error + stored_bundle option" where
  "trust_load env file =
     (case file of
        Absent \<Rightarrow> Inr None
      | Unacceptable \<Rightarrow> Inl StoreCorrupt
      | Present fc \<Rightarrow>
          let bytes = fc_bundle_bytes fc; digest = te_digest env bytes in
          if fc_bundle_digest fc \<noteq> JStr digest then Inl StoreCorrupt
          else (case te_parse env bytes of
              None \<Rightarrow> Inl StoreCorrupt
            | Some bundle \<Rightarrow>
                (case (bundle_version bundle, safe_integer (JNum (Number_of (te_runtime env) (fc_high_water fc)))) of
                   (Some version, Some highWater) \<Rightarrow>
                     if version < 0 \<or> fc_bundle_version fc \<noteq> JNum (tb_bundle_version bundle) \<or> highWater < version
                     then Inl StoreCorrupt
                     else if bundle_text env bundle \<noteq> bytes then Inl StoreCorrupt
                     else Inr (Some \<lparr>sb_bundle = bundle, sb_canonical_bytes = bytes, sb_digest = digest,
                                     sb_high_water = highWater\<rparr>)
                 | _ \<Rightarrow> Inl StoreCorrupt)))"

text \<open>
  \<open>commit\<close> writes a temporary file and renames it over the store. \<open>fault\<close> is a failure of the
  file system: before the rename nothing has changed, after it the new content stands.
\<close>

datatype io_fault = NoFault | BeforeRename | AfterRename

definition trust_commit ::
  "trust_env \<Rightarrow> io_fault \<Rightarrow> trust_file \<Rightarrow> trust_bundle \<Rightarrow> int \<Rightarrow> (trust_store_error + stored_bundle) \<times> trust_file" where
  "trust_commit env fault file bundle highWater =
     (if (case bundle_version bundle of None \<Rightarrow> True | Some v \<Rightarrow> v < 0 \<or> highWater < v) \<or>
         highWater > MAX_SAFE_INTEGER
      then (Inl (StoreError ''bundle version and high-water mark must be non-negative safe integers''), file)
      else
        let bytes = bundle_text env bundle;
            digest = te_digest env bytes;
            content = \<lparr>fc_bundle_bytes = bytes, fc_bundle_digest = JStr digest,
              fc_bundle_version = JNum (tb_bundle_version bundle), fc_high_water = jint highWater\<rparr>
        in case fault of
             BeforeRename \<Rightarrow> (Inl (StoreError ''write failed''), file)
           | AfterRename \<Rightarrow> (Inl (StoreError ''write failed''), Present content)
           | NoFault \<Rightarrow> (Inr \<lparr>sb_bundle = bundle, sb_canonical_bytes = bytes, sb_digest = digest,
                            sb_high_water = highWater\<rparr>, Present content))"

definition trust_install ::
  "trust_env \<Rightarrow> bool \<Rightarrow> io_fault \<Rightarrow> trust_file \<Rightarrow> trust_bundle \<Rightarrow> number option \<Rightarrow>
   (trust_store_error + install_status \<times> stored_bundle option) \<times> trust_file" where
  "trust_install env locked fault file bundle expectedCurrentVersion =
     (case bundle_version bundle of
        None \<Rightarrow> (Inl (StoreError ''bundle version must be a non-negative safe integer''), file)
      | Some version \<Rightarrow>
          if version < 0 then (Inl (StoreError ''bundle version must be a non-negative safe integer''), file)
          else if locked then (Inl StoreLocked, file)
          else (case trust_load env file of
              Inl e \<Rightarrow> (Inl e, file)
            | Inr current \<Rightarrow>
                let currentVersion = map_option (\<lambda>c. tb_bundle_version (sb_bundle c)) current;
                    candidateDigest = te_digest env (bundle_text env bundle);
                    highWater = (case current of None \<Rightarrow> 0 | Some c \<Rightarrow> sb_high_water c)
                in
                if expectedCurrentVersion \<noteq> None \<and> expectedCurrentVersion \<noteq> currentVersion
                then (Inr (Conflict, current), file)
                else if version < highWater then (Inr (Stale, current), file)
                else (case current of
                    Some c \<Rightarrow>
                      if tb_bundle_version bundle = tb_bundle_version (sb_bundle c)
                      then (Inr (if candidateDigest = sb_digest c then Unchanged else Conflict, current), file)
                      else (case trust_commit env fault file bundle (max highWater version) of
                          (Inl e, file') \<Rightarrow> (Inl e, file') | (Inr st, file') \<Rightarrow> (Inr (Installed, Some st), file'))
                  | None \<Rightarrow> (case trust_commit env fault file bundle (max highWater version) of
                          (Inl e, file') \<Rightarrow> (Inl e, file') | (Inr st, file') \<Rightarrow> (Inr (Installed, Some st), file')))))"

text \<open>An authorization for a recovery: whether its reason has any text, and a minimal mark.\<close>

record recovery_authorization =
  ra_has_reason :: bool
  ra_minimum_high_water :: "int option"

definition trust_recover ::
  "trust_env \<Rightarrow> bool \<Rightarrow> io_fault \<Rightarrow> trust_file \<Rightarrow> trust_bundle \<Rightarrow> recovery_authorization option \<Rightarrow>
   (trust_store_error + install_status \<times> stored_bundle option) \<times> trust_file" where
  "trust_recover env locked fault file bundle authorization =
     (case bundle_version bundle of
        None \<Rightarrow> (Inl (StoreError ''bundle version must be a non-negative safe integer''), file)
      | Some version \<Rightarrow>
          if version < 0 then (Inl (StoreError ''bundle version must be a non-negative safe integer''), file)
          else (case authorization of
              None \<Rightarrow> (Inr (RecoveryRequired, None), file)
            | Some auth \<Rightarrow>
                if \<not> ra_has_reason auth then (Inr (RecoveryRequired, None), file)
                else if locked then (Inl StoreLocked, file)
                else
                  let current = (case trust_load env file of Inl _ \<Rightarrow> None | Inr c \<Rightarrow> c);
                      highWater = max (max version (or_default (ra_minimum_high_water auth) 0))
                                    (case current of None \<Rightarrow> 0 | Some c \<Rightarrow> sb_high_water c)
                  in (case trust_commit env fault file bundle highWater of
                        (Inl e, file') \<Rightarrow> (Inl e, file') | (Inr st, file') \<Rightarrow> (Inr (Recovered, Some st), file'))))"

section \<open>The high-water mark\<close>

text \<open>
  The reading of a written bundle gives back a bundle of the same text and version: the
  documented behaviour of \<open>JSON.parse\<close> on the canonical text.
\<close>

definition reads_back :: "trust_env \<Rightarrow> trust_bundle \<Rightarrow> bool" where
  "reads_back env b =
     (case te_parse env (bundle_text env b) of
        None \<Rightarrow> False
      | Some b' \<Rightarrow> bundle_text env b' = bundle_text env b \<and> tb_bundle_version b' = tb_bundle_version b)"

definition loadable :: "trust_env \<Rightarrow> trust_file \<Rightarrow> bool" where
  "loadable env file = (case trust_load env file of Inl _ \<Rightarrow> False | Inr _ \<Rightarrow> True)"

definition high_water_of :: "trust_env \<Rightarrow> trust_file \<Rightarrow> int" where
  "high_water_of env file =
     (case trust_load env file of Inr (Some s) \<Rightarrow> sb_high_water s | _ \<Rightarrow> 0)"

lemma safe_integer_jint: "\<bar>n\<bar> \<le> MAX_SAFE_INTEGER \<Longrightarrow> safe_integer (jint n) = Some n"
proof -
  assume "\<bar>n\<bar> \<le> MAX_SAFE_INTEGER"
  then have "\<bar>(of_int n :: rat)\<bar> \<le> of_int MAX_SAFE_INTEGER"
    by (metis of_int_abs of_int_le_iff)
  then show ?thesis by (simp add: safe_integer_def)
qed

lemma commit_cases:
  assumes "reads_back env b" and "trust_commit env fault file b hw = (r, file')"
  shows "file' = file \<and> (\<exists>e. r = Inl e) \<or>
    (loadable env file' \<and> high_water_of env file' = hw \<and>
     (case r of Inl _ \<Rightarrow> True | Inr st \<Rightarrow> sb_high_water st = hw \<and> sb_bundle st = b))"
proof (cases "file' = file \<and> (\<exists>e. r = Inl e)")
  case False
  then obtain v where v: "bundle_version b = Some v" "0 \<le> v" "v \<le> hw" "hw \<le> MAX_SAFE_INTEGER"
    and file': "file' = Present \<lparr>fc_bundle_bytes = bundle_text env b,
       fc_bundle_digest = JStr (te_digest env (bundle_text env b)),
       fc_bundle_version = JNum (tb_bundle_version b), fc_high_water = jint hw\<rparr>"
    and r: "case r of Inl _ \<Rightarrow> True | Inr st \<Rightarrow> sb_high_water st = hw \<and> sb_bundle st = b"
    using assms(2) by (auto simp: trust_commit_def Let_def split: if_splits option.splits io_fault.splits)
  obtain b' where b': "te_parse env (bundle_text env b) = Some b'" "bundle_text env b' = bundle_text env b"
    "tb_bundle_version b' = tb_bundle_version b"
    using assms(1) by (auto simp: reads_back_def split: option.splits)
  have "safe_integer (jint hw) = Some hw" using v by (intro safe_integer_jint) simp
  then have "trust_load env file' = Inr (Some \<lparr>sb_bundle = b', sb_canonical_bytes = bundle_text env b,
      sb_digest = te_digest env (bundle_text env b), sb_high_water = hw\<rparr>)"
    using v b' by (simp add: file' trust_load_def Let_def bundle_version_def)
  then show ?thesis using r by (simp add: loadable_def high_water_of_def)
qed simp

datatype trust_op =
    InstallOp bool io_fault trust_bundle "number option"
  | RecoverOp bool io_fault trust_bundle "recovery_authorization option"

fun trust_step :: "trust_env \<Rightarrow> trust_op \<Rightarrow> trust_file \<Rightarrow> trust_file" where
  "trust_step env (InstallOp locked fault b expected) file = snd (trust_install env locked fault file b expected)"
| "trust_step env (RecoverOp locked fault b auth) file = snd (trust_recover env locked fault file b auth)"

fun op_bundle :: "trust_op \<Rightarrow> trust_bundle" where
  "op_bundle (InstallOp _ _ b _) = b"
| "op_bundle (RecoverOp _ _ b _) = b"

lemma install_step:
  assumes "reads_back env b" and "loadable env file"
    and "trust_install env locked fault file b expected = (res, file')"
  shows "loadable env file' \<and> high_water_of env file \<le> high_water_of env file' \<and>
    (case res of Inr (Installed, st) \<Rightarrow>
        (case bundle_version b of None \<Rightarrow> False | Some v \<Rightarrow>
           high_water_of env file \<le> v \<and> high_water_of env file' = max (high_water_of env file) v)
     | _ \<Rightarrow> True)"
proof -
  obtain current where cur: "trust_load env file = Inr current"
    using assms(2) by (auto simp: loadable_def split: sum.splits)
  let ?hw = "case current of None \<Rightarrow> 0 | Some c \<Rightarrow> sb_high_water c"
  have hw: "high_water_of env file = ?hw"
    using cur by (auto simp: high_water_of_def split: option.splits)
  have "(res, file') = (res, file) \<and> (case res of Inr (Installed, st) \<Rightarrow> False | _ \<Rightarrow> True) \<or>
    (\<exists>v r. bundle_version b = Some v \<and> ?hw \<le> v \<and> trust_commit env fault file b (max ?hw v) = (r, file') \<and>
       (case r of Inl e \<Rightarrow> res = Inl e | Inr st \<Rightarrow> res = Inr (Installed, Some st)))"
    using assms(3) cur
    by (auto simp: trust_install_def Let_def split: option.splits if_splits prod.splits sum.splits)
  then show ?thesis
  proof (elim disjE exE conjE)
    fix v r assume v: "bundle_version b = Some v" "?hw \<le> v"
      and c: "trust_commit env fault file b (max ?hw v) = (r, file')"
      and r: "case r of Inl e \<Rightarrow> res = Inl e | Inr st \<Rightarrow> res = Inr (Installed, Some st)"
    show ?thesis
      using commit_cases [OF assms(1) c] r v hw assms(2)
      by (auto split: sum.splits)
  qed (use assms(2) in \<open>auto split: sum.splits prod.splits install_status.splits\<close>)
qed

lemma recover_step:
  assumes "reads_back env b" and "loadable env file"
    and "trust_recover env locked fault file b auth = (res, file')"
  shows "loadable env file' \<and> high_water_of env file \<le> high_water_of env file'"
proof -
  obtain current where cur: "trust_load env file = Inr current"
    using assms(2) by (auto simp: loadable_def split: sum.splits)
  let ?hw = "case current of None \<Rightarrow> 0 | Some c \<Rightarrow> sb_high_water c"
  have hw: "high_water_of env file = ?hw"
    using cur by (auto simp: high_water_of_def split: option.splits)
  have "file' = file \<or> (\<exists>n r. ?hw \<le> n \<and> trust_commit env fault file b n = (r, file'))"
    using assms(3) cur
    by (auto simp: trust_recover_def Let_def split: option.splits if_splits prod.splits sum.splits
        intro: exI [of _ "max _ _"])
  then show ?thesis
    using commit_cases [OF assms(1)] hw assms(2) by fastforce
qed

lemma trust_run:
  "loadable env tf \<Longrightarrow> list_all (\<lambda>oper. reads_back env (op_bundle oper)) ops \<Longrightarrow>
   loadable env (fold (trust_step env) ops tf) \<and>
   high_water_of env tf \<le> high_water_of env (fold (trust_step env) ops tf)"
proof (induction ops arbitrary: tf)
  case (Cons oper ops)
  have "loadable env (trust_step env oper tf) \<and> high_water_of env tf \<le> high_water_of env (trust_step env oper tf)"
  proof (cases oper)
    case (InstallOp l f b e)
    then show ?thesis
      using install_step [of env b tf l f e] Cons.prems
      by (cases "trust_install env l f tf b e") simp
  next
    case (RecoverOp l f b a)
    then show ?thesis
      using recover_step [of env b tf l f a] Cons.prems
      by (cases "trust_recover env l f tf b a") simp
  qed
  then show ?case
    using Cons.IH [of "trust_step env oper tf"] Cons.prems(2) by simp
qed simp

section \<open>Accepted tickets\<close>

text \<open>What an anchored ticket is: the conditions, without the order of the checks.\<close>

definition anchored_by ::
  "js_runtime \<Rightarrow> (string \<Rightarrow> string \<Rightarrow> string \<Rightarrow> bool) \<Rightarrow> js \<Rightarrow> string \<Rightarrow> trust_bundle \<Rightarrow> ticket_bindings \<Rightarrow>
   int \<Rightarrow> int \<Rightarrow> trust_key \<Rightarrow> bool" where
  "anchored_by rt ed_verify claims signature bundle bindings now minimum key =
     (let field = own_property claims in
      (\<exists>v. bundle_version bundle = Some v \<and> minimum \<le> v) \<and>
      (\<forall>t. tb_valid_from bundle = Some t \<longrightarrow> t \<le> now) \<and> (\<forall>t. tb_valid_until bundle = Some t \<longrightarrow> now \<le> t) \<and>
      field ''profile'' = JStr DISPATCH_TICKET_V2_PROFILE \<and>
      key \<in> set (tb_keys bundle) \<and> field ''key_id'' = JStr (tk_key_id key) \<and>
      tk_state key \<noteq> Revoked \<and> tk_valid_from key \<le> now \<and> now \<le> tk_valid_until key \<and>
      (\<forall>ps. tk_allowed_profiles key = Some ps \<longrightarrow> DISPATCH_TICKET_V2_PROFILE \<in> set ps) \<and>
      (\<forall>is. tk_issuers key = Some is \<and> is \<noteq> [] \<longrightarrow> bi_issuer bindings \<in> set is) \<and>
      (\<forall>as. tk_audiences key = Some as \<and> as \<noteq> [] \<longrightarrow> String_of rt (field ''audience'') \<in> set as) \<and>
      field ''issuer'' = JStr (bi_issuer bindings) \<and> field ''provider_id'' = JStr (bi_provider_id bindings) \<and>
      field ''intent'' = JStr (bi_intent bindings) \<and>
      field ''constraints_digest'' = JStr (bi_constraints_digest bindings) \<and>
      (\<forall>a. bi_audience bindings = Some a \<longrightarrow> field ''audience'' = JStr a) \<and>
      ed_verify (tk_public_key_b64url key)
        (''IICP-DISPATCH-TICKET-V2'' @ [CHR 0x00] @ canonicalTicketClaims rt claims) signature)"

lemma as_string_iff: "as_string x = Some s \<longleftrightarrow> x = JStr s"
  by (cases x) (auto simp: as_string_def)

lemma find_key_member:
  "find_key k keys = Some key \<Longrightarrow> key \<in> set keys \<and> k = Some (tk_key_id key)"
  by (auto simp: find_key_def find_Some_iff split: option.splits if_splits)

lemma check_ticket_Inr:
  assumes "check_ticket rt ed_verify claims signature bundle bindings now m = Inr (keyId, jti, e)"
  obtains key where "first_failure (bundle_guards claims bundle now (or_default m 0)) = None"
    "find_key keyId (tb_keys bundle) = Some key" "keyId = as_string (own_property claims ''key_id'')"
    "first_failure (key_guards rt ed_verify claims signature bindings now key
        (safe_integer (own_property claims ''expires_at'')) (as_string (own_property claims ''jti''))) = None"
    "jti = the (as_string (own_property claims ''jti''))"
    "e = the (safe_integer (own_property claims ''expires_at''))"
  using assms that by (simp add: check_ticket_def Let_def del: first_failure_None split: option.splits)

lemma check_ticket_sound:
  assumes "check_ticket rt ed_verify claims signature bundle bindings now m = Inr (keyId, jti, e)"
  shows "(\<exists>key. keyId = Some (tk_key_id key) \<and>
      anchored_by rt ed_verify claims signature bundle bindings now (or_default m 0) key) \<and>
    own_property claims ''jti'' = JStr jti \<and> jti \<noteq> [] \<and> safe_integer (own_property claims ''expires_at'') = Some e \<and> now < e"
proof -
  obtain key where g1: "first_failure (bundle_guards claims bundle now (or_default m 0)) = None"
    and key: "find_key keyId (tb_keys bundle) = Some key" "keyId = as_string (own_property claims ''key_id'')"
    and g2: "first_failure (key_guards rt ed_verify claims signature bindings now key
        (safe_integer (own_property claims ''expires_at'')) (as_string (own_property claims ''jti''))) = None"
    and j: "jti = the (as_string (own_property claims ''jti''))"
    and e: "e = the (safe_integer (own_property claims ''expires_at''))"
    using assms by (rule check_ticket_Inr)
  have "as_string (own_property claims ''jti'') = Some jti \<and> jti \<noteq> [] \<and>
      safe_integer (own_property claims ''expires_at'') = Some e \<and> now < e"
    using g2 j e by (auto simp: key_guards_def Let_def)
  moreover have "key \<in> set (tb_keys bundle)" "own_property claims ''key_id'' = JStr (tk_key_id key)"
    "keyId = Some (tk_key_id key)"
    using find_key_member [OF key(1)] key(2) by (auto simp: as_string_iff [symmetric])
  moreover have "anchored_by rt ed_verify claims signature bundle bindings now (or_default m 0) key"
    using g1 g2 calculation
    by (auto simp: anchored_by_def key_guards_def bundle_guards_def Let_def bundle_version_def string_in_def
        split: option.splits)
  ultimately show ?thesis by (auto simp: as_string_iff)
qed

text \<open>The verification as a guard: a request is a ticket with the context it is checked in.\<close>

record ticket_request =
  tr_claims :: js
  tr_signature :: string
  tr_bundle :: trust_bundle
  tr_bindings :: ticket_bindings
  tr_minimum :: "int option"

definition verify_request ::
  "js_runtime \<Rightarrow> (string \<Rightarrow> string \<Rightarrow> string \<Rightarrow> bool) \<Rightarrow> string expiry_map \<Rightarrow> int \<Rightarrow> ticket_request \<Rightarrow>
   bool \<times> string expiry_map" where
  "verify_request rt ed_verify seen now r =
     (let (d, cache) = verifyDispatchTicketV2 rt ed_verify (tr_claims r) (tr_signature r) (tr_bundle r)
            (tr_bindings r) now (tr_minimum r) (Some seen)
      in (td_accepted d, case cache of None \<Rightarrow> [] | Some seen' \<Rightarrow> seen'))"

definition request_jti :: "ticket_request \<Rightarrow> string" where
  "request_jti r = (case as_string (own_property (tr_claims r) ''jti'') of None \<Rightarrow> [] | Some j \<Rightarrow> j)"

definition request_expiry :: "ticket_request \<Rightarrow> int" where
  "request_expiry r = (case safe_integer (own_property (tr_claims r) ''expires_at'') of None \<Rightarrow> 0 | Some e \<Rightarrow> e)"

lemma trust_verdict_accepted [simp]: "td_accepted (trust_verdict c k a) = a"
  by (simp add: trust_verdict_def)

lemma check_ticket_rejects: "check_ticket rt ed_verify claims signature bundle bindings now m = Inl d \<Longrightarrow> \<not> td_accepted d"
  by (auto simp: check_ticket_def Let_def simp del: first_failure_None split: option.splits)

lemma verify_request_cases:
  obtains "verify_request rt ed_verify seen now r = (False, seen)"
  | "verify_request rt ed_verify seen now r = replay_check seen now (request_jti r, request_expiry r)"
    "now < request_expiry r"
proof (cases "check_ticket rt ed_verify (tr_claims r) (tr_signature r) (tr_bundle r) (tr_bindings r) now (tr_minimum r)")
  case (Inl d)
  then show ?thesis
    using check_ticket_rejects [OF Inl]
    by (intro that(1)) (simp add: verify_request_def verifyDispatchTicketV2_def)
next
  case (Inr x)
  then obtain k j e where c: "check_ticket rt ed_verify (tr_claims r) (tr_signature r) (tr_bundle r)
      (tr_bindings r) now (tr_minimum r) = Inr (k, j, e)"
    by (cases x) auto
  have "request_jti r = j" "request_expiry r = e" "now < e"
    using check_ticket_sound [OF c] by (simp_all add: request_jti_def request_expiry_def as_string_def)
  then show ?thesis
    by (intro that(2)) (simp_all add: verify_request_def verifyDispatchTicketV2_def c replay_check_def
        split: prod.splits)
qed

interpretation ticket_guard: ttl_guard "verify_request rt ed_verify" seen_held
  request_jti "\<lambda>_. request_expiry" "\<lambda>_. True" seen_inv for rt ed_verify
proof unfold_locales
  fix s :: "string expiry_map" and now r assume "seen_inv s"
  then show "seen_inv (snd (verify_request rt ed_verify s now r))"
    using dispatch_replay.admit_inv by (cases rule: verify_request_cases [of rt ed_verify s now r]) auto
next
  fix s :: "string expiry_map" and now r assume "seen_inv s" "fst (verify_request rt ed_verify s now r)"
  then show "\<not> seen_held s now (request_jti r)"
    using dispatch_replay.admit_free [where s = s and now = now and r = "(request_jti r, request_expiry r)"]
    by (cases rule: verify_request_cases [of rt ed_verify s now r]) auto
next
  fix s :: "string expiry_map" and now r and t :: int assume "seen_inv s" "fst (verify_request rt ed_verify s now r)" "t < request_expiry r"
  then show "seen_held (snd (verify_request rt ed_verify s now r)) t (request_jti r)"
    using dispatch_replay.admit_holds [where s = s and now = now and t = t and r = "(request_jti r, request_expiry r)"]
    by (cases rule: verify_request_cases [of rt ed_verify s now r]) auto
next
  fix s :: "string expiry_map" and now r and t :: int and k assume "seen_inv s" "now \<le> t" "seen_held s t k"
  then show "seen_held (snd (verify_request rt ed_verify s now r)) t k"
    using dispatch_replay.admit_keeps [where s = s and now = now and t = t and k = k and r = "(request_jti r, request_expiry r)"]
    by (cases rule: verify_request_cases [of rt ed_verify s now r]) auto
qed

section \<open>Properties\<close>

text \<open>
  A dispatch ticket is accepted only when it is anchored: a key of the bundle with the claimed
  id, neither revoked nor outside its validity nor restricted to other profiles, issuers or
  audiences, verifies the signature over the canonical text of the claims; the bundle is not
  older than required and in its validity; the claims are bound to the expected issuer,
  provider, intent, constraints and audience; and the ticket has an id and a future expiry.
\<close>

lemma accepted_ticket_is_anchored:
  assumes "td_accepted (fst (verifyDispatchTicketV2 rt ed_verify claims signature tb bindings now m cache))"
  shows "\<exists>key jti e. anchored_by rt ed_verify claims signature tb bindings now (or_default m 0) key \<and>
    own_property claims ''jti'' = JStr jti \<and> jti \<noteq> [] \<and>
    safe_integer (own_property claims ''expires_at'') = Some e \<and> now < e"
proof (cases "check_ticket rt ed_verify claims signature tb bindings now m")
  case (Inl d)
  then show ?thesis using assms check_ticket_rejects [OF Inl] by (simp add: verifyDispatchTicketV2_def)
next
  case (Inr x)
  then show ?thesis using check_ticket_sound by (cases x) blast
qed

definition example_key :: trust_key where
  "example_key = \<lparr>tk_key_id = ''k1'', tk_public_key_b64url = ''pub'', tk_state = Active, tk_valid_from = 0,
     tk_valid_until = 100, tk_allowed_profiles = None, tk_issuers = None, tk_audiences = None\<rparr>"

definition example_bundle :: trust_bundle where
  "example_bundle = \<lparr>tb_bundle_version = Fin 3, tb_keys = [example_key], tb_issuer = None,
     tb_valid_from = None, tb_valid_until = None\<rparr>"

definition example_bindings :: ticket_bindings where
  "example_bindings = \<lparr>bi_issuer = ''i'', bi_provider_id = ''p'', bi_intent = ''n'',
     bi_constraints_digest = ''d'', bi_audience = None\<rparr>"

definition example_claims :: js where
  "example_claims = JObj [(''profile'', JStr ''dispatch_ticket_v2''), (''key_id'', JStr ''k1''),
     (''issuer'', JStr ''i''), (''provider_id'', JStr ''p''), (''intent'', JStr ''n''),
     (''constraints_digest'', JStr ''d''), (''jti'', JStr ''j''), (''expires_at'', jint 50)]"

lemma example_accepted:
  "check_ticket rt (\<lambda>_ _ s. s = ''sig'') example_claims ''sig'' example_bundle example_bindings 10 None =
   Inr (Some ''k1'', ''j'', 50)"
  by (simp add: check_ticket_def bundle_guards_def key_guards_def first_failure.simps example_claims_def
      example_bundle_def example_bindings_def example_key_def safe_integer_def MAX_SAFE_INTEGER_def
      DISPATCH_TICKET_V2_PROFILE_def find_key_def as_string_def string_in_def Let_def)

lemma accepted_ticket_is_anchored_example:
  "\<exists>key jti e. anchored_by \<lparr>rt_string = \<lambda>_. [], rt_number = \<lambda>_. NaN\<rparr> (\<lambda>_ _ s. s = ''sig'') example_claims ''sig''
      example_bundle example_bindings 10 0 key \<and>
    own_property example_claims ''jti'' = JStr jti \<and> jti \<noteq> [] \<and>
    safe_integer (own_property example_claims ''expires_at'') = Some e \<and> 10 < e"
  using accepted_ticket_is_anchored [where claims = example_claims and signature = "''sig''"
      and tb = example_bundle and bindings = example_bindings and now = 10 and m = None and cache = None
      and rt = "\<lparr>rt_string = \<lambda>_. [], rt_number = \<lambda>_. NaN\<rparr>" and ed_verify = "\<lambda>_ _ s. s = ''sig''"]
  by (simp add: verifyDispatchTicketV2_def example_accepted)

text \<open>
  With the local replay cache a ticket is accepted at most once before it expires: in any
  sequence of verifications with a clock that does not run backwards, valid and invalid
  tickets in any order and against changing bundles, no request is accepted that carries the
  id of an earlier accepted one whose expiry has not passed.
\<close>

lemma ticket_accepted_once:
  assumes "monotone_clock start rs" and "i < j" and "j < length rs"
    and "request_jti (snd (rs ! i)) = request_jti (snd (rs ! j))"
    and "run_requests (verify_request rt ed_verify) [] rs ! i"
    and "fst (rs ! j) < request_expiry (snd (rs ! i))"
  shows "\<not> run_requests (verify_request rt ed_verify) [] rs ! j"
  by (rule ticket_guard.admitted_once [OF _ assms(1-3) _ _ assms(4-6)]) (simp_all add: seen_inv_def)

lemma ticket_accepted_once_example:
  "\<not> run_requests (verify_request \<lparr>rt_string = \<lambda>_. [], rt_number = \<lambda>_. NaN\<rparr> (\<lambda>_ _ s. s = ''sig'')) []
     (replicate 2 (10, \<lparr>tr_claims = example_claims, tr_signature = ''sig'', tr_bundle = example_bundle,
        tr_bindings = example_bindings, tr_minimum = None\<rparr>)) ! 1"
proof (rule ticket_accepted_once [where i = 0 and start = 0])
  have e: "request_expiry \<lparr>tr_claims = example_claims, tr_signature = ''sig'', tr_bundle = example_bundle,
        tr_bindings = example_bindings, tr_minimum = None\<rparr> = 50"
    by (simp add: request_expiry_def example_claims_def safe_integer_def MAX_SAFE_INTEGER_def)
  show "fst (replicate 2 (10, \<lparr>tr_claims = example_claims, tr_signature = ''sig'', tr_bundle = example_bundle,
        tr_bindings = example_bindings, tr_minimum = None\<rparr>) ! 1) < request_expiry (snd (replicate 2 (10 :: int,
        \<lparr>tr_claims = example_claims, tr_signature = ''sig'', tr_bundle = example_bundle,
        tr_bindings = example_bindings, tr_minimum = None\<rparr>) ! 0))"
    by (simp add: numeral_2_eq_2 e)
  show "run_requests (verify_request \<lparr>rt_string = \<lambda>_. [], rt_number = \<lambda>_. NaN\<rparr> (\<lambda>_ _ s. s = ''sig'')) []
     (replicate 2 (10, \<lparr>tr_claims = example_claims, tr_signature = ''sig'', tr_bundle = example_bundle,
        tr_bindings = example_bindings, tr_minimum = None\<rparr>)) ! 0"
    by (simp add: numeral_2_eq_2 verify_request_def verifyDispatchTicketV2_def example_accepted
        replay_contains_def replay_remember_def evict_expired_def js_evict_def js_has_def split: prod.splits)
qed (simp_all add: numeral_2_eq_2)



end
