(* ===== verification/RateLimit.thy ===== *)
theory RateLimit imports Prelude TtlCache begin

text \<open>
  Fixed-window rate limits: \<open>allowBind\<close> of \<open>RelaySessionRegistry\<close> (\<open>src/relay_session.ts\<close>) and
  \<open>_taskRateAllow\<close> of the node (\<open>src/node.ts\<close>). Both keep a bucket per source and drop old
  buckets when they are many. The locale shows that the dropping cannot be observed and that
  no source gets more than twice the limit through in any window of time.
\<close>

section \<open>The contract of a fixed-window limiter\<close>

record rate_bucket =
  rb_start :: int
  rb_count :: nat

definition current_bucket :: "int \<Rightarrow> int \<Rightarrow> rate_bucket option \<Rightarrow> rate_bucket option" where
  "current_bucket window now b =
     (case b of None \<Rightarrow> None | Some b \<Rightarrow> if now - rb_start b \<ge> window then None else Some b)"

definition counted :: "int \<Rightarrow> rate_bucket option \<Rightarrow> rate_bucket" where
  "counted now b =
     (case b of None \<Rightarrow> \<lparr>rb_start = now, rb_count = 1\<rparr> | Some b \<Rightarrow> b\<lparr>rb_count := rb_count b + 1\<rparr>)"

text \<open>The limiter that keeps every bucket, as a function from sources to buckets.\<close>

fun window_requests ::
  "int \<Rightarrow> nat \<Rightarrow> ('k \<Rightarrow> rate_bucket option) \<Rightarrow> (int \<times> 'k) list \<Rightarrow> bool list" where
  "window_requests window limit bs [] = []"
| "window_requests window limit bs ((now, k) # rs) =
     (let b = counted now (current_bucket window now (bs k))
      in (rb_count b \<le> limit) # window_requests window limit (bs(k := Some b)) rs)"

locale fixed_window_limiter =
  fixes allow :: "'s \<Rightarrow> int \<Rightarrow> 'k \<Rightarrow> bool \<times> 's"
    and bucket :: "'s \<Rightarrow> 'k \<Rightarrow> rate_bucket option"
    and window :: int
    and limit :: nat
    and inv :: "'s \<Rightarrow> bool"
  assumes allow_inv: "inv s \<Longrightarrow> inv (snd (allow s now k))"
    and allow_result: "inv s \<Longrightarrow>
      fst (allow s now k) \<longleftrightarrow> rb_count (counted now (current_bucket window now (bucket s k))) \<le> limit"
    and allow_bucket: "inv s \<Longrightarrow> now \<le> t \<Longrightarrow>
      current_bucket window t (bucket (snd (allow s now k)) k') =
      current_bucket window t (if k' = k then Some (counted now (current_bucket window now (bucket s k)))
                               else bucket s k')"
begin

lemma refines_window:
  "inv s \<Longrightarrow> monotone_clock start rs \<Longrightarrow>
   (\<And>t k. start \<le> t \<Longrightarrow> current_bucket window t (bucket s k) = current_bucket window t (bs k)) \<Longrightarrow>
   run_requests allow s rs = window_requests window limit bs rs"
proof (induction rs arbitrary: s start bs)
  case (Cons a rs)
  obtain now k where a: "a = (now, k)" by (cases a)
  obtain ok s' where ad: "allow s now k = (ok, s')" by (cases "allow s now k")
  have now: "start \<le> now" and rs: "monotone_clock now rs" and inv': "inv s'"
    using Cons.prems a ad allow_inv [of s now k] by auto
  let ?b = "counted now (current_bucket window now (bs k))"
  have cur: "current_bucket window now (bucket s k) = current_bucket window now (bs k)"
    using Cons.prems(3) now by blast
  have "run_requests allow s' rs = window_requests window limit (bs(k := Some ?b)) rs"
  proof (rule Cons.IH [OF inv' rs])
    fix t k' assume t: "now \<le> t"
    show "current_bucket window t (bucket s' k') = current_bucket window t ((bs(k := Some ?b)) k')"
      using allow_bucket [OF Cons.prems(1) t, of k k'] cur Cons.prems(3) [of t k'] t now ad by auto
  qed
  moreover have "ok \<longleftrightarrow> rb_count ?b \<le> limit"
    using allow_result [OF Cons.prems(1), of now k] ad cur by simp
  ultimately show ?case by (simp add: a ad Let_def)
qed simp

end

text \<open>The bound for the specification, per source.\<close>

fun window_single :: "int \<Rightarrow> nat \<Rightarrow> rate_bucket option \<Rightarrow> int list \<Rightarrow> bool list" where
  "window_single window limit b [] = []"
| "window_single window limit b (now # ts) =
     (let b' = counted now (current_bucket window now b)
      in (rb_count b' \<le> limit) # window_single window limit (Some b') ts)"

definition passed :: "bool list \<Rightarrow> nat" where
  "passed oks = length (filter (\<lambda>ok. ok) oks)"

lemma passed_simps [simp]:
  "passed [] = 0" "passed (True # xs) = Suc (passed xs)" "passed (False # xs) = passed xs"
  by (simp_all add: passed_def)

lemma passed_Cons: "passed (b # xs) = (if b then 1 else 0) + passed xs"
  by (simp add: passed_def)

lemma single_in_window:
  "list_all (\<lambda>t. t - rb_start b < window) ts \<Longrightarrow>
   passed (window_single window limit (Some b) ts) \<le> limit - rb_count b"
proof (induction ts arbitrary: b)
  case (Cons t ts)
  then have "passed (window_single window limit (Some (b\<lparr>rb_count := rb_count b + 1\<rparr>)) ts)
      \<le> limit - (rb_count b + 1)"
    using Cons.IH [of "b\<lparr>rb_count := rb_count b + 1\<rparr>"] by simp
  then show ?case
    using Cons.prems by (auto simp: current_bucket_def counted_def Let_def passed_Cons)
qed simp

lemma single_interval:
  "sorted ts \<Longrightarrow> list_all (\<lambda>t. a \<le> t \<and> t < a + window) ts \<Longrightarrow>
   passed (window_single window limit b ts) \<le> 2 * limit"
proof (induction ts arbitrary: b)
  case (Cons t ts)
  show ?case
  proof (cases "current_bucket window t b")
    case None
    have "list_all (\<lambda>t'. t' - t < window) ts" using Cons.prems by (auto simp: list_all_iff)
    then have "passed (window_single window limit (Some \<lparr>rb_start = t, rb_count = 1\<rparr>) ts) \<le> limit - 1"
      using single_in_window [of "\<lparr>rb_start = t, rb_count = 1\<rparr>" window ts limit] by simp
    then show ?thesis by (auto simp: None counted_def passed_Cons)
  next
    case (Some b')
    have "passed (window_single window limit (Some b0) ts) \<le> (limit - rb_count b0) + limit"
      if "sorted ts" "list_all (\<lambda>t. a \<le> t \<and> t < a + window) ts" for b0 ts
      using that
    proof (induction ts arbitrary: b0)
      case (Cons u us)
      show ?case
      proof (cases "u - rb_start b0 \<ge> window")
        case True
        have "list_all (\<lambda>t'. t' - u < window) us" using Cons.prems by (auto simp: list_all_iff)
        then have "passed (window_single window limit (Some \<lparr>rb_start = u, rb_count = 1\<rparr>) us) \<le> limit - 1"
          using single_in_window [of "\<lparr>rb_start = u, rb_count = 1\<rparr>" window us limit] by simp
        then show ?thesis using True by (auto simp: current_bucket_def counted_def passed_Cons)
      next
        case False
        have "passed (window_single window limit (Some (b0\<lparr>rb_count := rb_count b0 + 1\<rparr>)) us)
            \<le> (limit - (rb_count b0 + 1)) + limit"
          using Cons.IH [of "b0\<lparr>rb_count := rb_count b0 + 1\<rparr>"] Cons.prems by simp
        then show ?thesis using False by (auto simp: current_bucket_def counted_def passed_Cons)
      qed
    qed simp
    from this [of ts "b'\<lparr>rb_count := rb_count b' + 1\<rparr>"] Cons.prems show ?thesis
      by (auto simp: Some counted_def passed_Cons)
  qed
qed simp

text \<open>The answers that a source got within an interval of time.\<close>

fun answers_within :: "'k \<Rightarrow> int \<Rightarrow> int \<Rightarrow> (int \<times> 'k) list \<Rightarrow> bool list \<Rightarrow> bool list" where
  "answers_within k lo hi ((now, k') # rs) (ok # oks) =
     (if k' = k \<and> lo \<le> now \<and> now < hi then ok # answers_within k lo hi rs oks
      else answers_within k lo hi rs oks)"
| "answers_within k lo hi _ _ = []"

definition times_of :: "'k \<Rightarrow> int \<Rightarrow> (int \<times> 'k) list \<Rightarrow> int list" where
  "times_of k hi rs = map fst (filter (\<lambda>(now, k'). k' = k \<and> now < hi) rs)"

lemma times_of_bounds: "monotone_clock lo rs \<Longrightarrow> list_all (\<lambda>t. lo \<le> t \<and> t < hi) (times_of k hi rs)"
proof (induction rs arbitrary: lo)
  case (Cons a rs)
  then have "list_all (\<lambda>t. fst a \<le> t \<and> t < hi) (times_of k hi rs)" "lo \<le> fst a" by (cases a; simp)+
  then show ?case by (cases a) (auto simp: times_of_def list_all_iff)
qed (simp add: times_of_def)

lemma times_of_sorted: "monotone_clock lo rs \<Longrightarrow> sorted (times_of k hi rs)"
proof (induction rs arbitrary: lo)
  case (Cons a rs)
  obtain now k' where a: "a = (now, k')" by (cases a)
  have "monotone_clock now rs" using Cons.prems a by simp
  then have "list_all (\<lambda>t. now \<le> t \<and> t < hi) (times_of k hi rs)" "sorted (times_of k hi rs)"
    by (rule times_of_bounds, rule Cons.IH)
  then show ?case by (auto simp: times_of_def a list_all_iff)
qed (simp add: times_of_def)

lemma answers_from:
  "monotone_clock lo rs \<Longrightarrow>
   answers_within k lo hi rs (window_requests window limit bs rs) =
   window_single window limit (bs k) (times_of k hi rs)"
proof (induction rs arbitrary: lo bs)
  case (Cons a rs)
  obtain now k' where a: "a = (now, k')" by (cases a)
  let ?b = "counted now (current_bucket window now (bs k'))"
  have now: "lo \<le> now" "monotone_clock now rs" using Cons.prems a by simp_all
  have lower: "answers_within k lo hi rs oks = answers_within k now hi rs oks" for oks
    using now
  proof (induction rs arbitrary: oks)
    case (Cons c cs)
    have "monotone_clock now cs" using Cons.prems by (cases c; cases cs) auto
    then show ?case using Cons by (cases c; cases oks) auto
  qed simp
  have IH: "answers_within k now hi rs (window_requests window limit (bs(k' := Some ?b)) rs) =
      window_single window limit ((bs(k' := Some ?b)) k) (times_of k hi rs)"
    by (rule Cons.IH [OF now(2)])
  show ?case
  proof (cases "now < hi")
    case True
    then show ?thesis using IH now lower by (auto simp: a times_of_def Let_def)
  next
    case False
    have "times_of k hi rs = []"
      using times_of_bounds [OF now(2), of hi k] False
      by (cases "times_of k hi rs") auto
    then show ?thesis using IH now lower False by (simp add: a times_of_def Let_def)
  qed
qed (simp add: times_of_def)

lemma answers_bounded:
  "monotone_clock start rs \<Longrightarrow>
   passed (answers_within k lo (lo + window) rs (window_requests window limit bs rs)) \<le> 2 * limit"
proof (induction rs arbitrary: start bs)
  case (Cons a rs)
  obtain now k' where a: "a = (now, k')" by (cases a)
  show ?case
  proof (cases "lo \<le> now")
    case True
    then have m: "monotone_clock lo (a # rs)" using Cons.prems a by simp
    show ?thesis
      unfolding answers_from [OF m]
      by (rule single_interval [OF times_of_sorted [OF m] times_of_bounds [OF m]])
  next
    case False
    then show ?thesis using Cons.IH [of now] Cons.prems by (simp add: a Let_def)
  qed
qed simp

section \<open>The bucket map of the code\<close>

type_synonym bucket_map = "(string, rate_bucket) jsmap"

text \<open>
  The common body of \<open>allowBind\<close> and \<open>_taskRateAllow\<close>: the bucket of the source is renewed or
  counted up, stored, and when there are more than 4096 buckets the old ones are deleted.
\<close>

definition rate_step :: "int \<Rightarrow> bucket_map \<Rightarrow> int \<Rightarrow> string \<Rightarrow> nat \<times> bucket_map" where
  "rate_step window buckets now source =
     (let b0 = (case map_of buckets source of
                  None \<Rightarrow> \<lparr>rb_start = now, rb_count = 0\<rparr>
                | Some b \<Rightarrow> if now - rb_start b \<ge> window then \<lparr>rb_start = now, rb_count = 0\<rparr> else b);
          b = b0\<lparr>rb_count := rb_count b0 + 1\<rparr>;
          buckets = AList.update source b buckets;
          cutoff = now - window
      in (rb_count b,
          if length buckets > 4096 then js_evict (\<lambda>v. rb_start v < cutoff) buckets else buckets))"

definition taskRateAllow :: "int \<Rightarrow> int \<Rightarrow> bucket_map \<Rightarrow> int \<Rightarrow> string \<Rightarrow> bool \<times> bucket_map" where
  "taskRateAllow window limit buckets now key =
     (let (count, buckets) = rate_step window buckets now key in (int count \<le> limit, buckets))"

definition RELAY_BIND_RATE_WINDOW_MS :: int where
  "RELAY_BIND_RATE_WINDOW_MS = 60000"

definition allowBind :: "int \<Rightarrow> bucket_map \<Rightarrow> string \<Rightarrow> bool \<Rightarrow> int \<Rightarrow> bool \<times> bucket_map" where
  "allowBind bindRateLimit buckets source rebind now =
     (if rebind \<or> bindRateLimit = 0 then (True, buckets)
      else let (count, buckets) = rate_step RELAY_BIND_RATE_WINDOW_MS buckets now source
           in (int count \<le> bindRateLimit, buckets))"

lemma rate_step_count:
  "fst (rate_step window m now k) = rb_count (counted now (current_bucket window now (map_of m k)))"
  by (auto simp: rate_step_def counted_def current_bucket_def Let_def split: option.splits)

lemma rate_step_distinct: "distinct (js_keys m) \<Longrightarrow> distinct (js_keys (snd (rate_step window m now k)))"
  by (simp add: rate_step_def Let_def)

lemma rate_step_bucket:
  assumes "distinct (js_keys m)" and "now \<le> t"
  shows "current_bucket window t (map_of (snd (rate_step window m now k)) k') =
    current_bucket window t (if k' = k then Some (counted now (current_bucket window now (map_of m k)))
                             else map_of m k')"
proof -
  let ?b = "counted now (current_bucket window now (map_of m k))"
  let ?m = "AList.update k ?b m"
  have s: "snd (rate_step window m now k) =
      (if length ?m > 4096 then js_evict (\<lambda>v. rb_start v < now - window) ?m else ?m)"
    by (auto simp: rate_step_def counted_def current_bucket_def Let_def split: option.splits)
  show ?thesis
    using assms
    by (auto simp: s map_of_js_evict current_bucket_def split: option.splits)
qed

interpretation task_rate: fixed_window_limiter "taskRateAllow window (int limit)" map_of window limit
  "\<lambda>m. distinct (js_keys m)" for window limit
  by unfold_locales
     (simp_all add: taskRateAllow_def case_prod_unfold Let_def rate_step_distinct rate_step_bucket flip: rate_step_count)

interpretation bind_rate: fixed_window_limiter
  "\<lambda>m now source. allowBind (int (Suc limit)) m source False now" map_of RELAY_BIND_RATE_WINDOW_MS "Suc limit"
  "\<lambda>m. distinct (js_keys m)" for limit
  by unfold_locales
     (auto simp: allowBind_def case_prod_unfold Let_def rate_step_distinct rate_step_bucket simp flip: rate_step_count)

section \<open>Properties\<close>

text \<open>
  C19 The task rate limit of the node holds over time and not only per bucket: whatever the
  sources and the times of the requests, with a clock that does not run backwards, the answers
  are those of the limiter that never drops a bucket, and in any interval as long as the
  window no source gets more than twice the limit through.
\<close>

theorem task_rate_bounded:
  assumes "monotone_clock start rs"
  shows "run_requests (taskRateAllow window (int limit)) [] rs = window_requests window limit (\<lambda>_. None) rs \<and>
    passed (answers_within k lo (lo + window) rs (run_requests (taskRateAllow window (int limit)) [] rs)) \<le> 2 * limit"
proof -
  have "run_requests (taskRateAllow window (int limit)) [] rs = window_requests window limit (\<lambda>_. None) rs"
    by (rule task_rate.refines_window [OF _ assms]) simp_all
  then show ?thesis using answers_bounded [OF assms] by simp
qed

theorem task_rate_bounded_witness:
  "run_requests (taskRateAllow 1000 (int 2)) []
     [(0, ''a''), (10, ''a''), (20, ''a''), (30, ''b''), (1000, ''a'')] = [True, True, False, True, True]"
proof -
  let ?rs = "[(0, ''a''), (10, ''a''), (20, ''a''), (30, ''b''), (1000, ''a'')] :: (int \<times> string) list"
  have "monotone_clock 0 ?rs" by simp
  from task_rate_bounded [OF this, of 1000 2] show ?thesis
    by (simp add: counted_def current_bucket_def)
qed

end

