(* ===== verification/RelayStream.thy ===== *)
theory RelayStream imports ResponseSequence begin

text \<open>
  The relay's side of a streamed call: \<open>PendingRelayStream\<close> of \<open>src/relay_session.ts\<close>. Frames
  from the worker are validated, handed to a waiting reader or queued up to a bound; the
  reader takes them in order. A promise given out by \<open>next\<close> is a number (the reader), and an
  operation returns the promises it settles.
\<close>

definition MAX_RELAY_STREAM_EVENTS :: nat where
  "MAX_RELAY_STREAM_EVENTS = 32"

datatype stream_failure = InvalidFrame sequence_error | BackpressureExceeded | StreamTimeout

record pending_stream =
  ps_sequence :: response_sequence
  ps_events :: "response_frame list"
  ps_waiters :: "nat list"
  ps_error :: "stream_failure option"

type_synonym settlement = "nat \<times> (stream_failure + response_frame)"

definition new_pending_stream :: "string \<Rightarrow> string \<Rightarrow> string \<Rightarrow> pending_stream" where
  "new_pending_stream sessionId callId taskId =
     \<lparr>ps_sequence = new_sequence sessionId callId taskId, ps_events = [], ps_waiters = [], ps_error = None\<rparr>"

definition stream_fail :: "stream_failure \<Rightarrow> pending_stream \<Rightarrow> settlement list \<times> pending_stream" where
  "stream_fail e ps =
     (map (\<lambda>w. (w, Inl e)) (ps_waiters ps), ps\<lparr>ps_error := Some e, ps_events := [], ps_waiters := []\<rparr>)"

definition stream_push :: "response_frame \<Rightarrow> pending_stream \<Rightarrow> settlement list \<times> pending_stream" where
  "stream_push event ps =
     (if ps_error ps \<noteq> None then ([], ps)
      else case sequence_accept event (ps_sequence ps) of
        Inl err \<Rightarrow> stream_fail (InvalidFrame err) ps
      | Inr sq \<Rightarrow>
          let ps = ps\<lparr>ps_sequence := sq\<rparr> in
          (case ps_waiters ps of
             waiter # rest \<Rightarrow> ([(waiter, Inr event)], ps\<lparr>ps_waiters := rest\<rparr>)
           | [] \<Rightarrow>
               if length (ps_events ps) \<ge> MAX_RELAY_STREAM_EVENTS then stream_fail BackpressureExceeded ps
               else ([], ps\<lparr>ps_events := ps_events ps @ [event]\<rparr>)))"

definition stream_next :: "nat \<Rightarrow> pending_stream \<Rightarrow> settlement list \<times> pending_stream" where
  "stream_next waiter ps =
     (case ps_error ps of
        Some e \<Rightarrow> ([(waiter, Inl e)], ps)
      | None \<Rightarrow>
          (case ps_events ps of
             event # rest \<Rightarrow> ([(waiter, Inr event)], ps\<lparr>ps_events := rest\<rparr>)
           | [] \<Rightarrow> ([], ps\<lparr>ps_waiters := ps_waiters ps @ [waiter]\<rparr>)))"

text \<open>The timer of \<open>next\<close>: the reader gives up, unless its promise was settled before.\<close>

definition stream_timeout :: "nat \<Rightarrow> pending_stream \<Rightarrow> settlement list \<times> pending_stream" where
  "stream_timeout waiter ps =
     (if waiter \<in> set (ps_waiters ps)
      then ([(waiter, Inl StreamTimeout)], ps\<lparr>ps_waiters := remove1 waiter (ps_waiters ps)\<rparr>)
      else ([], ps))"

section \<open>Runs\<close>

datatype relay_stream_op = PushFrame response_frame | NextFrame nat | NextTimeout nat

fun relay_stream_step :: "relay_stream_op \<Rightarrow> pending_stream \<Rightarrow> settlement list \<times> pending_stream" where
  "relay_stream_step (PushFrame f) ps = stream_push f ps"
| "relay_stream_step (NextFrame w) ps = stream_next w ps"
| "relay_stream_step (NextTimeout w) ps = stream_timeout w ps"

fun relay_stream_run :: "relay_stream_op list \<Rightarrow> pending_stream \<Rightarrow> settlement list \<times> pending_stream" where
  "relay_stream_run [] ps = ([], ps)"
| "relay_stream_run (oper # ops) ps =
     (let (out, ps') = relay_stream_step oper ps; (out', ps'') = relay_stream_run ops ps' in (out @ out', ps''))"

text \<open>The frames pushed, and the frames delivered to readers.\<close>

fun pushed_frames :: "relay_stream_op list \<Rightarrow> response_frame list" where
  "pushed_frames [] = []"
| "pushed_frames (PushFrame f # ops) = f # pushed_frames ops"
| "pushed_frames (_ # ops) = pushed_frames ops"

fun delivered_frames :: "settlement list \<Rightarrow> response_frame list" where
  "delivered_frames [] = []"
| "delivered_frames ((w, Inr f) # out) = f # delivered_frames out"
| "delivered_frames ((w, Inl e) # out) = delivered_frames out"

lemma delivered_append [simp]: "delivered_frames (xs @ ys) = delivered_frames xs @ delivered_frames ys"
  by (induction xs rule: delivered_frames.induct) auto

lemma delivered_failures [simp]: "delivered_frames (map (\<lambda>w. (w, Inl e)) ws) = []"
  by (induction ws) auto

text \<open>
  The state against the frames accepted so far (\<open>acc\<close>) and delivered (\<open>out\<close>): while the
  stream is healthy nothing is lost or reordered; a reader waits only when nothing is queued.
\<close>

definition stream_state_ok ::
  "response_sequence \<Rightarrow> response_frame list \<Rightarrow> response_frame list \<Rightarrow> pending_stream \<Rightarrow> bool" where
  "stream_state_ok sq0 acc out ps =
     ((case ps_error ps of
         None \<Rightarrow> accept_all acc sq0 = Inr (ps_sequence ps) \<and> acc = out @ ps_events ps \<and>
                 length (ps_events ps) \<le> MAX_RELAY_STREAM_EVENTS \<and> (ps_waiters ps = [] \<or> ps_events ps = [])
       | Some _ \<Rightarrow> ps_events ps = [] \<and> ps_waiters ps = [] \<and>
                 (\<exists>rest sq. acc = out @ rest \<and> accept_all acc sq0 = Inr sq)))"

lemma stream_ok_push:
  assumes "stream_state_ok sq0 acc out ps" and "stream_push f ps = (res, ps')"
  shows "\<exists>acc'. (acc' = acc \<or> acc' = acc @ [f] \<and> ps_error ps = None) \<and>
    stream_state_ok sq0 acc' (out @ delivered_frames res) ps' \<and>
    (ps_error ps' = None \<longrightarrow> acc' = acc @ [f])"
proof (cases "ps_error ps")
  case (Some e)
  then show ?thesis using assms by (auto simp: stream_push_def)
next
  case None
  show ?thesis
  proof (cases "sequence_accept f (ps_sequence ps)")
    case (Inl err)
    then show ?thesis
      using assms None by (intro exI [of _ acc]) (auto simp: stream_push_def stream_fail_def stream_state_ok_def)
  next
    case (Inr sq)
    have acc: "accept_all (acc @ [f]) sq0 = Inr sq"
    proof -
      have "accept_all acc sq0 = Inr (ps_sequence ps)"
        using assms(1) None by (auto simp: stream_state_ok_def)
      then show ?thesis using Inr by (simp add: accept_all_append)
    qed
    show ?thesis
    proof (cases "ps_waiters ps = [] \<and> length (ps_events ps) \<ge> MAX_RELAY_STREAM_EVENTS")
      case True
      then show ?thesis
        using assms None Inr
        by (intro exI [of _ acc]) (auto simp: stream_push_def stream_fail_def stream_state_ok_def Let_def)
    next
      case False
      then show ?thesis
        using assms None Inr acc
        by (intro exI [of _ "acc @ [f]"])
           (auto simp: stream_push_def stream_state_ok_def Let_def split: list.splits if_splits)
    qed
  qed
qed

lemma stream_ok_next:
  assumes "stream_state_ok sq0 acc out ps" and "stream_next w ps = (res, ps')"
  shows "stream_state_ok sq0 acc (out @ delivered_frames res) ps' \<and> ps_error ps' = ps_error ps"
  using assms
  by (auto simp: stream_next_def stream_state_ok_def split: option.splits list.splits)

lemma stream_ok_timeout:
  assumes "stream_state_ok sq0 acc out ps" and "stream_timeout w ps = (res, ps')"
  shows "stream_state_ok sq0 acc (out @ delivered_frames res) ps' \<and> ps_error ps' = ps_error ps"
  using assms
  by (auto simp: stream_timeout_def stream_state_ok_def split: option.splits if_splits)

lemma relay_stream_run_ok:
  "stream_state_ok sq0 acc out ps \<Longrightarrow> relay_stream_run ops ps = (res, ps') \<Longrightarrow>
   \<exists>acc' k. stream_state_ok sq0 (acc @ acc') (out @ delivered_frames res) ps' \<and>
     acc' = take k (pushed_frames ops) \<and> (ps_error ps' = None \<longrightarrow> acc' = pushed_frames ops) \<and>
     (ps_error ps \<noteq> None \<longrightarrow> acc' = [] \<and> ps_error ps' \<noteq> None)"
proof (induction ops arbitrary: acc out ps res)
  case Nil
  then show ?case by auto
next
  case (Cons oper ops)
  obtain o1 ps1 where s: "relay_stream_step oper ps = (o1, ps1)" by (cases "relay_stream_step oper ps")
  obtain o2 where r: "relay_stream_run ops ps1 = (o2, ps')" and res: "res = o1 @ o2"
    using Cons.prems(2) s by (auto split: prod.splits)
  show ?case
  proof (cases oper)
    case (PushFrame f)
    obtain acc1 where a1: "acc1 = acc \<or> acc1 = acc @ [f] \<and> ps_error ps = None"
      and ok1: "stream_state_ok sq0 acc1 (out @ delivered_frames o1) ps1"
      and e1: "ps_error ps1 = None \<longrightarrow> acc1 = acc @ [f]"
      using stream_ok_push [OF Cons.prems(1)] s PushFrame by (metis relay_stream_step.simps(1))
    have err: "ps_error ps \<noteq> None \<Longrightarrow> ps_error ps1 \<noteq> None"
      using s PushFrame by (auto simp: stream_push_def)
    note IH = Cons.IH [OF ok1 r, unfolded append_assoc]
    show ?thesis
    proof (cases "acc1 = acc @ [f]")
      case True
      then show ?thesis
        using IH err a1 PushFrame res
        by (elim exE conjE) (rule exI [of _ "f # acc'" for acc'], rule exI [of _ "Suc k" for k], auto)
    next
      case False
      then have "acc1 = acc" "ps_error ps1 \<noteq> None" using a1 e1 by auto
      then show ?thesis
        using IH err PushFrame res by (intro exI [of _ "[]"] exI [of _ 0]) auto
    qed
  next
    case (NextFrame w)
    have ok1: "stream_state_ok sq0 acc (out @ delivered_frames o1) ps1" "ps_error ps1 = ps_error ps"
      using stream_ok_next [OF Cons.prems(1), of w o1 ps1] s NextFrame by simp_all
    then show ?thesis using Cons.IH [OF ok1(1) r] NextFrame res by auto
  next
    case (NextTimeout w)
    have ok1: "stream_state_ok sq0 acc (out @ delivered_frames o1) ps1" "ps_error ps1 = ps_error ps"
      using stream_ok_timeout [OF Cons.prems(1), of w o1 ps1] s NextTimeout by simp_all
    then show ?thesis using Cons.IH [OF ok1(1) r] NextTimeout res by auto
  qed
qed

section \<open>Properties\<close>

text \<open>
  C18 A relayed stream is delivered faithfully or fails: in any interleaving of frames from the
  worker, reads and read timeouts, what the readers got is an initial part of what the worker
  sent, in order and without gaps or repetitions, and it passes the validation of the stream;
  as long as the stream has not failed, what was not delivered is still queued, in a queue
  that never exceeds its bound.
\<close>

theorem relay_stream_is_fifo:
  "(case relay_stream_run ops (new_pending_stream s c t) of (out, ps) \<Rightarrow>
     (\<exists>k sq. delivered_frames out @ ps_events ps = take k (pushed_frames ops) \<and>
        accept_all (delivered_frames out) (new_sequence s c t) = Inr sq) \<and>
     length (ps_events ps) \<le> MAX_RELAY_STREAM_EVENTS \<and>
     (case ps_error ps of Some e \<Rightarrow> True
      | None \<Rightarrow> delivered_frames out @ ps_events ps = pushed_frames ops))"
proof -
  let ?sq0 = "new_sequence s c t"
  obtain out ps where run: "relay_stream_run ops (new_pending_stream s c t) = (out, ps)"
    by (cases "relay_stream_run ops (new_pending_stream s c t)")
  have "stream_state_ok ?sq0 [] [] (new_pending_stream s c t)"
    by (simp add: stream_state_ok_def new_pending_stream_def)
  then obtain acc k where ok: "stream_state_ok ?sq0 acc (delivered_frames out) ps"
    and acc: "acc = take k (pushed_frames ops)" and full: "ps_error ps = None \<longrightarrow> acc = pushed_frames ops"
    using relay_stream_run_ok [OF _ run] by (metis append_Nil)
  obtain rest sq where rest: "acc = delivered_frames out @ rest" "accept_all acc ?sq0 = Inr sq"
    "ps_events ps = [] \<or> ps_events ps = rest" "length (ps_events ps) \<le> MAX_RELAY_STREAM_EVENTS"
    "ps_error ps = None \<longrightarrow> ps_events ps = rest"
    using ok by (cases "ps_error ps") (auto simp: stream_state_ok_def)
  obtain sq1 where "accept_all (delivered_frames out) ?sq0 = Inr sq1"
    using rest(1,2) by (auto simp: accept_all_append split: sum.splits)
  moreover have "delivered_frames out = take (min (length (delivered_frames out)) k) (pushed_frames ops)"
    using rest(1) acc by (metis append_eq_conv_conj take_take)
  ultimately show ?thesis
    using rest acc full unfolding run
    by (auto simp: rest(1) split: option.splits) (metis take_all order_refl)+
qed

end
