(* ===== verification/RelaySession.thy ===== *)
theory RelaySession imports RelayStream FrameStream "HOL-Library.Multiset" begin

text \<open>
  The two kinds of relay sessions of \<open>src/relay_session.ts\<close>: \<open>RelayWorkerSession\<close>, which
  pushes calls down a socket, and \<open>HttpPollWorkerSession\<close>, which queues them for the worker's
  long polls. Call ids are drawn by the caller of an operation (\<open>randomUUID\<close>); a promise is a
  number, and an operation returns what it settles and writes, in order. The CBOR encoder and
  \<open>JSON.stringify\<close> are parameters.
\<close>

section \<open>Channels\<close>

text \<open>
  A channel between those who put messages in and those who take them out: every step hands
  out, and keeps, what was there followed by what was put in. Then nothing is lost, repeated or
  reordered over any run.
\<close>

locale fifo_channel =
  fixes queued :: "'s \<Rightarrow> 'm list"
    and step :: "'o \<Rightarrow> 's \<Rightarrow> 'e list \<times> 's"
    and puts :: "'o \<Rightarrow> 'm list"
    and gets :: "'e \<Rightarrow> 'm list"
    and ok :: "'s \<Rightarrow> bool"
  assumes step_fifo: "ok s \<Longrightarrow> concat (map gets (fst (step x s))) @ queued (snd (step x s)) = queued s @ puts x"
    and step_ok: "ok s \<Longrightarrow> ok (snd (step x s))"
begin

fun channel_run :: "'o list \<Rightarrow> 's \<Rightarrow> 'e list \<times> 's" where
  "channel_run [] s = ([], s)"
| "channel_run (x # xs) s =
     (let (es, s') = step x s; (es', s'') = channel_run xs s' in (es @ es', s''))"

lemma channel_run_fifo:
  "ok s \<Longrightarrow> concat (map gets (fst (channel_run xs s))) @ queued (snd (channel_run xs s))
     = queued s @ concat (map puts xs)"
proof (induction xs arbitrary: s)
  case Nil
  then show ?case by simp
next
  case (Cons x xs)
  have "concat (map gets (fst (channel_run (x # xs) s))) @ queued (snd (channel_run (x # xs) s)) =
      concat (map gets (fst (step x s))) @
      concat (map gets (fst (channel_run xs (snd (step x s))))) @ queued (snd (channel_run xs (snd (step x s))))"
    by (simp add: case_prod_unfold Let_def)
  also have "\<dots> = concat (map gets (fst (step x s))) @ queued (snd (step x s)) @ concat (map puts xs)"
    using Cons.IH [OF step_ok [OF Cons.prems]] by simp
  also have "\<dots> = queued s @ puts x @ concat (map puts xs)"
    using step_fifo [OF Cons.prems] by (metis append_assoc)
  finally show ?case by simp
qed

lemma channel_run_ok: "ok s \<Longrightarrow> ok (snd (channel_run xs s))"
  by (induction xs arbitrary: s) (auto simp: case_prod_unfold Let_def step_ok)

end

section \<open>Calls waiting for the worker\<close>

record relay_call =
  rq_call_id :: string
  rq_task :: js
  rq_task_id :: "string option"
  rq_session_id :: "string option"
  rq_stream :: bool

datatype forward_failure = ForwardTimeout string | ForwardFrame frame_error

datatype relay_effect =
    PullAnswered nat "relay_call option"
  | ForwardSettled nat "forward_failure + js"
  | StreamSettled settlement
  | SocketWrite "byte list"

text \<open>\<open>_pending\<close> and \<open>_streamPending\<close>: the promises and the streams by call id.\<close>

record relay_calls =
  cl_pending :: "(string, nat) jsmap"
  cl_streams :: "(string, pending_stream) jsmap"

definition no_calls :: relay_calls where
  "no_calls = \<lparr>cl_pending = [], cl_streams = []\<rparr>"

definition calls_onResponse :: "string \<Rightarrow> js \<Rightarrow> relay_calls \<Rightarrow> relay_effect list \<times> relay_calls" where
  "calls_onResponse callId result cl =
     (case map_of (cl_pending cl) callId of
        None \<Rightarrow> ([], cl)
      | Some p \<Rightarrow> ([ForwardSettled p (Inr result)], cl\<lparr>cl_pending := AList.delete callId (cl_pending cl)\<rparr>))"

text \<open>The timer of \<open>forwardTask\<close>; it was cleared when the call was answered before.\<close>

definition calls_timeout :: "string \<Rightarrow> relay_calls \<Rightarrow> relay_effect list \<times> relay_calls" where
  "calls_timeout callId cl =
     (case map_of (cl_pending cl) callId of
        None \<Rightarrow> ([], cl)
      | Some p \<Rightarrow> ([ForwardSettled p (Inl (ForwardTimeout callId))],
                   cl\<lparr>cl_pending := AList.delete callId (cl_pending cl)\<rparr>))"

definition with_stream ::
  "string \<Rightarrow> (pending_stream \<Rightarrow> settlement list \<times> pending_stream) \<Rightarrow> relay_calls \<Rightarrow>
   relay_effect list \<times> relay_calls" where
  "with_stream callId f cl =
     (case map_of (cl_streams cl) callId of
        None \<Rightarrow> ([], cl)
      | Some ps \<Rightarrow>
          let (out, ps') = f ps in
          (map StreamSettled out, cl\<lparr>cl_streams := AList.update callId ps' (cl_streams cl)\<rparr>))"

definition calls_onStreamResponse :: "string \<Rightarrow> response_frame \<Rightarrow> relay_calls \<Rightarrow> relay_effect list \<times> relay_calls" where
  "calls_onStreamResponse callId event cl = with_stream callId (stream_push event) cl"

definition stream_identity :: "js_runtime \<Rightarrow> string \<Rightarrow> js \<Rightarrow> string \<Rightarrow> string" where
  "stream_identity rt callId task name = String_of rt (coalesce (own_property task name) (JStr callId))"

definition open_stream :: "js_runtime \<Rightarrow> string \<Rightarrow> js \<Rightarrow> relay_calls \<Rightarrow> relay_calls" where
  "open_stream rt callId task cl =
     cl\<lparr>cl_streams := AList.update callId
          (new_pending_stream (stream_identity rt callId task ''session_id'') callId
             (stream_identity rt callId task ''task_id'')) (cl_streams cl)\<rparr>"

text \<open>The \<open>finally\<close> of \<open>forwardStream\<close>: the consumer got the last frame, gave up or failed.\<close>

definition close_stream :: "string \<Rightarrow> relay_calls \<Rightarrow> relay_calls" where
  "close_stream callId cl = cl\<lparr>cl_streams := AList.delete callId (cl_streams cl)\<rparr>"

section \<open>RelayWorkerSession\<close>

record worker_session =
  ws_workerId :: string
  ws_calls :: relay_calls
  ws_destroyed :: bool
  ws_writable :: bool

definition new_worker_session :: "string \<Rightarrow> worker_session" where
  "new_worker_session w = \<lparr>ws_workerId = w, ws_calls = no_calls, ws_destroyed = False, ws_writable = True\<rparr>"

definition MT_CALL :: int where "MT_CALL = 5"

record relay_wire =
  wire_enc :: "js \<Rightarrow> byte list"
  wire_stringify :: "js \<Rightarrow> byte list"

definition forwardTask ::
  "relay_wire \<Rightarrow> string \<Rightarrow> nat \<Rightarrow> js \<Rightarrow> worker_session \<Rightarrow> relay_effect list \<times> worker_session" where
  "forwardTask wire callId p task s =
     (let cl = ws_calls s;
          cl1 = cl\<lparr>cl_pending := AList.update callId p (cl_pending cl)\<rparr>;
          payload = wire_enc wire (JMap [(jint 15, JStr callId), (jint 5, JBytes (wire_stringify wire task))])
      in case makeFrame MT_CALL payload of
           Inr frame \<Rightarrow> ([SocketWrite frame], s\<lparr>ws_calls := cl1\<rparr>)
         | Inl err \<Rightarrow> ([ForwardSettled p (Inl (ForwardFrame err))],
              s\<lparr>ws_calls := cl1\<lparr>cl_pending := AList.delete callId (cl_pending cl1)\<rparr>\<rparr>))"

definition worker_isAlive :: "worker_session \<Rightarrow> bool" where
  "worker_isAlive s = (\<not> ws_destroyed s \<and> ws_writable s)"

definition onResponse :: "string \<Rightarrow> js \<Rightarrow> worker_session \<Rightarrow> relay_effect list \<times> worker_session" where
  "onResponse callId result s =
     (let (out, cl) = calls_onResponse callId result (ws_calls s) in (out, s\<lparr>ws_calls := cl\<rparr>))"

definition forwardStream ::
  "js_runtime \<Rightarrow> relay_wire \<Rightarrow> string \<Rightarrow> js \<Rightarrow> worker_session \<Rightarrow>
   (frame_error + relay_effect list) \<times> worker_session" where
  \<comment> \<open>up to the loop that reads the stream; a throw runs the \<open>finally\<close>\<close>
  "forwardStream rt wire callId task s =
     (let cl = open_stream rt callId task (ws_calls s);
          payload = wire_enc wire (JMap
            [(jint 2, JStr (stream_identity rt callId task ''session_id'')), (jint 15, JStr callId),
             (jint 24, JStr (stream_identity rt callId task ''task_id'')), (jint 5, JBytes (wire_stringify wire task))])
      in case makeFrame MT_CALL payload of
           Inr frame \<Rightarrow> (Inr [SocketWrite frame], s\<lparr>ws_calls := cl\<rparr>)
         | Inl err \<Rightarrow> (Inl err, s\<lparr>ws_calls := close_stream callId cl\<rparr>))"

definition onStreamResponse ::
  "string \<Rightarrow> response_frame \<Rightarrow> worker_session \<Rightarrow> relay_effect list \<times> worker_session" where
  "onStreamResponse callId event s =
     (let (out, cl) = calls_onStreamResponse callId event (ws_calls s) in (out, s\<lparr>ws_calls := cl\<rparr>))"

section \<open>HttpPollWorkerSession\<close>

record poll_session =
  hs_workerId :: string
  hs_intent :: string
  hs_models :: "string list"
  hs_sessionToken :: string
  hs_queue :: "relay_call list"
  hs_waiters :: "nat list"
  hs_calls :: relay_calls
  hs_lastPull :: int
  hs_livenessWindowMs :: int
  hs_closed :: bool

definition new_poll_session :: "string \<Rightarrow> string \<Rightarrow> string list \<Rightarrow> string \<Rightarrow> int \<Rightarrow> poll_session" where
  "new_poll_session workerId intent models token now =
     \<lparr>hs_workerId = workerId, hs_intent = intent, hs_models = models, hs_sessionToken = token,
      hs_queue = [], hs_waiters = [], hs_calls = no_calls, hs_lastPull = now,
      hs_livenessWindowMs = 90000, hs_closed = False\<rparr>"

definition poll_offer :: "relay_call \<Rightarrow> int \<Rightarrow> poll_session \<Rightarrow> relay_effect list \<times> poll_session" where
  "poll_offer call now s =
     (case hs_waiters s of
        waiter # rest \<Rightarrow> ([PullAnswered waiter (Some call)], s\<lparr>hs_waiters := rest, hs_lastPull := now\<rparr>)
      | [] \<Rightarrow> ([], s\<lparr>hs_queue := hs_queue s @ [call]\<rparr>))"

definition poll_forwardTask ::
  "string \<Rightarrow> nat \<Rightarrow> js \<Rightarrow> int \<Rightarrow> poll_session \<Rightarrow> relay_effect list \<times> poll_session" where
  "poll_forwardTask callId p task now s =
     (let cl = hs_calls s in
      poll_offer \<lparr>rq_call_id = callId, rq_task = task, rq_task_id = None, rq_session_id = None, rq_stream = False\<rparr>
        now (s\<lparr>hs_calls := cl\<lparr>cl_pending := AList.update callId p (cl_pending cl)\<rparr>\<rparr>))"

definition nextCall :: "nat \<Rightarrow> int \<Rightarrow> poll_session \<Rightarrow> relay_effect list \<times> poll_session" where
  "nextCall waiter now s =
     (let s = s\<lparr>hs_lastPull := now\<rparr> in
      case hs_queue s of
        queued # rest \<Rightarrow> ([PullAnswered waiter (Some queued)], s\<lparr>hs_queue := rest\<rparr>)
      | [] \<Rightarrow> ([], s\<lparr>hs_waiters := hs_waiters s @ [waiter]\<rparr>))"

text \<open>The timer of \<open>nextCall\<close>, unless the waiter was served.\<close>

definition pull_timeout :: "nat \<Rightarrow> int \<Rightarrow> poll_session \<Rightarrow> relay_effect list \<times> poll_session" where
  "pull_timeout waiter now s =
     (if waiter \<in> set (hs_waiters s)
      then ([PullAnswered waiter None], s\<lparr>hs_waiters := remove1 waiter (hs_waiters s), hs_lastPull := now\<rparr>)
      else ([], s))"

definition poll_isAlive :: "int \<Rightarrow> poll_session \<Rightarrow> bool" where
  "poll_isAlive now s = (\<not> hs_closed s \<and> now - hs_lastPull s < hs_livenessWindowMs s)"

definition poll_onResponse :: "string \<Rightarrow> js \<Rightarrow> poll_session \<Rightarrow> relay_effect list \<times> poll_session" where
  "poll_onResponse callId result s =
     (let (out, cl) = calls_onResponse callId result (hs_calls s) in (out, s\<lparr>hs_calls := cl\<rparr>))"

definition poll_forwardStream ::
  "js_runtime \<Rightarrow> string \<Rightarrow> js \<Rightarrow> int \<Rightarrow> poll_session \<Rightarrow> relay_effect list \<times> poll_session" where
  "poll_forwardStream rt callId task now s =
     poll_offer \<lparr>rq_call_id = callId, rq_task = task,
        rq_task_id = Some (stream_identity rt callId task ''task_id''),
        rq_session_id = Some (stream_identity rt callId task ''session_id''), rq_stream = True\<rparr>
       now (s\<lparr>hs_calls := open_stream rt callId task (hs_calls s)\<rparr>)"

definition poll_onStreamResponse ::
  "string \<Rightarrow> response_frame \<Rightarrow> poll_session \<Rightarrow> relay_effect list \<times> poll_session" where
  "poll_onStreamResponse callId event s =
     (let (out, cl) = calls_onStreamResponse callId event (hs_calls s) in (out, s\<lparr>hs_calls := cl\<rparr>))"

definition poll_close :: "poll_session \<Rightarrow> poll_session" where
  "poll_close s = s\<lparr>hs_closed := True\<rparr>"

text \<open>What can happen to a session; the time is that of the event.\<close>

datatype poll_op = PForward string nat js int | PStream string js int | PPull nat int
  | PPullTimeout nat int | PForwardTimeout string | PResponse string js
  | PStreamResponse string response_frame | PStreamNext string nat | PStreamTimeout string nat
  | PStreamEnd string | PClose

definition on_calls ::
  "(relay_calls \<Rightarrow> relay_effect list \<times> relay_calls) \<Rightarrow> poll_session \<Rightarrow> relay_effect list \<times> poll_session" where
  "on_calls f s = (let (out, cl) = f (hs_calls s) in (out, s\<lparr>hs_calls := cl\<rparr>))"

fun poll_step :: "js_runtime \<Rightarrow> poll_op \<Rightarrow> poll_session \<Rightarrow> relay_effect list \<times> poll_session" where
  "poll_step rt (PForward c p t now) s = poll_forwardTask c p t now s"
| "poll_step rt (PStream c t now) s = poll_forwardStream rt c t now s"
| "poll_step rt (PPull w now) s = nextCall w now s"
| "poll_step rt (PPullTimeout w now) s = pull_timeout w now s"
| "poll_step rt (PForwardTimeout c) s = on_calls (calls_timeout c) s"
| "poll_step rt (PResponse c r) s = poll_onResponse c r s"
| "poll_step rt (PStreamResponse c f) s = poll_onStreamResponse c f s"
| "poll_step rt (PStreamNext c w) s = on_calls (with_stream c (stream_next w)) s"
| "poll_step rt (PStreamTimeout c w) s = on_calls (with_stream c (stream_timeout w)) s"
| "poll_step rt (PStreamEnd c) s = ([], s\<lparr>hs_calls := close_stream c (hs_calls s)\<rparr>)"
| "poll_step rt PClose s = ([], poll_close s)"

text \<open>The calls put in by an operation and handed to the worker by an effect.\<close>

fun forwarded_calls :: "js_runtime \<Rightarrow> poll_op \<Rightarrow> relay_call list" where
  "forwarded_calls rt (PForward c p t now) =
     [\<lparr>rq_call_id = c, rq_task = t, rq_task_id = None, rq_session_id = None, rq_stream = False\<rparr>]"
| "forwarded_calls rt (PStream c t now) =
     [\<lparr>rq_call_id = c, rq_task = t, rq_task_id = Some (stream_identity rt c t ''task_id''),
       rq_session_id = Some (stream_identity rt c t ''session_id''), rq_stream = True\<rparr>]"
| "forwarded_calls rt _ = []"

fun pulled_calls :: "relay_effect \<Rightarrow> relay_call list" where
  "pulled_calls (PullAnswered w (Some c)) = [c]"
| "pulled_calls _ = []"

definition poll_ok :: "poll_session \<Rightarrow> bool" where
  "poll_ok s = (hs_waiters s = [] \<or> hs_queue s = [])"

lemma no_pulls_settlements [simp]: "concat (map pulled_calls (map StreamSettled out)) = []"
  by (induction out) auto

lemma calls_no_pulls:
  "concat (map pulled_calls (fst (calls_onResponse c r cl))) = []"
  "concat (map pulled_calls (fst (calls_timeout c cl))) = []"
  "concat (map pulled_calls (fst (with_stream c f cl))) = []"
  by (auto simp: calls_onResponse_def calls_timeout_def with_stream_def case_prod_unfold Let_def split: option.splits)

lemma poll_offer_fifo:
  "poll_ok s \<Longrightarrow> concat (map pulled_calls (fst (poll_offer c now s))) @ hs_queue (snd (poll_offer c now s)) = hs_queue s @ [c]"
  "poll_ok s \<Longrightarrow> poll_ok (snd (poll_offer c now s))"
  by (auto simp: poll_offer_def poll_ok_def split: list.splits)

lemma poll_ok_calls [simp]: "poll_ok (s\<lparr>hs_calls := cl\<rparr>) = poll_ok s"
  by (simp add: poll_ok_def)

lemma on_calls_fifo:
  "concat (map pulled_calls (fst (f (hs_calls s)))) = [] \<Longrightarrow>
   concat (map pulled_calls (fst (on_calls f s))) @ hs_queue (snd (on_calls f s)) = hs_queue s"
  "poll_ok (snd (on_calls f s)) = poll_ok s"
  by (auto simp: on_calls_def case_prod_unfold Let_def)

lemma poll_on_calls:
  "poll_onResponse c r s = on_calls (calls_onResponse c r) s"
  "poll_onStreamResponse c f s = on_calls (with_stream c (stream_push f)) s"
  by (simp_all add: poll_onResponse_def poll_onStreamResponse_def calls_onStreamResponse_def on_calls_def)

lemma poll_ok_pull:
  "poll_ok s \<Longrightarrow> poll_ok (snd (nextCall w now s))"
  "poll_ok s \<Longrightarrow> poll_ok (snd (pull_timeout w now s))"
  "poll_ok (poll_close s) = poll_ok s"
  by (auto simp: nextCall_def pull_timeout_def poll_close_def poll_ok_def Let_def split: list.splits)

interpretation poll_channel: fifo_channel hs_queue "poll_step rt" "forwarded_calls rt" pulled_calls poll_ok for rt
proof unfold_locales
  fix s :: poll_session and x
  assume ok: "poll_ok s"
  show "concat (map pulled_calls (fst (poll_step rt x s))) @ hs_queue (snd (poll_step rt x s)) =
      hs_queue s @ forwarded_calls rt x"
    by (cases x)
       (use ok in \<open>auto simp: poll_forwardTask_def poll_forwardStream_def poll_offer_fifo Let_def poll_on_calls
          on_calls_fifo calls_no_pulls nextCall_def pull_timeout_def poll_close_def split: list.splits\<close>)
  show "poll_ok (snd (poll_step rt x s))"
    by (cases x)
       (use ok in \<open>auto simp: poll_forwardTask_def poll_forwardStream_def poll_offer_fifo Let_def poll_on_calls
          on_calls_fifo poll_ok_pull\<close>)
qed

section \<open>Settlement\<close>

text \<open>The promises given out by \<open>forwardTask\<close> and those an effect settles.\<close>

fun promised :: "poll_op \<Rightarrow> nat list" where
  "promised (PForward c p t now) = [p]"
| "promised _ = []"

fun forward_ids :: "poll_op \<Rightarrow> string list" where
  "forward_ids (PForward c p t now) = [c]"
| "forward_ids _ = []"

fun settled_forwards :: "relay_effect \<Rightarrow> nat list" where
  "settled_forwards (ForwardSettled p r) = [p]"
| "settled_forwards _ = []"

definition open_promises :: "poll_session \<Rightarrow> nat multiset" where
  "open_promises s = mset (js_values (cl_pending (hs_calls s)))"

definition pending_ids :: "poll_session \<Rightarrow> string list" where
  "pending_ids s = js_keys (cl_pending (hs_calls s))"

lemma mset_values_new:
  "k \<notin> fst ` set m \<Longrightarrow> image_mset snd (mset (AList.update k v m)) = add_mset v (image_mset snd (mset m))"
  by (induction m) auto

lemma delete_absent: "k \<notin> fst ` set m \<Longrightarrow> AList.delete k m = m"
  by (induction m) auto

lemma mset_values_delete:
  "distinct (js_keys m) \<Longrightarrow> (k, v) \<in> set m \<Longrightarrow>
   image_mset snd (mset m) = add_mset v (image_mset snd (mset (AList.delete k m)))"
  by (induction m) (auto simp: delete_absent intro: rev_image_eqI)

lemma no_settled_streams [simp]: "concat (map settled_forwards (map StreamSettled out)) = []"
  by (induction out) auto

lemma settle_calls:
  assumes "distinct (js_keys (cl_pending cl))"
  shows
    "mset (concat (map settled_forwards (fst (calls_onResponse c r cl)))) + image_mset snd (mset (cl_pending (snd (calls_onResponse c r cl))))
      = image_mset snd (mset (cl_pending cl))"
    "mset (concat (map settled_forwards (fst (calls_timeout c cl)))) + image_mset snd (mset (cl_pending (snd (calls_timeout c cl))))
      = image_mset snd (mset (cl_pending cl))"
    "concat (map settled_forwards (fst (with_stream c f cl))) = []"
    "cl_pending (snd (with_stream c f cl)) = cl_pending cl"
  using assms
  by (auto simp: calls_onResponse_def calls_timeout_def with_stream_def case_prod_unfold Let_def
      mset_values_delete dest: map_of_SomeD split: option.splits)

lemma calls_ids:
  "fst ` set (cl_pending (snd (calls_onResponse c r cl))) \<subseteq> fst ` set (cl_pending cl)"
  "fst ` set (cl_pending (snd (calls_timeout c cl))) \<subseteq> fst ` set (cl_pending cl)"
  "distinct (js_keys (cl_pending cl)) \<Longrightarrow> distinct (js_keys (cl_pending (snd (calls_onResponse c r cl))))"
  "distinct (js_keys (cl_pending cl)) \<Longrightarrow> distinct (js_keys (cl_pending (snd (calls_timeout c cl))))"
  by (simp_all add: calls_onResponse_def calls_timeout_def js_keys_delete split: option.splits)

definition promises_ok :: "string set \<Rightarrow> poll_session \<Rightarrow> bool" where
  "promises_ok ids s = (distinct (pending_ids s) \<and> set (pending_ids s) \<subseteq> ids)"

lemma poll_offer_calls [simp]:
  "hs_calls (snd (poll_offer c now s)) = hs_calls s"
  "concat (map settled_forwards (fst (poll_offer c now s))) = []"
  by (auto simp: poll_offer_def split: list.splits)

lemma pull_calls [simp]:
  "hs_calls (snd (nextCall w now s)) = hs_calls s" "concat (map settled_forwards (fst (nextCall w now s))) = []"
  "hs_calls (snd (pull_timeout w now s)) = hs_calls s" "concat (map settled_forwards (fst (pull_timeout w now s))) = []"
  "hs_calls (poll_close s) = hs_calls s"
  by (auto simp: nextCall_def pull_timeout_def poll_close_def Let_def split: list.splits)

lemma on_calls_parts [simp]:
  "hs_calls (snd (on_calls f s)) = snd (f (hs_calls s))" "fst (on_calls f s) = fst (f (hs_calls s))"
  by (simp_all add: on_calls_def case_prod_unfold Let_def)

lemma open_close_stream [simp]:
  "cl_pending (open_stream rt c t cl) = cl_pending cl" "cl_pending (close_stream c cl) = cl_pending cl"
  by (simp_all add: open_stream_def close_stream_def)

lemma poll_step_settles:
  assumes "promises_ok ids s" and "set (forward_ids x) \<inter> ids = {}"
  shows "mset (concat (map settled_forwards (fst (poll_step rt x s)))) + open_promises (snd (poll_step rt x s)) =
      open_promises s + mset (promised x) \<and> promises_ok (ids \<union> set (forward_ids x)) (snd (poll_step rt x s))"
proof (cases x)
  case (PForward c p t now)
  have "c \<notin> fst ` set (cl_pending (hs_calls s))"
    using assms PForward by (auto simp: promises_ok_def pending_ids_def)
  then show ?thesis
    using assms PForward
    by (auto simp: poll_forwardTask_def open_promises_def promises_ok_def pending_ids_def Let_def
        mset_values_new js_keys_update)
next
  case (PForwardTimeout c)
  then show ?thesis
    using assms calls_ids(2,4) [where c = c and cl = "hs_calls s"]
    by (auto simp: open_promises_def promises_ok_def pending_ids_def settle_calls)
next
  case (PResponse c r)
  then show ?thesis
    using assms calls_ids(1,3) [where c = c and r = r and cl = "hs_calls s"]
    by (auto simp: open_promises_def promises_ok_def pending_ids_def settle_calls poll_on_calls)
qed (use assms in \<open>auto simp: open_promises_def promises_ok_def pending_ids_def settle_calls poll_on_calls poll_forwardStream_def\<close>)

lemma balance_compose:
  fixes e s1 s p a s' b :: "'a multiset"
  assumes "e + s1 = s + p" and "a + s' = s1 + b"
  shows "(e + a) + s' = s + (p + b)"
proof -
  have "(e + a) + s' = (e + s1) + b" using assms(2) by (simp add: add.assoc)
  then show ?thesis using assms(1) by (simp add: add.assoc)
qed

lemma poll_run_settles:
  "promises_ok ids s \<Longrightarrow> distinct (concat (map forward_ids xs)) \<Longrightarrow>
   set (concat (map forward_ids xs)) \<inter> ids = {} \<Longrightarrow> poll_channel.channel_run rt xs s = (out, s') \<Longrightarrow>
   mset (concat (map settled_forwards out)) + open_promises s' =
     open_promises s + mset (concat (map promised xs))"
proof (induction xs arbitrary: ids s out)
  case Nil
  then show ?case by simp
next
  case (Cons x xs)
  obtain es s1 where step: "poll_step rt x s = (es, s1)" by (cases "poll_step rt x s")
  obtain out1 where run: "poll_channel.channel_run rt xs s1 = (out1, s')" and out: "out = es @ out1"
    using Cons.prems(4) step by (auto simp: case_prod_unfold Let_def prod_eq_iff)
  have one: "mset (concat (map settled_forwards es)) + open_promises s1 = open_promises s + mset (promised x)"
    and ok: "promises_ok (ids \<union> set (forward_ids x)) s1"
    using poll_step_settles [OF Cons.prems(1), of x rt] Cons.prems(3) step by auto
  have "mset (concat (map settled_forwards out1)) + open_promises s' = open_promises s1 + mset (concat (map promised xs))"
    by (rule Cons.IH [OF ok _ _ run]) (use Cons.prems(2,3) in auto)
  then show ?case using balance_compose [OF one] out by simp
qed

section \<open>Properties\<close>

text \<open>
  C16 The HTTP-poll transport hands every call to the worker once, in the order of the
  forwards: whatever happens to a session -- forwards of tasks and streams, polls, polls that
  time out, answers, failed forwards, closing -- the calls given to polls followed by the
  calls still queued are the calls forwarded.
\<close>

theorem poll_calls_in_order:
  "(case poll_channel.channel_run rt xs (new_poll_session w i ms token now) of (out, s) \<Rightarrow>
      concat (map pulled_calls out) @ hs_queue s = concat (map (forwarded_calls rt) xs) \<and>
      (hs_waiters s = [] \<or> hs_queue s = []))"
proof -
  let ?s0 = "new_poll_session w i ms token now"
  have ok: "poll_ok ?s0" by (simp add: poll_ok_def new_poll_session_def)
  have "hs_queue ?s0 = []" by (simp add: new_poll_session_def)
  then show ?thesis
    using poll_channel.channel_run_fifo [OF ok, of rt xs] poll_channel.channel_run_ok [OF ok, of rt xs]
    by (auto simp: poll_ok_def split: prod.splits)
qed

text \<open>
  C17 Every forward over the HTTP-poll transport is settled exactly once or still pending:
  when no call id is drawn twice, over any run of a session the promises settled (by an answer
  or by the timer) together with those still in the map are the promises given out, each as
  often as it was given out.
\<close>

theorem poll_forwards_settle_once:
  assumes "distinct (concat (map forward_ids xs))"
  shows "(case poll_channel.channel_run rt xs (new_poll_session w i ms token now) of (out, s) \<Rightarrow>
      mset (concat (map settled_forwards out)) + open_promises s = mset (concat (map promised xs)))"
proof -
  let ?s0 = "new_poll_session w i ms token now"
  obtain out s where run: "poll_channel.channel_run rt xs ?s0 = (out, s)"
    by (cases "poll_channel.channel_run rt xs ?s0")
  have "promises_ok {} ?s0" "open_promises ?s0 = {#}"
    by (simp_all add: promises_ok_def pending_ids_def open_promises_def new_poll_session_def no_calls_def)
  then show ?thesis
    using poll_run_settles [OF _ assms _ run, of "{}"] run by simp
qed

theorem poll_forwards_settle_once_witness:
  "mset (concat (map settled_forwards (fst (poll_channel.channel_run \<lparr>rt_string = \<lambda>_. [], rt_number = \<lambda>_. NaN\<rparr>
      [PForward ''c1'' 1 JNull 5, PPull 7 6, PForward ''c2'' 2 JNull 8, PResponse ''c1'' (JObj []),
       PForwardTimeout ''c1'', PResponse ''c1'' JNull]
      (new_poll_session ''w'' '''' [] ''t'' 0))))) = {#1#}"
proof -
  let ?rt = "\<lparr>rt_string = \<lambda>_. [], rt_number = \<lambda>_. NaN\<rparr> :: js_runtime"
  let ?xs = "[PForward ''c1'' 1 JNull 5, PPull 7 6, PForward ''c2'' 2 JNull 8, PResponse ''c1'' (JObj []),
       PForwardTimeout ''c1'', PResponse ''c1'' JNull]"
  have "distinct (concat (map forward_ids ?xs))" by simp
  from poll_forwards_settle_once [OF this, of ?rt "''w''" "[]" "[]" "''t''" 0] show ?thesis
    by (simp add: new_poll_session_def no_calls_def poll_forwardTask_def poll_offer_def nextCall_def
        poll_onResponse_def calls_onResponse_def calls_timeout_def on_calls_def open_promises_def Let_def)
qed

end
