(* ===== verification/Tickets.thy ===== *)
theory Tickets imports CanonicalJson TtlCache Gate begin

text \<open>
  Signed statements the client checks before it trusts them: relay bind tickets
  (\<open>src/relay_ticket.ts\<close>), dispatch route tickets (\<open>src/dispatch_ticket.ts\<close>), membership
  assertions and gossip (\<open>src/restricted_membership.ts\<close>), the restricted directory's decision
  (\<open>src/restricted_directory.ts\<close>), delegations (\<open>src/delegation.ts\<close>), bearer tokens
  (\<open>src/token_validator.ts\<close>) and pricing signatures (\<open>src/pricing.ts\<close>). The primitives are
  parameters: Ed25519, SHA-256, HMAC, base64 and JSON decoding, and the canonicalizer.
\<close>

section \<open>Characters\<close>

definition lower_hex :: "char \<Rightarrow> bool" where
  "lower_hex c = (c \<in> set ''0123456789abcdef'')"

definition any_hex :: "char \<Rightarrow> bool" where
  "any_hex c = (c \<in> set ''0123456789abcdefABCDEF'')"

definition hex_string :: "nat \<Rightarrow> string \<Rightarrow> bool" where
  \<comment> \<open>\<open>/^[0-9a-f]{n}$/\<close>\<close>
  "hex_string n s = (length s = n \<and> list_all lower_hex s)"

fun matches :: "(char \<Rightarrow> bool) list \<Rightarrow> string \<Rightarrow> bool" where
  "matches [] s = (s = [])"
| "matches (p # ps) [] = False"
| "matches (p # ps) (c # cs) = (p c \<and> matches ps cs)"

definition uuid_pattern :: "(char \<Rightarrow> bool) list" where
  "uuid_pattern =
     (let dash = (\<lambda>c. c = CHR ''-'') in
      replicate 8 any_hex @ [dash] @ replicate 4 any_hex @ [dash] @
      [\<lambda>c. c \<in> set ''12345''] @ replicate 3 any_hex @ [dash] @
      [\<lambda>c. c \<in> set ''89abAB''] @ replicate 3 any_hex @ [dash] @ replicate 12 any_hex)"

definition js_space :: "char \<Rightarrow> bool" where
  "js_space c = (of_char c \<in> set [9, 10, 11, 12, 13, 32, 160 :: nat])"

definition js_trim :: "string \<Rightarrow> string" where
  "js_trim s = rev (dropWhile js_space (rev (dropWhile js_space s)))"

section \<open>Relay bind tickets\<close>

text \<open>
  \<open>tc_parse\<close> decodes the base64url payload (\<open>None\<close> when it throws); \<open>tc_verify key message
  signature\<close> takes the key and the signature in hex and is false when they do not decode.
\<close>

record 'c ticket_crypto =
  tc_parse :: "string \<Rightarrow> 'c option"
  tc_verify :: "string \<Rightarrow> string \<Rightarrow> string \<Rightarrow> bool"

definition newline :: char where "newline = char_of (10 :: nat)"

definition verifyRelayBindTicket ::
  "relay_bind_claims ticket_crypto \<Rightarrow> string \<Rightarrow> string \<Rightarrow> string \<Rightarrow> string \<Rightarrow> int \<Rightarrow> relay_bind_claims option" where
  "verifyRelayBindTicket cr token publicKeyHex workerId relayAudience nowSec =
     (case split_on (CHR ''.'') token of
        [b64Payload, sigHex] \<Rightarrow>
          if length sigHex \<noteq> 128 then None
          else if \<not> tc_verify cr publicKeyHex (''iicp:relay-bind-ticket:v1'' @ [newline] @ b64Payload) sigHex then None
          else (case tc_parse cr b64Payload of
              None \<Rightarrow> None
            | Some payload \<Rightarrow>
                if rb_typ payload \<noteq> ''relay-bind-ticket'' then None
                else if \<not> hex_string 32 (rb_jti payload) then None
                else if rb_sub payload \<noteq> workerId then None
                else if rb_exp payload \<le> nowSec then None
                else if rb_aud payload \<noteq> ''*'' \<and> rb_aud payload \<noteq> relayAudience then None
                else Some payload)
      | _ \<Rightarrow> None)"

section \<open>Dispatch route tickets\<close>

record route_ticket_claims =
  rc_v :: int
  rc_typ :: string
  rc_iss :: string
  rc_aud :: string
  rc_jti :: string
  rc_node_id :: string
  rc_intent :: string
  rc_iat :: int
  rc_exp :: int
  rc_policy_manifest_sha256 :: "string option"

definition verifyDispatchRouteTicket ::
  "route_ticket_claims ticket_crypto \<Rightarrow> string \<Rightarrow> string \<Rightarrow> string \<Rightarrow> string \<Rightarrow> string \<Rightarrow> int \<Rightarrow> route_ticket_claims option" where
  "verifyDispatchRouteTicket cr token publicKeyHex issuer nodeId intent nowSec =
     (case split_on (CHR ''.'') token of
        [payload, sigHex] \<Rightarrow>
          if length sigHex \<noteq> 128 then None
          else if \<not> tc_verify cr publicKeyHex (''iicp:dispatch-route-ticket:v1'' @ [newline] @ payload) sigHex then None
          else (case tc_parse cr payload of
              None \<Rightarrow> None
            | Some c \<Rightarrow>
                if rc_v c \<noteq> 1 \<or> rc_typ c \<noteq> ''dispatch-route-ticket'' \<or> rc_iss c \<noteq> issuer \<or>
                   rc_aud c \<noteq> ''iicp.directory.dispatch'' \<or> rc_node_id c \<noteq> nodeId \<or> rc_intent c \<noteq> intent \<or>
                   rc_exp c \<le> nowSec \<or> \<not> hex_string 24 (rc_jti c) then None
                else if (case rc_policy_manifest_sha256 c of None \<Rightarrow> False | Some d \<Rightarrow> \<not> hex_string 64 d) then None
                else Some c)
      | _ \<Rightarrow> None)"

definition policyManifestBindingMatches :: "route_ticket_claims \<Rightarrow> js \<Rightarrow> bool" where
  "policyManifestBindingMatches claims route =
     (case rc_policy_manifest_sha256 claims of
        None \<Rightarrow> True
      | Some d \<Rightarrow>
          if \<not> is_object route then False
          else let manifest = own_property route ''node_policy_manifest'' in
            if \<not> is_object manifest then False
            else let verification = own_property manifest ''verification'' in
              is_object verification \<and> own_property verification ''canonical_sha256'' = JStr d)"

section \<open>Membership assertions\<close>

record membership_policy =
  mp_domain_id :: string
  mp_authority_id :: string
  mp_authority_key_id :: string
  mp_authority_public_key :: string
  mp_minimum_generation :: int
  mp_maximum_clock_skew :: int

text \<open>
  \<open>mc_jcs\<close> is the canonicalizer (\<open>None\<close> when it throws), \<open>mc_b64url\<close> the decoded bytes of a
  base64url text together with the text they encode to, \<open>mc_verify\<close> Ed25519 over raw bytes.
\<close>

record membership_crypto =
  mc_jcs :: "js \<Rightarrow> string option"
  mc_b64url :: "string \<Rightarrow> string \<times> string"
  mc_verify :: "string \<Rightarrow> string \<Rightarrow> string \<Rightarrow> bool"
  mc_sha256 :: "string \<Rightarrow> string"

datatype refusal = Refused string | CanonicalizerThrew

definition is_record :: "js \<Rightarrow> bool" where
  "is_record v = (is_object v \<and> (case v of JArr _ \<Rightarrow> False | _ \<Rightarrow> True))"

definition exact_keys :: "js \<Rightarrow> string list \<Rightarrow> bool" where
  "exact_keys v keys = (sort (object_keys v) = sort keys)"

text \<open>\<open>Object.keys(v).sort().join(",")\<close>\<close>

fun join_with :: "string \<Rightarrow> string list \<Rightarrow> string" where
  "join_with sep [] = []"
| "join_with sep [s] = s"
| "join_with sep (s # t # ss) = s @ sep @ join_with sep (t # ss)"

definition joined_keys :: "js \<Rightarrow> string" where
  "joined_keys v = join_with '','' (sort (object_keys v))"

definition nonblank :: "js \<Rightarrow> bool" where
  "nonblank v = (case v of JStr s \<Rightarrow> js_trim s \<noteq> [] | _ \<Rightarrow> False)"

definition uint_value :: "js \<Rightarrow> int option" where
  "uint_value v = (if is_safe_integer v
     then (case v of JNum (Fin q) \<Rightarrow> if q \<ge> 0 then Some \<lfloor>q\<rfloor> else None | _ \<Rightarrow> None) else None)"

definition nonblank_list :: "js \<Rightarrow> bool" where
  "nonblank_list v = (case v of JArr xs \<Rightarrow> xs \<noteq> [] \<and> list_all nonblank xs | _ \<Rightarrow> False)"

definition uuid_value :: "js \<Rightarrow> bool" where
  "uuid_value v = (case v of JStr s \<Rightarrow> matches uuid_pattern s | _ \<Rightarrow> False)"

definition list_has :: "js \<Rightarrow> string \<Rightarrow> bool" where
  "list_has v s = (case v of JArr xs \<Rightarrow> JStr s \<in> set xs | _ \<Rightarrow> False)"

text \<open>\<open>shape\<close>: every violation is refused with the same code.\<close>

definition membership_shape :: "js \<Rightarrow> bool" where
  "membership_shape envelope =
     (let assertion = own_property envelope ''assertion''; signature = own_property envelope ''signature'';
          subject = own_property assertion ''subject''; issuer = own_property assertion ''issuer''
      in is_record envelope \<and> exact_keys envelope [''assertion'', ''signature''] \<and>
         is_record assertion \<and> is_record signature \<and>
         exact_keys assertion [''schema'', ''profile'', ''assertion_id'', ''domain_id'', ''subject'', ''issuer'',
           ''issued_at'', ''expires_at'', ''generation'', ''scopes'', ''audience''] \<and>
         is_record subject \<and> is_record issuer \<and>
         exact_keys subject [''kind'', ''id'', ''key_id'', ''public_key_ed25519''] \<and>
         exact_keys issuer [''id'', ''key_id''] \<and>
         (joined_keys signature = ''algorithm,value'' \<or> joined_keys signature = ''algorithm,key_id,value'') \<and>
         nonblank (own_property assertion ''assertion_id'') \<and> uuid_value (own_property assertion ''assertion_id'') \<and>
         nonblank (own_property assertion ''domain_id'') \<and>
         nonblank (own_property subject ''id'') \<and> nonblank (own_property subject ''key_id'') \<and>
         nonblank (own_property issuer ''id'') \<and> nonblank (own_property issuer ''key_id'') \<and>
         uint_value (own_property assertion ''issued_at'') \<noteq> None \<and>
         uint_value (own_property assertion ''expires_at'') \<noteq> None \<and>
         uint_value (own_property assertion ''generation'') \<noteq> None \<and>
         nonblank_list (own_property assertion ''scopes'') \<and> nonblank_list (own_property assertion ''audience'') \<and>
         the (uint_value (own_property assertion ''issued_at'')) < the (uint_value (own_property assertion ''expires_at'')))"

text \<open>\<open>b64url(value, length)\<close>: the raw bytes, if the text is canonical and of that length.\<close>

definition decode_b64url :: "membership_crypto \<Rightarrow> js \<Rightarrow> nat \<Rightarrow> string option" where
  "decode_b64url mc v n =
     (case v of JStr s \<Rightarrow> (let (raw, back) = mc_b64url mc s in if length raw = n \<and> back = s then Some raw else None)
      | _ \<Rightarrow> None)"

text \<open>The common end: the message, the key and the signature.\<close>

definition check_signature ::
  "membership_crypto \<Rightarrow> string \<Rightarrow> js \<Rightarrow> js \<Rightarrow> js \<Rightarrow> refusal option" where
  "check_signature mc domain document key signature =
     (case mc_jcs mc document of
        None \<Rightarrow> Some CanonicalizerThrew
      | Some txt \<Rightarrow>
          (case (decode_b64url mc key 32, decode_b64url mc signature 64) of
             (Some pub, Some sig) \<Rightarrow>
               if \<not> mc_verify mc pub (domain @ [newline] @ txt) sig then Some (Refused ''membership_signature_invalid'')
               else None
           | _ \<Rightarrow> Some (Refused ''membership_malformed'')))"

definition MEMBERSHIP_SCHEMA :: string where
  "MEMBERSHIP_SCHEMA = ''iicp.restricted-trust-domain.membership-assertion.v0''"

definition RESTRICTED_PROFILE :: string where
  "RESTRICTED_PROFILE = ''urn:iicp:profile:restricted-trust-domain:v1''"

definition membership_guards :: "js \<Rightarrow> membership_policy \<Rightarrow> string \<Rightarrow> string \<Rightarrow> int \<Rightarrow> (bool \<times> string) list" where
  "membership_guards envelope policy expectedSubject requiredScope now =
     (let assertion = own_property envelope ''assertion''; signature = own_property envelope ''signature'';
          subject = own_property assertion ''subject''; issuer = own_property assertion ''issuer'';
          field = own_property assertion
      in
      [(field ''schema'' \<noteq> JStr MEMBERSHIP_SCHEMA \<or> field ''profile'' \<noteq> JStr RESTRICTED_PROFILE \<or>
        own_property signature ''algorithm'' \<noteq> JStr ''Ed25519'', ''membership_unsupported''),
       (own_property issuer ''id'' \<noteq> JStr (mp_authority_id policy) \<or>
        own_property issuer ''key_id'' \<noteq> JStr (mp_authority_key_id policy), ''membership_authority_invalid''),
       (field ''domain_id'' \<noteq> JStr (mp_domain_id policy) \<or> \<not> list_has (field ''audience'') (mp_domain_id policy),
        ''membership_domain_mismatch''),
       (own_property subject ''kind'' \<noteq> JStr ''node'' \<or> own_property subject ''id'' \<noteq> JStr expectedSubject,
        ''membership_subject_mismatch''),
       (the (uint_value (field ''issued_at'')) > now + mp_maximum_clock_skew policy, ''membership_not_yet_valid''),
       (the (uint_value (field ''expires_at'')) \<le> now, ''membership_expired''),
       (the (uint_value (field ''generation'')) < mp_minimum_generation policy, ''membership_generation_revoked''),
       (\<not> list_has (field ''scopes'') requiredScope, ''membership_scope_missing'')])"

definition verifyMembership ::
  "membership_crypto \<Rightarrow> js \<Rightarrow> membership_policy \<Rightarrow> string \<Rightarrow> string \<Rightarrow> int \<Rightarrow> refusal option" where
  "verifyMembership mc envelope policy expectedSubject requiredScope now =
     (if \<not> membership_shape envelope then Some (Refused ''membership_malformed'')
      else case first_failure (membership_guards envelope policy expectedSubject requiredScope now) of
        Some code \<Rightarrow> Some (Refused code)
      | None \<Rightarrow> check_signature mc ''IICP-RTD-MEMBERSHIP-V0'' (own_property envelope ''assertion'')
                  (JStr (mp_authority_public_key policy))
                  (own_property (own_property envelope ''signature'') ''value''))"

section \<open>Gossip\<close>

definition gossip_shape :: "js \<Rightarrow> bool" where
  "gossip_shape gossip =
     (let proof' = own_property gossip ''proof''; signature = own_property gossip ''signature'' in
      is_record gossip \<and> exact_keys gossip [''proof'', ''signature''] \<and> is_record proof' \<and> is_record signature \<and>
      exact_keys proof' [''sender_id'', ''domain_id'', ''sent_at'', ''replay_id'', ''payload_sha256'', ''membership_assertion_id''] \<and>
      exact_keys signature [''algorithm'', ''key_id'', ''value''])"

definition gossip_guards ::
  "membership_crypto \<Rightarrow> js \<Rightarrow> js \<Rightarrow> membership_policy \<Rightarrow> string \<Rightarrow> int \<Rightarrow> bool \<Rightarrow> (bool \<times> string) list" where
  "gossip_guards mc gossip membership policy payload now replaySeen =
     (let proof' = own_property gossip ''proof''; signature = own_property gossip ''signature'';
          assertion = own_property membership ''assertion''; subject = own_property assertion ''subject'';
          sent = uint_value (own_property proof' ''sent_at''); skew = mp_maximum_clock_skew policy
      in
      [(\<not> nonblank (own_property proof' ''replay_id'') \<or> \<not> uuid_value (own_property proof' ''replay_id''),
        ''membership_malformed''),
       (own_property signature ''algorithm'' \<noteq> JStr ''Ed25519'' \<or>
        \<not> strict_eq (own_property signature ''key_id'') (own_property subject ''key_id''), ''membership_unsupported''),
       (own_property proof' ''domain_id'' \<noteq> JStr (mp_domain_id policy), ''membership_domain_mismatch''),
       (\<not> strict_eq (own_property proof' ''membership_assertion_id'') (own_property assertion ''assertion_id''),
        ''membership_subject_mismatch''),
       (replaySeen, ''gossip_replay''),
       (sent = None \<or> the sent > now + skew \<or> now - the sent > skew, ''gossip_stale''),
       (own_property proof' ''payload_sha256'' \<noteq> JStr (mc_sha256 mc payload), ''gossip_payload_mismatch'')])"

definition verifyGossip ::
  "js_runtime \<Rightarrow> membership_crypto \<Rightarrow> js \<Rightarrow> js \<Rightarrow> membership_policy \<Rightarrow> string \<Rightarrow> int \<Rightarrow> bool \<Rightarrow> refusal option" where
  "verifyGossip rt mc gossip membership policy payload now replaySeen =
     (if \<not> gossip_shape gossip then Some (Refused ''membership_malformed'')
      else let proof' = own_property gossip ''proof'' in
        case verifyMembership mc membership policy
               (String_of rt (coalesce (own_property proof' ''sender_id'') (JStr []))) ''peers'' now of
          Some r \<Rightarrow> Some r
        | None \<Rightarrow>
            (case first_failure (gossip_guards mc gossip membership policy payload now replaySeen) of
               Some code \<Rightarrow> Some (Refused code)
             | None \<Rightarrow> check_signature mc ''IICP-RTD-GOSSIP-V0'' proof'
                  (own_property (own_property (own_property membership ''assertion'') ''subject'') ''public_key_ed25519'')
                  (own_property (own_property gossip ''signature'') ''value'')))"

section \<open>The restricted directory\<close>

text \<open>
  \<open>src/restricted_directory.ts\<close>. A credential is read from the environment or from a callback;
  here it is the text found there, if any. A refusal is the message of the error.
\<close>

record directory_context =
  dc_domain_id :: string
  dc_authority_id :: string
  dc_subject_id :: string
  dc_subject_kind :: string
  dc_minimum_generation :: number
  dc_credential :: "string option"

record restricted_eligibility =
  el_domain_id :: string
  el_authority_id :: string
  el_membership_generation :: js
  el_membership_expires_at :: js

definition resolveSecret :: "string option \<Rightarrow> string + string" where
  "resolveSecret found =
     (case found of
        None \<Rightarrow> Inl ''restricted directory membership credential is unavailable''
      | Some v \<Rightarrow> if js_trim v = [] then Inl ''restricted directory membership credential is unavailable'' else Inr v)"

definition validateRestrictedContext :: "directory_context \<Rightarrow> string option" where
  "validateRestrictedContext cx =
     (if js_trim (dc_domain_id cx) = [] \<or> js_trim (dc_authority_id cx) = [] \<or> js_trim (dc_subject_id cx) = [] \<or>
         dc_subject_kind cx \<notin> set [''node'', ''client'', ''directory''] \<or>
         \<not> is_safe_integer (JNum (dc_minimum_generation cx)) \<or>
         num_less (dc_minimum_generation cx) (Fin 1)
      then Some ''restricted directory context is incomplete''
      else case resolveSecret (dc_credential cx) of Inl e \<Rightarrow> Some e | Inr _ \<Rightarrow> None)"

definition restrictedHeaders :: "directory_context \<Rightarrow> string + (string \<times> string) list" where
  "restrictedHeaders cx =
     (case resolveSecret (dc_credential cx) of
        Inl e \<Rightarrow> Inl e
      | Inr v \<Rightarrow> Inr [(''X-IICP-Membership'', v), (''X-IICP-Subject-Id'', dc_subject_id cx)])"

definition DECISION_SCHEMA :: string where
  "DECISION_SCHEMA = ''iicp.restricted-trust-domain.directory-decision.v0''"

definition js_number :: "js \<Rightarrow> number" where
  "js_number v = (case v of JNum n \<Rightarrow> n | _ \<Rightarrow> NaN)"

definition decision_mismatch :: "js \<Rightarrow> directory_context \<Rightarrow> string \<Rightarrow> int \<Rightarrow> bool" where
  "decision_mismatch decision cx oper nowSec =
     (let generation = own_property decision ''membership_generation'';
          expiry = own_property decision ''membership_expires_at''
      in \<not> is_safe_integer generation \<or> \<not> is_safe_integer expiry \<or>
         own_property decision ''schema'' \<noteq> JStr DECISION_SCHEMA \<or>
         own_property decision ''profile'' \<noteq> JStr RESTRICTED_PROFILE \<or>
         own_property decision ''decision'' \<noteq> JStr ''eligible'' \<or>
         own_property decision ''operation'' \<noteq> JStr oper \<or>
         own_property decision ''domain_id'' \<noteq> JStr (dc_domain_id cx) \<or>
         own_property decision ''authority_id'' \<noteq> JStr (dc_authority_id cx) \<or>
         own_property decision ''subject_kind'' \<noteq> JStr (dc_subject_kind cx) \<or>
         num_less (js_number generation) (dc_minimum_generation cx) \<or>
         num_le (js_number expiry) (Fin (of_int nowSec)))"

definition validateRestrictedDecision ::
  "js \<Rightarrow> directory_context \<Rightarrow> string \<Rightarrow> int \<Rightarrow> string + restricted_eligibility" where
  "validateRestrictedDecision body cx oper nowSec =
     (let decision = own_property body ''restricted_domain_decision'' in
      if \<not> is_record decision then Inl ''restricted directory decision is missing or malformed''
      else if joined_keys decision \<noteq>
        ''authority_id,decision,domain_id,membership_expires_at,membership_generation,operation,profile,schema,subject_kind''
      then Inl ''restricted directory decision is malformed''
      else if decision_mismatch decision cx oper nowSec
      then Inl ''restricted directory decision does not match the request context''
      else Inr \<lparr>el_domain_id = dc_domain_id cx, el_authority_id = dc_authority_id cx,
        el_membership_generation = own_property decision ''membership_generation'',
        el_membership_expires_at = own_property decision ''membership_expires_at''\<rparr>)"

section \<open>Properties\<close>

text \<open>
  What accepting a gossip message establishes: a chain from the pinned authority over the
  membership assertion to the sender's key and from there to the payload.
\<close>

definition signed_by :: "membership_crypto \<Rightarrow> string \<Rightarrow> js \<Rightarrow> js \<Rightarrow> js \<Rightarrow> bool" where
  "signed_by mc domain document key signature =
     (case (mc_jcs mc document, decode_b64url mc key 32, decode_b64url mc signature 64) of
        (Some txt, Some pub, Some sig) \<Rightarrow> mc_verify mc pub (domain @ [newline] @ txt) sig
      | _ \<Rightarrow> False)"

lemma check_signature_None: "check_signature mc d doc k s = None \<longleftrightarrow> signed_by mc d doc k s"
  by (auto simp: check_signature_def signed_by_def split: option.splits)

definition member_in_force :: "js \<Rightarrow> membership_policy \<Rightarrow> int \<Rightarrow> bool" where
  "member_in_force assertion policy now =
     (case (uint_value (own_property assertion ''issued_at''), uint_value (own_property assertion ''expires_at''),
            uint_value (own_property assertion ''generation'')) of
        (Some issued, Some expires, Some generation) \<Rightarrow>
          issued \<le> now + mp_maximum_clock_skew policy \<and> now < expires \<and> mp_minimum_generation policy \<le> generation
      | _ \<Rightarrow> False)"

lemma verifyMembership_accepts:
  assumes "verifyMembership mc envelope policy subject scope now = None"
  shows "own_property (own_property (own_property envelope ''assertion'') ''subject'') ''id'' = JStr subject \<and>
    list_has (own_property (own_property envelope ''assertion'') ''scopes'') scope \<and>
    own_property (own_property envelope ''assertion'') ''domain_id'' = JStr (mp_domain_id policy) \<and>
    own_property (own_property (own_property envelope ''assertion'') ''issuer'') ''id'' = JStr (mp_authority_id policy) \<and>
    member_in_force (own_property envelope ''assertion'') policy now \<and>
    signed_by mc ''IICP-RTD-MEMBERSHIP-V0'' (own_property envelope ''assertion'') (JStr (mp_authority_public_key policy))
      (own_property (own_property envelope ''signature'') ''value'')"
proof -
  have shape: "membership_shape envelope"
    and guards: "first_failure (membership_guards envelope policy subject scope now) = None"
    and sig: "check_signature mc ''IICP-RTD-MEMBERSHIP-V0'' (own_property envelope ''assertion'')
       (JStr (mp_authority_public_key policy)) (own_property (own_property envelope ''signature'') ''value'') = None"
    using assms by (auto simp: verifyMembership_def split: if_splits option.splits)
  have ints: "uint_value (own_property (own_property envelope ''assertion'') ''issued_at'') \<noteq> None"
    "uint_value (own_property (own_property envelope ''assertion'') ''expires_at'') \<noteq> None"
    "uint_value (own_property (own_property envelope ''assertion'') ''generation'') \<noteq> None"
    using shape unfolding membership_shape_def Let_def by blast+
  show ?thesis
    using guards sig ints
    unfolding membership_guards_def Let_def first_failure_None check_signature_None member_in_force_def
    by auto
qed

text \<open>
  C20 An accepted gossip message is anchored in the policy: its payload has the digest the
  sender signed, recently and for this domain, with the key that an assertion in force, signed
  by the pinned authority for exactly this sender and the scope of peers, names; and it was not
  seen before.
\<close>

theorem accepted_gossip_is_anchored:
  assumes "verifyGossip rt mc gossip membership policy payload now replaySeen = None"
  shows "let p = own_property gossip ''proof''; m = own_property membership ''assertion'' in
    \<not> replaySeen \<and> own_property p ''payload_sha256'' = JStr (mc_sha256 mc payload) \<and>
    own_property p ''domain_id'' = JStr (mp_domain_id policy) \<and>
    (case uint_value (own_property p ''sent_at'') of None \<Rightarrow> False
      | Some sent \<Rightarrow> \<bar>now - sent\<bar> \<le> mp_maximum_clock_skew policy) \<and>
    own_property (own_property m ''subject'') ''id'' =
      JStr (String_of rt (coalesce (own_property p ''sender_id'') (JStr []))) \<and>
    list_has (own_property m ''scopes'') ''peers'' \<and> member_in_force m policy now \<and>
    signed_by mc ''IICP-RTD-MEMBERSHIP-V0'' m (JStr (mp_authority_public_key policy))
      (own_property (own_property membership ''signature'') ''value'') \<and>
    signed_by mc ''IICP-RTD-GOSSIP-V0'' p (own_property (own_property m ''subject'') ''public_key_ed25519'')
      (own_property (own_property gossip ''signature'') ''value'')"
proof -
  let ?p = "own_property gossip ''proof''"
  have mem: "verifyMembership mc membership policy (String_of rt (coalesce (own_property ?p ''sender_id'') (JStr [])))
      ''peers'' now = None"
    and guards: "first_failure (gossip_guards mc gossip membership policy payload now replaySeen) = None"
    and sig: "check_signature mc ''IICP-RTD-GOSSIP-V0'' ?p
       (own_property (own_property (own_property membership ''assertion'') ''subject'') ''public_key_ed25519'')
       (own_property (own_property gossip ''signature'') ''value'') = None"
    using assms by (auto simp: verifyGossip_def Let_def split: if_splits option.splits)
  show ?thesis
    using guards sig verifyMembership_accepts [OF mem]
    unfolding gossip_guards_def Let_def first_failure_None check_signature_None
    by (auto simp: abs_le_iff)
qed

text \<open>A gossip message and its membership assertion, with a canonicalizer and signatures that accept everything.\<close>

definition sample_membership :: js where
  "sample_membership = JObj
     [(''assertion'', JObj [(''schema'', JStr MEMBERSHIP_SCHEMA), (''profile'', JStr RESTRICTED_PROFILE),
        (''assertion_id'', JStr ''00000000-0000-1000-8000-000000000000''), (''domain_id'', JStr ''d''),
        (''subject'', JObj [(''kind'', JStr ''node''), (''id'', JStr ''n''), (''key_id'', JStr ''k''),
           (''public_key_ed25519'', JStr ''p'')]),
        (''issuer'', JObj [(''id'', JStr ''a''), (''key_id'', JStr ''ak'')]), (''issued_at'', jint 10),
        (''expires_at'', jint 100), (''generation'', jint 3), (''scopes'', JArr [JStr ''peers'']),
        (''audience'', JArr [JStr ''d''])]),
      (''signature'', JObj [(''algorithm'', JStr ''Ed25519''), (''value'', JStr ''s'')])]"

definition sample_gossip :: js where
  "sample_gossip = JObj
     [(''proof'', JObj [(''sender_id'', JStr ''n''), (''domain_id'', JStr ''d''), (''sent_at'', jint 20),
        (''replay_id'', JStr ''00000000-0000-1000-8000-000000000001''), (''payload_sha256'', JStr ''h''),
        (''membership_assertion_id'', JStr ''00000000-0000-1000-8000-000000000000'')]),
      (''signature'', JObj [(''algorithm'', JStr ''Ed25519''), (''key_id'', JStr ''k''), (''value'', JStr ''s'')])]"

definition sample_crypto :: membership_crypto where
  "sample_crypto = \<lparr>mc_jcs = \<lambda>_. Some [], mc_b64url = \<lambda>s. (replicate (if s = ''s'' then 64 else 32) (CHR ''x''), s),
     mc_verify = \<lambda>_ _ _. True, mc_sha256 = \<lambda>_. ''h''\<rparr>"

definition sample_policy :: membership_policy where
  "sample_policy = \<lparr>mp_domain_id = ''d'', mp_authority_id = ''a'', mp_authority_key_id = ''ak'',
     mp_authority_public_key = ''p'', mp_minimum_generation = 1, mp_maximum_clock_skew = 5\<rparr>"

lemma sample_gossip_accepted:
  "verifyGossip \<lparr>rt_string = \<lambda>_. [], rt_number = \<lambda>_. NaN\<rparr> sample_crypto sample_gossip sample_membership sample_policy
     ''x'' 22 False = None"
  by code_simp

theorem accepted_gossip_is_anchored_witness:
  "own_property (own_property (own_property sample_membership ''assertion'') ''subject'') ''id'' = JStr ''n'' \<and>
   member_in_force (own_property sample_membership ''assertion'') sample_policy 22"
proof -
  have sender: "String_of \<lparr>rt_string = \<lambda>_. [], rt_number = \<lambda>_. NaN\<rparr>
      (coalesce (own_property (own_property sample_gossip ''proof'') ''sender_id'') (JStr [])) = ''n''"
    by code_simp
  show ?thesis
    using accepted_gossip_is_anchored [OF sample_gossip_accepted, unfolded Let_def sender] by blast
qed

end
