(* ===== verification/RelayServer.thy ===== *)
theory RelayServer imports RelaySession RateLimit Tickets begin

text \<open>
  The relay: \<open>RelaySessionRegistry\<close> and \<open>RelayAcceptServer\<close> of \<open>src/relay_session.ts\<close>, and the
  handlers of \<open>src/node.ts\<close> for the HTTP-poll transport. Both transports bind into one
  registry. Sessions are objects that the registry refers to, so they live in a store and the
  registry holds references. Every handler runs without a pause between its reading of the
  registry and its writing, so a handler is one step.
\<close>

section \<open>The registry\<close>

datatype relay_session = TcpSession worker_session | PollSession poll_session

record relay_node =
  rn_sessions :: "(string, nat) jsmap"
  rn_store :: "(nat, relay_session) jsmap"
  rn_fresh :: nat
  rn_bindRateLimit :: int
  rn_buckets :: bucket_map
  rn_max :: nat
  rn_seen :: "string expiry_map"

definition MAX_RELAY_SESSIONS :: nat where "MAX_RELAY_SESSIONS = 256"
definition DEFAULT_RELAY_BIND_RATE_LIMIT :: int where "DEFAULT_RELAY_BIND_RATE_LIMIT = 30"

text \<open>\<open>Number.isFinite(parsed) ? Math.max(0, Math.floor(parsed)) : 30\<close> of the environment's text.\<close>

definition bind_rate_limit :: "js_runtime \<Rightarrow> string option \<Rightarrow> int" where
  "bind_rate_limit rt env =
     (case (case env of None \<Rightarrow> Fin (of_int DEFAULT_RELAY_BIND_RATE_LIMIT) | Some s \<Rightarrow> Number_of rt (JStr s)) of
        Fin q \<Rightarrow> max 0 \<lfloor>q\<rfloor>
      | _ \<Rightarrow> DEFAULT_RELAY_BIND_RATE_LIMIT)"

definition new_relay_node :: "js_runtime \<Rightarrow> string option \<Rightarrow> nat \<Rightarrow> relay_node" where
  "new_relay_node rt env maxSessions =
     \<lparr>rn_sessions = [], rn_store = [], rn_fresh = 0, rn_bindRateLimit = bind_rate_limit rt env,
      rn_buckets = [], rn_max = maxSessions, rn_seen = []\<rparr>"

definition registry_get :: "relay_node \<Rightarrow> string \<Rightarrow> nat option" where
  "registry_get rn workerId = map_of (rn_sessions rn) workerId"

definition atCapacity :: "relay_node \<Rightarrow> string \<Rightarrow> bool" where
  "atCapacity rn workerId = (\<not> js_has (rn_sessions rn) workerId \<and> length (rn_sessions rn) \<ge> rn_max rn)"

definition bind_session :: "string \<Rightarrow> relay_session \<Rightarrow> relay_node \<Rightarrow> nat \<times> relay_node" where
  "bind_session workerId session rn =
     (rn_fresh rn,
      rn\<lparr>rn_sessions := AList.update workerId (rn_fresh rn) (rn_sessions rn),
         rn_store := AList.update (rn_fresh rn) session (rn_store rn), rn_fresh := Suc (rn_fresh rn)\<rparr>)"

definition unbind :: "string \<Rightarrow> relay_node \<Rightarrow> relay_node" where
  "unbind workerId rn = rn\<lparr>rn_sessions := AList.delete workerId (rn_sessions rn)\<rparr>"

definition session_at :: "relay_node \<Rightarrow> nat \<Rightarrow> relay_session option" where
  "session_at rn sid = map_of (rn_store rn) sid"

text \<open>The first HTTP-poll session with the token, in the order of the registry.\<close>

definition has_token :: "relay_node \<Rightarrow> string \<Rightarrow> nat \<Rightarrow> bool" where
  "has_token rn token sid =
     (case session_at rn sid of Some (PollSession s) \<Rightarrow> hs_sessionToken s = token | _ \<Rightarrow> False)"

definition getByToken :: "relay_node \<Rightarrow> string \<Rightarrow> nat option" where
  "getByToken rn token =
     (if token = [] then None else find (has_token rn token) (js_values (rn_sessions rn)))"

fun session_isAlive :: "int \<Rightarrow> relay_session \<Rightarrow> bool" where
  "session_isAlive now (TcpSession s) = worker_isAlive s"
| "session_isAlive now (PollSession s) = poll_isAlive now s"

fun session_worker :: "relay_session \<Rightarrow> string" where
  "session_worker (TcpSession s) = ws_workerId s"
| "session_worker (PollSession s) = hs_workerId s"

definition bound_alive :: "relay_node \<Rightarrow> int \<Rightarrow> string \<Rightarrow> bool" where
  "bound_alive rn now workerId =
     (case registry_get rn workerId of
        None \<Rightarrow> False
      | Some sid \<Rightarrow> (case session_at rn sid of None \<Rightarrow> False | Some s \<Rightarrow> session_isAlive now s))"

definition put_session :: "nat \<Rightarrow> relay_session \<Rightarrow> relay_node \<Rightarrow> relay_node" where
  "put_session sid s rn = rn\<lparr>rn_store := AList.update sid s (rn_store rn)\<rparr>"

section \<open>Admission of a bind\<close>

text \<open>
  The checks that the accept server and the HTTP handler make in the same order. The bucket of
  the source is counted up even when a later check refuses; the ticket is consumed last.
\<close>

record bind_config =
  bc_crypto :: "relay_bind_claims ticket_crypto"
  bc_publicKey :: string
  bc_require :: bool
  bc_audience :: string

datatype bind_refusal = TicketInvalid | TicketRequired | AlreadyBound | BindRateLimited | NoCapacity | TicketReplayed

definition ticket_check ::
  "bind_config \<Rightarrow> string \<Rightarrow> string \<Rightarrow> int \<Rightarrow> bind_refusal + relay_bind_claims option" where
  "ticket_check cfg bindTicket workerId nowSec =
     (if bindTicket \<noteq> [] \<and> bc_publicKey cfg \<noteq> [] then
        (case verifyRelayBindTicket (bc_crypto cfg) bindTicket (bc_publicKey cfg) workerId (bc_audience cfg) nowSec of
           None \<Rightarrow> Inl TicketInvalid
         | Some claims \<Rightarrow> Inr (Some claims))
      else if bc_require cfg then Inl TicketRequired
      else Inr None)"

definition bind_admission ::
  "bind_config \<Rightarrow> string \<Rightarrow> string \<Rightarrow> string \<Rightarrow> int \<Rightarrow> relay_node \<Rightarrow> bind_refusal option \<times> relay_node" where
  "bind_admission cfg bindTicket workerId source now rn =
     (case ticket_check cfg bindTicket workerId (now div 1000) of
        Inl e \<Rightarrow> (Some e, rn)
      | Inr claims \<Rightarrow>
          if bound_alive rn now workerId then (Some AlreadyBound, rn)
          else
            let (allowed, buckets) = allowBind (rn_bindRateLimit rn) (rn_buckets rn) source
                  (registry_get rn workerId \<noteq> None) now;
                rn = rn\<lparr>rn_buckets := buckets\<rparr>
            in if \<not> allowed then (Some BindRateLimited, rn)
               else if atCapacity rn workerId then (Some NoCapacity, rn)
               else (case claims of
                   None \<Rightarrow> (None, rn)
                 | Some c \<Rightarrow>
                     let (fresh, seen) = consumeRelayBindTicket (rn_seen rn) (now div 1000) c in
                     (if fresh then None else Some TicketReplayed, rn\<lparr>rn_seen := seen\<rparr>)))"

section \<open>RelayAcceptServer\<close>

text \<open>What a step writes to the connection or answers, and what it settles.\<close>

datatype relay_output = Wrote js | Hangup | Reply nat js | ReplyEmpty nat | Waiting | Crashed
  | Effect relay_effect

fun refusal_text :: "bind_refusal \<Rightarrow> string" where
  "refusal_text TicketInvalid = ''relay bind ticket invalid''"
| "refusal_text TicketRequired = ''relay bind ticket required''"
| "refusal_text AlreadyBound = ''worker_id already bound to an alive session''"
| "refusal_text BindRateLimited = ''relay_bind_rate_limited''"
| "refusal_text NoCapacity = ''relay at session capacity''"
| "refusal_text TicketReplayed = ''relay bind ticket replayed''"

definition property_throws :: "js \<Rightarrow> bool" where
  \<comment> \<open>reading a property of \<open>undefined\<close> or \<open>null\<close>\<close>
  "property_throws v = nullish v"

definition typed_string :: "js \<Rightarrow> string" where
  \<comment> \<open>\<open>typeof v === "string" ? v : ""\<close>\<close>
  "typed_string v = (case v of JStr s \<Rightarrow> s | _ \<Rightarrow> [])"

definition string_list :: "js_runtime \<Rightarrow> js \<Rightarrow> string list" where
  \<comment> \<open>\<open>Array.isArray(v) ? v.map(String) : []\<close>\<close>
  "string_list rt v = (case v of JArr xs \<Rightarrow> map (String_of rt) xs | _ \<Rightarrow> [])"

definition acceptBind ::
  "js_runtime \<Rightarrow> bind_config \<Rightarrow> int \<Rightarrow> js option \<Rightarrow> string option \<Rightarrow> int \<Rightarrow> relay_node \<Rightarrow>
   relay_output list \<times> nat option \<times> relay_node" where
  "acceptBind rt cfg httpPort decoded remoteAddress now rn =
     (case decoded of
        None \<Rightarrow> ([Hangup], None, rn)
      | Some body \<Rightarrow>
          if property_throws body then ([Hangup], None, rn)
          else
            let workerId = String_of rt (coalesce (numeric_property body 1) (JStr []));
                bindTicket = typed_string (numeric_property body 4);
                source = (case remoteAddress of None \<Rightarrow> ''unknown'' | Some a \<Rightarrow> a)
            in if workerId = [] then ([Hangup], None, rn)
               else (case bind_admission cfg bindTicket workerId source now rn of
                   (Some e, rn) \<Rightarrow>
                     ([Wrote (JMap [(jint 1, JStr ''error''), (jint 2, JStr workerId), (jint 3, JStr (refusal_text e))]),
                       Hangup], None, rn)
                 | (None, rn) \<Rightarrow>
                     let (sid, rn) = bind_session workerId (TcpSession (new_worker_session workerId)) rn in
                     ([Wrote (JMap [(jint 1, JStr ''ok''), (jint 2, JStr workerId), (jint 4, jint httpPort)])],
                      Some sid, rn)))"

text \<open>
  One frame of a bound worker. \<open>rw_dec\<close> and \<open>rw_json\<close> are the CBOR decoder and \<open>JSON.parse\<close>
  (\<open>None\<close> when they throw), \<open>rw_encodable\<close> is false when the answer does not fit a frame.
\<close>

record relay_codec =
  rw_dec :: "byte list \<Rightarrow> js option"
  rw_json :: "js \<Rightarrow> js option"
  rw_encodable :: "js \<Rightarrow> bool"

definition ping_echo :: "relay_codec \<Rightarrow> byte list \<Rightarrow> byte list" where
  "ping_echo cd fp =
     (case rw_dec cd fp of
        None \<Rightarrow> []
      | Some pb \<Rightarrow> if property_throws pb then [] else (case numeric_property pb 1 of JBytes e \<Rightarrow> e | _ \<Rightarrow> []))"

definition has_lifecycle :: "js \<Rightarrow> bool" where
  "has_lifecycle decoded =
     (case decoded of
        JMap kvs \<Rightarrow> map_has kvs 13
      | _ \<Rightarrow> truthy decoded \<and> is_object decoded \<and> has_numeric decoded 13)"

definition response_result :: "relay_codec \<Rightarrow> js \<Rightarrow> js option" where
  "response_result cd raw5 =
     (case raw5 of JBytes _ \<Rightarrow> rw_json cd raw5 | JStr _ \<Rightarrow> rw_json cd raw5 | _ \<Rightarrow> Some (JObj []))"

definition frameResponse ::
  "js_runtime \<Rightarrow> relay_codec \<Rightarrow> byte list \<Rightarrow> worker_session \<Rightarrow> relay_effect list \<times> worker_session" where
  \<comment> \<open>a decoding error is logged and the loop goes on\<close>
  "frameResponse rt cd fp s =
     (case rw_dec cd fp of
        None \<Rightarrow> ([], s)
      | Some decoded \<Rightarrow>
          if has_lifecycle decoded then
            (case decodeLifecycleResponse rt decoded of
               Inl _ \<Rightarrow> ([], s)
             | Inr event \<Rightarrow> onStreamResponse (rf_call_id event) event s)
          else if property_throws decoded then ([], s)
          else
            let callId = String_of rt (coalesce (numeric_property decoded 15) (JStr [])) in
            (case response_result cd (numeric_property decoded 5) of
               None \<Rightarrow> ([], s)
             | Some result \<Rightarrow> onResponse callId result s))"

text \<open>The \<open>finally\<close> of the connection: only the session's own registration is removed.\<close>

definition connection_end :: "nat \<Rightarrow> worker_session \<Rightarrow> relay_node \<Rightarrow> relay_node" where
  "connection_end sid s rn =
     (let rn = (if registry_get rn (ws_workerId s) = Some sid then unbind (ws_workerId s) rn else rn) in
      put_session sid (TcpSession (s\<lparr>ws_destroyed := True\<rparr>)) rn)"

definition workerFrame ::
  "js_runtime \<Rightarrow> relay_codec \<Rightarrow> nat \<Rightarrow> int \<Rightarrow> byte list \<Rightarrow> worker_session \<Rightarrow> relay_node \<Rightarrow>
   relay_output list \<times> relay_node" where
  "workerFrame rt cd sid ft fp s rn =
     (if ft = 9 then
        let pong = JMap [(jint 1, JBytes (ping_echo cd fp))] in
        (if rw_encodable cd pong then ([Wrote pong], rn) else ([Hangup], connection_end sid s rn))
      else if ft = 6 then
        let (out, s) = frameResponse rt cd fp s in (map Effect out, put_session sid (TcpSession s) rn)
      else if ft = 7 then ([Hangup], connection_end sid s rn)
      else ([], rn))"

section \<open>HTTP-poll handlers\<close>

text \<open>
  The body of a request is what \<open>JSON.parse\<close> makes of it (\<open>None\<close> when it throws). A handler
  that reads a property of \<open>null\<close> throws inside an event callback, which no one catches:
  \<open>Crashed\<close>.
\<close>

definition error_body :: "string \<Rightarrow> string \<Rightarrow> js" where
  "error_body code message = JObj [(''error'', JObj [(''code'', JStr code), (''message'', JStr message)])]"

definition em_dash :: string where
  \<comment> \<open>in UTF-8\<close>
  "em_dash = map char_of [226, 128, 148 :: nat]"

fun refusal_reply :: "bind_refusal \<Rightarrow> relay_output" where
  "refusal_reply TicketInvalid = Reply 401 (error_body ''IICP-E040'' ''relay bind ticket invalid'')"
| "refusal_reply TicketRequired = Reply 401 (error_body ''IICP-E040'' ''relay bind ticket required'')"
| "refusal_reply AlreadyBound =
     Reply 409 (error_body ''IICP-E038'' (''worker_id has an alive relay session '' @ em_dash @ '' rebind rejected''))"
| "refusal_reply BindRateLimited =
     Reply 429 (JObj [(''error'', JObj [(''code'', JStr ''IICP-E039''), (''reason'', JStr ''relay_bind_rate_limited''),
       (''message'', JStr ''relay bind rate limit exceeded'')])])"
| "refusal_reply NoCapacity =
     Reply 503 (error_body ''IICP-E039'' (''relay at session capacity '' @ em_dash @ '' try another relay''))"
| "refusal_reply TicketReplayed = Reply 409 (error_body ''IICP-E040'' ''relay bind ticket replayed'')"

definition bearer_token :: "string option \<Rightarrow> string" where
  "bearer_token auth =
     (case auth of None \<Rightarrow> []
      | Some h \<Rightarrow> if take 7 h = ''Bearer '' then drop 7 h else [])"

definition relayAuthedSession :: "relay_node \<Rightarrow> string option \<Rightarrow> (nat \<times> poll_session) option" where
  "relayAuthedSession rn auth =
     (case getByToken rn (bearer_token auth) of
        None \<Rightarrow> None
      | Some sid \<Rightarrow> (case session_at rn sid of Some (PollSession s) \<Rightarrow> Some (sid, s) | _ \<Rightarrow> None))"

definition unauthorized :: relay_output where
  "unauthorized = Reply 401 (error_body ''IICP-E021'' ''invalid or missing relay session token'')"

definition handleRelayBind ::
  "js_runtime \<Rightarrow> bind_config \<Rightarrow> js option \<Rightarrow> string option \<Rightarrow> string \<Rightarrow> int \<Rightarrow> relay_node \<Rightarrow>
   relay_output list \<times> nat option \<times> relay_node" where
  "handleRelayBind rt cfg body remoteAddress token now rn =
     (case body of
        None \<Rightarrow> ([Reply 400 (error_body ''IICP-E000'' ''invalid JSON'')], None, rn)
      | Some payload \<Rightarrow>
          if property_throws payload then ([Crashed], None, rn)
          else (case coalesce (own_property payload ''worker_id'') (JStr []) of
              JStr workerId \<Rightarrow>
                if workerId = [] then ([Reply 422 (error_body ''IICP-E001'' ''worker_id is required'')], None, rn)
                else
                  let bindTicket = typed_string (own_property payload ''bind_ticket'');
                      source = (case remoteAddress of None \<Rightarrow> ''worker:'' @ workerId | Some a \<Rightarrow> a)
                  in (case bind_admission cfg bindTicket workerId source now rn of
                      (Some e, rn) \<Rightarrow> ([refusal_reply e], None, rn)
                    | (None, rn) \<Rightarrow>
                        let session = new_poll_session workerId
                              (String_of rt (coalesce (own_property payload ''intent'') (JStr [])))
                              (string_list rt (own_property payload ''models'')) token now;
                            (sid, rn) = bind_session workerId (PollSession session) rn
                        in ([Reply 200 (JObj [(''session_token'', JStr token), (''poll_timeout_s'', jint 25),
                              (''worker_endpoint_path'', JStr (''/v1/relay-for/'' @ workerId))])], Some sid, rn))
            | _ \<Rightarrow> ([Reply 422 (error_body ''IICP-E001'' ''worker_id is required'')], None, rn)))"

definition handleRelayPull ::
  "string option \<Rightarrow> nat \<Rightarrow> int \<Rightarrow> relay_node \<Rightarrow> relay_output list \<times> relay_node" where
  \<comment> \<open>the answer is written when the promise \<open>waiter\<close> is settled: see \<open>pull_reply\<close>\<close>
  "handleRelayPull auth waiter now rn =
     (case relayAuthedSession rn auth of
        None \<Rightarrow> ([unauthorized], rn)
      | Some (sid, s) \<Rightarrow>
          let (out, s) = nextCall waiter now s in (map Effect out, put_session sid (PollSession s) rn))"

definition call_json :: "relay_call \<Rightarrow> js" where
  "call_json c =
     (case (rq_task_id c, rq_session_id c) of
        (Some t, Some s) \<Rightarrow> JObj [(''call_id'', JStr (rq_call_id c)), (''task_id'', JStr t), (''session_id'', JStr s),
           (''stream'', JBool (rq_stream c)), (''task'', rq_task c)]
      | _ \<Rightarrow> JObj [(''call_id'', JStr (rq_call_id c)), (''task'', rq_task c)])"

definition pull_reply :: "relay_call option \<Rightarrow> relay_output" where
  "pull_reply call = (case call of None \<Rightarrow> ReplyEmpty 204 | Some c \<Rightarrow> Reply 200 (call_json c))"

definition handleRelayResult ::
  "(js \<Rightarrow> response_frame) \<Rightarrow> string option \<Rightarrow> js option \<Rightarrow> relay_node \<Rightarrow> relay_output list \<times> relay_node" where
  \<comment> \<open>\<open>as_frame\<close> reads the posted event under the type of a frame, unchecked as in the code; a
     \<open>call_id\<close> that is no string is the key of no call\<close>
  "handleRelayResult as_frame auth body rn =
     (case relayAuthedSession rn auth of
        None \<Rightarrow> ([unauthorized], rn)
      | Some (sid, s) \<Rightarrow>
          (case body of
             None \<Rightarrow> ([Reply 400 (error_body ''IICP-E000'' ''invalid JSON'')], rn)
           | Some payload \<Rightarrow>
               if property_throws payload then ([Crashed], rn)
               else
                 let callId = coalesce (own_property payload ''call_id'') (JStr []);
                     result = own_property payload ''result'';
                     event = own_property payload ''event''
                 in if \<not> truthy callId \<or> (\<not> is_object result \<and> \<not> is_object event)
                    then ([Reply 422 (error_body ''IICP-E001'' ''call_id and result are required'')], rn)
                    else (case callId of
                        JStr cid \<Rightarrow>
                          let (out, s) =
                            (if is_object event then poll_onStreamResponse cid (as_frame event) s
                             else poll_onResponse cid result s)
                          in (map Effect out @ [ReplyEmpty 204], put_session sid (PollSession s) rn)
                      | _ \<Rightarrow> ([ReplyEmpty 204], rn))))"

definition handleRelayUnbind :: "string option \<Rightarrow> relay_node \<Rightarrow> relay_output list \<times> relay_node" where
  "handleRelayUnbind auth rn =
     (case relayAuthedSession rn auth of
        None \<Rightarrow> ([unauthorized], rn)
      | Some (sid, s) \<Rightarrow>
          ([ReplyEmpty 204], unbind (hs_workerId s) (put_session sid (PollSession (poll_close s)) rn)))"

definition relayForWorkerId :: "string \<Rightarrow> string" where
  "relayForWorkerId url = (let parts = split_on (CHR ''/'') url in if length parts > 3 then parts ! 3 else [])"

definition alive_session :: "relay_node \<Rightarrow> int \<Rightarrow> string \<Rightarrow> (nat \<times> relay_session) option" where
  "alive_session rn now workerId =
     (case registry_get rn workerId of None \<Rightarrow> None
      | Some sid \<Rightarrow> (case session_at rn sid of None \<Rightarrow> None
          | Some s \<Rightarrow> if session_isAlive now s then Some (sid, s) else None))"

definition no_session :: relay_output where
  "no_session = Reply 404 (error_body ''IICP-E030'' ''no alive relay session for this worker'')"

fun session_forwardTask ::
  "relay_wire \<Rightarrow> string \<Rightarrow> nat \<Rightarrow> js \<Rightarrow> int \<Rightarrow> relay_session \<Rightarrow> relay_effect list \<times> relay_session" where
  "session_forwardTask wire c p task now (TcpSession s) =
     (let (out, s) = forwardTask wire c p task s in (out, TcpSession s))"
| "session_forwardTask wire c p task now (PollSession s) =
     (let (out, s) = poll_forwardTask c p task now s in (out, PollSession s))"

text \<open>
  A forward to a bound worker. The session is looked up when the request arrives and used when
  its body is complete.
\<close>

definition relayForTaskBody ::
  "relay_wire \<Rightarrow> nat \<Rightarrow> js option \<Rightarrow> string \<Rightarrow> nat \<Rightarrow> int \<Rightarrow> relay_node \<Rightarrow> relay_output list \<times> relay_node" where
  "relayForTaskBody wire sid body callId p now rn =
     (case body of
        None \<Rightarrow> ([Reply 400 (error_body ''IICP-E000'' ''invalid JSON'')], rn)
      | Some task \<Rightarrow>
          (case session_at rn sid of
             None \<Rightarrow> ([no_session], rn)
           | Some s \<Rightarrow>
               let (out, s) = session_forwardTask wire callId p task now s in
               (map Effect out, put_session sid s rn)))"

definition forward_reply :: "js \<Rightarrow> string + js \<Rightarrow> string \<Rightarrow> relay_output" where
  \<comment> \<open>\<open>typeError\<close> is the text of the exception that \<open>task.task_id\<close> throws for \<open>null\<close>\<close>
  "forward_reply task settled typeError =
     (case settled of
        Inl msg \<Rightarrow> Reply 502 (error_body ''IICP-E031'' (''relay session forward failed: '' @ msg))
      | Inr result \<Rightarrow>
          if property_throws task
          then Reply 502 (error_body ''IICP-E031'' (''relay session forward failed: '' @ typeError))
          else Reply 200 (JObj (AList.update ''generated_by_ai'' (JBool True)
            (spread [(''task_id'', coalesce (own_property task ''task_id'') (JStr [])), (''status'', JStr ''completed'')]
               result))))"

definition handleRelayForTask :: "string \<Rightarrow> int \<Rightarrow> relay_node \<Rightarrow> relay_output + nat" where
  "handleRelayForTask url now rn =
     (case alive_session rn now (relayForWorkerId url) of None \<Rightarrow> Inl no_session | Some (sid, s) \<Rightarrow> Inr sid)"

definition handleRelayForHealth :: "string \<Rightarrow> int \<Rightarrow> relay_node \<Rightarrow> relay_output" where
  "handleRelayForHealth url now rn =
     (let workerId = relayForWorkerId url in
      case alive_session rn now workerId of
        None \<Rightarrow> no_session
      | Some (sid, s) \<Rightarrow>
          Reply 200 (JObj [(''status'', JStr ''ok''), (''node_id'', JStr workerId), (''via_relay'', JBool True),
            (''models'', JArr (case s of PollSession p \<Rightarrow> map JStr (hs_models p) | TcpSession _ \<Rightarrow> []))]))"

text \<open>\<open>POST /v1/relay\<close>: a bound worker first, else the peers (\<open>None\<close>: the peer list decides).\<close>

definition handleRelay ::
  "relay_wire \<Rightarrow> js option \<Rightarrow> string \<Rightarrow> nat \<Rightarrow> int \<Rightarrow> relay_node \<Rightarrow> relay_output list option \<times> relay_node" where
  "handleRelay wire body callId p now rn =
     (case body of
        None \<Rightarrow> (Some [Reply 400 (error_body ''IICP-E000'' ''invalid JSON'')], rn)
      | Some payload \<Rightarrow>
          if property_throws payload then (Some [Crashed], rn)
          else
            let targetId = coalesce (own_property payload ''target_node_id'') (JStr []);
                task = own_property payload ''task''
            in if \<not> truthy targetId \<or> \<not> truthy task
               then (Some [Reply 422 (error_body ''IICP-E000'' ''target_node_id and task required'')], rn)
               else (case targetId of
                   JStr w \<Rightarrow>
                     (case registry_get rn w of
                        None \<Rightarrow> (None, rn)
                      | Some sid \<Rightarrow>
                          (case session_at rn sid of
                             None \<Rightarrow> (None, rn)
                           | Some s \<Rightarrow>
                               let (out, s) = session_forwardTask wire callId p task now s in
                               (Some (map Effect out), put_session sid s rn)))
                 | _ \<Rightarrow> (None, rn)))"

section \<open>Runs\<close>

text \<open>
  What can happen to a relay. A step that names a session object acts on it when it exists, as
  the callbacks that hold the object do. \<open>SocketDies\<close> is the runtime's report that a worker's
  socket was destroyed or closed for writing.
\<close>

datatype relay_event =
    TcpBind "js option" "string option" int
  | WorkerFrame nat int "byte list"
  | ConnectionEnd nat
  | SocketDies nat
  | HttpBind "js option" "string option" string int
  | HttpPull "string option" nat int
  | HttpResult "string option" "js option"
  | HttpUnbind "string option"
  | PollEvent nat poll_op
  | ForTaskBody nat "js option" string nat int
  | RelayPost "js option" string nat int
  | ForwardTimer nat string

record relay_env =
  re_rt :: js_runtime
  re_cfg :: bind_config
  re_codec :: relay_codec
  re_wire :: relay_wire
  re_frame :: "js \<Rightarrow> response_frame"
  re_httpPort :: int

definition on_worker ::
  "nat \<Rightarrow> (worker_session \<Rightarrow> relay_node \<Rightarrow> relay_output list \<times> relay_node) \<Rightarrow> relay_node \<Rightarrow>
   relay_output list \<times> relay_node" where
  "on_worker sid f rn =
     (case session_at rn sid of Some (TcpSession s) \<Rightarrow> if ws_destroyed s then ([], rn) else f s rn | _ \<Rightarrow> ([], rn))"

fun relay_event_step :: "relay_env \<Rightarrow> relay_event \<Rightarrow> relay_node \<Rightarrow> relay_output list \<times> relay_node" where
  "relay_event_step e (TcpBind body addr now) rn =
     (let (out, sid, rn) = acceptBind (re_rt e) (re_cfg e) (re_httpPort e) body addr now rn in (out, rn))"
| "relay_event_step e (WorkerFrame sid ft fp) rn = on_worker sid (workerFrame (re_rt e) (re_codec e) sid ft fp) rn"
| "relay_event_step e (ConnectionEnd sid) rn = on_worker sid (\<lambda>s rn. ([], connection_end sid s rn)) rn"
| "relay_event_step e (SocketDies sid) rn =
     on_worker sid (\<lambda>s rn. ([], put_session sid (TcpSession (s\<lparr>ws_writable := False\<rparr>)) rn)) rn"
| "relay_event_step e (HttpBind body addr token now) rn =
     (let (out, sid, rn) = handleRelayBind (re_rt e) (re_cfg e) body addr token now rn in (out, rn))"
| "relay_event_step e (HttpPull auth w now) rn = handleRelayPull auth w now rn"
| "relay_event_step e (HttpResult auth body) rn = handleRelayResult (re_frame e) auth body rn"
| "relay_event_step e (HttpUnbind auth) rn = handleRelayUnbind auth rn"
| "relay_event_step e (PollEvent sid x) rn =
     (case session_at rn sid of
        Some (PollSession s) \<Rightarrow>
          let (out, s) = poll_step (re_rt e) x s in (map Effect out, put_session sid (PollSession s) rn)
      | _ \<Rightarrow> ([], rn))"
| "relay_event_step e (ForTaskBody sid body c p now) rn = relayForTaskBody (re_wire e) sid body c p now rn"
| "relay_event_step e (RelayPost body c p now) rn =
     (let (out, rn) = handleRelay (re_wire e) body c p now rn in (case out of None \<Rightarrow> [] | Some o' \<Rightarrow> o', rn))"
| "relay_event_step e (ForwardTimer sid c) rn =
     (case session_at rn sid of
        Some (TcpSession s) \<Rightarrow>
          let (out, cl) = calls_timeout c (ws_calls s) in
          (map Effect out, put_session sid (TcpSession (s\<lparr>ws_calls := cl\<rparr>)) rn)
      | _ \<Rightarrow> ([], rn))"

fun relay_events_run :: "relay_env \<Rightarrow> relay_event list \<Rightarrow> relay_node \<Rightarrow> relay_node" where
  "relay_events_run e [] rn = rn"
| "relay_events_run e (x # xs) rn = relay_events_run e xs (snd (relay_event_step e x rn))"

section \<open>The invariant of the registry\<close>

definition relay_inv :: "relay_node \<Rightarrow> bool" where
  "relay_inv rn =
     (distinct (js_keys (rn_sessions rn)) \<and> length (rn_sessions rn) \<le> rn_max rn \<and>
      (\<forall>sid. session_at rn sid \<noteq> None \<longrightarrow> sid < rn_fresh rn) \<and>
      (\<forall>w sid. registry_get rn w = Some sid \<longrightarrow> (\<exists>s. session_at rn sid = Some s \<and> session_worker s = w)))"

text \<open>Steps that leave the registry and the identity of the sessions alone.\<close>

definition same_registry :: "relay_node \<Rightarrow> relay_node \<Rightarrow> bool" where
  "same_registry rn rn' =
     (rn_sessions rn' = rn_sessions rn \<and> rn_max rn' = rn_max rn \<and> rn_fresh rn' = rn_fresh rn \<and>
      (\<forall>sid. map_option session_worker (session_at rn' sid) = map_option session_worker (session_at rn sid)))"

lemma same_registry_refl [simp]: "same_registry rn rn"
  by (simp add: same_registry_def)

lemma same_registry_put:
  "session_at rn sid = Some s0 \<Longrightarrow> session_worker s = session_worker s0 \<Longrightarrow> same_registry rn (put_session sid s rn)"
  by (simp add: same_registry_def put_session_def session_at_def)

lemma same_registry_at:
  "same_registry rn rn' \<Longrightarrow> session_at rn' sid \<noteq> None \<longleftrightarrow> session_at rn sid \<noteq> None"
  "same_registry rn rn' \<Longrightarrow> (\<exists>s. session_at rn' sid = Some s \<and> session_worker s = w) \<longleftrightarrow>
     (\<exists>s. session_at rn sid = Some s \<and> session_worker s = w)"
proof -
  assume "same_registry rn rn'"
  then have eq: "map_option session_worker (session_at rn' sid) = map_option session_worker (session_at rn sid)"
    by (simp add: same_registry_def)
  show "session_at rn' sid \<noteq> None \<longleftrightarrow> session_at rn sid \<noteq> None"
    using eq by (cases "session_at rn' sid"; cases "session_at rn sid") auto
  show "(\<exists>s. session_at rn' sid = Some s \<and> session_worker s = w) \<longleftrightarrow>
     (\<exists>s. session_at rn sid = Some s \<and> session_worker s = w)"
    using eq by (cases "session_at rn' sid"; cases "session_at rn sid") auto
qed

lemma same_registry_inv:
  assumes "same_registry rn rn'" and "relay_inv rn"
  shows "relay_inv rn'"
proof -
  have "rn_sessions rn' = rn_sessions rn" "rn_max rn' = rn_max rn" "rn_fresh rn' = rn_fresh rn"
    "\<And>w. registry_get rn' w = registry_get rn w"
    using assms(1) by (simp_all add: same_registry_def registry_get_def)
  then show ?thesis
    using assms(2) unfolding relay_inv_def same_registry_at [OF assms(1)] by simp
qed

lemma same_registry_get: "same_registry rn rn' \<Longrightarrow> registry_get rn' w = registry_get rn w"
  by (simp add: same_registry_def registry_get_def)

lemma bind_admission_same: "same_registry rn (snd (bind_admission cfg t w src now rn))"
  by (auto simp: bind_admission_def same_registry_def session_at_def case_prod_unfold Let_def
      split: sum.splits option.splits)

lemma bind_admission_ok:
  assumes "bind_admission cfg t w src now rn = (None, rn')"
  shows "\<not> bound_alive rn now w" "\<not> atCapacity rn w" "ticket_check cfg t w (now div 1000) \<noteq> Inl e"
  using assms
  by (auto simp: bind_admission_def case_prod_unfold Let_def atCapacity_def split: sum.splits option.splits if_splits)

lemma unbind_inv: "relay_inv rn \<Longrightarrow> relay_inv (unbind w rn)"
proof -
  have "length (AList.delete w m) \<le> length m" for m :: "(string, nat) jsmap"
    by (simp add: AList.delete_eq)
  then show "relay_inv rn \<Longrightarrow> relay_inv (unbind w rn)"
    by (auto simp: relay_inv_def unbind_def registry_get_def session_at_def intro: order_trans split: if_splits)
qed

lemma unbind_get: "registry_get (unbind w rn) w' = (if w' = w then None else registry_get rn w')"
  by (simp add: unbind_def registry_get_def)

lemma bind_session_get:
  "bind_session w s rn = (sid, rn') \<Longrightarrow> registry_get rn' w' = (if w' = w then Some (rn_fresh rn) else registry_get rn w')"
  by (auto simp: bind_session_def registry_get_def)

lemma bind_session_max: "rn_max (snd (bind_session w s rn)) = rn_max rn"
  by (simp add: bind_session_def)

lemma bind_session_inv:
  assumes "relay_inv rn" and "\<not> atCapacity rn w" and "session_worker s = w" and "bind_session w s rn = (sid, rn')"
  shows "relay_inv rn'"
proof -
  have new: "session_at rn (rn_fresh rn) = None"
    using assms(1) unfolding relay_inv_def by blast
  have rn': "rn' = rn\<lparr>rn_sessions := AList.update w (rn_fresh rn) (rn_sessions rn),
      rn_store := AList.update (rn_fresh rn) s (rn_store rn), rn_fresh := Suc (rn_fresh rn)\<rparr>"
    using assms(4) by (auto simp: bind_session_def)
  have at: "session_at rn' x = (if x = rn_fresh rn then Some s else session_at rn x)" for x
    by (simp add: rn' session_at_def)
  have len: "length (rn_sessions rn') \<le> rn_max rn'"
    using assms(1,2) by (auto simp: rn' relay_inv_def atCapacity_def length_js_set)
  have "\<exists>t. session_at rn' x = Some t \<and> session_worker t = v" if "registry_get rn' v = Some x" for v x
  proof (cases "v = w")
    case True
    then show ?thesis using that assms(3) bind_session_get [OF assms(4), of v] by (auto simp: at)
  next
    case False
    then have "registry_get rn v = Some x" using that bind_session_get [OF assms(4), of v] by simp
    then obtain t where "session_at rn x = Some t" "session_worker t = v"
      using assms(1) unfolding relay_inv_def by blast
    then show ?thesis using new by (auto simp: at)
  qed
  moreover have "x < rn_fresh rn'" if "session_at rn' x \<noteq> None" for x
  proof -
    have "x = rn_fresh rn \<or> session_at rn x \<noteq> None" using that by (simp add: at split: if_splits)
    then have "x \<le> rn_fresh rn" using assms(1) unfolding relay_inv_def by (metis less_imp_le order_refl)
    then show ?thesis by (simp add: rn')
  qed
  ultimately show ?thesis
    using len assms(1) unfolding relay_inv_def by (auto simp: rn')
qed

lemma on_calls_worker [simp]: "hs_workerId (snd (on_calls f s)) = hs_workerId s"
  by (simp add: on_calls_def case_prod_unfold Let_def)

lemma poll_step_worker [simp]: "hs_workerId (snd (poll_step rt x s)) = hs_workerId s"
  by (cases x) (auto simp: poll_forwardTask_def poll_forwardStream_def poll_offer_def nextCall_def pull_timeout_def
      poll_on_calls poll_close_def Let_def split: list.splits)

lemma session_forwardTask_worker [simp]:
  "session_worker (snd (session_forwardTask wire c p task now s)) = session_worker s"
  by (cases s) (auto simp: forwardTask_def poll_forwardTask_def poll_offer_def Let_def case_prod_unfold
      split: sum.splits list.splits)

lemma frameResponse_worker [simp]: "ws_workerId (snd (frameResponse rt cd fp s)) = ws_workerId s"
  by (auto simp: frameResponse_def onStreamResponse_def onResponse_def case_prod_unfold Let_def
      split: option.splits sum.splits)

lemma poll_single_steps:
  "nextCall w now s = poll_step rt (PPull w now) s"
  "poll_onStreamResponse c f s = poll_step rt (PStreamResponse c f) s"
  "poll_onResponse c r s = poll_step rt (PResponse c r) s"
  "poll_close s = snd (poll_step rt PClose s)"
  by simp_all

lemma same_put_poll:
  "session_at rn sid = Some (PollSession s) \<Longrightarrow> same_registry rn (put_session sid (PollSession (snd (poll_step rt x s))) rn)"
  by (erule same_registry_put) simp

lemma pull_same: "same_registry rn (snd (handleRelayPull auth w now rn))"
  using same_put_poll [where x = "PPull w now"]
  by (auto simp: handleRelayPull_def relayAuthedSession_def case_prod_unfold Let_def
      split: option.splits relay_session.splits)

lemma result_same: "same_registry rn (snd (handleRelayResult fr auth body rn))"
proof (cases "relayAuthedSession rn auth")
  case None
  then show ?thesis by (simp add: handleRelayResult_def)
next
  case (Some p)
  obtain sid s where p: "p = (sid, s)" by (cases p)
  have "session_at rn sid = Some (PollSession s)"
    using Some p by (auto simp: relayAuthedSession_def split: option.splits relay_session.splits)
  from same_put_poll [OF this, where x = "PResponse c r" for c r] same_put_poll [OF this, where x = "PStreamResponse c f" for c f]
  show ?thesis
    using Some p
    by (auto simp: handleRelayResult_def case_prod_unfold Let_def split: option.splits js.splits)
qed

lemma body_same: "same_registry rn (snd (relayForTaskBody wire sid body c p now rn))"
  by (auto simp: relayForTaskBody_def case_prod_unfold Let_def split: option.splits intro: same_registry_put)

lemma relay_same: "same_registry rn (snd (handleRelay wire body c p now rn))"
  by (auto simp: handleRelay_def case_prod_unfold Let_def split: option.splits js.splits intro: same_registry_put)

text \<open>What a step may do to the registry: nothing, a bind that was admitted, or an unbind.\<close>

definition presented :: "js_runtime \<Rightarrow> relay_event \<Rightarrow> (string \<times> string \<times> int) list" where
  \<comment> \<open>worker, ticket and time of a bind that reached the checks\<close>
  "presented rt x =
     (case x of
        TcpBind (Some body) addr now \<Rightarrow>
          [(String_of rt (coalesce (numeric_property body 1) (JStr [])), typed_string (numeric_property body 4), now)]
      | HttpBind (Some payload) addr token now \<Rightarrow>
          (case own_property payload ''worker_id'' of
             JStr w \<Rightarrow> [(w, typed_string (own_property payload ''bind_ticket''), now)] | _ \<Rightarrow> [])
      | _ \<Rightarrow> [])"

definition bound_step :: "relay_env \<Rightarrow> relay_event \<Rightarrow> relay_node \<Rightarrow> relay_node \<Rightarrow> bool" where
  "bound_step e x rn rn' =
     (\<exists>w t now src rn1 s sid. presented (re_rt e) x = [(w, t, now)] \<and>
        bind_admission (re_cfg e) t w src now rn = (None, rn1) \<and> session_worker s = w \<and>
        bind_session w s rn1 = (sid, rn'))"

lemma acceptBind_step:
  "same_registry rn (snd (relay_event_step e (TcpBind body addr now) rn)) \<or>
   bound_step e (TcpBind body addr now) rn (snd (relay_event_step e (TcpBind body addr now) rn))"
proof (cases body)
  case None
  then show ?thesis by (simp add: acceptBind_def)
next
  case (Some b)
  let ?w = "String_of (re_rt e) (coalesce (numeric_property b 1) (JStr []))"
  let ?t = "typed_string (numeric_property b 4)" and ?src = "case addr of None \<Rightarrow> ''unknown'' | Some a \<Rightarrow> a"
  obtain res rn1 where adm: "bind_admission (re_cfg e) ?t ?w ?src now rn = (res, rn1)"
    by (cases "bind_admission (re_cfg e) ?t ?w ?src now rn")
  have same: "same_registry rn rn1" using bind_admission_same [of rn "re_cfg e" ?t ?w ?src now] adm by simp
  show ?thesis
  proof (cases "property_throws b \<or> ?w = [] \<or> res \<noteq> None")
    case True
    then show ?thesis using Some adm same by (auto simp: acceptBind_def Let_def)
  next
    case False
    obtain sid rn2 where b: "bind_session ?w (TcpSession (new_worker_session ?w)) rn1 = (sid, rn2)"
      by (cases "bind_session ?w (TcpSession (new_worker_session ?w)) rn1")
    have "snd (relay_event_step e (TcpBind body addr now) rn) = rn2"
      using False Some adm b by (simp add: acceptBind_def Let_def)
    moreover have "bound_step e (TcpBind body addr now) rn rn2"
      unfolding bound_step_def
      by (rule exI [of _ ?w], rule exI [of _ ?t], rule exI [of _ now], rule exI [of _ ?src], rule exI [of _ rn1],
          rule exI [of _ "TcpSession (new_worker_session ?w)"], rule exI [of _ sid])
         (use False Some adm b in \<open>simp add: presented_def new_worker_session_def\<close>)
    ultimately show ?thesis by simp
  qed
qed

lemma handleRelayBind_step:
  "same_registry rn (snd (relay_event_step e (HttpBind body addr token now) rn)) \<or>
   bound_step e (HttpBind body addr token now) rn (snd (relay_event_step e (HttpBind body addr token now) rn))"
proof (cases body)
  case None
  then show ?thesis by (simp add: handleRelayBind_def)
next
  case (Some b)
  show ?thesis
  proof (cases "\<not> property_throws b \<and> (\<exists>w. own_property b ''worker_id'' = JStr w \<and> w \<noteq> [])")
    case False
    then show ?thesis
      using Some by (auto simp: handleRelayBind_def coalesce_def Let_def split: js.splits)
  next
    case True
    then obtain w where w: "own_property b ''worker_id'' = JStr w" "w \<noteq> []" by blast
    let ?t = "typed_string (own_property b ''bind_ticket'')"
    let ?src = "case addr of None \<Rightarrow> ''worker:'' @ w | Some a \<Rightarrow> a"
    let ?s = "PollSession (new_poll_session w (String_of (re_rt e) (coalesce (own_property b ''intent'') (JStr [])))
                (string_list (re_rt e) (own_property b ''models'')) token now)"
    obtain res rn1 where adm: "bind_admission (re_cfg e) ?t w ?src now rn = (res, rn1)"
      by (cases "bind_admission (re_cfg e) ?t w ?src now rn")
    have same: "same_registry rn rn1" using bind_admission_same [of rn "re_cfg e" ?t w ?src now] adm by simp
    show ?thesis
    proof (cases res)
      case (Some err)
      then show ?thesis using \<open>body = Some b\<close> True w adm same by (simp add: handleRelayBind_def Let_def)
    next
      case None
      obtain sid rn2 where b: "bind_session w ?s rn1 = (sid, rn2)" by (cases "bind_session w ?s rn1")
      have "snd (relay_event_step e (HttpBind body addr token now) rn) = rn2"
        using None \<open>body = Some b\<close> True w adm b by (simp add: handleRelayBind_def Let_def)
      moreover have "bound_step e (HttpBind body addr token now) rn rn2"
        unfolding bound_step_def
        by (rule exI [of _ w], rule exI [of _ ?t], rule exI [of _ now], rule exI [of _ ?src], rule exI [of _ rn1],
            rule exI [of _ ?s], rule exI [of _ sid])
           (use None \<open>body = Some b\<close> w adm b in \<open>simp add: presented_def new_poll_session_def\<close>)
      ultimately show ?thesis by simp
    qed
  qed
qed

text \<open>The registrations a step may remove: by the session's own token, or as its connection ends.\<close>

definition released :: "relay_event \<Rightarrow> relay_node \<Rightarrow> nat \<Rightarrow> bool" where
  "released x rn sid =
     (case x of
        HttpUnbind auth \<Rightarrow> getByToken rn (bearer_token auth) = Some sid
      | WorkerFrame sid' ft fp \<Rightarrow> sid' = sid
      | ConnectionEnd sid' \<Rightarrow> sid' = sid
      | _ \<Rightarrow> False)"

definition unbound_step :: "relay_event \<Rightarrow> relay_node \<Rightarrow> relay_node \<Rightarrow> bool" where
  "unbound_step x rn rn' =
     (\<exists>w sid. registry_get rn w = Some sid \<and> released x rn sid \<and> (same_registry (unbind w rn) rn'))"

lemma put_commutes:
  "unbind w (put_session sid s rn) = put_session sid s (unbind w rn)"
  "session_at (unbind w rn) sid' = session_at rn sid'"
  by (simp_all add: unbind_def put_session_def session_at_def)

lemma connection_end_step:
  assumes "session_at rn sid = Some (TcpSession s)" and "released x rn sid"
  shows "same_registry rn (connection_end sid s rn) \<or> unbound_step x rn (connection_end sid s rn)"
proof (cases "registry_get rn (ws_workerId s) = Some sid")
  case True
  have "same_registry (unbind (ws_workerId s) rn) (connection_end sid s rn)"
    using True assms(1)
    by (auto simp: connection_end_def Let_def put_commutes intro!: same_registry_put [where ?s0.0 = "TcpSession s"])
  then show ?thesis using True assms(2) unfolding unbound_step_def by blast
next
  case False
  then show ?thesis
    using assms(1) by (auto simp: connection_end_def Let_def intro!: same_registry_put [where ?s0.0 = "TcpSession s"])
qed

lemma on_worker_step:
  assumes "\<And>s. session_at rn sid = Some (TcpSession s) \<Longrightarrow> P (snd (f s rn))" and "P rn"
  shows "P (snd (on_worker sid f rn))"
  using assms by (auto simp: on_worker_def split: option.splits relay_session.splits)

lemma workerFrame_step:
  assumes "session_at rn sid = Some (TcpSession s)"
  shows "same_registry rn (snd (workerFrame rt cd sid ft fp s rn)) \<or>
    unbound_step (WorkerFrame sid ft fp) rn (snd (workerFrame rt cd sid ft fp s rn))"
proof -
  have "released (WorkerFrame sid ft fp) rn sid" by (simp add: released_def)
  note ce = connection_end_step [OF assms this]
  have "same_registry rn (put_session sid (TcpSession (snd (frameResponse rt cd fp s))) rn)"
    using assms by (rule same_registry_put) simp
  then show ?thesis using ce by (auto simp: workerFrame_def Let_def case_prod_unfold)
qed

lemma getByToken_in:
  assumes "relay_inv rn" and "getByToken rn token = Some sid" and "session_at rn sid = Some s"
  shows "registry_get rn (session_worker s) = Some sid"
proof -
  have "sid \<in> set (js_values (rn_sessions rn))"
    using assms(2) by (auto simp: getByToken_def find_Some_iff split: if_splits)
  then obtain w where "(w, sid) \<in> set (rn_sessions rn)" by auto
  then have "registry_get rn w = Some sid"
    using assms(1) by (simp add: registry_get_def relay_inv_def)
  then show ?thesis using assms(1,3) unfolding relay_inv_def by (metis option.inject)
qed

lemma unbind_step:
  assumes "relay_inv rn"
  shows "same_registry rn (snd (handleRelayUnbind auth rn)) \<or>
    unbound_step (HttpUnbind auth) rn (snd (handleRelayUnbind auth rn))"
proof (cases "relayAuthedSession rn auth")
  case None
  then show ?thesis by (simp add: handleRelayUnbind_def)
next
  case (Some p)
  obtain sid s where p: "p = (sid, s)" by (cases p)
  have g: "getByToken rn (bearer_token auth) = Some sid" and at: "session_at rn sid = Some (PollSession s)"
    using Some p by (auto simp: relayAuthedSession_def split: option.splits relay_session.splits)
  have get: "registry_get rn (hs_workerId s) = Some sid"
    using getByToken_in [OF assms g at] by simp
  have "same_registry (unbind (hs_workerId s) rn) (snd (handleRelayUnbind auth rn))"
    using Some p at
    by (auto simp: handleRelayUnbind_def put_commutes poll_close_def intro!: same_registry_put [where ?s0.0 = "PollSession s"])
  then show ?thesis using get g unfolding unbound_step_def released_def by auto
qed

lemma relay_event_cases:
  assumes "relay_inv rn"
  shows "same_registry rn (snd (relay_event_step e x rn)) \<or> bound_step e x rn (snd (relay_event_step e x rn)) \<or>
    unbound_step x rn (snd (relay_event_step e x rn))"
proof (cases x)
  case (TcpBind body addr now)
  then show ?thesis using acceptBind_step by blast
next
  case (WorkerFrame sid ft fp)
  show ?thesis
    unfolding WorkerFrame relay_event_step.simps
    by (rule on_worker_step) (use workerFrame_step in blast, simp)
next
  case (ConnectionEnd sid)
  have "released (ConnectionEnd sid) rn sid" by (simp add: released_def)
  then show ?thesis
    unfolding ConnectionEnd relay_event_step.simps
    by (intro on_worker_step [where P = "\<lambda>rn'. same_registry rn rn' \<or> bound_step e (ConnectionEnd sid) rn rn' \<or>
          unbound_step (ConnectionEnd sid) rn rn'"])
       (use connection_end_step in \<open>simp, blast\<close>, simp)
next
  case (SocketDies sid)
  show ?thesis
    unfolding SocketDies relay_event_step.simps
    by (rule on_worker_step) (auto intro: same_registry_put)
next
  case (HttpBind body addr token now)
  then show ?thesis using handleRelayBind_step by blast
next
  case (HttpUnbind auth)
  then show ?thesis using unbind_step [OF assms] by auto
next
  case (PollEvent sid oper)
  then show ?thesis
    by (auto simp: case_prod_unfold Let_def same_put_poll split: option.splits relay_session.splits)
next
  case (ForwardTimer sid c)
  then show ?thesis
    by (auto simp: case_prod_unfold Let_def split: option.splits relay_session.splits intro: same_registry_put)
qed (simp_all add: pull_same result_same body_same relay_same case_prod_unfold Let_def)

lemma bound_step_get:
  assumes "bound_step e x rn rn'"
  shows "\<exists>w t now. presented (re_rt e) x = [(w, t, now)] \<and> \<not> bound_alive rn now w \<and>
    (\<exists>c. ticket_check (re_cfg e) t w (now div 1000) = Inr c) \<and>
    (\<forall>w'. w' \<noteq> w \<longrightarrow> registry_get rn' w' = registry_get rn w')"
proof -
  obtain w t now src rn1 s sid where a: "presented (re_rt e) x = [(w, t, now)]"
    "bind_admission (re_cfg e) t w src now rn = (None, rn1)" "bind_session w s rn1 = (sid, rn')"
    using assms unfolding bound_step_def by blast
  have "registry_get rn1 w' = registry_get rn w'" for w'
    using bind_admission_same [of rn "re_cfg e" t w src now] a(2) by (simp add: same_registry_get)
  then show ?thesis
    using a bind_admission_ok [OF a(2)] bind_session_get [OF a(3)]
    by (cases "ticket_check (re_cfg e) t w (now div 1000)") auto
qed

lemma relay_step_inv:
  assumes "relay_inv rn"
  shows "relay_inv (snd (relay_event_step e x rn)) \<and> rn_max (snd (relay_event_step e x rn)) = rn_max rn"
proof -
  let ?rn' = "snd (relay_event_step e x rn)"
  consider "same_registry rn ?rn'" | "bound_step e x rn ?rn'" | "unbound_step x rn ?rn'"
    using relay_event_cases [OF assms] by blast
  then show ?thesis
  proof cases
    case 1
    then show ?thesis using same_registry_inv [OF 1 assms] by (simp add: same_registry_def)
  next
    case 2
    then obtain w t now src rn1 s sid where a: "bind_admission (re_cfg e) t w src now rn = (None, rn1)"
      "session_worker s = w" "bind_session w s rn1 = (sid, ?rn')"
      unfolding bound_step_def by blast
    have same: "same_registry rn rn1" using bind_admission_same [of rn "re_cfg e" t w src now] a(1) by simp
    have max: "rn_max ?rn' = rn_max rn1" using bind_session_max [of w s rn1] a(3) by simp
    have "\<not> atCapacity rn1 w"
      using bind_admission_ok(2) [OF a(1)] same by (simp add: atCapacity_def same_registry_def)
    then have "relay_inv ?rn'" by (rule bind_session_inv [OF same_registry_inv [OF same assms] _ a(2,3)])
    moreover have "rn_max ?rn' = rn_max rn"
      using max same by (simp add: same_registry_def)
    ultimately show ?thesis by simp
  next
    case 3
    then obtain w where same: "same_registry (unbind w rn) ?rn'" unfolding unbound_step_def by blast
    have "rn_max ?rn' = rn_max rn" using same by (simp add: unbind_def same_registry_def)
    then show ?thesis using same_registry_inv [OF same unbind_inv [OF assms]] by simp
  qed
qed

lemma relay_run_inv: "relay_inv rn \<Longrightarrow> relay_inv (relay_events_run e xs rn) \<and> rn_max (relay_events_run e xs rn) = rn_max rn"
  by (induction xs arbitrary: rn) (simp_all add: relay_step_inv)

lemma new_relay_inv: "relay_inv (new_relay_node rt env n)"
  by (simp add: relay_inv_def new_relay_node_def session_at_def registry_get_def)

section \<open>Properties\<close>

text \<open>
  C14 The relay keeps its promises to bound workers: after any run of binds, frames, polls,
  forwards, timers and unbinds, the sessions do not exceed the cap, and the next event changes
  the session of a worker only by a bind for a worker whose session is not alive, by an unbind
  with the session's own token, or as the session's own connection ends.
\<close>

theorem relay_session_not_displaced:
  assumes "registry_get (relay_events_run e xs (new_relay_node rt env n)) w = Some sid"
  shows "length (rn_sessions (relay_events_run e xs (new_relay_node rt env n))) \<le> n \<and>
    (registry_get (snd (relay_event_step e x (relay_events_run e xs (new_relay_node rt env n)))) w = Some sid \<or>
     (\<exists>t now. presented (re_rt e) x = [(w, t, now)] \<and>
        \<not> bound_alive (relay_events_run e xs (new_relay_node rt env n)) now w) \<or>
     released x (relay_events_run e xs (new_relay_node rt env n)) sid)"
proof -
  let ?rn = "relay_events_run e xs (new_relay_node rt env n)"
  have inv: "relay_inv ?rn" "rn_max ?rn = n"
    using relay_run_inv [OF new_relay_inv, of e xs rt env n] by (simp_all add: new_relay_node_def)
  let ?rn' = "snd (relay_event_step e x ?rn)"
  consider "same_registry ?rn ?rn'" | "bound_step e x ?rn ?rn'" | "unbound_step x ?rn ?rn'"
    using relay_event_cases [OF inv(1)] by blast
  then have "registry_get ?rn' w = Some sid \<or> (\<exists>t now. presented (re_rt e) x = [(w, t, now)] \<and>
      \<not> bound_alive ?rn now w) \<or> released x ?rn sid"
  proof cases
    case 1
    then show ?thesis using assms by (simp add: same_registry_get)
  next
    case 2
    then show ?thesis using bound_step_get [OF 2] assms by metis
  next
    case 3
    then obtain v s where u: "registry_get ?rn v = Some s" "released x ?rn s" "same_registry (unbind v ?rn) ?rn'"
      unfolding unbound_step_def by blast
    show ?thesis
    proof (cases "v = w")
      case True
      then show ?thesis using u assms by simp
    next
      case False
      then show ?thesis using same_registry_get [OF u(3), of w] assms by (simp add: unbind_get)
    qed
  qed
  then show ?thesis using inv by (auto simp: relay_inv_def)
qed

theorem relay_session_not_displaced_witness:
  "registry_get (relay_events_run
     \<lparr>re_rt = \<lparr>rt_string = \<lambda>_. [], rt_number = \<lambda>_. NaN\<rparr>,
      re_cfg = \<lparr>bc_crypto = \<lparr>tc_parse = \<lambda>_. None, tc_verify = \<lambda>_ _ _. False\<rparr>, bc_publicKey = [], bc_require = False, bc_audience = ''*''\<rparr>,
      re_codec = \<lparr>rw_dec = \<lambda>_. None, rw_json = \<lambda>_. None, rw_encodable = \<lambda>_. True\<rparr>,
      re_wire = \<lparr>wire_enc = \<lambda>_. [], wire_stringify = \<lambda>_. []\<rparr>,
      re_frame = \<lambda>_. \<lparr>rf_session_id = [], rf_call_id = [], rf_status = [], rf_is_final = False, rf_lifecycle = None, rf_result = JNull, rf_error = None, rf_tokens_used = None\<rparr>, re_httpPort = 9484\<rparr>
     [HttpBind (Some (JObj [(''worker_id'', JStr ''w'')])) None ''t'' 0] (new_relay_node \<lparr>rt_string = \<lambda>_. [], rt_number = \<lambda>_. NaN\<rparr> None 1)) ''w'' = Some 0 \<and>
   registry_get (relay_events_run
     \<lparr>re_rt = \<lparr>rt_string = \<lambda>_. [], rt_number = \<lambda>_. NaN\<rparr>,
      re_cfg = \<lparr>bc_crypto = \<lparr>tc_parse = \<lambda>_. None, tc_verify = \<lambda>_ _ _. False\<rparr>, bc_publicKey = [], bc_require = False, bc_audience = ''*''\<rparr>,
      re_codec = \<lparr>rw_dec = \<lambda>_. None, rw_json = \<lambda>_. None, rw_encodable = \<lambda>_. True\<rparr>,
      re_wire = \<lparr>wire_enc = \<lambda>_. [], wire_stringify = \<lambda>_. []\<rparr>,
      re_frame = \<lambda>_. \<lparr>rf_session_id = [], rf_call_id = [], rf_status = [], rf_is_final = False, rf_lifecycle = None, rf_result = JNull, rf_error = None, rf_tokens_used = None\<rparr>, re_httpPort = 9484\<rparr>
     [HttpBind (Some (JObj [(''worker_id'', JStr ''w'')])) None ''t'' 0, HttpPull None 1 5]
     (new_relay_node \<lparr>rt_string = \<lambda>_. [], rt_number = \<lambda>_. NaN\<rparr> None 1)) ''w'' = Some 0"
  (is "registry_get (relay_events_run ?e ?xs (new_relay_node ?rt None 1)) ''w'' = Some 0 \<and> _")
proof -
  have bound: "registry_get (relay_events_run ?e ?xs (new_relay_node ?rt None 1)) ''w'' = Some 0"
    by (simp add: new_relay_node_def handleRelayBind_def bind_admission_def ticket_check_def property_throws_def
        nullish_def bound_alive_def registry_get_def allowBind_def rate_step_def bind_rate_limit_def
        DEFAULT_RELAY_BIND_RATE_LIMIT_def atCapacity_def js_has_def bind_session_def Let_def)
  have "registry_get (snd (relay_event_step ?e (HttpPull None 1 5)
      (relay_events_run ?e ?xs (new_relay_node ?rt None 1)))) ''w'' = Some 0"
    using relay_session_not_displaced [OF bound, of "HttpPull None 1 5"]
    by (simp add: presented_def released_def)
  then show ?thesis using bound by simp
qed

definition ticket_presented :: "relay_env \<Rightarrow> string \<Rightarrow> relay_event \<Rightarrow> bool" where
  "ticket_presented e w x =
     list_ex (\<lambda>(w', t, now). w' = w \<and> verifyRelayBindTicket (bc_crypto (re_cfg e)) t
        (bc_publicKey (re_cfg e)) w (bc_audience (re_cfg e)) (now div 1000) \<noteq> None) (presented (re_rt e) x)"

lemma ticket_check_strict:
  "bc_require cfg \<Longrightarrow> ticket_check cfg t w nowSec = Inr c \<Longrightarrow>
   verifyRelayBindTicket (bc_crypto cfg) t (bc_publicKey cfg) w (bc_audience cfg) nowSec \<noteq> None"
  by (cases "verifyRelayBindTicket (bc_crypto cfg) t (bc_publicKey cfg) w (bc_audience cfg) nowSec")
     (auto simp: ticket_check_def split: if_splits)

lemma strict_step:
  assumes "relay_inv rn" and "bc_require (re_cfg e)" and "registry_get (snd (relay_event_step e x rn)) w \<noteq> None"
  shows "registry_get rn w \<noteq> None \<or> ticket_presented e w x"
proof -
  let ?rn' = "snd (relay_event_step e x rn)"
  consider "same_registry rn ?rn'" | "bound_step e x rn ?rn'" | "unbound_step x rn ?rn'"
    using relay_event_cases [OF assms(1)] by blast
  then show ?thesis
  proof cases
    case 1
    then show ?thesis using assms(3) by (simp add: same_registry_get)
  next
    case 2
    then obtain v t now c where b: "presented (re_rt e) x = [(v, t, now)]" "ticket_check (re_cfg e) t v (now div 1000) = Inr c"
      "\<forall>w'. w' \<noteq> v \<longrightarrow> registry_get ?rn' w' = registry_get rn w'"
      using bound_step_get by blast
    show ?thesis
      using b assms(3) ticket_check_strict [OF assms(2) b(2)] by (cases "w = v") (auto simp: ticket_presented_def)
  next
    case 3
    then obtain v where "same_registry (unbind v rn) ?rn'" unfolding unbound_step_def by blast
    then show ?thesis using assms(3) same_registry_get [of "unbind v rn" ?rn' w] by (simp add: unbind_get split: if_splits)
  qed
qed

lemma strict_run:
  "relay_inv rn \<Longrightarrow> bc_require (re_cfg e) \<Longrightarrow> registry_get (relay_events_run e xs rn) w \<noteq> None \<Longrightarrow>
   registry_get rn w \<noteq> None \<or> list_ex (ticket_presented e w) xs"
proof (induction xs arbitrary: rn)
  case Nil
  then show ?case by simp
next
  case (Cons x xs)
  have "relay_inv (snd (relay_event_step e x rn))" using relay_step_inv [OF Cons.prems(1)] by simp
  from Cons.IH [OF this Cons.prems(2)] Cons.prems strict_step [OF Cons.prems(1,2)] show ?case by auto
qed

text \<open>
  C15 A relay that requires tickets binds no one without one: whoever is bound after any run
  presented, in a bind of that run, a ticket that verified for that worker id and this relay at
  that time.
\<close>

theorem relay_requires_tickets:
  assumes "bc_require (re_cfg e)"
    and "registry_get (relay_events_run e xs (new_relay_node rt env n)) w = Some sid"
  shows "list_ex (ticket_presented e w) xs"
  using strict_run [OF new_relay_inv assms(1), of xs rt env n w] assms(2)
  by (simp add: new_relay_node_def registry_get_def)


theorem relay_requires_tickets_witness:
  "list_ex (ticket_presented
     \<lparr>re_rt = \<lparr>rt_string = \<lambda>_. [], rt_number = \<lambda>_. NaN\<rparr>,
      re_cfg = \<lparr>bc_crypto =
          \<lparr>tc_parse = \<lambda>_. Some \<lparr>rb_v = 1, rb_typ = ''relay-bind-ticket'', rb_jti = replicate 32 (CHR ''a''), rb_iss = ''d'',
             rb_sub = ''w'', rb_aud = ''*'', rb_iat = 0, rb_exp = 50\<rparr>, tc_verify = \<lambda>_ _ _. True\<rparr>,
        bc_publicKey = ''k'', bc_require = True, bc_audience = ''*''\<rparr>,
      re_codec = \<lparr>rw_dec = \<lambda>_. None, rw_json = \<lambda>_. None, rw_encodable = \<lambda>_. True\<rparr>,
      re_wire = \<lparr>wire_enc = \<lambda>_. [], wire_stringify = \<lambda>_. []\<rparr>,
      re_frame = \<lambda>_. \<lparr>rf_session_id = [], rf_call_id = [], rf_status = [], rf_is_final = False, rf_lifecycle = None, rf_result = JNull, rf_error = None, rf_tokens_used = None\<rparr>, re_httpPort = 9484\<rparr> ''w'')
     [HttpBind (Some (JObj [(''worker_id'', JStr ''w''), (''bind_ticket'', JStr (''p.'' @ replicate 128 (CHR ''0'')))])) None ''t'' 0]"
  (is "list_ex (ticket_presented ?e _) ?xs")
proof -
  let ?rt = "\<lparr>rt_string = \<lambda>_. [], rt_number = \<lambda>_. NaN\<rparr> :: js_runtime"
  have split: "split_on (CHR ''.'') (''p.'' @ replicate 128 (CHR ''0'')) = [''p'', replicate 128 (CHR ''0'')]"
    by (simp add: split_on_single)
  have ver: "verifyRelayBindTicket (bc_crypto (re_cfg ?e)) (''p.'' @ replicate 128 (CHR ''0'')) ''k'' ''w'' ''*'' 0 =
      tc_parse (bc_crypto (re_cfg ?e)) ''p''"
    unfolding verifyRelayBindTicket_def split
    by (simp add: hex_string_def list_all_iff lower_hex_def)
  have chk: "ticket_check (re_cfg ?e) (''p.'' @ replicate 128 (CHR ''0'')) ''w'' 0 =
      Inr (tc_parse (bc_crypto (re_cfg ?e)) ''p'')"
    using ver unfolding ticket_check_def by simp
  have "registry_get (relay_events_run ?e ?xs (new_relay_node ?rt None 1)) ''w'' = Some 0"
    using chk
    by (simp add: new_relay_node_def handleRelayBind_def bind_admission_def property_throws_def typed_string_def
        nullish_def bound_alive_def registry_get_def allowBind_def rate_step_def bind_rate_limit_def
        DEFAULT_RELAY_BIND_RATE_LIMIT_def atCapacity_def js_has_def bind_session_def consumeRelayBindTicket_def
        evict_expired_def js_evict_def Let_def)
  then show ?thesis
    by (intro relay_requires_tickets [where sid = 0 and rt = ?rt and env = None and n = 1]) simp_all
qed

end
