(* ===== verification/Routing.thy ===== *)
theory Routing imports JsText begin

text \<open>
  What a consumer makes of the nodes a directory offers: \<open>src/routing_policy.ts\<close>, the gates that
  a node must pass before a prompt is sent to it, and \<open>src/selection.ts\<close>, the order in which
  the nodes that passed are tried. A node carries the fields these modules read; the policy
  manifest is a value as it came over the network.
\<close>

record node =
  node_id :: string
  node_region :: "string option"
  node_score :: rat
  node_load :: "rat option"
  node_models :: "string list option"
  node_cx_public_key :: js
  node_policy_manifest :: js
  node_health_label :: js
  node_observed_reachable :: js

section \<open>Routing policies\<close>

record routing_policy =
  rp_profile :: "string option"
  rp_allowed_regions :: "string list option"
  rp_require_encryption :: "bool option"
  rp_require_policy_manifest :: "bool option"
  rp_require_no_payload_retention :: "bool option"
  rp_allow_remote_executor :: "bool option"
  rp_known_operator_only :: "bool option"
  rp_required_manifest_identity_level :: "string option"

record effective_policy =
  ep_profile :: string
  ep_allowed_regions :: "string list"
  ep_require_encryption :: bool
  ep_require_policy_manifest :: bool
  ep_require_no_payload_retention :: bool
  ep_allow_remote_executor :: bool
  ep_known_operator_only :: bool
  ep_required_manifest_identity_level :: "string option"

definition normalizeProfile :: "string \<Rightarrow> string" where
  "normalizeProfile profile = js_lower (replace_char (CHR ''-'') ''_'' profile)"

definition EU_REGION_PREFIXES :: "string list" where
  "EU_REGION_PREFIXES = [''eu'', ''eea'']"

definition profileDefaults :: "string \<Rightarrow> effective_policy option" where
  "profileDefaults profile =
     (let base = \<lparr>ep_profile = profile, ep_allowed_regions = [], ep_require_encryption = True,
            ep_require_policy_manifest = False, ep_require_no_payload_retention = False,
            ep_allow_remote_executor = True, ep_known_operator_only = False,
            ep_required_manifest_identity_level = None\<rparr>
      in if profile = ''standard'' then Some base
         else if profile = ''sensitive'' then Some (base\<lparr>ep_allow_remote_executor := False\<rparr>)
         else if profile = ''eu_restricted'' then Some (base\<lparr>ep_allowed_regions := EU_REGION_PREFIXES\<rparr>)
         else if profile = ''strict_policy'' then
           Some (base\<lparr>ep_require_policy_manifest := True, ep_require_no_payload_retention := True\<rparr>)
         else if profile = ''debug_override'' then Some (base\<lparr>ep_require_encryption := False\<rparr>)
         else None)"

definition empty_policy :: routing_policy where
  "empty_policy = \<lparr>rp_profile = None, rp_allowed_regions = None, rp_require_encryption = None,
     rp_require_policy_manifest = None, rp_require_no_payload_retention = None, rp_allow_remote_executor = None,
     rp_known_operator_only = None, rp_required_manifest_identity_level = None\<rparr>"

definition resolvedRoutingPolicy :: "routing_policy option \<Rightarrow> effective_policy" where
  "resolvedRoutingPolicy policy =
     (let p = or_else policy empty_policy;
          profile0 = normalizeProfile (or_else (rp_profile p) ''standard'');
          defaults = profileDefaults profile0;
          profile = (if defaults = None then ''standard'' else profile0);
          d = or_else defaults (the (profileDefaults ''standard''))
      in \<lparr>ep_profile = profile,
          ep_allowed_regions = or_else (rp_allowed_regions p) (ep_allowed_regions d),
          ep_require_encryption = or_else (rp_require_encryption p) (ep_require_encryption d),
          ep_require_policy_manifest = or_else (rp_require_policy_manifest p) (ep_require_policy_manifest d),
          ep_require_no_payload_retention =
            or_else (rp_require_no_payload_retention p) (ep_require_no_payload_retention d),
          ep_allow_remote_executor = or_else (rp_allow_remote_executor p) (ep_allow_remote_executor d),
          ep_known_operator_only = or_else (rp_known_operator_only p) False,
          ep_required_manifest_identity_level =
            (case rp_required_manifest_identity_level p of
               None \<Rightarrow> ep_required_manifest_identity_level d | Some l \<Rightarrow> Some l)\<rparr>)"

definition region_matches :: "string \<Rightarrow> string \<Rightarrow> bool" where
  "region_matches value raw =
     (let item = js_lower (js_trim raw) in
      item \<noteq> [] \<and>
      (value = item \<or> starts_with value (item @ ''-'') \<or> item = ''eea'' \<and> starts_with value ''eu-''))"

definition regionAllowed :: "string option \<Rightarrow> string list \<Rightarrow> bool" where
  "regionAllowed region allowed = list_ex (region_matches (js_lower (js_trim (or_else region [])))) allowed"

text \<open>\<open>undefined\<close> for a manifest that is missing or no object.\<close>

definition node_manifest :: "'a node_scheme \<Rightarrow> js" where
  "node_manifest n = (if is_object (node_policy_manifest n) then node_policy_manifest n else JUndef)"

definition manifestSignedVerified :: "js \<Rightarrow> bool" where
  "manifestSignedVerified manifest =
     (is_object (own_property manifest ''verification'') \<and>
      own_property (own_property manifest ''verification'') ''status'' = JStr ''signed_valid'' \<or>
      own_property manifest ''evidence'' = JStr ''signed_verified'')"

definition declaresNoPayloadRetention :: "js \<Rightarrow> bool" where
  "declaresNoPayloadRetention manifest =
     (is_object (own_property manifest ''retention'') \<and>
      own_property (own_property manifest ''retention'') ''task_payload'' = JStr ''none'')"

text \<open>
  \<open>MANIFEST_IDENTITY_RANK[level] ?? -1\<close>: a name that every object inherits yields a function or
  an object, which is not a number in a comparison.
\<close>

definition MANIFEST_IDENTITY_RANK :: "(string \<times> int) list" where
  "MANIFEST_IDENTITY_RANK = [(''self_attested'', 0), (''signed_valid'', 1), (''operator_bound'', 2),
     (''known_operator'', 3), (''rotated'', -1), (''revoked'', -1)]"

definition identity_rank :: "string \<Rightarrow> number" where
  "identity_rank level =
     (case map_of MANIFEST_IDENTITY_RANK level of
        Some r \<Rightarrow> Fin (of_int r)
      | None \<Rightarrow> if level \<in> set inherited_names then NaN else Fin (- 1))"

definition required_identity :: "string \<Rightarrow> string" where
  "required_identity requiredLevel =
     (if requiredLevel \<in> set [''signed_valid'', ''operator_bound'', ''known_operator''] then requiredLevel
      else ''known_operator'')"

definition manifestIdentityRejectionReason :: "js \<Rightarrow> string \<Rightarrow> string option" where
  "manifestIdentityRejectionReason manifest requiredLevel =
     (case own_property manifest ''manifest_identity_level'' of
        JStr level \<Rightarrow>
          first_failure
            [(level = [], ''missing_manifest_identity''),
             (level = ''revoked'' \<or> level = ''rotated'', ''policy_manifest_revoked_or_rotated''),
             (num_less (identity_rank level) (identity_rank (required_identity requiredLevel)),
              ''manifest_identity_level_too_low'')]
      | _ \<Rightarrow> Some ''missing_manifest_identity'')"

definition required_level :: "effective_policy \<Rightarrow> string option" where
  "required_level policy =
     (case ep_required_manifest_identity_level policy of
        Some l \<Rightarrow> Some l
      | None \<Rightarrow> if ep_known_operator_only policy then Some ''known_operator'' else None)"

definition node_guards :: "'a node_scheme \<Rightarrow> effective_policy \<Rightarrow> bool \<Rightarrow> (bool \<times> string) list" where
  "node_guards n policy allowPlaintextDebug =
     (let manifest = node_manifest n in
      [(\<not> ep_allow_remote_executor policy, ''remote_executor_disabled''),
       (ep_allowed_regions policy \<noteq> [] \<and> \<not> regionAllowed (node_region n) (ep_allowed_regions policy),
        ''region_not_allowed''),
       (ep_require_encryption policy \<and> \<not> truthy (node_cx_public_key n) \<and> \<not> allowPlaintextDebug,
        ''missing_encryption_key''),
       (ep_require_policy_manifest policy \<and> manifest = JUndef, ''missing_policy_manifest''),
       (ep_profile policy = ''strict_policy'' \<and> \<not> manifestSignedVerified manifest, ''policy_manifest_not_signed''),
       (ep_require_no_payload_retention policy \<and> \<not> declaresNoPayloadRetention manifest,
        ''payload_retention_not_none'')])"

definition nodeRejectionReason :: "'a node_scheme \<Rightarrow> effective_policy \<Rightarrow> bool \<Rightarrow> string option" where
  "nodeRejectionReason n policy allowPlaintextDebug =
     (case first_failure (node_guards n policy allowPlaintextDebug) of
        Some reason \<Rightarrow> Some reason
      | None \<Rightarrow>
           (case required_level policy of
              None \<Rightarrow> None
            | Some l \<Rightarrow> if l = [] then None else manifestIdentityRejectionReason (node_manifest n) l))"

record 'n policy_decision =
  pd_eligible :: "'n list"
  pd_rejectedReasons :: "string list"
  pd_skippedKeyless :: nat

definition consider_node ::
  "effective_policy \<Rightarrow> bool \<Rightarrow> 'a node_scheme \<Rightarrow> 'a node_scheme policy_decision \<Rightarrow> 'a node_scheme policy_decision" where
  "consider_node policy debug n d =
     (case nodeRejectionReason n policy debug of
        Some reason \<Rightarrow>
          d\<lparr>pd_rejectedReasons := pd_rejectedReasons d @ [reason],
            pd_skippedKeyless := pd_skippedKeyless d + (if reason = ''missing_encryption_key'' then 1 else 0)\<rparr>
      | None \<Rightarrow> d\<lparr>pd_eligible := pd_eligible d @ [n]\<rparr>)"

definition filterNodesForRoutingPolicy ::
  "'a node_scheme list \<Rightarrow> routing_policy option \<Rightarrow> bool \<Rightarrow> 'a node_scheme policy_decision" where
  "filterNodesForRoutingPolicy nodes policy allowPlaintextDebug =
     fold (consider_node (resolvedRoutingPolicy policy) allowPlaintextDebug) nodes
       \<lparr>pd_eligible = [], pd_rejectedReasons = [], pd_skippedKeyless = 0\<rparr>"

text \<open>The counts per reason, in the order of their text \<open>reason,count\<close>.\<close>

definition count_reason :: "string \<Rightarrow> (string, nat) jsmap \<Rightarrow> (string, nat) jsmap" where
  "count_reason r counts = AList.update r (or_else (map_of counts r) 0 + 1) counts"

definition summarize :: "string list \<Rightarrow> string" where
  "summarize reasons =
     (if reasons = [] then ''none''
      else join_with '', '' (map (\<lambda>(reason, n). reason @ ''='' @ digits n)
             (sort_key (\<lambda>(reason, n). reason @ '','' @ digits n) (fold count_reason reasons []))))"

definition routingPolicyRefusalMessage :: "string \<Rightarrow> 'n policy_decision \<Rightarrow> routing_policy option \<Rightarrow> string" where
  "routingPolicyRefusalMessage intent d policy =
     ''Routing policy '' @ [CHR 0x27] @ ep_profile (resolvedRoutingPolicy policy) @ [CHR 0x27] @
     '' refused all discovered nodes for '' @ [CHR 0x27] @ intent @ [CHR 0x27] @
     '' before prompt dispatch; no prompt was sent. Reasons: '' @ summarize (pd_rejectedReasons d) @
     ''. Remote nodes can read prompts they execute; use local/browser mode for sensitive data '' @
     ''or relax the policy explicitly.''"

section \<open>Candidate selection\<close>

text \<open>
  What the ranker sees of a node, and what it answers. The digest is a parameter; the answer is
  a value of unknown shape, or \<open>undefined\<close>.
\<close>

record candidate_evidence =
  ce_candidate_ref :: string
  ce_models :: "string list"
  ce_score :: rat
  ce_load :: rat
  ce_health_label :: js
  ce_observed_reachable :: js

definition opaqueRef :: "(string \<Rightarrow> string) \<Rightarrow> string \<Rightarrow> string \<Rightarrow> string" where
  "opaqueRef sha256 domain v = sha256 (''iicp:'' @ domain @ '':v0'' @ [newline] @ v)"

definition candidateEvidenceV0 :: "(string \<Rightarrow> string) \<Rightarrow> 'a node_scheme \<Rightarrow> candidate_evidence" where
  "candidateEvidenceV0 sha256 n =
     \<lparr>ce_candidate_ref = opaqueRef sha256 ''candidate'' (node_id n), ce_models = or_else (node_models n) [],
      ce_score = node_score n, ce_load = or_else (node_load n) 0, ce_health_label = node_health_label n,
      ce_observed_reachable = node_observed_reachable n\<rparr>"

definition policy_id_ok :: "string \<Rightarrow> bool" where
  \<comment> \<open>\<open>/^[A-Za-z0-9._-]{1,64}$/\<close>\<close>
  "policy_id_ok v = (1 \<le> length v \<and> length v \<le> 64 \<and> list_all (\<lambda>c. word_char c \<or> c \<in> set ''._-'') v)"

record ranker_decision =
  rd_candidate_ref :: string
  rd_policy_id :: string
  rd_mode :: string

definition read_decision :: "js \<Rightarrow> string + ranker_decision" where
  "read_decision v =
     (case (own_property v ''candidate_ref'', own_property v ''policy_id'') of
        (JStr ref, JStr pid) \<Rightarrow>
          if \<not> policy_id_ok pid then Inl (''candidate ranker policy_id must be 1-64 ASCII letters, digits, '.', '_' or '-'' @ [CHR 0x27])
          else (case own_property v ''mode'' of
              JStr m \<Rightarrow>
                if m = ''normal'' \<or> m = ''exploration'' then Inr \<lparr>rd_candidate_ref = ref, rd_policy_id = pid, rd_mode = m\<rparr>
                else Inl ''candidate ranker mode must be normal or exploration''
            | _ \<Rightarrow> Inl ''candidate ranker mode must be normal or exploration'')
      | _ \<Rightarrow> Inl ''candidate ranker returned an invalid decision'')"

definition other_node :: "'a node_scheme \<Rightarrow> 'a node_scheme \<Rightarrow> bool" where
  "other_node chosen n = (node_id n \<noteq> node_id chosen)"

definition applyCandidateRanker ::
  "(string \<Rightarrow> string) \<Rightarrow> (string \<Rightarrow> candidate_evidence list \<Rightarrow> js) \<Rightarrow> string \<Rightarrow> 'a node_scheme list \<Rightarrow> 'a node_scheme list \<Rightarrow> nat \<Rightarrow>
   string + 'a node_scheme list \<times> ranker_decision option" where
  "applyCandidateRanker sha256 rank taskId eligible builtInOrder limit =
     (let evidence = map (candidateEvidenceV0 sha256) eligible;
          answer = rank (opaqueRef sha256 ''request'' taskId) evidence
      in if answer = JUndef then Inr (builtInOrder, None)
         else (case read_decision answer of
             Inl e \<Rightarrow> Inl e
           | Inr d \<Rightarrow>
               (case find (\<lambda>n. opaqueRef sha256 ''candidate'' (node_id n) = rd_candidate_ref d) eligible of
                  None \<Rightarrow> Inl ''candidate ranker selected a reference outside the eligible candidate set''
                | Some selected \<Rightarrow> Inr (take limit (selected # filter (other_node selected) builtInOrder), Some d))))"

definition rankerReceiptProfile :: "ranker_decision \<Rightarrow> nat \<Rightarrow> string" where
  "rankerReceiptProfile d selectedCandidateIndex =
     ''external_ranker/'' @ rd_policy_id d @ ''/'' @
     (if selectedCandidateIndex = 0 then rd_mode d else ''fallback'')"

text \<open>
  The weighted order. Scores, loads and the random value are rationals: the model does not round
  as doubles do.
\<close>

definition weight_of :: "'a node_scheme \<Rightarrow> rat" where
  "weight_of n = max (node_score n) (1 / 100) / (1 + max 0 (min (or_else (node_load n) 0) 1))"

fun walk_weights :: "rat \<Rightarrow> 'a node_scheme list \<Rightarrow> 'a node_scheme \<Rightarrow> 'a node_scheme" where
  "walk_weights remaining [] fallback = fallback"
| "walk_weights remaining (n # pool) fallback =
     (let remaining = remaining - weight_of n in
      if remaining \<le> 0 then n else walk_weights remaining pool fallback)"

definition choose_weighted :: "'a node_scheme list \<Rightarrow> rat \<Rightarrow> 'a node_scheme" where
  "choose_weighted pool randomValue =
     walk_weights (max 0 (min randomValue (999999999 / 1000000000)) * sum_list (map weight_of pool)) pool (last pool)"

definition weightedV1Order :: "'a node_scheme list \<Rightarrow> nat \<Rightarrow> rat \<Rightarrow> nat \<Rightarrow> 'a node_scheme list" where
  "weightedV1Order nodes maxRetries randomValue topK =
     (if length nodes \<le> 1 then take maxRetries nodes
      else
        let pool = take (max 1 (min (length nodes) topK)) nodes;
            chosen = choose_weighted pool randomValue
        in take maxRetries (chosen # filter (other_node chosen) (take maxRetries nodes)))"

section \<open>What a policy admits\<close>

text \<open>The requirements one by one, without the order in which the code checks them.\<close>

definition identity_sufficient :: "js \<Rightarrow> string \<Rightarrow> bool" where
  "identity_sufficient manifest required =
     (case own_property manifest ''manifest_identity_level'' of
        JStr level \<Rightarrow>
          (case map_of MANIFEST_IDENTITY_RANK level of
             Some r \<Rightarrow> the (map_of MANIFEST_IDENTITY_RANK (required_identity required)) \<le> r
           | None \<Rightarrow> level \<in> set inherited_names)
      | _ \<Rightarrow> False)"

definition meets_policy :: "effective_policy \<Rightarrow> bool \<Rightarrow> 'a node_scheme \<Rightarrow> bool" where
  "meets_policy policy debug n =
     ((case required_level policy of None \<Rightarrow> True
       | Some l \<Rightarrow> (l = [] \<or> identity_sufficient (node_manifest n) l)) \<and>
      (ep_require_no_payload_retention policy \<le> declaresNoPayloadRetention (node_manifest n)) \<and>
      (ep_profile policy = ''strict_policy'') \<le> manifestSignedVerified (node_manifest n) \<and>
      (ep_require_policy_manifest policy \<le> is_object (node_policy_manifest n)) \<and>
      (ep_require_encryption policy \<le> (debug \<or> truthy (node_cx_public_key n))) \<and>
      (ep_allowed_regions policy = [] \<or> regionAllowed (node_region n) (ep_allowed_regions policy)) \<and>
      ep_allow_remote_executor policy)"

lemma required_identity_cases:
  "required_identity l = ''signed_valid'' \<or> required_identity l = ''operator_bound'' \<or> required_identity l = ''known_operator''"
  by (simp add: required_identity_def)

lemma identity_reason_None:
  "manifestIdentityRejectionReason m l = None \<longleftrightarrow> identity_sufficient m l"
proof (cases "own_property m ''manifest_identity_level''")
  case (JStr level)
  have inh: "[] \<notin> set inherited_names" "map_of MANIFEST_IDENTITY_RANK [] = None"
    "map_of MANIFEST_IDENTITY_RANK ''revoked'' = Some (- 1)" "map_of MANIFEST_IDENTITY_RANK ''rotated'' = Some (- 1)"
    by (simp_all add: inherited_names_def MANIFEST_IDENTITY_RANK_def)
  have req: "\<exists>r > 0. map_of MANIFEST_IDENTITY_RANK (required_identity l) = Some r"
    using required_identity_cases [of l] by (auto simp: MANIFEST_IDENTITY_RANK_def)
  then obtain r where r: "map_of MANIFEST_IDENTITY_RANK (required_identity l) = Some r" "0 < r" by blast
  then have rank: "identity_rank (required_identity l) = Fin (of_int r)" by (simp add: identity_rank_def)
  show ?thesis
  proof (cases "level = [] \<or> level = ''revoked'' \<or> level = ''rotated''")
    case True
    then show ?thesis
      using JStr r inh by (auto simp: manifestIdentityRejectionReason_def identity_sufficient_def)
  next
    case False
    then show ?thesis
      using JStr r
      by (auto simp: manifestIdentityRejectionReason_def identity_sufficient_def rank identity_rank_def
          split: option.splits)
  qed
qed (simp_all add: manifestIdentityRejectionReason_def identity_sufficient_def)

lemma node_manifest_undef: "node_manifest n = JUndef \<longleftrightarrow> \<not> is_object (node_policy_manifest n)"
  by (auto simp: node_manifest_def)

lemma rejection_None: "nodeRejectionReason n policy debug = None \<longleftrightarrow> meets_policy policy debug n"
proof -
  have "nodeRejectionReason n policy debug = None \<longleftrightarrow> first_failure (node_guards n policy debug) = None \<and>
    (case required_level policy of None \<Rightarrow> True | Some l \<Rightarrow> l = [] \<or> identity_sufficient (node_manifest n) l)"
    unfolding nodeRejectionReason_def
    by (simp add: identity_reason_None del: first_failure_None split: option.splits)
  then show ?thesis
    unfolding first_failure_None meets_policy_def node_guards_def
    by (simp add: node_manifest_undef Let_def) argo
qed

lemma filter_policy_fold:
  "fold (consider_node policy debug) nodes d =
     d\<lparr>pd_eligible := pd_eligible d @ filter (meets_policy policy debug) nodes,
       pd_rejectedReasons := pd_rejectedReasons d @ map (\<lambda>n. the (nodeRejectionReason n policy debug))
          (filter (\<lambda>n. \<not> meets_policy policy debug n) nodes),
       pd_skippedKeyless := pd_skippedKeyless d + length
          (filter (\<lambda>n. nodeRejectionReason n policy debug = Some ''missing_encryption_key'') nodes)\<rparr>"
proof (induction nodes arbitrary: d)
  case Nil
  then show ?case by simp
next
  case (Cons n nodes)
  show ?case
  proof (cases "nodeRejectionReason n policy debug")
    case None
    then have "meets_policy policy debug n" by (simp add: rejection_None)
    have "consider_node policy debug n d = d\<lparr>pd_eligible := pd_eligible d @ [n]\<rparr>"
      using None by (simp add: consider_node_def)
    then show ?thesis using None \<open>meets_policy policy debug n\<close> by (simp add: Cons.IH)
  next
    case (Some r)
    then have "\<not> meets_policy policy debug n" by (metis rejection_None option.distinct(1))
    have "consider_node policy debug n d = d\<lparr>pd_rejectedReasons := pd_rejectedReasons d @ [r],
        pd_skippedKeyless := pd_skippedKeyless d + (if r = ''missing_encryption_key'' then 1 else 0)\<rparr>"
      using Some by (simp add: consider_node_def)
    then show ?thesis using Some \<open>\<not> meets_policy policy debug n\<close> by (simp add: Cons.IH)
  qed
qed

text \<open>The hole in the identity gate: \<open>constructor\<close> ranks as high as any required level.\<close>

lemma inherited_identity_level_passes:
  "identity_sufficient (JObj [(''manifest_identity_level'', JStr ''constructor'')]) ''known_operator''"
  by (simp add: identity_sufficient_def MANIFEST_IDENTITY_RANK_def inherited_names_def)

section \<open>Properties\<close>


lemma filter_other_subset: "set (filter (other_node c) ns) \<subseteq> set ns - {c}"
  by (auto simp: other_node_def)

lemma walk_weights_in: "walk_weights r pool f \<in> insert f (set pool)"
proof (induction pool arbitrary: r)
  case (Cons n pool)
  show ?case using Cons.IH [of "r - weight_of n"] by (auto simp: Let_def)
qed simp

lemma read_decision_ok: "read_decision v = Inr d \<Longrightarrow> policy_id_ok (rd_policy_id d)"
  by (cases "own_property v ''candidate_ref''"; cases "own_property v ''policy_id''"; cases "own_property v ''mode''")
     (auto simp: read_decision_def split: if_splits)

lemma walk_weights_member: "pool \<noteq> [] \<Longrightarrow> walk_weights r pool (last pool) \<in> set pool"
  using walk_weights_in [of r pool "last pool"] by auto

text \<open>
  A ranker supplied by the application can only reorder: whatever it answers, it either
  fails with an error, or the candidates tried come from the eligible nodes or the built-in
  order, are at most the limit when it chose, and its choice, an eligible node it was shown,
  comes first and only once.
\<close>

lemma ranker_cannot_add_candidates:
  "(case applyCandidateRanker sha256 rank taskId eligible builtInOrder limit of
      Inl e \<Rightarrow> True
    | Inr (cs, None) \<Rightarrow> cs = builtInOrder
    | Inr (cs, Some d) \<Rightarrow>
        length cs \<le> limit \<and> set cs \<subseteq> set eligible \<union> set builtInOrder \<and> policy_id_ok (rd_policy_id d) \<and>
        (limit = 0 \<or> hd cs \<in> set eligible \<and>
           opaqueRef sha256 ''candidate'' (node_id (hd cs)) = rd_candidate_ref d \<and>
           node_id (hd cs) \<notin> node_id ` set (tl cs)))"
proof (cases "applyCandidateRanker sha256 rank taskId eligible builtInOrder limit")
  case (Inl e)
  then show ?thesis by simp
next
  case (Inr r)
  obtain cs dec where r: "r = (cs, dec)" by (cases r)
  show ?thesis
  proof (cases dec)
    case None
    then show ?thesis
      using Inr r by (auto simp: applyCandidateRanker_def Let_def split: if_splits sum.splits option.splits)
  next
    case (Some d)
    obtain s where f: "find (\<lambda>n. opaqueRef sha256 ''candidate'' (node_id n) = rd_candidate_ref d) eligible = Some s"
      and cs: "cs = take limit (s # filter (other_node s) builtInOrder)"
      and dec: "\<exists>v. read_decision v = Inr d"
      using Inr r Some by (auto simp: applyCandidateRanker_def Let_def split: if_splits sum.splits option.splits)
    have "policy_id_ok (rd_policy_id d)"
      using dec read_decision_ok by blast
    moreover have s: "s \<in> set eligible" "opaqueRef sha256 ''candidate'' (node_id s) = rd_candidate_ref d"
      using f by (auto simp: find_Some_iff)
    moreover have "set cs \<subseteq> insert s (set builtInOrder)"
      using cs set_take_subset [of limit "s # filter (other_node s) builtInOrder"] by auto
    moreover have "limit = 0 \<or> hd cs = s \<and> node_id s \<notin> node_id ` set (tl cs)"
      using cs set_take_subset [of "limit - 1" "filter (other_node s) builtInOrder"]
      by (cases limit) (auto simp: other_node_def)
    ultimately show ?thesis using Inr r Some cs by auto
  qed
qed

text \<open>
  The weighted order keeps a fair list: from nodes with distinct ids it makes a list of
  distinct nodes of the catalogue, as many as asked for or as there are, whose first node is
  one of the best \<open>topK\<close>; so no node is tried twice and none is skipped for lack of slots.
\<close>

lemma weighted_order_is_fair:
  assumes "distinct (map node_id nodes)"
  shows "(let order = weightedV1Order nodes maxRetries randomValue topK in
    distinct (map node_id order) \<and> set order \<subseteq> set nodes \<and> length order = min maxRetries (length nodes) \<and>
    (order = [] \<or> hd order \<in> set (take (max 1 topK) nodes)))"
proof (cases "length nodes \<le> 1")
  case True
  then have "nodes = [] \<or> (\<exists>n. nodes = [n])" by (cases nodes) auto
  then show ?thesis by (cases maxRetries) (auto simp: weightedV1Order_def)
next
  case False
  let ?pool = "take (max 1 (min (length nodes) topK)) nodes"
  let ?c = "choose_weighted ?pool randomValue"
  let ?rest = "filter (other_node ?c) (take maxRetries nodes)"
  have "?pool \<noteq> []" using False by auto
  then have c: "?c \<in> set ?pool" unfolding choose_weighted_def by (rule walk_weights_member)
  have sub: "set ?pool \<subseteq> set nodes" by (rule set_take_subset)
  have pool: "set ?pool \<subseteq> set (take (max 1 topK) nodes)" by (rule set_take_subset_set_take) auto
  have dis: "distinct (map node_id (?c # ?rest))"
    using assms by (auto simp: other_node_def distinct_map distinct_filter inj_on_def dest: in_set_takeD)
  have len: "length ?rest + 1 \<ge> min maxRetries (length nodes)"
  proof -
    have one: "length (filter (other_node x) xs) + 1 \<ge> length xs" if "distinct (map node_id xs)" for x xs
    proof -
      have "length (filter (\<lambda>n. \<not> other_node x n) xs) \<le> 1"
        using that
      proof (induction xs)
        case (Cons a xs)
        then have "\<not> other_node x a \<Longrightarrow> filter (\<lambda>n. \<not> other_node x n) xs = []"
          by (auto simp: other_node_def filter_empty_conv image_iff)
        then show ?case using Cons by (cases "other_node x a") auto
      qed simp
      then show ?thesis using sum_length_filter_compl [of "other_node x" xs] by linarith
    qed
    have "distinct (map node_id (take maxRetries nodes))"
      using assms by (metis distinct_take take_map)
    from one [OF this, of ?c] show ?thesis by (simp add: min.commute)
  qed
  have "length (?c # ?rest) \<le> length nodes"
  proof -
    have "set (map node_id (?c # ?rest)) \<subseteq> set (map node_id nodes)"
      using c sub by (auto simp: image_iff dest: in_set_takeD)
    then have "card (set (map node_id (?c # ?rest))) \<le> card (set (map node_id nodes))"
      by (rule card_mono [OF finite_set])
    then show ?thesis using distinct_card [OF dis] distinct_card [OF assms] by simp
  qed
  then have length: "length (take maxRetries (?c # ?rest)) = min maxRetries (length nodes)"
    using len by auto
  have eq: "weightedV1Order nodes maxRetries randomValue topK = take maxRetries (?c # ?rest)"
    using False by (simp add: weightedV1Order_def Let_def)
  let ?order = "take maxRetries (?c # ?rest)"
  have "distinct (map node_id ?order)"
    using dis by (simp only: take_map [symmetric] distinct_take)
  moreover have "set ?order \<subseteq> set nodes"
    using c sub set_take_subset [of maxRetries "?c # ?rest"] by (auto dest: in_set_takeD)
  moreover have "?order = [] \<or> hd ?order = ?c"
    by (cases maxRetries) simp_all
  then have "?order = [] \<or> hd ?order \<in> set (take (max 1 topK) nodes)"
    using subsetD [OF pool c] by metis
  ultimately have "distinct (map node_id ?order) \<and> set ?order \<subseteq> set nodes \<and>
      length ?order = min maxRetries (length nodes) \<and> (?order = [] \<or> hd ?order \<in> set (take (max 1 topK) nodes))"
    using length by (intro conjI)
  then show ?thesis unfolding Let_def eq .
qed

lemma weighted_order_is_fair_example:
  "(let n = (\<lambda>i s. \<lparr>node_id = i, node_region = None, node_score = s, node_load = None, node_models = None,
       node_cx_public_key = JNull, node_policy_manifest = JNull, node_health_label = JUndef,
       node_observed_reachable = JUndef\<rparr>);
       order = weightedV1Order [n ''a'' 1, n ''b'' 3, n ''c'' 2] 2 (1 / 2) 3 in
    map node_id order = [''b'', ''a''] \<and> length order = min 2 3)"
proof -
  let ?n = "\<lambda>i s. \<lparr>node_id = i, node_region = None, node_score = s, node_load = None, node_models = None,
       node_cx_public_key = JNull, node_policy_manifest = JNull, node_health_label = JUndef,
       node_observed_reachable = JUndef\<rparr> :: node"
  have "distinct (map node_id [?n ''a'' 1, ?n ''b'' 3, ?n ''c'' 2])" by simp
  from weighted_order_is_fair [OF this, of 2 "1 / 2" 3]
  have "length (weightedV1Order [?n ''a'' 1, ?n ''b'' 3, ?n ''c'' 2] 2 (1 / 2) 3) = min 2 3"
    by (simp add: Let_def)
  moreover have "map node_id (weightedV1Order [?n ''a'' 1, ?n ''b'' 3, ?n ''c'' 2] 2 (1 / 2) 3) = [''b'', ''a'']"
    by (simp add: weightedV1Order_def choose_weighted_def weight_of_def other_node_def Let_def)
  ultimately show ?thesis by (simp add: Let_def)
qed

end
