(* ===== verification/Peers.thy ===== *)
theory Peers imports JsText "HOL-Library.Product_Lexorder" begin

text \<open>
  The mesh layer: \<open>PeerManager\<close> of \<open>src/peer_manager.ts\<close> and the handler of its exchanges in
  \<open>src/node.ts\<close>. The HMAC of the exchanges, the digest of the election and the parser of URLs
  are parameters; an exchange over the network is its outcome. Entries have their declared
  types.
\<close>

section \<open>Peers\<close>

record peer_info =
  pi_node_id :: string
  pi_endpoint :: string
  pi_region :: string
  pi_last_seen :: string
  pi_last_contact :: int
  pi_relay_capable :: bool
  pi_relay_accept_port :: int
  pi_relay_load :: rat

record peer_entry =
  pe_node_id :: "string option"
  pe_endpoint :: "string option"
  pe_region :: "string option"
  pe_last_seen :: "string option"
  pe_relay_capable :: "bool option"
  pe_relay_accept_port :: "int option"
  pe_relay_load :: "rat option"

record peer_manager =
  pm_nodeToken :: string
  pm_peers :: "(string, peer_info) jsmap"
  pm_ownId :: string
  pm_ownEndpoint :: string
  pm_ownRelayCapable :: bool
  pm_ownRelayAcceptPort :: int

definition PEER_EXPIRY_MS :: int where "PEER_EXPIRY_MS = 90000"

definition new_peer_manager :: "string \<Rightarrow> bool option \<Rightarrow> int option \<Rightarrow> peer_manager" where
  "new_peer_manager nodeToken relayCapable relayAcceptPort =
     \<lparr>pm_nodeToken = nodeToken, pm_peers = [], pm_ownId = [], pm_ownEndpoint = [],
      pm_ownRelayCapable = or_else relayCapable False, pm_ownRelayAcceptPort = or_else relayAcceptPort 9485\<rparr>"

definition getPeers :: "peer_manager \<Rightarrow> peer_info list" where
  "getPeers pm = js_values (pm_peers pm)"

definition relayTarget :: "peer_manager \<Rightarrow> string \<Rightarrow> peer_info option" where
  "relayTarget pm nodeId = map_of (pm_peers pm) nodeId"

definition peer_of_entry :: "string \<Rightarrow> int \<Rightarrow> peer_entry \<Rightarrow> peer_info" where
  "peer_of_entry nid now p =
     \<lparr>pi_node_id = nid, pi_endpoint = or_else (pe_endpoint p) [], pi_region = or_else (pe_region p) [],
      pi_last_seen = or_else (pe_last_seen p) [], pi_last_contact = now,
      pi_relay_capable = or_else (pe_relay_capable p) False,
      pi_relay_accept_port = or_else (pe_relay_accept_port p) 9485,
      pi_relay_load = or_else (pe_relay_load p) 0\<rparr>"

definition merge_one :: "int \<Rightarrow> peer_entry \<Rightarrow> nat \<times> peer_manager \<Rightarrow> nat \<times> peer_manager" where
  "merge_one now p acc =
     (let (added, pm) = acc; nid = or_else (pe_node_id p) [] in
      if nid = [] \<or> nid = pm_ownId pm then acc
      else ((if js_has (pm_peers pm) nid then added else added + 1),
            pm\<lparr>pm_peers := AList.update nid (peer_of_entry nid now p) (pm_peers pm)\<rparr>))"

definition mergePeers :: "int \<Rightarrow> peer_entry list \<Rightarrow> peer_manager \<Rightarrow> nat \<times> peer_manager" where
  "mergePeers now incoming pm = fold (merge_one now) incoming (0, pm)"

definition prune :: "int \<Rightarrow> peer_manager \<Rightarrow> nat \<times> peer_manager" where
  "prune now pm =
     (let kept = js_evict (\<lambda>p. pi_last_contact p < now - PEER_EXPIRY_MS) (pm_peers pm) in
      (length (pm_peers pm) - length kept, pm\<lparr>pm_peers := kept\<rparr>))"

section \<open>Relay election\<close>

definition getRelayCandidates :: "peer_manager \<Rightarrow> peer_info list" where
  "getRelayCandidates pm = filter (\<lambda>p. pi_relay_capable p \<and> pi_endpoint p \<noteq> []) (js_values (pm_peers pm))"

definition relay_score :: "(string \<Rightarrow> string) \<Rightarrow> string \<Rightarrow> peer_info \<Rightarrow> rat \<times> string" where
  "relay_score sha256 workerId p = (pi_relay_load p, sha256 (workerId @ '':'' @ pi_node_id p))"

definition elected_peer :: "(string \<Rightarrow> string) \<Rightarrow> string \<Rightarrow> peer_manager \<Rightarrow> peer_info option" where
  "elected_peer sha256 workerId pm =
     (case sort_key (relay_score sha256 workerId) (getRelayCandidates pm) of [] \<Rightarrow> None | p # _ \<Rightarrow> Some p)"

text \<open>\<open>Inl\<close>: the endpoint of the elected peer is no URL, and the constructor throws.\<close>

definition electRelay ::
  "(string \<Rightarrow> string) \<Rightarrow> (string \<Rightarrow> string option) \<Rightarrow> string \<Rightarrow> peer_manager \<Rightarrow>
   unit + (peer_info \<times> string \<times> int) option" where
  "electRelay sha256 hostname_of workerId pm =
     (case elected_peer sha256 workerId pm of
        None \<Rightarrow> Inr None
      | Some p \<Rightarrow>
          (case hostname_of (if starts_with (pi_endpoint p) ''http'' then pi_endpoint p else ''http://'' @ pi_endpoint p) of
             None \<Rightarrow> Inl ()
           | Some host \<Rightarrow> Inr (Some (p, host, pi_relay_accept_port p))))"

section \<open>Exchanges\<close>

definition verifyExchange ::
  "(string \<Rightarrow> string \<Rightarrow> string) \<Rightarrow> string \<Rightarrow> string option \<Rightarrow> peer_manager \<Rightarrow> bool" where
  "verifyExchange signBody body signature pm =
     (if pm_nodeToken pm = [] then True
      else case signature of None \<Rightarrow> False | Some s \<Rightarrow> s \<noteq> [] \<and> signBody body (pm_nodeToken pm) = s)"

definition entry_of_peer :: "peer_info \<Rightarrow> peer_entry" where
  "entry_of_peer p =
     \<lparr>pe_node_id = Some (pi_node_id p), pe_endpoint = Some (pi_endpoint p), pe_region = Some (pi_region p),
      pe_last_seen = Some (pi_last_seen p), pe_relay_capable = Some (pi_relay_capable p),
      pe_relay_accept_port = Some (pi_relay_accept_port p), pe_relay_load = Some (pi_relay_load p)\<rparr>"

text \<open>What an exchange sends: all peers, and the node itself.\<close>

definition known_peers :: "peer_manager \<Rightarrow> peer_entry list" where
  "known_peers pm =
     map entry_of_peer (js_values (pm_peers pm)) @
     (if pm_ownId pm = [] then []
      else [\<lparr>pe_node_id = Some (pm_ownId pm), pe_endpoint = Some (pm_ownEndpoint pm), pe_region = None,
             pe_last_seen = None, pe_relay_capable = Some (pm_ownRelayCapable pm),
             pe_relay_accept_port = Some (pm_ownRelayAcceptPort pm), pe_relay_load = Some 0\<rparr>])"

text \<open>A request to a peer or the directory: a good answer with its peers, another status, or a failure.\<close>

datatype outcome = Answered "peer_entry list" | OtherStatus | Failed

definition touch :: "string \<Rightarrow> int \<Rightarrow> peer_manager \<Rightarrow> peer_manager" where
  "touch nid t pm =
     (case map_of (pm_peers pm) nid of
        None \<Rightarrow> pm
      | Some p \<Rightarrow> pm\<lparr>pm_peers := AList.update nid (p\<lparr>pi_last_contact := t\<rparr>) (pm_peers pm)\<rparr>)"

definition exchange :: "int \<Rightarrow> peer_info \<Rightarrow> outcome \<Rightarrow> peer_manager \<Rightarrow> peer_manager" where
  "exchange now target res pm =
     (case res of
        Answered ps \<Rightarrow> touch (pi_node_id target) now (snd (mergePeers now ps pm))
      | OtherStatus \<Rightarrow> pm
      | Failed \<Rightarrow> touch (pi_node_id target) 0 pm)"

definition bootstrap :: "int \<Rightarrow> outcome \<Rightarrow> peer_manager \<Rightarrow> peer_manager" where
  "bootstrap now res pm = (case res of Answered ps \<Rightarrow> snd (mergePeers now ps pm) | _ \<Rightarrow> pm)"

definition gossipRound :: "int \<Rightarrow> nat \<Rightarrow> outcome \<Rightarrow> peer_manager \<Rightarrow> peer_manager" where
  \<comment> \<open>\<open>pick\<close> is the random index, below the number of peers\<close>
  "gossipRound now pick res pm =
     (let peers = getPeers pm in
      if peers = [] then bootstrap now res pm
      else snd (prune now (exchange now (peers ! (pick mod length peers)) res pm)))"

definition start_peers :: "string \<Rightarrow> string \<Rightarrow> int \<Rightarrow> outcome \<Rightarrow> peer_manager \<Rightarrow> peer_manager" where
  "start_peers nodeId ownEndpoint now res pm =
     bootstrap now res (pm\<lparr>pm_ownId := nodeId, pm_ownEndpoint := ownEndpoint\<rparr>)"

text \<open>
  \<open>POST /v1/peers\<close>: \<open>entries\<close> are the objects of \<open>known_peers\<close> in the body, \<open>None\<close> when the body
  does not parse.
\<close>

datatype peers_reply = InvalidSignature | InvalidJson | Peers "peer_info list"

definition handlePeers ::
  "(string \<Rightarrow> string \<Rightarrow> string) \<Rightarrow> string \<Rightarrow> string option \<Rightarrow> peer_entry list option \<Rightarrow> int \<Rightarrow> peer_manager \<Rightarrow>
   peers_reply \<times> peer_manager" where
  "handlePeers signBody raw sig entries now pm =
     (if \<not> verifyExchange signBody raw sig pm then (InvalidSignature, pm)
      else case entries of
        None \<Rightarrow> (InvalidJson, pm)
      | Some es \<Rightarrow> let pm = snd (mergePeers now es pm) in (Peers (getPeers pm), pm))"

section \<open>The peer table\<close>

definition filed :: "string \<Rightarrow> string \<Rightarrow> peer_info \<Rightarrow> bool" where
  "filed own k p = (k = pi_node_id p \<and> k \<noteq> [] \<and> k \<noteq> own)"

definition peers_ok :: "string \<Rightarrow> peer_manager \<Rightarrow> bool" where
  "peers_ok own pm =
     (pm_ownId pm = own \<and> distinct (js_keys (pm_peers pm)) \<and>
      list_all (\<lambda>(k, p). filed own k p) (pm_peers pm))"

lemma peers_ok_set:
  "peers_ok own pm \<Longrightarrow> filed own k p \<Longrightarrow> peers_ok own (pm\<lparr>pm_peers := AList.update k p (pm_peers pm)\<rparr>)"
  by (simp add: peers_ok_def distinct_update list_all_update)

lemma merge_one_ok: "peers_ok own (snd acc) \<Longrightarrow> peers_ok own (snd (merge_one now e acc))"
proof (cases acc)
  case (Pair n pm)
  assume "peers_ok own (snd acc)"
  then have ok: "peers_ok own pm" and own: "pm_ownId pm = own" using Pair by (simp_all add: peers_ok_def)
  show ?thesis
    using Pair ok own
    by (auto simp: merge_one_def Let_def filed_def peer_of_entry_def intro!: peers_ok_set)
qed

lemma merge_fold_ok: "peers_ok own (snd acc) \<Longrightarrow> peers_ok own (snd (fold (merge_one now) es acc))"
  by (induction es arbitrary: acc) (simp_all add: merge_one_ok)

lemma merge_ok [inv_intros]: "peers_ok own pm \<Longrightarrow> peers_ok own (snd (mergePeers now es pm))"
  by (simp add: mergePeers_def merge_fold_ok)

lemma prune_ok [inv_intros]: "peers_ok own pm \<Longrightarrow> peers_ok own (snd (prune now pm))"
  by (auto simp: peers_ok_def prune_def Let_def list_all_iff js_evict_def distinct_map_filter)

lemma touch_ok [inv_intros]:
  assumes "peers_ok own pm"
  shows "peers_ok own (touch nid t pm)"
proof (cases "map_of (pm_peers pm) nid")
  case (Some p)
  then have "(nid, p) \<in> set (pm_peers pm)" by (rule map_of_SomeD)
  then have "filed own nid p" using assms by (auto simp: peers_ok_def list_all_iff)
  then show ?thesis
    using assms Some by (auto simp: touch_def filed_def intro!: peers_ok_set)
qed (use assms in \<open>simp add: touch_def\<close>)

lemma exchange_ok [inv_intros]: "peers_ok own pm \<Longrightarrow> peers_ok own (exchange now p res pm)"
  by (cases res) (simp_all add: exchange_def inv_intros)

lemma bootstrap_ok [inv_intros]: "peers_ok own pm \<Longrightarrow> peers_ok own (bootstrap now res pm)"
  by (cases res) (simp_all add: bootstrap_def inv_intros)

lemma gossip_ok [inv_intros]: "peers_ok own pm \<Longrightarrow> peers_ok own (gossipRound now pick res pm)"
  by (simp add: gossipRound_def Let_def inv_intros)

lemma handlePeers_ok [inv_intros]: "peers_ok own pm \<Longrightarrow> peers_ok own (snd (handlePeers sign raw sig es now pm))"
  by (auto simp: handlePeers_def Let_def inv_intros split: option.splits)

datatype mesh_op = Gossip int nat outcome | PeersPost string "string option" "peer_entry list option" int

fun mesh_step :: "(string \<Rightarrow> string \<Rightarrow> string) \<Rightarrow> mesh_op \<Rightarrow> peer_manager \<Rightarrow> peer_manager" where
  "mesh_step sign (Gossip now pick res) pm = gossipRound now pick res pm"
| "mesh_step sign (PeersPost raw sig es now) pm = snd (handlePeers sign raw sig es now pm)"

fun mesh_run :: "(string \<Rightarrow> string \<Rightarrow> string) \<Rightarrow> mesh_op list \<Rightarrow> peer_manager \<Rightarrow> peer_manager" where
  "mesh_run sign [] pm = pm"
| "mesh_run sign (x # xs) pm = mesh_run sign xs (mesh_step sign x pm)"

lemma mesh_step_ok: "peers_ok own pm \<Longrightarrow> peers_ok own (mesh_step sign x pm)"
  by (cases x) (simp_all add: inv_intros)

lemma mesh_run_ok: "peers_ok own pm \<Longrightarrow> peers_ok own (mesh_run sign xs pm)"
  by (induction xs arbitrary: pm) (simp_all add: mesh_step_ok)

text \<open>A peer that others still mention counts as contacted, whether or not it answers.\<close>

lemma hearsay_refreshes:
  "nid \<noteq> [] \<Longrightarrow> nid \<noteq> pm_ownId pm \<Longrightarrow> pe_node_id e = Some nid \<Longrightarrow>
   map_option pi_last_contact (map_of (pm_peers (snd (mergePeers now [e] pm))) nid) = Some now"
  by (simp add: mergePeers_def merge_one_def Let_def peer_of_entry_def)

section \<open>Properties\<close>


lemma sorted_head_min:
  "sort_key f xs = p # rest \<Longrightarrow> p \<in> set xs \<and> (\<forall>q\<in>set xs. f p \<le> f q)"
proof -
  assume a: "sort_key f xs = p # rest"
  have "set xs = insert p (set rest)" by (metis a list.simps(15) set_sort)
  moreover have "sorted (map f (p # rest))" by (metis a sorted_sort_key)
  ultimately show ?thesis by auto
qed

text \<open>
  Workers that know the same relays elect the same relay: the election depends only on the
  set of candidates and not on the order in which they were learned, and the elected relay has
  the least load among them, when the digests of the candidates differ.
\<close>

lemma relay_election_agrees:
  assumes "set (getRelayCandidates pm1) = set (getRelayCandidates pm2)"
    and "inj_on (\<lambda>p. sha256 (workerId @ '':'' @ pi_node_id p)) (set (getRelayCandidates pm1))"
  shows "elected_peer sha256 workerId pm1 = elected_peer sha256 workerId pm2 \<and>
    (case elected_peer sha256 workerId pm1 of
       None \<Rightarrow> getRelayCandidates pm1 = []
     | Some p \<Rightarrow> p \<in> set (getRelayCandidates pm1) \<and>
         list_all (\<lambda>q. pi_relay_load p \<le> pi_relay_load q) (getRelayCandidates pm1))"
proof (cases "getRelayCandidates pm1 = []")
  case True
  then have "getRelayCandidates pm2 = []" using assms(1) by simp
  then show ?thesis using True by (simp add: elected_peer_def)
next
  case False
  let ?f = "relay_score sha256 workerId"
  have inj: "inj_on ?f (set (getRelayCandidates pm1))"
    using assms(2) by (auto simp: inj_on_def relay_score_def)
  have ne: "getRelayCandidates pm2 \<noteq> []" using False assms(1) by auto
  obtain p r where p: "sort_key ?f (getRelayCandidates pm1) = p # r"
    using False by (cases "sort_key ?f (getRelayCandidates pm1)") (metis set_empty set_sort, blast)
  obtain q s where q: "sort_key ?f (getRelayCandidates pm2) = q # s"
    using ne by (cases "sort_key ?f (getRelayCandidates pm2)") (metis set_empty set_sort, blast)
  have pm: "p \<in> set (getRelayCandidates pm1)" "\<forall>x\<in>set (getRelayCandidates pm1). ?f p \<le> ?f x"
    using sorted_head_min [OF p] by auto
  have qm: "q \<in> set (getRelayCandidates pm1)" "\<forall>x\<in>set (getRelayCandidates pm1). ?f q \<le> ?f x"
    using sorted_head_min [OF q] assms(1) by auto
  have "p = q" using inj_onD [OF inj] pm qm by (meson order_antisym)
  then show ?thesis
    using p q pm by (auto simp: elected_peer_def list_all_iff relay_score_def less_eq_prod_def)
qed

lemma relay_election_agrees_example:
  "(let c = (\<lambda>i l. \<lparr>pi_node_id = i, pi_endpoint = ''h'', pi_region = [], pi_last_seen = [], pi_last_contact = 0,
        pi_relay_capable = True, pi_relay_accept_port = 9485, pi_relay_load = l\<rparr>);
        m = (\<lambda>ps. (new_peer_manager [] None None)\<lparr>pm_peers := ps\<rparr>) in
    map_option pi_node_id (elected_peer (\<lambda>s. s) ''w'' (m [(''a'', c ''a'' 2), (''b'', c ''b'' 1)])) = Some ''b'' \<and>
    elected_peer (\<lambda>s. s) ''w'' (m [(''a'', c ''a'' 2), (''b'', c ''b'' 1)]) =
      elected_peer (\<lambda>s. s) ''w'' (m [(''b'', c ''b'' 1), (''a'', c ''a'' 2)]))"
proof -
  let ?c = "\<lambda>i l. \<lparr>pi_node_id = i, pi_endpoint = ''h'', pi_region = [], pi_last_seen = [], pi_last_contact = 0,
        pi_relay_capable = True, pi_relay_accept_port = 9485, pi_relay_load = l\<rparr> :: peer_info"
  let ?m = "\<lambda>ps. (new_peer_manager [] None None)\<lparr>pm_peers := ps\<rparr>"
  let ?p1 = "?m [(''a'', ?c ''a'' 2), (''b'', ?c ''b'' 1)]" and ?p2 = "?m [(''b'', ?c ''b'' 1), (''a'', ?c ''a'' 2)]"
  have set: "set (getRelayCandidates ?p1) = set (getRelayCandidates ?p2)"
    by (auto simp: getRelayCandidates_def)
  have inj: "inj_on (\<lambda>p. (\<lambda>s. s) (''w'' @ '':'' @ pi_node_id p)) (set (getRelayCandidates ?p1))"
    by (auto simp: getRelayCandidates_def inj_on_def)
  have "map_option pi_node_id (elected_peer (\<lambda>s. s) ''w'' ?p1) = Some ''b''"
    by (simp add: elected_peer_def getRelayCandidates_def relay_score_def less_eq_prod_def)
  then show ?thesis
    using relay_election_agrees [OF set inj] by (simp add: Let_def)
qed

end
