(* ===== verification/BackendStability.thy ===== *)
theory BackendStability imports JsText begin

text \<open>
  The observer of the provider's backend: \<open>src/backend_stability.ts\<close>. A probe is a function from
  urls to what \<open>fetch\<close> did: \<open>None\<close> when it threw, else whether the status was good and the parsed
  body (\<open>None\<close> when parsing threw). Times are milliseconds.
\<close>

datatype backend_state = BackendOk | BackendDegraded | BackendDraining
datatype backend_reason = ReasonOk | BackendCold | BackendLoading | BackendUnstable | ObserverError

record observation =
  ob_state :: backend_state
  ob_reason :: backend_reason
  ob_drainUntilMs :: "int option"
  ob_diagnostics :: "(string \<times> js) list"

definition ok_observation :: observation where
  "ok_observation = \<lparr>ob_state = BackendOk, ob_reason = ReasonOk, ob_drainUntilMs = None, ob_diagnostics = []\<rparr>"

definition observer_error :: observation where
  "observer_error = ok_observation\<lparr>ob_state := BackendDegraded, ob_reason := ObserverError\<rparr>"

text \<open>\<open>Math.round\<close> of milliseconds over 1000 rounds halves up.\<close>

definition retryAfterS :: "int \<Rightarrow> observation \<Rightarrow> int option" where
  "retryAfterS nowMs ob =
     (case ob_drainUntilMs ob of
        None \<Rightarrow> None
      | Some until \<Rightarrow>
          let remaining = until - nowMs in
          if remaining \<le> 0 then None else Some (max 1 ((remaining + 500) div 1000)))"

definition isDraining :: "int \<Rightarrow> observation \<Rightarrow> bool" where
  "isDraining nowMs ob = (ob_state ob = BackendDraining \<and> retryAfterS nowMs ob \<noteq> None)"

primrec state_name :: "backend_state \<Rightarrow> string" where
  "state_name BackendOk = ''ok''"
| "state_name BackendDegraded = ''degraded''"
| "state_name BackendDraining = ''draining''"

primrec reason_name :: "backend_reason \<Rightarrow> string" where
  "reason_name ReasonOk = ''ok''"
| "reason_name BackendCold = ''backend_cold''"
| "reason_name BackendLoading = ''backend_loading''"
| "reason_name BackendUnstable = ''backend_unstable''"
| "reason_name ObserverError = ''observer_error''"

definition publicDict :: "int \<Rightarrow> observation \<Rightarrow> js" where
  "publicDict nowMs ob =
     JObj ([(''backend_state'', JStr (state_name (ob_state ob))), (''reason_class'', JStr (reason_name (ob_reason ob)))] @
       (case retryAfterS nowMs ob of
          None \<Rightarrow> []
        | Some retry \<Rightarrow> [(''retry_after_s'', jint retry), (''drain_until'', jint (or_else (ob_drainUntilMs ob) 0 div 1000))]))"

section \<open>Reading the answers of the backends\<close>

definition norm :: "js_runtime \<Rightarrow> js \<Rightarrow> string" where
  "norm rt v = replace_char (CHR ''-'') ''_'' (js_lower (js_trim (String_of rt (coalesce v (JStr [])))))"

definition model_base :: "string \<Rightarrow> string" where
  \<comment> \<open>\<open>s.split(":", 1)[0]\<close>\<close>
  "model_base s = takeWhile (\<lambda>c. c \<noteq> CHR '':'') s"

definition modelMatches :: "string \<Rightarrow> string option \<Rightarrow> bool" where
  "modelMatches candidate expectedModel =
     (case expectedModel of
        None \<Rightarrow> True
      | Some e \<Rightarrow> e = [] \<or> candidate = e \<or> model_base candidate = model_base e)"

definition expects :: "string option \<Rightarrow> bool" where
  "expects expectedModel = (case expectedModel of None \<Rightarrow> False | Some e \<Rightarrow> e \<noteq> [])"

definition array_property :: "js \<Rightarrow> string \<Rightarrow> js list option" where
  "array_property v k = (case own_property v k of JArr xs \<Rightarrow> Some xs | _ \<Rightarrow> None)"

definition string_property :: "string \<Rightarrow> js \<Rightarrow> string list" where
  "string_property k v = (case own_property v k of JStr s \<Rightarrow> [s] | _ \<Rightarrow> [])"

definition parseOllamaPs :: "js \<Rightarrow> string option \<Rightarrow> observation" where
  "parseOllamaPs data expectedModel =
     (case array_property data ''models'' of
        None \<Rightarrow> observer_error
      | Some models \<Rightarrow>
          let names = concat (map (string_property ''name'') models);
              loadedExpected = list_ex (\<lambda>name. modelMatches name expectedModel) names;
              count = (''loaded_model_count'', jint (int (length names)))
          in if expects expectedModel \<and> \<not> loadedExpected
             then ok_observation\<lparr>ob_state := BackendDegraded, ob_reason := BackendCold,
                    ob_diagnostics := [count, (''expected_model_loaded'', JBool False)]\<rparr>
             else ok_observation\<lparr>ob_diagnostics := [count]\<rparr>)"

record studio_scan =
  sc_sawExpected :: bool
  sc_sawLoadedExpected :: bool
  sc_sawLoading :: bool
  sc_sawUnstable :: bool
  sc_loadedCount :: nat

definition loading_states :: "string list" where
  "loading_states = [''loading'', ''initializing'', ''starting'', ''warming'', ''warming_up'']"

definition unstable_states :: "string list" where
  "unstable_states = [''error'', ''failed'', ''crashed'', ''unhealthy'', ''oom'', ''out_of_memory'']"

definition first_present :: "js \<Rightarrow> string list \<Rightarrow> js" where
  \<comment> \<open>\<open>v.a ?? v.b ?? ...\<close>\<close>
  "first_present v ks = foldr (\<lambda>k d. coalesce (own_property v k) d) ks JUndef"

definition instance_state :: "js_runtime \<Rightarrow> js \<Rightarrow> string" where
  "instance_state rt inst = norm rt (first_present inst [''state'', ''status'', ''load_status''])"

definition scan_instance :: "js_runtime \<Rightarrow> bool \<Rightarrow> js \<Rightarrow> studio_scan \<Rightarrow> studio_scan" where
  "scan_instance rt expected inst sc =
     (if \<not> is_object inst then sc
      else
        let state = instance_state rt inst in
        sc\<lparr>sc_loadedCount := sc_loadedCount sc + 1,
           sc_sawLoadedExpected := sc_sawLoadedExpected sc \<or> expected,
           sc_sawLoading := sc_sawLoading sc \<or> state \<in> set loading_states,
           sc_sawUnstable := sc_sawUnstable sc \<or> state \<in> set unstable_states\<rparr>)"

definition model_instances :: "js \<Rightarrow> js list" where
  "model_instances rec =
     (case array_property rec ''loaded_instances'' of
        Some xs \<Rightarrow> xs
      | None \<Rightarrow> or_else (array_property rec ''loadedInstances'') [])"

definition studio_model_id :: "js_runtime \<Rightarrow> js \<Rightarrow> string" where
  "studio_model_id rt rec = String_of rt (coalesce (first_present rec [''id'', ''model_key'', ''path'']) (JStr []))"

definition scan_model :: "js_runtime \<Rightarrow> string option \<Rightarrow> js \<Rightarrow> studio_scan \<Rightarrow> studio_scan" where
  "scan_model rt expectedModel item sc =
     (if \<not> is_object item then sc
      else
        let expected = modelMatches (studio_model_id rt item) expectedModel;
            sc = sc\<lparr>sc_sawExpected := sc_sawExpected sc \<or> expected\<rparr>
        in fold (scan_instance rt expected) (model_instances item) sc)"

definition studio_models :: "js \<Rightarrow> js list option" where
  "studio_models data =
     (case array_property data ''data'' of Some xs \<Rightarrow> Some xs | None \<Rightarrow> array_property data ''models'')"

definition parseLmStudioModels ::
  "js_runtime \<Rightarrow> js \<Rightarrow> string option \<Rightarrow> int \<Rightarrow> int option \<Rightarrow> int option \<Rightarrow> observation" where
  "parseLmStudioModels rt data expectedModel nowMs loadingRetryS unstableRetryS =
     (case studio_models data of
        None \<Rightarrow> observer_error
      | Some rawModels \<Rightarrow>
          let sc = fold (scan_model rt expectedModel) rawModels
                \<lparr>sc_sawExpected = \<not> expects expectedModel, sc_sawLoadedExpected = False, sc_sawLoading = False,
                 sc_sawUnstable = False, sc_loadedCount = 0\<rparr>;
              count = (''loaded_instance_count'', jint (int (sc_loadedCount sc)))
          in if sc_sawUnstable sc then
               ok_observation\<lparr>ob_state := BackendDraining, ob_reason := BackendUnstable,
                 ob_drainUntilMs := Some (nowMs + or_else unstableRetryS 60 * 1000), ob_diagnostics := [count]\<rparr>
             else if sc_sawLoading sc then
               ok_observation\<lparr>ob_state := BackendDraining, ob_reason := BackendLoading,
                 ob_drainUntilMs := Some (nowMs + or_else loadingRetryS 30 * 1000), ob_diagnostics := [count]\<rparr>
             else if expects expectedModel \<and> (\<not> sc_sawExpected sc \<or> \<not> sc_sawLoadedExpected sc) then
               ok_observation\<lparr>ob_state := BackendDegraded, ob_reason := BackendCold,
                 ob_diagnostics := [count, (''expected_model_loaded'', JBool False)]\<rparr>
             else ok_observation\<lparr>ob_diagnostics := [count]\<rparr>)"

section \<open>Probing\<close>

type_synonym probe = "string \<Rightarrow> (bool \<times> js option) option"

definition loading_observation :: "int \<Rightarrow> string \<Rightarrow> observation" where
  "loading_observation now key =
     ok_observation\<lparr>ob_state := BackendDraining, ob_reason := BackendLoading, ob_drainUntilMs := Some (now + 30000),
       ob_diagnostics := [(key, JBool False)]\<rparr>"

text \<open>\<open>models.some(...)\<close>; \<open>None\<close> when an entry has no properties to read.\<close>

fun some_model :: "string option \<Rightarrow> js list \<Rightarrow> bool option" where
  "some_model expectedModel [] = Some False"
| "some_model expectedModel (m # ms) =
     (if nullish m then None
      else if list_ex (\<lambda>i. modelMatches i expectedModel) (string_property ''id'' m) then Some True
      else some_model expectedModel ms)"

definition observe_meshllm :: "probe \<Rightarrow> string \<Rightarrow> string option \<Rightarrow> int \<Rightarrow> observation" where
  "observe_meshllm f rootUrl expectedModel now =
     (case f (rootUrl @ ''/readyz'') of
        None \<Rightarrow> observer_error
      | Some (False, _) \<Rightarrow> loading_observation now ''ready''
      | Some (True, _) \<Rightarrow>
          (case f (rootUrl @ ''/v1/models'') of
             None \<Rightarrow> observer_error
           | Some (False, _) \<Rightarrow> loading_observation now ''ready''
           | Some (True, None) \<Rightarrow> observer_error
           | Some (True, Some body) \<Rightarrow>
               (case array_property body ''data'' of
                  None \<Rightarrow> loading_observation now ''selected_model_ready''
                | Some models \<Rightarrow>
                    (case some_model expectedModel models of
                       None \<Rightarrow> observer_error
                     | Some present \<Rightarrow>
                         if models = [] \<or> expects expectedModel \<and> \<not> present
                         then loading_observation now ''selected_model_ready''
                         else ok_observation\<lparr>ob_diagnostics := [(''ready'', JBool True)]\<rparr>))))"

definition observe_lmstudio :: "js_runtime \<Rightarrow> probe \<Rightarrow> string \<Rightarrow> string \<Rightarrow> string option \<Rightarrow> int \<Rightarrow> observation" where
  "observe_lmstudio rt f rootUrl flavor expectedModel now =
     (if flavor \<notin> set [''lmstudio'', ''lm_studio'', ''lm_studio_server'', ''''] then ok_observation
      else case f (rootUrl @ ''/api/v1/models'') of
        None \<Rightarrow> observer_error
      | Some (True, None) \<Rightarrow> observer_error
      | Some (True, Some body) \<Rightarrow> parseLmStudioModels rt body expectedModel now None None
      | Some (False, _) \<Rightarrow> if flavor \<noteq> [] then observer_error else ok_observation)"

definition observeBackendStability ::
  "js_runtime \<Rightarrow> probe \<Rightarrow> string \<Rightarrow> js \<Rightarrow> string option \<Rightarrow> int \<Rightarrow> observation" where
  "observeBackendStability rt f backendUrl backend expectedModel now =
     (let base = strip_suffix (CHR ''/'') backendUrl in
      if base = [] then observer_error
      else
        let rootUrl = (if ends_with base ''/v1'' then take (length base - 3) base else base);
            flavor = norm rt backend
        in if flavor = ''meshllm'' then observe_meshllm f rootUrl expectedModel now
           else if flavor = ''ollama'' \<or> flavor = [] then
             (case f (rootUrl @ ''/api/ps'') of
                None \<Rightarrow> observer_error
              | Some (True, None) \<Rightarrow> observer_error
              | Some (True, Some body) \<Rightarrow> parseOllamaPs body expectedModel
              | Some (False, _) \<Rightarrow>
                  if flavor = ''ollama'' then observer_error
                  else observe_lmstudio rt f rootUrl flavor expectedModel now)
           else observe_lmstudio rt f rootUrl flavor expectedModel now)"

section \<open>Properties\<close>

text \<open>The states of the loaded instances that a listing names, flattened.\<close>

definition listed_states :: "js_runtime \<Rightarrow> js list \<Rightarrow> string list" where
  "listed_states rt models =
     map (instance_state rt) (filter is_object (concat (map model_instances (filter is_object models))))"

definition expected_loaded :: "js_runtime \<Rightarrow> string option \<Rightarrow> js list \<Rightarrow> bool" where
  "expected_loaded rt expectedModel models =
     list_ex (\<lambda>m. is_object m \<and> modelMatches (studio_model_id rt m) expectedModel \<and>
        list_ex is_object (model_instances m)) models"

lemma scan_instances:
  "fold (scan_instance rt e) insts sc =
     sc\<lparr>sc_loadedCount := sc_loadedCount sc + length (filter is_object insts),
        sc_sawLoadedExpected := sc_sawLoadedExpected sc \<or> e \<and> list_ex is_object insts,
        sc_sawLoading := sc_sawLoading sc \<or>
          list_ex (\<lambda>s. s \<in> set loading_states) (map (instance_state rt) (filter is_object insts)),
        sc_sawUnstable := sc_sawUnstable sc \<or>
          list_ex (\<lambda>s. s \<in> set unstable_states) (map (instance_state rt) (filter is_object insts))\<rparr>"
  by (cases e; induction insts arbitrary: sc) (simp_all add: scan_instance_def Let_def disj_assoc)

lemma scan_models:
  "sc_sawLoading (fold (scan_model rt e) ms sc) =
     (sc_sawLoading sc \<or> list_ex (\<lambda>s. s \<in> set loading_states) (listed_states rt ms)) \<and>
   sc_sawUnstable (fold (scan_model rt e) ms sc) =
     (sc_sawUnstable sc \<or> list_ex (\<lambda>s. s \<in> set unstable_states) (listed_states rt ms)) \<and>
   sc_sawLoadedExpected (fold (scan_model rt e) ms sc) = (sc_sawLoadedExpected sc \<or> expected_loaded rt e ms) \<and>
   (sc_sawLoadedExpected (fold (scan_model rt e) ms sc) \<longrightarrow>
      sc_sawLoadedExpected sc \<and> \<not> sc_sawExpected sc \<or> sc_sawExpected (fold (scan_model rt e) ms sc)) \<and>
   (sc_sawExpected sc \<longrightarrow> sc_sawExpected (fold (scan_model rt e) ms sc))"
proof (induction ms arbitrary: sc)
  case Nil
  then show ?case by (simp add: listed_states_def expected_loaded_def)
next
  case (Cons m ms)
  let ?sc = "scan_model rt e m sc"
  have l: "sc_sawLoading ?sc = (sc_sawLoading sc \<or> list_ex (\<lambda>s. s \<in> set loading_states) (listed_states rt [m]))"
    and u: "sc_sawUnstable ?sc = (sc_sawUnstable sc \<or> list_ex (\<lambda>s. s \<in> set unstable_states) (listed_states rt [m]))"
    and x: "sc_sawLoadedExpected ?sc = (sc_sawLoadedExpected sc \<or> expected_loaded rt e [m])"
    and s: "sc_sawExpected ?sc = (sc_sawExpected sc \<or> is_object m \<and> modelMatches (studio_model_id rt m) e)"
    by (auto simp: scan_model_def scan_instances listed_states_def expected_loaded_def Let_def)
  have app: "listed_states rt (m # ms) = listed_states rt [m] @ listed_states rt ms"
    "expected_loaded rt e (m # ms) = (expected_loaded rt e [m] \<or> expected_loaded rt e ms)"
    by (simp_all add: listed_states_def expected_loaded_def)
  have em: "expected_loaded rt e [m] \<Longrightarrow> is_object m \<and> modelMatches (studio_model_id rt m) e"
    by (simp add: expected_loaded_def)
  show ?case
    using Cons.IH [of ?sc] em unfolding fold_Cons o_apply app l u x s by auto
qed

text \<open>
  The reading of the LM Studio inventory is the intended classification: the backend is
  reported as draining exactly when some listed instance is unstable (which wins) or loading, as
  cold exactly when neither holds and no instance of the expected model is loaded, and otherwise
  as fine; and a draining backend refuses work exactly until its retry time.
\<close>

lemma lmstudio_classification:
  "(case studio_models data of
      None \<Rightarrow> parseLmStudioModels rt data e nowMs None None = observer_error
    | Some ms \<Rightarrow>
        let ob = parseLmStudioModels rt data e nowMs None None;
            unstable = list_ex (\<lambda>s. s \<in> set unstable_states) (listed_states rt ms);
            loading = list_ex (\<lambda>s. s \<in> set loading_states) (listed_states rt ms);
            cold = (expects e \<and> \<not> expected_loaded rt e ms) in
        ob_reason ob = (if unstable then BackendUnstable else if loading then BackendLoading
          else if cold then BackendCold else ReasonOk) \<and>
        isDraining t ob = (unstable \<and> t < nowMs + 60000 \<or> \<not> unstable \<and> loading \<and> t < nowMs + 30000))"
proof (cases "studio_models data")
  case None
  then show ?thesis by (simp add: parseLmStudioModels_def)
next
  case (Some ms)
  let ?s0 = "\<lparr>sc_sawExpected = \<not> expects e, sc_sawLoadedExpected = False, sc_sawLoading = False,
                 sc_sawUnstable = False, sc_loadedCount = 0\<rparr>"
  let ?sc = "fold (scan_model rt e) ms ?s0"
  have f: "sc_sawLoading ?sc = list_ex (\<lambda>s. s \<in> set loading_states) (listed_states rt ms)"
    "sc_sawUnstable ?sc = list_ex (\<lambda>s. s \<in> set unstable_states) (listed_states rt ms)"
    "sc_sawLoadedExpected ?sc = expected_loaded rt e ms"
    "expected_loaded rt e ms \<longrightarrow> sc_sawExpected ?sc"
    using scan_models [of rt e ms ?s0] by simp_all
  show ?thesis
    unfolding Some option.case
    using f by (auto simp: Some parseLmStudioModels_def ok_observation_def isDraining_def retryAfterS_def Let_def)
qed

text \<open>
  The retry hint is honest: it is given exactly while the drain lasts, is at least one
  second, and is within half a second of the remaining time otherwise.
\<close>

lemma retry_hint_bounds:
  "(case ob_drainUntilMs ob of
      None \<Rightarrow> retryAfterS nowMs ob = None
    | Some until \<Rightarrow>
        (case retryAfterS nowMs ob of
           None \<Rightarrow> until \<le> nowMs
         | Some s \<Rightarrow> nowMs < until \<and> 1 \<le> s \<and> (s = 1 \<and> until - nowMs < 1500 \<or> \<bar>s * 1000 - (until - nowMs)\<bar> \<le> 500)))"
  by (auto simp: retryAfterS_def Let_def max_def split: option.splits)

end
