(* ===== verification/EndpointSecurity.thy ===== *)
theory EndpointSecurity imports JsText begin

text \<open>
  The checks of a provider's address before anything is sent to it:
  \<open>src/endpoint_security.ts\<close>. The parser of URLs, the reading of IPv6 texts, the resolver and the
  transport are parameters; IPv4 texts are read here. An address is the number its bits spell.
\<close>

section \<open>Addresses\<close>

datatype ip = V4 nat | V6 nat

definition v4_segment :: "string \<Rightarrow> nat option" where
  \<comment> \<open>\<open>25[0-5]|2[0-4]\d|1\d\d|[1-9]\d|\d\<close>\<close>
  "v4_segment s =
     (let n = foldl (\<lambda>acc c. acc * 10 + (of_char c - 48)) 0 s in
      if s \<noteq> [] \<and> length s \<le> 3 \<and> all_digits s \<and> (length s = 1 \<or> hd s \<noteq> CHR ''0'') \<and> n \<le> 255 then Some n else None)"

definition v4_of_octets :: "nat \<Rightarrow> nat \<Rightarrow> nat \<Rightarrow> nat \<Rightarrow> nat" where
  "v4_of_octets a b c d = ((a * 256 + b) * 256 + c) * 256 + d"

definition parse_v4 :: "string \<Rightarrow> nat option" where
  "parse_v4 s =
     (case map v4_segment (split_on (CHR ''.'') s) of
        [Some a, Some b, Some c, Some d] \<Rightarrow> Some (v4_of_octets a b c d)
      | _ \<Rightarrow> None)"

text \<open>\<open>isIP\<close> with the address; \<open>v6\<close> reads IPv6 texts.\<close>

definition ip_of :: "(string \<Rightarrow> nat option) \<Rightarrow> string \<Rightarrow> ip option" where
  "ip_of v6 s = (case parse_v4 s of Some n \<Rightarrow> Some (V4 n) | None \<Rightarrow> map_option V6 (v6 s))"

section \<open>The block list\<close>

definition in_subnet :: "nat \<Rightarrow> nat \<Rightarrow> nat \<times> nat \<Rightarrow> bool" where
  \<comment> \<open>the first \<open>prefix\<close> of \<open>width\<close> bits agree\<close>
  "in_subnet width a np = (case np of (network, prefix) \<Rightarrow> a div 2 ^ (width - prefix) = network div 2 ^ (width - prefix))"

definition blocked_v4 :: "(nat \<times> nat) list" where
  "blocked_v4 =
     [(v4_of_octets 0 0 0 0, 8), (v4_of_octets 10 0 0 0, 8), (v4_of_octets 100 64 0 0, 10), (v4_of_octets 127 0 0 0, 8),
      (v4_of_octets 169 254 0 0, 16), (v4_of_octets 172 16 0 0, 12), (v4_of_octets 192 0 0 0, 24),
      (v4_of_octets 192 0 2 0, 24), (v4_of_octets 192 168 0 0, 16), (v4_of_octets 198 18 0 0, 15),
      (v4_of_octets 198 51 100 0, 24), (v4_of_octets 203 0 113 0, 24), (v4_of_octets 224 0 0 0, 4),
      (v4_of_octets 240 0 0 0, 4)]"

definition blocked_v6 :: "(nat \<times> nat) list" where
  "blocked_v6 =
     [(0, 128), (1, 128), (0x100 * 2 ^ 112, 64), (0x20010db8 * 2 ^ 96, 32), (0xfc00 * 2 ^ 112, 7),
      (0xfe80 * 2 ^ 112, 10), (0xff00 * 2 ^ 112, 8)]"

definition BLOCKED_SUFFIXES :: "string list" where
  "BLOCKED_SUFFIXES = [''.local'', ''.internal'', ''.lan'', ''.test'', ''.invalid'', ''.localhost'']"

definition privateEndpointsAllowed :: "string option \<Rightarrow> bool" where
  "privateEndpointsAllowed env = (js_lower (js_trim (or_else env [])) \<in> set [''1'', ''true'', ''yes''])"

definition hostnameAllowed :: "(string \<Rightarrow> nat option) \<Rightarrow> string \<Rightarrow> bool \<Rightarrow> bool" where
  "hostnameAllowed v6 host allowPrivate =
     (if host = [] then False
      else if allowPrivate then True
      else
        let normalized = js_lower (strip_suffix (CHR ''.'') host) in
        if normalized \<in> set [''localhost'', ''0.0.0.0'', ''::1'', ''::''] then False
        else if list_ex (ends_with normalized) BLOCKED_SUFFIXES then False
        else ip_of v6 normalized \<noteq> None \<or> contains normalized ''.'' \<or> contains normalized '':'')"

text \<open>\<open>/^::ffff:(\d+\.\d+\.\d+\.\d+)$/i\<close>: the dotted part of a mapped address.\<close>

definition dotted_mapped :: "string \<Rightarrow> string option" where
  "dotted_mapped address =
     (if starts_with (js_lower address) ''::ffff:'' \<and>
         length (split_on (CHR ''.'') (drop 7 address)) = 4 \<and>
         list_all (\<lambda>s. s \<noteq> [] \<and> all_digits s) (split_on (CHR ''.'') (drop 7 address))
      then Some (drop 7 address) else None)"

definition v4_allowed :: "nat \<Rightarrow> bool" where
  "v4_allowed n = (\<not> list_ex (in_subnet 32 n) blocked_v4)"

definition addressAllowed :: "(string \<Rightarrow> nat option) \<Rightarrow> string \<Rightarrow> bool \<Rightarrow> bool" where
  "addressAllowed v6 address allowPrivate =
     (if allowPrivate then True
      else case ip_of v6 address of
        None \<Rightarrow> False
      | Some (V4 n) \<Rightarrow> v4_allowed n
      | Some (V6 n) \<Rightarrow>
          (case dotted_mapped address of
             Some dotted \<Rightarrow> (case parse_v4 dotted of None \<Rightarrow> False | Some m \<Rightarrow> v4_allowed m)
           | None \<Rightarrow>
               if starts_with (js_lower address) ''::ffff:'' then False
               else \<not> list_ex (in_subnet 128 n) blocked_v6))"

section \<open>Endpoints\<close>

record url =
  url_protocol :: string
  url_username :: string
  url_password :: string
  url_hostname :: string
  url_port :: string
  url_origin :: string

record resolved_endpoint =
  ed_url :: url
  ed_host :: string
  ed_port :: string
  ed_addresses :: "(string \<times> nat) list"

definition strip_brackets :: "string \<Rightarrow> string" where
  \<comment> \<open>\<open>s.replace(/^\[|\]$/g, "")\<close>\<close>
  "strip_brackets s =
     strip_suffix (CHR '']'') (case s of c # cs \<Rightarrow> if c = CHR ''['' then cs else c # cs | [] \<Rightarrow> [])"

definition unique_answers :: "(string \<times> nat) list \<Rightarrow> (string \<times> nat) list" where
  "unique_answers answers = js_values (fold (\<lambda>a m. AList.update (digits (snd a) @ '':'' @ fst a) a m) answers [])"

text \<open>A refusal is the text after \<open>IICP-ENDPOINT-REFUSED: \<close>; the port is the text that is read as a number.\<close>

definition resolveEndpoint ::
  "(string \<Rightarrow> nat option) \<Rightarrow> (string \<Rightarrow> url option) \<Rightarrow> (string \<Rightarrow> (string \<times> nat) list option) \<Rightarrow> bool \<Rightarrow> string \<Rightarrow>
   string + resolved_endpoint" where
  "resolveEndpoint v6 parse_url resolver allowPrivate u =
     (case parse_url u of
        None \<Rightarrow> Inl ''invalid provider URL''
      | Some parsed \<Rightarrow>
          if url_protocol parsed \<notin> set [''http:'', ''https:''] then Inl ''provider endpoint must use HTTP or HTTPS''
          else if url_username parsed \<noteq> [] \<or> url_password parsed \<noteq> []
          then Inl ''provider endpoint must not contain user info''
          else
            let host = js_lower (strip_suffix (CHR ''.'') (strip_brackets (url_hostname parsed))) in
            if \<not> hostnameAllowed v6 host allowPrivate then Inl ''provider hostname is prohibited by network policy''
            else
              let port = (if url_port parsed \<noteq> [] then url_port parsed
                          else if url_protocol parsed = ''https:'' then ''443'' else ''80'');
                  answers = (case ip_of v6 host of
                      Some (V4 _) \<Rightarrow> Some [(host, 4)]
                    | Some (V6 _) \<Rightarrow> Some [(host, 6)]
                    | None \<Rightarrow> resolver host)
              in (case answers of
                    None \<Rightarrow> Inl ''provider hostname resolution failed''
                  | Some as \<Rightarrow>
                      let unique = unique_answers as in
                      if unique = [] then Inl ''provider hostname returned no addresses''
                      else if list_ex (\<lambda>a. \<not> addressAllowed v6 (fst a) allowPrivate) unique
                      then Inl ''provider hostname resolved to a prohibited address''
                      else Inr \<lparr>ed_url = parsed, ed_host = host, ed_port = port, ed_addresses = unique\<rparr>))"

section \<open>The pinned request\<close>

record response =
  rsp_status :: nat
  rsp_location :: "string option"
  rsp_text :: string

text \<open>
  The environment of a request: \<open>pe_resolver i\<close> answers during the \<open>i\<close>-th attempt, \<open>pe_send\<close>
  sends to one address and gives the response or the error, \<open>pe_follow\<close> is \<open>new URL(location, base)\<close>
  as text and as URL.
\<close>

record post_env =
  po_v6 :: "string \<Rightarrow> nat option"
  po_parse :: "string \<Rightarrow> url option"
  po_resolver :: "nat \<Rightarrow> string \<Rightarrow> (string \<times> nat) list option"
  po_follow :: "string \<Rightarrow> url \<Rightarrow> (string \<times> url) option"
  po_send :: "resolved_endpoint \<Rightarrow> string \<times> nat \<Rightarrow> string + response"
  po_encode :: "string option"
  po_allowPrivate :: bool

function postJsonPinned ::
  "post_env \<Rightarrow> string \<Rightarrow> nat \<Rightarrow> (string + response) \<times> (url \<times> string \<times> nat) list" where
  \<comment> \<open>the result, and the requests sent: the URL and the pinned address; \<open>po_encode\<close> is the error of
     encoding the body\<close>
  "postJsonPinned env u redirectCount =
     (case resolveEndpoint (po_v6 env) (po_parse env) (po_resolver env redirectCount) (po_allowPrivate env) u of
        Inl e \<Rightarrow> (Inl e, [])
      | Inr ed \<Rightarrow>
          (case po_encode env of
             Some e \<Rightarrow> (Inl e, [])
           | None \<Rightarrow>
               let selected = hd (ed_addresses ed); sent = (ed_url ed, selected) in
               (case po_send env ed selected of
                  Inl e \<Rightarrow> (Inl e, [sent])
                | Inr rsp \<Rightarrow>
                    if rsp_status rsp = 307 \<or> rsp_status rsp = 308 then
                      (case rsp_location rsp of
                         None \<Rightarrow> (Inl ''provider redirect limit exceeded or omitted Location'', [sent])
                       | Some location \<Rightarrow>
                           if location = [] \<or> redirectCount \<ge> 3
                           then (Inl ''provider redirect limit exceeded or omitted Location'', [sent])
                           else (case po_follow env location (ed_url ed) of
                               None \<Rightarrow> (Inl ''Invalid URL'', [sent])
                             | Some (txt, nxt) \<Rightarrow>
                                 if url_origin nxt \<noteq> url_origin (ed_url ed)
                                 then (Inl ''cross-origin provider redirect is not allowed'', [sent])
                                 else let (res, log') = postJsonPinned env txt (redirectCount + 1) in (res, sent # log')))
                    else if 300 \<le> rsp_status rsp \<and> rsp_status rsp < 400
                    then (Inl ''provider redirect method is not allowed'', [sent])
                    else (Inr rsp, [sent]))))"
  by pat_completeness auto
termination by (relation "measure (\<lambda>(env, u, n). 3 - n)") auto

declare postJsonPinned.simps [simp del]

section \<open>Properties\<close>

text \<open>The public unicast addresses in octets.\<close>

definition public_v4 :: "nat \<Rightarrow> nat \<Rightarrow> nat \<Rightarrow> bool" where
  "public_v4 a b c =
     (a \<notin> {0, 10, 127} \<and> a < 224 \<and> \<not> (a = 100 \<and> 64 \<le> b \<and> b \<le> 127) \<and> \<not> (a = 169 \<and> b = 254) \<and>
      \<not> (a = 172 \<and> 16 \<le> b \<and> b \<le> 31) \<and> \<not> (a = 192 \<and> b = 0 \<and> (c = 0 \<or> c = 2)) \<and> \<not> (a = 192 \<and> b = 168) \<and>
      \<not> (a = 198 \<and> (b = 18 \<or> b = 19)) \<and> \<not> (a = 198 \<and> b = 51 \<and> c = 100) \<and> \<not> (a = 203 \<and> b = 0 \<and> c = 113))"

lemma v4_div:
  assumes "b < 256" and "c < 256" and "d < 256"
  shows "v4_of_octets a b c d div 256 = (a * 256 + b) * 256 + c"
    "v4_of_octets a b c d div 65536 = a * 256 + b"
    "v4_of_octets a b c d div 16777216 = a"
    "v4_of_octets a b c d div 268435456 = a div 16"
    "v4_of_octets a b c d div 4194304 = (a * 256 + b) div 64"
    "v4_of_octets a b c d div 1048576 = (a * 256 + b) div 16"
    "v4_of_octets a b c d div 131072 = (a * 256 + b) div 2"
proof -
  show c8: "v4_of_octets a b c d div 256 = (a * 256 + b) * 256 + c"
    using assms by (simp add: v4_of_octets_def)
  show c16: "v4_of_octets a b c d div 65536 = a * 256 + b"
    using c8 assms div_mult2_eq [of "v4_of_octets a b c d" 256 256] by simp
  show c24: "v4_of_octets a b c d div 16777216 = a"
    using c16 assms div_mult2_eq [of "v4_of_octets a b c d" 65536 256] by simp
  show "v4_of_octets a b c d div 268435456 = a div 16"
    using c24 div_mult2_eq [of "v4_of_octets a b c d" 16777216 16] by simp
  show "v4_of_octets a b c d div 4194304 = (a * 256 + b) div 64"
    using c16 div_mult2_eq [of "v4_of_octets a b c d" 65536 64] by simp
  show "v4_of_octets a b c d div 1048576 = (a * 256 + b) div 16"
    using c16 div_mult2_eq [of "v4_of_octets a b c d" 65536 16] by simp
  show "v4_of_octets a b c d div 131072 = (a * 256 + b) div 2"
    using c16 div_mult2_eq [of "v4_of_octets a b c d" 65536 2] by simp
qed

lemma div_eq_interval: "0 < (k :: nat) \<Longrightarrow> x div k = q \<longleftrightarrow> q * k \<le> x \<and> x < q * k + k"
  by (metis add.commute div_less_iff_less_mult less_Suc_eq_le less_eq_div_iff_mult_less_eq mult_Suc not_less order_antisym order_refl)

lemma octet_interval:
  assumes "(b :: nat) < 256" and "l + k \<le> 256"
  shows "p * 256 + l \<le> a * 256 + b \<and> a * 256 + b < p * 256 + l + k \<longleftrightarrow> a = p \<and> l \<le> b \<and> b < l + k"
  using assms by (cases a p rule: linorder_cases) auto

lemma octet_eq: "(b :: nat) < 256 \<Longrightarrow> q < 256 \<Longrightarrow> a * 256 + b = p * 256 + q \<longleftrightarrow> a = p \<and> b = q"
  by (cases a p rule: linorder_cases) auto

lemma octet_eq3:
  "(b :: nat) < 256 \<Longrightarrow> c < 256 \<Longrightarrow> q < 256 \<Longrightarrow> r < 256 \<Longrightarrow>
   (a * 256 + b) * 256 + c = (p * 256 + q) * 256 + r \<longleftrightarrow> a = p \<and> b = q \<and> c = r"
  by (simp only: octet_eq conj_assoc)

lemma octet_div:
  assumes "(b :: nat) < 256" and "l + k \<le> 256" and "0 < k" and "k dvd p * 256 + l"
  shows "(a * 256 + b) div k = (p * 256 + l) div k \<longleftrightarrow> a = p \<and> l \<le> b \<and> b < l + k"
proof -
  have "(p * 256 + l) div k * k = p * 256 + l" using assms(4) by simp
  then show ?thesis
    using octet_interval [OF assms(1,2), of p a] div_eq_interval [OF assms(3), of "a * 256 + b" "(p * 256 + l) div k"]
    by (simp add: add.assoc)
qed

lemma in_subnet_v4:
  assumes "b < 256" "c < 256" "d < 256"
  shows "list_ex (in_subnet 32 (v4_of_octets a b c d)) blocked_v4 \<longleftrightarrow>
    a = 0 \<or> a = 10 \<or> (a * 256 + b) div 64 = (100 * 256 + 64) div 64 \<or> a = 127 \<or> a * 256 + b = 169 * 256 + 254 \<or>
    (a * 256 + b) div 16 = (172 * 256 + 16) div 16 \<or> (a * 256 + b) * 256 + c = (192 * 256 + 0) * 256 + 0 \<or>
    (a * 256 + b) * 256 + c = (192 * 256 + 0) * 256 + 2 \<or> a * 256 + b = 192 * 256 + 168 \<or>
    (a * 256 + b) div 2 = (198 * 256 + 18) div 2 \<or> (a * 256 + b) * 256 + c = (198 * 256 + 51) * 256 + 100 \<or>
    (a * 256 + b) * 256 + c = (203 * 256 + 0) * 256 + 113 \<or> a div 16 = 14 \<or> a div 16 = 15"
  using assms by (simp add: blocked_v4_def in_subnet_def v4_div)

text \<open>
  The block list is the list of the special ranges: an IPv4 address is allowed exactly when
  it is none of the reserved, private, shared, loopback, link-local, documentation, benchmark,
  multicast and class E addresses, written in octets.
\<close>

lemma v4_allowed_iff_public:
  assumes "a < 256" and "b < 256" and "c < 256" and "d < 256"
  shows "v4_allowed (v4_of_octets a b c d) = public_v4 a b c"
proof -
  note b = assms(2) and bc = assms(2,3)
  have e1: "(a * 256 + b) div 64 = (100 * 256 + 64) div 64 \<longleftrightarrow> a = 100 \<and> 64 \<le> b \<and> b < 64 + 64"
    "(a * 256 + b) div 16 = (172 * 256 + 16) div 16 \<longleftrightarrow> a = 172 \<and> 16 \<le> b \<and> b < 16 + 16"
    "(a * 256 + b) div 2 = (198 * 256 + 18) div 2 \<longleftrightarrow> a = 198 \<and> 18 \<le> b \<and> b < 18 + 2"
    by (rule octet_div [OF b]; simp)+
  have e2: "a * 256 + b = 169 * 256 + 254 \<longleftrightarrow> a = 169 \<and> b = 254"
    "a * 256 + b = 192 * 256 + 168 \<longleftrightarrow> a = 192 \<and> b = 168"
    by (rule octet_eq [OF b]; simp)+
  have e3: "(a * 256 + b) * 256 + c = (192 * 256 + 0) * 256 + 0 \<longleftrightarrow> a = 192 \<and> b = 0 \<and> c = 0"
    "(a * 256 + b) * 256 + c = (192 * 256 + 0) * 256 + 2 \<longleftrightarrow> a = 192 \<and> b = 0 \<and> c = 2"
    "(a * 256 + b) * 256 + c = (198 * 256 + 51) * 256 + 100 \<longleftrightarrow> a = 198 \<and> b = 51 \<and> c = 100"
    "(a * 256 + b) * 256 + c = (203 * 256 + 0) * 256 + 113 \<longleftrightarrow> a = 203 \<and> b = 0 \<and> c = 113"
    by (rule octet_eq3 [OF bc]; simp)+
  have e4: "a div 16 = 14 \<or> a div 16 = 15 \<longleftrightarrow> 224 \<le> a" using assms(1) by linarith
  have "v4_allowed (v4_of_octets a b c d) = (\<not> (a = 0 \<or> a = 10 \<or> (a = 100 \<and> 64 \<le> b \<and> b < 64 + 64) \<or> a = 127 \<or>
      (a = 169 \<and> b = 254) \<or> (a = 172 \<and> 16 \<le> b \<and> b < 16 + 16) \<or> (a = 192 \<and> b = 0 \<and> c = 0) \<or> (a = 192 \<and> b = 0 \<and> c = 2) \<or>
      (a = 192 \<and> b = 168) \<or> (a = 198 \<and> 18 \<le> b \<and> b < 18 + 2) \<or> (a = 198 \<and> b = 51 \<and> c = 100) \<or>
      (a = 203 \<and> b = 0 \<and> c = 113) \<or> 224 \<le> a))"
    unfolding v4_allowed_def in_subnet_v4 [OF assms(2-4)] e1 e2 e3 e4 by (rule refl)
  also have "\<dots> = public_v4 a b c"
  proof -
    have i: "b < 64 + 64 \<longleftrightarrow> b \<le> 127" "b < 16 + 16 \<longleftrightarrow> b \<le> 31" "18 \<le> b \<and> b < 18 + 2 \<longleftrightarrow> b = 18 \<or> b = 19"
      "224 \<le> a \<longleftrightarrow> \<not> a < 224"
      by linarith+
    show ?thesis unfolding public_v4_def i insert_iff empty_iff by blast
  qed
  finally show ?thesis .
qed

lemma v4_loopback_blocked:
  "v4_allowed (v4_of_octets 8 8 8 8) \<and> \<not> v4_allowed (v4_of_octets 172 31 0 1)"
  using v4_allowed_iff_public [of 8 8 8 8] v4_allowed_iff_public [of 172 31 0 1]
  by (simp add: public_v4_def)

lemma resolved_allowed:
  assumes "resolveEndpoint v6 parse resolver allowPrivate u = Inr ed"
  shows "parse u = Some (ed_url ed)" "ed_addresses ed \<noteq> []"
    "list_all (\<lambda>a. addressAllowed v6 (fst a) allowPrivate) (ed_addresses ed)"
proof -
  obtain p where p: "parse u = Some p" using assms by (cases "parse u") (auto simp: resolveEndpoint_def)
  show "parse u = Some (ed_url ed)" "ed_addresses ed \<noteq> []"
    "list_all (\<lambda>a. addressAllowed v6 (fst a) allowPrivate) (ed_addresses ed)"
    using assms p
    by (auto simp: resolveEndpoint_def Let_def list_all_iff list_ex_iff split: if_splits option.splits)
qed

definition urls_parse_back :: "post_env \<Rightarrow> bool" where
  "urls_parse_back env =
     (\<forall>location base txt nxt. po_follow env location base = Some (txt, nxt) \<longrightarrow> po_parse env txt = Some nxt)"

lemma pinned_post_requests:
  assumes "urls_parse_back env"
  shows "n \<le> 3 \<Longrightarrow> length (snd (postJsonPinned env u n)) \<le> 4 - n \<and>
    list_all (\<lambda>(target, address). addressAllowed (po_v6 env) (fst address) (po_allowPrivate env) \<and>
      Some (url_origin target) = map_option url_origin (po_parse env u)) (snd (postJsonPinned env u n))"
proof (induction "3 - n" arbitrary: n u rule: less_induct)
  case less
  show ?case
  proof (cases "resolveEndpoint (po_v6 env) (po_parse env) (po_resolver env n) (po_allowPrivate env) u")
    case (Inl e)
    then show ?thesis by (subst (1 2) postJsonPinned.simps) simp
  next
    case (Inr ed)
    let ?a = "hd (ed_addresses ed)"
    have parse: "po_parse env u = Some (ed_url ed)" and ok: "addressAllowed (po_v6 env) (fst ?a) (po_allowPrivate env)"
      using resolved_allowed [OF Inr] by (auto simp: list_all_iff)
    show ?thesis
    proof (cases "\<exists>rsp location t nxt. po_encode env = None \<and> po_send env ed ?a = Inr rsp \<and>
        (rsp_status rsp = 307 \<or> rsp_status rsp = 308) \<and> rsp_location rsp = Some location \<and>
        \<not> (location = [] \<or> n \<ge> 3) \<and> po_follow env location (ed_url ed) = Some (t, nxt) \<and>
        url_origin nxt = url_origin (ed_url ed)")
      case False
      then have "snd (postJsonPinned env u n) = [] \<or> snd (postJsonPinned env u n) = [(ed_url ed, ?a)]"
        unfolding postJsonPinned.simps [of env u n] Inr
        by (auto simp: Let_def split: option.splits sum.splits)
      then show ?thesis using parse ok less(2) by auto
    next
      case True
      then obtain rsp location t nxt where r: "po_encode env = None" "po_send env ed ?a = Inr rsp"
        "rsp_status rsp = 307 \<or> rsp_status rsp = 308" "rsp_location rsp = Some location"
        "\<not> (location = [] \<or> n \<ge> 3)" "po_follow env location (ed_url ed) = Some (t, nxt)"
        "url_origin nxt = url_origin (ed_url ed)"
        by blast
      have eq: "snd (postJsonPinned env u n) = (ed_url ed, ?a) # snd (postJsonPinned env t (n + 1))"
        unfolding postJsonPinned.simps [of env u n] Inr
        using r by (auto simp: Let_def case_prod_unfold)
      have "po_parse env t = Some nxt" using assms r(6) unfolding urls_parse_back_def by blast
      moreover have "length (snd (postJsonPinned env t (n + 1))) \<le> 4 - (n + 1) \<and>
          list_all (\<lambda>(target, address). addressAllowed (po_v6 env) (fst address) (po_allowPrivate env) \<and>
            Some (url_origin target) = map_option url_origin (po_parse env t)) (snd (postJsonPinned env t (n + 1)))"
        by (rule less(1)) (use r(5) in auto)
      ultimately show ?thesis using eq parse ok r(5,7) by auto
    qed
  qed
qed

text \<open>
  C25 The pinned request ends and stays where it was allowed to go: whatever the server and the
  resolver answer, at most four requests are sent, each to an address that the policy allows
  and all to the origin of the first; the only assumption is that the text of a URL parses back
  to it.
\<close>

theorem pinned_post_stays_safe:
  assumes "urls_parse_back env" and "n \<le> 3"
  shows "(let sent = snd (postJsonPinned env u n) in
    length sent \<le> 4 - n \<and>
    list_all (\<lambda>(target, address). addressAllowed (po_v6 env) (fst address) (po_allowPrivate env) \<and>
      url_origin target = url_origin (fst (hd sent))) sent)"
proof -
  have p: "length (snd (postJsonPinned env u n)) \<le> 4 - n"
    "\<forall>q\<in>set (snd (postJsonPinned env u n)).
       addressAllowed (po_v6 env) (fst (snd q)) (po_allowPrivate env) \<and>
       Some (url_origin (fst q)) = map_option url_origin (po_parse env u)"
    using pinned_post_requests [OF assms, of u] by (simp_all add: list_all_iff case_prod_unfold)
  show ?thesis
  proof (cases "snd (postJsonPinned env u n)")
    case Nil
    then show ?thesis by simp
  next
    case (Cons x xs)
    then have "Some (url_origin (fst x)) = map_option url_origin (po_parse env u)" using p(2) by simp
    then have "\<forall>q\<in>set (snd (postJsonPinned env u n)). url_origin (fst q) = url_origin (fst x)"
      using p(2) by (metis option.inject)
    then show ?thesis using p Cons by (simp add: Let_def list_all_iff case_prod_unfold)
  qed
qed

definition sample_url :: "string \<Rightarrow> url" where
  "sample_url h = \<lparr>url_protocol = ''https:'', url_username = [], url_password = [], url_hostname = h,
     url_port = [], url_origin = ''https://'' @ h\<rparr>"

text \<open>A server that always redirects to itself, at a public address.\<close>

definition redirecting_env :: post_env where
  "redirecting_env = \<lparr>po_v6 = \<lambda>_. None, po_parse = \<lambda>_. Some (sample_url ''h.example''),
     po_resolver = \<lambda>_ _. Some [(''8.8.8.8'', 4)], po_follow = \<lambda>_ _. Some (''https://h.example'', sample_url ''h.example''),
     po_send = \<lambda>_ _. Inr \<lparr>rsp_status = 307, rsp_location = Some ''/'', rsp_text = []\<rparr>, po_encode = None,
     po_allowPrivate = False\<rparr>"

theorem pinned_post_stays_safe_witness:
  "length (snd (postJsonPinned redirecting_env ''https://h.example'' 0)) = 4 \<and>
   length (snd (postJsonPinned redirecting_env ''https://h.example'' 0)) \<le> 4 - 0"
proof -
  have "urls_parse_back redirecting_env" by (auto simp: urls_parse_back_def redirecting_env_def)
  from pinned_post_stays_safe [OF this, of 0 "''https://h.example''"]
  have "length (snd (postJsonPinned redirecting_env ''https://h.example'' 0)) \<le> 4 - 0" by (simp add: Let_def)
  moreover have "length (snd (postJsonPinned redirecting_env ''https://h.example'' 0)) = 4"
  proof -
    have v4: "parse_v4 ''8.8.8.8'' = Some (v4_of_octets 8 8 8 8)" "parse_v4 ''h.example'' = None"
      by (simp_all add: parse_v4_def v4_segment_def all_digits_def)
    have pub: "v4_allowed (v4_of_octets 8 8 8 8)"
      by (simp add: v4_allowed_def blocked_v4_def in_subnet_def v4_of_octets_def)
    have host: "hostnameAllowed (\<lambda>_. None) ''h.example'' False"
      "js_lower (strip_suffix (CHR ''.'') (strip_brackets ''h.example'')) = ''h.example''"
      by (simp_all add: hostnameAllowed_def js_lower_def js_lower_char_def strip_suffix_def strip_brackets_def
          BLOCKED_SUFFIXES_def ends_with_def starts_with_def Let_def)
    have r: "resolveEndpoint (\<lambda>_. None) (\<lambda>_. Some (sample_url ''h.example'')) (\<lambda>_. Some [(''8.8.8.8'', 4)]) False u =
        Inr \<lparr>ed_url = sample_url ''h.example'', ed_host = ''h.example'', ed_port = ''443'', ed_addresses = [(''8.8.8.8'', 4)]\<rparr>" for u
      by (simp add: resolveEndpoint_def sample_url_def host ip_of_def v4 pub unique_answers_def addressAllowed_def Let_def)
    have step: "snd (postJsonPinned redirecting_env u n) =
        (sample_url ''h.example'', ''8.8.8.8'', 4) #
        (if 3 \<le> n then [] else snd (postJsonPinned redirecting_env ''https://h.example'' (Suc n)))" for u n
      by (subst postJsonPinned.simps) (simp add: redirecting_env_def r case_prod_unfold Let_def)
    show ?thesis
      unfolding step [of _ 0] step [of _ "Suc 0"] step [of _ "Suc (Suc 0)"] step [of _ "Suc (Suc (Suc 0))"] by simp
  qed
  ultimately show ?thesis by blast
qed

end
