(* ===== verification/HttpResource.thy ===== *)
theory HttpResource imports JsText begin

text \<open>
  The resource limits of the HTTP binding: \<open>src/http_resource.ts\<close>, and the receipt of a body in
  pieces as \<open>src/node.ts\<close> (requests) and \<open>src/endpoint_security.ts\<close> (responses) do it.
  \<open>JSON.stringify\<close> is a parameter that gives the bytes of a value, or \<open>None\<close> when it throws.
\<close>

definition MAX_HTTP_TASK_BODY_BYTES :: nat where "MAX_HTTP_TASK_BODY_BYTES = 1048576"

record resource_error =
  he_code :: string
  he_status :: nat
  he_message :: string
  he_closeConnection :: bool

definition resource_err :: "string \<Rightarrow> nat \<Rightarrow> string \<Rightarrow> bool \<Rightarrow> resource_error" where
  "resource_err code status message close =
     \<lparr>he_code = code, he_status = status, he_message = message, he_closeConnection = close\<rparr>"

definition too_large_text :: "string \<Rightarrow> string" where
  "too_large_text what = ''encoded task '' @ what @ '' exceeds '' @ digits MAX_HTTP_TASK_BODY_BYTES @ '' bytes''"

definition request_too_large :: "bool \<Rightarrow> resource_error" where
  "request_too_large close = resource_err ''request_too_large'' 413 (too_large_text ''request'') close"

definition response_too_large :: resource_error where
  "response_too_large = resource_err ''response_too_large'' 500 (too_large_text ''response'') True"

definition encodeTaskRequest :: "(js \<Rightarrow> byte list option) \<Rightarrow> js \<Rightarrow> resource_error option + byte list" where
  \<comment> \<open>\<open>Inl None\<close>: the value does not serialize\<close>
  "encodeTaskRequest stringify v =
     (case stringify v of
        None \<Rightarrow> Inl None
      | Some encoded \<Rightarrow>
          if length encoded > MAX_HTTP_TASK_BODY_BYTES then Inl (Some (request_too_large False)) else Inr encoded)"

datatype encoded_response = EncodedBody "byte list" | EncodedTooLarge

definition encodeTaskResponse :: "(js \<Rightarrow> byte list option) \<Rightarrow> js \<Rightarrow> encoded_response option" where
  "encodeTaskResponse stringify v =
     (case stringify v of
        None \<Rightarrow> None
      | Some body \<Rightarrow> Some (if length body \<le> MAX_HTTP_TASK_BODY_BYTES then EncodedBody body else EncodedTooLarge))"

definition encoded_status :: "encoded_response \<Rightarrow> nat" where
  "encoded_status e = (case e of EncodedBody _ \<Rightarrow> 200 | EncodedTooLarge \<Rightarrow> 500)"

section \<open>Headers\<close>

text \<open>A header is missing, one text, or the list of its occurrences.\<close>

definition splitHeaderValues :: "string list option \<Rightarrow> string list" where
  "splitHeaderValues v =
     (case v of None \<Rightarrow> [] | Some items \<Rightarrow> map js_trim (concat (map (split_on (CHR '','')) items)))"

definition decimal :: "string \<Rightarrow> nat" where
  "decimal s = foldl (\<lambda>acc c. acc * 10 + (of_char c - 48)) 0 s"

text \<open>
  \<open>Number\<close> of a text of digits is exact up to the safe integers; any text that exceeds them is
  refused, whatever it rounds to.
\<close>

definition parseContentLength :: "string list option \<Rightarrow> resource_error + nat option" where
  "parseContentLength v =
     (let values = splitHeaderValues v in
      if values = [] then Inr None
      else if list_ex (\<lambda>item. item = [] \<or> \<not> all_digits item) values
      then Inl (resource_err ''invalid_http_body'' 400 ''invalid Content-Length'' True)
      else
        let parsed = map decimal values in
        if list_ex (\<lambda>n. n \<noteq> hd parsed) parsed \<or> list_ex (\<lambda>n. int n > MAX_SAFE_INTEGER) parsed
        then Inl (resource_err ''invalid_http_body'' 400 ''conflicting Content-Length'' True)
        else Inr (Some (hd parsed)))"

definition validateIdentityEncoding :: "string list option \<Rightarrow> resource_error option" where
  "validateIdentityEncoding v =
     (if list_ex (\<lambda>item. js_lower item \<noteq> ''identity'') (splitHeaderValues v)
      then Some (resource_err ''unsupported_content_encoding'' 415 ''supported HTTP task binding accepts identity encoding only'' True) else None)"

record headers =
  hd_content_encoding :: "string list option"
  hd_content_length :: "string list option"
  hd_transfer_encoding :: "string option"

definition validateTaskRequestHeaders :: "headers \<Rightarrow> resource_error + nat option" where
  "validateTaskRequestHeaders h =
     (case validateIdentityEncoding (hd_content_encoding h) of
        Some e \<Rightarrow> Inl e
      | None \<Rightarrow>
          (case parseContentLength (hd_content_length h) of
             Inl e \<Rightarrow> Inl e
           | Inr contentLength \<Rightarrow>
               if hd_transfer_encoding h \<noteq> None \<and> contentLength \<noteq> None
               then Inl (resource_err ''invalid_http_body'' 400 ''Content-Length and Transfer-Encoding cannot be combined'' True)
               else (case contentLength of
                   Some n \<Rightarrow> if n > MAX_HTTP_TASK_BODY_BYTES then Inl (request_too_large True) else Inr (Some n)
                 | None \<Rightarrow> Inr None)))"

definition validateTaskResponseHeaders :: "headers \<Rightarrow> resource_error option" where
  "validateTaskResponseHeaders h =
     (case validateIdentityEncoding (hd_content_encoding h) of
        Some e \<Rightarrow> Some e
      | None \<Rightarrow>
          (case parseContentLength (hd_content_length h) of
             Inl e \<Rightarrow> Some e
           | Inr (Some n) \<Rightarrow> if n > MAX_HTTP_TASK_BODY_BYTES then Some response_too_large else None
           | Inr None \<Rightarrow> None))"

section \<open>Bodies in pieces\<close>

text \<open>
  The receipt of a body: \<open>too_large\<close> is reported once, later pieces are dropped, and the end
  delivers the body unless it was too large.
\<close>

record body_receipt =
  br_chunks :: "byte list list"
  br_received :: nat
  br_rejected :: bool

definition new_receipt :: body_receipt where
  "new_receipt = \<lparr>br_chunks = [], br_received = 0, br_rejected = False\<rparr>"

definition receive_request_chunk :: "byte list \<Rightarrow> body_receipt \<Rightarrow> bool \<times> body_receipt" where
  \<comment> \<open>whether the 413 answer is written now\<close>
  "receive_request_chunk chunk br =
     (let received = br_received br + length chunk; br = br\<lparr>br_received := received\<rparr> in
      if received > MAX_HTTP_TASK_BODY_BYTES then (\<not> br_rejected br, br\<lparr>br_rejected := True\<rparr>)
      else (False, br\<lparr>br_chunks := br_chunks br @ [chunk]\<rparr>))"

definition receive_response_chunk :: "byte list \<Rightarrow> body_receipt \<Rightarrow> bool \<times> body_receipt" where
  \<comment> \<open>whether the promise is rejected now; \<open>br_rejected\<close> is \<open>settled\<close>\<close>
  "receive_response_chunk chunk br =
     (if br_rejected br then (False, br)
      else
        let total = br_received br + length chunk; br = br\<lparr>br_received := total\<rparr> in
        if total > MAX_HTTP_TASK_BODY_BYTES then (True, br\<lparr>br_rejected := True\<rparr>)
        else (False, br\<lparr>br_chunks := br_chunks br @ [chunk]\<rparr>))"

definition receipt_body :: "body_receipt \<Rightarrow> byte list option" where
  "receipt_body br = (if br_rejected br then None else Some (concat (br_chunks br)))"

fun receive_all :: "(byte list \<Rightarrow> body_receipt \<Rightarrow> bool \<times> body_receipt) \<Rightarrow> byte list list \<Rightarrow> body_receipt \<Rightarrow>
  nat \<times> body_receipt" where
  "receive_all recv [] br = (0, br)"
| "receive_all recv (c # cs) br =
     (let (rep, br) = recv c br; (n, br) = receive_all recv cs br in ((if rep then 1 else 0) + n, br))"

lemma receive_request_all:
  "br_received br = length (concat (br_chunks br)) \<or> br_rejected br \<Longrightarrow>
   (br_rejected br \<longleftrightarrow> br_received br > MAX_HTTP_TASK_BODY_BYTES) \<Longrightarrow>
   receive_all receive_request_chunk cs br = (n, br') \<Longrightarrow>
   (br_rejected br' \<longleftrightarrow> br_received br + length (concat cs) > MAX_HTTP_TASK_BODY_BYTES) \<and>
   (\<not> br_rejected br' \<longrightarrow> br_chunks br' = br_chunks br @ cs) \<and>
   n = (if br_rejected br' \<and> \<not> br_rejected br then 1 else 0)"
proof (induction cs arbitrary: br n)
  case Nil
  then show ?case by auto
next
  case (Cons c cs)
  obtain rep br1 where r: "receive_request_chunk c br = (rep, br1)" by (cases "receive_request_chunk c br")
  obtain m where a: "receive_all receive_request_chunk cs br1 = (m, br')" and n: "n = (if rep then 1 else 0) + m"
    using Cons.prems(3) r by (auto split: prod.splits)
  show ?case
  proof (cases "br_received br + length c > MAX_HTTP_TASK_BODY_BYTES")
    case True
    then have "br1 = br\<lparr>br_received := br_received br + length c, br_rejected := True\<rparr>" "rep = (\<not> br_rejected br)"
      using r by (auto simp: receive_request_chunk_def Let_def)
    then show ?thesis
      using Cons.IH [of br1 m] a n True by auto
  next
    case False
    then have "br1 = br\<lparr>br_received := br_received br + length c, br_chunks := br_chunks br @ [c]\<rparr>" "\<not> rep"
      "\<not> br_rejected br"
      using r Cons.prems(2) by (auto simp: receive_request_chunk_def Let_def)
    then show ?thesis
      using Cons.IH [of br1 m] Cons.prems a n False by auto
  qed
qed

lemma receive_response_all:
  "\<not> br_rejected br \<longrightarrow> br_received br = length (concat (br_chunks br)) \<Longrightarrow>
   \<not> br_rejected br \<longrightarrow> br_received br \<le> MAX_HTTP_TASK_BODY_BYTES \<Longrightarrow>
   receive_all receive_response_chunk cs br = (n, br') \<Longrightarrow>
   (br_rejected br' \<longleftrightarrow> br_rejected br \<or> br_received br + length (concat cs) > MAX_HTTP_TASK_BODY_BYTES) \<and>
   (\<not> br_rejected br' \<longrightarrow> br_chunks br' = br_chunks br @ cs) \<and>
   n = (if br_rejected br' \<and> \<not> br_rejected br then 1 else 0)"
proof (induction cs arbitrary: br n)
  case Nil
  then show ?case by auto
next
  case (Cons c cs)
  obtain rep br1 where r: "receive_response_chunk c br = (rep, br1)" by (cases "receive_response_chunk c br")
  obtain m where a: "receive_all receive_response_chunk cs br1 = (m, br')" and n: "n = (if rep then 1 else 0) + m"
    using Cons.prems(3) r by (auto split: prod.splits)
  consider (rej) "br_rejected br" | (over) "\<not> br_rejected br" "br_received br + length c > MAX_HTTP_TASK_BODY_BYTES"
    | (fits) "\<not> br_rejected br" "\<not> br_received br + length c > MAX_HTTP_TASK_BODY_BYTES" by blast
  then show ?case
  proof cases
    case rej
    then have "br1 = br" "\<not> rep" using r by (simp_all add: receive_response_chunk_def)
    then show ?thesis using Cons.IH [of br m] a n rej by simp
  next
    case over
    then have "br1 = br\<lparr>br_received := br_received br + length c, br_rejected := True\<rparr>" "rep"
      using r by (simp_all add: receive_response_chunk_def Let_def)
    then show ?thesis using Cons.IH [of br1 m] a n over by simp
  next
    case fits
    then have "br1 = br\<lparr>br_received := br_received br + length c, br_chunks := br_chunks br @ [c]\<rparr>" "\<not> rep"
      using r by (simp_all add: receive_response_chunk_def Let_def)
    then show ?thesis using Cons.IH [of br1 m] Cons.prems a n fits by (auto simp: add.assoc)
  qed
qed

section \<open>Properties\<close>

text \<open>
  A body of any size in any pieces is delivered exactly when it fits the limit, and whole;
  otherwise it is refused, once: for the requests a node takes and the responses a client
  reads alike.
\<close>

lemma body_limit_exact:
  "(case receive_all receive_request_chunk cs new_receipt of (n, br) \<Rightarrow>
      receipt_body br = (if length (concat cs) \<le> MAX_HTTP_TASK_BODY_BYTES then Some (concat cs) else None) \<and>
      n = (if length (concat cs) \<le> MAX_HTTP_TASK_BODY_BYTES then 0 else 1)) \<and>
   (case receive_all receive_response_chunk cs new_receipt of (n, br) \<Rightarrow>
      receipt_body br = (if length (concat cs) \<le> MAX_HTTP_TASK_BODY_BYTES then Some (concat cs) else None) \<and>
      n = (if length (concat cs) \<le> MAX_HTTP_TASK_BODY_BYTES then 0 else 1))"
proof -
  have init [simp]: "br_received new_receipt = 0" "br_chunks new_receipt = []" "\<not> br_rejected new_receipt"
    "\<not> MAX_HTTP_TASK_BODY_BYTES < 0"
    by (simp_all add: new_receipt_def)
  obtain n br where q: "receive_all receive_request_chunk cs new_receipt = (n, br)"
    by (cases "receive_all receive_request_chunk cs new_receipt")
  obtain m br2 where s: "receive_all receive_response_chunk cs new_receipt = (m, br2)"
    by (cases "receive_all receive_response_chunk cs new_receipt")
  have "(br_rejected br \<longleftrightarrow> length (concat cs) > MAX_HTTP_TASK_BODY_BYTES) \<and>
      (\<not> br_rejected br \<longrightarrow> br_chunks br = cs) \<and> n = (if br_rejected br then 1 else 0)"
    using receive_request_all [OF _ _ q] by simp
  moreover have "(br_rejected br2 \<longleftrightarrow> length (concat cs) > MAX_HTTP_TASK_BODY_BYTES) \<and>
      (\<not> br_rejected br2 \<longrightarrow> br_chunks br2 = cs) \<and> m = (if br_rejected br2 then 1 else 0)"
    using receive_response_all [OF _ _ s] by simp
  ultimately show ?thesis
    unfolding q s by (auto simp: receipt_body_def simp del: length_concat)
qed

end
