(* ===== verification/TaskPipeline.thy ===== *)
theory TaskPipeline imports HttpResource BackendStability Gate Availability RateLimit begin

text \<open>
  \<open>POST /v1/task\<close> of a provider node, \<open>src/node.ts\<close>: the handler from the request's headers to
  the response, with every refusal. The steps are those of the event loop: the headers, the
  complete body, the admission checks (which wait), the start of the task and its end. The
  cryptography of encrypted payloads, \<open>JSON.stringify\<close> and the operator's handler are
  parameters. Nonces and task ids are texts, as their declared types say; other values are
  treated as missing.
\<close>

section \<open>Nonces\<close>

definition NONCE_TTL_MS :: int where "NONCE_TTL_MS = 300000"

definition checkNonce :: "string expiry_map \<Rightarrow> int \<Rightarrow> string option \<Rightarrow> bool \<times> string expiry_map" where
  "checkNonce nonces now nonce =
     (case nonce of
        None \<Rightarrow> (True, nonces)
      | Some n \<Rightarrow>
          if n = [] then (True, nonces)
          else
            let nonces = js_evict (\<lambda>e. e < now) nonces in
            if js_has nonces n then (False, nonces) else (True, AList.update n (now + NONCE_TTL_MS) nonces))"

definition nonce_held :: "string expiry_map \<Rightarrow> int \<Rightarrow> string \<Rightarrow> bool" where
  "nonce_held m t k = (case map_of m k of None \<Rightarrow> False | Some e \<Rightarrow> t \<le> e)"

lemma nonce_evict:
  "seen_inv m \<Longrightarrow> js_has (js_evict (\<lambda>e. e < now) m) k \<longleftrightarrow> nonce_held m now k"
  "seen_inv m \<Longrightarrow> now \<le> t \<Longrightarrow> nonce_held (js_evict (\<lambda>e. e < now) m) t k \<longleftrightarrow> nonce_held m t k"
  "seen_inv m \<Longrightarrow> seen_inv (js_evict (\<lambda>e. e < now) m)"
  by (auto simp: seen_inv_def js_has_def nonce_held_def map_of_js_evict split: option.splits)

lemma nonce_held_set: "nonce_held (AList.update k e m) t k' \<longleftrightarrow> (if k' = k then t \<le> e else nonce_held m t k')"
  by (simp add: nonce_held_def)

lemma nonce_held_mono: "nonce_held m t k \<Longrightarrow> now \<le> t \<Longrightarrow> nonce_held m now k"
  by (auto simp: nonce_held_def split: option.splits)

interpretation nonce_guard: ttl_guard checkNonce nonce_held the "\<lambda>now r. now + NONCE_TTL_MS + 1"
  "\<lambda>r. r \<noteq> None \<and> r \<noteq> Some []" seen_inv
  by unfold_locales
     (auto simp: checkNonce_def Let_def nonce_evict nonce_held_set split: option.splits if_splits dest: nonce_held_mono)

section \<open>The node\<close>

record task_node =
  tn_active :: int
  tn_nonces :: "string expiry_map"
  tn_idempotency :: idempotency_guard
  tn_rateBuckets :: bucket_map
  tn_successPending :: nat
  tn_failedPending :: nat
  tn_latencyPending :: int

record task_config =
  tc_intent :: string
  tc_enableIdempotency :: bool
  tc_rateLimit :: nat
  tc_rateWindowMs :: int
  tc_cipPolicy :: cip_policy
  tc_hasCxKey :: bool

text \<open>
  What a handler does to the connection: an answer, nothing, or an exception in a callback that
  no one catches, which ends the process.
\<close>

datatype task_reply = TaskReply nat js | TaskCrashed

definition task_error :: "string \<Rightarrow> string \<Rightarrow> js" where
  "task_error code message = JObj [(''error'', JObj [(''code'', JStr code), (''message'', JStr message)])]"

section \<open>The request\<close>

definition task_headers ::
  "task_config \<Rightarrow> headers \<Rightarrow> string option \<Rightarrow> int \<Rightarrow> task_node \<Rightarrow> task_reply option \<times> task_node" where
  \<comment> \<open>\<open>None\<close>: the body is read\<close>
  "task_headers cfg h origin now tn =
     (case validateTaskRequestHeaders h of
        Inl e \<Rightarrow> (Some (TaskReply (he_status e) (task_error (he_code e) (he_message e))), tn)
      | Inr _ \<Rightarrow>
          if tc_rateLimit cfg > 0 \<and> origin \<noteq> None \<and> origin \<noteq> Some [] then
            let (allowed, buckets) = taskRateAllow (tc_rateWindowMs cfg) (int (tc_rateLimit cfg)) (tn_rateBuckets tn) now
                  (the origin);
                tn = tn\<lparr>tn_rateBuckets := buckets\<rparr>
            in (if allowed then None
                else Some (TaskReply 429 (task_error ''IICP-E023'' ''per-origin task rate limit exceeded'')), tn)
          else (None, tn))"

record task_request =
  tq_task :: js
  tq_intent :: string
  tq_qos :: js
  tq_taskId :: js

definition read_request :: "task_config \<Rightarrow> js \<Rightarrow> task_request option" where
  \<comment> \<open>\<open>None\<close>: reading a property of \<open>null\<close>, or splitting an intent that is no text, throws\<close>
  "read_request cfg task =
     (if nullish task then None
      else case coalesce (own_property task ''intent'') (JStr (tc_intent cfg)) of
        JStr intent \<Rightarrow>
          Some \<lparr>tq_task = task, tq_intent = intent,
            tq_qos = coalesce (own_property (own_property task ''constraints'') ''qos_class'') (JStr ''best_effort''),
            tq_taskId = coalesce (own_property task ''task_id'') (JStr [])\<rparr>
      | _ \<Rightarrow> None)"

definition draining_reply :: "int \<Rightarrow> observation \<Rightarrow> task_reply option" where
  "draining_reply now stability =
     (case retryAfterS now stability of
        None \<Rightarrow> None
      | Some retry \<Rightarrow>
          if isDraining now stability
          then Some (TaskReply 503 (JObj [(''error'', JObj [(''code'', JStr ''IICP-E024''),
                 (''message'', JStr ''backend temporarily draining''), (''reason'', JStr (reason_name (ob_reason stability))),
                 (''retry_after_ms'', jint (retry * 1000))])]))
          else None)"

definition task_body :: "task_config \<Rightarrow> observation \<Rightarrow> int \<Rightarrow> js option \<Rightarrow> task_reply + task_request" where
  "task_body cfg stability now body =
     (case body of
        None \<Rightarrow> Inl (TaskReply 400 (task_error ''invalid_http_body'' ''invalid JSON''))
      | Some task \<Rightarrow>
          (case read_request cfg task of
             None \<Rightarrow> Inl TaskCrashed
           | Some tq \<Rightarrow>
               if \<not> permitsIntent (tc_cipPolicy cfg) (tq_intent tq)
               then Inl (TaskReply 403 (task_error ''tool_execution_denied''
                      (''Tool-execution intents are not permitted by this node'' @ [CHR 0x27] @ ''s CIP policy'')))
               else (case draining_reply now stability of Some r \<Rightarrow> Inl r | None \<Rightarrow> Inr tq)))"

section \<open>Admission\<close>

text \<open>
  \<open>_admit\<close>: the first check, and the check after each pause; \<open>None\<close> waits on. The capacity is
  read anew at each check.
\<close>

definition queue_eligible :: "js \<Rightarrow> bool" where
  "queue_eligible qos = (case qos of JStr q \<Rightarrow> isQueueEligible (Some q) | _ \<Rightarrow> False)"

definition admit_first :: "task_node \<Rightarrow> int \<Rightarrow> js \<Rightarrow> int \<Rightarrow> bool option \<times> int" where
  "admit_first tn cap qos now =
     (if tn_active tn < cap then (Some True, now)
      else if \<not> queue_eligible qos then (Some False, now)
      else (None, now + QUEUE_WAIT_MS))"

definition admit_again :: "task_node \<Rightarrow> int \<Rightarrow> int \<Rightarrow> int \<Rightarrow> bool option" where
  "admit_again tn cap deadline now =
     (if tn_active tn < cap then Some True else if now < deadline then None else Some False)"

definition capacity_reply :: "js \<Rightarrow> task_reply" where
  "capacity_reply qos =
     TaskReply 429 (JObj [(''error'', JObj [(''code'', JStr ''IICP-E021''), (''message'', JStr ''capacity_exceeded''),
       (''qos_class'', qos), (''retry_after_ms'', jint 2000)])])"

section \<open>The start\<close>

definition typed_text :: "js \<Rightarrow> string option" where
  "typed_text v = (case v of JStr s \<Rightarrow> Some s | _ \<Rightarrow> None)"

text \<open>\<open>decrypt\<close> opens the confidential envelope: the payload and the shared secret, or the error.\<close>

record cx_env =
  cx_decrypt :: "js \<Rightarrow> string + js \<times> string"
  cx_encrypt :: "js \<Rightarrow> string \<Rightarrow> js \<Rightarrow> js option"
  cx_stringify :: "js \<Rightarrow> byte list option"

definition encrypted_request :: "js \<Rightarrow> bool" where
  "encrypted_request task = (is_object (own_property task ''iicp_conf'') \<and> own_property task ''payload'' = JUndef)"

definition wants_encryption :: "js \<Rightarrow> bool" where
  "wants_encryption task = (own_property task ''cx_response_encryption'' = JStr ''required'')"

definition open_task :: "task_config \<Rightarrow> cx_env \<Rightarrow> js \<Rightarrow> task_reply + js \<times> string option" where
  \<comment> \<open>the task as the handler sees it, and the secret for the response\<close>
  "open_task cfg cx task =
     (if encrypted_request task then
        (if \<not> tc_hasCxKey cfg then Inl (TaskReply 400 (task_error ''IICP-CX-01'' ''node has no CX private key''))
         else (case cx_decrypt cx (own_property task ''iicp_conf'') of
             Inl msg \<Rightarrow> Inl (TaskReply 400 (task_error ''IICP-CX-02'' (''iicp_conf decrypt failed: '' @ msg)))
           | Inr (payload, secret) \<Rightarrow>
               Inr (case task of
                   JObj kvs \<Rightarrow> JObj (AList.update ''_cx_encrypted'' (JBool True) (AList.update ''payload'' payload kvs))
                 | _ \<Rightarrow> task, Some secret)))
      else if wants_encryption task
      then Inl (TaskReply 400 (task_error ''IICP-CX-03'' ''encrypted response requested without an encrypted request''))
      else Inr (task, None))"

definition trace_task :: "string option \<Rightarrow> js \<Rightarrow> js option" where
  \<comment> \<open>\<open>None\<close>: a property cannot be added to a number, a text or a truth value\<close>
  "trace_task traceparent task =
     (case traceparent of
        None \<Rightarrow> Some task
      | Some tp \<Rightarrow>
          if tp = [] then Some task
          else (case task of
              JObj kvs \<Rightarrow> Some (JObj (AList.update ''_trace'' (JObj [(''traceparent'', JStr tp)]) kvs))
            | _ \<Rightarrow> if is_object task then Some task else None))"

record running_task =
  rt_task :: js
  rt_taskId :: js
  rt_secret :: "string option"
  rt_t0 :: int

definition task_start ::
  "task_config \<Rightarrow> cx_env \<Rightarrow> string option \<Rightarrow> task_request \<Rightarrow> int \<Rightarrow> task_node \<Rightarrow>
   (task_reply + running_task) \<times> task_node" where
  "task_start cfg cx traceparent tq now tn =
     (let task = tq_task tq;
          tn = tn\<lparr>tn_active := tn_active tn + 1\<rparr>;
          refuse = (\<lambda>r tn. (Inl r, tn\<lparr>tn_active := tn_active tn - 1\<rparr>));
          (fresh, nonces) = checkNonce (tn_nonces tn) now (typed_text (own_property task ''nonce''));
          tn = tn\<lparr>tn_nonces := nonces\<rparr>
      in if \<not> fresh then refuse (TaskReply 409 (task_error ''IICP-E011'' ''replay_detected'')) tn
         else
           let (new, guard) = (if tc_enableIdempotency cfg
                 then checkAndRegister (tn_idempotency tn) now (typed_text (own_property task ''task_id''))
                 else (True, tn_idempotency tn));
               tn = tn\<lparr>tn_idempotency := guard\<rparr>
           in if \<not> new then refuse (TaskReply 409 (task_error ''IICP-E010'' ''duplicate_task'')) tn
              else (case open_task cfg cx task of
                  Inl r \<Rightarrow> refuse r tn
                | Inr (opened, secret) \<Rightarrow>
                    (case trace_task traceparent opened of
                       None \<Rightarrow> (Inl TaskCrashed, tn)
                     | Some traced \<Rightarrow>
                         (Inr \<lparr>rt_task = traced, rt_taskId = tq_taskId tq, rt_secret = secret, rt_t0 = now\<rparr>, tn))))"

section \<open>The end\<close>

text \<open>
  The handler's promise: a result or a rejection. A rejection of the first call makes the code
  call the handler again, with the same task.
\<close>

definition handler_result :: "js option \<Rightarrow> js option \<Rightarrow> nat \<times> js option" where
  \<comment> \<open>how often the handler ran, and what the last run gave\<close>
  "handler_result first second = (case first of Some r \<Rightarrow> (1, Some r) | None \<Rightarrow> (2, second))"

definition add_latency :: "int \<Rightarrow> task_node \<Rightarrow> task_node" where
  "add_latency latencyMs tn =
     (if latencyMs > 0 then tn\<lparr>tn_latencyPending := tn_latencyPending tn + latencyMs\<rparr> else tn)"

definition task_failed :: "running_task \<Rightarrow> int \<Rightarrow> task_node \<Rightarrow> task_reply \<times> task_node" where
  \<comment> \<open>the final \<open>catch\<close>\<close>
  "task_failed rt now tn =
     (let tn = tn\<lparr>tn_active := tn_active tn - 1, tn_failedPending := tn_failedPending tn + 1\<rparr>;
          tn = add_latency (now - rt_t0 rt) tn
      in (TaskReply 500 (JObj [(''task_id'', rt_taskId rt), (''status'', JStr ''error''),
            (''error'', JObj [(''code'', JStr ''backend_error''), (''message'', JStr ''task execution failed'')])]), tn))"

definition completed_response :: "running_task \<Rightarrow> js \<Rightarrow> js" where
  "completed_response rt result =
     JObj (AList.update ''generated_by_ai'' (JBool True)
       (spread [(''task_id'', rt_taskId rt), (''status'', JStr ''completed'')] result))"

definition final_response :: "cx_env \<Rightarrow> running_task \<Rightarrow> js \<Rightarrow> js option" where
  \<comment> \<open>\<open>None\<close>: the encryption throws\<close>
  "final_response cx rt result =
     (let response = completed_response rt result in
      case rt_secret rt of
        Some secret \<Rightarrow>
          if wants_encryption (rt_task rt) then
            (case cx_encrypt cx response secret (rt_taskId rt) of
               None \<Rightarrow> None
             | Some sealed \<Rightarrow> Some (JObj [(''task_id'', rt_taskId rt), (''status'', JStr ''encrypted''), (''iicp_conf_resp'', sealed)]))
          else Some response
      | None \<Rightarrow> Some response)"

definition task_end ::
  "cx_env \<Rightarrow> running_task \<Rightarrow> js option \<Rightarrow> int \<Rightarrow> task_node \<Rightarrow> task_reply \<times> task_node" where
  \<comment> \<open>what throws after the first decrement ends in the \<open>catch\<close>, which decrements again\<close>
  "task_end cx rt outcome now tn =
     (case outcome of
        None \<Rightarrow> task_failed rt now tn
      | Some result \<Rightarrow>
          let tn = tn\<lparr>tn_active := tn_active tn - 1\<rparr> in
          (case final_response cx rt result of
             None \<Rightarrow> task_failed rt now tn
           | Some response \<Rightarrow>
               (case encodeTaskResponse (cx_stringify cx) response of
                  None \<Rightarrow> task_failed rt now tn
                | Some EncodedTooLarge \<Rightarrow>
                    (TaskReply 500 (task_error ''response_too_large'' (too_large_text ''response'')),
                     add_latency (now - rt_t0 rt) (tn\<lparr>tn_failedPending := tn_failedPending tn + 1\<rparr>))
                | Some (EncodedBody _) \<Rightarrow>
                    if nullish result then task_failed rt now tn
                    else (TaskReply 200 response,
                       add_latency (now - rt_t0 rt) (tn\<lparr>tn_successPending := tn_successPending tn + 1\<rparr>)))))"

section \<open>The node as a whole\<close>

text \<open>
  The steps of the running node: a task that was let in starts, or a running one ends. A state
  of \<open>None\<close> is a process that has ended.
\<close>

datatype task_event = TaskArrives "string option" task_request | TaskEnds nat "js option"

type_synonym task_process = "(task_node \<times> running_task list) option"

definition task_step ::
  "task_config \<Rightarrow> cx_env \<Rightarrow> task_process \<Rightarrow> int \<Rightarrow> task_event \<Rightarrow> task_reply option \<times> task_process" where
  "task_step cfg cx s now e =
     (case s of
        None \<Rightarrow> (Some TaskCrashed, None)
      | Some (tn, running) \<Rightarrow>
          (case e of
             TaskArrives tp tq \<Rightarrow>
               (case task_start cfg cx tp tq now tn of
                  (Inr rt, tn) \<Rightarrow> (None, Some (tn, running @ [rt]))
                | (Inl TaskCrashed, tn) \<Rightarrow> (Some TaskCrashed, None)
                | (Inl (TaskReply st b), tn) \<Rightarrow> (Some (TaskReply st b), Some (tn, running)))
           | TaskEnds i outcome \<Rightarrow>
               if i < length running then
                 let (r, tn) = task_end cx (running ! i) outcome now tn
                 in (Some r, Some (tn, take i running @ drop (Suc i) running))
               else (None, s)))"

definition task_handed ::
  "task_config \<Rightarrow> cx_env \<Rightarrow> task_process \<Rightarrow> int \<Rightarrow> task_event \<Rightarrow> bool \<times> task_process" where
  \<comment> \<open>whether the step hands a task to the handler\<close>
  "task_handed cfg cx s now e =
     (case e of
        TaskArrives _ _ \<Rightarrow> let (r, s) = task_step cfg cx s now e in (r = None, s)
      | TaskEnds _ _ \<Rightarrow> (False, snd (task_step cfg cx s now e)))"

definition event_nonce :: "task_event \<Rightarrow> string option" where
  "event_nonce e = (case e of TaskArrives _ tq \<Rightarrow> typed_text (own_property (tq_task tq) ''nonce'') | _ \<Rightarrow> None)"

definition event_taskId :: "task_event \<Rightarrow> string option" where
  "event_taskId e = (case e of TaskArrives _ tq \<Rightarrow> typed_text (own_property (tq_task tq) ''task_id'') | _ \<Rightarrow> None)"

definition task_guards_inv :: "int \<Rightarrow> task_process \<Rightarrow> bool" where
  "task_guards_inv ttl s =
     (case s of None \<Rightarrow> True | Some (tn, _) \<Rightarrow> seen_inv (tn_nonces tn) \<and> guard_inv ttl (tn_idempotency tn))"

lemma task_end_guards [simp]:
  "tn_nonces (snd (task_end cx rt outcome now tn)) = tn_nonces tn"
  "tn_idempotency (snd (task_end cx rt outcome now tn)) = tn_idempotency tn"
  by (auto simp: task_end_def task_failed_def add_latency_def Let_def split: option.split encoded_response.split)

lemma task_start_guards:
  fixes cfg cx tp tq now tn
  defines "nonce \<equiv> checkNonce (tn_nonces tn) now (typed_text (own_property (tq_task tq) ''nonce''))"
    and "idem \<equiv> checkAndRegister (tn_idempotency tn) now (typed_text (own_property (tq_task tq) ''task_id''))"
  shows "tn_nonces (snd (task_start cfg cx tp tq now tn)) = snd nonce"
    and "tn_idempotency (snd (task_start cfg cx tp tq now tn)) =
      (if fst nonce \<and> tc_enableIdempotency cfg then snd idem else tn_idempotency tn)"
    and "fst (task_start cfg cx tp tq now tn) = Inr rt \<Longrightarrow>
      fst nonce \<and> (tc_enableIdempotency cfg \<longrightarrow> fst idem)"
proof -
  obtain fresh nonces where n: "nonce = (fresh, nonces)" by (cases nonce)
  obtain new guard where g: "idem = (new, guard)" by (cases idem)
  note nn = n [unfolded nonce_def] and gg = g [unfolded idem_def]
  consider (replay) "\<not> fresh" | (dup) "fresh" "tc_enableIdempotency cfg" "\<not> new"
    | (go) "fresh" "tc_enableIdempotency cfg \<longrightarrow> new" by blast
  note c = this
  show "tn_nonces (snd (task_start cfg cx tp tq now tn)) = snd nonce"
    using c n nn gg
    by cases (auto simp: task_start_def Let_def split: sum.split option.split)
  show "tn_idempotency (snd (task_start cfg cx tp tq now tn)) =
      (if fst nonce \<and> tc_enableIdempotency cfg then snd idem else tn_idempotency tn)"
    using c n g nn gg
    by cases (auto simp: task_start_def Let_def split: sum.split option.split)
  show "fst nonce \<and> (tc_enableIdempotency cfg \<longrightarrow> fst idem)"
    if "fst (task_start cfg cx tp tq now tn) = Inr rt"
    using c that n g nn gg
    by cases (auto simp: task_start_def Let_def)
qed

lemma task_start_active:
  "task_start cfg cx tp tq now tn = (Inr rt, tn') \<Longrightarrow> tn_active tn' = tn_active tn + 1"
  "task_start cfg cx tp tq now tn = (Inl (TaskReply st b), tn') \<Longrightarrow> tn_active tn' = tn_active tn"
  by (auto simp: task_start_def Let_def split: prod.splits if_splits sum.splits option.splits)

definition late_failure :: "cx_env \<Rightarrow> running_task \<Rightarrow> js option \<Rightarrow> bool" where
  \<comment> \<open>the handler gave a result, but the rest of the completion throws\<close>
  "late_failure cx rt outcome =
     (case outcome of
        None \<Rightarrow> False
      | Some result \<Rightarrow>
          (case final_response cx rt result of
             None \<Rightarrow> True
           | Some response \<Rightarrow>
               (case encodeTaskResponse (cx_stringify cx) response of
                  None \<Rightarrow> True
                | Some EncodedTooLarge \<Rightarrow> False
                | Some (EncodedBody _) \<Rightarrow> nullish result)))"

lemma task_end_active:
  "tn_active (snd (task_end cx rt outcome now tn)) =
     tn_active tn - (if late_failure cx rt outcome then 2 else 1)"
  by (auto simp: task_end_def late_failure_def task_failed_def add_latency_def Let_def
      split: option.split encoded_response.split)

lemma task_end_counts:
  "tn_successPending (snd (task_end cx rt outcome now tn)) + tn_failedPending (snd (task_end cx rt outcome now tn)) =
     Suc (tn_successPending tn + tn_failedPending tn)"
  by (auto simp: task_end_def task_failed_def add_latency_def Let_def
      split: option.split encoded_response.split)

lemma task_start_counts:
  "tn_successPending (snd (task_start cfg cx tp tq now tn)) = tn_successPending tn"
  "tn_failedPending (snd (task_start cfg cx tp tq now tn)) = tn_failedPending tn"
  by (auto simp: task_start_def Let_def split: prod.split sum.split option.split)

lemma task_handed_None [simp]: "task_handed cfg cx None now e = (False, None)"
  by (simp add: task_handed_def task_step_def split: task_event.split)

lemma task_handed_arrives:
  "task_handed cfg cx (Some (tn, running)) now (TaskArrives tp tq) =
     (case task_start cfg cx tp tq now tn of
        (Inr rt, tn) \<Rightarrow> (True, Some (tn, running @ [rt]))
      | (Inl TaskCrashed, tn) \<Rightarrow> (False, None)
      | (Inl (TaskReply st b), tn) \<Rightarrow> (False, Some (tn, running)))"
  by (simp add: task_handed_def task_step_def split: prod.split sum.split task_reply.split)

lemma task_handed_ends:
  "task_handed cfg cx (Some (tn, running)) now (TaskEnds i outcome) =
     (False, if i < length running
        then Some (snd (task_end cx (running ! i) outcome now tn), take i running @ drop (Suc i) running)
        else Some (tn, running))"
  by (simp add: task_handed_def task_step_def split: prod.split)

lemma task_handed_cases:
  assumes "task_handed cfg cx (Some (tn, running)) now e = (ok, s')"
  obtains
    (ends) i outcome where "e = TaskEnds i outcome" "\<not> ok"
      "s' = (if i < length running
        then Some (snd (task_end cx (running ! i) outcome now tn), take i running @ drop (Suc i) running)
        else Some (tn, running))"
  | (crash) tp tq where "e = TaskArrives tp tq" "\<not> ok" "s' = None"
  | (refused) tp tq st b tn' where "e = TaskArrives tp tq" "\<not> ok" "s' = Some (tn', running)"
      "task_start cfg cx tp tq now tn = (Inl (TaskReply st b), tn')"
  | (handed) tp tq rt tn' where "e = TaskArrives tp tq" "ok" "s' = Some (tn', running @ [rt])"
      "task_start cfg cx tp tq now tn = (Inr rt, tn')"
proof (cases e)
  case (TaskEnds i outcome)
  with assms that(1) show thesis by (auto simp: task_handed_ends)
next
  case (TaskArrives tp tq)
  obtain r tn' where r: "task_start cfg cx tp tq now tn = (r, tn')" by (cases "task_start cfg cx tp tq now tn")
  show thesis
  proof (cases r)
    case (Inl a)
    with assms that r TaskArrives show thesis by (cases a) (auto simp: task_handed_arrives)
  next
    case (Inr rt)
    with assms that r TaskArrives show thesis by (auto simp: task_handed_arrives)
  qed
qed

definition process_nonce_held :: "task_process \<Rightarrow> int \<Rightarrow> string \<Rightarrow> bool" where
  "process_nonce_held s t k = (case s of None \<Rightarrow> True | Some (tn, _) \<Rightarrow> nonce_held (tn_nonces tn) t k)"

definition process_id_held :: "task_process \<Rightarrow> int \<Rightarrow> string \<Rightarrow> bool" where
  "process_id_held s t k = (case s of None \<Rightarrow> True | Some (tn, _) \<Rightarrow> seen_held (ig_seen (tn_idempotency tn)) t k)"

definition named :: "string option \<Rightarrow> bool" where
  "named k = (k \<noteq> None \<and> k \<noteq> Some [])"

lemma named_simps [simp]: "\<not> named None" "named (Some s) \<longleftrightarrow> s \<noteq> []"
  by (auto simp: named_def)

lemma task_handed_inv:
  assumes "task_guards_inv ttl s"
  shows "task_guards_inv ttl (snd (task_handed cfg cx s now e))"
proof (cases s)
  case (Some p)
  obtain tn running where p: "p = (tn, running)" by (cases p)
  obtain ok s' where h: "task_handed cfg cx (Some (tn, running)) now e = (ok, s')"
    by (cases "task_handed cfg cx (Some (tn, running)) now e")
  have start: "seen_inv (tn_nonces tn') \<and> guard_inv ttl (tn_idempotency tn')"
    if "task_start cfg cx tp tq now tn = (r, tn')" for tp tq r tn'
    using task_start_guards(1,2) [of cfg cx tp tq now tn] that assms Some p nonce_guard.admit_inv idem.admit_inv
    by (auto simp: task_guards_inv_def)
  show ?thesis
    using h by (cases rule: task_handed_cases) (use assms start Some p h in \<open>auto simp: task_guards_inv_def\<close>)
qed (simp add: task_guards_inv_def)

lemma task_handed_nonce:
  assumes "task_guards_inv ttl s" and "fst (task_handed cfg cx s now e)" and "named (event_nonce e)"
  shows "\<not> process_nonce_held s now (the (event_nonce e))"
    and "t < now + NONCE_TTL_MS + 1 \<Longrightarrow> process_nonce_held (snd (task_handed cfg cx s now e)) t (the (event_nonce e))"
proof -
  obtain tn running where s: "s = Some (tn, running)" using assms(2) by (cases s) auto
  obtain ok s' where h: "task_handed cfg cx (Some (tn, running)) now e = (ok, s')"
    by (cases "task_handed cfg cx (Some (tn, running)) now e")
  have "ok" using h assms(2) s by simp
  with h obtain tp tq rt tn' where e: "e = TaskArrives tp tq" and s': "s' = Some (tn', running @ [rt])"
    and start: "task_start cfg cx tp tq now tn = (Inr rt, tn')"
    by (cases rule: task_handed_cases) auto
  let ?n = "typed_text (own_property (tq_task tq) ''nonce'')"
  have ok: "fst (checkNonce (tn_nonces tn) now ?n)" and tn': "tn_nonces tn' = snd (checkNonce (tn_nonces tn) now ?n)"
    using task_start_guards(1,3) [of cfg cx tp tq now tn] start by auto
  have inv: "seen_inv (tn_nonces tn)" using assms(1) s by (simp add: task_guards_inv_def)
  have n: "event_nonce e = ?n" using e by (simp add: event_nonce_def)
  show "\<not> process_nonce_held s now (the (event_nonce e))"
    using nonce_guard.admit_free [OF inv _ ok] assms(3) n s by (auto simp: process_nonce_held_def named_def)
  show "process_nonce_held (snd (task_handed cfg cx s now e)) t (the (event_nonce e))" if "t < now + NONCE_TTL_MS + 1"
    using nonce_guard.admit_holds [OF inv _ ok that] assms(3) n s h s' tn'
    by (auto simp: process_nonce_held_def named_def)
qed

lemma task_handed_nonce_keeps:
  assumes "task_guards_inv ttl s" "now \<le> t" "process_nonce_held s t k"
  shows "process_nonce_held (snd (task_handed cfg cx s now e)) t k"
proof (cases s)
  case (Some p)
  obtain tn running where p: "p = (tn, running)" by (cases p)
  obtain ok s' where h: "task_handed cfg cx (Some (tn, running)) now e = (ok, s')"
    by (cases "task_handed cfg cx (Some (tn, running)) now e")
  have start: "nonce_held (tn_nonces tn') t k" if "task_start cfg cx tp tq now tn = (r, tn')" for tp tq r tn'
    using task_start_guards(1) [of cfg cx tp tq now tn] that assms Some p
      nonce_guard.admit_keeps [of "tn_nonces tn" now t k]
    by (auto simp: process_nonce_held_def task_guards_inv_def)
  show ?thesis
    using h by (cases rule: task_handed_cases) (use assms start Some p h in \<open>auto simp: process_nonce_held_def\<close>)
qed (simp add: process_nonce_held_def)

interpretation task_nonces: ttl_guard "task_handed cfg cx" process_nonce_held "\<lambda>e. the (event_nonce e)"
  "\<lambda>now e. now + NONCE_TTL_MS + 1" "\<lambda>e. named (event_nonce e)" "task_guards_inv ttl" for cfg cx ttl
proof unfold_locales
  fix s now r assume "task_guards_inv ttl s"
  then show "task_guards_inv ttl (snd (task_handed cfg cx s now r))" by (rule task_handed_inv)
next
  fix s now t k r assume "task_guards_inv ttl s" "now \<le> t" "process_nonce_held s t k"
  then show "process_nonce_held (snd (task_handed cfg cx s now r)) t k" by (rule task_handed_nonce_keeps)
qed (use task_handed_nonce in blast)+

lemma task_handed_id:
  assumes "task_guards_inv ttl s" and "fst (task_handed cfg cx s now e)"
    and "tc_enableIdempotency cfg \<and> named (event_taskId e)"
  shows "\<not> process_id_held s now (the (event_taskId e))"
    and "t < now + ttl \<Longrightarrow> process_id_held (snd (task_handed cfg cx s now e)) t (the (event_taskId e))"
proof -
  obtain tn running where s: "s = Some (tn, running)" using assms(2) by (cases s) auto
  obtain ok s' where h: "task_handed cfg cx (Some (tn, running)) now e = (ok, s')"
    by (cases "task_handed cfg cx (Some (tn, running)) now e")
  have "ok" using h assms(2) s by simp
  with h obtain tp tq rt tn' where e: "e = TaskArrives tp tq" and s': "s' = Some (tn', running @ [rt])"
    and start: "task_start cfg cx tp tq now tn = (Inr rt, tn')"
    by (cases rule: task_handed_cases) auto
  let ?i = "typed_text (own_property (tq_task tq) ''task_id'')"
  have ok: "fst (checkAndRegister (tn_idempotency tn) now ?i)"
    and tn': "tn_idempotency tn' = snd (checkAndRegister (tn_idempotency tn) now ?i)"
    using task_start_guards(2,3) [of cfg cx tp tq now tn] start assms(3) by auto
  have inv: "guard_inv ttl (tn_idempotency tn)" using assms(1) s by (simp add: task_guards_inv_def)
  have n: "event_taskId e = ?i" using e by (simp add: event_taskId_def)
  show "\<not> process_id_held s now (the (event_taskId e))"
    using idem.admit_free [OF inv _ ok] assms(3) n s by (auto simp: process_id_held_def named_def)
  show "process_id_held (snd (task_handed cfg cx s now e)) t (the (event_taskId e))" if "t < now + ttl"
    using idem.admit_holds [OF inv _ ok that] assms(3) n s h s' tn'
    by (auto simp: process_id_held_def named_def)
qed

lemma task_handed_id_keeps:
  assumes "task_guards_inv ttl s" "now \<le> t" "process_id_held s t k"
  shows "process_id_held (snd (task_handed cfg cx s now e)) t k"
proof (cases s)
  case (Some p)
  obtain tn running where p: "p = (tn, running)" by (cases p)
  obtain ok s' where h: "task_handed cfg cx (Some (tn, running)) now e = (ok, s')"
    by (cases "task_handed cfg cx (Some (tn, running)) now e")
  have start: "seen_held (ig_seen (tn_idempotency tn')) t k" if "task_start cfg cx tp tq now tn = (r, tn')" for tp tq r tn'
    using task_start_guards(2) [of cfg cx tp tq now tn] that assms Some p
      idem.admit_keeps [of ttl "tn_idempotency tn" now t k]
    by (auto simp: process_id_held_def task_guards_inv_def split: if_splits)
  show ?thesis
    using h by (cases rule: task_handed_cases) (use assms start Some p h in \<open>auto simp: process_id_held_def\<close>)
qed (simp add: process_id_held_def)

interpretation task_ids: ttl_guard "task_handed cfg cx" process_id_held "\<lambda>e. the (event_taskId e)"
  "\<lambda>now e. now + ttl" "\<lambda>e. tc_enableIdempotency cfg \<and> named (event_taskId e)" "task_guards_inv ttl" for cfg cx ttl
proof unfold_locales
  fix s now r assume "task_guards_inv ttl s"
  then show "task_guards_inv ttl (snd (task_handed cfg cx s now r))" by (rule task_handed_inv)
next
  fix s now t k r assume "task_guards_inv ttl s" "now \<le> t" "process_id_held s t k"
  then show "process_id_held (snd (task_handed cfg cx s now r)) t k" by (rule task_handed_id_keeps)
qed (use task_handed_id in blast)+

fun task_run :: "task_config \<Rightarrow> cx_env \<Rightarrow> task_process \<Rightarrow> (int \<times> task_event) list \<Rightarrow> task_process" where
  "task_run cfg cx s [] = s"
| "task_run cfg cx s ((now, e) # es) = task_run cfg cx (snd (task_handed cfg cx s now e)) es"

text \<open>The ends of a run: whether each was a late failure.\<close>

fun run_ends :: "task_config \<Rightarrow> cx_env \<Rightarrow> task_process \<Rightarrow> (int \<times> task_event) list \<Rightarrow> bool list" where
  "run_ends cfg cx s [] = []"
| "run_ends cfg cx s ((now, e) # es) =
     (case (s, e) of
        (Some (tn, running), TaskEnds i outcome) \<Rightarrow>
          if i < length running then [late_failure cx (running ! i) outcome] else []
      | _ \<Rightarrow> []) @ run_ends cfg cx (snd (task_handed cfg cx s now e)) es"

lemma task_run_None [simp]: "task_run cfg cx None es = None"
proof (induction es)
  case (Cons a es)
  then show ?case by (cases a) simp
qed simp

lemma task_run_counts:
  assumes "task_run cfg cx (Some (tn, running)) es = Some (tn', running')"
  shows "tn_active tn' - int (length running') =
      tn_active tn - int (length running) - int (length (filter id (run_ends cfg cx (Some (tn, running)) es)))"
    and "tn_successPending tn' + tn_failedPending tn' =
      tn_successPending tn + tn_failedPending tn + length (run_ends cfg cx (Some (tn, running)) es)"
proof -
  have "tn_active tn' - int (length running') =
      tn_active tn - int (length running) - int (length (filter id (run_ends cfg cx (Some (tn, running)) es))) \<and>
    tn_successPending tn' + tn_failedPending tn' =
      tn_successPending tn + tn_failedPending tn + length (run_ends cfg cx (Some (tn, running)) es)"
    using assms
  proof (induction es arbitrary: tn running)
    case (Cons a es)
    obtain now e where a: "a = (now, e)" by (cases a)
    obtain ok s' where h: "task_handed cfg cx (Some (tn, running)) now e = (ok, s')"
      by (cases "task_handed cfg cx (Some (tn, running)) now e")
    have run: "task_run cfg cx s' es = Some (tn', running')" using Cons.prems a h by simp
    from h show ?case
    proof (cases rule: task_handed_cases)
      case (ends i outcome)
      show ?thesis
      proof (cases "i < length running")
        case True
        then show ?thesis
          using Cons.IH [of "snd (task_end cx (running ! i) outcome now tn)" "take i running @ drop (Suc i) running"]
            run ends a h task_end_active [of cx "running ! i" outcome now tn]
            task_end_counts [of cx "running ! i" outcome now tn] by auto
      next
        case False
        then show ?thesis using Cons.IH [of tn running] run ends a h by simp
      qed
    next
      case (crash tp tq)
      then show ?thesis using run by simp
    next
      case (refused tp tq st b tn1)
      then show ?thesis
        using Cons.IH [of tn1 running] run a h task_start_active(2) [of cfg cx tp tq now tn st b tn1]
          task_start_counts [of cfg cx tp tq now tn] by simp
    next
      case (handed tp tq rt tn1)
      then show ?thesis
        using Cons.IH [of tn1 "running @ [rt]"] run a h task_start_active(1) [of cfg cx tp tq now tn rt tn1]
          task_start_counts [of cfg cx tp tq now tn] by simp
    qed
  qed simp
  then show "tn_active tn' - int (length running') =
      tn_active tn - int (length running) - int (length (filter id (run_ends cfg cx (Some (tn, running)) es)))"
    and "tn_successPending tn' + tn_failedPending tn' =
      tn_successPending tn + tn_failedPending tn + length (run_ends cfg cx (Some (tn, running)) es)" by auto
qed

section \<open>Properties\<close>


definition sample_config :: task_config where
  "sample_config = \<lparr>tc_intent = ''urn:x'', tc_enableIdempotency = True, tc_rateLimit = 0, tc_rateWindowMs = 60000,
     tc_cipPolicy = new_cip_policy \<lparr>co_enabled = None, co_allowCoordinator = None, co_allowWorker = None, co_maxReplicas = None,
       co_maxWorkerTimeoutMs = None, co_maxConcurrentRemote = None, co_allowToolExecution = None\<rparr>, tc_hasCxKey = False\<rparr>"

definition sample_cx :: cx_env where
  "sample_cx = \<lparr>cx_decrypt = (\<lambda>_. Inl ''no key''), cx_encrypt = (\<lambda>_ _ _. None), cx_stringify = (\<lambda>_. Some [])\<rparr>"

definition sample_node :: task_node where
  "sample_node = \<lparr>tn_active = 0, tn_nonces = [], tn_idempotency = \<lparr>ig_seen = [], ig_ttl = 1000\<rparr>, tn_rateBuckets = [],
     tn_successPending = 0, tn_failedPending = 0, tn_latencyPending = 0\<rparr>"

definition sample_request :: "string \<Rightarrow> string \<Rightarrow> task_request" where
  "sample_request nonce tid =
     \<lparr>tq_task = JObj [(''nonce'', JStr nonce), (''task_id'', JStr tid)], tq_intent = ''urn:x'',
      tq_qos = JStr ''best_effort'', tq_taskId = JStr tid\<rparr>"

lemma sample_first:
  "task_handed sample_config sample_cx (Some (sample_node, [])) 10 (TaskArrives None (sample_request ''n'' ''t'')) =
     (True, Some (sample_node\<lparr>tn_active := 1, tn_nonces := [(''n'', 300010)],
        tn_idempotency := \<lparr>ig_seen = [(''t'', 1010)], ig_ttl = 1000\<rparr>\<rparr>,
        [\<lparr>rt_task = tq_task (sample_request ''n'' ''t''), rt_taskId = JStr ''t'', rt_secret = None, rt_t0 = 10\<rparr>]))"
  by code_simp


text \<open>
  C23 The active-task counter and the pending metrics over whole runs of the node. Every request
  that is refused leaves the counter as it was, every completion is counted once, as a success
  or a failure, and the counter is the number of running tasks less the completions that threw
  after their handler had answered: each of those is subtracted twice. As long as there is none,
  the counter that admission compares with the capacity is exactly the number of running tasks.
\<close>

theorem active_tasks_accounted:
  assumes "task_run cfg cx (Some (tn, [])) es = Some (tn', running)" and "tn_active tn = 0"
  shows "tn_active tn' = int (length running) - int (length (filter id (run_ends cfg cx (Some (tn, [])) es))) \<and>
    tn_successPending tn' + tn_failedPending tn' =
      tn_successPending tn + tn_failedPending tn + length (run_ends cfg cx (Some (tn, [])) es)"
  using task_run_counts [OF assms(1)] assms(2) by auto

text \<open>A completion that throws after the handler answered drives the counter below the number of running tasks.\<close>

lemma sample_late:
  "task_run sample_config sample_cx (Some (sample_node, []))
     [(10, TaskArrives None (sample_request ''n'' ''t'')), (20, TaskEnds 0 (Some JNull))] =
   Some (sample_node\<lparr>tn_active := - 1, tn_nonces := [(''n'', 300010)], tn_failedPending := 1, tn_latencyPending := 10,
        tn_idempotency := \<lparr>ig_seen = [(''t'', 1010)], ig_ttl = 1000\<rparr>\<rparr>, [])"
proof -
  have late: "task_end sample_cx rt (Some JNull) now tn = task_failed rt now (tn\<lparr>tn_active := tn_active tn - 1\<rparr>)"
    if "rt_secret rt = None" for rt now tn
    using that by (simp add: task_end_def final_response_def encodeTaskResponse_def sample_cx_def nullish_def Let_def)
  show ?thesis
    by (simp add: sample_first task_handed_ends late task_failed_def add_latency_def Let_def) (simp add: sample_node_def)
qed

theorem active_tasks_accounted_witness:
  "length (filter id (run_ends sample_config sample_cx (Some (sample_node, []))
     [(10, TaskArrives None (sample_request ''n'' ''t'')), (20, TaskEnds 0 (Some JNull))])) = 1"
  using active_tasks_accounted [OF sample_late] by (simp add: sample_node_def)

text \<open>What is refused, and the inputs that end the process.\<close>

lemma null_body_ends_process: "task_body cfg stability now (Some JNull) = Inl TaskCrashed"
  by (simp add: task_body_def read_request_def nullish_def)

lemma failed_handler_runs_twice: "handler_result None second = (2, second)"
  by (simp add: handler_result_def)

end
