(* ===== verification/Policies.thy ===== *)
theory Policies imports JsText begin

text \<open>
  The pure policy checks of the client and the gateway: \<open>src/policy.ts\<close> (intents the client
  refuses), \<open>src/mcp_policy.ts\<close> and \<open>src/mcp_negotiation.ts\<close> (MCP tools and protocol eras),
  \<open>src/profile_compatibility.ts\<close>, \<open>src/policy_operational_evidence.ts\<close>,
  \<open>src/policy_data_handling.ts\<close> and \<open>src/policy_detail_disclosure.ts\<close>. The records they
  evaluate come from JSON: \<open>r.f\<close> is \<open>own_property r ''f''\<close>.
\<close>

section \<open>Intents refused by the client\<close>

datatype intent_risk = Prohibited | HighRisk | TransparencyRisk | MinimalOrGeneral

record intent_rule =
  rule_id :: string
  label :: string
  fragments :: "string list"

definition PROHIBITED_INTENT_RULES :: "intent_rule list" where
  "PROHIBITED_INTENT_RULES = [
     \<lparr>rule_id = ''eu-ai-act-social-scoring'', label = ''social scoring'',
      fragments = [''social-scoring'', ''social_scoring'', ''social:scoring'']\<rparr>,
     \<lparr>rule_id = ''eu-ai-act-criminal-risk'', label = ''individual criminal risk prediction'',
      fragments = [''criminal-risk'', ''criminal_risk'', ''criminal:risk'', ''predict-crime'']\<rparr>,
     \<lparr>rule_id = ''eu-ai-act-workplace-education-emotion'', label = ''workplace or education emotion recognition'',
      fragments = [''emotion:workplace'', ''emotion:education'', ''workplace-monitoring'',
        ''education-monitoring'', ''worker-monitoring'']\<rparr>,
     \<lparr>rule_id = ''eu-ai-act-protected-trait-biometric'', label = ''biometric protected-trait classification'',
      fragments = [''protected-trait'', ''protected_trait'', ''biometric:protected'']\<rparr>,
     \<lparr>rule_id = ''eu-ai-act-untargeted-face-scraping'', label = ''untargeted facial image scraping for recognition databases'',
      fragments = [''untargeted-scraping'', ''untargeted_scraping'', ''face-scraping'',
        ''facial-scraping'']\<rparr>,
     \<lparr>rule_id = ''eu-ai-act-realtime-remote-biometric-id'', label = ''real-time remote biometric identification'',
      fragments = [''remote-biometric:realtime'', ''realtime-remote-biometric'',
        ''real-time-remote-biometric'']\<rparr>,
     \<lparr>rule_id = ''eu-ai-act-nonconsensual-sexual-deepfake'', label = ''non-consensual sexual deepfake or CSAM generation'',
      fragments = [''nonconsensual-sexual'', ''non-consensual-sexual'', ''child-sexual-abuse'',
        ''csam'']\<rparr>]"

definition HIGH_RISK_INTENT_RULES :: "intent_rule list" where
  "HIGH_RISK_INTENT_RULES = [
     \<lparr>rule_id = ''eu-ai-act-employment-workforce'', label = ''employment or workforce decision'',
      fragments = [''employment:hiring'', ''employment:screen'', ''employment:rank'',
        ''recruitment:decision'', ''workforce:decision'', ''worker-management'',
        ''worker:performance'', ''worker:discipline'']\<rparr>,
     \<lparr>rule_id = ''eu-ai-act-education-admission-grading'', label = ''education admission or grading decision'',
      fragments = [''education:admission'', ''education:grading'', ''education:grade'',
        ''student:admission'', ''student:assess'', ''exam-grading'']\<rparr>,
     \<lparr>rule_id = ''eu-ai-act-credit-essential-services'', label = ''credit or essential-services decision'',
      fragments = [''credit-scoring'', ''credit:score'', ''credit:decision'', ''essential-services'',
        ''benefits:eligibility'', ''public-benefit:eligibility'']\<rparr>,
     \<lparr>rule_id = ''eu-ai-act-law-enforcement-border-justice'', label = ''law enforcement, border, justice or democratic-process decision'',
      fragments = [''law-enforcement'', ''law_enforcement'', ''migration:decision'',
        ''asylum:decision'', ''border-control'', ''justice:decision'',
        ''democratic-process'', ''election:decision'']\<rparr>,
     \<lparr>rule_id = ''eu-ai-act-healthcare-critical-infrastructure'', label = ''healthcare or critical-infrastructure safety decision'',
      fragments = [''healthcare:decision'', ''medical:diagnosis'', ''medical:triage'',
        ''clinical:decision'', ''critical-infrastructure'', ''grid:stabilize'',
        ''hospital:surge-capacity'']\<rparr>,
     \<lparr>rule_id = ''eu-ai-act-physical-world-control'', label = ''physical-world control'',
      fragments = [''robotics:control'', ''robotics:fleet'', ''drone:control'', ''drone:search'',
        ''iot:actuate'', ''physical-world'', ''system_control'']\<rparr>]"

definition TRANSPARENCY_FRAGMENTS :: "string list" where
  "TRANSPARENCY_FRAGMENTS = [''chatbot'', ''ai-assistant'', ''synthetic-media'', ''deepfake:labelled'', ''content:generate-public'', ''creative:generate'']"

definition normalize_intent :: "string \<Rightarrow> string" where
  "normalize_intent intent = js_lower (js_trim intent)"

definition rule_matches :: "string \<Rightarrow> intent_rule \<Rightarrow> bool" where
  "rule_matches normalized rule = list_ex (contains normalized) (fragments rule)"

definition classifyIntent :: "string \<Rightarrow> intent_risk" where
  "classifyIntent intent =
     (let normalized = normalize_intent intent in
      if list_ex (rule_matches normalized) PROHIBITED_INTENT_RULES then Prohibited
      else if list_ex (rule_matches normalized) HIGH_RISK_INTENT_RULES then HighRisk
      else if list_ex (contains normalized) TRANSPARENCY_FRAGMENTS then TransparencyRisk
      else MinimalOrGeneral)"

definition rule_reason :: "intent_rule \<Rightarrow> string" where
  "rule_reason rule = label rule @ '' ('' @ rule_id rule @ '')''"

definition prohibitedIntentReason :: "string \<Rightarrow> string option" where
  "prohibitedIntentReason intent =
     map_option rule_reason (find (rule_matches (normalize_intent intent)) PROHIBITED_INTENT_RULES)"

definition risk_name :: "intent_risk \<Rightarrow> string" where
  "risk_name c = (case c of Prohibited \<Rightarrow> ''prohibited'' | HighRisk \<Rightarrow> ''high_risk''
     | TransparencyRisk \<Rightarrow> ''transparency_risk'' | MinimalOrGeneral \<Rightarrow> ''minimal_or_general'')"

definition ensureIntentAllowed :: "string \<Rightarrow> (string \<times> intent_risk) option" where
  \<comment> \<open>what the refusal names: the reason and the category; its code is \<open>IICP-POLICY-001\<close>\<close>
  "ensureIntentAllowed intent =
     (let category = classifyIntent intent in
      case find (rule_matches (normalize_intent intent)) (PROHIBITED_INTENT_RULES @ HIGH_RISK_INTENT_RULES) of
        None \<Rightarrow> None
      | Some rule \<Rightarrow>
          if category \<noteq> Prohibited \<and> category \<noteq> HighRisk then None else Some (rule_reason rule, category))"

section \<open>MCP tools\<close>

definition TOOL_RISK_KEYWORDS :: "(string \<times> string list) list" where
  "TOOL_RISK_KEYWORDS = [
     (''shell_exec'', [''bash'', ''shell'', ''exec'', ''run_command'', ''command'', ''eval'', ''python_exec'']),
     (''data_read'', [''read_document'', ''query_database'', ''list_resource'', ''dataset_read'', ''record_lookup'']),
     (''file_read'', [''read_file'', ''list_dir'', ''cat'', ''open_file'', ''file_read'', ''list_files'']),
     (''file_write'', [''write_file'', ''delete_file'', ''remove_file'', ''edit_file'', ''save_file'', ''mkdir'', ''rmdir'']),
     (''network_fetch'', [''fetch'', ''crawl'', ''http'', ''web_request'', ''search_web'', ''url'']),
     (''browser_control'', [''browser'', ''computer_use'', ''click'', ''type'', ''screenshot'', ''navigate'']),
     (''credential_access'', [''secret'', ''credential'', ''token'', ''ssh_key'', ''wallet'', ''password'']),
     (''system_control'', [''systemctl'', ''launchctl'', ''service_restart'', ''install_package'', ''firewall'', ''reboot'', ''shutdown'']),
     (''physical_world'', [''robot'', ''drone'', ''actuator'', ''iot_control'', ''medical_device'', ''industrial_control'']),
     (''regulated_decision'', [''credit_score'', ''hire'', ''employment'', ''benefit_eligibility'', ''diagnose'', ''triage_patient''])]"

definition SAFE_SANDBOX_PROFILES :: "string list" where
  "SAFE_SANDBOX_PROFILES = [''1'', ''true'', ''strict'', ''container'', ''sandbox'']"

definition tool_char :: "char \<Rightarrow> bool" where
  \<comment> \<open>\<open>[a-zA-Z0-9_:-]\<close>\<close>
  "tool_char c = (word_char c \<or> c \<in> set ''_:-'')"

definition safe_tool_name :: "string \<Rightarrow> string" where
  "safe_tool_name s = map (\<lambda>c. if tool_char c then c else CHR ''_'') s"

definition toolRiskLabel :: "string \<Rightarrow> string" where
  "toolRiskLabel toolName =
     (let safe = safe_tool_name (js_lower toolName) in
      case find (\<lambda>(l, needles). list_ex (\<lambda>n. safe = n \<or> contains safe n) needles) TOOL_RISK_KEYWORDS of
        Some (l, _) \<Rightarrow> l
      | None \<Rightarrow> ''benign_read'')"

record tool_policy =
  tp_allowDangerousTools :: bool
  tp_authzPolicy :: string
  tp_sandboxProfile :: string
  tp_auditRedaction :: bool

definition new_tool_policy :: "bool option \<Rightarrow> string option \<Rightarrow> string option \<Rightarrow> bool option \<Rightarrow> tool_policy" where
  "new_tool_policy allow authz sandbox audit =
     \<lparr>tp_allowDangerousTools = or_else allow False, tp_authzPolicy = js_trim (or_else authz []),
      tp_sandboxProfile = js_trim (or_else sandbox []), tp_auditRedaction = or_else audit False\<rparr>"

definition dangerousReady :: "tool_policy \<Rightarrow> bool" where
  "dangerousReady p =
     (tp_allowDangerousTools p \<and> length (tp_authzPolicy p) > 0 \<and>
      js_lower (tp_sandboxProfile p) \<in> set SAFE_SANDBOX_PROFILES \<and> tp_auditRedaction p)"

definition allows :: "tool_policy \<Rightarrow> string \<Rightarrow> bool" where
  "allows p toolName = (toolRiskLabel toolName = ''benign_read'' \<or> dangerousReady p)"

definition text_or_null :: "string \<Rightarrow> js" where
  "text_or_null s = (if s = [] then JNull else JStr s)"

definition receipt :: "tool_policy \<Rightarrow> string \<Rightarrow> string \<Rightarrow> int \<Rightarrow> js" where
  "receipt p toolName decision argumentCount =
     JObj [(''tool_name'', JStr (take 96 (safe_tool_name toolName))), (''tool_risk'', JStr (toolRiskLabel toolName)),
       (''decision'', JStr decision), (''authz_policy'', text_or_null (tp_authzPolicy p)),
       (''sandbox_profile'', text_or_null (tp_sandboxProfile p)), (''audit_redacted'', JBool (tp_auditRedaction p)),
       (''argument_count'', jint (max 0 argumentCount)), (''argument_content'', JStr ''excluded'')]"

section \<open>MCP protocol eras\<close>

definition LEGACY_MCP_REVISION :: string where "LEGACY_MCP_REVISION = ''2025-11-25''"

definition MODERN_MCP_REVISION :: string where "MODERN_MCP_REVISION = ''2026-07-28''"

definition SUPPORTED_EXTENSIONS :: "string list" where "SUPPORTED_EXTENSIONS = [''tasks'', ''skills'', ''apps'']"

datatype mcp_decision = McpRejected string | McpFromRequest | McpModern | McpDowngraded | McpLegacy

definition authorization_guards :: "js \<Rightarrow> (bool \<times> string) list" where
  "authorization_guards input = map (\<lambda>(field, reason). (own_property input field = JBool False, reason))
     [(''oauth_issuer_matches'', ''oauth_issuer_mismatch''),
      (''oauth_audience_matches'', ''oauth_audience_mismatch''),
      (''resource_indicator_present'', ''missing_resource_indicator''),
      (''protected_resource_metadata_valid'', ''invalid_protected_resource_metadata''),
      (''pkce_valid'', ''pkce_required''),
      (''consent_granted'', ''consent_required''),
      (''audit_output_redacted'', ''audit_redaction_required'')]"

definition unsupported_extension :: "js \<Rightarrow> bool" where
  "unsupported_extension v = (case v of JStr e \<Rightarrow> e \<notin> set SUPPORTED_EXTENSIONS | _ \<Rightarrow> False)"

definition identity_guards :: "js \<Rightarrow> (bool \<times> string) list" where
  "identity_guards input =
     [(own_property input ''downstream_credential_source'' = JStr ''caller'', ''credential_passthrough_prohibited''),
      (own_property input ''server_identity_matches_selected_endpoint'' = JBool False, ''server_identity_mismatch''),
      (truthy (own_property input ''modern_request_failed'') \<and>
         \<not> truthy (own_property input ''legacy_authentication_available''), ''unauthenticated_downgrade''),
      (unsupported_extension (own_property input ''extension''), ''unsupported_extension'')]"

definition modern_guards :: "js \<Rightarrow> (bool \<times> string) list" where
  "modern_guards input =
     [(own_property input ''protocol_header_present'' = JBool False, ''missing_protocol_version''),
      (own_property input ''method_header_matches'' = JBool False \<or>
         own_property input ''name_header_matches'' = JBool False, ''header_body_mismatch''),
      (own_property input ''reserved_meta_valid'' = JBool False, ''malformed_reserved_metadata'')]"

definition peer_revisions :: "js \<Rightarrow> js list" where
  "peer_revisions input = (case own_property input ''peer_supported_revisions'' of JArr xs \<Rightarrow> xs | _ \<Rightarrow> [])"

definition evaluateMcpEra :: "js \<Rightarrow> mcp_decision" where
  "evaluateMcpEra input =
     (case first_failure (authorization_guards input @ identity_guards input) of
        Some reason \<Rightarrow> McpRejected reason
      | None \<Rightarrow>
          let offered = own_property input ''offered_revision''; peer = peer_revisions input in
          if offered = JStr MODERN_MCP_REVISION then
            (case first_failure (modern_guards input) of
               Some reason \<Rightarrow> McpRejected reason
             | None \<Rightarrow>
                 if peer = [] \<or> JStr MODERN_MCP_REVISION \<in> set peer
                 then (if truthy (own_property input ''request_state_explicit'') then McpFromRequest else McpModern)
                 else if JStr LEGACY_MCP_REVISION \<in> set peer \<and>
                         truthy (own_property input ''legacy_revision_explicitly_offered'') \<and>
                         truthy (own_property input ''security_requirements_preserved'')
                 then McpDowngraded
                 else McpRejected ''unsupported_revision'')
          else if offered = JStr LEGACY_MCP_REVISION \<and> (peer = [] \<or> JStr LEGACY_MCP_REVISION \<in> set peer)
          then McpLegacy
          else McpRejected ''unsupported_revision'')"

record mcp_request =
  mq_requestId :: int
  mq_method :: string
  mq_name :: string
  mq_params :: "(string \<times> js) list"
  mq_clientName :: "string option"
  mq_extensions :: "string list option"
  mq_requestState :: "js option"

definition buildModernMcpRequest :: "mcp_request \<Rightarrow> string + (string \<times> string) list \<times> js" where
  "buildModernMcpRequest q =
     (let extensions = or_else (mq_extensions q) [] in
      if list_ex (\<lambda>e. e \<notin> set SUPPORTED_EXTENSIONS) extensions then Inl ''unsupported_extension''
      else
        let meta = [(''protocolVersion'', JStr MODERN_MCP_REVISION),
                    (''client'', JObj [(''name'', JStr (or_else (mq_clientName q) ''iicp-gateway''))])] @
              (if extensions \<noteq> [] then [(''extensions'', JArr (map JStr extensions))] else []) @
              (case mq_requestState q of Some v \<Rightarrow> [(''requestState'', v)] | None \<Rightarrow> [])
        in Inr ([(''MCP-Protocol-Version'', MODERN_MCP_REVISION), (''Mcp-Method'', mq_method q), (''Mcp-Name'', mq_name q)],
             JObj [(''jsonrpc'', JStr ''2.0''), (''id'', jint (mq_requestId q)), (''method'', JStr (mq_method q)),
               (''params'', JObj (AList.update ''_meta'' (JObj meta) (mq_params q)))]))"

definition validateModernMcpResponse :: "js \<Rightarrow> string \<Rightarrow> string option" where
  "validateModernMcpResponse data expectedServerName =
     (let meta = own_property data ''_meta''; server = own_property meta ''server'' in
      if \<not> truthy meta \<or> own_property meta ''protocolVersion'' \<noteq> JStr MODERN_MCP_REVISION
      then Some ''malformed_reserved_metadata''
      else if \<not> truthy server \<or> own_property server ''name'' \<noteq> JStr expectedServerName
      then Some ''server_identity_mismatch''
      else None)"

section \<open>Profiles\<close>

definition opt_js :: "string option \<Rightarrow> js" where
  "opt_js v = (case v of None \<Rightarrow> JUndef | Some s \<Rightarrow> JStr s)"

definition profile_intent :: "(string option \<times> string option) list \<Rightarrow> js \<Rightarrow> js" where
  "profile_intent aliases intent =
     coalesce (case map_of (rev (map (\<lambda>(f, t). (opt_js f, opt_js t)) aliases)) intent of None \<Rightarrow> JUndef | Some v \<Rightarrow> v) intent"

text \<open>The provider's extensions; \<open>None\<close> when they are no array of records: the code throws.\<close>

definition offered_uris :: "js \<Rightarrow> js list option" where
  "offered_uris v =
     (case coalesce v (JArr []) of
        JArr xs \<Rightarrow> if list_ex nullish xs then None else Some (map (\<lambda>e. own_property e ''uri'') xs)
      | _ \<Rightarrow> None)"

definition wanted_items :: "js \<Rightarrow> js list option" where
  \<comment> \<open>what \<open>for (... of ...)\<close> runs over\<close>
  "wanted_items v =
     (case coalesce v (JArr []) of JArr xs \<Rightarrow> Some xs | JStr s \<Rightarrow> Some (map (\<lambda>c. JStr [c]) s) | _ \<Rightarrow> None)"

definition extension_refusal :: "js_runtime \<Rightarrow> js list \<Rightarrow> int \<Rightarrow> js \<Rightarrow> string option" where
  "extension_refusal rt supported nowS e =
     (if \<not> truthy (own_property e ''required'') then None
      else first_failure
        [(truthy (own_property e ''experimental'') \<and>
            num_le (Number_of rt (coalesce (own_property e ''review_expires_at_s'') (jint 0))) (Fin (of_int nowS)),
          ''experimental_extension_expired''),
         (\<not> list_ex (strict_eq (own_property e ''uri'')) supported, ''required_extension_missing'')])"

fun extension_loop :: "(js \<Rightarrow> string option) \<Rightarrow> js list \<Rightarrow> string option option" where
  "extension_loop refusal [] = Some None"
| "extension_loop refusal (e # es) =
     (if nullish e then None
      else case refusal e of None \<Rightarrow> extension_loop refusal es | Some reason \<Rightarrow> Some (Some reason))"

definition profile_guards :: "js \<Rightarrow> js \<Rightarrow> (string option \<times> string option) list \<Rightarrow> (bool \<times> string) list" where
  "profile_guards request provider aliases =
     [(own_property request ''policy'' = JStr ''deny'', ''policy_refusal''),
      (own_property request ''mapping_kind'' \<noteq> JUndef \<and> own_property request ''mapping_kind'' \<noteq> JStr ''a2a_skill'' \<and>
         own_property request ''mapping_kind'' \<noteq> JStr ''mcp_tool'', ''unsupported_binding''),
      (\<not> strict_eq (profile_intent aliases (own_property request ''intent''))
         (profile_intent aliases (own_property provider ''intent'')), ''intent_mismatch''),
      (truthy (own_property request ''schema_digest'') \<and>
         \<not> strict_eq (own_property provider ''schema_digest'') (own_property request ''schema_digest''),
       ''schema_digest_mismatch'')]"

definition evaluatePreNormativeProfile ::
  "js_runtime \<Rightarrow> js \<Rightarrow> js \<Rightarrow> (string option \<times> string option) list \<Rightarrow> int \<Rightarrow> string option option" where
  \<comment> \<open>\<open>None\<close>: throws; \<open>Some None\<close>: eligible; \<open>Some (Some reason)\<close>: refused\<close>
  "evaluatePreNormativeProfile rt request provider aliases nowS =
     (case first_failure (profile_guards request provider aliases) of
        Some reason \<Rightarrow> Some (Some reason)
      | None \<Rightarrow>
          (case offered_uris (own_property provider ''extensions'') of
             None \<Rightarrow> None
           | Some supported \<Rightarrow>
               (case wanted_items (own_property request ''extensions'') of
                  None \<Rightarrow> None
                | Some wanted \<Rightarrow> extension_loop (extension_refusal rt supported nowS) wanted)))"


section \<open>Operational evidence\<close>

definition text_items :: "js \<Rightarrow> string list" where
  \<comment> \<open>\<open>strings(value)\<close>\<close>
  "text_items v = (case v of JArr xs \<Rightarrow> concat (map (\<lambda>x. case x of JStr s \<Rightarrow> [s] | _ \<Rightarrow> []) xs) | _ \<Rightarrow> [])"

definition KNOWN_EVIDENCE :: "string list" where
  "KNOWN_EVIDENCE = [''retention_control'', ''subprocessor_disclosure'', ''approval_event'']"

definition evidence_records :: "js \<Rightarrow> js list" where
  "evidence_records context =
     (case own_property context ''evidence'' of JArr xs \<Rightarrow> filter is_object xs | _ \<Rightarrow> [])"

definition expires_after :: "string \<Rightarrow> js \<Rightarrow> bool" where
  "expires_after evaluatedAt item = (case own_property item ''expires_at'' of JStr s \<Rightarrow> evaluatedAt < s | _ \<Rightarrow> False)"

definition kind_refusal :: "js list \<Rightarrow> string \<Rightarrow> string \<Rightarrow> string option" where
  "kind_refusal evidence evaluatedAt kind =
     (let found = filter (\<lambda>item. own_property item ''type'' = JStr kind) evidence;
          verified = filter (\<lambda>item. own_property item ''verified'' = JBool True) found
      in first_failure
        [(found = [], ''evidence_missing''),
         (verified = [], ''evidence_unauthenticated''),
         (\<not> list_ex (expires_after evaluatedAt) verified, ''evidence_expired'')])"

fun first_refusal :: "('a \<Rightarrow> 'e option) \<Rightarrow> 'a list \<Rightarrow> 'e option" where
  "first_refusal f [] = None"
| "first_refusal f (x # xs) = (case f x of None \<Rightarrow> first_refusal f xs | Some e \<Rightarrow> Some e)"

lemma first_refusal_None [simp]: "first_refusal f xs = None \<longleftrightarrow> list_all (\<lambda>x. f x = None) xs"
  by (induction xs) (auto split: option.splits)

definition evaluatePolicyOperationalEvidence :: "js \<Rightarrow> js \<Rightarrow> string \<Rightarrow> string option" where
  \<comment> \<open>\<open>None\<close>: eligible\<close>
  "evaluatePolicyOperationalEvidence requirement context evaluatedAt =
     (let required = text_items (own_property requirement ''required_evidence'') in
      if list_ex (\<lambda>kind. kind \<notin> set KNOWN_EVIDENCE) required then Some ''unsupported_evidence_requirement''
      else if \<not> strict_eq (own_property requirement ''manifest_sha256'') (own_property context ''manifest_sha256'')
      then Some ''manifest_digest_mismatch''
      else first_refusal (kind_refusal (evidence_records context) evaluatedAt) required)"

section \<open>Data handling\<close>

definition KNOWN_REQUIREMENTS :: "string list" where
  "KNOWN_REQUIREMENTS = [''version'', ''role'', ''data_class'', ''remote_routing'', ''allowed_regions'', ''retention'',
     ''training_use'', ''subprocessors'', ''approval'', ''tool_risk'', ''requires_encryption'', ''requires_receipt'',
     ''requires_human_review'', ''critical_requirements'']"

definition APPROVAL_RANK :: "(string \<times> int) list" where
  "APPROVAL_RANK = [(''none'', 0), (''user'', 1), (''operator'', 2), (''human_review'', 3)]"

definition TOOL_RISK_RANK :: "(string \<times> int) list" where
  "TOOL_RISK_RANK = [(''none'', 0), (''read_only'', 1), (''write'', 2), (''privileged'', 3)]"

text \<open>
  \<open>table[name] ?? d\<close> as a number: the entry, what the object inherits (a function or an
  object, which is \<open>NaN\<close> in a comparison), or the default.
\<close>

definition table_rank :: "(string \<times> int) list \<Rightarrow> string \<Rightarrow> int \<Rightarrow> number" where
  "table_rank table name d =
     (case map_of table name of
        Some r \<Rightarrow> Fin (of_int r)
      | None \<Rightarrow> if name \<in> set inherited_names then NaN else Fin (of_int d))"

definition retention_seconds :: "js \<Rightarrow> number option" where
  "retention_seconds v = (case own_property v ''max_seconds'' of JNum n \<Rightarrow> Some n | _ \<Rightarrow> None)"

definition transient_refused :: "js \<Rightarrow> js \<Rightarrow> bool" where
  \<comment> \<open>the two returns of the block for transient payloads\<close>
  "transient_refused rr dr =
     (let kept = own_property dr ''task_payload'' in
      if kept \<noteq> JStr ''none'' \<and> kept \<noteq> JStr ''transient'' then True
      else
        let declaredMax = (if kept = JStr ''none'' then Some (Fin 0) else retention_seconds dr) in
        case retention_seconds rr of
          None \<Rightarrow> False
        | Some requiredMax \<Rightarrow> (case declaredMax of None \<Rightarrow> True | Some m \<Rightarrow> num_less requiredMax m))"

definition rank_refused :: "js_runtime \<Rightarrow> js \<Rightarrow> js \<Rightarrow> bool" where
  "rank_refused rt requirement declaration =
     (case own_property requirement ''approval'' of
        JStr wanted \<Rightarrow>
          num_less (table_rank APPROVAL_RANK (String_of rt (coalesce (own_property declaration ''approval'') (JStr ''none''))) (- 1))
            (table_rank APPROVAL_RANK wanted 99)
      | _ \<Rightarrow> False)"

definition risk_refused :: "js_runtime \<Rightarrow> js \<Rightarrow> js \<Rightarrow> bool" where
  "risk_refused rt requirement declaration =
     (case own_property requirement ''tool_risk'' of
        JStr wanted \<Rightarrow>
          num_less (table_rank TOOL_RISK_RANK wanted (- 1))
            (table_rank TOOL_RISK_RANK (String_of rt (coalesce (own_property declaration ''tool_risk'') (JStr ''privileged''))) 99)
      | _ \<Rightarrow> False)"

definition data_guards :: "js_runtime \<Rightarrow> js \<Rightarrow> js \<Rightarrow> js \<Rightarrow> (bool \<times> string) list" where
  "data_guards rt requirement declaration context =
     (let routing = own_property requirement ''remote_routing'';
          regions = text_items (own_property requirement ''allowed_regions'')
      in [(list_ex (\<lambda>field. field \<notin> set KNOWN_REQUIREMENTS) (text_items (own_property requirement ''critical_requirements'')),
           ''unsupported_policy_requirement''),
          (routing = JStr ''local_only'', ''remote_routing_forbidden''),
          (String_of rt (own_property requirement ''data_class'') \<notin>
             set (text_items (own_property declaration ''accepted_data_classes'')), ''data_class_not_accepted''),
          (routing = JStr ''requires_approval'' \<and> own_property context ''approval_granted'' \<noteq> JBool True, ''approval_required''),
          (regions \<noteq> [] \<and> String_of rt (own_property declaration ''jurisdiction'') \<notin> set regions, ''region_not_allowed'')])"

definition retention_guards :: "js \<Rightarrow> js \<Rightarrow> (bool \<times> string) list" where
  "retention_guards rr dr =
     [(own_property rr ''task_payload'' = JStr ''none'' \<and> own_property dr ''task_payload'' \<noteq> JStr ''none'',
       ''retention_requirement_unsatisfied''),
      (own_property rr ''task_payload'' = JStr ''transient'' \<and> transient_refused rr dr, ''retention_requirement_unsatisfied'')]"

definition usage_guards :: "js_runtime \<Rightarrow> js \<Rightarrow> js \<Rightarrow> js \<Rightarrow> (bool \<times> string) list" where
  "usage_guards rt requirement declaration context =
     [(own_property requirement ''training_use'' = JStr ''none'' \<and> own_property declaration ''training_use'' \<noteq> JStr ''none'',
       ''training_use_requirement_unsatisfied''),
      (own_property requirement ''subprocessors'' = JStr ''none'' \<and> own_property declaration ''subprocessors'' \<noteq> JStr ''none'',
       ''subprocessor_requirement_unsatisfied''),
      (rank_refused rt requirement declaration, ''approval_requirement_unsatisfied''),
      (risk_refused rt requirement declaration, ''tool_risk_requirement_unsatisfied''),
      (own_property requirement ''requires_encryption'' = JBool True \<and> own_property context ''encryption_ready'' \<noteq> JBool True,
       ''encryption_requirement_unsatisfied''),
      (own_property requirement ''requires_receipt'' = JBool True \<and> own_property context ''receipt_supported'' \<noteq> JBool True,
       ''receipt_requirement_unsatisfied''),
      (own_property requirement ''requires_human_review'' = JBool True \<and>
         own_property declaration ''requires_human_review'' \<noteq> JBool True, ''human_review_requirement_unsatisfied'')]"

definition evaluatePolicyDataHandling :: "js_runtime \<Rightarrow> js \<Rightarrow> js \<Rightarrow> js \<Rightarrow> string option" where
  "evaluatePolicyDataHandling rt requirement declaration context =
     first_failure (data_guards rt requirement declaration context @
       retention_guards (own_property requirement ''retention'') (own_property declaration ''retention'') @
       usage_guards rt requirement declaration context)"

section \<open>Disclosure of policy details\<close>

definition POLICY_DETAIL_FIELDS :: "string list" where
  "POLICY_DETAIL_FIELDS = [''retention_intervals'', ''subprocessor_references'', ''approval_evidence_references'',
     ''operational_evidence_references'']"

datatype token_status = TokenValid js | TokenExpired js | TokenInvalid

text \<open>The token's codecs and its verification: hexadecimal text, signature, decoded payload.\<close>

record token_crypto =
  tk_key_length :: "string \<Rightarrow> nat"
  tk_verify :: "string \<Rightarrow> string \<Rightarrow> string \<Rightarrow> bool"
  tk_parse :: "string \<Rightarrow> js option"

definition expired_claim :: "js \<Rightarrow> int \<Rightarrow> bool" where
  "expired_claim v nowSec = (case v of JNum n \<Rightarrow> num_le n (Fin (of_int nowSec)) | _ \<Rightarrow> True)"

definition verifyPolicyDetailConsumerToken ::
  "token_crypto \<Rightarrow> string \<Rightarrow> string \<Rightarrow> string \<Rightarrow> string \<Rightarrow> int \<Rightarrow> token_status" where
  "verifyPolicyDetailConsumerToken cr token publicKeyHex targetNodeId intent nowSec =
     (case split_on (CHR ''.'') token of
        [payload, sigHex] \<Rightarrow>
          if length sigHex \<noteq> 128 then TokenInvalid
          else if tk_key_length cr publicKeyHex \<noteq> 32 then TokenInvalid
          else if \<not> tk_verify cr publicKeyHex (''iicp:consumer-token:v1'' @ [newline] @ payload) sigHex then TokenInvalid
          else (case tk_parse cr payload of
             None \<Rightarrow> TokenInvalid
           | Some claims \<Rightarrow>
               if nullish claims then TokenInvalid
               else if own_property claims ''v'' \<noteq> jint 1 \<or> own_property claims ''aud'' \<noteq> JStr targetNodeId \<or>
                 own_property claims ''intent'' \<noteq> JStr intent \<or> (case own_property claims ''sub'' of JStr _ \<Rightarrow> False | _ \<Rightarrow> True)
               then TokenInvalid
               else if expired_claim (own_property claims ''exp'') nowSec then TokenExpired claims
               else TokenValid claims)
      | _ \<Rightarrow> TokenInvalid)"

definition nonempty_text :: "js \<Rightarrow> bool" where
  "nonempty_text v = (case v of JStr s \<Rightarrow> s \<noteq> [] | _ \<Rightarrow> False)"

definition disclosure_guards :: "js \<Rightarrow> (bool \<times> nat \<times> string) list" where
  "disclosure_guards context =
     (let auth = own_property context ''consumer_auth''; ticket = own_property context ''dispatch_ticket'' in
      [(auth = JStr ''missing'', 401, ''consumer_auth_required''),
       (auth \<noteq> JStr ''valid'' \<and> auth \<noteq> JStr ''expired'' \<and> auth \<noteq> JStr ''revoked'', 401, ''consumer_auth_invalid''),
       (auth = JStr ''expired'', 401, ''consumer_auth_expired''),
       (auth = JStr ''revoked'', 401, ''consumer_auth_revoked''),
       (ticket = JStr ''expired'', 401, ''dispatch_ticket_expired''),
       (ticket = JStr ''revoked'', 401, ''dispatch_ticket_revoked''),
       (ticket \<noteq> JUndef \<and> ticket \<noteq> JStr ''valid'', 401, ''dispatch_ticket_invalid''),
       (own_property context ''disclosure_allowed'' \<noteq> JBool True, 403, ''disclosure_forbidden'')])"

definition disclosure_binding :: "js \<Rightarrow> bool" where
  "disclosure_binding context =
     (nonempty_text (own_property context ''provider_node_id'') \<and>
      own_property context ''provider_node_id'' = own_property context ''consumer_target_node_id'' \<and>
      own_property context ''provider_node_id'' = own_property context ''ticket_target_node_id'' \<and>
      nonempty_text (own_property context ''consumer_intent'') \<and>
      own_property context ''consumer_intent'' = own_property context ''ticket_intent'' \<and>
      nonempty_text (own_property context ''manifest_sha256'') \<and>
      own_property context ''manifest_sha256'' = own_property context ''ticket_manifest_sha256'')"

definition disclosed_details :: "js \<Rightarrow> (string \<times> js) list" where
  "disclosed_details source =
     concat (map (\<lambda>field. case source of
         JObj kvs \<Rightarrow> (case map_of kvs field of Some v \<Rightarrow> [(field, v)] | None \<Rightarrow> [])
       | _ \<Rightarrow> []) POLICY_DETAIL_FIELDS)"

definition evaluatePolicyDetailDisclosure :: "js \<Rightarrow> nat \<times> string \<times> js option" where
  "evaluatePolicyDetailDisclosure context =
     (case first_failure (disclosure_guards context) of
        Some (status, reason) \<Rightarrow> (status, reason, None)
      | None \<Rightarrow>
          if \<not> disclosure_binding context then (404, ''resource_concealed'', None)
          else (200, ''compatible'',
            Some (JObj [(''profile'', JStr ''urn:iicp:profile:policy-detail-disclosure:v0''),
              (''manifest_sha256'', own_property context ''manifest_sha256''),
              (''details'', JObj (disclosed_details (own_property context ''details''))),
              (''claim_status'', JStr ''provider_declared'')])))"

section \<open>What the checks guarantee\<close>

lemma find_append: "find P (xs @ ys) = (case find P xs of None \<Rightarrow> find P ys | Some x \<Rightarrow> Some x)"
  by (induction xs) auto

lemma find_list_ex: "find P xs = None \<longleftrightarrow> \<not> list_ex P xs"
  by (induction xs) auto

lemma find_Some_in: "find P xs = Some x \<Longrightarrow> x \<in> set xs \<and> P x"
  by (induction xs) (auto split: if_splits)

text \<open>
  The client's intent guard. It refuses exactly the intents classified as prohibited or high
  risk, names the category it classified and a rule of the list one of whose fragments occurs in
  the trimmed, lower-cased intent; the reason it gives for a prohibited intent is the one
  \<open>prohibitedIntentReason\<close> reports, and that reports nothing for any other intent.
\<close>

lemma intent_guard_exact:
  "case ensureIntentAllowed intent of
     None \<Rightarrow> classifyIntent intent \<in> {TransparencyRisk, MinimalOrGeneral} \<and> prohibitedIntentReason intent = None
   | Some (reason, category) \<Rightarrow>
       category = classifyIntent intent \<and> category \<in> {Prohibited, HighRisk} \<and>
       prohibitedIntentReason intent = (if category = Prohibited then Some reason else None) \<and>
       (\<exists>rule f a b. rule \<in> set (PROHIBITED_INTENT_RULES @ HIGH_RISK_INTENT_RULES) \<and> f \<in> set (fragments rule) \<and>
          js_lower (js_trim intent) = a @ f @ b \<and> reason = rule_reason rule)"
proof -
  let ?m = "rule_matches (normalize_intent intent)"
  have hit: "\<exists>f a b. f \<in> set (fragments rule) \<and> js_lower (js_trim intent) = a @ f @ b" if "?m rule" for rule
    using that by (auto simp: rule_matches_def list_ex_iff contains_iff normalize_intent_def)
  consider (p) rule where "find ?m PROHIBITED_INTENT_RULES = Some rule"
    | (h) rule where "find ?m PROHIBITED_INTENT_RULES = None" "find ?m HIGH_RISK_INTENT_RULES = Some rule"
    | (n) "find ?m PROHIBITED_INTENT_RULES = None" "find ?m HIGH_RISK_INTENT_RULES = None"
    by fastforce
  then show ?thesis
  proof cases
    case p
    then have "list_ex ?m PROHIBITED_INTENT_RULES" using find_list_ex [of ?m PROHIBITED_INTENT_RULES] by auto
    then show ?thesis using p find_Some_in [OF p] hit [of rule]
      by (auto simp: ensureIntentAllowed_def classifyIntent_def prohibitedIntentReason_def find_append Let_def)
  next
    case h
    then have "\<not> list_ex ?m PROHIBITED_INTENT_RULES" "list_ex ?m HIGH_RISK_INTENT_RULES"
      using find_list_ex [of ?m PROHIBITED_INTENT_RULES] find_list_ex [of ?m HIGH_RISK_INTENT_RULES] by auto
    then show ?thesis using h find_Some_in [OF h(2)] hit [of rule]
      by (auto simp: ensureIntentAllowed_def classifyIntent_def prohibitedIntentReason_def find_append Let_def)
  next
    case n
    then have "\<not> list_ex ?m PROHIBITED_INTENT_RULES" "\<not> list_ex ?m HIGH_RISK_INTENT_RULES"
      using find_list_ex [of ?m PROHIBITED_INTENT_RULES] find_list_ex [of ?m HIGH_RISK_INTENT_RULES] by auto
    then show ?thesis using n
      by (auto simp: ensureIntentAllowed_def classifyIntent_def prohibitedIntentReason_def find_append Let_def)
  qed
qed

text \<open>A dangerous tool is let through only with every precaution in place.\<close>

lemma dangerous_tools_need_precautions:
  "allows p toolName \<Longrightarrow> toolRiskLabel toolName \<noteq> ''benign_read'' \<Longrightarrow>
   tp_allowDangerousTools p \<and> tp_authzPolicy p \<noteq> [] \<and> tp_auditRedaction p"
  by (auto simp: allows_def dangerousReady_def)

text \<open>
  Evidence is accepted exactly when every required kind is known and has a verified record of
  that kind that has not expired, under the same manifest.
\<close>

lemma evidence_accepted_iff:
  "evaluatePolicyOperationalEvidence requirement context evaluatedAt = None \<longleftrightarrow>
   strict_eq (own_property requirement ''manifest_sha256'') (own_property context ''manifest_sha256'') \<and>
   (\<forall>kind \<in> set (text_items (own_property requirement ''required_evidence'')). kind \<in> set KNOWN_EVIDENCE \<and>
      (\<exists>item \<in> set (evidence_records context). own_property item ''type'' = JStr kind \<and>
         own_property item ''verified'' = JBool True \<and> expires_after evaluatedAt item))"
  unfolding evaluatePolicyOperationalEvidence_def Let_def
  by (auto simp: kind_refusal_def list_ex_iff list_all_iff Let_def filter_empty_conv)

text \<open>Details are disclosed only for the bound provider, and only the listed fields of them.\<close>

lemma disclosed_fields: "fst ` set (disclosed_details source) \<subseteq> set POLICY_DETAIL_FIELDS"
  by (auto simp: disclosed_details_def split: js.splits option.splits)

lemma disclosure_needs_authority:
  "evaluatePolicyDetailDisclosure context = (200, reason, body) \<Longrightarrow>
   own_property context ''consumer_auth'' = JStr ''valid'' \<and>
   own_property context ''disclosure_allowed'' = JBool True \<and> disclosure_binding context"
  by (auto simp: evaluatePolicyDetailDisclosure_def disclosure_guards_def Let_def
      dest: first_failure_Some split: option.splits if_splits)

text \<open>The hole in the rank tables: an inherited name as the declared level passes every requirement.\<close>

lemma inherited_approval_passes:
  "own_property declaration ''approval'' = JStr ''constructor'' \<Longrightarrow> \<not> rank_refused rt requirement declaration"
  by (auto simp: rank_refused_def table_rank_def APPROVAL_RANK_def inherited_names_def split: js.splits)

lemma inherited_risk_passes:
  "own_property declaration ''tool_risk'' = JStr ''constructor'' \<Longrightarrow> \<not> risk_refused rt requirement declaration"
  by (auto simp: risk_refused_def table_rank_def TOOL_RISK_RANK_def inherited_names_def split: js.splits)

end
