(* ===== verification/NativeRpc.thy ===== *)
theory NativeRpc imports ResponseSequence FrameStream begin

text \<open>
  The operations over the native transport, \<open>src/iicp_tcp.ts\<close>: the handlers of
  \<open>IicpTcpServer\<close> and the calls of \<open>IicpTcpClient\<close>. The CBOR codec, \<open>JSON\<close> and the
  operator's handlers are parameters. The property at the end puts the two sides together: a
  call gives back what the handler answered.
\<close>

section \<open>The codec\<close>

record codec =
  cb_encode :: "js \<Rightarrow> byte list option"
  cb_decode :: "byte list \<Rightarrow> js option"
  cb_stringify :: "js \<Rightarrow> byte list option"
  cb_parse :: "byte list \<Rightarrow> js option"

definition frame_value :: "codec \<Rightarrow> MsgType \<Rightarrow> js \<Rightarrow> byte list option" where
  \<comment> \<open>\<open>encodeFrame(type, await encodeCbor(v))\<close>; \<open>None\<close> when one of them throws\<close>
  "frame_value cb m v =
     (case cb_encode cb v of
        None \<Rightarrow> None
      | Some payload \<Rightarrow> (case encodeFrame (msg_code m) payload 0 of Inl _ \<Rightarrow> None | Inr f \<Rightarrow> Some f))"

definition encodeAck :: "string option \<Rightarrow> js" where
  "encodeAck nodeId =
     JMap ((jint 1, jint FRAMING_VERSION) # (case nodeId of None \<Rightarrow> [] | Some n \<Rightarrow> [(jint 2, JStr n)]))"

definition encodePong :: "byte list option \<Rightarrow> js" where
  "encodePong echo = JMap (case echo of None \<Rightarrow> [] | Some b \<Rightarrow> [(jint 1, JBytes b)])"

definition encodeResponse :: "string \<Rightarrow> string option \<Rightarrow> byte list option \<Rightarrow> (number \<times> string) option \<Rightarrow> js" where
  \<comment> \<open>the error's code and message are given together\<close>
  "encodeResponse sessionId callId result error =
     JMap ([(jint 2, JStr sessionId)] @
       (case callId of None \<Rightarrow> [] | Some c \<Rightarrow> [(jint 15, JStr c)]) @
       (case result of None \<Rightarrow> [] | Some r \<Rightarrow> [(jint 5, JBytes r)]) @
       (case error of None \<Rightarrow> [] | Some (code, message) \<Rightarrow> [(jint 100, JNum code), (jint 101, JStr message)]))"

definition encodeDiscoverResponse :: "string \<Rightarrow> string \<Rightarrow> js list \<Rightarrow> js" where
  "encodeDiscoverResponse sessionId intent nodes =
     JMap [(jint 2, JStr sessionId), (jint 3, JStr intent), (jint 20, JArr nodes)]"

section \<open>The server\<close>

record tcp_server =
  sv_nodeId :: "string option"
  sv_handler :: "(string \<Rightarrow> string \<Rightarrow> js \<Rightarrow> js option) option"
  sv_streamingHandler :: "(stream_args \<Rightarrow> string \<Rightarrow> js \<Rightarrow> stream_item list \<times> bool) option"
  sv_discoverLookup :: "(string \<Rightarrow> js list option) option"

text \<open>
  What a handler did: whether the connection stays open (\<open>None\<close>: it threw, and the loop destroys
  the connection), the frames it wrote, and the gate.
\<close>

record dispatch_result =
  dr_keepOpen :: "bool option"
  dr_written :: "byte list list"
  dr_gate :: "concurrency_gate option"

definition reply :: "codec \<Rightarrow> MsgType \<Rightarrow> js \<Rightarrow> concurrency_gate option \<Rightarrow> dispatch_result" where
  "reply cb m v gate =
     (case frame_value cb m v of
        None \<Rightarrow> \<lparr>dr_keepOpen = None, dr_written = [], dr_gate = gate\<rparr>
      | Some f \<Rightarrow> \<lparr>dr_keepOpen = Some True, dr_written = [f], dr_gate = gate\<rparr>)"

definition no_reply :: "bool \<Rightarrow> concurrency_gate option \<Rightarrow> dispatch_result" where
  "no_reply keepOpen gate = \<lparr>dr_keepOpen = Some keepOpen, dr_written = [], dr_gate = gate\<rparr>"

definition onInit :: "codec \<Rightarrow> tcp_server \<Rightarrow> byte list \<Rightarrow> concurrency_gate option \<Rightarrow> dispatch_result" where
  "onInit cb sv payload gate =
     (case cb_decode cb payload of
        None \<Rightarrow> no_reply False gate
      | Some body \<Rightarrow>
          if numericField body 1 \<noteq> jint FRAMING_VERSION then no_reply False gate
          else reply cb ACK (encodeAck (sv_nodeId sv)) gate)"

definition pong_echo :: "codec \<Rightarrow> byte list \<Rightarrow> byte list option" where
  "pong_echo cb payload =
     (if payload = [] then None
      else case cb_decode cb payload of
        None \<Rightarrow> None
      | Some body \<Rightarrow>
          if is_object body \<and> has_numeric body 1
          then (case numeric_property body 1 of JBytes b \<Rightarrow> Some b | _ \<Rightarrow> None)
          else None)"

definition onPing :: "codec \<Rightarrow> byte list \<Rightarrow> concurrency_gate option \<Rightarrow> dispatch_result" where
  "onPing cb payload gate = reply cb PONG (encodePong (pong_echo cb payload)) gate"

definition field_text :: "js_runtime \<Rightarrow> js \<Rightarrow> nat \<Rightarrow> string \<Rightarrow> string" where
  \<comment> \<open>\<open>String(body[k] ?? d)\<close>\<close>
  "field_text rt body k d = String_of rt (coalesce (numeric_property body k) (JStr d))"

definition onDiscover ::
  "codec \<Rightarrow> js_runtime \<Rightarrow> tcp_server \<Rightarrow> byte list \<Rightarrow> concurrency_gate option \<Rightarrow> dispatch_result" where
  "onDiscover cb rt sv payload gate =
     (let (sessionId, intent) =
            (case cb_decode cb payload of
               Some body \<Rightarrow>
                 if is_object body then (field_text rt body 2 ''unknown'', field_text rt body 3 []) else (''unknown'', [])
             | None \<Rightarrow> (''unknown'', []));
          nodes =
            (case sv_discoverLookup sv of
               Some lookup \<Rightarrow> if intent \<noteq> [] then (case lookup intent of Some ns \<Rightarrow> ns | None \<Rightarrow> []) else []
             | None \<Rightarrow> [])
      in reply cb RESPONSE (encodeDiscoverResponse sessionId intent nodes) gate)"

subsection \<open>CALL\<close>

record call_request =
  cr_sessionId :: string
  cr_callId :: "string option"
  cr_intent :: string
  cr_taskId :: "string option"
  cr_payload :: js

definition text_field :: "js \<Rightarrow> nat \<Rightarrow> string option" where
  "text_field body k = (case numeric_property body k of JStr s \<Rightarrow> Some s | _ \<Rightarrow> None)"

definition read_payload :: "codec \<Rightarrow> js \<Rightarrow> js" where
  \<comment> \<open>a value that no buffer can be made of throws after the other fields were read\<close>
  "read_payload cb raw =
     (let parsed = (\<lambda>bs. if bs = [] then JObj [] else
            (case cb_parse cb bs of
               Some (JObj kvs) \<Rightarrow> JObj kvs
             | _ \<Rightarrow> JObj []))
      in case raw of
           JBytes bs \<Rightarrow> parsed bs
         | JStr s \<Rightarrow> parsed (map of_char s)
         | JArr xs \<Rightarrow> raw
         | JObj kvs \<Rightarrow> raw
         | JMap kvs \<Rightarrow> raw
         | _ \<Rightarrow> JObj [])"

definition read_call :: "codec \<Rightarrow> js_runtime \<Rightarrow> byte list \<Rightarrow> call_request" where
  "read_call cb rt payload =
     (case cb_decode cb payload of
        Some body \<Rightarrow>
          if is_object body
          then \<lparr>cr_sessionId = field_text rt body 2 ''unknown'', cr_callId = text_field body 15,
                cr_intent = field_text rt body 3 [], cr_taskId = text_field body 24,
                cr_payload = read_payload cb (numeric_property body 5)\<rparr>
          else \<lparr>cr_sessionId = ''unknown'', cr_callId = None, cr_intent = [], cr_taskId = None, cr_payload = JObj []\<rparr>
      | None \<Rightarrow> \<lparr>cr_sessionId = ''unknown'', cr_callId = None, cr_intent = [], cr_taskId = None, cr_payload = JObj []\<rparr>)"

definition handler_failed :: "byte list option \<times> (number \<times> string) option" where
  "handler_failed = (None, Some (Fin 500, ''handler raised exception''))"

definition runHandler ::
  "codec \<Rightarrow> js_runtime \<Rightarrow> js option \<Rightarrow> byte list option \<times> (number \<times> string) option" where
  \<comment> \<open>the result and the error; the outcome \<open>None\<close> is a handler that throws\<close>
  "runHandler cb rt outcome =
     (case outcome of
        None \<Rightarrow> handler_failed
      | Some v \<Rightarrow>
          if nullish v then handler_failed
          else if is_object v \<and> (case v of JObj kvs \<Rightarrow> map_of kvs ''error_code'' \<noteq> None | _ \<Rightarrow> False)
          then (None, Some (Number_of rt (own_property v ''error_code''),
                 String_of rt (coalesce (own_property v ''error_message'') (JStr ''handler error''))))
          else (case cb_encode cb (coalesce (own_property v ''result'') v) of
                  Some bs \<Rightarrow> (Some bs, None)
                | None \<Rightarrow> handler_failed))"

definition capacity_text :: "gate_error \<Rightarrow> string" where
  "capacity_text e =
     ''IICP-E021: max_concurrent='' @ digits (case e of CapacityExceeded m \<Rightarrow> nat m | _ \<Rightarrow> 0) @ '' reached''"

definition unaryCall ::
  "codec \<Rightarrow> js_runtime \<Rightarrow> tcp_server \<Rightarrow> call_request \<Rightarrow> concurrency_gate option \<Rightarrow>
   (byte list option \<times> (number \<times> string) option) \<times> concurrency_gate option" where
  "unaryCall cb rt sv cr gate =
     (case sv_handler sv of
        None \<Rightarrow> ((None, Some (Fin 503, ''no handler configured'')), gate)
      | Some handler \<Rightarrow>
          let answer = runHandler cb rt
                (handler (or_default (cr_callId cr) (cr_sessionId cr)) (cr_intent cr) (cr_payload cr)) in
          (case gate of
             None \<Rightarrow> (answer, None)
           | Some g \<Rightarrow>
               (case gate_acquire g of
                  Inl e \<Rightarrow> ((None, Some (Fin 429, capacity_text e)), Some g)
                | Inr g' \<Rightarrow> (answer, Some (gate_release g')))))"

definition streaming_call :: "tcp_server \<Rightarrow> call_request \<Rightarrow> bool" where
  "streaming_call sv cr =
     (sv_streamingHandler sv \<noteq> None \<and> (case cr_taskId cr of Some t \<Rightarrow> t \<noteq> [] | None \<Rightarrow> False))"

definition onCall ::
  "codec \<Rightarrow> js_runtime \<Rightarrow> tcp_server \<Rightarrow> byte list \<Rightarrow> concurrency_gate option \<Rightarrow> dispatch_result" where
  "onCall cb rt sv payload gate =
     (let cr = read_call cb rt payload in
      if streaming_call sv cr then
        let args = \<lparr>sa_sessionId = cr_sessionId cr, sa_callId = or_default (cr_callId cr) [], sa_taskId = the (cr_taskId cr)\<rparr>;
            (ok, written, gate) = onStreamCall (\<lambda>v. frame_value cb RESPONSE v \<noteq> None) args
               (the (sv_streamingHandler sv) args (cr_intent cr) (cr_payload cr)) gate
        in \<lparr>dr_keepOpen = (if ok then Some True else None),
            dr_written = map (\<lambda>v. the (frame_value cb RESPONSE v)) written, dr_gate = gate\<rparr>
      else
        let ((result, error), gate) = unaryCall cb rt sv cr gate
        in reply cb RESPONSE (encodeResponse (cr_sessionId cr) (cr_callId cr) result error) gate)"

definition dispatch_frame ::
  "codec \<Rightarrow> js_runtime \<Rightarrow> tcp_server \<Rightarrow> IicpFrame \<Rightarrow> concurrency_gate option \<Rightarrow> dispatch_result" where
  "dispatch_frame cb rt sv frame gate =
     (let m = fr_msgType frame; payload = fr_payload frame in
      if m = msg_code INIT then onInit cb sv payload gate
      else if m = msg_code PING then onPing cb payload gate
      else if m = msg_code DISCOVER then onDiscover cb rt sv payload gate
      else if m = msg_code CALL then onCall cb rt sv payload gate
      else if m = msg_code CLOSE then no_reply False gate
      else no_reply True gate)"

section \<open>The client\<close>

datatype rpc_error =
    NotConnected | HandshakeIncomplete | TaskIdRequired
  | Unreadable client_error
  | UnexpectedType int
  | UnsupportedAck js
  | ServerError js string
  | BrokenSequence sequence_error
  | MissingLifecycle
  | CodecError

record tcp_client =
  cl_connected :: bool
  cl_framingVersion :: "int option"
  cl_peerNodeId :: "string option"

text \<open>
  One exchange: a frame is written and \<open>_readFrame\<close> gives the next one. \<open>io\<close> is the connection
  (theory \<open>FrameStream\<close> has the reader).
\<close>

type_synonym exchange_io = "byte list \<Rightarrow> client_error + int \<times> byte list"

definition exchange_frame :: "codec \<Rightarrow> exchange_io \<Rightarrow> MsgType \<Rightarrow> js \<Rightarrow> MsgType \<Rightarrow> rpc_error + byte list" where
  "exchange_frame cb io m v expected =
     (case frame_value cb m v of
        None \<Rightarrow> Inl CodecError
      | Some f \<Rightarrow>
          (case io f of
             Inl e \<Rightarrow> Inl (Unreadable e)
           | Inr (msgType, payload) \<Rightarrow>
               if msgType \<noteq> msg_code expected then Inl (UnexpectedType msgType) else Inr payload))"

definition decoded :: "codec \<Rightarrow> byte list \<Rightarrow> rpc_error + js" where
  "decoded cb payload = (case cb_decode cb payload of None \<Rightarrow> Inl CodecError | Some v \<Rightarrow> Inr v)"

definition client_handshake ::
  "codec \<Rightarrow> exchange_io \<Rightarrow> tcp_client \<Rightarrow> rpc_error option \<times> tcp_client" where
  "client_handshake cb io cl =
     (if \<not> cl_connected cl then (Some NotConnected, cl)
      else case exchange_frame cb io INIT (JMap [(jint 1, jint FRAMING_VERSION)]) ACK of
        Inl e \<Rightarrow> (Some e, cl)
      | Inr payload \<Rightarrow>
          (case (if payload = [] then Inr JUndef else decoded cb payload) of
             Inl e \<Rightarrow> (Some e, cl)
           | Inr body \<Rightarrow>
               let version = numeric_property body 1 in
               if version \<noteq> jint FRAMING_VERSION then (Some (UnsupportedAck version), cl)
               else (None, cl\<lparr>cl_framingVersion := Some FRAMING_VERSION,
                     cl_peerNodeId := (case numeric_property body 2 of JStr n \<Rightarrow> Some n | _ \<Rightarrow> cl_peerNodeId cl)\<rparr>)))"

definition requireHandshake :: "tcp_client \<Rightarrow> rpc_error option" where
  "requireHandshake cl =
     (if \<not> cl_connected cl then Some NotConnected
      else if cl_framingVersion cl \<noteq> Some FRAMING_VERSION then Some HandshakeIncomplete
      else None)"

definition client_ping ::
  "codec \<Rightarrow> exchange_io \<Rightarrow> tcp_client \<Rightarrow> byte list option \<Rightarrow> rpc_error + byte list option" where
  "client_ping cb io cl echo =
     (case requireHandshake cl of
        Some e \<Rightarrow> Inl e
      | None \<Rightarrow>
          (case exchange_frame cb io PING (encodePong echo) PONG of
             Inl e \<Rightarrow> Inl e
           | Inr payload \<Rightarrow>
               if payload = [] then Inr None
               else (case decoded cb payload of
                   Inl e \<Rightarrow> Inl e
                 | Inr body \<Rightarrow> Inr (case numeric_property body 1 of JBytes b \<Rightarrow> Some b | _ \<Rightarrow> None))))"

definition client_discover ::
  "codec \<Rightarrow> exchange_io \<Rightarrow> tcp_client \<Rightarrow> string \<Rightarrow> string \<Rightarrow> rpc_error + js list" where
  "client_discover cb io cl intent sessionId =
     (case requireHandshake cl of
        Some e \<Rightarrow> Inl e
      | None \<Rightarrow>
          (case exchange_frame cb io DISCOVER (JMap [(jint 2, JStr sessionId), (jint 3, JStr intent)]) RESPONSE of
             Inl e \<Rightarrow> Inl e
           | Inr payload \<Rightarrow>
               (case decoded cb payload of
                  Inl e \<Rightarrow> Inl e
                | Inr body \<Rightarrow> Inr (case numeric_property body 20 of JArr ns \<Rightarrow> ns | _ \<Rightarrow> []))))"

definition call_body :: "string \<Rightarrow> string \<Rightarrow> byte list \<Rightarrow> string option \<Rightarrow> string option \<Rightarrow> string option \<Rightarrow> js" where
  "call_body sessionId intent payload callId taskId idempotencyKey =
     JMap ([(jint 2, JStr sessionId), (jint 3, JStr intent), (jint 5, JBytes payload)] @
       (case callId of None \<Rightarrow> [] | Some c \<Rightarrow> [(jint 15, JStr c)]) @
       (case taskId of None \<Rightarrow> [] | Some t \<Rightarrow> [(jint 24, JStr t)]) @
       (case idempotencyKey of None \<Rightarrow> [] | Some k \<Rightarrow> [(jint 16, JStr k)]))"

definition call_result :: "codec \<Rightarrow> js_runtime \<Rightarrow> js \<Rightarrow> rpc_error + js" where
  "call_result cb rt resp =
     (let error = numeric_property resp 100; result = numeric_property resp 5 in
      if error \<noteq> JUndef then Inl (ServerError error (String_of rt (coalesce (numeric_property resp 101) (JStr []))))
      else if nullish result then Inr (JObj [])
      else case result of
        JBytes bs \<Rightarrow>
          (case decoded cb bs of
             Inl e \<Rightarrow> Inl e
           | Inr v \<Rightarrow> Inr (if is_object v then v else JObj [(''value'', v)]))
      | _ \<Rightarrow> Inr (if is_object result then result else JObj [(''value'', result)]))"

definition client_call ::
  "codec \<Rightarrow> js_runtime \<Rightarrow> exchange_io \<Rightarrow> tcp_client \<Rightarrow> string \<Rightarrow> js \<Rightarrow> string option \<Rightarrow> string option \<Rightarrow> rpc_error + js" where
  "client_call cb rt io cl intent payload sessionId callId =
     (case requireHandshake cl of
        Some e \<Rightarrow> Inl e
      | None \<Rightarrow>
          (case cb_stringify cb payload of
             None \<Rightarrow> Inl CodecError
           | Some txt \<Rightarrow>
               (case exchange_frame cb io CALL (call_body (or_default sessionId ''call-1'') intent txt callId None None) RESPONSE of
                  Inl e \<Rightarrow> Inl e
                | Inr bs \<Rightarrow> (case decoded cb bs of Inl e \<Rightarrow> Inl e | Inr resp \<Rightarrow> call_result cb rt resp))))"

section \<open>Streams\<close>

text \<open>
  The loop of \<open>streamCall\<close> over what \<open>_readFrame\<close> gives: the frames it yields and how it ends
  (\<open>None\<close>: it still waits; \<open>Some None\<close>: it returns). The socket is destroyed when it ends without a
  terminal frame.
\<close>

fun stream_frames ::
  "codec \<Rightarrow> js_runtime \<Rightarrow> (client_error + int \<times> byte list) list \<Rightarrow> response_sequence \<Rightarrow>
   response_frame list \<times> rpc_error option option" where
  "stream_frames cb rt [] sq = ([], None)"
| "stream_frames cb rt (Inl e # rs) sq =
     ([], Some (Some (case sequence_finish sq of Some le \<Rightarrow> BrokenSequence le | None \<Rightarrow> Unreadable e)))"
| "stream_frames cb rt (Inr (msgType, payload) # rs) sq =
     (if msgType \<noteq> msg_code RESPONSE then ([], Some (Some (UnexpectedType msgType)))
      else case decoded cb payload of
        Inl e \<Rightarrow> ([], Some (Some e))
      | Inr v \<Rightarrow>
          (case decodeLifecycleResponse rt v of
             Inl _ \<Rightarrow> ([], Some (Some MissingLifecycle))
           | Inr frame \<Rightarrow>
               (case sequence_accept frame sq of
                  Inl e \<Rightarrow> ([], Some (Some (BrokenSequence e)))
                | Inr sq' \<Rightarrow>
                    if rf_is_final frame
                    then ([frame], Some (map_option BrokenSequence (sequence_finish sq')))
                    else (let (frames, outcome) = stream_frames cb rt rs sq' in (frame # frames, outcome)))))"

definition client_streamCall ::
  "codec \<Rightarrow> js_runtime \<Rightarrow> (byte list \<Rightarrow> (client_error + int \<times> byte list) list) \<Rightarrow> tcp_client \<Rightarrow> string \<Rightarrow> js \<Rightarrow>
   string \<Rightarrow> string \<Rightarrow> string \<Rightarrow> string option \<Rightarrow> response_frame list \<times> rpc_error option option" where
  \<comment> \<open>the session id and the call id are those after their defaults\<close>
  "client_streamCall cb rt io cl intent payload taskId sessionId callId idempotencyKey =
     (case requireHandshake cl of
        Some e \<Rightarrow> ([], Some (Some e))
      | None \<Rightarrow>
          if taskId = [] then ([], Some (Some TaskIdRequired))
          else (case cb_stringify cb payload of
             None \<Rightarrow> ([], Some (Some CodecError))
           | Some txt \<Rightarrow>
               (case frame_value cb CALL (call_body sessionId intent txt (Some callId) (Some taskId) idempotencyKey) of
                  None \<Rightarrow> ([], Some (Some CodecError))
                | Some f \<Rightarrow> stream_frames cb rt (io f) (new_sequence sessionId callId taskId))))"

definition client_close :: "tcp_client \<Rightarrow> byte list option \<times> tcp_client" where
  \<comment> \<open>what is written; a client without a session destroys its socket\<close>
  "client_close cl =
     (if \<not> cl_connected cl then (None, cl)
      else if cl_framingVersion cl \<noteq> Some FRAMING_VERSION then (None, cl\<lparr>cl_connected := False\<rparr>)
      else (case encodeFrame (msg_code CLOSE) [] 0 of Inr f \<Rightarrow> (Some f, cl) | Inl _ \<Rightarrow> (None, cl)))"

section \<open>Both ends\<close>

text \<open>
  What a decoded value looks like: CBOR maps become plain objects keyed by the text of their
  keys, as the codec documents for its default settings.
\<close>

definition key_text :: "js \<Rightarrow> string" where
  "key_text k = (case k of JStr s \<Rightarrow> s | JNum (Fin q) \<Rightarrow> digits (nat \<lfloor>q\<rfloor>) | _ \<Rightarrow> [])"

fun cbor_view :: "js \<Rightarrow> js" where
  "cbor_view (JMap kvs) = JObj (map (\<lambda>(k, v). (key_text k, cbor_view v)) kvs)"
| "cbor_view (JObj kvs) = JObj (map (\<lambda>(k, v). (k, cbor_view v)) kvs)"
| "cbor_view (JArr xs) = JArr (map cbor_view xs)"
| "cbor_view v = v"

definition faithful_codec :: "codec \<Rightarrow> bool" where
  "faithful_codec cb = (\<forall>v bs. cb_encode cb v = Some bs \<longrightarrow> cb_decode cb bs = Some (cbor_view v) \<and> bs \<noteq> [])"

definition server_io ::
  "codec \<Rightarrow> js_runtime \<Rightarrow> tcp_server \<Rightarrow> concurrency_gate option \<Rightarrow> exchange_io" where
  \<comment> \<open>the connection as the client sees it: its frame is dispatched, the first written frame comes back\<close>
  "server_io cb rt sv gate f =
     (case decodeFrame f of
        Inl _ \<Rightarrow> Inl ConnectionClosed
      | Inr (frame, _) \<Rightarrow>
          (case dr_written (dispatch_frame cb rt sv frame gate) of
             [] \<Rightarrow> Inl ConnectionClosed
           | w # _ \<Rightarrow> (case decodeFrame w of
                 Inl _ \<Rightarrow> Inl ConnectionClosed
               | Inr (fr, _) \<Rightarrow> Inr (fr_msgType fr, fr_payload fr))))"

definition has_error_code :: "js \<Rightarrow> bool" where
  "has_error_code v = (case v of JObj kvs \<Rightarrow> map_of kvs ''error_code'' \<noteq> None | _ \<Rightarrow> False)"

text \<open>What a call should give back for what the handler did.\<close>

definition rpc_spec :: "codec \<Rightarrow> js_runtime \<Rightarrow> js option \<Rightarrow> rpc_error + js" where
  "rpc_spec cb rt outcome =
     (let failed = Inl (ServerError (jint 500) ''handler raised exception'') in
      case outcome of
        None \<Rightarrow> failed
      | Some v \<Rightarrow>
          if nullish v then failed
          else if has_error_code v
          then Inl (ServerError (JNum (Number_of rt (own_property v ''error_code'')))
                 (String_of rt (coalesce (own_property v ''error_message'') (JStr ''handler error''))))
          else let r = coalesce (own_property v ''result'') v; w = cbor_view r in
            if cb_encode cb r = None then failed
            else Inr (if is_object w then w else JObj [(''value'', w)]))"

lemma frame_value_decode:
  assumes "frame_value cb m v = Some f"
  shows "\<exists>bs. cb_encode cb v = Some bs \<and> decodeFrame f =
    Inr (\<lparr>fr_version = FRAMING_VERSION, fr_msgType = msg_code m, fr_flags = 0, fr_payload = bs\<rparr>, length f)"
  using assms decode_encodeFrame [where rest = "[]"]
  by (auto simp: frame_value_def split: option.splits sum.splits)

lemma exchange_with_server:
  assumes "faithful_codec cb"
    and "frame_value cb m v \<noteq> None" and "frame_value cb m' v' \<noteq> None"
    and "\<And>bs. cb_encode cb v = Some bs \<Longrightarrow> dr_written (dispatch_frame cb rt sv
        \<lparr>fr_version = FRAMING_VERSION, fr_msgType = msg_code m, fr_flags = 0, fr_payload = bs\<rparr> gate) =
      dr_written (reply cb m' v' g')"
  shows "\<exists>bs. exchange_frame cb (server_io cb rt sv gate) m v m' = Inr bs \<and>
    cb_decode cb bs = Some (cbor_view v') \<and> bs \<noteq> []"
proof -
  obtain f f' where f: "frame_value cb m v = Some f" and f': "frame_value cb m' v' = Some f'"
    using assms(2,3) by auto
  obtain bs bs' where bs: "cb_encode cb v = Some bs" "decodeFrame f =
      Inr (\<lparr>fr_version = FRAMING_VERSION, fr_msgType = msg_code m, fr_flags = 0, fr_payload = bs\<rparr>, length f)"
    and bs': "cb_encode cb v' = Some bs'" "decodeFrame f' =
      Inr (\<lparr>fr_version = FRAMING_VERSION, fr_msgType = msg_code m', fr_flags = 0, fr_payload = bs'\<rparr>, length f')"
    using frame_value_decode [OF f] frame_value_decode [OF f'] by auto
  then have "exchange_frame cb (server_io cb rt sv gate) m v m' = Inr bs'"
    using assms(4) [OF bs(1)] f f' by (simp add: exchange_frame_def server_io_def reply_def)
  then show ?thesis using assms(1) bs' by (auto simp: faithful_codec_def)
qed

lemma small_digits:
  "digits (Suc 0) = ''1''" "digits 1 = ''1''" "digits 2 = ''2''" "digits 3 = ''3''" "digits 5 = ''5''" "digits 15 = ''15''" "digits 16 = ''16''"
  "digits 20 = ''20''" "digits 24 = ''24''" "digits 100 = ''100''" "digits 101 = ''101''"
  by (simp_all add: digits.simps char_of_def bit_0)

lemma key_text_jint [simp]:
  "key_text (JNum (Fin 1)) = ''1''" "key_text (JNum (Fin (numeral n))) = digits (numeral n)"
  using small_digits(2) by (simp_all add: key_text_def)

lemma read_call_body:
  assumes "cb_decode cb bs = Some (cbor_view (call_body sid intent txt cid None None))"
    and "cb_parse cb txt = Some (JObj kvs)" and "txt \<noteq> []"
  shows "read_call cb rt bs =
    \<lparr>cr_sessionId = sid, cr_callId = cid, cr_intent = intent, cr_taskId = None, cr_payload = JObj kvs\<rparr>"
  using assms by (cases cid)
    (simp_all add: read_call_def call_body_def field_text_def text_field_def read_payload_def small_digits Let_def)

lemma call_result_error:
  "call_result cb rt (cbor_view (encodeResponse sid cid None (Some (code, msg)))) = Inl (ServerError (JNum code) msg)"
  by (cases cid) (simp_all add: call_result_def encodeResponse_def small_digits Let_def)

lemma call_result_value:
  assumes "cb_decode cb bs = Some w"
  shows "call_result cb rt (cbor_view (encodeResponse sid cid (Some bs) None)) =
    Inr (if is_object w then w else JObj [(''value'', w)])"
  using assms by (cases cid)
    (simp_all add: call_result_def encodeResponse_def small_digits decoded_def nullish_def Let_def)

lemma handler_result_spec:
  assumes "faithful_codec cb" and "runHandler cb rt outcome = (result, error)"
  shows "call_result cb rt (cbor_view (encodeResponse sid cid result error)) = rpc_spec cb rt outcome"
proof (cases outcome)
  case None
  then show ?thesis using assms(2) call_result_error by (auto simp: runHandler_def handler_failed_def rpc_spec_def)
next
  case (Some v)
  let ?r = "coalesce (own_property v ''result'') v"
  have e: "is_object v \<and> (case v of JObj kvs \<Rightarrow> map_of kvs ''error_code'' \<noteq> None | _ \<Rightarrow> False) \<longleftrightarrow> has_error_code v"
    by (cases v) (auto simp: has_error_code_def)
  consider "nullish v" | "\<not> nullish v" "has_error_code v" | "\<not> nullish v" "\<not> has_error_code v" by blast
  then show ?thesis
  proof cases
    case 3
    show ?thesis
    proof (cases "cb_encode cb ?r")
      case None
      then show ?thesis using 3 Some assms(2) call_result_error e
        by (auto simp: runHandler_def handler_failed_def rpc_spec_def Let_def)
    next
      case (Some bs)
      then have "cb_decode cb bs = Some (cbor_view ?r)" using assms(1) by (simp add: faithful_codec_def)
      then show ?thesis using 3 Some \<open>outcome = Some v\<close> assms(2) e call_result_value
        by (auto simp: runHandler_def rpc_spec_def Let_def)
    qed
  qed (use Some assms(2) call_result_error e in
      \<open>auto simp: runHandler_def handler_failed_def rpc_spec_def\<close>)
qed

lemma msg_codes_distinct [simp]:
  "msg_code CALL \<noteq> msg_code INIT" "msg_code CALL \<noteq> msg_code PING" "msg_code CALL \<noteq> msg_code DISCOVER"
  by simp_all

lemma handshake_with_server:
  assumes "faithful_codec cb" and "cl_connected cl"
    and "frame_value cb INIT (JMap [(jint 1, jint FRAMING_VERSION)]) \<noteq> None"
    and "frame_value cb ACK (encodeAck (sv_nodeId sv)) \<noteq> None"
  shows "client_handshake cb (server_io cb rt sv gate) cl =
    (None, cl\<lparr>cl_framingVersion := Some FRAMING_VERSION,
       cl_peerNodeId := (case sv_nodeId sv of Some n \<Rightarrow> Some n | None \<Rightarrow> cl_peerNodeId cl)\<rparr>)"
proof -
  have "dr_written (dispatch_frame cb rt sv
        \<lparr>fr_version = FRAMING_VERSION, fr_msgType = msg_code INIT, fr_flags = 0, fr_payload = bs\<rparr> gate) =
      dr_written (reply cb ACK (encodeAck (sv_nodeId sv)) gate)"
    if "cb_encode cb (JMap [(jint 1, jint FRAMING_VERSION)]) = Some bs" for bs
    using that assms(1)
    by (simp add: dispatch_frame_def onInit_def faithful_codec_def numericField_def FRAMING_VERSION_def small_digits Let_def)
  from exchange_with_server [OF assms(1,3,4) this]
  obtain bs where "exchange_frame cb (server_io cb rt sv gate) INIT (JMap [(jint 1, jint FRAMING_VERSION)]) ACK = Inr bs"
    "cb_decode cb bs = Some (cbor_view (encodeAck (sv_nodeId sv)))" "bs \<noteq> []" by blast
  then show ?thesis
    using assms(2) by (cases "sv_nodeId sv")
      (simp_all add: client_handshake_def decoded_def encodeAck_def FRAMING_VERSION_def small_digits Let_def)
qed

section \<open>Properties\<close>

text \<open>The answer of the server to a call, by the gate.\<close>

definition gated_spec :: "codec \<Rightarrow> js_runtime \<Rightarrow> concurrency_gate option \<Rightarrow> js option \<Rightarrow> rpc_error + js" where
  "gated_spec cb rt gate outcome =
     (case gate of
        None \<Rightarrow> rpc_spec cb rt outcome
      | Some g \<Rightarrow> (case gate_acquire g of
            Inl e \<Rightarrow> Inl (ServerError (jint 429) (capacity_text e))
          | Inr _ \<Rightarrow> rpc_spec cb rt outcome))"

lemma unaryCall_spec:
  assumes "faithful_codec cb" and "sv_handler sv = Some h" and "unaryCall cb rt sv cr gate = ((result, error), gate')"
  shows "call_result cb rt (cbor_view (encodeResponse sid cid result error)) =
    gated_spec cb rt gate (h (or_default (cr_callId cr) (cr_sessionId cr)) (cr_intent cr) (cr_payload cr))"
proof (cases gate)
  case None
  then show ?thesis using assms handler_result_spec [OF assms(1)] by (simp add: unaryCall_def gated_spec_def Let_def)
next
  case (Some g)
  then show ?thesis using assms handler_result_spec [OF assms(1)] call_result_error
    by (cases "gate_acquire g") (auto simp: unaryCall_def gated_spec_def Let_def)
qed

text \<open>
  C4 A call over the native transport, end to end: the handshake of a connected client with the
  server succeeds and learns the server's node id, and then a call with a JSON object gives back
  exactly what the handler made of the same session, intent and payload: its value, the server's
  error for a handler that throws or reports an error code, or the capacity error when the gate
  is full. Assumed is that the codec decodes what it encoded, and that the four frames fit.
\<close>

theorem rpc_end_to_end:
  fixes cb rt sv gate cl sessionId callId intent kvs
  defines "io \<equiv> server_io cb rt sv gate" and "sid \<equiv> or_default sessionId ''call-1''"
  defines "cr \<equiv> \<lparr>cr_sessionId = sid, cr_callId = callId, cr_intent = intent, cr_taskId = None, cr_payload = JObj kvs\<rparr>"
  assumes "faithful_codec cb" and "cl_connected cl" and "sv_handler sv = Some h"
    and "cb_stringify cb (JObj kvs) = Some txt" and "cb_parse cb txt = Some (JObj kvs)" and "txt \<noteq> []"
    and "frame_value cb INIT (JMap [(jint 1, jint FRAMING_VERSION)]) \<noteq> None"
    and "frame_value cb ACK (encodeAck (sv_nodeId sv)) \<noteq> None"
    and "frame_value cb CALL (call_body sid intent txt callId None None) \<noteq> None"
    and "(case unaryCall cb rt sv cr gate of ((result, error), _) \<Rightarrow>
           frame_value cb RESPONSE (encodeResponse sid callId result error) \<noteq> None)"
  shows "case client_handshake cb io cl of (error, cl') \<Rightarrow>
    error = None \<and>
    cl_peerNodeId cl' = (case sv_nodeId sv of Some n \<Rightarrow> Some n | None \<Rightarrow> cl_peerNodeId cl) \<and>
    client_call cb rt io cl' intent (JObj kvs) sessionId callId =
      gated_spec cb rt gate (h (or_default callId sid) intent (JObj kvs))"
proof -
  obtain result error gate' where u: "unaryCall cb rt sv cr gate = ((result, error), gate')"
    by (metis surj_pair)
  have fits: "frame_value cb RESPONSE (encodeResponse sid callId result error) \<noteq> None" using assms(13) u by simp
  have "dr_written (dispatch_frame cb rt sv
        \<lparr>fr_version = FRAMING_VERSION, fr_msgType = msg_code CALL, fr_flags = 0, fr_payload = bs\<rparr> gate) =
      dr_written (reply cb RESPONSE (encodeResponse sid callId result error) gate')"
    if "cb_encode cb (call_body sid intent txt callId None None) = Some bs" for bs
  proof -
    have "cb_decode cb bs = Some (cbor_view (call_body sid intent txt callId None None))"
      using that assms(4) by (simp add: faithful_codec_def)
    from read_call_body [OF this assms(8,9), of rt] have "read_call cb rt bs = cr" by (simp add: cr_def)
    then show ?thesis
      using u by (simp add: dispatch_frame_def onCall_def streaming_call_def cr_def Let_def)
  qed
  from exchange_with_server [OF assms(4,12) fits this]
  obtain bs where "exchange_frame cb io CALL (call_body sid intent txt callId None None) RESPONSE = Inr bs"
    "cb_decode cb bs = Some (cbor_view (encodeResponse sid callId result error))"
    unfolding io_def by blast
  moreover have "call_result cb rt (cbor_view (encodeResponse sid callId result error)) =
      gated_spec cb rt gate (h (or_default callId sid) intent (JObj kvs))"
    using unaryCall_spec [OF assms(4,6) u] by (cases callId) (simp_all add: cr_def)
  ultimately show ?thesis
    using handshake_with_server [OF assms(4,5,10,11)] assms(5,7)
    by (simp add: io_def client_call_def requireHandshake_def decoded_def sid_def)
qed

definition sample_answer :: js where "sample_answer = JObj [(''answer'', JStr ''42'')]"

definition sample_values :: "(js \<times> byte list) list" where
  "sample_values =
     [(JMap [(jint 1, jint FRAMING_VERSION)], [1]), (encodeAck (Some ''n''), [2]),
      (call_body ''call-1'' ''i'' [7] None None None, [3]),
      (encodeResponse ''call-1'' None (Some [5]) None, [4]), (sample_answer, [5])]"

definition sample_codec :: codec where
  "sample_codec = \<lparr>cb_encode = map_of sample_values, cb_decode = map_of (map (\<lambda>(v, bs). (bs, cbor_view v)) sample_values),
     cb_stringify = (\<lambda>_. Some [7]), cb_parse = (\<lambda>_. Some (JObj []))\<rparr>"

definition sample_server :: tcp_server where
  "sample_server = \<lparr>sv_nodeId = Some ''n'', sv_handler = Some (\<lambda>_ _ _. Some sample_answer),
     sv_streamingHandler = None, sv_discoverLookup = None\<rparr>"

lemma sample_faithful: "faithful_codec sample_codec"
proof -
  have "map_of sample_values v = Some bs \<Longrightarrow> (v, bs) \<in> set sample_values" for v bs
    by (rule map_of_SomeD)
  moreover have "map_of (map (\<lambda>(v, bs). (bs, cbor_view v)) sample_values) bs = Some (cbor_view v) \<and> bs \<noteq> []"
    if "(v, bs) \<in> set sample_values" for v bs
    using that by (auto simp: sample_values_def)
  ultimately show ?thesis unfolding faithful_codec_def sample_codec_def by (simp (no_asm_use)) blast
qed

lemma sample_frames:
  "cb_encode sample_codec v = Some [b] \<Longrightarrow> frame_value sample_codec m v \<noteq> None"
  by (cases m) (simp_all add: frame_value_def encodeFrame_def is_uint8_def MAX_FRAME_PAYLOAD_def)

lemma sample_encodes:
  "cb_encode sample_codec (JMap [(jint 1, jint FRAMING_VERSION)]) = Some [1]"
  "cb_encode sample_codec (encodeAck (Some ''n'')) = Some [2]"
  "cb_encode sample_codec (call_body ''call-1'' ''i'' [7] None None None) = Some [3]"
  "cb_encode sample_codec (encodeResponse ''call-1'' None (Some [5]) None) = Some [4]"
  "cb_encode sample_codec sample_answer = Some [5]"
  by (simp_all add: sample_codec_def sample_values_def encodeAck_def call_body_def encodeResponse_def
      sample_answer_def FRAMING_VERSION_def)

lemma sample_run:
  "runHandler sample_codec rt (Some sample_answer) = (Some [5], None)"
  "gated_spec sample_codec rt None (Some sample_answer) = Inr sample_answer"
  using sample_encodes(5)
  by (simp_all add: runHandler_def gated_spec_def rpc_spec_def has_error_code_def sample_answer_def nullish_def Let_def)

definition sample_runtime :: js_runtime where
  "sample_runtime = \<lparr>rt_string = \<lambda>_. [], rt_number = \<lambda>_. NaN\<rparr>"

definition sample_client :: tcp_client where
  "sample_client = \<lparr>cl_connected = True, cl_framingVersion = None, cl_peerNodeId = None\<rparr>"

lemma sample_fields [simp]:
  "cb_stringify sample_codec v = Some [7]" "cb_parse sample_codec bs = Some (JObj [])" "cl_connected sample_client"
  "sv_nodeId sample_server = Some ''n''" "sv_handler sample_server = Some (\<lambda>_ _ _. Some sample_answer)"
  by (simp_all add: sample_codec_def sample_client_def sample_server_def)

theorem rpc_end_to_end_witness:
  "case client_handshake sample_codec (server_io sample_codec sample_runtime sample_server None) sample_client of (e, cl) \<Rightarrow>
     client_call sample_codec sample_runtime (server_io sample_codec sample_runtime sample_server None) cl
       ''i'' (JObj []) None None = Inr sample_answer"
proof -
  note hyps = sample_faithful sample_encodes [THEN sample_frames] sample_run [of sample_runtime]
  show ?thesis
    using rpc_end_to_end [of sample_codec sample_client sample_server "\<lambda>_ _ _. Some sample_answer" "[]" "[7]" None "''i''"
        None sample_runtime None] hyps
    by (auto simp: unaryCall_def split: prod.splits)
qed

end
