(* ===== verification/RelayWorker.thy ===== *)
theory RelayWorker imports RelayServer NativeRpc begin

text \<open>
  The worker's end of the relay, \<open>src/relay_worker_client.ts\<close>: the reconnect loop, the handshake,
  the session loop and the handling of a call. The property at the end puts the relay and
  the worker together. The codec and the operator's handler are parameters.
\<close>

section \<open>Reconnecting\<close>

definition MAX_RECONNECT_DELAY_MS :: int where "MAX_RECONNECT_DELAY_MS = 60000"

definition INITIAL_DELAY_MS :: int where "INITIAL_DELAY_MS = 2000"

text \<open>The delays of \<open>_run\<close>, by whether each session ended without an error.\<close>

fun reconnect_delays :: "int \<Rightarrow> bool list \<Rightarrow> int list" where
  "reconnect_delays delay [] = []"
| "reconnect_delays delay (ok # oks) =
     (let delay = (if ok then INITIAL_DELAY_MS else delay)
      in delay # reconnect_delays (min (delay * 2) MAX_RECONNECT_DELAY_MS) oks)"

section \<open>Reading\<close>

text \<open>
  \<open>readExact\<close> against the events of the socket: a chunk, or its end, which only wakes the reader;
  it then looks whether the socket is destroyed. \<open>None\<close>: it still waits; \<open>Some None\<close>: it gives up.
\<close>

datatype worker_event = WorkerChunk "byte list" | WorkerEnd bool

fun readExact ::
  "nat \<Rightarrow> byte list \<Rightarrow> bool \<Rightarrow> worker_event list \<Rightarrow> (byte list option \<times> byte list \<times> bool \<times> worker_event list) option" where
  "readExact n have destroyed evs =
     (if n \<le> length have then Some (Some (take n have), drop n have, destroyed, evs)
      else if destroyed then Some (None, have, destroyed, evs)
      else (case evs of
          [] \<Rightarrow> None
        | WorkerChunk c # evs \<Rightarrow> readExact n (have @ c) destroyed evs
        | WorkerEnd gone # evs \<Rightarrow> readExact n have gone evs))"

declare readExact.simps [simp del]

section \<open>The session\<close>

record worker_codec =
  wk_enc :: "js \<Rightarrow> byte list"
  wk_dec :: "byte list \<Rightarrow> string + js"
  wk_stringify :: "js \<Rightarrow> byte list option"
  wk_parse :: "js \<Rightarrow> string + js"

definition worker_init :: "worker_codec \<Rightarrow> frame_error + byte list" where
  "worker_init wk = makeFrame 1 (wk_enc wk (JMap [(jint 1, jint FRAMING_VERSION)]))"

definition bind_fields :: "string \<Rightarrow> string \<Rightarrow> string list \<Rightarrow> string option \<Rightarrow> js" where
  "bind_fields workerId intent models bindTicket =
     JMap ([(jint 1, JStr workerId), (jint 2, JStr intent), (jint 3, JArr (map JStr models))] @
       (case bindTicket of Some t \<Rightarrow> if t = [] then [] else [(jint 4, JStr t)] | None \<Rightarrow> []))"

definition worker_ticket :: "string option \<Rightarrow> bool \<Rightarrow> string option \<Rightarrow> string option" where
  \<comment> \<open>the configured ticket, or the fetched one when the directory and a token are known\<close>
  "worker_ticket configured canFetch fetched =
     (if (configured = None \<or> configured = Some []) \<and> canFetch \<and> fetched \<noteq> None then fetched else configured)"

datatype bind_failure = NoAck | NoRelayAck | RelayRefused | BindUndecodable string

definition read_relay_ack :: "worker_codec \<Rightarrow> (int \<times> byte list) option \<Rightarrow> bind_failure + number" where
  \<comment> \<open>the relay's HTTP port\<close>
  "read_relay_ack wk rack =
     (case rack of
        None \<Rightarrow> Inl NoRelayAck
      | Some (mt, payload) \<Rightarrow>
          if mt \<noteq> 12 then Inl NoRelayAck
          else (case wk_dec wk payload of
             Inl e \<Rightarrow> Inl (BindUndecodable e)
           | Inr body \<Rightarrow>
               if property_throws body then Inl (BindUndecodable [])
               else if numeric_property body 1 \<noteq> JStr ''ok'' then Inl RelayRefused
               else Inr (case numeric_property body 4 of JNum n \<Rightarrow> n | _ \<Rightarrow> Fin 9484)))"

definition worker_handshake ::
  "worker_codec \<Rightarrow> (int \<times> byte list) option \<Rightarrow> (int \<times> byte list) option \<Rightarrow> bind_failure + number" where
  "worker_handshake wk ack rack =
     (case ack of
        Some (mt, _) \<Rightarrow> if mt = 2 then read_relay_ack wk rack else Inl NoAck
      | None \<Rightarrow> Inl NoAck)"

text \<open>The session loop: the payloads of the calls it hands out, until the stream ends or is closed.\<close>

fun session_calls :: "(int \<times> byte list) option list \<Rightarrow> byte list list" where
  "session_calls [] = []"
| "session_calls (None # _) = []"
| "session_calls (Some (mt, payload) # fs) =
     (if mt = 5 then payload # session_calls fs
      else if mt = 10 \<or> mt = 9 then session_calls fs
      else if mt = 7 then []
      else session_calls fs)"

definition error_result :: "string \<Rightarrow> js" where
  "error_result msg = JObj [(''error'', JStr msg)]"

definition read_task :: "worker_codec \<Rightarrow> js_runtime \<Rightarrow> js \<Rightarrow> string + js" where
  "read_task wk rt raw5 =
     (case raw5 of
        JBytes _ \<Rightarrow> wk_parse wk raw5
      | _ \<Rightarrow> wk_parse wk (JStr (String_of rt (coalesce raw5 (JStr ''{}'')))))"

definition worker_answer ::
  "worker_codec \<Rightarrow> js_runtime \<Rightarrow> (js \<Rightarrow> string + js) \<Rightarrow> byte list \<Rightarrow> string \<times> js" where
  \<comment> \<open>the call id and the result; the handler gives its error's message or its result\<close>
  "worker_answer wk rt handler payload =
     (case wk_dec wk payload of
        Inl msg \<Rightarrow> ([], error_result msg)
      | Inr body \<Rightarrow>
          if property_throws body then ([], error_result [])
          else
            let callId = String_of rt (coalesce (numeric_property body 15) (JStr [])) in
            (callId,
             (case read_task wk rt (numeric_property body 5) of
                Inl msg \<Rightarrow> error_result msg
              | Inr task \<Rightarrow> (case handler task of Inl msg \<Rightarrow> error_result msg | Inr result \<Rightarrow> result))))"

definition handleCall ::
  "worker_codec \<Rightarrow> js_runtime \<Rightarrow> (js \<Rightarrow> string + js) \<Rightarrow> byte list \<Rightarrow> byte list option" where
  \<comment> \<open>the frame it writes, if the response can be encoded\<close>
  "handleCall wk rt handler payload =
     (let (callId, result) = worker_answer wk rt handler payload in
      case wk_stringify wk result of
        None \<Rightarrow> None
      | Some txt \<Rightarrow>
          (case makeFrame 6 (wk_enc wk (JMap [(jint 15, JStr callId), (jint 5, JBytes txt)])) of
             Inl _ \<Rightarrow> None
           | Inr f \<Rightarrow> Some f))"

section \<open>What holds of the parts\<close>

text \<open>Failures in a row double the delay up to a minute; a session that ended well resets it.\<close>

lemma reconnect_doubles:
  assumes "list_all Not oks"
  shows "reconnect_delays (min (2000 * 2 ^ k) 60000) oks =
    map (\<lambda>i. min (2000 * 2 ^ (k + i)) 60000) [0..<length oks]"
  using assms
proof (induction oks arbitrary: k)
  case (Cons ok oks)
  have "min (min (2000 * 2 ^ k) 60000 * 2) 60000 = min (2000 * 2 ^ Suc k) (60000 :: int)" by (auto simp: min_def)
  then show ?case
    using Cons.prems Cons.IH [of "Suc k"]
    by (simp add: MAX_RECONNECT_DELAY_MS_def upt_conv_Cons map_Suc_upt [symmetric] o_def del: upt_Suc)
qed simp

lemma reconnect_bounds:
  "2000 \<le> delay \<Longrightarrow> delay \<le> 60000 \<Longrightarrow> d \<in> set (reconnect_delays delay oks) \<Longrightarrow> 2000 \<le> d \<and> d \<le> 60000"
proof (induction oks arbitrary: delay)
  case (Cons ok oks)
  let ?d = "if ok then INITIAL_DELAY_MS else delay"
  have "2000 \<le> min (?d * 2) MAX_RECONNECT_DELAY_MS" "min (?d * 2) MAX_RECONNECT_DELAY_MS \<le> 60000"
    using Cons.prems by (auto simp: INITIAL_DELAY_MS_def MAX_RECONNECT_DELAY_MS_def)
  then show ?case
    using Cons.IH [of "min (?d * 2) MAX_RECONNECT_DELAY_MS"] Cons.prems
    by (auto simp: Let_def INITIAL_DELAY_MS_def)
qed simp

text \<open>
  The end of the stream is noticed only when the socket is destroyed by then: nothing later wakes
  the reader, and the session never ends.
\<close>

lemma end_of_stream_missed: "length have < n \<Longrightarrow> readExact n have False [WorkerEnd False] = None"
  by (simp add: readExact.simps)

section \<open>Properties\<close>

lemma relay_reads_frame:
  assumes "makeFrame t p = Inr f"
  shows "relay_step () f = Emit (Some (t, p)) () (length f)"
proof -
  have e: "encodeFrame t p 0 = Inr f" using assms by (simp add: makeFrame_encodeFrame)
  from encodeFrame_header [OF e] have f: "f = header_bytes FRAMING_VERSION t 0 0 (length p) @ p"
    and b: "is_uint8 t" "length p \<le> MAX_FRAME_PAYLOAD" by auto
  have n: "length p < 2 ^ 32" using b(2) MAX_FRAME_PAYLOAD_word by simp
  show ?thesis
    using b n unfolding f
    by (simp add: relay_step_def buf_version_def buf_msgType_def buf_payloadLen_def FRAME_HEADER_LEN_def
        header_bytes_def IICP_MAGIC_def FRAMING_VERSION_def)
qed

text \<open>
  C5 A task relayed to a worker, end to end: the CALL frame that \<open>forwardTask\<close> writes is read by the
  worker as one call, the worker answers with one RESPONSE frame, and the relay, reading it, settles
  exactly the promise of that call with what the worker's handler returned, or with its error, and
  forgets the call. Assumed is that the codecs of the two ends decode the two messages, and that
  they fit a frame.
\<close>

theorem relayed_task_end_to_end:
  fixes wire wk cd rt handler callId p task s answer
  defines "call \<equiv> JMap [(jint 15, JStr callId), (jint 5, JBytes (wire_stringify wire task))]"
    and "result \<equiv> (case handler task of Inl msg \<Rightarrow> error_result msg | Inr r \<Rightarrow> r)"
    and "response \<equiv> JMap [(jint 15, JStr callId), (jint 5, JBytes answer)]"
  assumes "wk_dec wk (wire_enc wire call) = Inr (cbor_view call)"
    and "wk_parse wk (JBytes (wire_stringify wire task)) = Inr task"
    and "wk_stringify wk result = Some answer"
    and "rw_dec cd (wk_enc wk response) = Some (cbor_view response)"
    and "rw_json cd (JBytes answer) = Some result"
    and "length (wire_enc wire call) \<le> MAX_FRAME_PAYLOAD" and "length (wk_enc wk response) \<le> MAX_FRAME_PAYLOAD"
  shows "\<exists>f payload g fp s1 s2.
    forwardTask wire callId p task s = ([SocketWrite f], s1) \<and>
    relay_step () f = Emit (Some (MT_CALL, payload)) () (length f) \<and>
    handleCall wk rt handler payload = Some g \<and>
    relay_step () g = Emit (Some (6, fp)) () (length g) \<and>
    frameResponse rt cd fp s1 = ([ForwardSettled p (Inr result)], s2) \<and>
    map_of (cl_pending (ws_calls s2)) = (map_of (cl_pending (ws_calls s)))(callId := None)"
proof -
  obtain f where f: "makeFrame MT_CALL (wire_enc wire call) = Inr f"
    using assms(9) by (auto simp: makeFrame_def is_uint8_def MT_CALL_def)
  obtain g where g: "makeFrame 6 (wk_enc wk response) = Inr g"
    using assms(10) by (auto simp: makeFrame_def is_uint8_def)
  let ?s1 = "s\<lparr>ws_calls := (ws_calls s)\<lparr>cl_pending := AList.update callId p (cl_pending (ws_calls s))\<rparr>\<rparr>"
  let ?s2 = "?s1\<lparr>ws_calls := (ws_calls ?s1)\<lparr>cl_pending := AList.delete callId (cl_pending (ws_calls ?s1))\<rparr>\<rparr>"
  have fwd: "forwardTask wire callId p task s = ([SocketWrite f], ?s1)"
    using f by (simp add: forwardTask_def call_def Let_def)
  have ans: "worker_answer wk rt handler (wire_enc wire call) = (callId, result)"
    using assms(4,5)
    by (simp add: worker_answer_def call_def result_def read_task_def property_throws_def nullish_def small_digits Let_def)
  then have call: "handleCall wk rt handler (wire_enc wire call) = Some g"
    using assms(6) g by (simp add: handleCall_def response_def)
  have "frameResponse rt cd (wk_enc wk response) ?s1 = ([ForwardSettled p (Inr result)], ?s2)"
    using assms(7,8)
    by (simp add: frameResponse_def response_def has_lifecycle_def property_throws_def nullish_def response_result_def
        onResponse_def calls_onResponse_def small_digits digits.simps Let_def)
  moreover have "map_of (cl_pending (ws_calls ?s2)) = (map_of (cl_pending (ws_calls s)))(callId := None)"
    by (simp add: delete_conv' update_conv')
  ultimately show ?thesis using fwd call relay_reads_frame [OF f] relay_reads_frame [OF g] by blast
qed

definition sample_wire :: relay_wire where
  "sample_wire = \<lparr>wire_enc = (\<lambda>_. [1]), wire_stringify = (\<lambda>_. [7])\<rparr>"

definition sample_worker :: worker_codec where
  "sample_worker =
     \<lparr>wk_enc = (\<lambda>_. [2]), wk_dec = (\<lambda>_. Inr (cbor_view (JMap [(jint 15, JStr ''c''), (jint 5, JBytes [7])]))),
      wk_stringify = (\<lambda>_. Some [8]), wk_parse = (\<lambda>_. Inr (JObj []))\<rparr>"

definition sample_relay :: relay_codec where
  "sample_relay =
     \<lparr>rw_dec = (\<lambda>_. Some (cbor_view (JMap [(jint 15, JStr ''c''), (jint 5, JBytes [8])]))),
      rw_json = (\<lambda>_. Some sample_answer), rw_encodable = (\<lambda>_. True)\<rparr>"

theorem relayed_task_end_to_end_witness:
  "\<exists>f s1 g fp s2. forwardTask sample_wire ''c'' 3 (JObj []) (new_worker_session ''w'') = ([SocketWrite f], s1) \<and>
     relay_step () g = Emit (Some (6, fp)) () (length g) \<and>
     frameResponse sample_runtime sample_relay fp s1 = ([ForwardSettled 3 (Inr sample_answer)], s2)"
  using relayed_task_end_to_end [where wk = sample_worker and wire = sample_wire and callId = "''c''" and task = "JObj []"
      and handler = "\<lambda>_. Inr sample_answer" and answer = "[8]" and cd = sample_relay and rt = sample_runtime
      and p = 3 and s = "new_worker_session ''w''"]
  by (simp add: sample_wire_def sample_worker_def sample_relay_def MAX_FRAME_PAYLOAD_def) blast

end
