(* ===== verification/Capabilities.thy ===== *)
theory Capabilities imports JsText begin

text \<open>
  The effective-capability profile, \<open>src/effective_capability.ts\<close>: reading an advertisement, choosing
  its source and matching a request against the advertised variants. A variant is matched as a
  whole: no requirement may be met by one variant and another requirement by another.
  \<open>Date.parse\<close> is a parameter (\<open>None\<close> for \<open>NaN\<close>). Ids of limits and extensions are taken to differ
  from \<open>__proto__\<close>.
\<close>

section \<open>Data\<close>

definition EFFECTIVE_CAPABILITY_SCHEMA_VERSION :: string where
  "EFFECTIVE_CAPABILITY_SCHEMA_VERSION = ''1.0.0''"

datatype capability_refusal = RequiredUnknown | RequiredUnsupported | RequiredStale | LimitUnsatisfied | PolicyDenied

fun refusal_code :: "capability_refusal \<Rightarrow> string" where
  "refusal_code RequiredUnknown = ''required_capability_unknown''"
| "refusal_code RequiredUnsupported = ''required_capability_unsupported''"
| "refusal_code RequiredStale = ''required_capability_stale''"
| "refusal_code LimitUnsatisfied = ''capability_limit_unsatisfied''"
| "refusal_code PolicyDenied = ''capability_policy_denied''"

record capability_limit =
  lim_value :: rat
  lim_unit :: js

record claim_provenance =
  pv_source :: string
  pv_observed_at :: "string option"
  pv_valid_until :: "string option"
  pv_evidence_ref :: "string option"

record effective_capability =
  ec_intent :: string
  ec_version :: "string option"
  ec_phase :: "int option"
  ec_variant_id :: "string option"
  ec_models :: "string list option"
  ec_max_tokens :: "int option"
  ec_input_modalities :: "string list option"
  ec_output_modalities :: "string list option"
  ec_features :: "string list option"
  ec_execution_capabilities :: "string list option"
  ec_limits :: "(string \<times> capability_limit) list option"
  ec_supported_profiles :: "string list option"
  ec_claim_provenance :: "claim_provenance option"
  ec_extensions :: "(string \<times> bool \<times> js) list option"

record capability_requirement =
  cr_class :: string
  cr_id :: string

record limit_requirement =
  lr_id :: string
  lr_operator :: string
  lr_value :: rat
  lr_unit :: string

record capability_requirements =
  rq_intent :: string
  rq_requires :: "capability_requirement list"
  rq_prefers :: "capability_requirement list"
  rq_limits :: "limit_requirement list"

record capability_match =
  cm_eligible :: bool
  cm_variant_ids :: "string option list"
  cm_preference_unavailable :: bool
  cm_refusal :: "capability_refusal option"
  cm_preserved_extensions :: "string list"

section \<open>Reading\<close>

definition is_plain :: "js \<Rightarrow> bool" where
  \<comment> \<open>\<open>isRecord(value)\<close> of a JSON value\<close>
  "is_plain v = (case v of JObj _ \<Rightarrow> True | _ \<Rightarrow> False)"

definition as_text :: "js \<Rightarrow> string option" where
  "as_text v = (case v of JStr s \<Rightarrow> Some s | _ \<Rightarrow> None)"

definition all_some :: "'a option list \<Rightarrow> 'a list option" where
  "all_some xs = (if None \<in> set xs then None else Some (map the xs))"

definition stringSet :: "js \<Rightarrow> string \<Rightarrow> string + string list option" where
  "stringSet v label =
     (case v of
        JUndef \<Rightarrow> Inr None
      | JArr xs \<Rightarrow>
          (case all_some (map as_text xs) of
             None \<Rightarrow> Inl (label @ '' must be an array of non-empty strings'')
           | Some ss \<Rightarrow>
               if [] \<in> set ss then Inl (label @ '' must be an array of non-empty strings'')
               else if \<not> distinct ss then Inl (label @ '' must not contain duplicates'')
               else Inr (Some ss))
      | _ \<Rightarrow> Inl (label @ '' must be an array of non-empty strings''))"

definition LIMIT_UNITS :: "string list" where
  "LIMIT_UNITS = [''tokens'', ''items'', ''bytes'', ''milliseconds'', ''dimensions'']"

definition CLAIM_SOURCES :: "string list" where
  "CLAIM_SOURCES = [''heuristic_fallback'', ''operator_assertion'', ''provider_metadata'', ''runtime_introspection'',
     ''conformance_probe'']"

definition CAPABILITY_KEYS :: "string list" where
  "CAPABILITY_KEYS = [''intent'', ''version'', ''phase'', ''variant_id'', ''models'', ''max_tokens'',
     ''input_modalities'', ''output_modalities'', ''features'', ''execution_capabilities'', ''limits'',
     ''supported_profiles'', ''claim_provenance'', ''extensions'']"

definition positive_integer :: "js \<Rightarrow> int option" where
  "positive_integer v =
     (case v of JNum (Fin q) \<Rightarrow> if of_int \<lfloor>q\<rfloor> = q \<and> q \<ge> 1 then Some \<lfloor>q\<rfloor> else None | _ \<Rightarrow> None)"

definition read_integer :: "js \<Rightarrow> string \<Rightarrow> string + int option" where
  "read_integer v label =
     (if v = JUndef then Inr None
      else case positive_integer v of
        None \<Rightarrow> Inl (label @ '' must be a positive integer'')
      | Some n \<Rightarrow> Inr (Some n))"

definition read_limit :: "js_runtime \<Rightarrow> js \<Rightarrow> string + capability_limit" where
  "read_limit rt raw =
     (if \<not> is_plain raw \<or> joined_keys raw \<noteq> ''unit,value'' then Inl ''each limit requires only value and unit''
      else case own_property raw ''value'' of
        JNum (Fin q) \<Rightarrow>
          if q < 0 then Inl ''limit value must be a non-negative number''
          else if String_of rt (own_property raw ''unit'') \<notin> set LIMIT_UNITS then Inl ''limit unit is unsupported''
          else Inr \<lparr>lim_value = q, lim_unit = own_property raw ''unit''\<rparr>
      | _ \<Rightarrow> Inl ''limit value must be a non-negative number'')"

definition read_extension :: "js \<Rightarrow> string + bool \<times> js" where
  "read_extension raw =
     (case own_property raw ''required'' of
        JBool b \<Rightarrow>
          if \<not> is_plain raw \<or> joined_keys raw \<noteq> ''required,value''
          then Inl ''each extension requires boolean required and value''
          else Inr (b, own_property raw ''value'')
      | _ \<Rightarrow> Inl ''each extension requires boolean required and value'')"

fun read_entries :: "(js \<Rightarrow> string + 'a) \<Rightarrow> (string \<times> js) list \<Rightarrow> string + (string \<times> 'a) list" where
  "read_entries f [] = Inr []"
| "read_entries f ((k, v) # kvs) =
     (case f v of
        Inl e \<Rightarrow> Inl e
      | Inr x \<Rightarrow> (case read_entries f kvs of Inl e \<Rightarrow> Inl e | Inr xs \<Rightarrow> Inr ((k, x) # xs)))"

definition read_section :: "(js \<Rightarrow> string + 'a) \<Rightarrow> js \<Rightarrow> string \<Rightarrow> string + (string \<times> 'a) list option" where
  "read_section f v label =
     (case v of
        JUndef \<Rightarrow> Inr None
      | JObj kvs \<Rightarrow> (case read_entries f kvs of Inl e \<Rightarrow> Inl e | Inr xs \<Rightarrow> Inr (Some xs))
      | _ \<Rightarrow> Inl (label @ '' must be an object''))"

definition read_timestamp :: "(string \<Rightarrow> int option) \<Rightarrow> js \<Rightarrow> string \<Rightarrow> string + string option" where
  "read_timestamp parseDate raw key =
     (case own_property raw key of
        JUndef \<Rightarrow> Inr None
      | JStr s \<Rightarrow> if parseDate s = None then Inl ''capability timestamp must be RFC 3339'' else Inr (Some s)
      | _ \<Rightarrow> Inl (key @ '' must be a string''))"

definition read_provenance :: "(string \<Rightarrow> int option) \<Rightarrow> js \<Rightarrow> string + claim_provenance option" where
  "read_provenance parseDate v =
     (if v = JUndef then Inr None
      else if \<not> is_plain v then Inl ''claim_provenance must be an object''
      else case own_property v ''source'' of
        JStr source \<Rightarrow>
          if source \<notin> set CLAIM_SOURCES then Inl ''claim_provenance source is unsupported''
          else (case read_timestamp parseDate v ''observed_at'' of
             Inl e \<Rightarrow> Inl e
           | Inr observed \<Rightarrow>
               (case read_timestamp parseDate v ''valid_until'' of
                  Inl e \<Rightarrow> Inl e
                | Inr validUntil \<Rightarrow>
                    Inr (Some \<lparr>pv_source = source, pv_observed_at = observed, pv_valid_until = validUntil,
                      pv_evidence_ref = as_text (own_property v ''evidence_ref'')\<rparr>)))
      | _ \<Rightarrow> Inl ''claim_provenance source is unsupported'')"

definition and_then :: "'e + 'a \<Rightarrow> ('a \<Rightarrow> 'e + 'b) \<Rightarrow> 'e + 'b" where
  "and_then x f = (case x of Inl e \<Rightarrow> Inl e | Inr a \<Rightarrow> f a)"

lemma and_then_Inr [simp]: "and_then x f = Inr b \<longleftrightarrow> (\<exists>a. x = Inr a \<and> f a = Inr b)"
  by (cases x) (simp_all add: and_then_def)

lemma and_then_step: "and_then (Inr a) f = f a"
  by (simp add: and_then_def)

definition head_refusal :: "js \<Rightarrow> string option" where
  \<comment> \<open>the checks of the object and its intent\<close>
  "head_refusal raw =
     (let unknown = filter (\<lambda>k. k \<notin> set CAPABILITY_KEYS) (object_keys raw) in
      if \<not> is_plain raw then Some ''effective capability must be an object''
      else if unknown \<noteq> [] then Some (''effective capability has unknown field(s): '' @ join_with '', '' (sort unknown))
      else if as_text (own_property raw ''intent'') \<in> {None, Some []} then Some ''intent is required''
      else None)"

definition parseEffectiveCapability ::
  "js_runtime \<Rightarrow> (string \<Rightarrow> int option) \<Rightarrow> js \<Rightarrow> string + effective_capability" where
  "parseEffectiveCapability rt parseDate raw =
     (case head_refusal raw of
        Some e \<Rightarrow> Inl e
      | None \<Rightarrow>
          let f = own_property raw; set_of = (\<lambda>k. stringSet (f k) k) in
          and_then (read_integer (f ''phase'') ''phase'') (\<lambda>phase.
          and_then (read_integer (f ''max_tokens'') ''max_tokens'') (\<lambda>maxTokens.
          and_then (read_section (read_limit rt) (f ''limits'') ''limits'') (\<lambda>limits.
          and_then (read_provenance parseDate (f ''claim_provenance'')) (\<lambda>provenance.
          and_then (read_section read_extension (f ''extensions'') ''extensions'') (\<lambda>extensions.
          and_then (set_of ''models'') (\<lambda>models.
          and_then (set_of ''input_modalities'') (\<lambda>inputs.
          and_then (set_of ''output_modalities'') (\<lambda>outputs.
          and_then (set_of ''features'') (\<lambda>features.
          and_then (set_of ''execution_capabilities'') (\<lambda>execution.
          and_then (set_of ''supported_profiles'') (\<lambda>profiles.
            Inr \<lparr>ec_intent = the (as_text (f ''intent'')), ec_version = as_text (f ''version''), ec_phase = phase,
              ec_variant_id = as_text (f ''variant_id''), ec_models = models, ec_max_tokens = maxTokens,
              ec_input_modalities = inputs, ec_output_modalities = outputs, ec_features = features,
              ec_execution_capabilities = execution, ec_limits = limits, ec_supported_profiles = profiles,
              ec_claim_provenance = provenance, ec_extensions = extensions\<rparr>))))))))))))"

fun parse_all :: "(js \<Rightarrow> 'e + 'a) \<Rightarrow> js list \<Rightarrow> 'e + 'a list" where
  "parse_all f [] = Inr []"
| "parse_all f (v # vs) = and_then (f v) (\<lambda>x. and_then (parse_all f vs) (\<lambda>xs. Inr (x # xs)))"

definition variant_identity :: "effective_capability \<Rightarrow> string" where
  "variant_identity c =
     ec_intent c @ [CHR 0x00] @ (case ec_variant_id c of None \<Rightarrow> [] | Some v \<Rightarrow> v)"

definition parseEffectiveCapabilityAdvertisement ::
  "js_runtime \<Rightarrow> (string \<Rightarrow> int option) \<Rightarrow> js \<Rightarrow> string + effective_capability list" where
  "parseEffectiveCapabilityAdvertisement rt parseDate raw =
     (if \<not> is_plain raw then Inl ''advertisement must be an object''
      else if joined_keys raw \<noteq> ''capabilities,schema_version''
      then Inl ''advertisement requires only schema_version and capabilities''
      else if own_property raw ''schema_version'' \<noteq> JStr EFFECTIVE_CAPABILITY_SCHEMA_VERSION
      then Inl ''unsupported schema_version''
      else case own_property raw ''capabilities'' of
        JArr (v # vs) \<Rightarrow>
          and_then (parse_all (parseEffectiveCapability rt parseDate) (v # vs)) (\<lambda>parsed.
            if \<not> distinct (map variant_identity parsed) then Inl ''effective capability variants must be unique''
            else Inr parsed)
      | _ \<Rightarrow> Inl ''capabilities must be a non-empty array'')"

section \<open>Choosing the source\<close>

definition resolveEffectiveCapabilities ::
  "effective_capability list option \<Rightarrow> effective_capability list option \<Rightarrow> effective_capability list option \<Rightarrow>
   string + effective_capability list" where
  "resolveEffectiveCapabilities explicit introspected heuristic =
     (if or_else explicit [] \<noteq> [] then Inr (or_else explicit [])
      else if or_else introspected [] \<noteq> [] then Inr (or_else introspected [])
      else if list_ex (\<lambda>c. map_option pv_source (ec_claim_provenance c) \<noteq> Some ''heuristic_fallback'') (or_else heuristic [])
      then Inl ''heuristic capability evidence must be labelled heuristic_fallback''
      else Inr (or_else heuristic []))"

section \<open>Matching\<close>

definition class_values :: "effective_capability \<Rightarrow> string \<Rightarrow> string list" where
  \<comment> \<open>a class that is unknown, or absent from the variant, has no values\<close>
  "class_values c cls =
     or_else (if cls = ''input_modality'' then ec_input_modalities c
       else if cls = ''output_modality'' then ec_output_modalities c
       else if cls = ''feature'' then ec_features c
       else if cls = ''execution_capability'' then ec_execution_capabilities c
       else if cls = ''profile'' then ec_supported_profiles c
       else None) []"

datatype match_error = VocabularyTypeError | BadTimestamp

definition in_vocabulary :: "(string \<times> string list) list \<Rightarrow> capability_requirement \<Rightarrow> match_error + bool" where
  \<comment> \<open>a class the object inherits has no \<open>includes\<close>: the code throws\<close>
  "in_vocabulary vocabulary r =
     (case map_of vocabulary (cr_class r) of
        Some ids \<Rightarrow> Inr (cr_id r \<in> set ids)
      | None \<Rightarrow> if cr_class r \<in> set inherited_names then Inl VocabularyTypeError else Inr False)"

fun check_requires ::
  "(string \<times> string list) list \<Rightarrow> capability_requirement list \<Rightarrow> capability_requirement list \<Rightarrow>
   match_error + capability_refusal option" where
  "check_requires vocabulary denials [] = Inr None"
| "check_requires vocabulary denials (r # rs) =
     and_then (in_vocabulary vocabulary r) (\<lambda>known.
       if \<not> known then Inr (Some RequiredUnknown)
       else if r \<in> set denials then Inr (Some PolicyDenied)
       else check_requires vocabulary denials rs)"

definition has_all :: "effective_capability \<Rightarrow> capability_requirement list \<Rightarrow> bool" where
  "has_all c rs = list_all (\<lambda>r. cr_id r \<in> set (class_values c (cr_class r))) rs"

definition fresh_at :: "(string \<Rightarrow> int option) \<Rightarrow> int \<Rightarrow> effective_capability \<Rightarrow> match_error + bool" where
  "fresh_at parseDate now c =
     (case ec_claim_provenance c of
        None \<Rightarrow> Inr True
      | Some pv \<Rightarrow>
          (case pv_valid_until pv of
             None \<Rightarrow> Inr True
           | Some [] \<Rightarrow> Inr True
           | Some s \<Rightarrow> (case parseDate s of None \<Rightarrow> Inl BadTimestamp | Some t \<Rightarrow> Inr (t \<ge> now))))"

fun filter_fresh ::
  "(string \<Rightarrow> int option) \<Rightarrow> int \<Rightarrow> effective_capability list \<Rightarrow> match_error + effective_capability list" where
  "filter_fresh parseDate now [] = Inr []"
| "filter_fresh parseDate now (c # cs) =
     and_then (fresh_at parseDate now c) (\<lambda>ok.
       and_then (filter_fresh parseDate now cs) (\<lambda>rest. Inr (if ok then c # rest else rest)))"

definition limit_met :: "effective_capability \<Rightarrow> limit_requirement \<Rightarrow> bool" where
  "limit_met c r =
     (case map_of (or_else (ec_limits c) []) (lr_id r) of
        None \<Rightarrow> False
      | Some l \<Rightarrow>
          if lim_unit l \<noteq> JStr (lr_unit r) then False
          else if lr_operator r = ''gte'' then lim_value l \<ge> lr_value r
          else if lr_operator r = ''lte'' then lim_value l \<le> lr_value r
          else lr_operator r = ''eq'' \<and> lim_value l = lr_value r)"

fun preference_unavailable ::
  "(string \<times> string list) list \<Rightarrow> effective_capability list \<Rightarrow> capability_requirement list \<Rightarrow> match_error + bool" where
  "preference_unavailable vocabulary candidates [] = Inr False"
| "preference_unavailable vocabulary candidates (r # rs) =
     and_then (in_vocabulary vocabulary r) (\<lambda>known.
       if \<not> known \<or> \<not> list_ex (\<lambda>c. cr_id r \<in> set (class_values c (cr_class r))) candidates then Inr True
       else preference_unavailable vocabulary candidates rs)"

definition refused_match :: "capability_refusal \<Rightarrow> capability_match" where
  "refused_match code =
     \<lparr>cm_eligible = False, cm_variant_ids = [], cm_preference_unavailable = False, cm_refusal = Some code,
      cm_preserved_extensions = []\<rparr>"

definition eligible_match :: "effective_capability list \<Rightarrow> bool \<Rightarrow> capability_match" where
  "eligible_match candidates unavailable =
     \<lparr>cm_eligible = True, cm_variant_ids = map ec_variant_id candidates, cm_preference_unavailable = unavailable,
      cm_refusal = None,
      cm_preserved_extensions = sort (remdups (concat (map (\<lambda>c. map fst (or_else (ec_extensions c) [])) candidates)))\<rparr>"

definition matchEffectiveCapabilities ::
  "(string \<Rightarrow> int option) \<Rightarrow> effective_capability list \<Rightarrow> capability_requirements \<Rightarrow> (string \<times> string list) list \<Rightarrow> int \<Rightarrow>
   capability_requirement list \<Rightarrow> match_error + capability_match" where
  "matchEffectiveCapabilities parseDate capabilities request vocabulary now policyDenials =
     and_then (check_requires vocabulary policyDenials (rq_requires request)) (\<lambda>refused.
       case refused of
         Some code \<Rightarrow> Inr (refused_match code)
       | None \<Rightarrow>
           let supported = filter (\<lambda>c. ec_intent c = rq_intent request \<and> has_all c (rq_requires request)) capabilities in
           if supported = [] then Inr (refused_match RequiredUnsupported)
           else and_then (filter_fresh parseDate now supported) (\<lambda>fresh.
             if fresh = [] then Inr (refused_match RequiredStale)
             else
               let candidates = filter (\<lambda>c. list_all (limit_met c) (rq_limits request)) fresh in
               if candidates = [] then Inr (refused_match LimitUnsatisfied)
               else and_then (preference_unavailable vocabulary candidates (rq_prefers request)) (\<lambda>unavailable.
                 Inr (eligible_match candidates unavailable))))"

section \<open>Properties\<close>

text \<open>One variant that meets a request by itself.\<close>

definition meets :: "(string \<Rightarrow> int option) \<Rightarrow> capability_requirements \<Rightarrow> int \<Rightarrow> effective_capability \<Rightarrow> bool" where
  "meets parseDate request now c =
     (ec_intent c = rq_intent request \<and> has_all c (rq_requires request) \<and>
      fresh_at parseDate now c = Inr True \<and> list_all (limit_met c) (rq_limits request))"

definition permitted ::
  "(string \<times> string list) list \<Rightarrow> capability_requirement list \<Rightarrow> capability_requirement list \<Rightarrow> bool" where
  "permitted vocabulary denials rs =
     list_all (\<lambda>r. in_vocabulary vocabulary r = Inr True \<and> r \<notin> set denials) rs"

lemma check_requires_None:
  "check_requires vocabulary denials rs = Inr x \<Longrightarrow> x = None \<longleftrightarrow> permitted vocabulary denials rs"
  by (induction rs) (auto simp: permitted_def split: if_splits)

lemma filter_fresh_filter:
  "filter_fresh parseDate now cs = Inr fs \<Longrightarrow> fs = filter (\<lambda>c. fresh_at parseDate now c = Inr True) cs"
  by (induction cs arbitrary: fs) auto

text \<open>
  C26 Matching a request against the advertised variants is exact: when it gives an answer, the
  request is eligible exactly when its requirements are all in the vocabulary and not denied, and
  some single variant has the intent, every required value, fresh evidence and every limit; the
  variants it reports are exactly those, in the order of the advertisement, so nothing is ever met
  by a union of variants; and it is refused otherwise.
\<close>

theorem capability_match_exact:
  assumes "matchEffectiveCapabilities parseDate capabilities request vocabulary now denials = Inr m"
  shows "(cm_eligible m \<longleftrightarrow> permitted vocabulary denials (rq_requires request) \<and>
      list_ex (meets parseDate request now) capabilities) \<and>
    cm_variant_ids m = (if cm_eligible m then map ec_variant_id (filter (meets parseDate request now) capabilities) else []) \<and>
    (cm_refusal m = None \<longleftrightarrow> cm_eligible m)"
proof -
  let ?supported = "filter (\<lambda>c. ec_intent c = rq_intent request \<and> has_all c (rq_requires request)) capabilities"
  obtain refused where c: "check_requires vocabulary denials (rq_requires request) = Inr refused"
    using assms by (auto simp: matchEffectiveCapabilities_def)
  have none: "list_ex (meets parseDate request now) capabilities \<longleftrightarrow>
      filter (meets parseDate request now) capabilities \<noteq> []"
    by (auto simp: list_ex_iff filter_empty_conv)
  show ?thesis
  proof (cases refused)
    case (Some code)
    then show ?thesis using assms c check_requires_None [OF c]
      by (auto simp: matchEffectiveCapabilities_def refused_match_def)
  next
    case None
    then have ok: "permitted vocabulary denials (rq_requires request)" using check_requires_None [OF c] by simp
    show ?thesis
    proof (cases "?supported = []")
      case True
      then have "filter (meets parseDate request now) capabilities = []"
        by (auto simp: filter_empty_conv meets_def)
      with True None show ?thesis using assms c none
        by (auto simp: matchEffectiveCapabilities_def refused_match_def)
    next
      case False
      obtain fresh where f: "filter_fresh parseDate now ?supported = Inr fresh"
        using assms c None False by (auto simp: matchEffectiveCapabilities_def)
      let ?cands = "filter (\<lambda>c. list_all (limit_met c) (rq_limits request)) fresh"
      have cands: "?cands = filter (meets parseDate request now) capabilities"
        unfolding filter_fresh_filter [OF f] meets_def by (simp add: conj_ac)
      have empty: "fresh = [] \<Longrightarrow> filter (meets parseDate request now) capabilities = []" using cands by simp
      have "(fresh = [] \<or> ?cands = [] \<longrightarrow> \<not> cm_eligible m \<and> cm_variant_ids m = [] \<and> cm_refusal m \<noteq> None) \<and>
          (\<not> (fresh = [] \<or> ?cands = []) \<longrightarrow> cm_eligible m \<and> cm_variant_ids m = map ec_variant_id ?cands \<and> cm_refusal m = None)"
        using assms c None False f
        by (auto simp: matchEffectiveCapabilities_def refused_match_def eligible_match_def Let_def split: if_splits)
      then show ?thesis using cands ok none empty by (metis (no_types, lifting))
    qed
  qed
qed

definition sample_variant :: "string \<Rightarrow> string list \<Rightarrow> string list \<Rightarrow> effective_capability" where
  "sample_variant v inputs features =
     \<lparr>ec_intent = ''chat'', ec_version = None, ec_phase = None, ec_variant_id = Some v, ec_models = None, ec_max_tokens = None,
      ec_input_modalities = Some inputs, ec_output_modalities = None, ec_features = Some features,
      ec_execution_capabilities = None, ec_limits = None, ec_supported_profiles = None, ec_claim_provenance = None,
      ec_extensions = None\<rparr>"

definition sample_request :: capability_requirements where
  "sample_request =
     \<lparr>rq_intent = ''chat'', rq_requires = [\<lparr>cr_class = ''input_modality'', cr_id = ''image''\<rparr>, \<lparr>cr_class = ''feature'', cr_id = ''tools''\<rparr>],
      rq_prefers = [], rq_limits = []\<rparr>"

definition sample_vocabulary :: "(string \<times> string list) list" where
  "sample_vocabulary = [(''input_modality'', [''image'']), (''feature'', [''tools''])]"

text \<open>Two variants, each with one of two required values: neither is eligible.\<close>

lemma sample_union:
  "matchEffectiveCapabilities (\<lambda>_. None) [sample_variant ''a'' [''image''] [], sample_variant ''b'' [] [''tools'']] sample_request
     sample_vocabulary 0 [] = Inr (refused_match RequiredUnsupported)"
  by code_simp

theorem capability_match_exact_witness:
  "\<not> list_ex (meets (\<lambda>_. None) sample_request 0) [sample_variant ''a'' [''image''] [], sample_variant ''b'' [] [''tools'']]"
proof -
  have "permitted sample_vocabulary [] (rq_requires sample_request)" by code_simp
  then show ?thesis using capability_match_exact [OF sample_union] by (simp add: refused_match_def)
qed

section \<open>What an advertisement guarantees\<close>

definition set_ok :: "string list option \<Rightarrow> bool" where
  "set_ok v = (case v of None \<Rightarrow> True | Some ss \<Rightarrow> distinct ss \<and> [] \<notin> set ss)"

definition count_ok :: "int option \<Rightarrow> bool" where
  "count_ok v = (case v of None \<Rightarrow> True | Some n \<Rightarrow> 1 \<le> n)"

definition provenance_ok :: "(string \<Rightarrow> int option) \<Rightarrow> claim_provenance \<Rightarrow> bool" where
  "provenance_ok parseDate pv =
     (pv_source pv \<in> set CLAIM_SOURCES \<and>
      (case pv_valid_until pv of None \<Rightarrow> True | Some s \<Rightarrow> parseDate s \<noteq> None) \<and>
      (case pv_observed_at pv of None \<Rightarrow> True | Some s \<Rightarrow> parseDate s \<noteq> None))"

definition capability_ok :: "(string \<Rightarrow> int option) \<Rightarrow> effective_capability \<Rightarrow> bool" where
  "capability_ok parseDate c =
     (ec_intent c \<noteq> [] \<and> count_ok (ec_phase c) \<and> count_ok (ec_max_tokens c) \<and>
      list_all set_ok [ec_models c, ec_input_modalities c, ec_output_modalities c, ec_features c,
        ec_execution_capabilities c, ec_supported_profiles c] \<and>
      (case ec_limits c of None \<Rightarrow> True | Some ls \<Rightarrow> list_all (\<lambda>(_, l). 0 \<le> lim_value l) ls) \<and>
      (case ec_claim_provenance c of None \<Rightarrow> True | Some pv \<Rightarrow> provenance_ok parseDate pv))"

lemma stringSet_ok: "stringSet v label = Inr s \<Longrightarrow> set_ok s"
  by (auto simp: stringSet_def set_ok_def split: js.splits option.splits if_splits)

lemma read_integer_ok: "read_integer v label = Inr n \<Longrightarrow> count_ok n"
  by (auto simp: read_integer_def count_ok_def positive_integer_def split: if_splits option.splits js.splits number.splits)

lemma read_entries_all:
  "read_entries f kvs = Inr xs \<Longrightarrow> (\<And>v x. f v = Inr x \<Longrightarrow> P x) \<Longrightarrow> list_all (\<lambda>(_, x). P x) xs"
  by (induction f kvs arbitrary: xs rule: read_entries.induct) (auto split: sum.splits)

lemma read_limit_ok: "read_limit rt raw = Inr l \<Longrightarrow> 0 \<le> lim_value l"
  by (auto simp: read_limit_def split: if_splits js.splits number.splits)

lemma read_limits_ok:
  "read_section (read_limit rt) v label = Inr (Some ls) \<Longrightarrow> list_all (\<lambda>(_, l). 0 \<le> lim_value l) ls"
  by (auto simp: read_section_def split: js.splits sum.splits dest!: read_entries_all [OF _ read_limit_ok])

lemma read_timestamp_ok: "read_timestamp parseDate raw key = Inr (Some s) \<Longrightarrow> parseDate s \<noteq> None"
  by (auto simp: read_timestamp_def split: js.splits if_splits)

lemma read_provenance_ok: "read_provenance parseDate v = Inr (Some pv) \<Longrightarrow> provenance_ok parseDate pv"
  by (auto simp: read_provenance_def provenance_ok_def dest!: read_timestamp_ok
      split: if_splits js.splits sum.splits option.split)

lemma parsed_ok:
  assumes "parseEffectiveCapability rt parseDate raw = Inr c"
  shows "capability_ok parseDate c"
proof -
  have "head_refusal raw = None" using assms by (cases "head_refusal raw") (simp_all add: parseEffectiveCapability_def)
  then have intent: "the (as_text (own_property raw ''intent'')) \<noteq> []"
    by (auto simp: head_refusal_def Let_def split: if_splits)
  show ?thesis
    using assms intent \<open>head_refusal raw = None\<close>
    by (auto simp: parseEffectiveCapability_def capability_ok_def Let_def stringSet_ok read_integer_ok read_limits_ok
        read_provenance_ok split: option.split)
qed

lemma parse_all_ok: "parse_all f vs = Inr xs \<Longrightarrow> (\<And>v x. f v = Inr x \<Longrightarrow> P x) \<Longrightarrow> list_all P xs"
  by (induction vs arbitrary: xs) auto

lemma in_vocabulary_error: "in_vocabulary vocabulary r = Inl e \<Longrightarrow> e = VocabularyTypeError"
  by (auto simp: in_vocabulary_def split: option.splits if_splits)

lemma and_then_Inl: "and_then x f = Inl e \<longleftrightarrow> x = Inl e \<or> (\<exists>a. x = Inr a \<and> f a = Inl e)"
  by (cases x) (simp_all add: and_then_def)

lemma check_requires_error: "check_requires vocabulary denials rs = Inl e \<Longrightarrow> e = VocabularyTypeError"
  by (induction rs) (auto simp: and_then_Inl dest: in_vocabulary_error split: if_splits)

lemma preference_error: "preference_unavailable vocabulary cs rs = Inl e \<Longrightarrow> e = VocabularyTypeError"
  by (induction rs) (auto simp: and_then_Inl dest: in_vocabulary_error split: if_splits)

lemma filter_fresh_total:
  "list_all (capability_ok parseDate) cs \<Longrightarrow> filter_fresh parseDate now cs \<noteq> Inl e"
proof (induction cs)
  case (Cons c cs)
  have "fresh_at parseDate now c \<noteq> Inl e"
    using Cons.prems by (auto simp: fresh_at_def capability_ok_def provenance_ok_def split: option.splits list.splits)
  then show ?case using Cons by (auto simp: and_then_Inl)
qed simp


definition sample_advertisement :: js where
  "sample_advertisement = JObj [(''schema_version'', JStr ''1.0.0''),
     (''capabilities'', JArr [JObj [(''intent'', JStr ''chat''), (''features'', JArr [JStr ''tools''])]])]"

lemma sample_parses:
  "parseEffectiveCapabilityAdvertisement \<lparr>rt_string = \<lambda>_. [], rt_number = \<lambda>_. NaN\<rparr> (\<lambda>_. None) sample_advertisement =
     Inr [\<lparr>ec_intent = ''chat'', ec_version = None, ec_phase = None, ec_variant_id = None, ec_models = None, ec_max_tokens = None,
      ec_input_modalities = None, ec_output_modalities = None, ec_features = Some [''tools''],
      ec_execution_capabilities = None, ec_limits = None, ec_supported_profiles = None, ec_claim_provenance = None,
      ec_extensions = None\<rparr>]"
  by code_simp


end
