(* ===== verification/NodeHealth.thy ===== *)
theory NodeHealth imports JsText begin

text \<open>
  The provider node's reports to its directory: the metrics batches of \<open>heartbeat\<close> and the
  recovery checks of \<open>_heartbeatTick\<close> in \<open>src/node.ts\<close>, with \<open>src/recovery.ts\<close> and the classification of
  \<open>src/runtime_health.ts\<close>. The requests are events with their outcome; \<open>Math.round\<close> is a parameter.
\<close>

section \<open>Metrics batches\<close>

record metrics_batch =
  mb_id :: string
  mb_ok :: nat
  mb_fail :: nat
  mb_latency :: int

record node_metrics =
  nm_ok :: nat
  nm_fail :: nat
  nm_latency :: int
  nm_pending :: "metrics_batch option"

definition new_metrics :: node_metrics where
  "new_metrics = \<lparr>nm_ok = 0, nm_fail = 0, nm_latency = 0, nm_pending = None\<rparr>"

definition begin_heartbeat :: "string \<Rightarrow> node_metrics \<Rightarrow> metrics_batch option \<times> node_metrics" where
  \<comment> \<open>the batch this heartbeat carries; the id is the fresh one it would use\<close>
  "begin_heartbeat freshId nm =
     (let nm = (if nm_pending nm = None \<and> (nm_ok nm > 0 \<or> nm_fail nm > 0)
          then \<lparr>nm_ok = 0, nm_fail = 0, nm_latency = 0,
                nm_pending = Some \<lparr>mb_id = freshId, mb_ok = nm_ok nm, mb_fail = nm_fail nm, mb_latency = nm_latency nm\<rparr>\<rparr>
          else nm)
      in (nm_pending nm, nm))"

definition metrics_payload :: "(rat \<Rightarrow> rat) \<Rightarrow> metrics_batch option \<Rightarrow> (string \<times> js) list" where
  "metrics_payload rnd batch =
     (case batch of
        None \<Rightarrow> []
      | Some b \<Rightarrow>
          if mb_ok b > 0 \<or> mb_fail b > 0 then
            [(''metrics'', JObj ([(''tasks_success'', jint (int (mb_ok b))), (''tasks_failed'', jint (int (mb_fail b)))] @
               (if mb_latency b > 0
                then [(''avg_latency_ms'', JNum (Fin (rnd (of_int (mb_latency b) / of_nat (mb_ok b + mb_fail b) * 100) / 100)))]
                else []))),
             (''metrics_batch_id'', JStr (mb_id b))]
          else [])"

text \<open>
  How the request ended: the answer could not be read, it named the batch it accepted (or none), or
  the request failed, of which only the node's error handling knows more.
\<close>

datatype beat_outcome = BeatAnswered "string option" | BeatUnreadable | BeatFailed

definition batch_settled :: "metrics_batch \<Rightarrow> beat_outcome \<Rightarrow> bool" where
  "batch_settled b outcome =
     (case outcome of
        BeatAnswered accepted \<Rightarrow> accepted = None \<or> accepted = Some (mb_id b)
      | BeatUnreadable \<Rightarrow> True
      | BeatFailed \<Rightarrow> False)"

definition end_heartbeat :: "metrics_batch option \<Rightarrow> beat_outcome \<Rightarrow> node_metrics \<Rightarrow> node_metrics" where
  "end_heartbeat carried outcome nm =
     (case carried of
        None \<Rightarrow> nm
      | Some b \<Rightarrow>
          if batch_settled b outcome \<and> map_option mb_id (nm_pending nm) = Some (mb_id b)
          then nm\<lparr>nm_pending := None\<rparr> else nm)"

subsection \<open>Runs\<close>

text \<open>
  Tasks complete and heartbeats overlap. \<open>hs_flights\<close> are the batches of the heartbeats under way,
  \<open>hs_received\<close> what the directory got, a directory that counts each batch id once. A request that
  is answered was received; one that fails may or may not have been.
\<close>

datatype health_event =
    TaskCompleted bool int
  | BeatStarts string
  | BeatReceived nat
  | BeatEnds nat beat_outcome

record health_system =
  hs_metrics :: node_metrics
  hs_flights :: "metrics_batch option list"
  hs_received :: "(string \<times> metrics_batch) list"
  hs_created :: "metrics_batch list"
  hs_completed :: "nat \<times> nat"

definition new_health_system :: health_system where
  "new_health_system =
     \<lparr>hs_metrics = new_metrics, hs_flights = [], hs_received = [], hs_created = [], hs_completed = (0, 0)\<rparr>"

definition receive_batch :: "metrics_batch option \<Rightarrow> (string \<times> metrics_batch) list \<Rightarrow> (string \<times> metrics_batch) list" where
  "receive_batch carried received =
     (case carried of
        None \<Rightarrow> received
      | Some b \<Rightarrow> if map_of received (mb_id b) = None then received @ [(mb_id b, b)] else received)"

fun health_step :: "health_event \<Rightarrow> health_system \<Rightarrow> health_system" where
  "health_step (TaskCompleted ok latency) hs =
     (let nm = hs_metrics hs; (a, b) = hs_completed hs in
      hs\<lparr>hs_metrics := (if ok then nm\<lparr>nm_ok := nm_ok nm + 1, nm_latency := nm_latency nm + latency\<rparr>
                       else nm\<lparr>nm_fail := nm_fail nm + 1, nm_latency := nm_latency nm + latency\<rparr>),
         hs_completed := (if ok then (a + 1, b) else (a, b + 1))\<rparr>)"
| "health_step (BeatStarts freshId) hs =
     (let (carried, nm) = begin_heartbeat freshId (hs_metrics hs) in
      hs\<lparr>hs_metrics := nm, hs_flights := hs_flights hs @ [carried],
         hs_created := (if nm_pending (hs_metrics hs) = None \<and> carried \<noteq> None
           then hs_created hs @ [the carried] else hs_created hs)\<rparr>)"
| "health_step (BeatReceived i) hs =
     (if i < length (hs_flights hs)
      then hs\<lparr>hs_received := receive_batch (hs_flights hs ! i) (hs_received hs)\<rparr> else hs)"
| "health_step (BeatEnds i outcome) hs =
     (if i < length (hs_flights hs) then
        let carried = hs_flights hs ! i in
        hs\<lparr>hs_metrics := end_heartbeat carried outcome (hs_metrics hs),
           hs_received := (if outcome = BeatFailed then hs_received hs else receive_batch carried (hs_received hs)),
           hs_flights := take i (hs_flights hs) @ drop (Suc i) (hs_flights hs)\<rparr>
      else hs)"

fun fresh_ids :: "string set \<Rightarrow> health_event list \<Rightarrow> bool" where
  "fresh_ids used [] = True"
| "fresh_ids used (BeatStarts i # es) = (i \<notin> used \<and> fresh_ids (insert i used) es)"
| "fresh_ids used (_ # es) = fresh_ids used es"

definition counted :: "(metrics_batch \<Rightarrow> nat) \<Rightarrow> health_system \<Rightarrow> nat" where
  "counted f hs = sum_list (map (f \<circ> snd) (hs_received hs))"

definition unreceived :: "(metrics_batch \<Rightarrow> nat) \<Rightarrow> health_system \<Rightarrow> nat" where
  \<comment> \<open>the outstanding batch, when the directory has not got it\<close>
  "unreceived f hs =
     (case nm_pending (hs_metrics hs) of
        None \<Rightarrow> 0
      | Some b \<Rightarrow> if map_of (hs_received hs) (mb_id b) = None then f b else 0)"

definition health_inv :: "string set \<Rightarrow> health_system \<Rightarrow> bool" where
  "health_inv used hs =
     (distinct (map mb_id (hs_created hs)) \<and> mb_id ` set (hs_created hs) \<subseteq> used \<and>
      (\<forall>b. nm_pending (hs_metrics hs) = Some b \<longrightarrow> b \<in> set (hs_created hs)) \<and>
      (\<forall>b. Some b \<in> set (hs_flights hs) \<longrightarrow> b \<in> set (hs_created hs)) \<and>
      distinct (map fst (hs_received hs)) \<and>
      (\<forall>(i, b) \<in> set (hs_received hs). i = mb_id b \<and> b \<in> set (hs_created hs)) \<and>
      (\<forall>b \<in> set (hs_created hs). (mb_id b, b) \<in> set (hs_received hs) \<or> nm_pending (hs_metrics hs) = Some b))"

definition health_sums :: "health_system \<Rightarrow> bool" where
  "health_sums hs =
     (hs_completed hs = (nm_ok (hs_metrics hs) + sum_list (map mb_ok (hs_created hs)),
        nm_fail (hs_metrics hs) + sum_list (map mb_fail (hs_created hs))))"

lemma same_batch: "health_inv used hs \<Longrightarrow> b \<in> set (hs_created hs) \<Longrightarrow> c \<in> set (hs_created hs) \<Longrightarrow> mb_id b = mb_id c \<Longrightarrow> b = c"
  by (auto simp: health_inv_def distinct_map inj_on_def)

lemma receive_inv:
  assumes "health_inv used hs" and "\<And>b. carried = Some b \<Longrightarrow> b \<in> set (hs_created hs)"
  shows "health_inv used (hs\<lparr>hs_received := receive_batch carried (hs_received hs)\<rparr>)"
    and "carried = Some b \<Longrightarrow> (mb_id b, b) \<in> set (receive_batch carried (hs_received hs))"
proof -
  have known: "(mb_id b, b) \<in> set (hs_received hs)"
    if "carried = Some b" "map_of (hs_received hs) (mb_id b) = Some c" for b c
  proof -
    have "(mb_id b, c) \<in> set (hs_received hs)" using that(2) by (rule map_of_SomeD)
    moreover from this have "mb_id c = mb_id b" "c \<in> set (hs_created hs)" using assms(1) by (auto simp: health_inv_def)
    ultimately show ?thesis using same_batch [OF assms(1) assms(2) [OF that(1)], of c] by metis
  qed
  show "health_inv used (hs\<lparr>hs_received := receive_batch carried (hs_received hs)\<rparr>)"
    using assms by (auto simp: health_inv_def receive_batch_def map_of_eq_None_iff split: option.splits)
  show "(mb_id b, b) \<in> set (receive_batch carried (hs_received hs))" if "carried = Some b"
    using that known by (auto simp: receive_batch_def split: option.splits)
qed

lemma nth_flight: "health_inv used hs \<Longrightarrow> i < length (hs_flights hs) \<Longrightarrow> hs_flights hs ! i = Some b \<Longrightarrow> b \<in> set (hs_created hs)"
  by (metis health_inv_def nth_mem)

lemma settle_inv:
  assumes "health_inv used hs" and "set fl \<subseteq> set (hs_flights hs)"
    and "nm_pending nm = nm_pending (hs_metrics hs) \<or>
      nm_pending nm = None \<and> (\<forall>p. nm_pending (hs_metrics hs) = Some p \<longrightarrow> (mb_id p, p) \<in> set (hs_received hs))"
  shows "health_inv used (hs\<lparr>hs_metrics := nm, hs_flights := fl\<rparr>)"
  using assms by (auto simp: health_inv_def)

lemma health_step_inv:
  assumes "health_inv used hs" and "fresh_ids used (e # es)"
  shows "\<exists>used'. health_inv used' (health_step e hs) \<and> fresh_ids used' es"
proof (cases e)
  case (TaskCompleted ok latency)
  then have "health_inv used (health_step e hs)"
    using assms(1) by (auto simp: health_inv_def Let_def split: prod.split)
  then show ?thesis using assms(2) TaskCompleted by auto
next
  case (BeatStarts fid)
  then have "fid \<notin> used" "fresh_ids (insert fid used) es" using assms(2) by auto
  moreover have "health_inv (insert fid used) (health_step e hs)"
    using assms(1) \<open>fid \<notin> used\<close> BeatStarts
    by (cases "nm_pending (hs_metrics hs)") (auto simp: health_inv_def begin_heartbeat_def Let_def)
  ultimately show ?thesis by blast
next
  case (BeatReceived i)
  then have "health_inv used (health_step e hs)"
    using receive_inv(1) [OF assms(1)] assms(1) nth_flight [OF assms(1)] by auto
  then show ?thesis using assms(2) BeatReceived by auto
next
  case (BeatEnds i outcome)
  have "health_inv used (health_step e hs)"
  proof (cases "i < length (hs_flights hs)")
    case True
    let ?c = "hs_flights hs ! i"
    let ?r = "if outcome = BeatFailed then hs_received hs else receive_batch ?c (hs_received hs)"
    have rec: "health_inv used (hs\<lparr>hs_received := ?r\<rparr>)"
      using receive_inv(1) [OF assms(1)] assms(1) nth_flight [OF assms(1) True] by auto
    have got: "(mb_id b, b) \<in> set ?r" if "?c = Some b" "batch_settled b outcome" for b
      using that receive_inv(2) [OF assms(1) nth_flight [OF assms(1) True], of ?c b]
      by (auto simp: batch_settled_def)
    have sub: "set (take i (hs_flights hs) @ drop (Suc i) (hs_flights hs)) \<subseteq> set (hs_flights hs)"
      by (auto dest: in_set_takeD in_set_dropD)
    have keep: "p = b" if "nm_pending (hs_metrics hs) = Some p" "?c = Some b" "mb_id p = mb_id b" for p b
      using that same_batch [OF assms(1)] nth_flight [OF assms(1) True] assms(1) by (auto simp: health_inv_def)
    let ?nm = "end_heartbeat ?c outcome (hs_metrics hs)"
    have "nm_pending ?nm = nm_pending (hs_metrics hs) \<or>
        nm_pending ?nm = None \<and> (\<forall>p. nm_pending (hs_metrics hs) = Some p \<longrightarrow> (mb_id p, p) \<in> set ?r)"
    proof (cases ?c)
      case (Some b)
      show ?thesis
      proof (cases "batch_settled b outcome \<and> map_option mb_id (nm_pending (hs_metrics hs)) = Some (mb_id b)")
        case True
        then have "nm_pending (hs_metrics hs) = Some b" using keep [OF _ Some] by (cases "nm_pending (hs_metrics hs)") auto
        then show ?thesis using got [OF Some] True Some by (simp add: end_heartbeat_def)
      qed (use Some in \<open>auto simp: end_heartbeat_def\<close>)
    qed (simp add: end_heartbeat_def)
    then have "health_inv used (hs\<lparr>hs_received := ?r\<rparr>\<lparr>hs_metrics := ?nm,
        hs_flights := take i (hs_flights hs) @ drop (Suc i) (hs_flights hs)\<rparr>)"
      using rec sub by (intro settle_inv) simp_all
    moreover have "health_step e hs = hs\<lparr>hs_received := ?r\<rparr>\<lparr>hs_metrics := ?nm,
        hs_flights := take i (hs_flights hs) @ drop (Suc i) (hs_flights hs)\<rparr>"
      using True BeatEnds by (simp add: Let_def)
    ultimately show ?thesis by simp
  next
    case False
    then show ?thesis using assms(1) BeatEnds by simp
  qed
  then show ?thesis using assms(2) BeatEnds by auto
qed

lemma health_step_sums: "health_sums hs \<Longrightarrow> health_sums (health_step e hs)"
  by (cases e) (auto simp: health_sums_def begin_heartbeat_def end_heartbeat_def Let_def split: option.splits prod.splits)

lemma health_run:
  "health_inv used hs \<Longrightarrow> fresh_ids used es \<Longrightarrow> health_sums hs \<Longrightarrow>
   \<exists>used'. health_inv used' (fold health_step es hs) \<and> health_sums (fold health_step es hs)"
proof (induction es arbitrary: used hs)
  case (Cons e es)
  then obtain used' where "health_inv used' (health_step e hs)" "fresh_ids used' es"
    using health_step_inv by blast
  then show ?case using Cons.IH health_step_sums [OF Cons.prems(3)] by auto
qed auto

lemma created_split:
  assumes "health_inv used hs"
  shows "sum_list (map f (hs_created hs)) = counted f hs + unreceived f hs"
proof -
  let ?R = "snd ` set (hs_received hs)"
  have "p = (mb_id (snd p), snd p)" if "p \<in> set (hs_received hs)" for p
    using assms that by (cases p) (auto simp: health_inv_def)
  then have inj: "inj_on snd (set (hs_received hs))" by (metis inj_onI)
  have dr: "distinct (hs_received hs)" and dc: "distinct (hs_created hs)"
    using assms by (auto simp: health_inv_def distinct_map)
  have counted: "counted f hs = sum f ?R"
    using dr inj by (simp add: counted_def sum_list_distinct_conv_sum_set sum.reindex)
  have created: "sum_list (map f (hs_created hs)) = sum f (set (hs_created hs))"
    using dc by (simp add: sum_list_distinct_conv_sum_set)
  have sub: "?R \<subseteq> set (hs_created hs)" using assms by (auto simp: health_inv_def)
  have settled: "b \<in> ?R \<or> nm_pending (hs_metrics hs) = Some b" if "b \<in> set (hs_created hs)" for b
  proof -
    have "(mb_id b, b) \<in> set (hs_received hs) \<or> nm_pending (hs_metrics hs) = Some b"
      using assms that by (simp add: health_inv_def)
    then show ?thesis by (metis image_eqI snd_conv)
  qed
  show ?thesis
  proof (cases "nm_pending (hs_metrics hs)")
    case None
    then have "set (hs_created hs) = ?R" using settled sub by auto
    then show ?thesis using counted created None by (simp add: unreceived_def)
  next
    case (Some b)
    have b: "b \<in> set (hs_created hs)" using assms Some by (auto simp: health_inv_def)
    have iff: "b \<in> ?R \<longleftrightarrow> map_of (hs_received hs) (mb_id b) \<noteq> None"
    proof
      assume "map_of (hs_received hs) (mb_id b) \<noteq> None"
      then obtain c where c: "(mb_id b, c) \<in> set (hs_received hs)" by (auto dest: map_of_SomeD)
      then have "mb_id b = mb_id c \<and> c \<in> set (hs_created hs)" using assms unfolding health_inv_def by fast
      then have "b = c" using same_batch [OF assms b] by simp
      then show "b \<in> ?R" using c by (metis image_eqI snd_conv)
    next
      assume "b \<in> ?R"
      then obtain i where i: "(i, b) \<in> set (hs_received hs)" by auto
      then have "i = mb_id b" using assms unfolding health_inv_def by fast
      then show "map_of (hs_received hs) (mb_id b) \<noteq> None" using i weak_map_of_SomeI by fastforce
    qed
    have "set (hs_created hs) = insert b ?R" using settled sub b Some by auto
    then show ?thesis using counted created Some iff by (auto simp: unreceived_def insert_absorb)
  qed
qed

section \<open>Recovery\<close>

datatype recovery_state = Healthy | LocalUnhealthy | BackendAttention | RouteMismatch | DirectoryAbsent | LimitedReach
  | RestartRecommended | UnknownState

datatype recovery_action = NoAction | Reregister | WaitCooldown | RestartSelf | AttendBackend

datatype presence = Present | Absent | PresenceUnknown

definition DEFAULT_RECOVERY_GRACE_CHECKS :: int where "DEFAULT_RECOVERY_GRACE_CHECKS = 3"

definition DEFAULT_RECOVERY_CHECK_EVERY_HEARTBEATS :: int where "DEFAULT_RECOVERY_CHECK_EVERY_HEARTBEATS = 2"

definition RECOVERY_EXIT_CODE :: int where "RECOVERY_EXIT_CODE = 76"

definition positive_env :: "(string \<Rightarrow> int option) \<Rightarrow> int \<Rightarrow> string option \<Rightarrow> int" where
  \<comment> \<open>\<open>Number.parseInt\<close> of the variable (\<open>None\<close> for \<open>NaN\<close>), or the default\<close>
  "positive_env parseInt d v =
     (case v of
        None \<Rightarrow> d
      | Some s \<Rightarrow> (case parseInt s of Some n \<Rightarrow> if n > 0 then n else d | None \<Rightarrow> d))"

definition envGraceChecks :: "(string \<Rightarrow> int option) \<Rightarrow> string option \<Rightarrow> int" where
  "envGraceChecks parseInt v = positive_env parseInt DEFAULT_RECOVERY_GRACE_CHECKS v"

definition envCheckEveryHeartbeats :: "(string \<Rightarrow> int option) \<Rightarrow> string option \<Rightarrow> int" where
  "envCheckEveryHeartbeats parseInt v = positive_env parseInt DEFAULT_RECOVERY_CHECK_EVERY_HEARTBEATS v"

definition supervisedRecoveryEnabled :: "string option \<Rightarrow> string option \<Rightarrow> bool" where
  "supervisedRecoveryEnabled supervised exitFlag =
     (js_lower (js_trim (or_else supervised [])) \<in> set [''1'', ''true'', ''yes''] \<and>
      js_lower (js_trim (or_else exitFlag [])) \<notin> set [''0'', ''false'', ''no'', ''off''])"

definition hex_groups :: "nat list \<Rightarrow> (char \<Rightarrow> bool) list" where
  "hex_groups ns = tl (concat (map (\<lambda>n. (\<lambda>c. c = CHR ''-'') # replicate n any_hex) ns))"

definition nodeRegistryPrefix :: "string \<Rightarrow> string" where
  "nodeRegistryPrefix nodeId = (if matches (hex_groups [8, 4, 4, 4, 12]) nodeId then take 8 nodeId else nodeId)"

definition classifyRecovery ::
  "bool \<Rightarrow> bool \<Rightarrow> presence \<Rightarrow> int \<Rightarrow> int \<Rightarrow> bool \<Rightarrow> recovery_state \<times> recovery_action" where
  "classifyRecovery localHealthOk publicAvailable directoryPresence failures graceChecks backendAttention =
     (if \<not> localHealthOk then (LocalUnhealthy, RestartSelf)
      else if backendAttention then (BackendAttention, AttendBackend)
      else if \<not> publicAvailable then
        (if failures \<ge> graceChecks then (RestartRecommended, RestartSelf) else (LimitedReach, WaitCooldown))
      else if directoryPresence = Present then (Healthy, NoAction)
      else if directoryPresence = Absent then
        (if failures \<ge> graceChecks then (RouteMismatch, RestartSelf) else (DirectoryAbsent, Reregister))
      else (UnknownState, NoAction))"

definition effectivePublicRouteAvailable :: "bool \<Rightarrow> bool \<Rightarrow> bool \<Rightarrow> bool" where
  "effectivePublicRouteAvailable runtimeAvailable routeNeedsPromotion relayBound =
     (runtimeAvailable \<and> (relayBound \<or> \<not> routeNeedsPromotion))"

definition plain_or :: "js \<Rightarrow> js \<Rightarrow> js" where
  \<comment> \<open>\<open>isRecord(v) ? v : d\<close>\<close>
  "plain_or v d = (case v of JObj _ \<Rightarrow> v | _ \<Rightarrow> d)"

definition first_text :: "js \<Rightarrow> js \<Rightarrow> js" where
  "first_text v w = (case v of JStr _ \<Rightarrow> v | _ \<Rightarrow> (case w of JStr _ \<Rightarrow> w | _ \<Rightarrow> JUndef))"

definition first_truth :: "js \<Rightarrow> js \<Rightarrow> js" where
  "first_truth v w = (case v of JBool _ \<Rightarrow> v | _ \<Rightarrow> (case w of JBool _ \<Rightarrow> w | _ \<Rightarrow> JUndef))"

definition routeNeedsPromotionFromRegistryJson :: "js \<Rightarrow> bool" where
  "routeNeedsPromotionFromRegistryJson data =
     (let r = plain_or (own_property data ''node'') data;
          summary = plain_or (own_property r ''status_summary'') (JObj []);
          evidence = first_text (own_property r ''route_evidence'') (own_property summary ''evidence_source'');
          hint = first_text (own_property r ''routing_hint'') (own_property summary ''routing_hint'');
          usable = first_truth (own_property r ''browser_usable'') (own_property summary ''browser_usable'')
      in if plain_or r JNull = JNull then False
         else if own_property summary ''state'' = JStr ''direct_unverified'' then True
         else hint = JStr ''http_ipv6'' \<and> evidence \<noteq> JStr ''directory_observed'' \<and> usable \<noteq> JBool True)"

text \<open>The answer of the registry: its status and the body (\<open>None\<close> when it is no JSON); no answer at all.\<close>

definition registryRouteStatus :: "(nat \<times> js option) option \<Rightarrow> presence \<times> bool" where
  "registryRouteStatus answer =
     (case answer of
        None \<Rightarrow> (PresenceUnknown, False)
      | Some (status, body) \<Rightarrow>
          if 200 \<le> status \<and> status \<le> 299 then (Present, routeNeedsPromotionFromRegistryJson (or_else body (JObj [])))
          else if status = 404 then (Absent, False)
          else (PresenceUnknown, False))"

section \<open>The heartbeat tick\<close>

record recovery_counters =
  rc_seq :: int
  rc_failures :: int

record tick_env =
  te_registered :: "string list"
  te_hasBackend :: bool
  te_available :: bool
  te_relayBound :: bool
  te_draining :: bool
  te_checkEvery :: int
  te_graceChecks :: int
  te_supervised :: bool

text \<open>
  The model list drift: the live models, and what the registration with them gives (the new token).
\<close>

definition same_models :: "string list \<Rightarrow> string list \<Rightarrow> bool" where
  \<comment> \<open>\<open>_registeredModels\<close> is a set\<close>
  "same_models live registered =
     (length (remdups live) = length (remdups registered) \<and> list_all (\<lambda>m. m \<in> set registered) live)"

definition maybeReregisterOnModelDrift ::
  "tick_env \<Rightarrow> string list option \<Rightarrow> (string list \<Rightarrow> string option) \<Rightarrow> string \<Rightarrow> string" where
  "maybeReregisterOnModelDrift env live registerWith token =
     (if \<not> te_hasBackend env \<or> te_registered env = [] then token
      else case live of
        None \<Rightarrow> token
      | Some ms \<Rightarrow>
          if ms = [] then token
          else if same_models ms (te_registered env) then token
          else or_else (registerWith (sort (remdups ms))) token)"

datatype tick_result = NextToken string | ExitProcess

definition recovery_check ::
  "tick_env \<Rightarrow> presence \<times> bool \<Rightarrow> string option \<Rightarrow> string \<Rightarrow> recovery_counters \<Rightarrow> tick_result \<times> recovery_counters" where
  \<comment> \<open>the registration, should it be asked for, gives the third argument\<close>
  "recovery_check env route register token rc =
     (let (presence, needsPromotion) = route;
          effective = effectivePublicRouteAvailable (te_available env) needsPromotion (te_relayBound env);
          rc = (if \<not> effective \<or> presence = Absent then rc\<lparr>rc_failures := rc_failures rc + 1\<rparr>
                else if presence = Present then rc\<lparr>rc_failures := 0\<rparr> else rc);
          (state, action) = classifyRecovery True effective presence (rc_failures rc) (te_graceChecks env) (te_draining env)
      in if action = Reregister then
           (case register of
              Some t \<Rightarrow> (NextToken t, rc\<lparr>rc_failures := 0\<rparr>)
            | None \<Rightarrow> (NextToken token, rc))
         else if action = RestartSelf \<and> te_supervised env then (ExitProcess, rc)
         else (NextToken token, rc))"

definition heartbeatTick ::
  "tick_env \<Rightarrow> string list option \<Rightarrow> (string list \<Rightarrow> string option) \<Rightarrow> (nat \<times> js option) option \<Rightarrow> string option \<Rightarrow>
   nat option option \<Rightarrow> string \<Rightarrow> recovery_counters \<Rightarrow> tick_result \<times> recovery_counters" where
  \<comment> \<open>the sixth argument is how the heartbeat failed: with a status, or without one\<close>
  "heartbeatTick env live registerWith registry register failed token rc =
     (case failed of
        None \<Rightarrow>
          let token = maybeReregisterOnModelDrift env live registerWith token;
              rc = rc\<lparr>rc_seq := rc_seq rc + 1\<rparr>
          in if te_checkEvery env > 0 \<and> rc_seq rc mod te_checkEvery env = 0
             then recovery_check env (registryRouteStatus registry) register token rc
             else (NextToken token, rc)
      | Some status \<Rightarrow>
          if status = Some 401 \<or> status = Some 404 \<or> status = Some 410
          then (NextToken (or_else register token), rc)
          else (NextToken token, rc))"

definition probe_names :: "js \<Rightarrow> string \<Rightarrow> string \<Rightarrow> string list" where
  \<comment> \<open>\<open>(d[list] ?? []).flatMap(m => m[name] ? [m[name]] : [])\<close>; the names are texts\<close>
  "probe_names d list name =
     (case own_property d list of
        JArr ms \<Rightarrow> concat (map (\<lambda>m. case own_property m name of JStr s \<Rightarrow> if s = [] then [] else [s] | _ \<Rightarrow> []) ms)
      | _ \<Rightarrow> [])"

definition probeHealthModels :: "string list \<Rightarrow> js option \<Rightarrow> js option \<Rightarrow> string list option" where
  \<comment> \<open>the answers of the two endpoints, if they are usable\<close>
  "probeHealthModels excluded ollama openai =
     (case ollama of
        Some d \<Rightarrow> Some (sort (filter (\<lambda>m. m \<notin> set excluded) (remdups (probe_names d ''models'' ''name''))))
      | None \<Rightarrow>
          (case openai of
             Some d \<Rightarrow> Some (filter (\<lambda>m. m \<notin> set excluded) (probe_names d ''data'' ''id''))
           | None \<Rightarrow> None))"

section \<open>Runtime health\<close>

datatype subsystem_state = SubHealthy | SubDegraded | SubRecovering | SubUnavailable | SubNotApplicable | SubUnknown

datatype liveness = LiveStarting | Live | NotLive | LiveIndeterminate

datatype readiness = Ready | Degraded | NotReady

record runtime_input =
  ri_lifecycle :: string
  ri_runtime_age :: int
  ri_runtime_stale_after :: int
  ri_supervisor_required :: bool
  ri_supervisor_age :: int
  ri_supervisor_stale_after :: int
  ri_provider :: subsystem_state
  ri_capacity :: bool
  ri_routing :: subsystem_state
  ri_directory :: subsystem_state
  ri_dns :: subsystem_state
  ri_internet :: subsystem_state
  ri_tunnel :: subsystem_state

definition runtime_reasons :: "runtime_input \<Rightarrow> string list" where
  "runtime_reasons i =
     map snd (filter fst
       [(ri_provider i = SubUnavailable, ''PROVIDER_UNAVAILABLE''), (\<not> ri_capacity i, ''NO_CAPACITY''),
        (ri_routing i = SubUnavailable, ''ROUTING_UNAVAILABLE''), (ri_tunnel i = SubRecovering, ''TUNNEL_RECOVERING''),
        (ri_directory i = SubUnavailable, ''DIRECTORY_UNAVAILABLE''), (ri_dns i = SubUnavailable, ''DNS_UNAVAILABLE''),
        (ri_internet i = SubUnavailable, ''INTERNET_UNAVAILABLE'')])"

definition BLOCKING_REASONS :: "string list" where
  "BLOCKING_REASONS = [''PROVIDER_UNAVAILABLE'', ''NO_CAPACITY'', ''ROUTING_UNAVAILABLE'']"

definition classifyRuntimeHealth :: "runtime_input \<Rightarrow> liveness \<times> readiness \<times> string list" where
  "classifyRuntimeHealth i =
     (if ri_lifecycle i = ''starting'' then (LiveStarting, NotReady, [''STARTING''])
      else if ri_runtime_age i > ri_runtime_stale_after i then (NotLive, NotReady, [''RUNTIME_PROGRESS_STALE''])
      else if ri_supervisor_required i \<and> ri_supervisor_age i > ri_supervisor_stale_after i
      then (NotLive, NotReady, [''SUPERVISOR_PROGRESS_STALE''])
      else if ri_lifecycle i = ''stopping'' then (Live, NotReady, [''STOPPING''])
      else
        let reasons = runtime_reasons i in
        (Live,
         (if list_ex (\<lambda>r. r \<in> set BLOCKING_REASONS) reasons then NotReady else if reasons \<noteq> [] then Degraded else Ready),
         reasons))"

lemma readiness_spec:
  "ri_lifecycle i \<notin> {''starting'', ''stopping''} \<Longrightarrow> ri_runtime_age i \<le> ri_runtime_stale_after i \<Longrightarrow>
   \<not> (ri_supervisor_required i \<and> ri_supervisor_age i > ri_supervisor_stale_after i) \<Longrightarrow>
   fst (snd (classifyRuntimeHealth i)) = NotReady \<longleftrightarrow>
     ri_provider i = SubUnavailable \<or> \<not> ri_capacity i \<or> ri_routing i = SubUnavailable"
  by (auto simp: classifyRuntimeHealth_def runtime_reasons_def BLOCKING_REASONS_def Let_def)

section \<open>Properties\<close>

text \<open>A restart is asked for only after the grace, at a check that found no route or no registration.\<close>

lemma restart_needs_grace:
  "recovery_check env route register token rc = (ExitProcess, rc') \<Longrightarrow> te_graceChecks env \<le> rc_failures rc' \<and>
   (\<not> effectivePublicRouteAvailable (te_available env) (snd route) (te_relayBound env) \<or> fst route = Absent)"
  by (auto simp: recovery_check_def classifyRecovery_def Let_def split: prod.splits if_splits option.splits)

lemma new_health_inv: "health_inv {} new_health_system" "health_sums new_health_system"
  by (simp_all add: health_inv_def health_sums_def new_health_system_def new_metrics_def)

text \<open>
  C28 The directory's task counts lose nothing and count nothing twice, however heartbeats overlap and
  whichever requests or answers are lost: at every moment the tasks completed are those the
  directory has counted (once per batch id), plus the outstanding batch it has not received, plus
  those not yet in a batch.
\<close>

theorem metrics_counted_once:
  assumes "fresh_ids {} es"
  shows "(let hs = fold health_step es new_health_system in
    hs_completed hs = (counted mb_ok hs + unreceived mb_ok hs + nm_ok (hs_metrics hs),
      counted mb_fail hs + unreceived mb_fail hs + nm_fail (hs_metrics hs)))"
proof -
  obtain used where inv: "health_inv used (fold health_step es new_health_system)"
    and sums: "health_sums (fold health_step es new_health_system)"
    using health_run [OF new_health_inv(1) assms new_health_inv(2)] by blast
  show ?thesis
    using sums created_split [OF inv, of mb_ok] created_split [OF inv, of mb_fail]
    by (simp add: health_sums_def Let_def)
qed

theorem metrics_counted_once_witness:
  "(let hs = fold health_step [TaskCompleted True 5, BeatStarts ''a'', BeatReceived 0, TaskCompleted True 7, BeatEnds 0 BeatFailed,
        BeatStarts ''b'', BeatEnds 0 (BeatAnswered (Some ''a''))] new_health_system in
     counted mb_ok hs + unreceived mb_ok hs + nm_ok (hs_metrics hs) = 2)"
proof -
  let ?es = "[TaskCompleted True 5, BeatStarts ''a'', BeatReceived 0, TaskCompleted True 7, BeatEnds 0 BeatFailed,
        BeatStarts ''b'', BeatEnds 0 (BeatAnswered (Some ''a''))]"
  have "fst (hs_completed (fold health_step ?es new_health_system)) = 2"
    by (simp add: new_health_system_def new_metrics_def begin_heartbeat_def receive_batch_def end_heartbeat_def
        batch_settled_def)
  moreover have "fresh_ids {} ?es" by simp
  ultimately show ?thesis using metrics_counted_once [of ?es] by (simp only: Let_def fst_conv)
qed

end
