(* ===== verification/Discovery.thy ===== *)
theory Discovery imports Routing EndpointSecurity HttpResource begin

text \<open>
  How the client of \<open>src/client.ts\<close> finds the nodes it may send a task to: the guard against
  endpoints inside the caller's network, the reading of the routes a directory sends, ticketed
  dispatch and the legacy catalogue, and \<open>src/request_projection.ts\<close>. The parser of URLs is a
  parameter as in the other theories. The directory is a function from the number of the request
  and its body to what comes back. The text of an error is left out; its code, status and
  component are kept. A score or load of a route that is no finite number is outside the model.
\<close>

section \<open>Errors\<close>

record iicp_error =
  ie_code :: string
  ie_status :: "nat option"
  ie_component :: string

text \<open>
  What an operation throws: an error of the SDK, the signal to fall back to the legacy
  catalogue, or an error of the language such as a property access on \<open>null\<close>.
\<close>

datatype failure = Refused iicp_error | LegacyDiscoveryRequired | Uncaught

definition refused :: "string \<Rightarrow> string \<Rightarrow> failure" where
  "refused code component = Refused \<lparr>ie_code = code, ie_status = None, ie_component = component\<rparr>"

section \<open>Endpoints\<close>

definition octet_text :: "string \<Rightarrow> bool" where
  \<comment> \<open>\<open>\d{1,3}\<close>\<close>
  "octet_text s = (1 \<le> length s \<and> length s \<le> 3 \<and> all_digits s)"

definition private_octets :: "nat \<Rightarrow> nat \<Rightarrow> bool" where
  "private_octets a b =
     (a = 10 \<or> a = 172 \<and> 16 \<le> b \<and> b \<le> 31 \<or> a = 192 \<and> b = 168 \<or> a = 127 \<or> a = 169 \<and> b = 254 \<or>
      a = 100 \<and> 64 \<le> b \<and> b \<le> 127 \<or> a = 0)"

definition private_v4_text :: "string \<Rightarrow> bool" where
  "private_v4_text host =
     (case split_on (CHR ''.'') host of
        [a, b, c, d] \<Rightarrow>
          octet_text a \<and> octet_text b \<and> octet_text c \<and> octet_text d \<and> private_octets (decimal a) (decimal b)
      | _ \<Rightarrow> False)"

definition local_v6_text :: "string \<Rightarrow> bool" where
  \<comment> \<open>\<open>/^(fe80:|fc[0-9a-f]{2}:|fd[0-9a-f]{2}:)/i\<close>\<close>
  "local_v6_text host =
     (starts_with (js_lower host) ''fe80:'' \<or>
      (case host of
         a # b # c # d # e # _ \<Rightarrow>
           js_lower [a, b] \<in> {''fc'', ''fd''} \<and> any_hex c \<and> any_hex d \<and> e = CHR '':''
       | _ \<Rightarrow> False))"

definition isSsrfSafe :: "(string \<Rightarrow> url option) \<Rightarrow> string option \<Rightarrow> string \<Rightarrow> bool" where
  \<comment> \<open>the second argument is the variable \<open>IICP_PROXY_ALLOW_LOOPBACK_NODES\<close>\<close>
  "isSsrfSafe parse loopback u =
     (case parse u of
        None \<Rightarrow> False
      | Some parsed \<Rightarrow>
          if url_protocol parsed \<notin> set [''http:'', ''https:''] then False
          else
            let host = js_lower (url_hostname parsed) in
            if host = [] then False
            else if privateEndpointsAllowed loopback then True
            else if host \<in> set [''localhost'', ''0.0.0.0'', ''::1'', ''::''] then False
            else if list_ex (ends_with host) BLOCKED_SUFFIXES then False
            else if CHR '':'' \<in> set host then \<not> local_v6_text host
            else if CHR ''.'' \<notin> set host then False
            else \<not> private_v4_text host)"

definition cxPlaintextFallbackAllowed :: "string option \<Rightarrow> bool" where
  \<comment> \<open>the variable \<open>IICP_CX_ALLOW_PLAINTEXT\<close>\<close>
  "cxPlaintextFallbackAllowed env = (js_lower (js_trim (or_else env [])) \<in> set [''1'', ''true'', ''yes'', ''on''])"

definition nodeShortId :: "string \<Rightarrow> string" where
  "nodeShortId i = take 8 i"

definition isBrowserUsableEndpoint :: "(string \<Rightarrow> url option) \<Rightarrow> string \<Rightarrow> bool" where
  "isBrowserUsableEndpoint parse u =
     (case parse u of
        None \<Rightarrow> False
      | Some parsed \<Rightarrow>
          if url_protocol parsed = ''https:'' then True
          else if url_protocol parsed \<noteq> ''http:'' then False
          else js_lower (url_hostname parsed) \<in> set [''localhost'', ''127.0.0.1'', ''::1''])"

section \<open>Routes\<close>

text \<open>
  A node as the client keeps it. The fields that the routing gates read are those of \<open>node\<close>; its
  key is also kept in full.
\<close>

record cx_key =
  ck_algorithm :: js
  ck_encoding :: js
  ck_key :: js
  ck_key_id :: js
  ck_features :: "string list option"

record route_node = node +
  rn_endpoint :: string
  rn_available :: bool
  rn_latency_estimate_ms :: js
  rn_reputation_score :: js
  rn_exposure_mode :: js
  rn_cx_key :: "cx_key option"
  rn_transport :: "string list option"
  rn_route_evidence :: "string option"
  rn_routing_hint :: "string option"
  rn_browser_usable :: "bool option"
  rn_latency_evidence :: js
  rn_health_reasons :: "js list option"
  rn_trust_progress :: js
  rn_sdk_release :: js
  rn_ticket_id_prefix :: "string option"

definition finite_part :: "number \<Rightarrow> rat" where
  "finite_part n = (case n of Fin q \<Rightarrow> q | _ \<Rightarrow> 0)"

definition text_option :: "js \<Rightarrow> string option" where
  "text_option v = (case v of JStr s \<Rightarrow> Some s | _ \<Rightarrow> None)"

definition bool_option :: "js \<Rightarrow> bool option" where
  "bool_option v = (case v of JBool b \<Rightarrow> Some b | _ \<Rightarrow> None)"

definition object_or_undef :: "js \<Rightarrow> js" where
  "object_or_undef v = (if is_object v then v else JUndef)"

definition list_option :: "js \<Rightarrow> js list option" where
  "list_option v = (case v of JArr xs \<Rightarrow> Some xs | _ \<Rightarrow> None)"

definition read_cx_key :: "js_runtime \<Rightarrow> js \<Rightarrow> cx_key option" where
  "read_cx_key rt raw =
     (let rawCx = coalesce (own_property raw ''cx_public_key'') (own_property raw ''public_key'') in
      if truthy rawCx \<and> truthy (own_property rawCx ''algorithm'') \<and> truthy (own_property rawCx ''key'') \<and>
         truthy (own_property rawCx ''key_id'')
      then Some \<lparr>ck_algorithm = own_property rawCx ''algorithm'', ck_encoding = own_property rawCx ''encoding'',
             ck_key = own_property rawCx ''key'', ck_key_id = own_property rawCx ''key_id'',
             ck_features = map_option (map (String_of rt)) (list_option (own_property rawCx ''features''))\<rparr>
      else None)"

definition cx_value :: "cx_key option \<Rightarrow> js" where
  "cx_value key =
     (case key of
        None \<Rightarrow> JUndef
      | Some k \<Rightarrow> JObj [(''algorithm'', ck_algorithm k), (''encoding'', ck_encoding k), (''key'', ck_key k),
          (''key_id'', ck_key_id k)])"

definition nodeFromRoute ::
  "js_runtime \<Rightarrow> (string \<Rightarrow> bool) \<Rightarrow> js \<Rightarrow> string option \<Rightarrow> route_node option" where
  "nodeFromRoute rt ssrf_safe raw ticketIdPrefix =
     (let field = own_property raw;
          endpoint = String_of rt (coalesce (field ''endpoint'') (JStr []));
          nodeId = String_of rt (coalesce (field ''node_id'') (JStr []))
      in if nodeId = [] \<or> \<not> ssrf_safe endpoint then None
         else Some \<lparr>node_id = nodeId,
           node_region = Some (String_of rt (coalesce (field ''region'') (JStr []))),
           node_score = finite_part (Number_of rt (coalesce (field ''score'') (jint 0))),
           node_load = Some (finite_part (Number_of rt (coalesce (field ''load'') (jint 0)))),
           node_models = map_option (\<lambda>xs. List.map_filter text_option xs) (list_option (field ''models'')),
           node_cx_public_key = cx_value (read_cx_key rt raw),
           node_policy_manifest =
             (if is_object (field ''node_policy_manifest'') then field ''node_policy_manifest''
              else if field ''node_policy_manifest'' = JNull then JNull else JUndef),
           node_health_label = field ''health_label'',
           node_observed_reachable =
             (case field ''directory_observed_reachable'' of JBool b \<Rightarrow> JBool b | JNull \<Rightarrow> JNull | _ \<Rightarrow> JUndef),
           rn_endpoint = endpoint,
           rn_available = truthy (coalesce (field ''available'') (JBool True)),
           rn_latency_estimate_ms = field ''latency_estimate_ms'',
           rn_reputation_score = field ''reputation_score'',
           rn_exposure_mode = field ''exposure_mode'',
           rn_cx_key = read_cx_key rt raw,
           rn_transport = map_option (map (String_of rt)) (list_option (field ''transport'')),
           rn_route_evidence = text_option (field ''route_evidence''),
           rn_routing_hint = text_option (field ''routing_hint''),
           rn_browser_usable = bool_option (field ''browser_usable''),
           rn_latency_evidence = object_or_undef (field ''latency_evidence''),
           rn_health_reasons = map_option (filter is_object) (list_option (field ''health_reasons'')),
           rn_trust_progress = object_or_undef (field ''trust_progress''),
           rn_sdk_release = object_or_undef (field ''sdk_release''),
           rn_ticket_id_prefix = ticketIdPrefix\<rparr>)"

section \<open>Requests to the directory\<close>

record profile_request =
  pq_profile_id :: string
  pq_profile_version :: string
  pq_profile_fixture_sha256 :: string
  pq_required :: "bool option"

record discover_options =
  do_limit :: "rat option"
  do_region :: "string option"
  do_qos :: "string option"
  do_min_reputation :: "rat option"
  do_model :: "string option"
  do_browser_usable_only :: "bool option"
  do_profile_request :: "profile_request option"

text \<open>The configuration, as far as discovery and submission read it.\<close>

record client_config =
  cf_directory_url :: string
  cf_timeout_ms :: rat
  cf_region :: "string option"
  cf_api_token :: "string option"
  cf_routing_epsilon :: "rat option"
  cf_routing_strategy :: "string option"
  cf_routing_top_k :: "rat option"
  cf_routing_softmax_tau :: "rat option"
  cf_node_token :: "string option"
  cf_consumer_auth_mode :: "string option"
  cf_routing_policy :: "routing_policy option"
  cf_route_discovery_mode :: "string option"
  cf_profile_request :: "profile_request option"
  cf_restricted_directory :: "directory_context option"

record task_constraints =
  tk_region :: "string option"
  tk_qos :: "string option"
  tk_timeout_ms :: "rat option"
  tk_min_reputation :: "rat option"
  tk_model :: "string option"

definition empty_options :: discover_options where
  "empty_options = \<lparr>do_limit = None, do_region = None, do_qos = None, do_min_reputation = None,
     do_model = None, do_browser_usable_only = None, do_profile_request = None\<rparr>"

definition empty_constraints :: task_constraints where
  "empty_constraints = \<lparr>tk_region = None, tk_qos = None, tk_timeout_ms = None, tk_min_reputation = None,
     tk_model = None\<rparr>"

text \<open>\<open>a ?? b\<close> for optional values.\<close>

definition first_some :: "'a option \<Rightarrow> 'a option \<Rightarrow> 'a option" where
  "first_some a b = (case a of None \<Rightarrow> b | Some _ \<Rightarrow> a)"

definition projectRouteOptions ::
  "discover_options option \<Rightarrow> task_constraints option \<Rightarrow> client_config \<Rightarrow> discover_options" where
  "projectRouteOptions route_constraints constraints cfg =
     (let route = or_else route_constraints empty_options; c = or_else constraints empty_constraints in
      \<lparr>do_limit = Some (or_else (do_limit route) 10),
       do_region = first_some (do_region route) (first_some (tk_region c) (cf_region cfg)),
       do_qos = first_some (do_qos route) (tk_qos c),
       do_min_reputation = first_some (do_min_reputation route) (tk_min_reputation c),
       do_model = first_some (do_model route) (tk_model c),
       do_browser_usable_only = Some (or_else (do_browser_usable_only route) False),
       do_profile_request = first_some (do_profile_request route) (cf_profile_request cfg)\<rparr>)"

definition jrat :: "rat \<Rightarrow> js" where "jrat q = JNum (Fin q)"

definition optional_field :: "string \<Rightarrow> ('a \<Rightarrow> js) \<Rightarrow> 'a option \<Rightarrow> (string \<times> js) list" where
  \<comment> \<open>\<open>...(v !== undefined ? { k: v } : {})\<close>\<close>
  "optional_field k f v = (case v of None \<Rightarrow> [] | Some x \<Rightarrow> [(k, f x)])"

definition nonempty_field :: "string \<Rightarrow> string option \<Rightarrow> (string \<times> js) list" where
  \<comment> \<open>\<open>if (v) base.k = v\<close>\<close>
  "nonempty_field k v = (case v of None \<Rightarrow> [] | Some x \<Rightarrow> if x = [] then [] else [(k, JStr x)])"

definition projectExecutionConstraints :: "task_constraints option \<Rightarrow> js" where
  "projectExecutionConstraints constraints =
     (let source = or_else constraints empty_constraints in
      JObj (optional_field ''timeout_ms'' jrat (tk_timeout_ms source) @
            optional_field ''qos'' JStr (tk_qos source) @
            optional_field ''model'' JStr (tk_model source)))"

section \<open>Ticketed dispatch\<close>

datatype directory_answer = NoAnswer | DirectoryAnswer nat js

text \<open>
  What the client finds around it. \<open>dq_ticket i body\<close> answers the \<open>i\<close>-th ticket request;
  \<open>dq_key i\<close> answers the request for the directory's key in that round; \<open>dq_now i\<close> is the time of
  the round in seconds. A body that is no JSON is \<open>{}\<close>.
\<close>

record directory_env =
  dq_runtime :: js_runtime
  dq_parse_url :: "string \<Rightarrow> url option"
  dq_allow_loopback :: "string option"
  dq_crypto :: "route_ticket_claims ticket_crypto"
  dq_now :: "nat \<Rightarrow> int"
  dq_ticket :: "nat \<Rightarrow> js \<Rightarrow> directory_answer"
  dq_key :: "nat \<Rightarrow> directory_answer"

definition MAX_RETRIES :: nat where "MAX_RETRIES = 3"

definition env_safe :: "directory_env \<Rightarrow> string \<Rightarrow> bool" where
  "env_safe env = isSsrfSafe (dq_parse_url env) (dq_allow_loopback env)"

definition ticket_request_base :: "string \<Rightarrow> discover_options \<Rightarrow> client_config \<Rightarrow> (string \<times> js) list" where
  "ticket_request_base intent opts cfg =
     [(''intent'', JStr intent), (''limit'', jrat (min (or_else (do_limit opts) 10) 50))] @
     nonempty_field ''region'' (first_some (do_region opts) (cf_region cfg)) @
     nonempty_field ''qos'' (do_qos opts) @
     optional_field ''min_reputation'' jrat (do_min_reputation opts) @
     nonempty_field ''model'' (do_model opts)"

definition strip_api :: "string \<Rightarrow> string" where
  \<comment> \<open>\<open>s.replace(/\/api$/, "")\<close>\<close>
  "strip_api s = (if ends_with s ''/api'' then take (length s - 4) s else s)"

definition directory_issuer :: "client_config \<Rightarrow> string" where
  "directory_issuer cfg = strip_api (strip_suffix (CHR ''/'') (cf_directory_url cfg))"

text \<open>The key of the directory is fetched once and kept; without one no ticket verifies.\<close>

definition fetch_ticket_key :: "directory_answer \<Rightarrow> string option \<Rightarrow> failure + string option" where
  "fetch_ticket_key answer known =
     (if known \<noteq> None \<and> known \<noteq> Some [] then Inr known
      else (case answer of
          NoAnswer \<Rightarrow> Inl Uncaught
        | DirectoryAnswer status data \<Rightarrow>
            if status \<noteq> 200 then Inr known
            else if data = JNull then Inl Uncaught
            else Inr (first_some (text_option (own_property data ''public_key'')) known)))"

definition ticket_claims :: "directory_env \<Rightarrow> nat \<Rightarrow> client_config \<Rightarrow> string \<Rightarrow> js \<Rightarrow> string option \<Rightarrow> route_ticket_claims option" where
  "ticket_claims env i cfg intent data key =
     (case (text_option (own_property data ''ticket''), key) of
        (Some ticket, Some k) \<Rightarrow>
          if k = [] then None
          else verifyDispatchRouteTicket (dq_crypto env) ticket k (directory_issuer cfg)
                 (or_else (text_option (own_property data ''node_id'')) []) intent (dq_now env i)
      | _ \<Rightarrow> None)"

definition ticketed_route :: "directory_env \<Rightarrow> js \<Rightarrow> route_node option" where
  "ticketed_route env data =
     (let route = own_property data ''route'' in
      if truthy route
      then nodeFromRoute (dq_runtime env) (env_safe env)
             (JObj (AList.update ''node_id'' (coalesce (own_property data ''node_id'') (own_property route ''node_id''))
                     (spread [] route)))
             (Some (String_of (dq_runtime env) (coalesce (own_property data ''ticket_id_prefix'') (JStr []))))
      else None)"

text \<open>
  One round with an answer of status 201: the node, its eligibility in a restricted domain, and
  the key the client now holds, which is kept also when the round fails after fetching it.
\<close>

definition eligibility_of_answer ::
  "client_config \<Rightarrow> js \<Rightarrow> string \<Rightarrow> int \<Rightarrow> failure + restricted_eligibility option" where
  "eligibility_of_answer cfg data oper now =
     (case cf_restricted_directory cfg of
        None \<Rightarrow> Inr None
      | Some cx \<Rightarrow>
          (case validateRestrictedDecision data cx oper now of
             Inl e \<Rightarrow> Inl (refused ''restricted_directory_decision_refused'' ''directory'')
           | Inr el \<Rightarrow> Inr (Some el)))"

definition accept_ticket ::
  "directory_env \<Rightarrow> nat \<Rightarrow> client_config \<Rightarrow> string \<Rightarrow> js \<Rightarrow> string option \<Rightarrow>
   (failure + route_node \<times> restricted_eligibility option) \<times> string option" where
  "accept_ticket env i cfg intent data known =
     (case eligibility_of_answer cfg data ''dispatch_ticket'' (dq_now env i) of
        Inl e \<Rightarrow> (Inl e, known)
      | Inr el \<Rightarrow>
          (case fetch_ticket_key (dq_key env i) known of
             Inl e \<Rightarrow> (Inl e, known)
           | Inr key \<Rightarrow>
               (case ticket_claims env i cfg intent data key of
                  None \<Rightarrow> (Inl (refused ''IICP-DISPATCH-TICKET-UNVERIFIED'' ''directory''), key)
                | Some claims \<Rightarrow>
                    if \<not> policyManifestBindingMatches claims (own_property data ''route'')
                    then (Inl (refused ''IICP-POLICY-MANIFEST-BINDING-MISMATCH'' ''directory''), key)
                    else (case ticketed_route env data of
                        None \<Rightarrow> (Inl (refused ''IICP-DISPATCH-TICKET-MALFORMED'' ''directory''), key)
                      | Some n \<Rightarrow> (Inr (n, el), key)))))"

definition ticket_refusal :: "client_config \<Rightarrow> nat \<Rightarrow> string option \<Rightarrow> failure option" where
  \<comment> \<open>a status other than 201; \<open>None\<close> ends the rounds without an error\<close>
  "ticket_refusal cfg status errorCode =
     (if status = 404 \<and> errorCode = Some ''no_route_available'' then None
      else if status \<in> set [404, 405, 501] \<or> status = 503 \<and> errorCode = Some ''not_configured''
      then Some (if cf_restricted_directory cfg \<noteq> None
                 then refused ''restricted_directory_fallback_refused'' ''directory''
                 else LegacyDiscoveryRequired)
      else Some (Refused \<lparr>ie_code = ''IICP-DISPATCH-TICKET-'' @ digits status, ie_status = Some status,
             ie_component = ''directory''\<rparr>))"

definition ticket_error_code :: "js \<Rightarrow> string option" where
  "ticket_error_code data = text_option (own_property (own_property data ''error'') ''code'')"

text \<open>
  The rounds: at most \<open>MAX_RETRIES\<close>, each excluding the nodes already ticketed. The third
  component is the bodies sent.
\<close>

fun ticket_rounds ::
  "directory_env \<Rightarrow> client_config \<Rightarrow> string \<Rightarrow> (string \<times> js) list \<Rightarrow> nat \<Rightarrow> nat \<Rightarrow> string option \<Rightarrow> string list \<Rightarrow>
   (route_node \<times> restricted_eligibility option) list \<Rightarrow>
   (failure + (route_node \<times> restricted_eligibility option) list) \<times> string option \<times> js list" where
  "ticket_rounds env cfg intent base 0 i known excluded candidates = (Inr candidates, known, [])"
| "ticket_rounds env cfg intent base (Suc left) i known excluded candidates =
     (case (case cf_restricted_directory cfg of None \<Rightarrow> Inr [] | Some cx \<Rightarrow> restrictedHeaders cx) of
        Inl e \<Rightarrow> (Inl (refused ''IICP-DISPATCH-TICKET-NETWORK'' ''directory''), known, [])
      | Inr headers \<Rightarrow>
          let body = JObj (base @ [(''exclude_node_id_prefixes'', JArr (map JStr excluded))]) in
          (case dq_ticket env i body of
             NoAnswer \<Rightarrow> (Inl (refused ''IICP-DISPATCH-TICKET-NETWORK'' ''directory''), known, [body])
           | DirectoryAnswer status data \<Rightarrow>
               if data = JNull then (Inl Uncaught, known, [body])
               else if status = 201 then
                 (case accept_ticket env i cfg intent data known of
                    (Inl e, key) \<Rightarrow> (Inl e, key, [body])
                  | (Inr (n, el), key) \<Rightarrow>
                      let (res, key', sent) = ticket_rounds env cfg intent base left (Suc i) key
                        (excluded @ [nodeShortId (node_id n)]) (candidates @ [(n, el)])
                      in (res, key', body # sent))
               else (case ticket_refusal cfg status (ticket_error_code data) of
                   None \<Rightarrow> (Inr candidates, known, [body])
                 | Some e \<Rightarrow> (Inl e, known, [body]))))"

definition ticketedCandidates ::
  "directory_env \<Rightarrow> client_config \<Rightarrow> string \<Rightarrow> discover_options \<Rightarrow> string option \<Rightarrow>
   (failure + (route_node \<times> restricted_eligibility option) list) \<times> string option \<times> js list" where
  "ticketedCandidates env cfg intent opts known =
     ticket_rounds env cfg intent (ticket_request_base intent opts cfg) MAX_RETRIES 0 known [] []"

section \<open>The legacy catalogue\<close>

text \<open>
  \<open>_get\<close>: the answer with its body (\<open>None\<close> when it is no JSON), the expiry of the timer, or a
  network error; the headers of a restricted directory may be refused before.
\<close>

datatype get_answer = GetAnswer nat "js option" | GetTimeout | GetFailed

definition get_json :: "client_config \<Rightarrow> get_answer \<Rightarrow> failure + js" where
  "get_json cfg answer =
     (case (case cf_restricted_directory cfg of None \<Rightarrow> Inr [] | Some cx \<Rightarrow> restrictedHeaders cx) of
        Inl e \<Rightarrow> Inl (refused ''restricted_directory_decision_refused'' ''directory'')
      | Inr headers \<Rightarrow>
          (case answer of
             GetTimeout \<Rightarrow> Inl (refused ''SDK-01'' ''directory'')
           | GetFailed \<Rightarrow> Inl (refused ''SDK-05'' ''directory'')
           | GetAnswer status body \<Rightarrow>
               if status < 200 \<or> 300 \<le> status
               then Inl (Refused \<lparr>ie_code = ''SDK-05'', ie_status = Some status, ie_component = ''directory''\<rparr>)
               else (case body of None \<Rightarrow> Inl (refused ''SDK-05'' ''directory'') | Some v \<Rightarrow> Inr v)))"

definition profile_params :: "profile_request option \<Rightarrow> (string \<times> string) list" where
  "profile_params request =
     (case request of
        None \<Rightarrow> []
      | Some r \<Rightarrow> [(''profile_id'', pq_profile_id r), (''profile_version'', pq_profile_version r),
          (''profile_fixture_sha256'', pq_profile_fixture_sha256 r),
          (''profile_required'', if or_else (pq_required r) False then ''true'' else ''false'')])"

definition text_param :: "string \<Rightarrow> string option \<Rightarrow> (string \<times> string) list" where
  "text_param k v = (case v of None \<Rightarrow> [] | Some x \<Rightarrow> if x = [] then [] else [(k, x)])"

definition discover_params ::
  "js_runtime \<Rightarrow> string \<Rightarrow> discover_options \<Rightarrow> client_config \<Rightarrow> (string \<times> string) list" where
  "discover_params rt intent o' cfg =
     [(''intent'', intent), (''limit'', String_of rt (jrat (min (or_else (do_limit o') 10) 50)))] @
     text_param ''region'' (first_some (do_region o') (cf_region cfg)) @
     text_param ''qos'' (do_qos o') @
     (case do_min_reputation o' of None \<Rightarrow> [] | Some q \<Rightarrow> [(''min_reputation'', String_of rt (jrat q))]) @
     text_param ''model'' (do_model o') @
     profile_params (do_profile_request o')"

definition negotiation_ok :: "js \<Rightarrow> bool" where
  "negotiation_ok negotiation =
     (truthy negotiation \<and> own_property negotiation ''status'' = JStr ''compatible'' \<and>
      own_property negotiation ''dispatch_allowed'' = JBool True)"

text \<open>The entries of the catalogue; \<open>None\<close> when the code throws on them.\<close>

definition catalogue_entries :: "js \<Rightarrow> js list option" where
  "catalogue_entries nodes =
     (case coalesce nodes (JArr []) of
        JArr xs \<Rightarrow> if JNull \<in> set xs then None else Some xs
      | JStr s \<Rightarrow> Some (map (\<lambda>c. JStr [c]) s)
      | _ \<Rightarrow> None)"

definition catalogue_node :: "directory_env \<Rightarrow> bool \<Rightarrow> js \<Rightarrow> route_node option" where
  "catalogue_node env browser_only raw =
     (case nodeFromRoute (dq_runtime env) (env_safe env) raw None of
        None \<Rightarrow> None
      | Some n \<Rightarrow>
          if browser_only \<and>
             \<not> or_else (rn_browser_usable n) (isBrowserUsableEndpoint (dq_parse_url env) (rn_endpoint n))
          then None else Some n)"

record discovery_result =
  dr_nodes :: "(route_node \<times> restricted_eligibility option) list"
  dr_profile_negotiation :: js
  dr_diversity_evidence :: js

definition discoverWithNegotiation ::
  "directory_env \<Rightarrow> client_config \<Rightarrow> discover_options \<Rightarrow> get_answer \<Rightarrow> int \<Rightarrow> failure + discovery_result" where
  "discoverWithNegotiation env cfg o' answer now =
     (case get_json cfg answer of
        Inl e \<Rightarrow> Inl e
      | Inr response \<Rightarrow>
          if response = JNull then Inl Uncaught
          else (case eligibility_of_answer cfg response ''discovery'' now of
              Inl e \<Rightarrow> Inl e
            | Inr el \<Rightarrow>
                let negotiation = own_property response ''profile_negotiation'';
                    required = (case do_profile_request o' of None \<Rightarrow> False | Some r \<Rightarrow> or_else (pq_required r) False)
                in if required \<and> \<not> negotiation_ok negotiation
                   then Inl (refused ''unsupported_pre_normative_profile'' ''directory'')
                   else (case catalogue_entries (own_property response ''nodes'') of
                       None \<Rightarrow> Inl Uncaught
                     | Some entries \<Rightarrow>
                         Inr \<lparr>dr_nodes = map (\<lambda>n. (n, el))
                               (List.map_filter (catalogue_node env (or_else (do_browser_usable_only o') False)) entries),
                             dr_profile_negotiation = negotiation,
                             dr_diversity_evidence = own_property response ''diversity_evidence''\<rparr>)))"

section \<open>What discovery guarantees\<close>

text \<open>
  The hostname of a URL keeps the brackets of an IPv6 address, so none of the guard's tests for
  IPv6 texts matches: it lets every such address pass, the loopback among them.
\<close>

lemma ends_with_last: "ends_with s p \<Longrightarrow> p \<noteq> [] \<Longrightarrow> last s = last p"
  by (auto simp: ends_with_iff)

lemma ssrf_guard_passes_bracketed_v6:
  assumes u: "parse u = Some p" "url_protocol p = ''http:'' \<or> url_protocol p = ''https:''"
    and host: "url_hostname p = CHR ''['' # h @ [CHR '']'']" "CHR '':'' \<in> set h"
  shows "isSsrfSafe parse loopback u"
proof -
  define l where "l = CHR ''['' # js_lower h @ [CHR '']'']"
  have low: "js_lower (url_hostname p) = l"
    by (simp add: host l_def js_lower_def js_lower_char_def)
  have "js_lower_char (CHR '':'') = CHR '':''" by (simp add: js_lower_char_def)
  then have colon: "CHR '':'' \<in> set l" using host(2) unfolding l_def js_lower_def
    by (metis image_eqI list.set_intros(2) list.set_map set_append UnCI)
  have suffix: "\<not> list_ex (ends_with l) BLOCKED_SUFFIXES"
    unfolding l_def BLOCKED_SUFFIXES_def by (auto dest!: ends_with_last)
  have v6: "\<not> local_v6_text l"
    by (simp add: l_def local_v6_text_def starts_with_def js_lower_def js_lower_char_def split: list.splits)
  have names: "l \<noteq> []" "l \<noteq> ''localhost''" "l \<noteq> ''0.0.0.0''" "l \<noteq> ''::1''" "l \<noteq> ''::''"
    by (simp_all add: l_def)
  show ?thesis
    using u(2) by (simp add: isSsrfSafe_def u(1) low Let_def names colon suffix v6)
qed

lemma nodeFromRoute_safe:
  "nodeFromRoute rt safe raw pre = Some n \<Longrightarrow>
     safe (rn_endpoint n) \<and> node_id n \<noteq> [] \<and> node_id n = String_of rt (coalesce (own_property raw ''node_id'') (JStr [])) \<and>
     rn_ticket_id_prefix n = pre \<and> node_cx_public_key n = cx_value (rn_cx_key n)"
  by (auto simp: nodeFromRoute_def Let_def split: if_splits)

text \<open>
  The evidence behind a candidate: a ticket in the directory's answer to round \<open>i\<close>, signed with
  the key, for this intent and still in force, whose manifest digest is the route's; and in a
  restricted domain a decision for this client.
\<close>

definition ticket_evidence ::
  "directory_env \<Rightarrow> client_config \<Rightarrow> string \<Rightarrow> string option \<Rightarrow> nat \<Rightarrow> js \<Rightarrow> route_node \<times> restricted_eligibility option \<Rightarrow> bool" where
  "ticket_evidence env cfg intent key i body c =
     (case dq_ticket env i body of
        NoAnswer \<Rightarrow> False
      | DirectoryAnswer status data \<Rightarrow>
          status = 201 \<and>
          (case ticket_claims env i cfg intent data key of
             None \<Rightarrow> False
           | Some claims \<Rightarrow>
               rc_intent claims = intent \<and> dq_now env i < rc_exp claims \<and> rc_iss claims = directory_issuer cfg \<and>
               policyManifestBindingMatches claims (own_property data ''route'') \<and>
               (rc_node_id claims = [] \<or> node_id (fst c) = rc_node_id claims)) \<and>
          eligibility_of_answer cfg data ''dispatch_ticket'' (dq_now env i) = Inr (snd c))"

lemma verified_claims:
  "verifyDispatchRouteTicket cr token k issuer nodeId intent now = Some c \<Longrightarrow>
     rc_iss c = issuer \<and> rc_node_id c = nodeId \<and> rc_intent c = intent \<and> now < rc_exp c"
  by (auto simp: verifyDispatchRouteTicket_def split: list.splits if_splits option.splits)

lemma fetch_key_stable: "known \<noteq> None \<Longrightarrow> known \<noteq> Some [] \<Longrightarrow> fetch_ticket_key a known = Inr known"
  by (simp add: fetch_ticket_key_def)

lemma ticketed_route_id:
  assumes "ticketed_route env data = Some n" "own_property data ''node_id'' = JStr s" "s \<noteq> []"
  shows "node_id n = s"
  using assms
  by (auto simp: ticketed_route_def Let_def update_conv' split: if_splits dest!: nodeFromRoute_safe)

lemma accept_ticket_evidence:
  assumes "accept_ticket env i cfg intent data known = (Inr c, key)"
    and "dq_ticket env i body = DirectoryAnswer 201 data"
  shows "ticket_evidence env cfg intent key i body c \<and> env_safe env (rn_endpoint (fst c)) \<and>
    key \<noteq> None \<and> key \<noteq> Some [] \<and> (known \<noteq> None \<and> known \<noteq> Some [] \<longrightarrow> key = known)"
proof -
  obtain el claims n where el: "eligibility_of_answer cfg data ''dispatch_ticket'' (dq_now env i) = Inr el"
    and key: "fetch_ticket_key (dq_key env i) known = Inr key"
    and claims: "ticket_claims env i cfg intent data key = Some claims"
    and binding: "policyManifestBindingMatches claims (own_property data ''route'')"
    and route: "ticketed_route env data = Some n" and c: "c = (n, el)"
    using assms(1) unfolding accept_ticket_def by (auto split: sum.splits option.splits if_splits)
  from claims have v: "rc_iss claims = directory_issuer cfg" "rc_intent claims = intent" "dq_now env i < rc_exp claims"
      "rc_node_id claims = or_else (text_option (own_property data ''node_id'')) []"
      "key \<noteq> None" "key \<noteq> Some []"
    unfolding ticket_claims_def by (auto split: option.splits if_splits dest: verified_claims)
  have "rc_node_id claims = [] \<or> node_id n = rc_node_id claims"
    using v(4) ticketed_route_id [OF route]
    by (cases "own_property data ''node_id''") (auto simp: text_option_def)
  moreover have "env_safe env (rn_endpoint n)"
    using route by (auto simp: ticketed_route_def Let_def split: if_splits dest: nodeFromRoute_safe)
  ultimately show ?thesis
    using assms(2) el claims binding v key fetch_key_stable [of known "dq_key env i"]
    by (auto simp: ticket_evidence_def c)
qed

lemma ticket_rounds_evidence:
  assumes "ticket_rounds env cfg intent base left i known excluded candidates = (Inr cs, key, sent)"
  shows "\<exists>new. cs = candidates @ new \<and> length new \<le> left \<and> length sent \<le> left \<and> length new \<le> length sent \<and>
    (known \<noteq> None \<and> known \<noteq> Some [] \<longrightarrow> key = known) \<and>
    (\<forall>j < length sent. sent ! j = JObj (base @ [(''exclude_node_id_prefixes'',
        JArr (map JStr (excluded @ map (\<lambda>c. nodeShortId (node_id (fst c))) (take j new))))])) \<and>
    (\<forall>j < length new. ticket_evidence env cfg intent key (i + j) (sent ! j) (new ! j) \<and>
       env_safe env (rn_endpoint (fst (new ! j))))"
  using assms
proof (induction left arbitrary: i known excluded candidates sent cs)
  case (Suc left)
  define body where "body = JObj (base @ [(''exclude_node_id_prefixes'', JArr (map JStr excluded))])"
  consider (stop) "cs = candidates" "sent = [body]" "key = known"
    | (go) data n el key' sent' where "dq_ticket env i body = DirectoryAnswer 201 data"
      "accept_ticket env i cfg intent data known = (Inr (n, el), key')"
      "ticket_rounds env cfg intent base left (Suc i) key' (excluded @ [nodeShortId (node_id n)])
         (candidates @ [(n, el)]) = (Inr cs, key, sent')" "sent = body # sent'"
    using Suc.prems unfolding ticket_rounds.simps(2) body_def [symmetric] Let_def
    by (auto split: sum.splits directory_answer.splits if_splits option.splits prod.splits)
  then show ?case
  proof cases
    case stop
    then show ?thesis by (auto simp: body_def)
  next
    case go
    note ev = accept_ticket_evidence [OF go(2,1)]
    from Suc.IH [OF go(3)] ev obtain new where new: "cs = (candidates @ [(n, el)]) @ new" "length new \<le> left"
        "length sent' \<le> left" "length new \<le> length sent'" "key = key'"
        "\<forall>j < length sent'. sent' ! j = JObj (base @ [(''exclude_node_id_prefixes'',
           JArr (map JStr ((excluded @ [nodeShortId (node_id n)]) @
             map (\<lambda>c. nodeShortId (node_id (fst c))) (take j new))))])"
        "\<forall>j < length new. ticket_evidence env cfg intent key (Suc i + j) (sent' ! j) (new ! j) \<and>
           env_safe env (rn_endpoint (fst (new ! j)))" by metis
    show ?thesis
    proof (intro exI conjI)
      show "cs = candidates @ ((n, el) # new)" using new(1) by simp
      show "known \<noteq> None \<and> known \<noteq> Some [] \<longrightarrow> key = known" using ev new(5) by simp
      show "\<forall>j < length sent. sent ! j = JObj (base @ [(''exclude_node_id_prefixes'',
          JArr (map JStr (excluded @ map (\<lambda>c. nodeShortId (node_id (fst c))) (take j ((n, el) # new)))))])"
        using new(6) by (auto simp: go(4) less_Suc_eq_0_disj body_def)
      show "\<forall>j < length ((n, el) # new). ticket_evidence env cfg intent key (i + j) (sent ! j) (((n, el) # new) ! j) \<and>
          env_safe env (rn_endpoint (fst (((n, el) # new) ! j)))"
        using new(5,7) ev by (auto simp: go(4) less_Suc_eq_0_disj)
    qed (use new go(4) in simp_all)
  qed
qed simp


definition sample_client :: client_config where
  "sample_client = \<lparr>cf_directory_url = ''https://d.example/api'', cf_timeout_ms = 30000, cf_region = None,
     cf_api_token = None, cf_routing_epsilon = None, cf_routing_strategy = Some ''deterministic'',
     cf_routing_top_k = None, cf_routing_softmax_tau = None, cf_node_token = None,
     cf_consumer_auth_mode = Some ''disabled'', cf_routing_policy = None, cf_route_discovery_mode = Some ''auto'',
     cf_profile_request = None, cf_restricted_directory = None\<rparr>"

definition sample_ticket :: js where
  "sample_ticket = JObj [(''ticket'', JStr (''p.'' @ replicate 128 (CHR ''0''))), (''node_id'', JStr ''node-a''),
     (''route'', JObj [(''endpoint'', JStr ''https://h.example''),
        (''cx_public_key'', JObj [(''algorithm'', JStr ''X25519''), (''key'', JStr ''x''), (''key_id'', JStr ''cx-1'')])])]"

definition sample_key :: cx_key where
  "sample_key = \<lparr>ck_algorithm = JStr ''X25519'', ck_encoding = JUndef, ck_key = JStr ''x'', ck_key_id = JStr ''cx-1'',
     ck_features = None\<rparr>"

definition sample_node :: route_node where
  "sample_node = \<lparr>node_id = ''node-a'', node_region = Some [], node_score = 0, node_load = Some 0, node_models = None,
     node_cx_public_key = cx_value (Some sample_key), node_policy_manifest = JUndef, node_health_label = JUndef,
     node_observed_reachable = JUndef, rn_endpoint = ''https://h.example'', rn_available = True,
     rn_latency_estimate_ms = JUndef, rn_reputation_score = JUndef, rn_exposure_mode = JUndef,
     rn_cx_key = Some sample_key, rn_transport = None, rn_route_evidence = None, rn_routing_hint = None,
     rn_browser_usable = None, rn_latency_evidence = JUndef, rn_health_reasons = None, rn_trust_progress = JUndef,
     rn_sdk_release = JUndef, rn_ticket_id_prefix = Some []\<rparr>"

definition sample_directory :: directory_env where
  "sample_directory = \<lparr>dq_runtime = \<lparr>rt_string = \<lambda>_. [], rt_number = \<lambda>_. NaN\<rparr>,
     dq_parse_url = \<lambda>_. Some (sample_url ''h.example''), dq_allow_loopback = None,
     dq_crypto = \<lparr>tc_parse = \<lambda>_. Some \<lparr>rc_v = 1, rc_typ = ''dispatch-route-ticket'', rc_iss = ''https://d.example'',
        rc_aud = ''iicp.directory.dispatch'', rc_jti = ''0123456789abcdef01234567'', rc_node_id = ''node-a'',
        rc_intent = ''urn:iicp:intent:llm:chat:v1'', rc_iat = 0, rc_exp = 200, rc_policy_manifest_sha256 = None\<rparr>,
        tc_verify = \<lambda>k _ _. k = ''k''\<rparr>,
     dq_now = \<lambda>_. 100,
     dq_ticket = \<lambda>i _. if i = 0 then DirectoryAnswer 201 sample_ticket
       else DirectoryAnswer 404 (JObj [(''error'', JObj [(''code'', JStr ''no_route_available'')])]),
     dq_key = \<lambda>_. DirectoryAnswer 200 (JObj [(''public_key'', JStr ''k'')])\<rparr>"

lemma sample_safe: "env_safe sample_directory u"
  by (simp add: env_safe_def sample_directory_def isSsrfSafe_def sample_url_def Let_def js_lower_def js_lower_char_def
      privateEndpointsAllowed_def BLOCKED_SUFFIXES_def ends_with_def private_v4_text_def js_trim_def)

lemma sample_ticketed:
  "\<exists>sent. ticketedCandidates sample_directory sample_client ''urn:iicp:intent:llm:chat:v1'' opts None =
     (Inr [(sample_node, None)], Some ''k'', sent)"
proof -
  have s: "split_on (CHR ''.'') (''p.'' @ replicate 128 (CHR ''0'')) = [''p'', replicate 128 (CHR ''0'')]"
    using split_on_append [of "CHR ''.''" "''p''" "replicate 128 (CHR ''0'')"] by (simp add: split_on_single)
  have v: "ticket_claims sample_directory 0 sample_client ''urn:iicp:intent:llm:chat:v1'' sample_ticket (Some ''k'') \<noteq> None"
    by (simp add: ticket_claims_def sample_ticket_def text_option_def verifyDispatchRouteTicket_def
        s [simplified] sample_directory_def sample_client_def directory_issuer_def strip_suffix_def strip_api_def
        ends_with_def hex_string_def lower_hex_def)
  then obtain claims where c: "ticket_claims sample_directory 0 sample_client ''urn:iicp:intent:llm:chat:v1'' sample_ticket (Some ''k'') = Some claims"
    by blast
  have n: "ticketed_route sample_directory sample_ticket = Some sample_node"
    using sample_safe
    by (simp add: ticketed_route_def sample_ticket_def spread_def nodeFromRoute_def Let_def sample_node_def sample_key_def
        read_cx_key_def list_option_def text_option_def bool_option_def object_or_undef_def finite_part_def coalesce_def nullish_def)
  have b: "policyManifestBindingMatches claims (own_property sample_ticket ''route'')"
    using c by (auto simp: ticket_claims_def policyManifestBindingMatches_def sample_directory_def
        verifyDispatchRouteTicket_def split: option.splits list.splits if_splits)
  have k: "fetch_ticket_key (dq_key sample_directory 0) None = Inr (Some ''k'')"
    by (simp add: fetch_ticket_key_def sample_directory_def text_option_def first_some_def)
  have r: "eligibility_of_answer sample_client d p t = Inr None" for d p t
    by (simp add: eligibility_of_answer_def sample_client_def)
  have a: "accept_ticket sample_directory 0 sample_client ''urn:iicp:intent:llm:chat:v1'' sample_ticket None = (Inr (sample_node, None), Some ''k'')"
    by (simp add: accept_ticket_def r k c b n)
  have d: "dq_ticket sample_directory = (\<lambda>i _. if i = 0 then DirectoryAnswer 201 sample_ticket
       else DirectoryAnswer 404 (JObj [(''error'', JObj [(''code'', JStr ''no_route_available'')])]))"
    by (simp add: sample_directory_def)
  have "sample_ticket \<noteq> JNull" by (simp add: sample_ticket_def)
  then show ?thesis
    by (simp add: ticketedCandidates_def MAX_RETRIES_def numeral_3_eq_3 sample_client_def [THEN arg_cong [of _ _ cf_restricted_directory]]
        d a Let_def ticket_refusal_def ticket_error_code_def text_option_def)
qed


end
