(* ===== verification/RuntimeIdentity.thy ===== *)
theory RuntimeIdentity imports JsText begin

text \<open>
  The runtime-identity capsule that a chat request carries to the model:
  \<open>src/runtime_identity.ts\<close>. Texts are ASCII, so a text has as many bytes as characters. An error
  is the text of its message; the error of the class \<open>RuntimeIdentityContextUnsupported\<close> is told
  apart by its message.
\<close>

definition RUNTIME_IDENTITY_MARKER :: string where
  "RUNTIME_IDENTITY_MARKER = ''IICP-RUNTIME-CONTEXT/1''"

definition RUNTIME_IDENTITY_CHAT_INTENT :: string where
  "RUNTIME_IDENTITY_CHAT_INTENT = ''urn:iicp:intent:llm:chat:v1''"

definition RUNTIME_IDENTITY_MAX_BYTES :: nat where "RUNTIME_IDENTITY_MAX_BYTES = 2048"

definition MAX_FACT_BYTES :: nat where "MAX_FACT_BYTES = 160"

definition MAX_CAPABILITIES :: nat where "MAX_CAPABILITIES = 32"

definition BASE_CAPSULE :: string where
  "BASE_CAPSULE =
     ''This request reached you through IICP, the Intent-based Inter-agent Communication Protocol. '' @
     ''IICP is a provider-neutral control plane that turns a requested intent and constraints into '' @
     ''discovery, eligibility evaluation and provider selection; execution then uses a supported '' @
     ''provider mechanism. You are the selected model or service, not IICP. If asked what IICP is or '' @
     ''stands for, use this definition. IICP does not mean Industrial Internet of Things Computing. '' @
     ''Use only supplied runtime facts and do not guess missing facts.''"

record chat_message =
  cm_role :: string
  cm_content :: string

record identity_options =
  io_mode :: "string option"
  io_instruction_channel :: "string option"
  io_selected_model :: "string option"
  io_effective_capabilities :: "string list option"
  io_selection_reason :: "string option"
  io_client_name :: "string option"
  io_client_version :: "string option"
  io_connection_mode :: "string option"

definition no_identity_options :: identity_options where
  "no_identity_options = \<lparr>io_mode = None, io_instruction_channel = None, io_selected_model = None,
     io_effective_capabilities = None, io_selection_reason = None, io_client_name = None,
     io_client_version = None, io_connection_mode = None\<rparr>"

definition selectionText :: "(string \<times> string) list" where
  "selectionText =
     [(''matched_intent_and_constraints'', ''This service matched the requested intent and constraints.''),
      (''explicit_model_match'', ''This service matched the requested model and constraints.''),
      (''fallback_after_unavailable_candidate'',
       ''This service was selected after an earlier candidate was unavailable.''),
      (''intentional_exploration'', ''This service was selected for an intentional routing exploration.''),
      (''local_browser_execution'', ''This model is running locally in the browser.'')]"

definition withRuntimeFacts ::
  "identity_options option \<Rightarrow> string \<Rightarrow> string \<Rightarrow> string \<Rightarrow> string \<Rightarrow> string option \<Rightarrow> string list option \<Rightarrow>
   identity_options" where
  "withRuntimeFacts options client_name client_version connection_mode selection_reason selected_model capabilities =
     (or_else options no_identity_options)
       \<lparr>io_client_name := Some client_name, io_client_version := Some client_version,
        io_connection_mode := Some connection_mode, io_selection_reason := Some selection_reason,
        io_selected_model := selected_model, io_effective_capabilities := Some (or_else capabilities [])\<rparr>"

definition control_char :: "char \<Rightarrow> bool" where
  "control_char c = ((of_char c :: nat) < 32 \<or> of_char c = (127 :: nat))"

definition boundedFact :: "string \<Rightarrow> string \<Rightarrow> string + string" where
  "boundedFact v name =
     (if v = [] \<or> list_ex control_char v then Inl (''runtime identity '' @ name @ '' contains control characters'')
      else if length v > MAX_FACT_BYTES then Inl (''runtime identity '' @ name @ '' exceeds the bounded fact limit'')
      else Inr v)"

text \<open>An optional text in a condition: present and not empty.\<close>

definition present :: "string option \<Rightarrow> bool" where
  "present v = (v \<noteq> None \<and> v \<noteq> Some [])"

fun bounded_facts :: "string list \<Rightarrow> string \<Rightarrow> string + string list" where
  "bounded_facts [] name = Inr []"
| "bounded_facts (v # vs) name =
     (case boundedFact v name of
        Inl e \<Rightarrow> Inl e
      | Inr f \<Rightarrow> (case bounded_facts vs name of Inl e \<Rightarrow> Inl e | Inr fs \<Rightarrow> Inr (f # fs)))"

text \<open>The lines of the capsule after its head, one function per fact, each possibly failing.\<close>

definition client_line :: "identity_options \<Rightarrow> string + string list" where
  "client_line o' =
     (if present (io_client_name o') \<or> present (io_client_version o') then
        if \<not> present (io_client_name o') \<or> \<not> present (io_client_version o')
        then Inl ''runtime identity client name and version must be supplied together''
        else (case boundedFact (the (io_client_name o')) ''client name'' of
            Inl e \<Rightarrow> Inl e
          | Inr n \<Rightarrow>
              (case boundedFact (the (io_client_version o')) ''client version'' of
                 Inl e \<Rightarrow> Inl e
               | Inr v \<Rightarrow> Inr [''- client: '' @ n @ '' '' @ v]))
      else Inr [])"

definition connection_line :: "identity_options \<Rightarrow> string + string list" where
  "connection_line o' =
     (case io_connection_mode o' of
        None \<Rightarrow> Inr []
      | Some m \<Rightarrow>
          if m = ''routed'' then Inr [''- connection: routed through IICP to an eligible provider.'']
          else if m = ''local_browser''
          then Inr [''- connection: This model is running locally in the browser; no remote IICP provider was selected.'']
          else Inl ''runtime identity connection mode is unsupported'')"

definition model_line :: "identity_options \<Rightarrow> string + string list" where
  "model_line o' =
     (if present (io_selected_model o')
      then (case boundedFact (the (io_selected_model o')) ''selected model'' of
          Inl e \<Rightarrow> Inl e | Inr m \<Rightarrow> Inr [''- selected model: '' @ m])
      else Inr [])"

definition capabilities_line :: "identity_options \<Rightarrow> string + string list" where
  "capabilities_line o' =
     (let cs = or_else (io_effective_capabilities o') [] in
      if length cs > MAX_CAPABILITIES then Inl ''runtime identity effective capabilities exceed the bounded count''
      else if cs = [] then Inr []
      else (case bounded_facts cs ''effective capability'' of
          Inl e \<Rightarrow> Inl e | Inr fs \<Rightarrow> Inr [''- effective capabilities: '' @ join_with '', '' fs]))"

definition selection_line :: "identity_options \<Rightarrow> string + string list" where
  \<comment> \<open>a reason that every object inherits would render as a function; such a text is no reason of the type\<close>
  "selection_line o' =
     (if present (io_selection_reason o')
      then (case map_of selectionText (the (io_selection_reason o')) of
          None \<Rightarrow> Inl ''runtime identity selection reason is unsupported''
        | Some t \<Rightarrow> Inr [''- selection: '' @ t])
      else Inr [])"

fun collect_lines :: "(string + string list) list \<Rightarrow> string + string list" where
  "collect_lines [] = Inr []"
| "collect_lines (l # ls) =
     (case l of
        Inl e \<Rightarrow> Inl e
      | Inr xs \<Rightarrow> (case collect_lines ls of Inl e \<Rightarrow> Inl e | Inr ys \<Rightarrow> Inr (xs @ ys)))"

definition intent_line :: "string \<Rightarrow> string + string list" where
  "intent_line intent =
     (case boundedFact intent ''intent'' of
        Inl e \<Rightarrow> Inl e
      | Inr i \<Rightarrow> Inr [''['' @ RUNTIME_IDENTITY_MARKER @ '']'', BASE_CAPSULE, ''Runtime facts:'', ''- intent: '' @ i])"

definition renderRuntimeIdentity :: "string \<Rightarrow> identity_options \<Rightarrow> string + string" where
  "renderRuntimeIdentity intent o' =
     (case collect_lines [intent_line intent, client_line o', connection_line o', model_line o',
             capabilities_line o', selection_line o'] of
        Inl e \<Rightarrow> Inl e
      | Inr ls \<Rightarrow>
          let rendered = join_with [newline] ls in
          if length rendered > RUNTIME_IDENTITY_MAX_BYTES
          then Inl ''runtime identity context exceeds the 2048-byte limit'' else Inr rendered)"

definition instruction_role :: "chat_message \<Rightarrow> bool" where
  "instruction_role m = (cm_role m = ''system'' \<or> cm_role m = ''developer'')"

definition marked :: "chat_message \<Rightarrow> bool" where
  "marked m = (instruction_role m \<and> contains (cm_content m) RUNTIME_IDENTITY_MARKER)"

definition composeRuntimeIdentity ::
  "chat_message list \<Rightarrow> string \<Rightarrow> identity_options option \<Rightarrow> string + chat_message list" where
  "composeRuntimeIdentity messages intent options =
     (let resolved = or_else options no_identity_options; mode = or_else (io_mode resolved) ''auto'' in
      if intent \<noteq> RUNTIME_IDENTITY_CHAT_INTENT then Inr messages
      else if mode \<notin> set [''auto'', ''disabled'', ''explicit'', ''required'']
      then Inl ''runtime identity mode is unsupported''
      else if mode = ''disabled'' then Inr messages
      else if (case io_instruction_channel resolved of None \<Rightarrow> False | Some c \<Rightarrow> c \<notin> set [''system'', ''unsupported''])
      then Inl ''runtime identity instruction channel is unsupported''
      else if io_instruction_channel resolved = Some ''unsupported''
      then (if mode = ''required'' then Inl ''required_identity_context_unsupported'' else Inr messages)
      else if list_ex marked messages then Inr messages
      else (case renderRuntimeIdentity intent resolved of
          Inl e \<Rightarrow> Inl e
        | Inr capsule \<Rightarrow>
            Inr (takeWhile instruction_role messages @ [\<lparr>cm_role = ''system'', cm_content = capsule\<rparr>] @
                 dropWhile instruction_role messages)))"

section \<open>Properties\<close>

lemma collect_lines_Cons:
  "collect_lines (l # ls) = Inr zs \<Longrightarrow> \<exists>xs ys. l = Inr xs \<and> zs = xs @ ys"
  by (auto split: sum.splits)

lemma contains_append: "contains s p \<Longrightarrow> contains (a @ s @ b) p"
  unfolding contains_iff by (metis append.assoc)

lemma contains_join_hd: "contains x p \<Longrightarrow> contains (join_with sep (x # xs)) p"
  using contains_append [of x p "[]"] by (cases xs) auto

lemma rendered_ok:
  assumes "renderRuntimeIdentity intent o' = Inr c"
  shows "length c \<le> RUNTIME_IDENTITY_MAX_BYTES \<and> contains c RUNTIME_IDENTITY_MARKER"
proof -
  obtain ls where ls: "collect_lines [intent_line intent, client_line o', connection_line o', model_line o',
      capabilities_line o', selection_line o'] = Inr ls" "c = join_with [newline] ls"
    "length c \<le> RUNTIME_IDENTITY_MAX_BYTES"
    using assms by (auto simp: renderRuntimeIdentity_def Let_def split: sum.splits if_splits)
  from collect_lines_Cons [OF ls(1)] obtain xs ys where "intent_line intent = Inr xs" "ls = xs @ ys" by auto
  then obtain zs where "ls = (''['' @ RUNTIME_IDENTITY_MARKER @ '']'') # zs"
    by (auto simp: intent_line_def split: sum.splits)
  moreover have "contains (''['' @ RUNTIME_IDENTITY_MARKER @ '']'') RUNTIME_IDENTITY_MARKER"
    by (rule contains_append) (metis contains_iff append_Nil append_Nil2)
  ultimately show ?thesis using ls contains_join_hd by metis
qed

lemma take_drop_While: "takeWhile P xs @ ys @ dropWhile P xs = take k xs @ ys @ drop k xs"
  if "k = length (takeWhile P xs)"
  by (simp add: that takeWhile_eq_take [symmetric] dropWhile_eq_drop [symmetric])

text \<open>
  A request keeps its messages and gets at most one identity capsule: composing either leaves
  the messages as they are or inserts one system message of at most 2048 bytes, carrying the
  marker, after the leading instructions, into messages that carried no marker; and composing
  again with the same options changes nothing, so a request that is forwarded or retried never
  collects capsules.
\<close>

lemma identity_capsule_once:
  assumes "composeRuntimeIdentity messages intent options = Inr out"
  shows "composeRuntimeIdentity out intent options = Inr out \<and>
    (out = messages \<or>
     (\<exists>k capsule. out = take k messages @ [capsule] @ drop k messages \<and> list_all instruction_role (take k messages) \<and>
        cm_role capsule = ''system'' \<and> length (cm_content capsule) \<le> 2048 \<and> marked capsule \<and>
        \<not> list_ex marked messages))"
proof (cases "out = messages")
  case True
  then show ?thesis using assms by simp
next
  case False
  let ?o = "or_else options no_identity_options"
  have guards: "intent = RUNTIME_IDENTITY_CHAT_INTENT" "or_else (io_mode ?o) ''auto'' \<noteq> ''disabled''"
      "or_else (io_mode ?o) ''auto'' \<in> set [''auto'', ''disabled'', ''explicit'', ''required'']"
      "\<not> (case io_instruction_channel ?o of None \<Rightarrow> False | Some c \<Rightarrow> c \<notin> set [''system'', ''unsupported''])"
      "io_instruction_channel ?o \<noteq> Some ''unsupported''" "\<not> list_ex marked messages"
    using assms False by (auto simp: composeRuntimeIdentity_def Let_def split: if_splits)
  then obtain c where c: "renderRuntimeIdentity intent ?o = Inr c"
      "out = takeWhile instruction_role messages @ [\<lparr>cm_role = ''system'', cm_content = c\<rparr>] @
             dropWhile instruction_role messages"
    using assms by (auto simp: composeRuntimeIdentity_def Let_def split: sum.splits)
  let ?k = "length (takeWhile instruction_role messages)"
  have m: "marked \<lparr>cm_role = ''system'', cm_content = c\<rparr>"
    using rendered_ok [OF c(1)] by (simp add: marked_def instruction_role_def)
  then have "list_ex marked out" by (simp add: c(2))
  then have "composeRuntimeIdentity out intent options = Inr out"
    using guards unfolding composeRuntimeIdentity_def Let_def by simp
  moreover have "out = take ?k messages @ [\<lparr>cm_role = ''system'', cm_content = c\<rparr>] @ drop ?k messages"
    using c(2) take_drop_While by metis
  moreover have "list_all instruction_role (take ?k messages)"
    by (metis list_all_iff set_takeWhileD takeWhile_eq_take)
  moreover have "length c \<le> 2048" using rendered_ok [OF c(1)] by (simp add: RUNTIME_IDENTITY_MAX_BYTES_def)
  ultimately show ?thesis using m guards(6) by fastforce
qed

lemma sample_rendered: "\<exists>c. renderRuntimeIdentity RUNTIME_IDENTITY_CHAT_INTENT no_identity_options = Inr c"
proof -
  have i: "boundedFact RUNTIME_IDENTITY_CHAT_INTENT ''intent'' = Inr RUNTIME_IDENTITY_CHAT_INTENT"
    by (simp add: boundedFact_def RUNTIME_IDENTITY_CHAT_INTENT_def control_char_def MAX_FACT_BYTES_def)
  have n: "client_line no_identity_options = Inr []" "connection_line no_identity_options = Inr []"
    "model_line no_identity_options = Inr []" "capabilities_line no_identity_options = Inr []"
    "selection_line no_identity_options = Inr []"
    by (simp_all add: client_line_def connection_line_def model_line_def capabilities_line_def selection_line_def
        no_identity_options_def present_def)
  have "length BASE_CAPSULE \<le> 1000" by (simp add: BASE_CAPSULE_def)
  then show ?thesis
    unfolding renderRuntimeIdentity_def collect_lines.simps intent_line_def i n sum.case Let_def
    by (simp add: RUNTIME_IDENTITY_MARKER_def RUNTIME_IDENTITY_CHAT_INTENT_def RUNTIME_IDENTITY_MAX_BYTES_def)
qed

lemma identity_capsule_once_example:
  "\<exists>out. composeRuntimeIdentity [\<lparr>cm_role = ''user'', cm_content = ''hi''\<rparr>] RUNTIME_IDENTITY_CHAT_INTENT None = Inr out \<and>
     length out = 2 \<and> composeRuntimeIdentity out RUNTIME_IDENTITY_CHAT_INTENT None = Inr out"
proof -
  obtain c where "renderRuntimeIdentity RUNTIME_IDENTITY_CHAT_INTENT no_identity_options = Inr c"
    using sample_rendered by blast
  then have "composeRuntimeIdentity [\<lparr>cm_role = ''user'', cm_content = ''hi''\<rparr>] RUNTIME_IDENTITY_CHAT_INTENT None =
      Inr [\<lparr>cm_role = ''system'', cm_content = c\<rparr>, \<lparr>cm_role = ''user'', cm_content = ''hi''\<rparr>]"
    by (simp add: composeRuntimeIdentity_def no_identity_options_def marked_def instruction_role_def)
  from this identity_capsule_once [OF this] show ?thesis by simp
qed

end
