(* ===== verification/Submission.thy ===== *)
theory Submission imports Discovery RuntimeIdentity Policies begin

text \<open>
  How the client of \<open>src/client.ts\<close> submits a task: its configuration, the choice among the
  eligible nodes, the cache of consumer tokens, the encryption of the payload, the retries on one
  node and the failover to the next. Random numbers, the clock, the cryptography of
  \<open>src/confidentiality.ts\<close>, the transport of \<open>src/endpoint_security.ts\<close> and the answers of the
  directory are parameters. Times and probabilities are rationals; \<open>Math.exp\<close> is a parameter.
\<close>

section \<open>Configuration\<close>

definition MAX_TIMEOUT_MS :: rat where "MAX_TIMEOUT_MS = 120000"
definition DEFAULT_TIMEOUT_MS :: rat where "DEFAULT_TIMEOUT_MS = 30000"
definition DEFAULT_EPSILON :: rat where "DEFAULT_EPSILON = 5 / 100"
definition DEFAULT_ROUTING_TOP_K :: rat where "DEFAULT_ROUTING_TOP_K = 3"
definition DEFAULT_ROUTING_SOFTMAX_TAU :: rat where "DEFAULT_ROUTING_SOFTMAX_TAU = 4 / 100"
definition DEFAULT_DIRECTORY :: string where "DEFAULT_DIRECTORY = ''https://iicp.network/api''"

text \<open>
  The variables of the environment; \<open>parseFloat\<close> and \<open>parseInt\<close> give \<open>None\<close> for no number, and an
  infinite number is outside the model.
\<close>

record client_env =
  ev_epsilon :: "string option"
  ev_strategy :: "string option"
  ev_top_k :: "string option"
  ev_tau :: "string option"
  ev_route_mode :: "string option"
  ev_parseFloat :: "string \<Rightarrow> rat option"
  ev_parseInt :: "string \<Rightarrow> int option"

definition clamp01 :: "rat \<Rightarrow> rat" where
  "clamp01 q = max 0 (min 1 q)"

definition env_number :: "string option \<Rightarrow> (string \<Rightarrow> rat option) \<Rightarrow> (rat \<Rightarrow> rat) \<Rightarrow> rat option \<Rightarrow> rat option" where
  "env_number var parse bound configured =
     (case var of
        None \<Rightarrow> configured
      | Some t \<Rightarrow> (case parse t of None \<Rightarrow> configured | Some q \<Rightarrow> Some (bound q)))"

definition STRATEGIES :: "string list" where
  "STRATEGIES = [''deterministic'', ''epsilon'', ''softmax_top_k'', ''weighted_v1'']"

definition env_choice :: "string option \<Rightarrow> string list \<Rightarrow> string option \<Rightarrow> string option" where
  "env_choice var choices configured =
     (case var of Some v \<Rightarrow> if v \<in> set choices then Some v else configured | None \<Rightarrow> configured)"

text \<open>
  The constructor. The URL and the timeout may be missing from what the caller gives; the other
  fields of \<open>given\<close> are optional anyway. The check of \<open>tls_verify\<close> only warns.
\<close>

definition configured_routing :: "client_env \<Rightarrow> client_config \<Rightarrow> client_config" where
  "configured_routing env given =
     given\<lparr>cf_routing_epsilon := Some (or_else (env_number (ev_epsilon env) (ev_parseFloat env) clamp01
               (cf_routing_epsilon given)) DEFAULT_EPSILON),
           cf_routing_strategy := Some (or_else (env_choice (ev_strategy env) STRATEGIES
               (cf_routing_strategy given)) ''epsilon''),
           cf_routing_top_k := Some (or_else (env_number (ev_top_k env) (\<lambda>t. map_option of_int (ev_parseInt env t))
               (max 1) (cf_routing_top_k given)) DEFAULT_ROUTING_TOP_K),
           cf_routing_softmax_tau := Some (or_else (env_number (ev_tau env) (ev_parseFloat env) (max (1 / 1000))
               (cf_routing_softmax_tau given)) DEFAULT_ROUTING_SOFTMAX_TAU)\<rparr>"

definition configured_mode :: "client_env \<Rightarrow> string option \<Rightarrow> string" where
  \<comment> \<open>an empty mode counts as none\<close>
  "configured_mode env given =
     (let m = or_else (case given of
           None \<Rightarrow> env_choice (ev_route_mode env) [''auto'', ''ticketed'', ''legacy''] (Some ''auto'')
         | Some g \<Rightarrow> Some g) []
      in if m = [] then ''auto'' else m)"

definition new_client ::
  "client_env \<Rightarrow> string option \<Rightarrow> rat option \<Rightarrow> client_config \<Rightarrow> failure + client_config" where
  "new_client env url timeout given =
     (let merged = (configured_routing env given)
            \<lparr>cf_directory_url := or_else url DEFAULT_DIRECTORY, cf_timeout_ms := or_else timeout DEFAULT_TIMEOUT_MS,
             cf_consumer_auth_mode := Some (or_else (cf_consumer_auth_mode given) ''optional''),
             cf_route_discovery_mode := Some (configured_mode env (cf_route_discovery_mode given))\<rparr>
      in if cf_timeout_ms merged > MAX_TIMEOUT_MS then Inl (refused ''SDK-04'' ''sdk'')
         else if the (cf_consumer_auth_mode merged) \<notin> set [''optional'', ''required'', ''disabled'']
         then Inl (refused ''SDK-AUTH-MODE'' ''sdk'')
         else (case cf_restricted_directory given of
             None \<Rightarrow> Inr merged
           | Some cx \<Rightarrow>
               (case validateRestrictedContext cx of
                  Some e \<Rightarrow> Inl (refused ''restricted_directory_decision_refused'' ''directory'')
                | None \<Rightarrow>
                    if cf_route_discovery_mode merged = Some ''legacy''
                    then Inl (refused ''restricted_directory_fallback_refused'' ''sdk'') else Inr merged)))"

section \<open>Choosing candidates\<close>

text \<open>The rest of the list after the chosen node, cut to the number of retries.\<close>

definition chosen_first :: "'a node_scheme \<Rightarrow> 'a node_scheme list \<Rightarrow> nat \<Rightarrow> 'a node_scheme list" where
  "chosen_first chosen nodes maxRetries =
     take maxRetries (chosen # filter (other_node chosen) (take maxRetries nodes))"

fun softmax_walk :: "('a node_scheme \<Rightarrow> rat) \<Rightarrow> rat \<Rightarrow> 'a node_scheme list \<Rightarrow> 'a node_scheme \<Rightarrow> 'a node_scheme" where
  "softmax_walk weight r [] chosen = chosen"
| "softmax_walk weight r (n # pool) chosen =
     (let r = r - weight n in if r \<le> 0 then n else softmax_walk weight r pool chosen)"

definition softmax_choice ::
  "(rat \<Rightarrow> rat) \<Rightarrow> rat \<Rightarrow> rat \<Rightarrow> 'a node_scheme list \<Rightarrow> 'a node_scheme" where
  "softmax_choice exp_of tau random pool =
     (let maxScore = Max (set (map node_score pool));
          weight = (\<lambda>n. exp_of ((node_score n - maxScore) / tau))
      in softmax_walk weight (random * sum_list (map weight pool)) pool (hd pool))"

definition selectCandidates ::
  "client_config \<Rightarrow> (rat \<Rightarrow> rat) \<Rightarrow> rat \<Rightarrow> rat \<Rightarrow> 'a node_scheme list \<Rightarrow> nat \<Rightarrow> 'a node_scheme list" where
  \<comment> \<open>\<open>r1\<close> and \<open>r2\<close> are the first and the second value of \<open>Math.random()\<close>\<close>
  "selectCandidates cfg exp_of r1 r2 nodes maxRetries =
     (let strategy = or_else (cf_routing_strategy cfg) ''epsilon'';
          topK = nat \<lfloor>or_else (cf_routing_top_k cfg) DEFAULT_ROUTING_TOP_K\<rfloor>
      in if strategy = ''deterministic'' \<or> length nodes \<le> 1 then take maxRetries nodes
         else if strategy = ''weighted_v1'' then weightedV1Order nodes maxRetries r1 topK
         else if strategy = ''softmax_top_k'' then
           chosen_first (softmax_choice exp_of (max (1 / 1000) (or_else (cf_routing_softmax_tau cfg) DEFAULT_ROUTING_SOFTMAX_TAU)) r1
             (take (max 1 (min (length nodes) topK)) nodes)) nodes maxRetries
         else if r1 < or_else (cf_routing_epsilon cfg) DEFAULT_EPSILON
         then chosen_first (nodes ! nat \<lfloor>r2 * of_nat (length nodes)\<rfloor>) nodes maxRetries
         else take maxRetries nodes)"

section \<open>Consumer tokens\<close>

definition CONSUMER_TOKEN_EXPIRY_BUFFER_S :: rat where "CONSUMER_TOKEN_EXPIRY_BUFFER_S = 30"

type_synonym token_cache = "(string, string \<times> number) jsmap"

definition token_cache_key :: "string \<Rightarrow> string \<Rightarrow> string \<Rightarrow> string" where
  "token_cache_key nodeToken target intent = nodeToken @ ''|'' @ target @ ''|'' @ intent"

definition cached_token :: "token_cache \<Rightarrow> string \<Rightarrow> rat \<Rightarrow> string option" where
  "cached_token cache key now =
     (case map_of cache key of
        None \<Rightarrow> None
      | Some (tok, expiry) \<Rightarrow>
          if num_less (Fin (now + CONSUMER_TOKEN_EXPIRY_BUFFER_S)) expiry then Some tok else None)"

text \<open>
  The directory's answer to a token request; a body is \<open>None\<close> when it is no JSON. A failure is
  thrown only in a restricted domain.
\<close>

datatype token_answer = NoToken | TokenAnswer nat "js option"

definition read_token ::
  "js_runtime \<Rightarrow> client_config \<Rightarrow> int \<Rightarrow> token_answer \<Rightarrow> failure + (string \<times> number) option" where
  "read_token rt cfg now answer =
     (case answer of
        NoToken \<Rightarrow> Inl Uncaught
      | TokenAnswer status body \<Rightarrow>
          if status \<noteq> 201 then Inr None
          else (case body of
              None \<Rightarrow> Inl Uncaught
            | Some data \<Rightarrow>
                if data = JNull then Inl Uncaught
                else (case eligibility_of_answer cfg data ''consumer_token'' now of
                    Inl e \<Rightarrow> Inl e
                  | Inr _ \<Rightarrow>
                      let tok = String_of rt (coalesce (own_property data ''token'') (JStr []));
                          expiry = Number_of rt (coalesce (own_property data ''expires_at'') (jint 0))
                      in Inr (if tok = [] then None else Some (tok, expiry)))))"

definition request_token ::
  "js_runtime \<Rightarrow> client_config \<Rightarrow> int \<Rightarrow> token_answer \<Rightarrow> failure + (string \<times> number) option" where
  "request_token rt cfg now answer =
     (case (case cf_restricted_directory cfg of None \<Rightarrow> Inr [] | Some cx \<Rightarrow> restrictedHeaders cx) of
        Inl e \<Rightarrow> Inl (refused ''restricted_directory_decision_refused'' ''directory'')
      | Inr headers \<Rightarrow> read_token rt cfg now answer)"

definition acquireConsumerToken ::
  "js_runtime \<Rightarrow> client_config \<Rightarrow> rat \<Rightarrow> token_answer \<Rightarrow> string \<Rightarrow> string \<Rightarrow> token_cache \<Rightarrow>
   (failure + string option) \<times> token_cache" where
  "acquireConsumerToken rt cfg now answer target intent cache =
     (let nodeToken = or_else (cf_node_token cfg) [] in
      if nodeToken = [] then (Inr None, cache)
      else
        let key = token_cache_key nodeToken target intent in
        (case cached_token cache key now of
           Some tok \<Rightarrow> (Inr (Some tok), cache)
         | None \<Rightarrow>
             (case request_token rt cfg \<lfloor>now\<rfloor> answer of
                Inl e \<Rightarrow> (if cf_restricted_directory cfg \<noteq> None then Inl e else Inr None, cache)
              | Inr None \<Rightarrow> (Inr None, cache)
              | Inr (Some (tok, expiry)) \<Rightarrow> (Inr (Some tok), AList.update key (tok, expiry) cache))))"

section \<open>One request\<close>

text \<open>
  What the transport gives: the status and the text of a response, an error of the resource
  limits, an aborted request, or another error.
\<close>

datatype post_answer = PostResponse nat string | PostLimit resource_error | PostAborted | PostFailed

record post_request =
  pr_url :: string
  pr_headers :: "(string \<times> string) list"
  pr_body :: js
  pr_timeout_ms :: rat

record submit_env =
  sb_runtime :: js_runtime
  sb_parse :: "string \<Rightarrow> js option"
  sb_stringify :: "js \<Rightarrow> byte list option"
  sb_post :: "nat \<Rightarrow> post_request \<Rightarrow> post_answer"
  sb_encrypt :: "nat \<Rightarrow> js \<Rightarrow> cx_key \<Rightarrow> string \<Rightarrow> string \<Rightarrow> (js \<times> string) option"
  sb_decrypt :: "js \<Rightarrow> string \<Rightarrow> string \<Rightarrow> js option"
  sb_now :: "nat \<Rightarrow> rat"
  sb_token :: "nat \<Rightarrow> string \<Rightarrow> string \<Rightarrow> token_answer"
  sb_sdk_version :: string
  sb_allow_plaintext :: "string option"
  sb_exp :: "rat \<Rightarrow> rat"
  sb_random1 :: rat
  sb_random2 :: rat
  sb_uuid :: string
  sb_sha256 :: "string \<Rightarrow> string"
  sb_ranker :: "(string \<Rightarrow> candidate_evidence list \<Rightarrow> js) option"
  sb_catalogue :: get_answer
  sb_catalogue_now :: int

text \<open>
  The environment of a submission: \<open>sb_post i\<close> answers the \<open>i\<close>-th request sent, \<open>sb_now idx\<close> and
  \<open>sb_token idx\<close> are the clock and the directory's answer when the \<open>idx\<close>-th candidate is tried. A
  ranker that throws is one whose answer is no decision: the error is the same.
\<close>

definition adapter_error :: "string \<Rightarrow> nat option \<Rightarrow> failure" where
  "adapter_error code status = Refused \<lparr>ie_code = code, ie_status = status, ie_component = ''adapter''\<rparr>"

definition response_error_code :: "submit_env \<Rightarrow> string \<Rightarrow> string" where
  "response_error_code env text =
     (case sb_parse env text of
        None \<Rightarrow> ''SDK-05''
      | Some j \<Rightarrow>
          (case own_property j ''error'' of
             JStr e \<Rightarrow> e
           | e \<Rightarrow> if truthy (own_property e ''code'') then String_of (sb_runtime env) (own_property e ''code'')
                 else ''SDK-05''))"

definition post_json :: "submit_env \<Rightarrow> nat \<Rightarrow> post_request \<Rightarrow> failure + js" where
  "post_json env i req =
     (case encodeTaskRequest (sb_stringify env) (pr_body req) of
        Inl None \<Rightarrow> Inl (adapter_error ''SDK-05'' None)
      | Inl (Some e) \<Rightarrow> Inl (adapter_error (he_code e) (Some (he_status e)))
      | Inr _ \<Rightarrow>
          (case sb_post env i req of
             PostFailed \<Rightarrow> Inl (adapter_error ''SDK-05'' None)
           | PostAborted \<Rightarrow> Inl (adapter_error ''SDK-01'' None)
           | PostLimit e \<Rightarrow> Inl (adapter_error (he_code e) (Some (he_status e)))
           | PostResponse status text \<Rightarrow>
               if status < 200 \<or> 300 \<le> status
               then Inl (adapter_error (response_error_code env text) (Some status))
               else (case sb_parse env text of None \<Rightarrow> Inl (adapter_error ''SDK-05'' None) | Some v \<Rightarrow> Inr v)))"

text \<open>
  The secret shared with the node when the payload is encrypted; with \<open>sl_require_response\<close> the
  answer must be encrypted as well.
\<close>

record sealing =
  sl_secret :: string
  sl_require_response :: bool

definition open_response :: "submit_env \<Rightarrow> sealing option \<Rightarrow> string \<Rightarrow> js \<Rightarrow> failure + js" where
  "open_response env sealed taskId data =
     (case sealed of
        None \<Rightarrow> Inr data
      | Some sl \<Rightarrow>
          if \<not> sl_require_response sl then Inr data
          else if data = JNull then Inl Uncaught
          else
            let envelope = own_property data ''iicp_conf_resp'' in
            if \<not> is_object envelope then Inl (refused ''IICP-CX-RESP-REQUIRED'' ''sdk'')
            else (case sb_decrypt env envelope (sl_secret sl) taskId of
                None \<Rightarrow> Inl Uncaught
              | Some opened \<Rightarrow>
                  if is_object opened then Inr opened else Inl (refused ''IICP-CX-RESP-INVALID'' ''sdk'')))"

text \<open>\<open>null\<close> as the answer makes the reading of its fields throw, inside the same \<open>try\<close>.\<close>

definition one_attempt ::
  "submit_env \<Rightarrow> sealing option \<Rightarrow> string \<Rightarrow> post_request \<Rightarrow> nat \<Rightarrow> failure + js" where
  "one_attempt env sealed taskId req i =
     (case post_json env i req of
        Inl e \<Rightarrow> Inl e
      | Inr data \<Rightarrow>
          (case open_response env sealed taskId data of
             Inl e \<Rightarrow> Inl e
           | Inr data' \<Rightarrow> if data' = JNull then Inl Uncaught else Inr data'))"

section \<open>Retries on a node\<close>

definition TRANSIENT_STATUSES :: "nat list" where "TRANSIENT_STATUSES = [429, 502, 503, 504]"

datatype node_outcome = Answered js | MovesOn "iicp_error option" | Stops failure

text \<open>
  The attempts on one node: \<open>k\<close> is the attempt, \<open>i\<close> the number of requests sent before, and
  \<open>last\<close> the error kept for the end. The second component is the pauses in milliseconds, the
  third the number of requests sent after the attempts.
\<close>

fun attempts ::
  "(nat \<Rightarrow> failure + js) \<Rightarrow> nat \<Rightarrow> nat \<Rightarrow> nat \<Rightarrow> iicp_error option \<Rightarrow> node_outcome \<times> nat list \<times> nat" where
  "attempts exchange 0 k i last_err = (MovesOn last_err, [], i)"
| "attempts exchange (Suc left) k i last_err =
     (case exchange i of
        Inr data \<Rightarrow> (Answered data, [], Suc i)
      | Inl (Refused e) \<Rightarrow>
          if ie_status e = None \<or> ie_status e = Some 0 then (MovesOn (Some e), [], Suc i)
          else if the (ie_status e) \<in> set TRANSIENT_STATUSES then
            (let (r, pauses, j) = attempts exchange left (Suc k) (Suc i) (Some e)
             in (r, 200 * 2 ^ k # pauses, j))
          else (Stops (Refused e), [], Suc i)
      | Inl e \<Rightarrow> (Stops e, [], Suc i))"

section \<open>The body for a node\<close>

record client_task =
  tr_intent :: string
  tr_payload :: "(string \<times> js) list"
  tr_constraints :: "task_constraints option"
  tr_route_constraints :: "discover_options option"
  tr_auth_token :: "string option"
  tr_task_id :: "string option"
  tr_source_node_id :: "string option"
  tr_routing_policy :: "routing_policy option"

type_synonym identity_request = "chat_message list \<times> identity_options option"

definition message_value :: "chat_message \<Rightarrow> js" where
  "message_value m = JObj [(''role'', JStr (cm_role m)), (''content'', JStr (cm_content m))]"

definition selected_model :: "client_task \<Rightarrow> 'a node_scheme \<Rightarrow> string option" where
  "selected_model req n =
     (let requestedModel = (case tr_constraints req of None \<Rightarrow> None | Some c \<Rightarrow> tk_model c);
          models = or_else (node_models n) []
      in if present requestedModel \<and> the requestedModel \<in> set models then requestedModel
         else if length models = 1 then Some (hd models) else None)"

definition candidate_payload ::
  "submit_env \<Rightarrow> client_task \<Rightarrow> identity_request option \<Rightarrow> nat \<Rightarrow> 'a node_scheme \<Rightarrow> failure + js" where
  "candidate_payload env req identity idx n =
     (case identity of
        None \<Rightarrow> Inr (JObj (tr_payload req))
      | Some (messages, options) \<Rightarrow>
          let facts = withRuntimeFacts options ''@iicp/client'' (sb_sdk_version env) ''routed''
                (if idx = 0 then ''matched_intent_and_constraints'' else ''fallback_after_unavailable_candidate'')
                (selected_model req n) (Some [])
          in (case composeRuntimeIdentity messages (tr_intent req) (Some facts) of
                Inl e \<Rightarrow> Inl Uncaught
              | Inr ms \<Rightarrow>
                  Inr (JObj (AList.update ''messages'' (JArr (map message_value ms)) (tr_payload req)))))"

definition RESPONSE_ENCRYPTION :: string where "RESPONSE_ENCRYPTION = ''response_encryption_v1''"

definition candidate_body ::
  "submit_env \<Rightarrow> client_task \<Rightarrow> string \<Rightarrow> nat \<Rightarrow> route_node \<Rightarrow> js \<Rightarrow> failure + js \<times> sealing option" where
  "candidate_body env req taskId idx n payload =
     (let base = [(''task_id'', JStr taskId), (''intent'', JStr (tr_intent req)),
            (''constraints'', projectExecutionConstraints (tr_constraints req))];
          source = nonempty_field ''source_node_id'' (tr_source_node_id req)
      in (case rn_cx_key n of
            Some key \<Rightarrow>
              (case sb_encrypt env idx payload key taskId (tr_intent req) of
                 None \<Rightarrow> Inl Uncaught
               | Some (envelope, secret) \<Rightarrow>
                   let required = (RESPONSE_ENCRYPTION \<in> set (or_else (ck_features key) [])) in
                   Inr (JObj (base @ [(''iicp_conf'', envelope)] @
                          (if required then [(''cx_response_encryption'', JStr ''required'')] else []) @ source),
                        Some \<lparr>sl_secret = secret, sl_require_response = required\<rparr>))
          | None \<Rightarrow> Inr (JObj (base @ [(''payload'', payload)] @ source), None)))"

section \<open>Failover\<close>

definition candidate_token ::
  "submit_env \<Rightarrow> client_config \<Rightarrow> client_task \<Rightarrow> nat \<Rightarrow> route_node \<Rightarrow> token_cache \<Rightarrow>
   (failure + string option) \<times> token_cache" where
  "candidate_token env cfg req idx n cache =
     (let (ct, cache') =
            (if cf_consumer_auth_mode cfg = Some ''disabled'' then (Inr None, cache)
             else acquireConsumerToken (sb_runtime env) cfg (sb_now env idx)
                    (sb_token env idx (node_id n) (tr_intent req)) (node_id n) (tr_intent req) cache)
      in (case ct of
            Inl e \<Rightarrow> (Inl e, cache')
          | Inr t \<Rightarrow>
              if cf_consumer_auth_mode cfg = Some ''required'' \<and> \<not> present t
              then (Inl (refused ''IICP-CONSUMER-AUTH-REQUIRED'' ''directory''), cache')
              else (Inr (if present t then t else None), cache')))"

definition submission_headers :: "client_config \<Rightarrow> client_task \<Rightarrow> (string \<times> string) list" where
  "submission_headers cfg req =
     [(''Content-Type'', ''application/json'')] @
     (if present (tr_auth_token req) then [(''Authorization'', ''Bearer '' @ the (tr_auth_token req))]
      else if present (cf_api_token cfg) then [(''Authorization'', ''Bearer '' @ the (cf_api_token cfg))]
      else [])"

definition token_header :: "string option \<Rightarrow> (string \<times> string) list" where
  "token_header ct = (case ct of None \<Rightarrow> [] | Some t \<Rightarrow> [(''X-IICP-Consumer-Token'', t)])"

definition task_timeout :: "client_config \<Rightarrow> client_task \<Rightarrow> rat" where
  "task_timeout cfg req =
     or_else (case tr_constraints req of None \<Rightarrow> None | Some c \<Rightarrow> tk_timeout_ms c) (cf_timeout_ms cfg)"

text \<open>The request for one candidate, or the error thrown while it is made; and the token cache.\<close>

definition prepare_candidate ::
  "submit_env \<Rightarrow> client_config \<Rightarrow> client_task \<Rightarrow> identity_request option \<Rightarrow> string \<Rightarrow> nat \<Rightarrow> route_node \<Rightarrow>
   token_cache \<Rightarrow> (failure + post_request \<times> sealing option) \<times> token_cache" where
  "prepare_candidate env cfg req identity taskId idx n cache =
     (case candidate_payload env req identity idx n of
        Inl e \<Rightarrow> (Inl e, cache)
      | Inr payload \<Rightarrow>
          (case candidate_token env cfg req idx n cache of
             (Inl e, cache') \<Rightarrow> (Inl e, cache')
           | (Inr ct, cache') \<Rightarrow>
               (case candidate_body env req taskId idx n payload of
                  Inl e \<Rightarrow> (Inl e, cache')
                | Inr (body, sealed) \<Rightarrow>
                    (Inr (\<lparr>pr_url = rn_endpoint n @ ''/v1/task'', pr_headers = submission_headers cfg req @ token_header ct,
                       pr_body = body, pr_timeout_ms = task_timeout cfg req\<rparr>, sealed), cache'))))"

record submit_trace =
  sx_cache :: token_cache
  sx_sent :: "(route_node \<times> post_request) list"
  sx_pauses :: "nat list"

text \<open>
  The candidates in their order. The trace holds the token cache, every request sent with the
  node it went to, and the pauses. When no candidate answered, the last error is thrown;
  with no candidate at all that is \<open>undefined\<close>.
\<close>

fun try_candidates ::
  "submit_env \<Rightarrow> client_config \<Rightarrow> client_task \<Rightarrow> identity_request option \<Rightarrow> string \<Rightarrow> nat \<Rightarrow> iicp_error option \<Rightarrow>
   route_node list \<Rightarrow> submit_trace \<Rightarrow> (failure + nat \<times> route_node \<times> js) \<times> submit_trace" where
  "try_candidates env cfg req identity taskId idx last_err [] tr =
     (Inl (case last_err of None \<Rightarrow> Uncaught | Some e \<Rightarrow> Refused e), tr)"
| "try_candidates env cfg req identity taskId idx last_err (n # ns) tr =
     (case prepare_candidate env cfg req identity taskId idx n (sx_cache tr) of
        (Inl e, cache) \<Rightarrow> (Inl e, tr\<lparr>sx_cache := cache\<rparr>)
      | (Inr (request, sealed), cache) \<Rightarrow>
          let i = length (sx_sent tr);
              (outcome, pauses, j) = attempts (one_attempt env sealed taskId request) MAX_RETRIES 0 i last_err;
              tr' = \<lparr>sx_cache = cache, sx_sent = sx_sent tr @ replicate (j - i) (n, request),
                     sx_pauses = sx_pauses tr @ pauses\<rparr>
          in (case outcome of
                Answered data \<Rightarrow> (Inr (idx, n, data), tr')
              | Stops e \<Rightarrow> (Inl e, tr')
              | MovesOn e \<Rightarrow> try_candidates env cfg req identity taskId (Suc idx) e ns tr'))"

section \<open>Submission\<close>

record routing_receipt =
  rr_selection_profile :: string
  rr_eligible_candidate_count :: nat
  rr_selected_node_id_prefix :: string
  rr_profile_negotiation :: js

record task_response =
  ts_task_id :: string
  ts_result :: js
  ts_status :: string
  ts_metrics :: js
  ts_dispatch_ticket_id_prefix :: "string option"
  ts_routing_receipt :: routing_receipt

definition urn_char :: "char \<Rightarrow> bool" where
  \<comment> \<open>\<open>[a-z0-9_:/-]\<close>\<close>
  "urn_char c = (c \<in> set ''abcdefghijklmnopqrstuvwxyz0123456789_:/-'')"

definition validateIntent :: "string \<Rightarrow> failure option" where
  "validateIntent intent =
     (let pre = ''urn:iicp:intent:'' in
      if \<not> (starts_with intent pre \<and> length pre < length intent \<and> list_all urn_char (drop (length pre) intent))
      then Some (refused ''SDK-02'' ''sdk'')
      else if ensureIntentAllowed intent \<noteq> None then Some (refused ''IICP-POLICY-001'' ''sdk'') else None)"

record client_state =
  ct_ticket_key :: "string option"
  ct_tokens :: token_cache

type_synonym found_nodes = "(route_node \<times> restricted_eligibility option) list \<times> js"

definition legacy_nodes ::
  "submit_env \<Rightarrow> directory_env \<Rightarrow> client_config \<Rightarrow> discover_options \<Rightarrow> failure + found_nodes" where
  "legacy_nodes env denv cfg opts =
     (case discoverWithNegotiation denv cfg opts (sb_catalogue env) (sb_catalogue_now env) of
        Inl e \<Rightarrow> Inl e
      | Inr r \<Rightarrow> Inr (dr_nodes r, dr_profile_negotiation r))"

definition find_nodes ::
  "submit_env \<Rightarrow> directory_env \<Rightarrow> client_config \<Rightarrow> string \<Rightarrow> discover_options \<Rightarrow> string option \<Rightarrow>
   (failure + found_nodes) \<times> string option" where
  "find_nodes env denv cfg intent opts known =
     (if cf_route_discovery_mode cfg = Some ''legacy'' \<or> cf_profile_request cfg \<noteq> None
      then (legacy_nodes env denv cfg opts, known)
      else (case ticketedCandidates denv cfg intent opts known of
          (Inr cs, key, _) \<Rightarrow> (Inr (cs, JUndef), key)
        | (Inl LegacyDiscoveryRequired, key, _) \<Rightarrow>
            (if cf_route_discovery_mode cfg = Some ''ticketed''
             then Inl (refused ''IICP-DISPATCH-TICKET-UNAVAILABLE'' ''directory'')
             else legacy_nodes env denv cfg opts, key)
        | (Inl e, key, _) \<Rightarrow> (Inl e, key)))"

definition policy_of_effective :: "effective_policy \<Rightarrow> routing_policy" where
  "policy_of_effective p =
     \<lparr>rp_profile = Some (ep_profile p), rp_allowed_regions = Some (ep_allowed_regions p),
      rp_require_encryption = Some (ep_require_encryption p),
      rp_require_policy_manifest = Some (ep_require_policy_manifest p),
      rp_require_no_payload_retention = Some (ep_require_no_payload_retention p),
      rp_allow_remote_executor = Some (ep_allow_remote_executor p),
      rp_known_operator_only = Some (ep_known_operator_only p),
      rp_required_manifest_identity_level = ep_required_manifest_identity_level p\<rparr>"

definition request_policy :: "client_config \<Rightarrow> client_task \<Rightarrow> effective_policy" where
  "request_policy cfg req = resolvedRoutingPolicy (first_some (tr_routing_policy req) (cf_routing_policy cfg))"

definition plaintext_allowed :: "submit_env \<Rightarrow> client_config \<Rightarrow> client_task \<Rightarrow> bool" where
  "plaintext_allowed env cfg req =
     (cxPlaintextFallbackAllowed (sb_allow_plaintext env) \<or> \<not> ep_require_encryption (request_policy cfg req))"

definition eligible_nodes ::
  "submit_env \<Rightarrow> client_config \<Rightarrow> client_task \<Rightarrow> route_node list \<Rightarrow> failure + route_node list" where
  "eligible_nodes env cfg req nodes =
     (if nodes = [] then Inl (refused ''SDK-03'' ''directory'')
      else
        let decision = filterNodesForRoutingPolicy nodes (Some (policy_of_effective (request_policy cfg req)))
              (plaintext_allowed env cfg req)
        in if pd_eligible decision = [] \<and> 0 < pd_skippedKeyless decision \<and>
              length (pd_rejectedReasons decision) = pd_skippedKeyless decision
           then Inl (refused ''IICP-CX-REQUIRED'' ''sdk'')
           else if pd_eligible decision = [] then Inl (refused ''IICP-POLICY-ROUTING'' ''sdk'')
           else Inr (pd_eligible decision))"

definition rank_candidates ::
  "submit_env \<Rightarrow> client_config \<Rightarrow> string \<Rightarrow> route_node list \<Rightarrow> failure + route_node list \<times> ranker_decision option" where
  "rank_candidates env cfg taskId eligible =
     (let builtIn = selectCandidates cfg (sb_exp env) (sb_random1 env) (sb_random2 env) eligible MAX_RETRIES in
      case sb_ranker env of
        None \<Rightarrow> Inr (builtIn, None)
      | Some rank \<Rightarrow>
          (case applyCandidateRanker (sb_sha256 env) rank taskId eligible builtIn MAX_RETRIES of
             Inl e \<Rightarrow> Inl (refused ''IICP-CANDIDATE-RANKER-REFUSED'' ''sdk'')
           | Inr r \<Rightarrow> Inr r))"

definition selection_profile :: "client_config \<Rightarrow> ranker_decision option \<Rightarrow> js \<Rightarrow> nat \<Rightarrow> string" where
  "selection_profile cfg ranked negotiation idx =
     (case ranked of
        Some d \<Rightarrow> rankerReceiptProfile d idx
      | None \<Rightarrow> if truthy negotiation then or_else (cf_routing_strategy cfg) ''epsilon'' else ''directory_ticket_v1'')"

definition response_of ::
  "submit_env \<Rightarrow> client_config \<Rightarrow> string \<Rightarrow> ranker_decision option \<Rightarrow> js \<Rightarrow> nat \<Rightarrow> nat \<Rightarrow> route_node \<Rightarrow> js \<Rightarrow> task_response" where
  "response_of env cfg taskId ranked negotiation eligible idx n data =
     \<lparr>ts_task_id = taskId, ts_result = own_property data ''result'',
      ts_status = String_of (sb_runtime env) (coalesce (own_property data ''status'') (JStr ''ok'')),
      ts_metrics = own_property data ''metrics'', ts_dispatch_ticket_id_prefix = rn_ticket_id_prefix n,
      ts_routing_receipt = \<lparr>rr_selection_profile = selection_profile cfg ranked negotiation idx,
        rr_eligible_candidate_count = eligible, rr_selected_node_id_prefix = nodeShortId (node_id n),
        rr_profile_negotiation = negotiation\<rparr>\<rparr>"

text \<open>The submission after the directory's answer, and the whole of it.\<close>

definition dispatch_task ::
  "submit_env \<Rightarrow> client_config \<Rightarrow> client_task \<Rightarrow> identity_request option \<Rightarrow> found_nodes \<Rightarrow> token_cache \<Rightarrow>
   (failure + task_response) \<times> submit_trace" where
  "dispatch_task env cfg req identity found cache =
     (let taskId = or_else (tr_task_id req) (sb_uuid env);
          tr0 = \<lparr>sx_cache = cache, sx_sent = [], sx_pauses = []\<rparr>
      in case eligible_nodes env cfg req (map fst (fst found)) of
           Inl e \<Rightarrow> (Inl e, tr0)
         | Inr eligible \<Rightarrow>
             (case rank_candidates env cfg taskId eligible of
                Inl e \<Rightarrow> (Inl e, tr0)
              | Inr (candidates, ranked) \<Rightarrow>
                  (case try_candidates env cfg req identity taskId 0 None candidates tr0 of
                     (Inl e, tr) \<Rightarrow> (Inl e, tr)
                   | (Inr (idx, n, data), tr) \<Rightarrow>
                       (Inr (response_of env cfg taskId ranked (snd found) (length eligible) idx n data), tr))))"

definition submitInternal ::
  "submit_env \<Rightarrow> directory_env \<Rightarrow> client_config \<Rightarrow> client_task \<Rightarrow> identity_request option \<Rightarrow> client_state \<Rightarrow>
   (failure + task_response) \<times> submit_trace \<times> client_state" where
  "submitInternal env denv cfg req identity st =
     (let idle = \<lparr>sx_cache = ct_tokens st, sx_sent = [], sx_pauses = []\<rparr> in
      case validateIntent (tr_intent req) of
        Some e \<Rightarrow> (Inl e, idle, st)
      | None \<Rightarrow>
          (case find_nodes env denv cfg (tr_intent req)
                  (projectRouteOptions (tr_route_constraints req) (tr_constraints req) cfg) (ct_ticket_key st) of
             (Inl e, key) \<Rightarrow> (Inl e, idle, st\<lparr>ct_ticket_key := key\<rparr>)
           | (Inr found, key) \<Rightarrow>
               let (res, tr) = dispatch_task env cfg req identity found (ct_tokens st)
               in (res, tr, \<lparr>ct_ticket_key = key, ct_tokens = sx_cache tr\<rparr>)))"

section \<open>Chat\<close>

record chat_options =
  ch_intent :: "string option"
  ch_model :: "string option"
  ch_max_tokens :: "rat option"
  ch_temperature :: "rat option"
  ch_timeout_ms :: "rat option"
  ch_qos :: "string option"
  ch_region :: "string option"
  ch_min_reputation :: "rat option"
  ch_browser_usable_only :: "bool option"
  ch_profile_request :: "profile_request option"
  ch_route_constraints :: "discover_options option"
  ch_routing_policy :: "routing_policy option"
  ch_runtime_identity :: "identity_options option"

definition nonempty :: "string option \<Rightarrow> string option" where
  "nonempty v = (if present v then v else None)"

definition chat_request :: "client_config \<Rightarrow> chat_message list \<Rightarrow> chat_options \<Rightarrow> client_task" where
  "chat_request cfg messages o' =
     \<lparr>tr_intent = or_else (ch_intent o') RUNTIME_IDENTITY_CHAT_INTENT,
      tr_payload = [(''messages'', JArr (map message_value messages))] @ nonempty_field ''model'' (ch_model o') @
        optional_field ''max_tokens'' jrat (ch_max_tokens o') @ optional_field ''temperature'' jrat (ch_temperature o'),
      tr_constraints = Some \<lparr>tk_region = nonempty (ch_region o'), tk_qos = Some (or_else (ch_qos o') ''interactive''),
        tk_timeout_ms = Some (or_else (ch_timeout_ms o') (cf_timeout_ms cfg)),
        tk_min_reputation = ch_min_reputation o', tk_model = nonempty (ch_model o')\<rparr>,
      tr_route_constraints = Some (or_else (ch_route_constraints o')
        \<lparr>do_limit = None, do_region = ch_region o', do_qos = Some (or_else (ch_qos o') ''interactive''),
         do_min_reputation = ch_min_reputation o', do_model = ch_model o',
         do_browser_usable_only = ch_browser_usable_only o', do_profile_request = ch_profile_request o'\<rparr>),
      tr_auth_token = None, tr_task_id = None, tr_source_node_id = None, tr_routing_policy = ch_routing_policy o'\<rparr>"

record chat_choice =
  cc_index :: nat
  cc_role :: js
  cc_content :: js
  cc_finish_reason :: string

record chat_response =
  cp_id :: string
  cp_choices :: "chat_choice list"
  cp_usage :: "(js \<times> js \<times> js) option"
  cp_node_id :: string

text \<open>A choice that is \<open>null\<close> makes the code throw, as does a list of choices that is no array.\<close>

definition chat_choice_of :: "js_runtime \<Rightarrow> nat \<Rightarrow> js \<Rightarrow> chat_choice option" where
  "chat_choice_of rt i c =
     (if nullish c then None
      else let msg = own_property c ''message'' in
        Some \<lparr>cc_index = i, cc_role = coalesce (own_property msg ''role'') (JStr ''assistant''),
          cc_content = coalesce (own_property msg ''content'') (JStr []),
          cc_finish_reason = String_of rt (coalesce (own_property c ''finish_reason'') (JStr ''stop''))\<rparr>)"

fun chat_choices :: "js_runtime \<Rightarrow> nat \<Rightarrow> js list \<Rightarrow> chat_choice list option" where
  "chat_choices rt i [] = Some []"
| "chat_choices rt i (c # cs) =
     (case chat_choice_of rt i c of
        None \<Rightarrow> None
      | Some x \<Rightarrow> map_option ((#) x) (chat_choices rt (Suc i) cs))"

definition chat_response_of :: "js_runtime \<Rightarrow> task_response \<Rightarrow> failure + chat_response" where
  "chat_response_of rt resp =
     (let result = coalesce (ts_result resp) (JObj []);
          usage = own_property result ''usage''
      in case coalesce (own_property result ''choices'') (JArr []) of
           JArr raw \<Rightarrow>
             (case chat_choices rt 0 raw of
                None \<Rightarrow> Inl Uncaught
              | Some choices \<Rightarrow>
                  Inr \<lparr>cp_id = ts_task_id resp, cp_choices = choices,
                    cp_usage =
                      (if truthy usage
                       then Some (coalesce (own_property usage ''prompt_tokens'') (jint 0),
                              coalesce (own_property usage ''completion_tokens'') (jint 0),
                              coalesce (own_property usage ''total_tokens'') (jint 0))
                       else None),
                    cp_node_id = String_of rt (coalesce (own_property result ''node_id'') (JStr []))\<rparr>)
         | _ \<Rightarrow> Inl Uncaught)"

definition chat ::
  "submit_env \<Rightarrow> directory_env \<Rightarrow> client_config \<Rightarrow> chat_message list \<Rightarrow> chat_options \<Rightarrow> client_state \<Rightarrow>
   (failure + chat_response) \<times> submit_trace \<times> client_state" where
  "chat env denv cfg messages o' st =
     (case submitInternal env denv cfg (chat_request cfg messages o') (Some (messages, ch_runtime_identity o')) st of
        (Inl e, tr, st') \<Rightarrow> (Inl e, tr, st')
      | (Inr resp, tr, st') \<Rightarrow> (chat_response_of (sb_runtime env) resp, tr, st'))"

end
