(* ===== verification/SubmissionSafety.thy ===== *)
theory SubmissionSafety imports Submission begin

text \<open>
  What a submission guarantees: which nodes are tried, what is sent to them and when, that a
  failing node is passed over, and that a consumer token is used only where it was issued.
\<close>

section \<open>Which nodes are tried\<close>

lemma chosen_first_sub:
  assumes "c \<in> set nodes"
  shows "set (chosen_first c nodes k) \<subseteq> set nodes" "length (chosen_first c nodes k) \<le> k"
    "0 < k \<Longrightarrow> chosen_first c nodes k \<noteq> []"
proof -
  have "set (filter (other_node c) (take k nodes)) \<subseteq> set nodes" by (auto dest: in_set_takeD)
  then show "set (chosen_first c nodes k) \<subseteq> set nodes"
    using assms set_take_subset [of k "c # filter (other_node c) (take k nodes)"]
    unfolding chosen_first_def by auto
qed (auto simp: chosen_first_def)

lemma softmax_walk_in: "softmax_walk w r pool c \<in> insert c (set pool)"
proof (induction pool arbitrary: r)
  case (Cons n pool)
  show ?case using Cons.IH [of "r - w n"] by (auto simp: Let_def)
qed simp

lemma softmax_choice_in: "pool \<noteq> [] \<Longrightarrow> softmax_choice f tau r pool \<in> set pool"
  unfolding softmax_choice_def Let_def
  by (metis insert_absorb list.set_sel(1) softmax_walk_in)

lemma weighted_is_chosen_first:
  assumes "1 < length nodes"
  shows "\<exists>c \<in> set nodes. weightedV1Order nodes k r topK = chosen_first c nodes k"
proof -
  let ?pool = "take (max 1 (min (length nodes) topK)) nodes"
  have "?pool \<noteq> []" using assms by auto
  then have "choose_weighted ?pool r \<in> set nodes"
    using walk_weights_member [of ?pool] unfolding choose_weighted_def by (blast dest: in_set_takeD)
  then show ?thesis
    using assms by (intro bexI [of _ "choose_weighted ?pool r"]) (simp_all add: weightedV1Order_def chosen_first_def Let_def)
qed

lemma random_index:
  fixes r :: rat
  assumes "0 \<le> r" "r < 1" "0 < n"
  shows "nat \<lfloor>r * of_nat n\<rfloor> < n"
proof -
  have "r * of_nat n < of_nat n" using assms by simp
  then have "\<lfloor>r * of_nat n\<rfloor> < int n" by (simp add: floor_less_iff)
  moreover have "0 \<le> \<lfloor>r * of_nat n\<rfloor>" using assms by simp
  ultimately show ?thesis by linarith
qed

lemma selected_from_nodes:
  assumes "nodes \<noteq> []" "0 < k" "0 \<le> r2" "r2 < 1"
  shows "set (selectCandidates cfg f r1 r2 nodes k) \<subseteq> set nodes \<and> length (selectCandidates cfg f r1 r2 nodes k) \<le> k \<and>
    selectCandidates cfg f r1 r2 nodes k \<noteq> []"
proof -
  let ?sel = "selectCandidates cfg f r1 r2 nodes k"
  have "?sel = take k nodes \<or> (\<exists>c \<in> set nodes. ?sel = chosen_first c nodes k)"
  proof (cases "length nodes \<le> 1")
    case False
    then have len: "1 < length nodes" by simp
    have soft: "softmax_choice f t r (take (max 1 m) nodes) \<in> set nodes" for t r m
      using softmax_choice_in [of "take (max 1 m) nodes" f t r] len
      by (cases nodes) (auto simp del: take_Suc_Cons dest: in_set_takeD)
    have explore: "nodes ! nat \<lfloor>r2 * of_nat (length nodes)\<rfloor> \<in> set nodes"
      using random_index [OF assms(3,4), of "length nodes"] assms(1) by (simp add: nth_mem)
    consider "?sel = take k nodes" | t where "?sel = weightedV1Order nodes k r1 t"
      | t r m where "?sel = chosen_first (softmax_choice f t r (take (max 1 m) nodes)) nodes k"
      | "?sel = chosen_first (nodes ! nat \<lfloor>r2 * of_nat (length nodes)\<rfloor>) nodes k"
      unfolding selectCandidates_def Let_def by metis
    then show ?thesis using weighted_is_chosen_first [OF len] soft explore by cases metis+
  qed (simp add: selectCandidates_def Let_def)
  then show ?thesis
  proof
    assume "?sel = take k nodes"
    then show ?thesis using assms(1,2) set_take_subset [of k nodes] by simp
  next
    assume "\<exists>c \<in> set nodes. ?sel = chosen_first c nodes k"
    then show ?thesis using chosen_first_sub [of _ nodes k] assms(2) by metis
  qed
qed

lemma ranker_from:
  assumes "applyCandidateRanker sha rank taskId eligible builtIn limit = Inr (cs, d)" "0 < limit"
  shows "cs = builtIn \<or> set cs \<subseteq> set eligible \<union> set builtIn \<and> length cs \<le> limit \<and> cs \<noteq> []"
proof -
  have "cs = builtIn \<or> (\<exists>s i. find i eligible = Some s \<and> cs = take limit (s # filter (other_node s) builtIn))"
    using assms(1) unfolding applyCandidateRanker_def Let_def
    by (auto split: if_splits sum.splits option.splits)
  then show ?thesis
  proof
    assume "\<exists>s i. find i eligible = Some s \<and> cs = take limit (s # filter (other_node s) builtIn)"
    then obtain s i where s: "find i eligible = Some s" and cs: "cs = take limit (s # filter (other_node s) builtIn)" by blast
    have "s \<in> set eligible" using s by (auto simp: find_Some_iff)
    moreover have "set cs \<subseteq> insert s (set builtIn)"
      unfolding cs using set_take_subset [of limit "s # filter (other_node s) builtIn"] by auto
    moreover have "cs \<noteq> []" using assms(2) by (simp add: cs)
    ultimately show ?thesis by (auto simp: cs)
  qed simp
qed

lemma ranked_from_eligible:
  assumes "rank_candidates env cfg taskId eligible = Inr (cs, d)" "eligible \<noteq> []"
    and "0 \<le> sb_random2 env" "sb_random2 env < 1"
  shows "set cs \<subseteq> set eligible \<and> length cs \<le> 3 \<and> cs \<noteq> []"
proof -
  define builtIn where "builtIn = selectCandidates cfg (sb_exp env) (sb_random1 env) (sb_random2 env) eligible 3"
  have sel: "set builtIn \<subseteq> set eligible" "length builtIn \<le> 3" "builtIn \<noteq> []"
    using selected_from_nodes [OF assms(2) _ assms(3,4), of 3] by (simp_all add: builtIn_def)
  have "cs = builtIn \<or> (\<exists>rank. applyCandidateRanker (sb_sha256 env) rank taskId eligible builtIn 3 = Inr (cs, d))"
    using assms(1) unfolding rank_candidates_def Let_def MAX_RETRIES_def builtIn_def [symmetric]
    by (auto split: option.splits sum.splits)
  then show ?thesis using sel ranker_from [of "sb_sha256 env" _ taskId eligible builtIn 3 cs d] by auto
qed

section \<open>What is sent, and when\<close>

text \<open>The outcomes of a request after which the client goes on to another one.\<close>

definition passes_over :: "failure + js \<Rightarrow> bool" where
  "passes_over r =
     (case r of
        Inl (Refused e) \<Rightarrow> ie_status e = None \<or> the (ie_status e) \<in> set (0 # TRANSIENT_STATUSES)
      | _ \<Rightarrow> False)"

lemma attempts_cases:
  assumes "attempts ex l k i e0 = (r, ps, j)"
  shows "i \<le> j \<and> j \<le> i + l \<and> length ps \<le> j - i \<and> ps = map (\<lambda>t. 200 * 2 ^ t) [k..<k + length ps] \<and>
    (\<forall>t. i \<le> t \<and> Suc t < j \<longrightarrow> passes_over (ex t)) \<and>
    (case r of
       MovesOn e \<Rightarrow> (\<forall>t. i \<le> t \<and> t < j \<longrightarrow> passes_over (ex t)) \<and> (l = 0 \<or> i < j \<and> (\<exists>x. e = Some x))
     | Answered d \<Rightarrow> i < j \<and> ex (j - 1) = Inr d
     | Stops e \<Rightarrow> i < j \<and> ex (j - 1) = Inl e \<and> \<not> passes_over (ex (j - 1)))"
  using assms
proof (induction l arbitrary: k i e0 r ps j)
  case (Suc l)
  consider (ok) d where "ex i = Inr d" | (other) e where "ex i = Inl e" "\<forall>x. e \<noteq> Refused x"
    | (unreachable) e where "ex i = Inl (Refused e)" "ie_status e = None \<or> ie_status e = Some 0"
    | (transient) e s where "ex i = Inl (Refused e)" "ie_status e = Some s" "s \<noteq> 0" "s \<in> set TRANSIENT_STATUSES"
    | (fatal) e s where "ex i = Inl (Refused e)" "ie_status e = Some s" "s \<noteq> 0" "s \<notin> set TRANSIENT_STATUSES"
    by (metis failure.exhaust not_None_eq sum.exhaust)
  then show ?case
  proof cases
    case transient
    obtain r' ps' j' where IH: "attempts ex l (Suc k) (Suc i) (Some e) = (r', ps', j')" by (metis prod_cases3)
    then have eq: "r = r'" "ps = 200 * 2 ^ k # ps'" "j = j'" using Suc.prems transient by auto
    note I = Suc.IH [OF IH]
    have p: "passes_over (ex i)" using transient by (simp add: passes_over_def)
    have less: "t = i \<or> Suc i \<le> t" if "i \<le> t" for t using that by linarith
    have a: "ps' = map (\<lambda>t. 200 * 2 ^ t) [Suc k..<Suc k + length ps']" using I by blast
    have "[k..<k + Suc (length ps')] = k # [Suc k..<Suc k + length ps']" by (simp add: upt_conv_Cons del: upt_Suc)
    then have "200 * 2 ^ k # ps' = map (\<lambda>t. 200 * 2 ^ t) [k..<k + Suc (length ps')]"
      using a by (metis list.simps(9))
    moreover have "case r' of MovesOn e \<Rightarrow> (\<forall>t. i \<le> t \<and> t < j' \<longrightarrow> passes_over (ex t)) \<and> i < j' \<and> (\<exists>x. e = Some x)
       | Answered d \<Rightarrow> i < j' \<and> ex (j' - 1) = Inr d
       | Stops e \<Rightarrow> i < j' \<and> ex (j' - 1) = Inl e \<and> \<not> passes_over (ex (j' - 1))"
    proof (cases r')
      case (MovesOn e')
      then have "l = 0 \<Longrightarrow> e' = Some e" using IH by auto
      then show ?thesis using I p MovesOn less by (cases "l = 0") auto
    qed (use I in auto)
    moreover have "\<forall>t. i \<le> t \<and> Suc t < j' \<longrightarrow> passes_over (ex t)" using I p less by blast
    ultimately show ?thesis using I unfolding eq by (cases r') (auto simp del: upt_Suc)
  next
    case unreachable
    then have "passes_over (ex i)" by (auto simp: passes_over_def)
    then have "\<forall>t. i \<le> t \<and> t < Suc i \<longrightarrow> passes_over (ex t)" by (metis le_less_Suc_eq)
    then show ?thesis using Suc.prems unreachable by auto
  qed (use Suc.prems in \<open>auto simp: passes_over_def split: failure.splits\<close>)
qed auto

text \<open>How a request was made: by the preparation of a candidate.\<close>

definition prepared ::
  "submit_env \<Rightarrow> client_config \<Rightarrow> client_task \<Rightarrow> identity_request option \<Rightarrow> string \<Rightarrow> route_node \<times> post_request \<Rightarrow>
   sealing option \<Rightarrow> bool" where
  "prepared env cfg req identity taskId entry sealed =
     (\<exists>idx cache cache'. prepare_candidate env cfg req identity taskId idx (fst entry) cache =
        (Inr (snd entry, sealed), cache'))"

definition answered_with ::
  "submit_env \<Rightarrow> client_config \<Rightarrow> client_task \<Rightarrow> identity_request option \<Rightarrow> string \<Rightarrow>
   (route_node \<times> post_request) list \<Rightarrow> nat \<Rightarrow> (failure + js \<Rightarrow> bool) \<Rightarrow> bool" where
  "answered_with env cfg req identity taskId sent j P =
     (\<exists>sealed. prepared env cfg req identity taskId (sent ! j) sealed \<and>
        P (one_attempt env sealed taskId (snd (sent ! j)) j))"

text \<open>
  The account of a submission: which requests were added to the trace by trying the nodes
  \<open>ns\<close>, and that every one but the last was passed over.
\<close>

definition tries_account ::
  "submit_env \<Rightarrow> client_config \<Rightarrow> client_task \<Rightarrow> identity_request option \<Rightarrow> string \<Rightarrow> route_node list \<Rightarrow>
   submit_trace \<Rightarrow> failure + nat \<times> route_node \<times> js \<Rightarrow> submit_trace \<Rightarrow> bool" where
  "tries_account env cfg req identity taskId ns tr res tr' =
     (let before = length (sx_sent tr); sent = sx_sent tr'; answered = answered_with env cfg req identity taskId sent in
      take before sent = sx_sent tr \<and> length sent \<le> before + 3 * length ns \<and> before \<le> length sent \<and>
      (\<forall>j. before \<le> j \<and> j < length sent \<longrightarrow> fst (sent ! j) \<in> set ns \<and> answered j (\<lambda>_. True)) \<and>
      (\<forall>j. before \<le> j \<and> Suc j < length sent \<longrightarrow> answered j passes_over) \<and>
      (case res of
         Inl e \<Rightarrow> True
       | Inr (idx, n, d) \<Rightarrow> before < length sent \<and> n = fst (last sent) \<and> answered (length sent - 1) (\<lambda>r. r = Inr d)))"

lemma answered_mono:
  "answered_with env cfg req identity taskId sent j P \<Longrightarrow> (\<And>r. P r \<Longrightarrow> Q r) \<Longrightarrow>
   answered_with env cfg req identity taskId sent j Q"
  by (auto simp: answered_with_def)

lemma answered_prefix:
  assumes "take k xs = ys" "j < k"
  shows "answered_with env cfg req identity taskId xs j P = answered_with env cfg req identity taskId ys j P"
  using nth_take [OF assms(2), of xs] by (simp add: answered_with_def assms(1))

text \<open>One node's attempts, and their composition with what follows.\<close>

lemma node_account:
  assumes at: "attempts (one_attempt env sealed taskId rq) 3 0 (length (sx_sent tr)) e0 = (r, ps, j)"
    and prep: "prepared env cfg req identity taskId (n, rq) sealed"
    and tr1: "tr1 = \<lparr>sx_cache = cache, sx_sent = sx_sent tr @ replicate (j - length (sx_sent tr)) (n, rq), sx_pauses = qs\<rparr>"
  shows "tries_account env cfg req identity taskId (n # ns) tr
      (case r of Answered d \<Rightarrow> Inr (idx, n, d) | Stops e \<Rightarrow> Inl e | MovesOn e \<Rightarrow> Inl Uncaught) tr1 \<and>
    (\<forall>t. (\<exists>e. r = MovesOn e) \<and> length (sx_sent tr) \<le> t \<and> t < length (sx_sent tr1) \<longrightarrow>
       fst (sx_sent tr1 ! t) = n \<and> answered_with env cfg req identity taskId (sx_sent tr1) t passes_over)"
proof -
  let ?i = "length (sx_sent tr)" and ?ex = "one_attempt env sealed taskId rq"
  note A = attempts_cases [OF at]
  have len: "length (sx_sent tr1) = j" using A by (simp add: tr1)
  have nth: "sx_sent tr1 ! t = (n, rq)" if "?i \<le> t" "t < j" for t
    using that by (simp add: tr1 nth_append)
  have ans: "answered_with env cfg req identity taskId (sx_sent tr1) t P" if "?i \<le> t" "t < j" "P (?ex t)" for t P
    using prep nth [OF that(1,2)] that(3) unfolding answered_with_def by auto
  have last: "fst (last (sx_sent tr1)) = n" if "?i < j"
  proof -
    have "sx_sent tr1 ! (j - 1) = (n, rq)" using that by (intro nth) auto
    moreover have "sx_sent tr1 \<noteq> []" using len that by auto
    ultimately show ?thesis by (simp add: last_conv_nth len)
  qed
  have "take ?i (sx_sent tr1) = sx_sent tr" by (simp add: tr1)
  then have "tries_account env cfg req identity taskId (n # ns) tr
      (case r of Answered d \<Rightarrow> Inr (idx, n, d) | Stops e \<Rightarrow> Inl e | MovesOn e \<Rightarrow> Inl Uncaught) tr1"
    unfolding tries_account_def Let_def len using A nth ans last by (cases r) auto
  moreover have "fst (sx_sent tr1 ! t) = n \<and> answered_with env cfg req identity taskId (sx_sent tr1) t passes_over"
    if "r = MovesOn e" "?i \<le> t" "t < j" for t e
    using A that nth ans by auto
  ultimately show ?thesis unfolding len by blast
qed

lemma account_compose:
  assumes one: "take b (sx_sent tr1) = sx_sent tr" "b = length (sx_sent tr)" "b \<le> c" "c \<le> b + 3" "c = length (sx_sent tr1)"
    and over: "\<And>t. b \<le> t \<Longrightarrow> t < c \<Longrightarrow>
      fst (sx_sent tr1 ! t) = n \<and> answered_with env cfg req identity taskId (sx_sent tr1) t passes_over"
    and rest: "tries_account env cfg req identity taskId ns tr1 res tr'"
  shows "tries_account env cfg req identity taskId (n # ns) tr res tr'"
proof -
  let ?s = "sx_sent tr'" and ?ans = "answered_with env cfg req identity taskId (sx_sent tr')"
  have I: "take c ?s = sx_sent tr1" "c \<le> length ?s" "length ?s \<le> c + 3 * length ns"
      "\<forall>t. c \<le> t \<and> t < length ?s \<longrightarrow> fst (?s ! t) \<in> set ns \<and> ?ans t (\<lambda>_. True)"
      "\<forall>t. c \<le> t \<and> Suc t < length ?s \<longrightarrow> ?ans t passes_over"
      "case res of Inl e \<Rightarrow> True | Inr (idx, n, d) \<Rightarrow> c < length ?s \<and> n = fst (last ?s) \<and>
         ?ans (length ?s - 1) (\<lambda>r. r = Inr d)"
    using rest unfolding tries_account_def Let_def one(5) by simp_all
  have own: "fst (?s ! t) = n \<and> ?ans t passes_over" if "b \<le> t" "t < c" for t
    using over [OF that] answered_prefix [OF I(1) that(2)] nth_take [OF that(2), of ?s] I(1) by simp
  have "take b ?s = sx_sent tr"
    using arg_cong [OF I(1), of "take b"] one(1,3) by (simp add: min_def)
  moreover have "fst (?s ! t) \<in> set (n # ns) \<and> ?ans t (\<lambda>_. True)" if "b \<le> t" "t < length ?s" for t
    using own [of t] I(4) that answered_mono [of env cfg req identity taskId ?s t passes_over "\<lambda>_. True"]
    by (cases "t < c") auto
  moreover have "?ans t passes_over" if "b \<le> t" "Suc t < length ?s" for t
    using own [of t] I(5) that by (cases "t < c") auto
  moreover have "case res of Inl e \<Rightarrow> True | Inr (idx, n, d) \<Rightarrow> b < length ?s \<and> n = fst (last ?s) \<and>
         ?ans (length ?s - 1) (\<lambda>r. r = Inr d)"
    using I(6) one(3) by (auto split: sum.splits)
  ultimately show ?thesis using I(2,3) one(2-4) unfolding tries_account_def Let_def by auto
qed

lemma try_candidates_account:
  assumes "try_candidates env cfg req identity taskId idx e0 ns tr = (res, tr')"
  shows "tries_account env cfg req identity taskId ns tr res tr'"
  using assms
proof (induction ns arbitrary: idx e0 tr res tr')
  case Nil
  then show ?case by (auto simp: tries_account_def Let_def)
next
  case (Cons n ns)
  obtain made cache where prep: "prepare_candidate env cfg req identity taskId idx n (sx_cache tr) = (made, cache)"
    by fastforce
  show ?case
  proof (cases made)
    case (Inl e)
    then show ?thesis using Cons.prems prep by (auto simp: tries_account_def Let_def)
  next
    case (Inr rs)
    obtain rq sealed where rs: "rs = (rq, sealed)" by (cases rs)
    obtain r ps j where at: "attempts (one_attempt env sealed taskId rq) 3 0 (length (sx_sent tr)) e0 = (r, ps, j)"
      by (metis prod_cases3)
    define tr1 where "tr1 = \<lparr>sx_cache = cache, sx_sent = sx_sent tr @ replicate (j - length (sx_sent tr)) (n, rq),
      sx_pauses = sx_pauses tr @ ps\<rparr>"
    have res: "(case r of Answered d \<Rightarrow> (Inr (idx, n, d), tr1) | Stops e \<Rightarrow> (Inl e, tr1)
        | MovesOn e \<Rightarrow> try_candidates env cfg req identity taskId (Suc idx) e ns tr1) = (res, tr')"
      unfolding tr1_def using Cons.prems prep Inr rs at by (simp add: Let_def MAX_RETRIES_def)
    have "prepared env cfg req identity taskId (n, rq) sealed"
      using prep Inr rs by (auto simp: prepared_def)
    note N = node_account [OF at this tr1_def, of ns idx]
    show ?thesis
    proof (cases r)
      case (MovesOn e)
      have len: "length (sx_sent tr1) = j" "length (sx_sent tr) \<le> j" "j \<le> length (sx_sent tr) + 3"
        using attempts_cases [OF at] by (auto simp: tr1_def)
      have rest: "tries_account env cfg req identity taskId ns tr1 res tr'" using Cons.IH res MovesOn by simp
      show ?thesis
        by (rule account_compose [OF _ refl len(2,3) len(1) [symmetric] _ rest])
           (use N MovesOn len in \<open>auto simp: tr1_def\<close>)
    qed (use N res in auto)
  qed
qed

section \<open>Where the nodes come from\<close>

definition sound_node :: "directory_env \<Rightarrow> route_node \<Rightarrow> bool" where
  "sound_node denv n = (env_safe denv (rn_endpoint n) \<and> node_cx_public_key n = cx_value (rn_cx_key n))"

lemma route_sound: "nodeFromRoute rt (env_safe denv) raw pre = Some n \<Longrightarrow> sound_node denv n"
  using nodeFromRoute_safe [of rt "env_safe denv" raw pre n] by (simp add: sound_node_def)

lemma accepted_sound: "accept_ticket denv i cfg intent data known = (Inr (n, el), key) \<Longrightarrow> sound_node denv n"
  by (auto simp: accept_ticket_def ticketed_route_def Let_def
      split: sum.splits option.splits if_splits intro: route_sound)

lemma ticket_rounds_sound:
  "ticket_rounds denv cfg intent base left i known excluded candidates = (Inr cs, key, sent) \<Longrightarrow>
   \<forall>c \<in> set candidates. sound_node denv (fst c) \<Longrightarrow> \<forall>c \<in> set cs. sound_node denv (fst c)"
proof (induction left arbitrary: i known excluded candidates sent)
  case (Suc left)
  consider "cs = candidates"
    | data n el key' sent' j where "accept_ticket denv i cfg intent data known = (Inr (n, el), key')"
      "ticket_rounds denv cfg intent base left (Suc i) key' j (candidates @ [(n, el)]) = (Inr cs, key, sent')"
    using Suc.prems(1) unfolding ticket_rounds.simps(2) Let_def
    by (auto split: sum.splits directory_answer.splits if_splits option.splits prod.splits)
  then show ?case
  proof cases
    case 2
    show ?thesis
      by (rule Suc.IH [OF 2(2)]) (use Suc.prems(2) accepted_sound [OF 2(1)] in auto)
  qed (use Suc.prems(2) in simp)
qed simp

lemma catalogue_sound: "catalogue_node denv b raw = Some n \<Longrightarrow> sound_node denv n"
  by (auto simp: catalogue_node_def split: option.splits if_splits intro: route_sound)

lemma legacy_sound:
  assumes "legacy_nodes env denv cfg opts = Inr found"
  shows "\<forall>c \<in> set (fst found). sound_node denv (fst c)"
proof -
  obtain r where "discoverWithNegotiation denv cfg opts (sb_catalogue env) (sb_catalogue_now env) = Inr r"
      "found = (dr_nodes r, dr_profile_negotiation r)"
    using assms by (auto simp: legacy_nodes_def split: sum.splits)
  moreover then obtain el b xs where "dr_nodes r = map (\<lambda>n. (n, el)) (List.map_filter (catalogue_node denv b) xs)"
    by (auto simp: discoverWithNegotiation_def Let_def split: sum.splits if_splits option.splits)
  ultimately show ?thesis by (auto simp: List.map_filter_def intro: catalogue_sound)
qed

lemma found_sound:
  assumes "find_nodes env denv cfg intent opts known = (Inr found, key)"
  shows "\<forall>c \<in> set (fst found). sound_node denv (fst c)"
proof -
  consider "legacy_nodes env denv cfg opts = Inr found"
    | cs sent where "ticketedCandidates denv cfg intent opts known = (Inr cs, key, sent)" "found = (cs, JUndef)"
    using assms unfolding find_nodes_def
    by (auto split: if_splits prod.splits sum.splits failure.splits)
  then show ?thesis
    by cases (auto simp: ticketedCandidates_def dest: legacy_sound ticket_rounds_sound)
qed

text \<open>
  With ticketed dispatch a profile that the request requires, and a restriction to endpoints a
  browser can use, have no effect: the rounds do not read them.
\<close>

lemma ticketed_ignores_profile:
  "ticketedCandidates denv cfg intent (opts\<lparr>do_profile_request := p, do_browser_usable_only := b\<rparr>) known =
   ticketedCandidates denv cfg intent opts known"
  by (simp add: ticketedCandidates_def ticket_request_base_def)

section \<open>The policy of a request\<close>

lemma policy_resolved_once:
  "resolvedRoutingPolicy (Some (policy_of_effective (resolvedRoutingPolicy p))) = resolvedRoutingPolicy p"
proof -
  let ?r = "resolvedRoutingPolicy p"
  have "ep_profile ?r \<in> {''standard'', ''sensitive'', ''eu_restricted'', ''strict_policy'', ''debug_override''}"
    by (auto simp: resolvedRoutingPolicy_def Let_def profileDefaults_def)
  then have d: "normalizeProfile (ep_profile ?r) = ep_profile ?r" "profileDefaults (ep_profile ?r) \<noteq> None"
      "\<And>q. profileDefaults (ep_profile ?r) = Some q \<Longrightarrow> ep_required_manifest_identity_level q = None"
    by (auto simp: normalizeProfile_def replace_char_def js_lower_def js_lower_char_def profileDefaults_def Let_def)
  then obtain q where "profileDefaults (ep_profile ?r) = Some q" by blast
  then show ?thesis
    using d by (subst (1) resolvedRoutingPolicy_def) (simp add: policy_of_effective_def Let_def split: option.splits)
qed

lemma eligible_ok:
  assumes "eligible_nodes env cfg req nodes = Inr el"
  shows "el \<noteq> [] \<and> el = filter (meets_policy (request_policy cfg req) (plaintext_allowed env cfg req)) nodes"
  using assms
  by (auto simp: eligible_nodes_def Let_def filterNodesForRoutingPolicy_def filter_policy_fold request_policy_def
      policy_resolved_once split: if_splits)

lemma eligible_intro:
  assumes "filter (meets_policy (request_policy cfg req) (plaintext_allowed env cfg req)) nodes \<noteq> []"
  shows "eligible_nodes env cfg req nodes = Inr (filter (meets_policy (request_policy cfg req) (plaintext_allowed env cfg req)) nodes)"
  using assms
  by (auto simp: eligible_nodes_def Let_def filterNodesForRoutingPolicy_def filter_policy_fold request_policy_def
      policy_resolved_once)

section \<open>Properties\<close>

definition request_task_id :: "submit_env \<Rightarrow> client_task \<Rightarrow> string" where
  "request_task_id env req = or_else (tr_task_id req) (sb_uuid env)"

text \<open>
  The prompt of a request is protected: for a node with a key the body has no payload but the
  envelope that encrypting a payload to that key gave; without a key it is in plain text, which
  must be allowed.
\<close>

definition prompt_protected :: "submit_env \<Rightarrow> client_config \<Rightarrow> client_task \<Rightarrow> route_node \<times> post_request \<Rightarrow> bool" where
  "prompt_protected env cfg req entry =
     (case rn_cx_key (fst entry) of
        None \<Rightarrow> plaintext_allowed env cfg req
      | Some key \<Rightarrow>
          own_property (pr_body (snd entry)) ''payload'' = JUndef \<and>
          (\<exists>idx payload secret. sb_encrypt env idx payload key (request_task_id env req) (tr_intent req) =
             Some (own_property (pr_body (snd entry)) ''iicp_conf'', secret)))"

lemma prepared_request:
  assumes "prepared env cfg req identity (request_task_id env req) entry sealed"
  shows "pr_url (snd entry) = rn_endpoint (fst entry) @ ''/v1/task'' \<and>
    own_property (pr_body (snd entry)) ''task_id'' = JStr (request_task_id env req) \<and>
    (\<forall>key. rn_cx_key (fst entry) = Some key \<longrightarrow>
       own_property (pr_body (snd entry)) ''payload'' = JUndef \<and>
       (\<exists>idx payload secret. sb_encrypt env idx payload key (request_task_id env req) (tr_intent req) =
          Some (own_property (pr_body (snd entry)) ''iicp_conf'', secret)))"
proof -
  obtain idx cache cache' where "prepare_candidate env cfg req identity (request_task_id env req) idx (fst entry) cache =
      (Inr (snd entry, sealed), cache')"
    using assms by (auto simp: prepared_def)
  then obtain payload where b: "candidate_body env req (request_task_id env req) idx (fst entry) payload =
      Inr (pr_body (snd entry), sealed)" and u: "pr_url (snd entry) = rn_endpoint (fst entry) @ ''/v1/task''"
    unfolding prepare_candidate_def by (cases "snd entry") (auto split: sum.splits prod.splits)
  show ?thesis
  proof (cases "rn_cx_key (fst entry)")
    case None
    then show ?thesis using b u by (auto simp: candidate_body_def Let_def dest!: sym [of "JObj _"])
  next
    case (Some key)
    then obtain envelope secret where e: "sb_encrypt env idx payload key (request_task_id env req) (tr_intent req) = Some (envelope, secret)"
      using b by (auto simp: candidate_body_def Let_def split: option.splits)
    have "own_property (pr_body (snd entry)) ''task_id'' = JStr (request_task_id env req) \<and>
        own_property (pr_body (snd entry)) ''payload'' = JUndef \<and> own_property (pr_body (snd entry)) ''iicp_conf'' = envelope"
      using b Some e
      by (auto simp: candidate_body_def Let_def nonempty_field_def map_add_def dest!: sym [of "JObj _"] split: option.splits)
    moreover have "\<exists>idx payload secret. sb_encrypt env idx payload key (request_task_id env req) (tr_intent req) = Some (envelope, secret)"
      by (intro exI) (rule e)
    ultimately show ?thesis using u Some by auto
  qed
qed

lemma dispatch_account:
  assumes "dispatch_task env cfg req identity found cache = (res, tr)"
    and "0 \<le> sb_random2 env" "sb_random2 env < 1"
  shows "sx_sent tr = [] \<and> (\<exists>e. res = Inl e) \<or>
    (\<exists>cs tries eligible ranked. set cs \<subseteq> set eligible \<and> length cs \<le> 3 \<and>
       eligible = filter (meets_policy (request_policy cfg req) (plaintext_allowed env cfg req)) (map fst (fst found)) \<and>
       tries_account env cfg req identity (request_task_id env req) cs
         \<lparr>sx_cache = cache, sx_sent = [], sx_pauses = []\<rparr> tries tr \<and>
       (case tries of Inl e \<Rightarrow> res = Inl e
        | Inr (idx, n, d) \<Rightarrow> res = Inr (response_of env cfg (request_task_id env req) ranked (snd found)
            (length eligible) idx n d)))"
proof -
  let ?tr0 = "\<lparr>sx_cache = cache, sx_sent = [], sx_pauses = []\<rparr>"
  consider e where "sx_sent tr = []" "res = Inl e"
    | el cs ranked tries where "eligible_nodes env cfg req (map fst (fst found)) = Inr el"
      "rank_candidates env cfg (request_task_id env req) el = Inr (cs, ranked)"
      "try_candidates env cfg req identity (request_task_id env req) 0 None cs ?tr0 = (tries, tr)"
      "case tries of Inl e \<Rightarrow> res = Inl e
        | Inr (idx, n, d) \<Rightarrow> res = Inr (response_of env cfg (request_task_id env req) ranked (snd found) (length el) idx n d)"
    using assms(1) unfolding dispatch_task_def Let_def request_task_id_def
    by (auto split: sum.splits prod.splits)
  then show ?thesis
  proof cases
    case (2 el cs ranked tries)
    note E = eligible_ok [OF 2(1)]
    have "set cs \<subseteq> set el \<and> length cs \<le> 3"
      using ranked_from_eligible [OF 2(2) _ assms(2,3)] E by blast
    then show ?thesis using 2(4) E try_candidates_account [OF 2(3)] by blast
  qed simp
qed

lemma submit_account:
  assumes "submitInternal env denv cfg req identity st = (res, tr, st')" "0 \<le> sb_random2 env" "sb_random2 env < 1"
  shows "sx_sent tr = [] \<and> (\<exists>e. res = Inl e) \<or>
    validateIntent (tr_intent req) = None \<and>
    (\<exists>found. (\<forall>c \<in> set (fst found). sound_node denv (fst c)) \<and>
       dispatch_task env cfg req identity found (ct_tokens st) = (res, tr))"
proof -
  consider e where "sx_sent tr = []" "res = Inl e"
    | found key where "validateIntent (tr_intent req) = None"
      "find_nodes env denv cfg (tr_intent req)
         (projectRouteOptions (tr_route_constraints req) (tr_constraints req) cfg) (ct_ticket_key st) = (Inr found, key)"
      "dispatch_task env cfg req identity found (ct_tokens st) = (res, tr)"
    using assms(1) unfolding submitInternal_def Let_def
    by (auto split: option.splits prod.splits sum.splits)
  then show ?thesis
  proof cases
    case (2 found key)
    then show ?thesis using found_sound [OF 2(2)] by blast
  qed simp
qed


lemma submission_outcome:
  assumes "submitInternal env denv cfg req identity st = (res, tr, st')"
    and "0 \<le> sb_random2 env" "sb_random2 env < 1"
  shows "(let sent = sx_sent tr; answered = answered_with env cfg req identity (request_task_id env req) sent in
    length sent \<le> 9 \<and> (\<forall>j. Suc j < length sent \<longrightarrow> answered j passes_over) \<and>
    (\<forall>resp. res = Inr resp \<longrightarrow> sent \<noteq> [] \<and> ts_task_id resp = request_task_id env req \<and>
       (\<exists>d. answered (length sent - 1) (\<lambda>r. r = Inr d) \<and> ts_result resp = own_property d ''result'' \<and>
          ts_status resp = String_of (sb_runtime env) (coalesce (own_property d ''status'') (JStr ''ok'')))))"
proof (cases "sx_sent tr = [] \<and> (\<exists>e. res = Inl e)")
  case True
  then show ?thesis by (auto simp: Let_def)
next
  case False
  obtain found where disp: "dispatch_task env cfg req identity found (ct_tokens st) = (res, tr)"
    using submit_account [OF assms] False by auto
  obtain cs tries ranked k where len: "length cs \<le> 3"
    and acc: "tries_account env cfg req identity (request_task_id env req) cs
        \<lparr>sx_cache = ct_tokens st, sx_sent = [], sx_pauses = []\<rparr> tries tr"
    and res: "case tries of Inl e \<Rightarrow> res = Inl e
        | Inr (idx, n, d) \<Rightarrow> res = Inr (response_of env cfg (request_task_id env req) ranked (snd found) k idx n d)"
    using dispatch_account [OF disp assms(2,3)] False by auto
  show ?thesis
  proof (cases tries)
    case (Inl e)
    then show ?thesis using acc res len by (auto simp: tries_account_def Let_def)
  next
    case (Inr t)
    then obtain idx n d where "tries = Inr (idx, n, d)" by (cases t) auto
    then show ?thesis
      using acc res len by (auto simp: tries_account_def Let_def response_of_def)
  qed
qed

text \<open>
  C31 A submission ends after at most nine requests, and sends a task again only when the request
  before it failed to reach a node or was refused for the moment: every request but the last was
  passed over, and a result that is returned is the last request's answer.
\<close>

theorem submission_retries_only_failures:
  assumes "submitInternal env denv cfg req identity st = (res, tr, st')"
    and "0 \<le> sb_random2 env" "sb_random2 env < 1"
  shows "(let sent = sx_sent tr; answered = answered_with env cfg req identity (request_task_id env req) sent in
    length sent \<le> 9 \<and> (\<forall>j. Suc j < length sent \<longrightarrow> answered j passes_over) \<and>
    (\<forall>resp. res = Inr resp \<longrightarrow> sent \<noteq> [] \<and> ts_task_id resp = request_task_id env req \<and>
       answered (length sent - 1) (\<lambda>r. \<exists>d. r = Inr d \<and> ts_result resp = own_property d ''result'')))"
  using submission_outcome [OF assms] by (fastforce simp: Let_def elim: answered_mono)

section \<open>Failover\<close>

lemma attempts_move_on:
  "\<forall>i. passes_over (ex i) \<Longrightarrow> \<exists>e ps j. attempts ex l k i e0 = (MovesOn e, ps, j)"
proof (induction l arbitrary: k i e0)
  case (Suc l)
  obtain e where e: "ex i = Inl (Refused e)" "ie_status e = None \<or> the (ie_status e) \<in> set (0 # TRANSIENT_STATUSES)"
    using Suc.prems [rule_format, of i] by (auto simp: passes_over_def split: sum.splits failure.splits)
  obtain e' ps j where IH: "attempts ex l (Suc k) (Suc i) (Some e) = (MovesOn e', ps, j)" using Suc by blast
  show ?case using e IH by (cases "ie_status e") auto
qed simp

definition node_down :: "submit_env \<Rightarrow> route_node \<Rightarrow> bool" where
  "node_down env n =
     (\<forall>i rq. pr_url rq = rn_endpoint n @ ''/v1/task'' \<longrightarrow>
        (case sb_post env i rq of
           PostFailed \<Rightarrow> True | PostAborted \<Rightarrow> True
         | PostResponse s _ \<Rightarrow> s \<in> set TRANSIENT_STATUSES | PostLimit _ \<Rightarrow> False))"

definition node_up :: "submit_env \<Rightarrow> route_node \<Rightarrow> js \<Rightarrow> bool" where
  "node_up env n data =
     ((\<forall>i rq. pr_url rq = rn_endpoint n @ ''/v1/task'' \<longrightarrow>
         (case sb_post env i rq of PostResponse s text \<Rightarrow> s = 200 \<and> sb_parse env text = Some data | _ \<Rightarrow> False)) \<and>
      data \<noteq> JNull \<and>
      (case rn_cx_key n of None \<Rightarrow> True | Some k \<Rightarrow> RESPONSE_ENCRYPTION \<notin> set (or_else (ck_features k) [])))"

definition can_send :: "submit_env \<Rightarrow> bool" where
  "can_send env =
     ((\<forall>idx payload key t i. sb_encrypt env idx payload key t i \<noteq> None) \<and>
      (\<forall>v. \<exists>bs. sb_stringify env v = Some bs \<and> length bs \<le> MAX_HTTP_TASK_BODY_BYTES))"

lemma encode_fits: "can_send env \<Longrightarrow> \<exists>bs. encodeTaskRequest (sb_stringify env) v = Inr bs"
proof -
  assume "can_send env"
  then obtain bs where "sb_stringify env v = Some bs" "length bs \<le> MAX_HTTP_TASK_BODY_BYTES"
    unfolding can_send_def by blast
  then show ?thesis by (simp add: encodeTaskRequest_def)
qed

lemma down_passes_over:
  assumes "can_send env" "node_down env n" "pr_url rq = rn_endpoint n @ ''/v1/task''"
  shows "passes_over (one_attempt env sealed taskId rq i)"
proof -
  obtain bs where "encodeTaskRequest (sb_stringify env) (pr_body rq) = Inr bs" using encode_fits [OF assms(1)] by blast
  then show ?thesis
    using assms(2) [unfolded node_down_def, rule_format, OF assms(3), of i]
    by (cases "sb_post env i rq")
       (auto simp: one_attempt_def post_json_def adapter_error_def refused_def passes_over_def TRANSIENT_STATUSES_def)
qed

lemma up_answers:
  assumes "can_send env" "node_up env n data" "pr_url rq = rn_endpoint n @ ''/v1/task''"
    and "\<And>sl. sealed = Some sl \<Longrightarrow> \<not> sl_require_response sl"
  shows "one_attempt env sealed taskId rq i = Inr data"
proof -
  obtain bs where "encodeTaskRequest (sb_stringify env) (pr_body rq) = Inr bs" using encode_fits [OF assms(1)] by blast
  moreover have "(case sb_post env i rq of PostResponse s text \<Rightarrow> s = 200 \<and> sb_parse env text = Some data | _ \<Rightarrow> False)"
    using assms(2,3) by (simp add: node_up_def)
  ultimately show ?thesis
    using assms(2,4)
    by (cases "sb_post env i rq"; cases sealed) (auto simp: one_attempt_def post_json_def open_response_def node_up_def)
qed

lemma prepare_plain:
  assumes "can_send env" "cf_consumer_auth_mode cfg = Some ''disabled''"
  shows "\<exists>rq sealed. prepare_candidate env cfg req None taskId idx n cache = (Inr (rq, sealed), cache) \<and>
    pr_url rq = rn_endpoint n @ ''/v1/task'' \<and>
    (node_up env n data \<longrightarrow> (\<forall>sl. sealed = Some sl \<longrightarrow> \<not> sl_require_response sl))"
proof (cases "rn_cx_key n")
  case None
  then show ?thesis
    by (simp add: prepare_candidate_def candidate_payload_def candidate_token_def candidate_body_def assms(2) present_def Let_def)
next
  case (Some key)
  obtain sealed where "sb_encrypt env idx (JObj (tr_payload req)) key taskId (tr_intent req) = Some sealed"
    using assms(1) unfolding can_send_def by blast
  then show ?thesis
    using Some
    by (cases sealed)
       (simp add: prepare_candidate_def candidate_payload_def candidate_token_def candidate_body_def assms(2) present_def
        node_up_def Let_def)
qed

lemma try_fails_over:
  assumes "can_send env" "cf_consumer_auth_mode cfg = Some ''disabled''"
    and "\<forall>m \<in> set pre. node_down env m" "node_up env n data"
  shows "\<exists>tr'. try_candidates env cfg req None taskId idx e0 (pre @ n # post) tr = (Inr (idx + length pre, n, data), tr')"
  using assms(3)
proof (induction pre arbitrary: idx e0 tr)
  case Nil
  obtain rq sealed where p: "prepare_candidate env cfg req None taskId idx n (sx_cache tr) = (Inr (rq, sealed), sx_cache tr)"
      "pr_url rq = rn_endpoint n @ ''/v1/task''" "\<forall>sl. sealed = Some sl \<longrightarrow> \<not> sl_require_response sl"
    using prepare_plain [OF assms(1,2), of req taskId idx n "sx_cache tr" data] assms(4) by blast
  have "one_attempt env sealed taskId rq i = Inr data" for i
    using up_answers [OF assms(1,4) p(2)] p(3) by blast
  then show ?case using p(1) by (simp add: MAX_RETRIES_def numeral_3_eq_3 Let_def)
next
  case (Cons m pre)
  obtain rq sealed where p: "prepare_candidate env cfg req None taskId idx m (sx_cache tr) = (Inr (rq, sealed), sx_cache tr)"
      "pr_url rq = rn_endpoint m @ ''/v1/task''"
    using prepare_plain [OF assms(1,2), of req taskId idx m "sx_cache tr" data] by blast
  have "\<forall>i. passes_over (one_attempt env sealed taskId rq i)"
    using down_passes_over [OF assms(1) _ p(2)] Cons.prems by simp
  from attempts_move_on [OF this] obtain e ps j where
    a: "attempts (one_attempt env sealed taskId rq) MAX_RETRIES 0 (length (sx_sent tr)) e0 = (MovesOn e, ps, j)" by blast
  obtain tr' where "try_candidates env cfg req None taskId (Suc idx) e (pre @ n # post)
      \<lparr>sx_cache = sx_cache tr, sx_sent = sx_sent tr @ replicate (j - length (sx_sent tr)) (m, rq), sx_pauses = sx_pauses tr @ ps\<rparr>
      = (Inr (Suc idx + length pre, n, data), tr')"
    using Cons.IH Cons.prems by (metis list.set_intros(2))
  then show ?case using p(1) a by simp
qed


section \<open>The token cache\<close>

record token_use =
  tu_now :: rat
  tu_answer :: token_answer
  tu_target :: string
  tu_intent :: string

definition use_token :: "js_runtime \<Rightarrow> client_config \<Rightarrow> token_use \<Rightarrow> token_cache \<Rightarrow> (failure + string option) \<times> token_cache" where
  "use_token rt cfg u cache = acquireConsumerToken rt cfg (tu_now u) (tu_answer u) (tu_target u) (tu_intent u) cache"

definition tokens_after :: "js_runtime \<Rightarrow> client_config \<Rightarrow> token_use list \<Rightarrow> token_cache" where
  "tokens_after rt cfg us = fold (\<lambda>u cache. snd (use_token rt cfg u cache)) us []"

text \<open>The directory issued the token in answer to this use.\<close>

definition issued_for :: "js_runtime \<Rightarrow> client_config \<Rightarrow> token_use \<Rightarrow> string \<Rightarrow> number \<Rightarrow> bool" where
  "issued_for rt cfg u tok expiry = (request_token rt cfg \<lfloor>tu_now u\<rfloor> (tu_answer u) = Inr (Some (tok, expiry)))"

definition use_key :: "client_config \<Rightarrow> token_use \<Rightarrow> string" where
  "use_key cfg u = token_cache_key (or_else (cf_node_token cfg) []) (tu_target u) (tu_intent u)"

definition tokens_issued :: "js_runtime \<Rightarrow> client_config \<Rightarrow> token_use list \<Rightarrow> token_cache \<Rightarrow> bool" where
  "tokens_issued rt cfg us cache =
     (\<forall>k tok expiry. map_of cache k = Some (tok, expiry) \<longrightarrow>
        (\<exists>v \<in> set us. use_key cfg v = k \<and> issued_for rt cfg v tok expiry))"

lemma use_token_issued:
  assumes "tokens_issued rt cfg us cache" "use_token rt cfg u cache = (res, cache')"
  shows "tokens_issued rt cfg (us @ [u]) cache' \<and>
    (\<forall>tok. res = Inr (Some tok) \<longrightarrow>
      (\<exists>expiry. issued_for rt cfg u tok expiry) \<or>
      (\<exists>v \<in> set us. \<exists>expiry. use_key cfg v = use_key cfg u \<and> issued_for rt cfg v tok expiry \<and>
         num_less (Fin (tu_now u + 30)) expiry))"
proof -
  have keep: "tokens_issued rt cfg (us @ [u]) cache" using assms(1) by (auto simp: tokens_issued_def)
  consider (none) "cache' = cache" "\<forall>tok. res \<noteq> Inr (Some tok)"
    | (cached) tok where "cache' = cache" "res = Inr (Some tok)" "cached_token cache (use_key cfg u) (tu_now u) = Some tok"
    | (fresh) tok expiry where "cache' = AList.update (use_key cfg u) (tok, expiry) cache" "res = Inr (Some tok)"
        "issued_for rt cfg u tok expiry"
    using assms(2) unfolding use_token_def acquireConsumerToken_def issued_for_def use_key_def Let_def
    by (auto split: if_splits option.splits sum.splits prod.splits)
  then show ?thesis
  proof cases
    case cached
    then obtain expiry where "map_of cache (use_key cfg u) = Some (tok, expiry)" "num_less (Fin (tu_now u + 30)) expiry"
      by (auto simp: cached_token_def CONSUMER_TOKEN_EXPIRY_BUFFER_S_def split: option.splits if_splits)
    then show ?thesis using cached keep assms(1) by (fastforce simp: tokens_issued_def)
  next
    case fresh
    then have "tokens_issued rt cfg (us @ [u]) cache'"
      using keep by (auto simp: tokens_issued_def map_of_js_set)
    then show ?thesis using fresh by auto
  qed (use keep in auto)
qed

lemma tokens_after_issued: "tokens_issued rt cfg us (tokens_after rt cfg us)"
proof (induction us rule: rev_induct)
  case (snoc u us)
  then show ?case
    using use_token_issued [OF snoc] by (simp add: tokens_after_def) (metis prod.collapse)
qed (simp add: tokens_after_def tokens_issued_def)

lemma last_bar:
  assumes "a @ c # x = b @ c # y" "c \<notin> set x" "c \<notin> set y"
  shows "a = b \<and> x = y"
proof -
  have "rev x @ c # rev a = rev y @ c # rev b" using arg_cong [OF assms(1), of rev] by simp
  moreover have t: "takeWhile (\<lambda>z. z \<noteq> c) (rev z @ c # rest) = rev z" if "c \<notin> set z" for z rest
    using that by (subst takeWhile_append2) auto
  ultimately have "rev x = rev y" using t [OF assms(2)] t [OF assms(3)] by metis
  with \<open>rev x @ c # rev a = rev y @ c # rev b\<close> show ?thesis by simp
qed

lemma valid_intent_no_bar:
  assumes "validateIntent intent = None"
  shows "CHR ''|'' \<notin> set intent"
proof -
  have i: "starts_with intent ''urn:iicp:intent:''" "list_all urn_char (drop (length ''urn:iicp:intent:'') intent)"
    using assms by (simp_all add: validateIntent_def Let_def del: list.size split: if_splits)
  from i(1) obtain r where r: "intent = ''urn:iicp:intent:'' @ r" unfolding starts_with_iff by blast
  then have "list_all urn_char r" using i(2) by simp
  moreover have "\<not> urn_char (CHR ''|'')" by (simp add: urn_char_def)
  ultimately have "CHR ''|'' \<notin> set r" unfolding list_all_iff by blast
  then show ?thesis by (simp add: r)
qed

text \<open>
  A consumer token is used only where it was issued: whatever the client acquired before, for
  whichever nodes and intents and with whatever answers of the directory, a token it hands out
  was issued by the directory for the same node and the same intent, either just now or earlier
  with more than thirty seconds left before it expires. The keys of the cache never collide.
\<close>

lemma consumer_token_issued:
  assumes "use_token rt cfg u (tokens_after rt cfg us) = (Inr (Some tok), cache')"
    and "list_all (\<lambda>v. validateIntent (tu_intent v) = None) (u # us)"
  shows "\<exists>v \<in> set (us @ [u]). \<exists>expiry. tu_target v = tu_target u \<and> tu_intent v = tu_intent u \<and>
    issued_for rt cfg v tok expiry \<and> (v = u \<or> num_less (Fin (tu_now u + 30)) expiry)"
proof -
  have same: "tu_target v = tu_target u \<and> tu_intent v = tu_intent u" if "v \<in> set us" "use_key cfg v = use_key cfg u" for v
  proof -
    have "(tu_target v) @ CHR ''|'' # tu_intent v = tu_target u @ CHR ''|'' # tu_intent u"
      using that(2) by (simp add: use_key_def token_cache_key_def)
    moreover have "CHR ''|'' \<notin> set (tu_intent v)" "CHR ''|'' \<notin> set (tu_intent u)"
      using assms(2) that(1) valid_intent_no_bar by (auto simp: list_all_iff)
    ultimately show ?thesis by (rule last_bar)
  qed
  show ?thesis
    using use_token_issued [OF tokens_after_issued assms(1)] same by fastforce
qed

lemma starts_Cons: "starts_with (c # cs) (d # ds) = (c = d \<and> starts_with cs ds)" "starts_with s []" "starts_with [] (d # ds) = False"
  by (simp_all add: starts_with_def)

lemma norm: "normalize_intent RUNTIME_IDENTITY_CHAT_INTENT = RUNTIME_IDENTITY_CHAT_INTENT"
  by (simp add: normalize_intent_def RUNTIME_IDENTITY_CHAT_INTENT_def js_trim_def js_space_def js_lower_def js_lower_char_def)

lemma nomatch: "find (rule_matches RUNTIME_IDENTITY_CHAT_INTENT) (PROHIBITED_INTENT_RULES @ HIGH_RISK_INTENT_RULES) = None"
  by (simp add: rule_matches_def RUNTIME_IDENTITY_CHAT_INTENT_def PROHIBITED_INTENT_RULES_def HIGH_RISK_INTENT_RULES_def starts_Cons)

lemma chat_intent_valid: "validateIntent RUNTIME_IDENTITY_CHAT_INTENT = None"
proof -
  have "ensureIntentAllowed RUNTIME_IDENTITY_CHAT_INTENT = None"
    by (simp add: ensureIntentAllowed_def norm nomatch Let_def)
  then show ?thesis
    by (simp add: validateIntent_def RUNTIME_IDENTITY_CHAT_INTENT_def starts_with_def urn_char_def Let_def)
qed

lemma consumer_token_issued_example:
  "\<exists>v \<in> set ([] @ [\<lparr>tu_now = 0, tu_answer = TokenAnswer 201 (Some (JObj [(''token'', JStr ''t'')])), tu_target = ''n'',
      tu_intent = RUNTIME_IDENTITY_CHAT_INTENT\<rparr>]). tu_target v = ''n''"
proof -
  let ?cfg = "sample_client\<lparr>cf_node_token := Some ''me''\<rparr>"
  let ?rt = "\<lparr>rt_string = \<lambda>_. [], rt_number = \<lambda>_. NaN\<rparr>"
  let ?u = "\<lparr>tu_now = 0, tu_answer = TokenAnswer 201 (Some (JObj [(''token'', JStr ''t'')])), tu_target = ''n'',
      tu_intent = RUNTIME_IDENTITY_CHAT_INTENT\<rparr>"
  have "use_token ?rt ?cfg ?u (tokens_after ?rt ?cfg []) =
      (Inr (Some ''t''), [(token_cache_key ''me'' ''n'' RUNTIME_IDENTITY_CHAT_INTENT, (''t'', Fin 0))])"
    by (simp add: use_token_def tokens_after_def acquireConsumerToken_def cached_token_def request_token_def read_token_def
        sample_client_def eligibility_of_answer_def Let_def)
  moreover have "list_all (\<lambda>v. validateIntent (tu_intent v) = None) [?u]"
    using chat_intent_valid by simp
  ultimately show ?thesis using consumer_token_issued [of ?rt ?cfg ?u "[]"] by simp
qed

section \<open>Examples\<close>

text \<open>A chat request through the sample directory: the first request is refused for the moment, the second answered.\<close>

definition sample_answer :: js where
  "sample_answer = JObj [(''status'', JStr ''success''), (''result'', JObj [(''choices'',
     JArr [JObj [(''message'', JObj [(''role'', JStr ''assistant''), (''content'', JStr ''done'')])]])])]"

definition sample_submit :: submit_env where
  "sample_submit = \<lparr>sb_runtime = \<lparr>rt_string = \<lambda>_. [], rt_number = \<lambda>_. NaN\<rparr>,
     sb_parse = \<lambda>t. if t = ''yes'' then Some sample_answer else None,
     sb_stringify = \<lambda>_. Some [],
     sb_post = \<lambda>i _. if i = 0 then PostResponse 503 [] else PostResponse 200 ''yes'',
     sb_encrypt = \<lambda>_ _ _ _ _. Some (JStr ''sealed'', ''secret''), sb_decrypt = \<lambda>_ _ _. None,
     sb_now = \<lambda>_. 0, sb_token = \<lambda>_ _ _. NoToken, sb_sdk_version = ''1'', sb_allow_plaintext = None, sb_exp = \<lambda>_. 1,
     sb_random1 = 0, sb_random2 = 0, sb_uuid = ''task-1'', sb_sha256 = \<lambda>_. [], sb_ranker = None,
     sb_catalogue = GetFailed, sb_catalogue_now = 0\<rparr>"

definition plain_task :: "(string \<times> js) list \<Rightarrow> task_constraints option \<Rightarrow> client_task" where
  "plain_task payload limits =
     \<lparr>tr_intent = RUNTIME_IDENTITY_CHAT_INTENT, tr_payload = payload, tr_constraints = limits, tr_route_constraints = None, tr_auth_token = None, tr_task_id = None, tr_source_node_id = None,
     tr_routing_policy = None\<rparr>"

definition sample_request :: client_task where
  "sample_request = plain_task [] None"

definition sample_state :: client_state where
  "sample_state = \<lparr>ct_ticket_key = None, ct_tokens = []\<rparr>"

lemma sample_eligible: "eligible_nodes sample_submit sample_client (plain_task p c) [sample_node] = Inr [sample_node]"
proof -
  have pol: "resolvedRoutingPolicy None = \<lparr>ep_profile = ''standard'', ep_allowed_regions = [], ep_require_encryption = True,
       ep_require_policy_manifest = False, ep_require_no_payload_retention = False, ep_allow_remote_executor = True,
       ep_known_operator_only = False, ep_required_manifest_identity_level = None\<rparr>"
    by (simp add: resolvedRoutingPolicy_def empty_policy_def normalizeProfile_def replace_char_def js_lower_def
        js_lower_char_def profileDefaults_def Let_def)
  have "request_policy sample_client (plain_task p c) = resolvedRoutingPolicy None"
    by (simp add: request_policy_def sample_client_def plain_task_def first_some_def)
  moreover have "meets_policy (resolvedRoutingPolicy None) d sample_node" for d
    by (simp add: pol meets_policy_def required_level_def sample_node_def cx_value_def)
  ultimately show ?thesis by (subst eligible_intro) simp_all
qed

lemma sample_found:
  "\<exists>key. find_nodes sample_submit sample_directory sample_client RUNTIME_IDENTITY_CHAT_INTENT opts None =
     (Inr ([(sample_node, None)], JUndef), key)"
proof -
  have m: "cf_route_discovery_mode sample_client \<noteq> Some ''legacy''" "cf_profile_request sample_client = None"
    by (simp_all add: sample_client_def)
  obtain sent where "ticketedCandidates sample_directory sample_client RUNTIME_IDENTITY_CHAT_INTENT opts None =
      (Inr [(sample_node, None)], Some ''k'', sent)"
    using sample_ticketed [of opts] unfolding RUNTIME_IDENTITY_CHAT_INTENT_def by blast
  then show ?thesis by (simp add: find_nodes_def m)
qed

lemma sample_candidates:
  "rank_candidates sample_submit sample_client i [sample_node] = Inr ([sample_node], None)"
  by (simp add: rank_candidates_def sample_submit_def selectCandidates_def Let_def MAX_RETRIES_def)

lemma sample_prepared:
  "\<exists>rq. prepare_candidate sample_submit sample_client (plain_task p c) None i 0 sample_node [] =
     (Inr (rq, Some \<lparr>sl_secret = ''secret'', sl_require_response = False\<rparr>), [])"
  by (simp add: prepare_candidate_def candidate_payload_def candidate_token_def candidate_body_def sample_client_def
      sample_submit_def sample_node_def sample_key_def present_def Let_def)

lemma sample_attempts:
  "one_attempt sample_submit (Some \<lparr>sl_secret = ''secret'', sl_require_response = False\<rparr>) i rq 0 =
     Inl (adapter_error ''SDK-05'' (Some 503))"
  "one_attempt sample_submit (Some \<lparr>sl_secret = ''secret'', sl_require_response = False\<rparr>) i rq (Suc 0) =
     Inr sample_answer"
  by (simp_all add: one_attempt_def post_json_def open_response_def encodeTaskRequest_def response_error_code_def
      sample_submit_def sample_answer_def)

lemma sample_submission:
  "\<exists>resp tr st'. submitInternal sample_submit sample_directory sample_client (plain_task p c) None sample_state =
     (Inr resp, tr, st') \<and> ts_result resp = own_property sample_answer ''result'' \<and>
     ts_status resp = ''success'' \<and> length (sx_sent tr) = 2 \<and> sx_pauses tr = [200]"
proof -
  let ?i = "or_else (tr_task_id (plain_task p c)) (sb_uuid sample_submit)"
  let ?opts = "projectRouteOptions (tr_route_constraints (plain_task p c)) (tr_constraints (plain_task p c)) sample_client"
  have intent: "tr_intent (plain_task p c) = RUNTIME_IDENTITY_CHAT_INTENT" by (simp add: plain_task_def)
  obtain key where f: "find_nodes sample_submit sample_directory sample_client RUNTIME_IDENTITY_CHAT_INTENT ?opts None =
      (Inr ([(sample_node, None)], JUndef), key)" using sample_found by blast
  obtain rq where rq: "prepare_candidate sample_submit sample_client (plain_task p c) None ?i 0 sample_node [] =
      (Inr (rq, Some \<lparr>sl_secret = ''secret'', sl_require_response = False\<rparr>), [])" using sample_prepared by blast
  have "attempts (one_attempt sample_submit (Some \<lparr>sl_secret = ''secret'', sl_require_response = False\<rparr>) ?i rq) MAX_RETRIES 0 0 None =
      (Answered sample_answer, [200], 2)"
    by (simp add: MAX_RETRIES_def numeral_3_eq_3 sample_attempts adapter_error_def TRANSIENT_STATUSES_def)
  then show ?thesis
    by (simp add: submitInternal_def Let_def intent chat_intent_valid f sample_state_def dispatch_task_def sample_eligible
        sample_candidates rq response_of_def sample_answer_def)
qed


theorem submission_retries_only_failures_witness:
  "\<exists>resp tr st'. submitInternal sample_submit sample_directory sample_client sample_request None sample_state =
     (Inr resp, tr, st') \<and> length (sx_sent tr) = 2 \<and>
     answered_with sample_submit sample_client sample_request None (request_task_id sample_submit sample_request)
       (sx_sent tr) 0 passes_over"
proof -
  obtain resp tr st' where r: "submitInternal sample_submit sample_directory sample_client sample_request None sample_state =
     (Inr resp, tr, st')" "length (sx_sent tr) = 2"
    using sample_submission [of "[]" None] by (auto simp: sample_request_def)
  have "0 \<le> sb_random2 sample_submit" "sb_random2 sample_submit < 1" by (simp_all add: sample_submit_def)
  from submission_retries_only_failures [OF r(1) this] r show ?thesis by (simp add: Let_def)
qed

text \<open>The same directory's node answers at once; a node before it in the catalogue is never reached.\<close>

definition sample_dead :: route_node where
  "sample_dead = sample_node\<lparr>node_id := ''node-b'', rn_endpoint := ''https://dead.example''\<rparr>"

definition sample_outage :: submit_env where
  "sample_outage = sample_submit\<lparr>sb_post := \<lambda>_ rq.
     if pr_url rq = ''https://h.example/v1/task'' then PostResponse 200 ''yes'' else PostFailed\<rparr>"


end
