(* ===== verification/Gateway.thy ===== *)
theory Gateway imports Submission begin

text \<open>
  The local gateway: \<open>src/proxy/index.ts\<close>, which answers the chat requests of three dialects by
  tasks on the mesh, and \<open>src/proxy/cip.ts\<close>, the gates of cooperative inference that it applies
  before. The client it uses is a parameter with a state of its own; the client of \<open>Submission\<close>
  is put in at the end. The sockets are left out: a request is its method, its path and the text
  of its body, a reply its status, its headers and its body.
\<close>

section \<open>The gates of cooperative inference\<close>

definition VALID_CIP_POLICIES :: "string list" where
  "VALID_CIP_POLICIES = [''best_of_n'', ''majority_vote'', ''map_reduce'']"

record cip_config =
  cp_enabled :: bool
  cp_strategy :: string
  cp_maxCreditsPerTask :: number
  cp_sessionCreditBudget :: "number option"
  cp_sendSensitivePrompts :: bool
  cp_trustedPeers :: "string list"
  cp_minReputation :: number

definition int_between :: "js \<Rightarrow> int \<Rightarrow> int option \<Rightarrow> bool" where
  \<comment> \<open>\<open>Number.isInteger(v)\<close> within the bounds\<close>
  "int_between v lo hi =
     (is_integer_number v \<and> \<not> num_less (js_number v) (Fin (of_int lo)) \<and>
      (case hi of None \<Rightarrow> True | Some h \<Rightarrow> \<not> num_less (Fin (of_int h)) (js_number v)))"

definition even_number :: "js \<Rightarrow> bool" where
  "even_number v = (case v of JNum (Fin q) \<Rightarrow> of_int \<lfloor>q\<rfloor> = q \<and> even \<lfloor>q\<rfloor> | _ \<Rightarrow> False)"

definition cip_field_guards :: "js_runtime \<Rightarrow> js \<Rightarrow> (bool \<times> string) list" where
  "cip_field_guards rt c =
     (let policy = own_property c ''policy''; replicas = own_property c ''replicas''; quorum = own_property c ''quorum'';
          effReplicas = (if is_integer_number replicas then js_number replicas else Fin 1)
      in [(\<not> nullish policy \<and> String_of rt policy \<notin> set VALID_CIP_POLICIES, ''IICP-E028''),
          (\<not> nullish replicas \<and> \<not> int_between replicas 1 (Some 10), ''IICP-E028''),
          (\<not> nullish replicas \<and> policy = JStr ''majority_vote'' \<and> even_number replicas, ''IICP-E025''),
          (\<not> nullish quorum \<and> \<not> int_between quorum 1 None, ''IICP-E028''),
          (\<not> nullish quorum \<and> num_less effReplicas (js_number quorum), ''IICP-E028'')])"

definition validateCipRequestFields :: "js_runtime \<Rightarrow> js \<Rightarrow> string option" where
  "validateCipRequestFields rt body =
     (let cip = own_property body ''cip'' in
      case cip of JObj _ \<Rightarrow> first_failure (cip_field_guards rt cip) | _ \<Rightarrow> None)"

datatype dispatch_decision = DispatchLocal | DispatchRemote string | DispatchError string

definition blockedRemote :: "cip_config \<Rightarrow> string \<Rightarrow> dispatch_decision" where
  "blockedRemote config errorCode =
     (if cp_strategy config = ''local-first'' then DispatchLocal else DispatchError errorCode)"

record dispatch_args =
  da_estimatedCredits :: rat
  da_sensitivity :: js
  da_eligibleWorkers :: "string list"
  da_replicas :: number
  da_consumerBalance :: js
  da_sessionSpent :: rat

definition needed_workers :: "number \<Rightarrow> number" where
  \<comment> \<open>\<open>Math.max(replicas, 1)\<close>\<close>
  "needed_workers n = (case n of Fin q \<Rightarrow> Fin (max q 1) | NaN \<Rightarrow> NaN | PosInfinity \<Rightarrow> PosInfinity | NegInfinity \<Rightarrow> Fin 1)"

definition decideDispatch :: "js_runtime \<Rightarrow> cip_config \<Rightarrow> dispatch_args \<Rightarrow> string \<Rightarrow> dispatch_decision" where
  \<comment> \<open>the last argument is the random part of the session key\<close>
  "decideDispatch rt config args random =
     (let credits = Fin (da_estimatedCredits args) in
      if \<not> cp_enabled config then DispatchLocal
      else if num_less (cp_maxCreditsPerTask config) credits then DispatchLocal
      else if (case cp_sessionCreditBudget config of
                 None \<Rightarrow> False | Some b \<Rightarrow> num_less b (Fin (da_sessionSpent args + da_estimatedCredits args)))
      then DispatchLocal
      else if \<not> nullish (da_consumerBalance args) \<and> num_less (Number_of rt (da_consumerBalance args)) credits
      then blockedRemote config ''IICP-E036''
      else if da_sensitivity args = JStr ''high'' \<and> \<not> cp_sendSensitivePrompts config then DispatchLocal
      else if num_less (Fin (of_nat (length (da_eligibleWorkers args)))) (needed_workers (da_replicas args))
      then (if cp_strategy config = ''local-first'' then DispatchLocal else DispatchError ''IICP-E022'')
      else DispatchRemote (''cip-sess-'' @ String_of rt (jrat (da_estimatedCredits args)) @ ''-'' @ random))"

definition buildCipEnvelope :: "dispatch_decision \<Rightarrow> string \<Rightarrow> (string \<times> js) list option" where
  "buildCipEnvelope decision parentTaskId =
     (case decision of
        DispatchRemote key \<Rightarrow>
          if key = [] then None
          else Some [(''cip_role'', JStr ''worker''), (''cip_session_key'', JStr key), (''cip_parent_task_id'', JStr parentTaskId)]
      | _ \<Rightarrow> None)"

text \<open>What a node shows to the gates: its id, whether it takes remote inference, its reputation.\<close>

record cip_node =
  cn_node_id :: "string option"
  cn_allow_remote_inference :: js
  cn_reputation_score :: js

definition cip_eligible :: "js_runtime \<Rightarrow> cip_config \<Rightarrow> cip_node list \<Rightarrow> string list" where
  "cip_eligible rt config nodes =
     (let eligible = map (\<lambda>n. the (cn_node_id n))
            (filter (\<lambda>n. truthy (cn_allow_remote_inference n) \<and> present (cn_node_id n) \<and>
               num_le (cp_minReputation config) (Number_of rt (coalesce (cn_reputation_score n) (jint 0)))) nodes)
      in if cp_trustedPeers config \<noteq> [] then filter (\<lambda>i. i \<in> set (cp_trustedPeers config)) eligible else eligible)"

definition requested_replicas :: "js_runtime \<Rightarrow> js \<Rightarrow> number" where
  "requested_replicas rt body =
     (let cip = own_property body ''cip'' in
      if is_object cip then Number_of rt (coalesce (own_property cip ''replicas'') (jint 1)) else Fin 1)"

text \<open>\<open>Inl\<close> is the code of the error thrown.\<close>

definition computeCipEnvelope ::
  "js_runtime \<Rightarrow> cip_config \<Rightarrow> cip_node list \<Rightarrow> js \<Rightarrow> string \<Rightarrow> string \<Rightarrow> string + (string \<times> js) list option" where
  "computeCipEnvelope rt config nodes body taskId random =
     (if \<not> cp_enabled config \<or> own_property body ''qos'' = JStr ''realtime'' then Inr None
      else if validateCipRequestFields rt body \<noteq> None then Inr None
      else
        let decision = decideDispatch rt config
              \<lparr>da_estimatedCredits = 1, da_sensitivity = own_property body ''sensitivity'',
               da_eligibleWorkers = cip_eligible rt config nodes, da_replicas = requested_replicas rt body,
               da_consumerBalance = coalesce (own_property (own_property body ''billing'') ''consumer_balance'') JNull,
               da_sessionSpent = 0\<rparr> random
        in (case decision of DispatchError c \<Rightarrow> Inl c | _ \<Rightarrow> Inr (buildCipEnvelope decision taskId)))"

text \<open>The configuration; \<open>toNumber\<close> is \<open>Number\<close> on a text.\<close>

definition number_or :: "(string \<Rightarrow> number) \<Rightarrow> string option \<Rightarrow> rat \<Rightarrow> number" where
  \<comment> \<open>\<open>Number(v ?? d) || d\<close>\<close>
  "number_or toNumber v d =
     (case v of
        None \<Rightarrow> Fin d
      | Some t \<Rightarrow> if toNumber t = NaN \<or> toNumber t = Fin 0 then Fin d else toNumber t)"

definition cipConfigFromEnv :: "(string \<Rightarrow> number) \<Rightarrow> (string \<Rightarrow> string option) \<Rightarrow> cip_config" where
  "cipConfigFromEnv toNumber env =
     (let strat = js_trim (or_else (env ''IICP_PROXY_CIP_STRATEGY'') ''local-first'') in
      \<lparr>cp_enabled = privateEndpointsAllowed (env ''IICP_PROXY_CIP_ENABLED''),
       cp_strategy = (if strat \<in> set [''local-first'', ''remote-first'', ''balanced''] then strat else ''local-first''),
       cp_maxCreditsPerTask = number_or toNumber (env ''IICP_PROXY_CIP_MAX_CREDITS_PER_TASK'') 10,
       cp_sessionCreditBudget =
         (case env ''IICP_PROXY_CIP_SESSION_CREDIT_BUDGET'' of
            None \<Rightarrow> None | Some t \<Rightarrow> if t = [] then None else Some (toNumber t)),
       cp_sendSensitivePrompts = privateEndpointsAllowed (env ''IICP_PROXY_CIP_SEND_SENSITIVE_PROMPTS''),
       cp_trustedPeers = filter (\<lambda>s. s \<noteq> [])
         (map js_trim (split_on (CHR '','') (or_else (env ''IICP_PROXY_CIP_TRUSTED_PEERS'') []))),
       cp_minReputation = number_or toNumber (env ''IICP_PROXY_CIP_MIN_REPUTATION'') 0\<rparr>)"

section \<open>Translators\<close>

record node_reply =
  tp_status :: string
  tp_result :: js
  tp_error_code :: "string option"

definition reply_result :: "node_reply \<Rightarrow> js" where
  "reply_result resp = coalesce (tp_result resp) (JObj [])"

definition firstMessage :: "node_reply \<Rightarrow> js \<times> js" where
  \<comment> \<open>the role and the content\<close>
  "firstMessage resp =
     (let choices = coalesce (own_property (reply_result resp) ''choices'') (JArr [JObj []]);
          msg = coalesce (own_property (numeric_property choices 0) ''message'') (JObj [])
      in (coalesce (own_property msg ''role'') (JStr ''assistant''), coalesce (own_property msg ''content'') (JStr [])))"

definition usageOf :: "node_reply \<Rightarrow> js" where
  "usageOf resp = coalesce (own_property (reply_result resp) ''usage'') (JObj [])"

definition toOpenAI :: "int \<Rightarrow> node_reply \<Rightarrow> js \<Rightarrow> js" where
  "toOpenAI now resp model =
     (case firstMessage resp of (role, content) \<Rightarrow>
        JObj [(''id'', JStr ''chatcmpl-iicp''), (''object'', JStr ''chat.completion''), (''created'', jint now),
          (''model'', model),
          (''choices'', JArr [JObj [(''index'', jint 0),
             (''message'', JObj [(''role'', role), (''content'', content)]), (''finish_reason'', JStr ''stop'')]]),
          (''usage'', usageOf resp)])"

definition toOllama :: "string \<Rightarrow> node_reply \<Rightarrow> js \<Rightarrow> js" where
  "toOllama created resp model =
     (case firstMessage resp of (role, content) \<Rightarrow>
        JObj [(''model'', model), (''created_at'', JStr created),
          (''message'', JObj [(''role'', role), (''content'', content)]), (''done'', JBool True),
          (''done_reason'', JStr ''stop'')])"

definition toOllamaGenerate :: "string \<Rightarrow> node_reply \<Rightarrow> js \<Rightarrow> js" where
  "toOllamaGenerate created resp model =
     JObj [(''model'', model), (''created_at'', JStr created), (''response'', snd (firstMessage resp)), (''done'', JBool True),
       (''done_reason'', JStr ''stop'')]"

definition toAnthropic :: "node_reply \<Rightarrow> js \<Rightarrow> string \<Rightarrow> js" where
  "toAnthropic resp model taskId =
     JObj [(''id'', JStr (''msg_'' @ (if taskId = [] then ''iicp'' else taskId))), (''type'', JStr ''message''),
       (''role'', JStr ''assistant''), (''model'', model),
       (''content'', JArr [JObj [(''type'', JStr ''text''), (''text'', snd (firstMessage resp))]]),
       (''stop_reason'', JStr ''end_turn''), (''usage'', usageOf resp)]"

definition openaiErr :: "string \<Rightarrow> string \<Rightarrow> js" where
  "openaiErr code message = JObj [(''error'', JObj [(''code'', JStr code), (''message'', JStr message)])]"

definition ollamaErr :: "string \<Rightarrow> string \<Rightarrow> js" where
  "ollamaErr code message = JObj [(''error'', JStr (code @ '': '' @ message))]"

definition anthropicErr :: "string \<Rightarrow> string \<Rightarrow> js" where
  "anthropicErr code message =
     JObj [(''type'', JStr ''error''),
       (''error'', JObj [(''type'', JStr ''api_error''), (''message'', JStr (code @ '': '' @ message))])]"

section \<open>One chat task\<close>

text \<open>
  What the gateway uses: \<open>gw_submit\<close> submits a payload and \<open>gw_discover\<close> finds nodes, both on the
  client's state; the clock in milliseconds and the random texts.
\<close>

record 's gateway_env =
  gw_runtime :: js_runtime
  gw_cip :: cip_config
  gw_submit :: "js \<Rightarrow> 's \<Rightarrow> (failure + node_reply) \<times> 's"
  gw_discover :: "'s \<Rightarrow> (failure + cip_node list) \<times> 's"
  gw_now_ms :: nat
  gw_random :: string
  gw_iso :: string
  gw_parse :: "string \<Rightarrow> js option"

datatype chat_outcome = ChatOk node_reply | ChatError nat string

definition failure_outcome :: "failure \<Rightarrow> chat_outcome" where
  "failure_outcome e =
     (case e of
        Refused err \<Rightarrow> if ie_code err = ''SDK-03'' then ChatError 502 ''IICP-E033'' else ChatError 502 (ie_code err)
      | _ \<Rightarrow> ChatError 500 ''proxy_error'')"

definition cip_error_status :: "string \<Rightarrow> nat" where
  "cip_error_status code = (if code = ''IICP-E036'' then 402 else 503)"

definition submit_chat :: "'s gateway_env \<Rightarrow> js \<Rightarrow> js \<Rightarrow> (string \<times> js) list \<Rightarrow> 's \<Rightarrow> chat_outcome \<times> 's" where
  "submit_chat env messages model extra s =
     (case gw_submit env (JObj (spread [(''messages'', messages), (''model'', model)] (JObj extra))) s of
        (Inl e, s') \<Rightarrow> (failure_outcome e, s')
      | (Inr resp, s') \<Rightarrow>
          (if tp_status resp \<noteq> ''success'' \<and> tp_status resp \<noteq> ''completed''
           then ChatError 502 (or_else (tp_error_code resp) ''proxy_error'') else ChatOk resp, s'))"

definition with_envelope :: "(string \<times> js) list \<Rightarrow> (string \<times> js) list option \<Rightarrow> (string \<times> js) list" where
  "with_envelope extra envelope =
     (case envelope of
        None \<Rightarrow> extra
      | Some e \<Rightarrow>
          AList.update ''cip'' (JObj (spread (spread [] (coalesce (own_property (JObj extra) ''cip'') (JObj []))) (JObj e))) extra)"

definition runChatTask ::
  "'s gateway_env \<Rightarrow> js \<Rightarrow> js \<Rightarrow> (string \<times> js) list \<Rightarrow> js \<Rightarrow> 's \<Rightarrow> chat_outcome \<times> 's" where
  "runChatTask env messages model extra body s =
     (if \<not> cp_enabled (gw_cip env) then submit_chat env messages model extra s
      else (case gw_discover env s of
          (Inl e, s') \<Rightarrow> (failure_outcome e, s')
        | (Inr nodes, s') \<Rightarrow>
            (case computeCipEnvelope (gw_runtime env) (gw_cip env) nodes body
                    (''cip-'' @ digits (gw_now_ms env)) (gw_random env) of
               Inl code \<Rightarrow> (ChatError (cip_error_status code) code, s')
             | Inr envelope \<Rightarrow> submit_chat env messages model (with_envelope extra envelope) s')))"

section \<open>Requests and replies\<close>

datatype reply_body = JsonBody js | LineBody js | EventBody "(string \<times> js) list" | TextBody string

record http_reply =
  hr_status :: nat
  hr_generated_by_ai :: bool
  hr_body :: reply_body

definition json_reply :: "nat \<Rightarrow> js \<Rightarrow> bool \<Rightarrow> http_reply" where
  "json_reply status body ai = \<lparr>hr_status = status, hr_generated_by_ai = ai, hr_body = JsonBody body\<rparr>"

definition read_body :: "'s gateway_env \<Rightarrow> string \<Rightarrow> js option" where
  \<comment> \<open>\<open>None\<close> when the text is no JSON\<close>
  "read_body env raw = (if raw = [] then Some (JObj []) else gw_parse env raw)"

definition messagesOf :: "js \<Rightarrow> js" where
  "messagesOf body = coalesce (own_property body ''messages'') (JArr [])"

definition extraOf :: "js \<Rightarrow> (string \<times> js) list" where
  "extraOf body =
     List.map_filter (\<lambda>k. if own_property body k = JUndef then None else Some (k, own_property body k))
       [''temperature'', ''max_tokens'', ''cip'', ''billing'', ''qos'']"

definition errMsg :: "nat \<Rightarrow> string" where
  "errMsg status =
     (if status = 402 then ''Insufficient credits'' else if status = 503 then ''No eligible workers''
      else if status = 502 then ''Upstream error'' else ''Internal proxy error'')"

definition modelOf :: "js \<Rightarrow> js" where
  "modelOf body = coalesce (own_property body ''model'') (JStr ''iicp'')"

text \<open>The handlers, for a body that is neither \<open>null\<close> nor missing; on \<open>null\<close> they throw.\<close>

definition handleOpenAIChat :: "'s gateway_env \<Rightarrow> js \<Rightarrow> 's \<Rightarrow> http_reply \<times> 's" where
  "handleOpenAIChat env body s =
     (case runChatTask env (messagesOf body) (modelOf body) (extraOf body) body s of
        (ChatError status code, s') \<Rightarrow> (json_reply status (openaiErr code (errMsg status)) False, s')
      | (ChatOk resp, s') \<Rightarrow> (json_reply 200 (toOpenAI (int (gw_now_ms env div 1000)) resp (modelOf body)) True, s'))"

definition ollama_messages :: "js_runtime \<Rightarrow> bool \<Rightarrow> js \<Rightarrow> js" where
  "ollama_messages rt generate body =
     (if generate
      then JArr [JObj [(''role'', JStr ''user''),
             (''content'', JStr (String_of rt (coalesce (own_property body ''prompt'') (JStr []))))]]
      else messagesOf body)"

definition handleOllamaChat :: "'s gateway_env \<Rightarrow> bool \<Rightarrow> js \<Rightarrow> 's \<Rightarrow> http_reply \<times> 's" where
  "handleOllamaChat env generate body s =
     (let stream = (if own_property body ''stream'' = JUndef then True else truthy (own_property body ''stream'')) in
      case runChatTask env (ollama_messages (gw_runtime env) generate body) (modelOf body) (extraOf body) body s of
        (ChatError status code, s') \<Rightarrow> (json_reply status (ollamaErr code (errMsg status)) False, s')
      | (ChatOk resp, s') \<Rightarrow>
          let payload = (if generate then toOllamaGenerate (gw_iso env) resp (modelOf body)
                         else toOllama (gw_iso env) resp (modelOf body))
          in (if stream then \<lparr>hr_status = 200, hr_generated_by_ai = True, hr_body = LineBody payload\<rparr>
              else json_reply 200 payload True, s'))"

definition anthropic_events :: "js \<Rightarrow> js \<Rightarrow> (string \<times> js) list" where
  "anthropic_events msg text =
     [(''message_start'', JObj [(''type'', JStr ''message_start''), (''message'', msg)]),
      (''content_block_start'', JObj [(''type'', JStr ''content_block_start''), (''index'', jint 0),
         (''content_block'', JObj [(''type'', JStr ''text''), (''text'', JStr [])])]),
      (''content_block_delta'', JObj [(''type'', JStr ''content_block_delta''), (''index'', jint 0),
         (''delta'', JObj [(''type'', JStr ''text_delta''), (''text'', text)])]),
      (''content_block_stop'', JObj [(''type'', JStr ''content_block_stop''), (''index'', jint 0)]),
      (''message_delta'', JObj [(''type'', JStr ''message_delta''),
         (''delta'', JObj [(''stop_reason'', JStr ''end_turn'')])]),
      (''message_stop'', JObj [(''type'', JStr ''message_stop'')])]"

definition handleAnthropicMessages :: "'s gateway_env \<Rightarrow> js \<Rightarrow> 's \<Rightarrow> http_reply \<times> 's" where
  "handleAnthropicMessages env body s =
     (case runChatTask env (messagesOf body) (modelOf body) (extraOf body) body s of
        (ChatError status code, s') \<Rightarrow> (json_reply status (anthropicErr code (errMsg status)) False, s')
      | (ChatOk resp, s') \<Rightarrow>
          let msg = toAnthropic resp (modelOf body) ''iicp'' in
          (if truthy (own_property body ''stream'')
           then \<lparr>hr_status = 200, hr_generated_by_ai = True, hr_body = EventBody (anthropic_events msg (snd (firstMessage resp)))\<rparr>
           else json_reply 200 msg True, s'))"

definition MODELS_LIST :: js where
  "MODELS_LIST = JObj [(''object'', JStr ''list''), (''data'', JArr [JObj [(''id'', JStr ''iicp''), (''object'', JStr ''model''),
     (''created'', jint 1700000000), (''owned_by'', JStr ''iicp'')]])]"

definition OLLAMA_TAGS :: js where
  "OLLAMA_TAGS = JObj [(''models'', JArr [JObj [(''name'', JStr ''iicp''), (''model'', JStr ''iicp''), (''modified_at'', JStr []),
     (''size'', jint 0), (''digest'', JStr [])]])]"

definition proxy_failure :: http_reply where
  "proxy_failure = json_reply 500 (openaiErr ''proxy_error'' ''Internal proxy error'') False"

definition chat_handler :: "'s gateway_env \<Rightarrow> string \<Rightarrow> (js \<Rightarrow> 's \<Rightarrow> http_reply \<times> 's) option" where
  "chat_handler env route =
     (if route = ''POST /v1/chat/completions'' then Some (handleOpenAIChat env)
      else if route = ''POST /api/chat'' then Some (handleOllamaChat env False)
      else if route = ''POST /api/generate'' then Some (handleOllamaChat env True)
      else if route = ''POST /v1/messages'' then Some (handleAnthropicMessages env)
      else None)"

definition static_reply :: "string \<Rightarrow> http_reply" where
  "static_reply route =
     (if route = ''GET /api/tags'' then json_reply 200 OLLAMA_TAGS False
      else if route = ''GET /api/version'' then json_reply 200 (JObj [(''version'', JStr ''0.1.0'')]) False
      else if route = ''GET /v1/models'' then json_reply 200 MODELS_LIST False
      else if route = ''GET /status'' then json_reply 200 (JObj [(''status'', JStr ''ok''), (''role'', JStr ''proxy'')]) False
      else if route = ''GET /metrics''
      then \<lparr>hr_status = 200, hr_generated_by_ai = False, hr_body = TextBody (''# iicp-proxy metrics'' @ [newline])\<rparr>
      else json_reply 404 (openaiErr ''not_found'' (''no route for '' @ route)) False)"

definition proxy_request :: "'s gateway_env \<Rightarrow> string \<Rightarrow> string \<Rightarrow> string \<Rightarrow> 's \<Rightarrow> http_reply \<times> 's" where
  "proxy_request env meth url raw s =
     (let route = meth @ '' '' @ hd (split_on (CHR ''?'') url) in
      case chat_handler env route of
        None \<Rightarrow> (static_reply route, s)
      | Some handler \<Rightarrow>
          (case read_body env raw of
             None \<Rightarrow> (proxy_failure, s)
           | Some body \<Rightarrow> if body = JNull then (proxy_failure, s) else handler body s))"

section \<open>The gateway on the mesh client\<close>

text \<open>
  \<open>runProxy\<close> gives the gateway an \<open>IicpClient\<close>. Its state is the client's together with the
  requests it has sent. A node as the client keeps it carries no \<open>allow_remote_inference\<close>.
\<close>

type_synonym mesh_state = "client_state \<times> (route_node \<times> post_request) list"

definition gateway_task :: "js \<Rightarrow> client_task" where
  "gateway_task payload =
     \<lparr>tr_intent = RUNTIME_IDENTITY_CHAT_INTENT, tr_payload = spread [] payload,
      tr_constraints = Some (empty_constraints\<lparr>tk_timeout_ms := Some 30000\<rparr>), tr_route_constraints = None,
      tr_auth_token = None, tr_task_id = None, tr_source_node_id = None, tr_routing_policy = None\<rparr>"

definition client_reply :: "task_response \<Rightarrow> node_reply" where
  "client_reply resp = \<lparr>tp_status = ts_status resp, tp_result = ts_result resp, tp_error_code = None\<rparr>"

definition mesh_submit ::
  "submit_env \<Rightarrow> directory_env \<Rightarrow> client_config \<Rightarrow> js \<Rightarrow> mesh_state \<Rightarrow> (failure + node_reply) \<times> mesh_state" where
  "mesh_submit env denv cfg payload s =
     (case submitInternal env denv cfg (gateway_task payload) None (fst s) of
        (res, tr, st) \<Rightarrow> (map_sum id client_reply res, (st, snd s @ sx_sent tr)))"

definition cip_view :: "route_node \<Rightarrow> cip_node" where
  "cip_view n = \<lparr>cn_node_id = Some (node_id n), cn_allow_remote_inference = JUndef,
     cn_reputation_score = rn_reputation_score n\<rparr>"

definition mesh_discover ::
  "submit_env \<Rightarrow> directory_env \<Rightarrow> client_config \<Rightarrow> mesh_state \<Rightarrow> (failure + cip_node list) \<times> mesh_state" where
  "mesh_discover env denv cfg s =
     (case discoverWithNegotiation denv cfg empty_options (sb_catalogue env) (sb_catalogue_now env) of
        Inl e \<Rightarrow> (Inl e, s)
      | Inr r \<Rightarrow> (Inr (map (\<lambda>c. cip_view (fst c)) (dr_nodes r)), s))"

definition mesh_gateway ::
  "cip_config \<Rightarrow> submit_env \<Rightarrow> directory_env \<Rightarrow> client_config \<Rightarrow> nat \<Rightarrow> string \<Rightarrow> mesh_state gateway_env" where
  "mesh_gateway cip env denv cfg now_ms created =
     \<lparr>gw_runtime = sb_runtime env, gw_cip = cip, gw_submit = mesh_submit env denv cfg,
      gw_discover = mesh_discover env denv cfg, gw_now_ms = now_ms, gw_random = sb_uuid env, gw_iso = created,
      gw_parse = sb_parse env\<rparr>"

end
