(* ===== verification/GatewaySafety.thy ===== *)
theory GatewaySafety imports SubmissionSafety Gateway begin

text \<open>
  What the gateway promises. A reply it marks as a model's shows the content a node gave; a reply
  that is not marked is one of its own. The envelope of cooperative inference is never attached on
  the client of the mesh, because a node as the client keeps it carries no \<open>allow_remote_inference\<close>.
\<close>

section \<open>What the gateway answers\<close>

text \<open>The content a reply shows, in whichever dialect.\<close>

definition first_defined :: "js list \<Rightarrow> js" where
  "first_defined vs = (case filter (\<lambda>v. v \<noteq> JUndef) vs of [] \<Rightarrow> JUndef | v # _ \<Rightarrow> v)"

definition reply_content :: "http_reply \<Rightarrow> js" where
  "reply_content r =
     (let content = (\<lambda>v. first_defined
            [own_property (own_property (numeric_property (own_property v ''choices'') 0) ''message'') ''content'',
             own_property (own_property v ''message'') ''content'', own_property v ''response'',
             own_property (numeric_property (own_property v ''content'') 0) ''text''])
      in case hr_body r of
           JsonBody v \<Rightarrow> content v
         | LineBody v \<Rightarrow> content v
         | EventBody es \<Rightarrow>
             (case map_of es ''content_block_delta'' of
                None \<Rightarrow> JUndef | Some v \<Rightarrow> own_property (own_property v ''delta'') ''text'')
         | TextBody _ \<Rightarrow> JUndef)"

lemma content_defined: "snd (firstMessage resp) \<noteq> JUndef"
  by (auto simp: firstMessage_def Let_def coalesce_def nullish_def)

lemma content_shown [simp]:
  "reply_content (json_reply 200 (toOpenAI now resp m) True) = snd (firstMessage resp)"
  "reply_content (json_reply 200 (toOllama created resp m) True) = snd (firstMessage resp)"
  "reply_content (json_reply 200 (toOllamaGenerate created resp m) True) = snd (firstMessage resp)"
  "reply_content (json_reply 200 (toAnthropic resp m i) True) = snd (firstMessage resp)"
  "reply_content \<lparr>hr_status = 200, hr_generated_by_ai = True, hr_body = LineBody (toOllama created resp m)\<rparr> = snd (firstMessage resp)"
  "reply_content \<lparr>hr_status = 200, hr_generated_by_ai = True, hr_body = LineBody (toOllamaGenerate created resp m)\<rparr> = snd (firstMessage resp)"
  "reply_content \<lparr>hr_status = 200, hr_generated_by_ai = True, hr_body = EventBody (anthropic_events m (snd (firstMessage resp)))\<rparr> = snd (firstMessage resp)"
  using content_defined [of resp]
  by (cases "firstMessage resp"; simp add: reply_content_def json_reply_def toOpenAI_def toOllama_def toOllamaGenerate_def
      toAnthropic_def first_defined_def anthropic_events_def Let_def)+

text \<open>The outcome behind a reply: a node's completed task is marked and shown, anything else is an error.\<close>

definition reply_for :: "chat_outcome \<Rightarrow> http_reply \<Rightarrow> bool" where
  "reply_for out reply =
     (case out of
        ChatOk resp \<Rightarrow> hr_status reply = 200 \<and> hr_generated_by_ai reply \<and> reply_content reply = snd (firstMessage resp)
      | ChatError status code \<Rightarrow> hr_status reply = status \<and> \<not> hr_generated_by_ai reply)"

lemma json_reply_fields [simp]:
  "hr_status (json_reply n b ai) = n" "hr_generated_by_ai (json_reply n b ai) = ai"
  by (simp_all add: json_reply_def)

lemmas handler_defs = handleOpenAIChat_def handleOllamaChat_def handleAnthropicMessages_def

text \<open>The messages a route stands for: the prompt of a generate request, else those of the body.\<close>

definition request_messages :: "js_runtime \<Rightarrow> string \<Rightarrow> js \<Rightarrow> js" where
  "request_messages rt route body = ollama_messages rt (route = ''POST /api/generate'') body"

lemma chat_handler_reply:
  assumes "chat_handler env route = Some handler" "handler body s = (reply, s')"
  shows "\<exists>out. runChatTask env (request_messages (gw_runtime env) route body) (modelOf body) (extraOf body) body s = (out, s') \<and>
    reply_for out reply"
proof -
  let ?m = "request_messages (gw_runtime env) route body"
  obtain out s1 where run: "runChatTask env ?m (modelOf body) (extraOf body) body s = (out, s1)" by fastforce
  from assms(1) consider
      "handler = handleOpenAIChat env \<and> ?m = messagesOf body"
    | "handler = handleOllamaChat env (route = ''POST /api/generate'')"
    | "handler = handleAnthropicMessages env \<and> ?m = messagesOf body"
    by (auto simp: chat_handler_def request_messages_def ollama_messages_def split: if_splits)
  then have "s1 = s' \<and> reply_for out reply"
    using run assms(2) by cases (cases out; auto simp: handler_defs reply_for_def request_messages_def Let_def split: if_splits)+
  with run show ?thesis by blast
qed

lemma envelope_errors:
  assumes "computeCipEnvelope rt cip nodes body taskId random = Inl code"
  shows "code = ''IICP-E036'' \<or> code = ''IICP-E022''"
  using assms
  by (auto simp: computeCipEnvelope_def decideDispatch_def blockedRemote_def Let_def split: dispatch_decision.splits if_splits)

text \<open>The payload keeps the messages and the model of the request, whatever else is added.\<close>

lemma update_keeps: "k \<notin> fst ` set kvs \<Longrightarrow> map_of (fold (\<lambda>(k, x) acc. AList.update k x acc) kvs base) k = map_of base k"
  by (induction kvs arbitrary: base) (auto simp: update_conv')

lemma spread_keeps: "k \<notin> fst ` set kvs \<Longrightarrow> own_property (JObj (spread base (JObj kvs))) k = own_property (JObj base) k"
  by (simp add: spread_def update_keeps)

lemma extra_keys: "fst ` set (extraOf body) \<subseteq> {''temperature'', ''max_tokens'', ''cip'', ''billing'', ''qos''}"
  by (auto simp: extraOf_def List.map_filter_def split: if_splits)

lemma envelope_keys: "fst ` set (with_envelope extra e) \<subseteq> insert ''cip'' (fst ` set extra)"
  by (auto simp: with_envelope_def dom_update split: option.splits)

lemma task_started:
  assumes "runChatTask env messages model (extraOf body) body s = (ChatOk resp, s')"
  shows "\<exists>payload s1. gw_submit env (JObj payload) s1 = (Inr resp, s') \<and>
    (s1 = s \<or> (\<exists>nodes. gw_discover env s = (Inr nodes, s1))) \<and>
    own_property (JObj payload) ''messages'' = messages \<and> own_property (JObj payload) ''model'' = model \<and>
    tp_status resp \<in> {''success'', ''completed''}"
proof -
  have sub: "\<exists>payload. gw_submit env (JObj payload) s1 = (Inr resp, s') \<and>
      own_property (JObj payload) ''messages'' = messages \<and> own_property (JObj payload) ''model'' = model \<and>
      tp_status resp \<in> {''success'', ''completed''}"
    if run: "submit_chat env messages model (with_envelope (extraOf body) e) s1 = (ChatOk resp, s')" for s1 e
  proof -
    let ?p = "spread [(''messages'', messages), (''model'', model)] (JObj (with_envelope (extraOf body) e))"
    have "gw_submit env (JObj ?p) s1 = (Inr resp, s') \<and> tp_status resp \<in> {''success'', ''completed''}"
      using run by (auto simp: submit_chat_def failure_outcome_def split: prod.splits sum.splits if_splits failure.splits)
    moreover have "k \<notin> fst ` set (with_envelope (extraOf body) e)" if "k = ''messages'' \<or> k = ''model''" for k
      using that envelope_keys [of "extraOf body" e] extra_keys [of body] by fastforce
    then have "own_property (JObj ?p) ''messages'' = messages" "own_property (JObj ?p) ''model'' = model"
      using spread_keeps by simp_all
    ultimately show ?thesis by blast
  qed
  show ?thesis
  proof (cases "cp_enabled (gw_cip env)")
    case False
    then have "submit_chat env messages model (with_envelope (extraOf body) None) s = (ChatOk resp, s')"
      using assms by (simp add: runChatTask_def with_envelope_def)
    from sub [OF this] show ?thesis by blast
  next
    case True
    with assms obtain nodes s1 e where "gw_discover env s = (Inr nodes, s1)"
      "submit_chat env messages model (with_envelope (extraOf body) e) s1 = (ChatOk resp, s')"
      by (auto simp: runChatTask_def failure_outcome_def split: prod.splits sum.splits if_splits failure.splits)
    with sub show ?thesis by blast
  qed
qed

text \<open>
  A node as the client keeps it says nothing of remote inference, so the gateway on that client
  never adds an envelope: the task goes out as it is, or fails for want of workers.
\<close>

lemma mesh_eligible: "cip_eligible rt cip (map (\<lambda>c. cip_view (fst c)) found) = []"
  by (auto simp: cip_eligible_def cip_view_def filter_empty_conv Let_def)

lemma replicas_number:
  assumes "validateCipRequestFields rt body = None"
  shows "requested_replicas rt body \<noteq> NaN"
proof (cases "own_property body ''cip''")
  case (JObj kvs)
  let ?r = "own_property (JObj kvs) ''replicas''"
  have "first_failure (cip_field_guards rt (JObj kvs)) = None"
    using assms by (simp only: validateCipRequestFields_def JObj Let_def js.case)
  then have "nullish ?r \<or> int_between ?r 1 (Some 10)" 
    by (simp add: cip_field_guards_def Let_def del: own_property.simps split: if_splits)
  then show ?thesis
    by (cases ?r rule: is_integer_number.cases) (auto simp: requested_replicas_def JObj Let_def coalesce_def int_between_def
        nullish_def jrat_def simp del: own_property.simps)
qed (auto simp: requested_replicas_def coalesce_def nullish_def Let_def)

lemma mesh_never_remote:
  "computeCipEnvelope rt cip (map (\<lambda>c. cip_view (fst c)) found) body taskId random \<in>
     {Inr None, Inl ''IICP-E036'', Inl ''IICP-E022''}"
proof (cases "validateCipRequestFields rt body")
  case None
  then have "requested_replicas rt body \<noteq> NaN" by (rule replicas_number)
  then have "num_less (Fin 0) (needed_workers (requested_replicas rt body))"
    by (cases "requested_replicas rt body") (auto simp: needed_workers_def max_def)
  then show ?thesis
    by (simp add: computeCipEnvelope_def decideDispatch_def mesh_eligible blockedRemote_def buildCipEnvelope_def None Let_def)
qed (simp add: computeCipEnvelope_def)

text \<open>On the client of the mesh, the task behind a reply that is marked.\<close>

definition nodes_answer :: "submit_env \<Rightarrow> client_config \<Rightarrow> client_task \<Rightarrow> (route_node \<times> post_request) list \<Rightarrow> node_reply \<Rightarrow> bool" where
  "nodes_answer env cfg task sent resp =
     (\<exists>d. answered_with env cfg task None (request_task_id env task) sent (length sent - 1) (\<lambda>r. r = Inr d) \<and>
        tp_result resp = own_property d ''result'' \<and>
        tp_status resp = String_of (sb_runtime env) (coalesce (own_property d ''status'') (JStr ''ok'')))"

lemma mesh_task:
  assumes "runChatTask (mesh_gateway cip env denv cfg now_ms created) messages model (extraOf body) body s = (ChatOk resp, s')"
    and "0 \<le> sb_random2 env" "sb_random2 env < 1"
  shows "\<exists>payload sent. own_property (JObj payload) ''messages'' = messages \<and> own_property (JObj payload) ''model'' = model \<and>
    snd s' = snd s @ sent \<and> sent \<noteq> [] \<and> length sent \<le> 9 \<and>
    nodes_answer env cfg (gateway_task (JObj payload)) sent resp \<and> tp_status resp \<in> {''success'', ''completed''}"
proof -
  let ?g = "mesh_gateway cip env denv cfg now_ms created"
  have g [simp]: "gw_submit ?g = mesh_submit env denv cfg" "gw_discover ?g = mesh_discover env denv cfg"
    by (simp_all add: mesh_gateway_def)
  obtain payload s1 where sub: "mesh_submit env denv cfg (JObj payload) s1 = (Inr resp, s')"
    and s1: "s1 = s \<or> (\<exists>nodes. mesh_discover env denv cfg s = (Inr nodes, s1))"
    and pay: "own_property (JObj payload) ''messages'' = messages" "own_property (JObj payload) ''model'' = model"
    and ok: "tp_status resp \<in> {''success'', ''completed''}"
    using task_started [OF assms(1)] by auto
  have "s1 = s" using s1 by (auto simp: mesh_discover_def split: sum.splits)
  obtain res tr st where run: "submitInternal env denv cfg (gateway_task (JObj payload)) None (fst s) = (res, tr, st)"
    using prod_cases3 by blast
  with sub \<open>s1 = s\<close> obtain r where r: "res = Inr r" "resp = client_reply r" "s' = (st, snd s @ sx_sent tr)"
    by (cases res) (auto simp: mesh_submit_def)
  show ?thesis
    using submission_outcome [OF run assms(2,3)] pay ok r
    by (auto simp: Let_def nodes_answer_def client_reply_def)
qed

definition route_of :: "string \<Rightarrow> string \<Rightarrow> string" where
  "route_of meth url = meth @ '' '' @ hd (split_on (CHR ''?'') url)"

lemma marked_request:
  assumes "proxy_request env meth url raw s = (reply, s')" "hr_generated_by_ai reply"
  shows "\<exists>body resp. read_body env raw = Some body \<and>
    runChatTask env (request_messages (gw_runtime env) (route_of meth url) body) (modelOf body) (extraOf body) body s =
      (ChatOk resp, s') \<and>
    hr_status reply = 200 \<and> reply_content reply = snd (firstMessage resp)"
proof (cases "chat_handler env (route_of meth url)")
  case None
  then have "reply = static_reply (route_of meth url)" using assms(1) by (simp add: proxy_request_def route_of_def Let_def)
  with assms(2) show ?thesis by (simp add: static_reply_def split: if_splits)
next
  case (Some handler)
  with assms obtain body where b: "read_body env raw = Some body" "handler body s = (reply, s')"
    by (auto simp: proxy_request_def route_of_def Let_def proxy_failure_def split: option.splits if_splits)
  obtain out where "runChatTask env (request_messages (gw_runtime env) (route_of meth url) body) (modelOf body) (extraOf body) body s =
      (out, s')" "reply_for out reply"
    using chat_handler_reply [OF Some b(2)] by blast
  with assms(2) b(1) show ?thesis by (cases out) (auto simp: reply_for_def)
qed

text \<open>
  C33 A gateway on the client of the mesh marks a reply as a model's only when a node of the mesh
  has answered the request: at most nine requests were sent for it, each for the messages and the
  model of the body, the last of them was answered with a status of success, and the reply shows
  the content of that answer.
\<close>

theorem gateway_answer_is_nodes:
  assumes "proxy_request (mesh_gateway cip env denv cfg now_ms created) meth url raw s = (reply, s')"
    and "0 \<le> sb_random2 env" "sb_random2 env < 1"
    and "hr_generated_by_ai reply"
  shows "\<exists>body payload sent resp. read_body (mesh_gateway cip env denv cfg now_ms created) raw = Some body \<and>
    own_property (JObj payload) ''messages'' = request_messages (sb_runtime env) (route_of meth url) body \<and>
    own_property (JObj payload) ''model'' = modelOf body \<and>
    snd s' = snd s @ sent \<and> sent \<noteq> [] \<and> length sent \<le> 9 \<and>
    nodes_answer env cfg (gateway_task (JObj payload)) sent resp \<and> tp_status resp \<in> {''success'', ''completed''} \<and>
    hr_status reply = 200 \<and> reply_content reply = snd (firstMessage resp)"
proof -
  have rt: "gw_runtime (mesh_gateway cip env denv cfg now_ms created) = sb_runtime env" by (simp add: mesh_gateway_def)
  from marked_request [OF assms(1,4)] rt obtain body resp where
    b: "read_body (mesh_gateway cip env denv cfg now_ms created) raw = Some body"
      "hr_status reply = 200" "reply_content reply = snd (firstMessage resp)"
    and run: "runChatTask (mesh_gateway cip env denv cfg now_ms created)
        (request_messages (sb_runtime env) (route_of meth url) body) (modelOf body) (extraOf body) body s = (ChatOk resp, s')"
    by auto
  from mesh_task [OF run assms(2,3)] b show ?thesis by blast
qed

section \<open>Examples\<close>

definition sample_cip :: cip_config where
  "sample_cip = \<lparr>cp_enabled = False, cp_strategy = ''local-first'', cp_maxCreditsPerTask = Fin 10, cp_sessionCreditBudget = None,
     cp_sendSensitivePrompts = False, cp_trustedPeers = [], cp_minReputation = Fin 0\<rparr>"

abbreviation sample_gateway :: "mesh_state gateway_env" where
  "sample_gateway \<equiv> mesh_gateway sample_cip sample_submit sample_directory sample_client 0 []"

lemma sample_chat:
  "\<exists>resp st sent. mesh_submit sample_submit sample_directory sample_client payload (sample_state, []) =
     (Inr resp, (st, sent)) \<and> tp_status resp = ''success'' \<and> tp_result resp = own_property sample_answer ''result'' \<and> length sent = 2"
proof -
  have "gateway_task payload = plain_task (spread [] payload) (Some (empty_constraints\<lparr>tk_timeout_ms := Some 30000\<rparr>))"
    by (simp add: gateway_task_def plain_task_def)
  then show ?thesis
    using sample_submission [of "spread [] payload" "Some (empty_constraints\<lparr>tk_timeout_ms := Some 30000\<rparr>)"]
    by (auto simp: mesh_submit_def client_reply_def)
qed

lemma sample_post: "\<exists>reply st sent. proxy_request sample_gateway ''POST'' ''/v1/chat/completions'' [] (sample_state, []) = (reply, (st, sent)) \<and>
    hr_generated_by_ai reply \<and> reply_content reply = JStr ''done'' \<and> length sent = 2"
proof -
  let ?body = "JObj []"
  obtain resp st sent where c: "mesh_submit sample_submit sample_directory sample_client
        (JObj (spread [(''messages'', messagesOf ?body), (''model'', modelOf ?body)] (JObj (extraOf ?body)))) (sample_state, []) =
      (Inr resp, (st, sent))" "tp_status resp = ''success''" "tp_result resp = own_property sample_answer ''result''" "length sent = 2"
    using sample_chat by blast
  have h: "chat_handler sample_gateway (''POST'' @ '' '' @ hd (split_on (CHR ''?'') ''/v1/chat/completions'')) = Some (handleOpenAIChat sample_gateway)"
    by (simp add: chat_handler_def)
  have content: "snd (firstMessage resp) = JStr ''done''"
    by (simp add: firstMessage_def reply_result_def c(3) sample_answer_def coalesce_def nullish_def)
  have run: "runChatTask sample_gateway (messagesOf ?body) (modelOf ?body) (extraOf ?body) ?body (sample_state, []) = (ChatOk resp, (st, sent))"
    using c(1,2) by (simp add: runChatTask_def submit_chat_def mesh_gateway_def sample_cip_def)
  have r: "read_body sample_gateway [] = Some ?body" by (simp add: read_body_def)
  show ?thesis
    unfolding proxy_request_def Let_def h option.case r using run c(4) content by (simp add: handleOpenAIChat_def)
qed

theorem gateway_answer_is_nodes_witness:
  "\<exists>reply st sent. proxy_request sample_gateway ''POST'' ''/v1/chat/completions'' [] (sample_state, []) = (reply, (st, sent)) \<and>
     reply_content reply = JStr ''done'' \<and> hr_status reply = 200 \<and> length sent = 2 \<and>
     (\<exists>payload resp. nodes_answer sample_submit sample_client (gateway_task (JObj payload)) sent resp)"
proof -
  obtain reply st sent where r: "proxy_request sample_gateway ''POST'' ''/v1/chat/completions'' [] (sample_state, []) = (reply, (st, sent))"
    "hr_generated_by_ai reply" "reply_content reply = JStr ''done''" "length sent = 2"
    using sample_post by blast
  have "0 \<le> sb_random2 sample_submit" "sb_random2 sample_submit < 1" by (simp_all add: sample_submit_def)
  from gateway_answer_is_nodes [OF r(1) this r(2)] r show ?thesis by auto
qed

end
