(* ===== verification/BackendStream.thy ===== *)
theory BackendStream imports ResponseSequence JsText begin

text \<open>
  The streaming backend, \<open>openaiCompatStreamingHandler\<close> in \<open>src/backends/openai_compat.ts\<close>: the
  server-sent events of an OpenAI-compatible provider, read in whatever pieces the network gives,
  become the items of a streaming handler. The text is batched: a batch goes out when it has 256
  bytes, when the timer of 25 ms fires, and at the end. The payload of the task is an object. What happens while the body is read is a
  sequence of events, in the order they happen; the timeout of the request is the last of them.
\<close>

section \<open>The request\<close>

record stream_task =
  sk_intent :: string
  sk_payload :: js

record compat_options =
  co_baseUrl :: "string option"
  co_model :: "string option"
  co_apiKey :: "string option"

definition compat_base :: "compat_options \<Rightarrow> string" where
  "compat_base opts = strip_suffix (CHR ''/'') (or_else (co_baseUrl opts) ''http://localhost:11434/v1'')"

definition stream_path :: "string \<Rightarrow> string option" where
  "stream_path intent =
     (if intent = ''urn:iicp:intent:llm:chat:v1'' then Some ''/chat/completions''
      else if intent = ''urn:iicp:intent:llm:completion:v1'' then Some ''/completions''
      else None)"

definition js_option :: "string option \<Rightarrow> js" where
  "js_option v = (case v of None \<Rightarrow> JUndef | Some s \<Rightarrow> JStr s)"

definition stream_body :: "compat_options \<Rightarrow> js \<Rightarrow> (string \<times> js) list" where
  "stream_body opts payload =
     spread (spread [] payload) (JObj
       [(''model'', coalesce (own_property payload ''model'') (js_option (co_model opts))),
        (''stream'', JBool True),
        (''stream_options'', coalesce (own_property payload ''stream_options'') (JObj [(''include_usage'', JBool True)]))])"

definition stream_headers :: "compat_options \<Rightarrow> (string \<times> string) list" where
  "stream_headers opts =
     [(''content-type'', ''application/json'')] @
     (case co_apiKey opts of
        None \<Rightarrow> []
      | Some k \<Rightarrow> if k = [] then [] else [(''authorization'', ''Bearer '' @ k)])"

section \<open>The events of the body\<close>

record sse_state =
  sse_buffer :: string
  sse_output :: string
  sse_tokens :: "number option"

definition sse_start :: sse_state where
  "sse_start = \<lparr>sse_buffer = [], sse_output = [], sse_tokens = None\<rparr>"

definition partial_item :: "string \<Rightarrow> number option \<Rightarrow> stream_item" where
  "partial_item text tokens =
     \<lparr>si_status = Partial, si_result = JStr text, si_error_code = None, si_error_message = None,
      si_tokens_used = tokens, si_event = None\<rparr>"

definition success_item :: "number option \<Rightarrow> stream_item" where
  "success_item tokens =
     \<lparr>si_status = Success, si_result = JStr [], si_error_code = None, si_error_message = None,
      si_tokens_used = tokens, si_event = None\<rparr>"

definition backend_error :: "string \<Rightarrow> string \<Rightarrow> stream_item" where
  "backend_error code message = error_item code (''openai_compat: '' @ message)"

definition timeout_item :: stream_item where
  "timeout_item = (backend_error ''backend_timeout'' ''backend timed out'')\<lparr>si_status := Timeout\<rparr>"

definition transport_item :: stream_item where
  "transport_item = backend_error ''backend_transport_error'' ''backend transport failed''"

definition flush :: "sse_state \<Rightarrow> stream_item list" where
  "flush st = (if sse_output st = [] then [] else [partial_item (sse_output st) (sse_tokens st)])"

text \<open>The lines that are complete, and what remains: \<open>split(/\r?\n/)\<close> and \<open>pop\<close>.\<close>

definition carriage_return :: char where "carriage_return = char_of (13 :: nat)"

definition sse_lines :: "string \<Rightarrow> string list \<times> string" where
  "sse_lines buf =
     (let parts = split_on newline buf in (map (strip_suffix carriage_return) (butlast parts), last parts))"

definition delta_text :: "bool \<Rightarrow> js \<Rightarrow> string" where
  \<comment> \<open>the text of a chunk, empty when it has none; the first argument says that the intent is chat\<close>
  "delta_text chat chunk =
     (let first = (case own_property chunk ''choices'' of JArr xs \<Rightarrow> numeric_property (JArr xs) 0 | _ \<Rightarrow> JUndef);
          text = (if chat then own_property (own_property first ''delta'') ''content'' else own_property first ''text'')
      in case text of JStr t \<Rightarrow> t | _ \<Rightarrow> [])"

definition usage_tokens :: "js \<Rightarrow> number option" where
  "usage_tokens chunk = (case own_property (own_property chunk ''usage'') ''total_tokens'' of JNum n \<Rightarrow> Some n | _ \<Rightarrow> None)"

definition take_text :: "string \<Rightarrow> sse_state \<Rightarrow> sse_state \<times> stream_item list" where
  "take_text text st =
     (let output = sse_output st @ text in
      if text = [] then (st, [])
      else if 256 \<le> length output then (st\<lparr>sse_output := []\<rparr>, [partial_item output (sse_tokens st)])
      else (st\<lparr>sse_output := output\<rparr>, []))"

text \<open>One line: the state to go on with, or \<open>None\<close> at the end, and the items yielded.\<close>

definition sse_line ::
  "(string \<Rightarrow> js option) \<Rightarrow> bool \<Rightarrow> string \<Rightarrow> sse_state \<Rightarrow> sse_state option \<times> stream_item list" where
  "sse_line parse chat line st =
     (if \<not> starts_with line ''data:'' then (Some st, [])
      else let data = js_trim (drop 5 line) in
        if data = ''[DONE]'' then (None, flush st @ [success_item (sse_tokens st)])
        else if data = [] then (Some st, [])
        else case parse data of
            None \<Rightarrow> (None, [backend_error ''invalid_backend_stream'' ''upstream emitted invalid SSE JSON''])
          | Some chunk \<Rightarrow>
              if chunk = JNull then (None, [transport_item])
              else
                let tokens = (case usage_tokens chunk of None \<Rightarrow> sse_tokens st | Some n \<Rightarrow> Some n);
                    (st', items) = take_text (delta_text chat chunk) (st\<lparr>sse_tokens := tokens\<rparr>)
                in (Some st', items))"

fun sse_feed ::
  "(string \<Rightarrow> js option) \<Rightarrow> bool \<Rightarrow> string list \<Rightarrow> sse_state \<Rightarrow> sse_state option \<times> stream_item list" where
  "sse_feed parse chat [] st = (Some st, [])"
| "sse_feed parse chat (l # ls) st =
     (case sse_line parse chat l st of
        (None, items) \<Rightarrow> (None, items)
      | (Some st', items) \<Rightarrow> (case sse_feed parse chat ls st' of (r, items') \<Rightarrow> (r, items @ items')))"

text \<open>
  A piece of text, the end of the body, the timer of a batch, the timeout of the request and any
  other failure to read. The timer is armed only while a batch is open.
\<close>

datatype body_event = BodyText string | BodyEnd | BatchTimer | BodyTimeout | BodyFails

definition body_step ::
  "(string \<Rightarrow> js option) \<Rightarrow> bool \<Rightarrow> body_event \<Rightarrow> sse_state \<Rightarrow> sse_state option \<times> stream_item list" where
  "body_step parse chat e st =
     (case e of
        BatchTimer \<Rightarrow> (Some (st\<lparr>sse_output := []\<rparr>), flush st)
      | BodyTimeout \<Rightarrow> (None, [timeout_item])
      | BodyFails \<Rightarrow> (None, [transport_item])
      | BodyText piece \<Rightarrow>
          (case sse_lines (sse_buffer st @ piece) of (lines, rest) \<Rightarrow>
             sse_feed parse chat lines (st\<lparr>sse_buffer := rest\<rparr>))
      | BodyEnd \<Rightarrow>
          (case sse_lines (sse_buffer st) of (lines, rest) \<Rightarrow>
           case sse_feed parse chat lines (st\<lparr>sse_buffer := rest\<rparr>) of
             (None, items) \<Rightarrow> (None, items)
           | (Some st', items) \<Rightarrow>
               (None, items @ flush st' @ [backend_error ''stream_incomplete'' ''upstream closed before [DONE]''])))"

fun body_run :: "(string \<Rightarrow> js option) \<Rightarrow> bool \<Rightarrow> body_event list \<Rightarrow> sse_state \<Rightarrow> stream_item list" where
  "body_run parse chat [] st = [timeout_item]"
| "body_run parse chat (e # es) st =
     (case body_step parse chat e st of
        (None, items) \<Rightarrow> items
      | (Some st', items) \<Rightarrow> items @ body_run parse chat es st')"

section \<open>The handler\<close>

text \<open>What \<open>fetch\<close> gave: a refusal with its text, no body, or the events of the body.\<close>

datatype stream_reply = StreamRefused nat string | StreamNoBody | StreamBody "body_event list" | StreamTimeout | StreamFails

record stream_call =
  sq_url :: string
  sq_headers :: "(string \<times> string) list"
  sq_body :: "(string \<times> js) list"

definition openaiCompatStreamingHandler ::
  "(string \<Rightarrow> js option) \<Rightarrow> (stream_call \<Rightarrow> stream_reply) \<Rightarrow> compat_options \<Rightarrow> stream_task \<Rightarrow>
   stream_item list \<times> stream_call option" where
  "openaiCompatStreamingHandler parse fetch opts task =
     (case stream_path (sk_intent task) of
        None \<Rightarrow> ([backend_error ''unsupported_streaming_intent'' ''streaming is limited to chat and completion intents''], None)
      | Some path \<Rightarrow>
          let body = stream_body opts (sk_payload task) in
          if \<not> truthy (own_property (JObj body) ''model'') then ([backend_error ''missing_model'' ''no model configured''], None)
          else
            let call = \<lparr>sq_url = compat_base opts @ path, sq_headers = stream_headers opts, sq_body = body\<rparr> in
            ((case fetch call of
                StreamRefused status text \<Rightarrow>
                  [backend_error (''upstream_'' @ digits status) (''upstream '' @ digits status @ '': '' @ take 512 text)]
              | StreamNoBody \<Rightarrow> [backend_error ''invalid_backend_stream'' ''upstream returned no stream body'']
              | StreamTimeout \<Rightarrow> [timeout_item]
              | StreamFails \<Rightarrow> [transport_item]
              | StreamBody es \<Rightarrow> body_run parse (sk_intent task = ''urn:iicp:intent:llm:chat:v1'') es sse_start), Some call))"

section \<open>What the provider says\<close>

text \<open>
  A line says some text (none, mostly), or that the answer is complete, or it breaks the protocol.
  The lines of a body say text up to the first that ends it: \<open>Some True\<close> when the answer is
  complete.
\<close>

definition line_says :: "(string \<Rightarrow> js option) \<Rightarrow> bool \<Rightarrow> string \<Rightarrow> bool + string" where
  "line_says parse chat line =
     (let data = js_trim (drop 5 line) in
      if \<not> starts_with line ''data:'' then Inr []
      else if data = ''[DONE]'' then Inl True
      else if data = [] then Inr []
      else case parse data of
          None \<Rightarrow> Inl False
        | Some chunk \<Rightarrow> if chunk = JNull then Inl False else Inr (delta_text chat chunk))"

fun lines_say :: "(string \<Rightarrow> js option) \<Rightarrow> bool \<Rightarrow> string list \<Rightarrow> string \<times> bool option" where
  "lines_say parse chat [] = ([], None)"
| "lines_say parse chat (l # ls) =
     (case line_says parse chat l of
        Inl e \<Rightarrow> ([], Some e)
      | Inr t \<Rightarrow> (case lines_say parse chat ls of (t', e) \<Rightarrow> (t @ t', e)))"

text \<open>The text of the body that is read before the reading ends.\<close>

fun body_text :: "body_event list \<Rightarrow> string" where
  "body_text (BodyText piece # es) = piece @ body_text es"
| "body_text (BatchTimer # es) = body_text es"
| "body_text _ = []"

definition provider_says :: "(string \<Rightarrow> js option) \<Rightarrow> bool \<Rightarrow> body_event list \<Rightarrow> string \<times> bool option" where
  "provider_says parse chat es = lines_say parse chat (fst (sse_lines (body_text es)))"

definition item_text :: "stream_item \<Rightarrow> string" where
  "item_text item = (case si_result item of JStr t \<Rightarrow> t | _ \<Rightarrow> [])"

abbreviation batch_text :: "stream_item list \<Rightarrow> string" where
  "batch_text items \<equiv> concat (map item_text items)"

section \<open>The batches say what the provider says\<close>

definition is_batch :: "stream_item \<Rightarrow> bool" where
  "is_batch item = (\<exists>text tokens. text \<noteq> [] \<and> item = partial_item text tokens)"

definition is_failure :: "stream_item \<Rightarrow> bool" where
  "is_failure item = (si_status item \<notin> {Partial, Success} \<and> si_result item = JUndef \<and> si_event item = None)"

lemma item_simps [simp]:
  "item_text (partial_item t n) = t" "item_text (success_item n) = []"
  "si_status (partial_item t n) = Partial" "si_status (success_item n) = Success"
  "is_failure (backend_error c m)" "is_failure transport_item" "is_failure timeout_item"
  "is_batch (partial_item t n) = (t \<noteq> [])"
  by (auto simp: item_text_def partial_item_def success_item_def is_failure_def backend_error_def error_item_def
      transport_item_def timeout_item_def is_batch_def)

lemma flush_batches [simp]: "list_all is_batch (flush st)" "batch_text (flush st) = sse_output st"
  by (simp_all add: flush_def)

text \<open>What a step of the reader owes: the text said so far is in the batches or still open.\<close>

definition owes ::
  "sse_state \<Rightarrow> string \<times> bool option \<Rightarrow> sse_state option \<times> stream_item list \<Rightarrow> bool" where
  "owes st said result =
     (case (said, result) of
        ((t, None), (Some st', items)) \<Rightarrow>
          list_all is_batch items \<and> sse_output st @ t = batch_text items @ sse_output st' \<and> sse_buffer st' = sse_buffer st
      | ((t, Some True), (None, items)) \<Rightarrow>
          \<exists>ps n. items = ps @ [success_item n] \<and> list_all is_batch ps \<and> sse_output st @ t = batch_text ps
      | ((t, Some False), (None, items)) \<Rightarrow>
          \<exists>ps e lost. items = ps @ [e] \<and> is_failure e \<and> list_all is_batch ps \<and> sse_output st @ t = batch_text ps @ lost
      | _ \<Rightarrow> False)"

lemma owes_open: "owes st (t, None) (r, items) \<longleftrightarrow> (\<exists>st'. r = Some st' \<and> list_all is_batch items \<and>
    sse_output st @ t = batch_text items @ sse_output st' \<and> sse_buffer st' = sse_buffer st)"
  by (cases r) (simp_all add: owes_def)

lemma owes_done: "owes st (t, Some True) (r, items) \<longleftrightarrow> r = None \<and>
    (\<exists>ps n. items = ps @ [success_item n] \<and> list_all is_batch ps \<and> sse_output st @ t = batch_text ps)"
  by (cases r) (simp_all add: owes_def)

lemma owes_failed: "owes st (t, Some False) (r, items) \<longleftrightarrow> r = None \<and>
    (\<exists>ps e lost. items = ps @ [e] \<and> is_failure e \<and> list_all is_batch ps \<and> sse_output st @ t = batch_text ps @ lost)"
  by (cases r) (simp_all add: owes_def)

lemmas owes_iff = owes_open owes_done owes_failed

text \<open>Batches before a step that owes the rest.\<close>

lemma owes_append:
  assumes "list_all is_batch items" "sse_output st @ t = batch_text items @ sse_output st1" "sse_buffer st1 = sse_buffer st"
    and "owes st1 (t', e) (r, items')"
  shows "owes st (t @ t', e) (r, items @ items')"
proof -
  have said: "sse_output st @ t @ t' = batch_text items @ sse_output st1 @ t'" using assms(2) by (metis append_assoc)
  consider "e = None" | "e = Some True" | "e = Some False" by auto
  then show ?thesis
  proof cases
    case 1
    with assms(4) obtain st' where r: "r = Some st'" "list_all is_batch items'" "sse_buffer st' = sse_buffer st1"
      and o: "sse_output st1 @ t' = batch_text items' @ sse_output st'" by (auto simp: owes_open)
    have "sse_output st @ t @ t' = batch_text (items @ items') @ sse_output st'" unfolding said o by simp
    with 1 r assms(1,3) show ?thesis by (simp add: owes_open)
  next
    case 2
    with assms(4) obtain ps n where "r = None" "items' = ps @ [success_item n]" "list_all is_batch ps"
      "sse_output st1 @ t' = batch_text ps" by (auto simp: owes_done)
    with 2 assms(1) said show ?thesis by (auto simp: owes_done intro!: exI [of _ "items @ ps"])
  next
    case 3
    with assms(4) obtain ps f lost where "r = None" "items' = ps @ [f]" "is_failure f" "list_all is_batch ps"
      "sse_output st1 @ t' = batch_text ps @ lost" by (auto simp: owes_failed)
    with 3 assms(1) said show ?thesis by (auto simp: owes_failed intro!: exI [of _ "items @ ps"])
  qed
qed

lemma line_owes:
  "owes st (case line_says parse chat line of Inl e \<Rightarrow> ([], Some e) | Inr t \<Rightarrow> (t, None)) (sse_line parse chat line st)"
proof (cases "starts_with line ''data:'' \<and> js_trim (drop 5 line) \<noteq> []")
  case False
  then show ?thesis by (auto simp: owes_def line_says_def sse_line_def)
next
  case data: True
  show ?thesis
  proof (cases "js_trim (drop 5 line) = ''[DONE]''")
    case True
    with data show ?thesis by (auto simp: owes_done line_says_def sse_line_def)
  next
    case False
    with data show ?thesis
      by (cases "parse (js_trim (drop 5 line))") (simp_all add: owes_def line_says_def sse_line_def take_text_def Let_def)
  qed
qed

lemma feed_owes: "owes st (lines_say parse chat ls) (sse_feed parse chat ls st)"
proof (induction ls arbitrary: st)
  case (Cons l ls)
  have l: "owes st (case line_says parse chat l of Inl e \<Rightarrow> ([], Some e) | Inr t \<Rightarrow> (t, None)) (sse_line parse chat l st)"
    by (rule line_owes)
  obtain r items where s: "sse_line parse chat l st = (r, items)" by fastforce
  show ?case
  proof (cases "line_says parse chat l")
    case (Inl e)
    with l s show ?thesis by (cases r; cases e) (auto simp: owes_def)
  next
    case (Inr t)
    with l s obtain st1 where s1: "r = Some st1" "list_all is_batch items"
      "sse_output st @ t = batch_text items @ sse_output st1" "sse_buffer st1 = sse_buffer st"
      by (auto simp: owes_open)
    obtain t' e r' items' where f: "lines_say parse chat ls = (t', e)" "sse_feed parse chat ls st1 = (r', items')"
      by fastforce
    have "owes st1 (t', e) (r', items')" using Cons.IH [of st1] f by simp
    from owes_append [OF s1(2-4) this] s s1(1) f Inr show ?thesis by simp
  qed
qed (simp add: owes_def)

text \<open>Reading in pieces: the lines do not depend on where the text is cut.\<close>

lemma split_on_join: "split_on sep (xs @ ys) = butlast (split_on sep xs) @ split_on sep (last (split_on sep xs) @ ys)"
proof (induction xs)
  case (Cons c cs)
  obtain p ps where ps: "split_on sep cs = p # ps" using split_on_not_Nil by (cases "split_on sep cs") auto
  with Cons show ?case by (cases "split_on sep (p @ ys)"; cases ps) (auto split: list.splits)
qed simp

lemma sse_lines_join:
  "sse_lines (xs @ ys) = (fst (sse_lines xs) @ fst (sse_lines (snd (sse_lines xs) @ ys)), snd (sse_lines (snd (sse_lines xs) @ ys)))"
  by (simp add: sse_lines_def Let_def split_on_join [of newline xs ys] butlast_append)

lemma no_lines_left: "fst (sse_lines (snd (sse_lines xs))) = [] \<and> snd (sse_lines (snd (sse_lines xs))) = snd (sse_lines xs)"
proof -
  have "newline \<notin> set (last (split_on newline xs))"
  proof (induction xs)
    case (Cons c cs)
    then show ?case using split_on_not_Nil by (cases "split_on newline cs") (auto split: if_splits)
  qed simp
  then show ?thesis by (simp add: sse_lines_def Let_def split_on_single)
qed

lemma lines_say_append:
  "lines_say parse chat (ls @ ls') = (case lines_say parse chat ls of
     (t, Some e) \<Rightarrow> (t, Some e)
   | (t, None) \<Rightarrow> (case lines_say parse chat ls' of (t', e) \<Rightarrow> (t @ t', e)))"
  by (induction ls) (auto split: sum.splits prod.splits option.splits)

definition settles :: "string \<Rightarrow> string \<times> bool option \<Rightarrow> stream_item list \<Rightarrow> bool" where
  "settles output said items =
     (\<exists>ps e lost. items = ps @ [e] \<and> list_all is_batch ps \<and> output @ fst said = batch_text ps @ lost \<and>
        (if snd said = Some True then lost = [] \<and> (\<exists>n. e = success_item n) else is_failure e))"

lemma settlesI [intro]:
  "items = ps @ [e] \<Longrightarrow> list_all is_batch ps \<Longrightarrow> output @ fst said = batch_text ps @ lost \<Longrightarrow>
   snd said \<noteq> Some True \<Longrightarrow> is_failure e \<Longrightarrow> settles output said items"
  by (auto simp: settles_def)

lemma settles_append:
  assumes "list_all is_batch items" "output @ t = batch_text items @ output'" "settles output' (t', e) items'"
  shows "settles output (t @ t', e) (items @ items')"
proof -
  obtain ps f lost where p: "items' = ps @ [f]" "list_all is_batch ps" "output' @ t' = batch_text ps @ lost"
    "if e = Some True then lost = [] \<and> (\<exists>n. f = success_item n) else is_failure f"
    using assms(3) by (auto simp: settles_def)
  have "output @ t @ t' = batch_text (items @ ps) @ lost" using assms(2) p(3) by (metis append_assoc concat_append map_append)
  then show ?thesis unfolding settles_def using p assms(1)
    by (intro exI [of _ "items @ ps"] exI [of _ f] exI [of _ lost]) simp
qed

lemma run_settles:
  "fst (sse_lines (sse_buffer st)) = [] \<Longrightarrow>
   settles (sse_output st) (lines_say parse chat (fst (sse_lines (sse_buffer st @ body_text es)))) (body_run parse chat es st)"
proof (induction es arbitrary: st)
  case Nil
  then show ?case by (auto intro!: settlesI [of _ "[]" timeout_item])
next
  case (Cons ev es)
  show ?case
  proof (cases ev)
    case (BodyText piece)
    obtain ls rest where l: "sse_lines (sse_buffer st @ piece) = (ls, rest)" by fastforce
    have j: "fst (sse_lines (sse_buffer st @ piece @ body_text es)) = ls @ fst (sse_lines (rest @ body_text es))"
      using sse_lines_join [of "sse_buffer st @ piece" "body_text es"] l by simp
    have clean: "fst (sse_lines rest) = []" using no_lines_left [of "sse_buffer st @ piece"] l by simp
    obtain r items t e where f: "sse_feed parse chat ls (st\<lparr>sse_buffer := rest\<rparr>) = (r, items)" "lines_say parse chat ls = (t, e)"
      by fastforce
    then have o: "owes (st\<lparr>sse_buffer := rest\<rparr>) (t, e) (r, items)" using feed_owes [of "st\<lparr>sse_buffer := rest\<rparr>" parse chat ls] by simp
    consider "e = None" | "e = Some True" | "e = Some False" by auto
    then show ?thesis
    proof cases
      case 1
      with o obtain st' where s: "r = Some st'" "list_all is_batch items" "sse_output st @ t = batch_text items @ sse_output st'"
        "sse_buffer st' = rest" by (auto simp: owes_open)
      obtain t' e' where said: "lines_say parse chat (fst (sse_lines (rest @ body_text es))) = (t', e')" by fastforce
      have "settles (sse_output st') (t', e') (body_run parse chat es st')"
        using Cons.IH [of st'] s(4) clean said by simp
      from settles_append [OF s(2,3) this] show ?thesis
        using BodyText l f s(1) j said 1 by (simp add: body_step_def lines_say_append)
    next
      case 2
      with o show ?thesis
        using BodyText l f j by (auto simp: body_step_def lines_say_append owes_done settles_def)
    next
      case 3
      with o show ?thesis
        using BodyText l f j by (auto simp: body_step_def lines_say_append owes_failed settles_def)
    qed
  next
    case BodyEnd
    then show ?thesis
      using Cons.prems
      by (auto simp: body_step_def flush_def split: prod.splits
          intro!: settlesI [of _ "flush st" "backend_error ''stream_incomplete'' ''upstream closed before [DONE]''"])
  next
    case BatchTimer
    have "settles [] (lines_say parse chat (fst (sse_lines (sse_buffer st @ body_text es)))) (body_run parse chat es (st\<lparr>sse_output := []\<rparr>))"
      using Cons.IH [of "st\<lparr>sse_output := []\<rparr>"] Cons.prems by simp
    then show ?thesis
      using settles_append [of "flush st" "sse_output st" "[]" "[]"] BatchTimer
      by (cases "lines_say parse chat (fst (sse_lines (sse_buffer st @ body_text es)))") (simp add: body_step_def)
  next
    case BodyTimeout
    with Cons.prems show ?thesis by (auto simp: body_step_def intro!: settlesI [of _ "[]" timeout_item])
  next
    case BodyFails
    with Cons.prems show ?thesis by (auto simp: body_step_def intro!: settlesI [of _ "[]" transport_item])
  qed
qed

lemma stream_settles: "settles [] (provider_says parse chat es) (body_run parse chat es sse_start)"
  using run_settles [of sse_start] by (simp add: sse_start_def provider_says_def sse_lines_def)

end
