(* ===== verification/StreamDelivery.thy ===== *)
theory StreamDelivery imports BackendStream begin

text \<open>
  The streaming backend behind the server: \<open>openaiCompatStreamingHandler\<close> gives the items that
  \<open>_onStreamCall\<close> writes as frames, which the client decodes and validates.
\<close>

section \<open>What the client of the server reads\<close>

text \<open>The frames of a list of items, and what the server writes of the handler's items.\<close>

definition encoded :: "stream_args \<Rightarrow> nat \<Rightarrow> stream_item list \<Rightarrow> js list" where
  "encoded args n items =
     map (\<lambda>(i, item). encodeLifecycleResponse (sa_sessionId args) (sa_callId args) (sa_taskId args) i item)
       (List.enumerate n items)"

lemma encoded_simps [simp]:
  "encoded args n [] = []"
  "encoded args n (item # items) =
     encodeLifecycleResponse (sa_sessionId args) (sa_callId args) (sa_taskId args) n item # encoded args (Suc n) items"
  "encoded args n (xs @ ys) = encoded args n xs @ encoded args (n + length xs) ys"
  by (simp_all add: encoded_def enumerate_append_eq)

lemma emitted:
  assumes "\<not> ss_terminalSent st" "list_all (\<lambda>p. si_status p = Partial) ps"
  shows "\<exists>its ok st'. emit_items sendable args (ps @ [e]) st = (ok, st') \<and>
    ss_written st' = ss_written st @ encoded args (ss_sequence st) its \<and> ss_sequence st' = ss_sequence st + length its \<and>
    (\<exists>more. ps @ [e] = its @ more \<and> (ok \<longleftrightarrow> more = [])) \<and>
    (ss_terminalSent st' \<longleftrightarrow> ok \<and> si_status e \<noteq> Partial) \<and> ((\<forall>v. sendable v) \<longrightarrow> ok)"
  using assms
proof (induction ps arbitrary: st)
  case Nil
  let ?v = "encodeLifecycleResponse (sa_sessionId args) (sa_callId args) (sa_taskId args) (ss_sequence st) e"
  show ?case
  proof (cases "sendable ?v")
    case False
    with Nil show ?thesis by (intro exI [of _ "[]"] exI [of _ False] exI [of _ st]) (auto simp: stream_emit_def)
  next
    case True
    with Nil show ?thesis by (intro exI [of _ "[e]"] exI [of _ True]) (simp add: stream_emit_def)
  qed
next
  case (Cons p ps)
  let ?v = "encodeLifecycleResponse (sa_sessionId args) (sa_callId args) (sa_taskId args) (ss_sequence st) p"
  show ?case
  proof (cases "sendable ?v")
    case False
    with Cons.prems show ?thesis by (intro exI [of _ "[]"] exI [of _ False] exI [of _ st]) (auto simp: stream_emit_def)
  next
    case True
    let ?st = "\<lparr>ss_sequence = ss_sequence st + 1, ss_terminalSent = False, ss_written = ss_written st @ [?v]\<rparr>"
    have e: "emit_items sendable args ((p # ps) @ [e]) st = emit_items sendable args (ps @ [e]) ?st"
      using Cons.prems True by (simp add: stream_emit_def Let_def)
    have "\<exists>its ok st'. emit_items sendable args (ps @ [e]) ?st = (ok, st') \<and>
        ss_written st' = ss_written st @ ?v # encoded args (Suc (ss_sequence st)) its \<and>
        ss_sequence st' = Suc (ss_sequence st) + length its \<and>
        (\<exists>more. ps @ [e] = its @ more \<and> (ok \<longleftrightarrow> more = [])) \<and>
        (ss_terminalSent st' \<longleftrightarrow> ok \<and> si_status e \<noteq> Partial) \<and> ((\<forall>v. sendable v) \<longrightarrow> ok)"
      using Cons.IH [of ?st] Cons.prems by simp
    then obtain its ok st' more where
      "emit_items sendable args (ps @ [e]) ?st = (ok, st')"
      "ss_written st' = ss_written st @ ?v # encoded args (Suc (ss_sequence st)) its"
      "ss_sequence st' = Suc (ss_sequence st) + length its"
      "ps @ [e] = its @ more" "ok \<longleftrightarrow> more = []" "ss_terminalSent st' \<longleftrightarrow> ok \<and> si_status e \<noteq> Partial"
      "(\<forall>v. sendable v) \<longrightarrow> ok"
      by blast
    then show ?thesis unfolding e by (intro exI [of _ "p # its"] exI [of _ ok] exI [of _ st']) auto
  qed
qed

definition sent_error :: stream_item where
  "sent_error = error_item ''backend_error'' ''streaming handler raised exception''"

definition gate_open :: "concurrency_gate option \<Rightarrow> bool" where
  "gate_open gate = (case gate of None \<Rightarrow> True | Some g \<Rightarrow> (\<exists>g'. gate_acquire g = Inr g'))"

lemma emit_one:
  assumes "\<not> ss_terminalSent st"
  shows "\<exists>its. set its \<subseteq> {item} \<and> length its \<le> 1 \<and>
    ss_written (snd (stream_emit sendable args item st)) = ss_written st @ encoded args (ss_sequence st) its"
  using assms by (cases "sendable (encodeLifecycleResponse (sa_sessionId args) (sa_callId args) (sa_taskId args) (ss_sequence st) item)")
    (auto simp: stream_emit_def intro: exI [of _ "[item]"] exI [of _ "[]"])

lemma open_call:
  assumes "gate_open gate" "stream_run sendable args handler \<lparr>ss_sequence = 0, ss_terminalSent = False, ss_written = []\<rparr> = (ok, st)"
    and "onStreamCall sendable args handler gate = (returned, written, gate')"
  shows "if ok \<or> ss_terminalSent st then returned \<and> written = ss_written st
    else written = ss_written (snd (stream_emit sendable args sent_error st))"
  using assms by (auto simp: onStreamCall_def gate_open_def sent_error_def Let_def split: option.splits sum.splits prod.splits if_splits)

lemma closed_call:
  assumes "\<not> gate_open gate" "onStreamCall sendable args handler gate = (returned, written, gate')"
  shows "written = ss_written (snd (stream_emit sendable args sent_error \<lparr>ss_sequence = 0, ss_terminalSent = False, ss_written = []\<rparr>))"
  using assms by (auto simp: onStreamCall_def gate_open_def sent_error_def Let_def split: option.splits sum.splits prod.splits if_splits)

lemma call_written:
  assumes "onStreamCall sendable args (ps @ [e], False) gate = (returned, written, gate')"
    and "list_all (\<lambda>p. si_status p = Partial) ps" "si_status e \<noteq> Partial"
  shows "\<exists>its. written = encoded args 0 its \<and>
    (its = ps @ [e] \<or> (\<exists>ps' more errs. ps = ps' @ more \<and> its = ps' @ errs \<and> set errs \<subseteq> {sent_error})) \<and>
    ((\<forall>v. sendable v) \<and> gate_open gate \<longrightarrow> returned \<and> its = ps @ [e])"
proof -
  let ?start = "\<lparr>ss_sequence = 0, ss_terminalSent = False, ss_written = []\<rparr>"
  have "\<not> ss_terminalSent ?start" by simp
  from emitted [OF this assms(2), of sendable args e] obtain its ok st' more where
    raw: "emit_items sendable args (ps @ [e]) ?start = (ok, st')"
    "ss_written st' = ss_written ?start @ encoded args (ss_sequence ?start) its" "ss_sequence st' = ss_sequence ?start + length its"
    "ps @ [e] = its @ more" "ok \<longleftrightarrow> more = []" "ss_terminalSent st' \<longleftrightarrow> ok \<and> si_status e \<noteq> Partial"
    "(\<forall>v. sendable v) \<longrightarrow> ok"
    by blast
  then have e: "emit_items sendable args (ps @ [e]) ?start = (ok, st')"
    "ss_written st' = encoded args 0 its" "ss_sequence st' = length its"
    "ps @ [e] = its @ more" "ok \<longleftrightarrow> more = []" "ss_terminalSent st' \<longleftrightarrow> ok" "(\<forall>v. sendable v) \<longrightarrow> ok"
    using assms(3) by simp_all
  have run: "stream_run sendable args (ps @ [e], False) ?start = (ok, st')"
    using e(1,6) by (simp add: stream_run_def)
  show ?thesis
  proof (cases "gate_open gate")
    case False
    from emit_one [of ?start sent_error sendable args] closed_call [OF False assms(1)]
    obtain errs where errs: "set errs \<subseteq> {sent_error}" "written = encoded args 0 errs" by auto
    have "\<exists>ps' more es. ps = ps' @ more \<and> errs = ps' @ es \<and> set es \<subseteq> {sent_error}"
      by (rule exI [of _ "[]"], rule exI [of _ ps], rule exI [of _ errs]) (simp add: errs)
    with False errs(2) show ?thesis by blast
  next
    case True
    note o = open_call [OF True run assms(1)]
    show ?thesis
    proof (cases ok)
      case True
      with o e(2,4,5,6) show ?thesis by auto
    next
      case False
      then obtain errs where errs: "set errs \<subseteq> {sent_error}" "written = encoded args 0 (its @ errs)"
        using o e(2,3,6) emit_one [of st' sent_error sendable args] by auto
      have "ps = its @ butlast more" using e(4,5) False by (metis butlast_append butlast_snoc)
      with errs False e(7) show ?thesis by (intro exI [of _ "its @ errs"]) auto
    qed
  qed
qed

text \<open>A frame shows the text of its item and its status.\<close>

definition frame_text :: "response_frame \<Rightarrow> string" where
  "frame_text f = (case rf_result f of JStr t \<Rightarrow> t | _ \<Rightarrow> [])"

lemma decoded_item:
  assumes "faithful_wire wire" "si_result item = JUndef \<or> (\<exists>t. si_result item = JStr t)"
    and "decodeLifecycleResponse rt (wire (encodeLifecycleResponse s c t i item)) = Inr f"
  shows "frame_text f = item_text item \<and> rf_status f = status_name (si_status item)"
proof -
  let ?v = "encodeLifecycleResponse s c t i item"
  have w: "numericField (wire v) k = wire (numericField v k)" "\<not> is_object v \<Longrightarrow> wire v = v" for v k
    using assms(1) by (simp_all add: faithful_wire_def)
  have "numericField ?v 5 = si_result item" "numericField ?v 4 = JStr (status_name (si_status item))"
    by (auto simp: encodeLifecycleResponse_def numericField_def map_get_def Let_def split: option.splits)
  then have "numericField (wire ?v) 5 = si_result item" "numericField (wire ?v) 4 = JStr (status_name (si_status item))"
    using w assms(2) by auto
  then show ?thesis
    using assms(3) by (auto simp: decodeLifecycleResponse_def Let_def frame_text_def item_text_def split: if_splits)
qed

lemma decoded_items:
  assumes "faithful_wire wire" "\<forall>item \<in> set its. si_result item = JUndef \<or> (\<exists>t. si_result item = JStr t)"
    and "map (\<lambda>v. decodeLifecycleResponse rt (wire v)) (encoded args n its) = map Inr fs"
  shows "map frame_text fs = map item_text its \<and> map rf_status fs = map (\<lambda>item. status_name (si_status item)) its"
  using assms(2,3)
proof (induction its arbitrary: n fs)
  case (Cons item its)
  then obtain f fs' where "fs = f # fs'"
    "decodeLifecycleResponse rt (wire (encodeLifecycleResponse (sa_sessionId args) (sa_callId args) (sa_taskId args) n item)) = Inr f"
    "map (\<lambda>v. decodeLifecycleResponse rt (wire v)) (encoded args (Suc n) its) = map Inr fs'"
    by (auto simp: map_eq_Cons_conv)
  with Cons.IH [of "Suc n" fs'] Cons.prems(1) decoded_item [OF assms(1)] show ?case by simp
qed simp

lemma batch_props:
  "is_batch p \<Longrightarrow> si_status p = Partial \<and> (\<exists>t. si_result p = JStr t) \<and> item_event_ok p"
  "is_failure e \<Longrightarrow> si_status e \<noteq> Partial \<and> si_status e \<noteq> Success \<and> si_result e = JUndef \<and> item_event_ok e \<and> item_text e = []"
  "si_status (success_item n) = Success \<and> (\<exists>t. si_result (success_item n) = JStr t) \<and> item_event_ok (success_item n)"
  by (auto simp: is_batch_def is_failure_def partial_item_def success_item_def item_event_ok_def item_text_def)

lemma sent_error_failure: "is_failure sent_error"
  by (simp add: sent_error_def is_failure_def error_item_def)

lemma success_name: "status_name s = ''success'' \<longleftrightarrow> s = Success"
  by (cases s) simp_all

text \<open>
  C34 A client that streams a completion through the server reads what the provider says. However
  the body is cut into pieces and whenever the timer of a batch, the timeout or a failure comes: the
  frames the server writes decode and pass the client's validation; their texts, joined, are a part
  of the provider's text from its start on; if the last frame says success, the provider has said
  \<open>[DONE]\<close> and the text is all of it; and when it has, and the frames can be sent, the last
  frame does say success.
\<close>

theorem streamed_text_arrives:
  assumes "faithful_wire wire"
    and "openaiCompatStreamingHandler parse fetch opts task = (items, Some call)" "fetch call = StreamBody es"
    and "onStreamCall sendable args (items, False) gate = (returned, written, gate')"
  shows "\<exists>fs sq. map (\<lambda>v. decodeLifecycleResponse rt (wire v)) written = map Inr fs \<and>
    accept_all fs (new_sequence (sa_sessionId args) (sa_callId args) (sa_taskId args)) = Inr sq \<and>
    (returned \<longrightarrow> sequence_finish sq = None) \<and>
    (case provider_says parse (sk_intent task = ''urn:iicp:intent:llm:chat:v1'') es of (said, ended) \<Rightarrow>
       (\<exists>more. said = concat (map frame_text fs) @ more) \<and>
       (fs \<noteq> [] \<and> rf_status (last fs) = ''success'' \<longrightarrow> ended = Some True \<and> concat (map frame_text fs) = said) \<and>
       (ended = Some True \<and> (\<forall>v. sendable v) \<and> gate_open gate \<longrightarrow> fs \<noteq> [] \<and> rf_status (last fs) = ''success''))"
proof -
  obtain said ended where said: "provider_says parse (sk_intent task = ''urn:iicp:intent:llm:chat:v1'') es = (said, ended)"
    by fastforce
  have "items = body_run parse (sk_intent task = ''urn:iicp:intent:llm:chat:v1'') es sse_start"
    using assms(2,3) by (auto simp: openaiCompatStreamingHandler_def Let_def split: option.splits if_splits)
  then obtain ps e lost where items: "items = ps @ [e]" "list_all is_batch ps" "said = batch_text ps @ lost"
    and last: "if ended = Some True then lost = [] \<and> (\<exists>n. e = success_item n) else is_failure e"
    using stream_settles [of parse "sk_intent task = ''urn:iicp:intent:llm:chat:v1''" es] said by (auto simp: settles_def)
  have e: "si_status e \<noteq> Partial" "si_result e = JUndef \<or> (\<exists>t. si_result e = JStr t)" "item_event_ok e" "item_text e = []"
    "si_status e = Success \<longleftrightarrow> ended = Some True"
    using last batch_props by (auto split: if_splits)
  have ps: "list_all (\<lambda>p. si_status p = Partial) ps" "list_all item_event_ok (ps @ [e])"
    using items(2) e(3) batch_props(1) by (auto simp: list_all_iff)
  obtain its where its: "written = encoded args 0 its"
    "its = ps @ [e] \<or> (\<exists>ps' more errs. ps = ps' @ more \<and> its = ps' @ errs \<and> set errs \<subseteq> {sent_error})"
    "(\<forall>v. sendable v) \<and> gate_open gate \<longrightarrow> returned \<and> its = ps @ [e]"
    using call_written [OF assms(4) [unfolded items(1)] ps(1) e(1)] by blast
  obtain st where "stream_inv rt wire args st" "written = ss_written st" "returned \<Longrightarrow> ss_terminalSent st"
    using stream_call_inv [OF assms(1) ps(2), of rt args sendable False gate] assms(4) items(1) by (metis fst_conv snd_conv)
  then obtain fs sq where fs: "map (\<lambda>v. decodeLifecycleResponse rt (wire v)) written = map Inr fs"
    "accept_all fs (new_sequence (sa_sessionId args) (sa_callId args) (sa_taskId args)) = Inr sq"
    "returned \<longrightarrow> sequence_finish sq = None"
    by (auto simp: stream_inv_def sequence_finish_def)
  have "\<forall>item \<in> set its. si_result item = JUndef \<or> (\<exists>t. si_result item = JStr t)"
    using its(2) items(2) e(2) batch_props sent_error_failure by (fastforce simp: list_all_iff)
  then have t: "map frame_text fs = map item_text its" "map rf_status fs = map (\<lambda>item. status_name (si_status item)) its"
    using decoded_items [OF assms(1) _ fs(1) [unfolded its(1)]] by blast+
  have shown: "(\<exists>more. said = batch_text its @ more) \<and> (its \<noteq> [] \<and> si_status (last its) = Success \<longrightarrow> ended = Some True \<and> batch_text its = said)"
    using its(2)
  proof
    assume "its = ps @ [e]"
    then show ?thesis using items(3) e(4,5) last by auto
  next
    assume "\<exists>ps' more errs. ps = ps' @ more \<and> its = ps' @ errs \<and> set errs \<subseteq> {sent_error}"
    then obtain ps' more errs where p: "ps = ps' @ more" "its = ps' @ errs" "set errs \<subseteq> {sent_error}" by blast
    have none: "batch_text errs = []" using p(3) batch_props(2) [OF sent_error_failure] by (auto simp: concat_eq_Nil_conv)
    have "batch_text its = batch_text ps'" unfolding p(2) map_append concat_append none by simp
    then have "\<exists>more. said = batch_text its @ more" using p(1) items(3) by simp
    moreover have "si_status (last its) \<noteq> Success" if "its \<noteq> []"
      using last_in_set [OF that] p items(2) batch_props sent_error_failure by (fastforce simp: list_all_iff)
    ultimately show ?thesis by blast
  qed
  have ends: "fs \<noteq> [] \<and> rf_status (last fs) = ''success'' \<longleftrightarrow> its \<noteq> [] \<and> si_status (last its) = Success"
  proof (cases "its = []")
    case False
    then have "fs \<noteq> []" using t(2) by auto
    then have "rf_status (last fs) = last (map rf_status fs)" by (simp add: last_map)
    with False \<open>fs \<noteq> []\<close> show ?thesis unfolding t(2) by (simp add: last_map success_name)
  qed (use t(2) in simp)
  have "(\<exists>more. said = concat (map frame_text fs) @ more) \<and>
      (fs \<noteq> [] \<and> rf_status (last fs) = ''success'' \<longrightarrow> ended = Some True \<and> concat (map frame_text fs) = said) \<and>
      (ended = Some True \<and> (\<forall>v. sendable v) \<and> gate_open gate \<longrightarrow> fs \<noteq> [] \<and> rf_status (last fs) = ''success'')"
    unfolding ends t(1) using shown its(3) e(5) by auto
  with fs show ?thesis unfolding said prod.case by blast
qed

section \<open>Example\<close>

text \<open>A chunk that says \<open>hi\<close>, cut in two by the network, and the end of the answer.\<close>

definition sample_chunks :: "string \<Rightarrow> js option" where
  "sample_chunks t = (if t = ''1'' then Some (JObj [(''choices'', JArr [JObj [(''delta'', JObj [(''content'', JStr ''hi'')])]])])
     else None)"

definition sample_body :: "body_event list" where
  "sample_body = [BodyText ''da'', BodyText (''ta: 1'' @ [newline]), BatchTimer, BodyText (''data: [DONE]'' @ [newline]), BodyEnd]"

definition sample_stream_task :: stream_task where
  "sample_stream_task = \<lparr>sk_intent = ''urn:iicp:intent:llm:chat:v1'', sk_payload = JObj []\<rparr>"

lemma sample_said: "provider_says sample_chunks True sample_body = (''hi'', Some True)"
  by code_simp

theorem streamed_text_arrives_witness:
  "\<exists>items call returned written gate' fs.
     openaiCompatStreamingHandler sample_chunks (\<lambda>_. StreamBody sample_body)
       \<lparr>co_baseUrl = None, co_model = Some ''m'', co_apiKey = None\<rparr> sample_stream_task = (items, Some call) \<and>
     onStreamCall (\<lambda>_. True) \<lparr>sa_sessionId = ''s'', sa_callId = ''c'', sa_taskId = ''t''\<rparr> (items, False) None = (returned, written, gate') \<and>
     map (decodeLifecycleResponse \<lparr>rt_string = \<lambda>_. [], rt_number = \<lambda>_. NaN\<rparr>) written = map Inr fs \<and>
     concat (map frame_text fs) = ''hi'' \<and> rf_status (last fs) = ''success''"
proof -
  let ?opts = "\<lparr>co_baseUrl = None, co_model = Some ''m'', co_apiKey = None\<rparr>"
  let ?args = "\<lparr>sa_sessionId = ''s'', sa_callId = ''c'', sa_taskId = ''t''\<rparr>"
  have "snd (openaiCompatStreamingHandler sample_chunks (\<lambda>_. StreamBody sample_body) ?opts sample_stream_task) \<noteq> None"
    by code_simp
  then obtain items call where h: "openaiCompatStreamingHandler sample_chunks (\<lambda>_. StreamBody sample_body) ?opts sample_stream_task =
      (items, Some call)" by (metis not_None_eq prod.collapse)
  obtain returned written gate' where o: "onStreamCall (\<lambda>_. True) ?args (items, False) None = (returned, written, gate')"
    by (metis prod_cases3)
  have wire: "faithful_wire id" by (simp add: faithful_wire_def)
  have chat: "(sk_intent sample_stream_task = ''urn:iicp:intent:llm:chat:v1'') = True" by (simp add: sample_stream_task_def)
  show ?thesis
    using streamed_text_arrives [OF wire h refl o, of "\<lparr>rt_string = \<lambda>_. [], rt_number = \<lambda>_. NaN\<rparr>"] h o
    unfolding chat sample_said by (auto simp: gate_open_def)
qed

end
