(* ===== verification/Backends.thy ===== *)
theory Backends imports BackendStream Lifecycle RuntimeIdentity begin

text \<open>
  The backends that answer a task by one request to a provider: the OpenAI dialect
  (\<open>src/backends/base.ts\<close>) with the engines that share it, Anthropic's Messages API
  (\<open>src/backends/anthropic.ts\<close>), and the binding of an invocation to the cancellation registry of
  the service lifecycle. Bodies are byte strings. What happens while a request is under way, up to
  the moment it settles, is a list of events; an answer whose body cannot be read has none. Texts
  are ASCII, and the message of the JSON parser is left out.
\<close>

section \<open>Tasks, requests and answers\<close>

definition AUDIO_TRANSCRIBE_INTENT :: string where
  "AUDIO_TRANSCRIBE_INTENT = ''urn:iicp:intent:audio:transcribe:v1''"

definition AUDIO_SPEECH_INTENT :: string where
  "AUDIO_SPEECH_INTENT = ''urn:iicp:intent:audio:speech:v1''"

definition SAFETY_MODERATE_INTENT :: string where
  "SAFETY_MODERATE_INTENT = ''urn:iicp:intent:safety:moderate:v1''"

definition MODEL_OPTIONAL_INTENTS :: "string list" where
  "MODEL_OPTIONAL_INTENTS = [SAFETY_MODERATE_INTENT]"

definition INTENT_TO_PATH :: "(string \<times> string) list" where
  "INTENT_TO_PATH =
     [(''urn:iicp:intent:llm:chat:v1'', ''/chat/completions''),
      (''urn:iicp:intent:llm:completion:v1'', ''/completions''),
      (''urn:iicp:intent:llm:embedding:v1'', ''/embeddings''),
      (AUDIO_TRANSCRIBE_INTENT, ''/audio/transcriptions''),
      (AUDIO_SPEECH_INTENT, ''/audio/speech''),
      (SAFETY_MODERATE_INTENT, ''/moderations'')]"

definition sorted_intents :: "string list" where
  \<comment> \<open>\<open>Object.keys(INTENT_TO_PATH).sort()\<close>\<close>
  "sorted_intents =
     [AUDIO_SPEECH_INTENT, AUDIO_TRANSCRIBE_INTENT, ''urn:iicp:intent:llm:chat:v1'',
      ''urn:iicp:intent:llm:completion:v1'', ''urn:iicp:intent:llm:embedding:v1'', SAFETY_MODERATE_INTENT]"

record backend_task =
  bt_task_id :: "string option"
  bt_intent :: js
  bt_payload :: js
  bt_abortSignal :: "bool option"   \<comment> \<open>whether a signal that is given is aborted\<close>

datatype form_field = FormText string | FormFile string string

datatype request_body = JsonBody js | FormBody "(string \<times> form_field) list"

record backend_request =
  bq_url :: string
  bq_headers :: "(string \<times> string) list"
  bq_body :: request_body

datatype control_event = ExternalAbort | TimerFires

datatype fetched = Fetched nat "string option" "string option" | FetchRejects string

datatype backend_output = BackendError nat string | BackendResult js | BackendThrows

record backend_env =
  be_runtime :: js_runtime
  be_parse :: "string \<Rightarrow> js option"
  be_stringify :: "js \<Rightarrow> string"
  be_to_base64 :: "string \<Rightarrow> string"
  be_from_base64 :: "string \<Rightarrow> string"
  be_inherited :: "string \<Rightarrow> string"   \<comment> \<open>the text of a member that every object inherits\<close>
  be_fetch :: "backend_request \<Rightarrow> control_event list \<times> fetched"

text \<open>\<open>INTENT_TO_PATH[intent]\<close>, as text; a name that every object inherits is found as well.\<close>

definition intent_path :: "backend_env \<Rightarrow> string \<Rightarrow> string option" where
  "intent_path env intent =
     (case map_of INTENT_TO_PATH intent of
        Some p \<Rightarrow> Some p
      | None \<Rightarrow> if intent \<in> set inherited_names then Some (be_inherited env intent) else None)"

section \<open>The control of a request\<close>

record request_control =
  rc_external :: bool
  rc_timedOut :: bool
  rc_aborted :: bool

definition requestController :: "bool option \<Rightarrow> request_control" where
  "requestController external =
     \<lparr>rc_external = (external = Some True), rc_timedOut = False, rc_aborted = (external = Some True)\<rparr>"

definition control_step :: "bool option \<Rightarrow> control_event \<Rightarrow> request_control \<Rightarrow> request_control" where
  "control_step external e ctl =
     (case e of
        ExternalAbort \<Rightarrow> if external = None then ctl else ctl\<lparr>rc_external := True, rc_aborted := True\<rparr>
      | TimerFires \<Rightarrow> ctl\<lparr>rc_timedOut := True, rc_aborted := True\<rparr>)"

definition transportFailure :: "string \<Rightarrow> string \<Rightarrow> request_control \<Rightarrow> backend_output" where
  "transportFailure engine msg ctl =
     (if rc_external ctl then BackendError 499 (engine @ '': backend request cancelled'')
      else if rc_timedOut ctl then BackendError 408 (engine @ '': backend timed out'')
      else BackendError 502 (engine @ '': HTTP transport error: '' @ msg))"

definition upstream_failure :: "string \<Rightarrow> nat \<Rightarrow> string option \<Rightarrow> backend_output" where
  "upstream_failure engine code body =
     BackendError code (engine @ '': upstream '' @ digits code @ '': '' @ take 512 (or_else body []))"

text \<open>The request, and how an answer of status 2xx is read: its content type and its body.\<close>

definition run_request ::
  "backend_env \<Rightarrow> string \<Rightarrow> bool option \<Rightarrow> backend_request \<Rightarrow> (string option \<Rightarrow> string option \<Rightarrow> backend_output) \<Rightarrow>
   backend_output \<times> backend_request option" where
  "run_request env engine external rq read =
     ((case be_fetch env rq of
         (events, FetchRejects msg) \<Rightarrow>
           transportFailure engine msg (fold (control_step external) events (requestController external))
       | (_, Fetched code ctype body) \<Rightarrow>
           if code < 200 \<or> 299 < code then upstream_failure engine code body else read ctype body), Some rq)"

section \<open>The OpenAI dialect\<close>

definition type_name :: "js \<Rightarrow> string" where
  "type_name v = (case v of JUndef \<Rightarrow> ''undefined'' | JBool _ \<Rightarrow> ''boolean'' | JNum _ \<Rightarrow> ''number'' | JStr _ \<Rightarrow> ''string''
     | _ \<Rightarrow> ''object'')"

definition bad_payload :: "js \<Rightarrow> bool" where
  "bad_payload payload = (\<not> nullish payload \<and> (\<not> is_object payload \<or> (\<exists>xs. payload = JArr xs)))"

lemma bad_payload_code [code]:
  "bad_payload payload = (\<not> nullish payload \<and> (\<not> is_object payload \<or> (case payload of JArr _ \<Rightarrow> True | _ \<Rightarrow> False)))"
  by (auto simp: bad_payload_def split: js.splits)

definition bearer :: "string \<Rightarrow> (string \<times> string) list" where
  "bearer apiKey = (if apiKey = [] then [] else [(''Authorization'', ''Bearer '' @ apiKey)])"

definition as_text :: "js \<Rightarrow> string option" where
  "as_text v = (case v of JStr s \<Rightarrow> Some s | _ \<Rightarrow> None)"

definition requested_model :: "js \<Rightarrow> string option \<Rightarrow> string option" where
  "requested_model p model = (case as_text (own_property p ''model'') of Some m \<Rightarrow> Some m | None \<Rightarrow> model)"

definition base64_char :: "char \<Rightarrow> bool" where
  "base64_char c = (word_char c \<or> c = CHR ''+'' \<or> c = CHR ''/'')"

definition base64_shape :: "string \<Rightarrow> bool" where
  "base64_shape s =
     (takeWhile base64_char s \<noteq> [] \<and> dropWhile base64_char s \<in> set [[], ''='', ''==''] \<and> length s mod 4 = 0)"

definition given_fields :: "js \<Rightarrow> string list \<Rightarrow> (string \<times> js) list" where
  "given_fields p ks = map (\<lambda>k. (k, own_property p k)) (filter (\<lambda>k. \<not> nullish (own_property p k)) ks)"

definition transcribe_form :: "backend_env \<Rightarrow> js \<Rightarrow> string option \<Rightarrow> string \<Rightarrow> (string \<times> form_field) list" where
  "transcribe_form env p model audio =
     [(''file'', FormFile (or_else (as_text (own_property p ''filename'')) ''audio.wav'') (be_from_base64 env audio))] @
     (case requested_model p model of
        None \<Rightarrow> [] | Some m \<Rightarrow> if m = [] then [] else [(''model'', FormText m)]) @
     map (\<lambda>(k, v). (k, FormText (String_of (be_runtime env) v)))
       (given_fields p [''language'', ''response_format'', ''prompt'', ''temperature'']) @
     (if nullish (own_property p ''response_format'') then [(''response_format'', FormText ''json'')] else [])"

definition transcribe ::
  "backend_env \<Rightarrow> string \<Rightarrow> string \<Rightarrow> string option \<Rightarrow> string \<Rightarrow> js \<Rightarrow> bool option \<Rightarrow> backend_output \<times> backend_request option" where
  "transcribe env engine url model apiKey p external =
     (case coalesce (own_property p ''audio'') (own_property p ''audio_b64'') of
        JStr audio \<Rightarrow>
          if audio = [] then (BackendError 400 (engine @ '': audio:transcribe requires payload.audio (base64-encoded audio bytes)''), None)
          else if \<not> base64_shape (js_trim audio) then (BackendError 400 (engine @ '': payload.audio is not valid base64''), None)
          else run_request env engine external
                 \<lparr>bq_url = url, bq_headers = bearer apiKey, bq_body = FormBody (transcribe_form env p model (js_trim audio))\<rparr>
                 (\<lambda>_ body. case body of
                    None \<Rightarrow> BackendThrows
                  | Some t \<Rightarrow> (case be_parse env t of
                        Some v \<Rightarrow> BackendResult v | None \<Rightarrow> BackendResult (JObj [(''text'', JStr t)])))
      | _ \<Rightarrow> (BackendError 400 (engine @ '': audio:transcribe requires payload.audio (base64-encoded audio bytes)''), None))"

definition speech_body :: "js \<Rightarrow> string option \<Rightarrow> string \<Rightarrow> (string \<times> js) list" where
  "speech_body p model input =
     [(''input'', JStr input)] @
     (case requested_model p model of None \<Rightarrow> [] | Some m \<Rightarrow> if m = [] then [] else [(''model'', JStr m)]) @
     given_fields p [''voice'', ''response_format'', ''speed''] @
     (if nullish (own_property p ''voice'') then [(''voice'', JStr ''alloy'')] else [])"

definition speech ::
  "backend_env \<Rightarrow> string \<Rightarrow> string \<Rightarrow> string option \<Rightarrow> string \<Rightarrow> js \<Rightarrow> bool option \<Rightarrow> backend_output \<times> backend_request option" where
  "speech env engine url model apiKey p external =
     (case own_property p ''input'' of
        JStr input \<Rightarrow>
          if input = [] then (BackendError 400 (engine @ '': audio:speech requires payload.input (text to synthesize)''), None)
          else
            let body = speech_body p model input in
            run_request env engine external
              \<lparr>bq_url = url, bq_headers = (''Content-Type'', ''application/json'') # bearer apiKey, bq_body = JsonBody (JObj body)\<rparr>
              (\<lambda>ctype bytes. case bytes of
                 None \<Rightarrow> BackendThrows
               | Some b \<Rightarrow>
                   let contentType = or_else ctype ''audio/mpeg'' in
                   BackendResult (JObj [(''audio'', JStr (be_to_base64 env b)), (''content_type'', JStr contentType),
                     (''format'', coalesce (own_property (JObj body) ''response_format'')
                        (JStr (last (split_on (CHR ''/'') contentType))))]))
      | _ \<Rightarrow> (BackendError 400 (engine @ '': audio:speech requires payload.input (text to synthesize)''), None))"

definition dialect_body :: "js \<Rightarrow> string option \<Rightarrow> (string \<times> js) list" where
  "dialect_body payload model =
     (let body = spread [] payload in
      case model of
        Some m \<Rightarrow> if own_property (JObj body) ''model'' = JUndef then AList.update ''model'' (JStr m) body else body
      | None \<Rightarrow> body)"

definition complete_json ::
  "backend_env \<Rightarrow> string \<Rightarrow> string \<Rightarrow> string \<Rightarrow> string option \<Rightarrow> string \<Rightarrow> js \<Rightarrow> bool option \<Rightarrow>
   backend_output \<times> backend_request option" where
  "complete_json env engine intent url model apiKey payload external =
     (let body = dialect_body payload model in
      if \<not> truthy (own_property (JObj body) ''model'') \<and> intent \<notin> set MODEL_OPTIONAL_INTENTS
      then (BackendError 400 (engine @ '': no model - either pass `model` to the backend factory or include `model` in the task payload''), None)
      else run_request env engine external
             \<lparr>bq_url = url, bq_headers = (''Content-Type'', ''application/json'') # bearer apiKey, bq_body = JsonBody (JObj body)\<rparr>
             (\<lambda>_ bytes. case (case bytes of None \<Rightarrow> None | Some b \<Rightarrow> be_parse env b) of
                None \<Rightarrow> BackendError 502 (engine @ '': upstream returned non-JSON'')
              | Some v \<Rightarrow> BackendResult v))"

record backend_options =
  bo_baseUrl :: "string option"
  bo_model :: "string option"
  bo_apiKey :: "string option"

definition buildOpenAiDialectHandler ::
  "backend_env \<Rightarrow> string \<Rightarrow> string \<Rightarrow> string option \<Rightarrow> string \<Rightarrow> backend_task \<Rightarrow> backend_output \<times> backend_request option" where
  "buildOpenAiDialectHandler env engine baseUrlRaw model apiKey task =
     (let baseUrl = strip_suffix (CHR ''/'') baseUrlRaw;
          intent = String_of (be_runtime env) (coalesce (bt_intent task) (JStr []));
          payload = bt_payload task
      in if bad_payload payload
         then (BackendError 400 (engine @ '': task.payload must be a dict, got '' @ type_name payload), None)
         else case intent_path env intent of
           None \<Rightarrow> (BackendError 400 (engine @ '': unsupported intent '' @ be_stringify env (JStr intent) @ ''; supported: '' @
                     be_stringify env (JArr (map JStr sorted_intents))), None)
         | Some path \<Rightarrow>
             if intent = AUDIO_TRANSCRIBE_INTENT
             then transcribe env engine (baseUrl @ path) model apiKey (coalesce payload (JObj [])) (bt_abortSignal task)
             else if intent = AUDIO_SPEECH_INTENT
             then speech env engine (baseUrl @ path) model apiKey (coalesce payload (JObj [])) (bt_abortSignal task)
             else complete_json env engine intent (baseUrl @ path) model apiKey payload (bt_abortSignal task))"

definition engine_handler ::
  "string \<Rightarrow> string \<Rightarrow> backend_env \<Rightarrow> backend_options \<Rightarrow> backend_task \<Rightarrow> backend_output \<times> backend_request option" where
  "engine_handler engine defaultUrl env opts task =
     buildOpenAiDialectHandler env engine (or_else (bo_baseUrl opts) defaultUrl) (bo_model opts) (or_else (bo_apiKey opts) []) task"

definition openaiCompatHandler :: "backend_env \<Rightarrow> backend_options \<Rightarrow> backend_task \<Rightarrow> backend_output \<times> backend_request option" where
  "openaiCompatHandler = engine_handler ''openai_compat'' ''http://localhost:11434/v1''"

definition vllmHandler :: "backend_env \<Rightarrow> backend_options \<Rightarrow> backend_task \<Rightarrow> backend_output \<times> backend_request option" where
  "vllmHandler = engine_handler ''vllm'' ''http://localhost:8000/v1''"

definition llamacppHandler :: "backend_env \<Rightarrow> backend_options \<Rightarrow> backend_task \<Rightarrow> backend_output \<times> backend_request option" where
  "llamacppHandler = engine_handler ''llamacpp'' ''http://localhost:8080/v1''"

definition meshllmHandler :: "backend_env \<Rightarrow> backend_options \<Rightarrow> backend_task \<Rightarrow> backend_output \<times> backend_request option" where
  "meshllmHandler env opts task =
     (if bt_intent task \<noteq> JStr ''urn:iicp:intent:llm:chat:v1''
      then (BackendError 400 ''MeshLLM stable backend supports llm:chat:v1 only'', None)
      else engine_handler ''meshllm'' ''http://localhost:9337/v1'' env opts task)"

section \<open>Anthropic's Messages API\<close>

text \<open>One part of a message's content: \<open>None\<close> throws, \<open>Some []\<close> drops the part.\<close>

definition image_block :: "js \<Rightarrow> js list option" where
  "image_block url =
     (case url of
        JStr u \<Rightarrow>
          if starts_with u ''data:''
          then (if CHR '','' \<notin> set u then Some []
                else
                  let header = takeWhile (\<lambda>c. c \<noteq> CHR '','') u;
                      b64 = drop (length header + 1) u;
                      mediaType = hd (split_on (CHR '';'') (drop 5 header))
                  in Some [JObj [(''type'', JStr ''image''), (''source'', JObj
                       [(''type'', JStr ''base64''), (''media_type'', JStr (if mediaType = [] then ''image/png'' else mediaType)),
                        (''data'', JStr b64)])]])
          else if u = [] then Some []
          else Some [JObj [(''type'', JStr ''image''), (''source'', JObj [(''type'', JStr ''url''), (''url'', JStr u)])]]
      | _ \<Rightarrow> None)"

definition content_part :: "js \<Rightarrow> js list option" where
  "content_part part =
     (if \<not> is_object part then Some []
      else if own_property part ''type'' = JStr ''text''
      then Some [JObj [(''type'', JStr ''text''), (''text'', coalesce (own_property part ''text'') (JStr []))]]
      else if own_property part ''type'' = JStr ''image_url''
      then image_block (coalesce (own_property (own_property part ''image_url'') ''url'') (JStr []))
      else Some [])"

fun content_parts :: "js list \<Rightarrow> js list option" where
  "content_parts [] = Some []"
| "content_parts (p # ps) =
     (case content_part p of
        None \<Rightarrow> None
      | Some bs \<Rightarrow> (case content_parts ps of None \<Rightarrow> None | Some bs' \<Rightarrow> Some (bs @ bs')))"

definition toAnthropicContent :: "js \<Rightarrow> js option" where
  "toAnthropicContent content =
     (case content of JArr parts \<Rightarrow> map_option JArr (content_parts parts) | _ \<Rightarrow> Some content)"

definition system_parts :: "js_runtime \<Rightarrow> js \<Rightarrow> js list" where
  "system_parts rt content =
     (case content of
        JStr s \<Rightarrow> [JStr s]
      | JArr ps \<Rightarrow> map (\<lambda>p. coalesce (own_property p ''text'') (JStr [])) (filter (\<lambda>p. own_property p ''type'' = JStr ''text'') ps)
      | _ \<Rightarrow> [])"

fun split_messages :: "js_runtime \<Rightarrow> js list \<Rightarrow> (js list \<times> js list) option" where
  \<comment> \<open>the parts of the system messages, and the other messages\<close>
  "split_messages rt [] = Some ([], [])"
| "split_messages rt (m # ms) =
     (if \<not> is_object m then split_messages rt ms
      else if own_property m ''role'' = JStr ''system''
      then map_option (\<lambda>(sys, msgs). (system_parts rt (own_property m ''content'') @ sys, msgs)) (split_messages rt ms)
      else case toAnthropicContent (own_property m ''content'') of
          None \<Rightarrow> None
        | Some c \<Rightarrow> map_option (\<lambda>(sys, msgs). (sys, JObj [(''role'', own_property m ''role''), (''content'', c)] # msgs))
                     (split_messages rt ms))"

fun join_texts :: "string \<Rightarrow> string list \<Rightarrow> string" where
  "join_texts sep [] = []"
| "join_texts sep [s] = s"
| "join_texts sep (s # t # ts) = s @ sep @ join_texts sep (t # ts)"

definition own_or_none :: "js \<Rightarrow> string \<Rightarrow> (string \<times> js) list" where
  "own_or_none p k = (if own_property p k = JUndef then [] else [(k, own_property p k)])"

definition toAnthropicRequest :: "js_runtime \<Rightarrow> js \<Rightarrow> string option \<Rightarrow> js \<Rightarrow> (string \<times> js) list option" where
  "toAnthropicRequest rt payload model defaultMaxTokens =
     (case split_messages rt (case own_property payload ''messages'' of JArr ms \<Rightarrow> ms | _ \<Rightarrow> []) of
        None \<Rightarrow> None
      | Some (sys, msgs) \<Rightarrow>
          let system = join_texts [newline, newline] (map (String_of rt) (filter truthy sys));
              mt = own_property payload ''max_tokens'';
              stop = own_property payload ''stop''
          in Some ([(''model'', coalesce (own_property payload ''model'') (js_option model)), (''messages'', JArr msgs)] @
               (if system = [] then [] else [(''system'', JStr system)]) @
               [(''max_tokens'', if truthy mt \<and> num_less (Fin 0) (Number_of rt mt) then mt else defaultMaxTokens)] @
               own_or_none payload ''temperature'' @ own_or_none payload ''top_p'' @
               (if nullish stop then []
                else [(''stop_sequences'', case stop of JStr s \<Rightarrow> JArr [JStr s] | v \<Rightarrow> v)])))"

definition STOP_REASON_TO_FINISH :: "(string \<times> string) list" where
  "STOP_REASON_TO_FINISH =
     [(''end_turn'', ''stop''), (''stop_sequence'', ''stop''), (''max_tokens'', ''length''), (''tool_use'', ''tool_calls'')]"

definition finish_reason :: "js_runtime \<Rightarrow> js \<Rightarrow> js" where
  \<comment> \<open>an inherited name gives a member that JSON leaves out\<close>
  "finish_reason rt reason =
     (let k = String_of rt reason in
      case map_of STOP_REASON_TO_FINISH k of
        Some f \<Rightarrow> JStr f
      | None \<Rightarrow> if k \<in> set inherited_names then JUndef else JStr ''stop'')"

fun num_plus :: "number \<Rightarrow> number \<Rightarrow> number" where
  "num_plus (Fin a) (Fin b) = Fin (a + b)"
| "num_plus NaN _ = NaN"
| "num_plus _ NaN = NaN"
| "num_plus PosInfinity NegInfinity = NaN"
| "num_plus NegInfinity PosInfinity = NaN"
| "num_plus PosInfinity _ = PosInfinity"
| "num_plus _ PosInfinity = PosInfinity"
| "num_plus NegInfinity _ = NegInfinity"
| "num_plus _ NegInfinity = NegInfinity"

definition js_plus :: "js_runtime \<Rightarrow> js \<Rightarrow> js \<Rightarrow> js" where
  \<comment> \<open>\<open>a + b\<close>: a text on either side makes it a concatenation\<close>
  "js_plus rt a b =
     (let textual = (\<lambda>v. is_object v \<or> as_text v \<noteq> None) in
      if textual a \<or> textual b then JStr (String_of rt a @ String_of rt b)
      else JNum (num_plus (Number_of rt a) (Number_of rt b)))"

definition toOpenAiResponse :: "js_runtime \<Rightarrow> js \<Rightarrow> js" where
  "toOpenAiResponse rt data =
     (let blocks = (case own_property data ''content'' of JArr bs \<Rightarrow> bs | _ \<Rightarrow> []);
          texts = map (\<lambda>b. coalesce (own_property b ''text'') (JStr [])) (filter (\<lambda>b. own_property b ''type'' = JStr ''text'') blocks);
          usage = coalesce (own_property data ''usage'') (JObj []);
          promptTokens = coalesce (own_property usage ''input_tokens'') (jint 0);
          completionTokens = coalesce (own_property usage ''output_tokens'') (jint 0)
      in JObj [(''id'', coalesce (own_property data ''id'') (JStr [])), (''object'', JStr ''chat.completion''),
           (''model'', coalesce (own_property data ''model'') (JStr [])),
           (''choices'', JArr [JObj [(''index'', jint 0),
              (''message'', JObj [(''role'', JStr ''assistant''), (''content'', JStr (concat (map (String_of rt) texts)))]),
              (''finish_reason'', finish_reason rt (own_property data ''stop_reason''))]]),
           (''usage'', JObj [(''prompt_tokens'', promptTokens), (''completion_tokens'', completionTokens),
              (''total_tokens'', js_plus rt promptTokens completionTokens)])])"

record anthropic_options =
  ao_base :: backend_options
  ao_version :: "string option"
  ao_defaultMaxTokens :: "js option"

text \<open>Its own timer is the only thing that aborts the request: the task's signal is not used.\<close>

definition anthropicHandler :: "backend_env \<Rightarrow> anthropic_options \<Rightarrow> backend_task \<Rightarrow> backend_output \<times> backend_request option" where
  "anthropicHandler env opts task =
     (let rt = be_runtime env;
          baseUrl = strip_suffix (CHR ''/'') (or_else (bo_baseUrl (ao_base opts)) ''https://api.anthropic.com/v1'');
          apiKey = or_else (bo_apiKey (ao_base opts)) [];
          headers = [(''Content-Type'', ''application/json''), (''anthropic-version'', or_else (ao_version opts) ''2023-06-01'')] @
            (if apiKey = [] then [] else [(''x-api-key'', apiKey)]);
          intent = String_of rt (coalesce (bt_intent task) (JStr []));
          payload = bt_payload task
      in if intent \<noteq> ''urn:iicp:intent:llm:chat:v1''
         then (BackendError 400 (''anthropic: unsupported intent '' @ be_stringify env (JStr intent) @
                 ''; the Messages API serves only urn:iicp:intent:llm:chat:v1''), None)
         else if bad_payload payload
         then (BackendError 400 (''anthropic: task.payload must be a dict, got '' @ type_name payload), None)
         else case toAnthropicRequest rt (coalesce payload (JObj [])) (bo_model (ao_base opts)) (or_else (ao_defaultMaxTokens opts) (jint 4096)) of
           None \<Rightarrow> (BackendThrows, None)
         | Some body \<Rightarrow>
             if \<not> truthy (own_property (JObj body) ''model'')
             then (BackendError 400 ''anthropic: no model - pass `model` to the backend factory or include `model` in the task payload'', None)
             else run_request env ''anthropic'' None \<lparr>bq_url = baseUrl @ ''/messages'', bq_headers = headers, bq_body = JsonBody (JObj body)\<rparr>
                    (\<lambda>_ bytes. case (case bytes of None \<Rightarrow> None | Some b \<Rightarrow> be_parse env b) of
                       None \<Rightarrow> BackendError 502 ''anthropic: upstream returned non-JSON''
                     | Some JNull \<Rightarrow> BackendThrows
                     | Some v \<Rightarrow> BackendResult (toOpenAiResponse rt v)))"

section \<open>Cancellation\<close>

text \<open>
  \<open>withBackendCancellation\<close>: the invocation of a backend for a task with an id, between the
  registration of its controller and its completion. The controller is a number of the
  invocation; a request to cancel that reaches it aborts it. While the provider's request is
  under way the registry is asked to cancel tasks, and the timer may fire.
\<close>

datatype invocation_event = CancelTask string string | TimeoutFires

type_synonym registry = "nat cancellation_registry"

definition cancel_request :: "string \<Rightarrow> string \<Rightarrow> registry \<Rightarrow> registry" where
  \<comment> \<open>every handler aborts its controller and returns \<open>true\<close>\<close>
  "cancel_request taskId state reg = snd (request (\<lambda>_ r. (Some False, r)) taskId state reg)"

definition cancel_reaches :: "string \<Rightarrow> string \<Rightarrow> registry \<Rightarrow> nat option" where
  \<comment> \<open>the controller that \<open>request\<close> aborts\<close>
  "cancel_reaches taskId state reg =
     (if is_terminal state \<or> taskId \<in> set (cr_signalled reg) then None else map_of (cr_handlers reg) taskId)"

fun invocation_events :: "nat \<Rightarrow> invocation_event list \<Rightarrow> registry \<Rightarrow> control_event list \<times> registry" where
  "invocation_events self [] reg = ([], reg)"
| "invocation_events self (TimeoutFires # es) reg =
     (case invocation_events self es reg of (cs, reg') \<Rightarrow> (TimerFires # cs, reg'))"
| "invocation_events self (CancelTask t st # es) reg =
     (case invocation_events self es (cancel_request t st reg) of
        (cs, reg') \<Rightarrow> ((if cancel_reaches t st reg = Some self then [ExternalAbort] else []) @ cs, reg'))"

text \<open>
  The world gives, for the request that is sent, what happens until it settles, how it settles and
  what happens while the body of the answer is read; nothing happens when none is sent.
\<close>

type_synonym backend_world = "backend_request \<Rightarrow> invocation_event list \<times> fetched \<times> invocation_event list"

definition invocation_env :: "backend_env \<Rightarrow> backend_world \<Rightarrow> nat \<Rightarrow> registry \<Rightarrow> backend_env" where
  "invocation_env env world self reg =
     env\<lparr>be_fetch := \<lambda>rq. (case world rq of (before, answer, _) \<Rightarrow> (fst (invocation_events self before reg), answer))\<rparr>"

definition registry_after :: "backend_world \<Rightarrow> nat \<Rightarrow> backend_request option \<Rightarrow> registry \<Rightarrow> registry" where
  "registry_after world self sent reg =
     (case sent of
        None \<Rightarrow> reg
      | Some rq \<Rightarrow> (case world rq of (before, _, later) \<Rightarrow> snd (invocation_events self (before @ later) reg)))"

definition withBackendCancellation ::
  "(backend_env \<Rightarrow> backend_task \<Rightarrow> backend_output \<times> backend_request option) \<Rightarrow> backend_env \<Rightarrow> backend_world \<Rightarrow>
   nat \<Rightarrow> backend_task \<Rightarrow> registry \<Rightarrow> backend_output \<times> registry" where
  "withBackendCancellation handler env world self task reg =
     (if \<not> present (bt_task_id task)
      then (case handler (invocation_env env world self reg) task of
              (result, sent) \<Rightarrow> (result, registry_after world self sent reg))
      else
        let taskId = the (bt_task_id task);
            reg1 = register_handler taskId self reg;
            (result, sent) = handler (invocation_env env world self reg1) (task\<lparr>bt_abortSignal := Some False\<rparr>);
            reg2 = registry_after world self sent reg1;
            reg3 = (case result of
                      BackendError code _ \<Rightarrow> if code = 499 then snd (report taskId TransportAborted reg2) else reg2
                    | _ \<Rightarrow> reg2)
        in (result, snd (complete taskId None reg3)))"

end
