(* ===== verification/BackendSafety.thy ===== *)
theory BackendSafety imports Backends begin

text \<open>
  What the backends promise: an invocation bound to the cancellation registry reports truly how it
  ended, and a task of the OpenAI dialect reaches the provider as it is.
\<close>

section \<open>A cancelled invocation\<close>

lemma remember_simps [simp]:
  "cr_handlers (remember ev cr) = cr_handlers cr" "cr_signalled (remember ev cr) = cr_signalled cr"
  "map_of (cr_evidence (remember ev cr)) (ce_task_id ev) = Some ev"
  by (simp_all add: remember_def Let_def map_of_js_set)

lemma report_simps [simp]:
  "cr_handlers (snd (report t l cr)) = cr_handlers cr" "cr_signalled (snd (report t l cr)) = cr_signalled cr"
  by (simp_all add: report_def Let_def)

lemma complete_simps [simp]:
  "cr_handlers (snd (complete t l cr)) = AList.delete t (cr_handlers cr)"
  "cr_signalled (snd (complete t l cr)) = set_remove t (cr_signalled cr)"
  by (simp_all add: complete_def Let_def)

lemma reported_evidence:
  "map_of (cr_evidence (snd (complete t None (snd (report t l cr))))) t =
     Some \<lparr>ce_task_id = t, ce_outcome = l, ce_cleanup_complete = True\<rparr>"
proof -
  let ?cr = "snd (report t l cr)"
  have e: "map_of (cr_evidence ?cr) t = Some (fst (report t l cr))"
    using remember_simps(3) [of "fst (report t l cr)" cr] by (simp add: report_def Let_def)
  have o: "ce_outcome (fst (report t l cr)) = l" by (simp add: report_def Let_def)
  show ?thesis
    using remember_simps(3) [of "\<lparr>ce_task_id = t, ce_outcome = l, ce_cleanup_complete = True\<rparr>"]
    by (simp add: complete_def Let_def e o)
qed

text \<open>A request to cancel touches its own task only, and never registers a handler.\<close>

lemma cancel_request_effect:
  "map_of (cr_handlers (cancel_request t st reg)) t' =
     (if t' = t \<and> (is_terminal st \<or> t \<notin> set (cr_signalled reg) \<and> map_of (cr_handlers reg) t = None) then None
      else map_of (cr_handlers reg) t')"
  by (auto simp: cancel_request_def request_def Let_def map_of_js_delete split: option.splits)

lemma cancel_request_signalled:
  "t' \<noteq> t \<Longrightarrow> t' \<in> set (cr_signalled (cancel_request t st reg)) \<longleftrightarrow> t' \<in> set (cr_signalled reg)"
  by (auto simp: cancel_request_def request_def Let_def set_remove_def split: option.splits)

fun first_cancel :: "string \<Rightarrow> invocation_event list \<Rightarrow> string option" where
  "first_cancel t [] = None"
| "first_cancel t (CancelTask u st # es) = (if u = t then Some st else first_cancel t es)"
| "first_cancel t (TimeoutFires # es) = first_cancel t es"

definition cancelled :: "string \<Rightarrow> invocation_event list \<Rightarrow> bool" where
  "cancelled t es = (case first_cancel t es of None \<Rightarrow> False | Some st \<Rightarrow> \<not> is_terminal st)"

definition controls_none_but :: "string \<Rightarrow> nat \<Rightarrow> registry \<Rightarrow> bool" where
  "controls_none_but t self reg = (\<forall>u. u \<noteq> t \<longrightarrow> map_of (cr_handlers reg) u \<noteq> Some self)"

lemma controls_kept: "controls_none_but t self reg \<Longrightarrow> controls_none_but t self (cancel_request u st reg)"
  by (simp add: controls_none_but_def cancel_request_effect)

lemma unregistered_not_reached:
  assumes "controls_none_but t self reg" "map_of (cr_handlers reg) t = None"
  shows "ExternalAbort \<notin> set (fst (invocation_events self es reg))"
  using assms
proof (induction self es reg rule: invocation_events.induct)
  case (3 self u st es reg)
  have "cancel_reaches u st reg \<noteq> Some self"
    using 3(2,3) by (cases "u = t") (auto simp: cancel_reaches_def controls_none_but_def)
  moreover have "ExternalAbort \<notin> set (fst (invocation_events self es (cancel_request u st reg)))"
    using 3 by (intro 3(1) controls_kept) (simp_all add: cancel_request_effect)
  ultimately show ?case by (simp split: prod.splits)
qed (auto split: prod.splits)

lemma reached_iff:
  assumes "controls_none_but t self reg" "map_of (cr_handlers reg) t = Some self" "t \<notin> set (cr_signalled reg)"
  shows "ExternalAbort \<in> set (fst (invocation_events self es reg)) \<longleftrightarrow> cancelled t es"
  using assms
proof (induction self es reg rule: invocation_events.induct)
  case (3 self u st es reg)
  show ?case
  proof (cases "u = t")
    case True
    show ?thesis
    proof (cases "is_terminal st")
      case fin: True
      have "ExternalAbort \<notin> set (fst (invocation_events self es (cancel_request u st reg)))"
        using 3(2) True fin by (intro unregistered_not_reached [of t] controls_kept) (simp_all add: cancel_request_effect)
      with True fin show ?thesis by (simp add: cancelled_def cancel_reaches_def split: prod.splits)
    next
      case False
      with True 3(3,4) show ?thesis by (simp add: cancelled_def cancel_reaches_def split: prod.splits)
    qed
  next
    case False
    have "ExternalAbort \<in> set (fst (invocation_events self es (cancel_request u st reg))) \<longleftrightarrow> cancelled t es"
      using 3 False by (intro 3(1) controls_kept) (auto simp: cancel_request_effect cancel_request_signalled)
    moreover have "cancel_reaches u st reg \<noteq> Some self" using 3(2) False by (auto simp: cancel_reaches_def controls_none_but_def)
    ultimately show ?thesis using False by (simp add: cancelled_def split: prod.splits)
  qed
qed (auto simp: cancelled_def split: prod.splits)

lemma timer_iff: "TimerFires \<in> set (fst (invocation_events self es reg)) \<longleftrightarrow> TimeoutFires \<in> set es"
  by (induction self es reg rule: invocation_events.induct) (auto split: prod.splits)

lemma control_after:
  "rc_external (fold (control_step (Some b)) cs ctl) \<longleftrightarrow> rc_external ctl \<or> ExternalAbort \<in> set cs"
  "rc_timedOut (fold (control_step (Some b)) cs ctl) \<longleftrightarrow> rc_timedOut ctl \<or> TimerFires \<in> set cs"
  by (induction cs arbitrary: ctl) (auto simp: control_step_def split: control_event.splits)

text \<open>The dialect's output comes from the one request it sends, or is a refusal of the task.\<close>

definition reads_no_499 :: "(string option \<Rightarrow> string option \<Rightarrow> backend_output) \<Rightarrow> bool" where
  "reads_no_499 read = (\<forall>c b m. read c b \<noteq> BackendError 499 m)"

definition refused_or_run :: "backend_env \<Rightarrow> string \<Rightarrow> bool option \<Rightarrow> backend_output \<times> backend_request option \<Rightarrow> bool" where
  "refused_or_run env engine external r =
     ((\<exists>m. r = (BackendError 400 m, None)) \<or> (\<exists>rq read. r = run_request env engine external rq read \<and> reads_no_499 read))"

lemma refused_intro [intro]: "refused_or_run env engine external (BackendError 400 m, None)"
  by (auto simp: refused_or_run_def)

lemma run_intro [intro]: "reads_no_499 read \<Longrightarrow> refused_or_run env engine external (run_request env engine external rq read)"
  by (auto simp: refused_or_run_def)

lemma dialect_refused_or_run:
  "refused_or_run env engine (bt_abortSignal task) (buildOpenAiDialectHandler env engine url model key task)"
proof -
  have t: "refused_or_run env engine s (transcribe env engine u model key p s)" for u p s
    unfolding transcribe_def
    by (auto split: js.splits intro!: run_intro refused_intro simp: reads_no_499_def split: option.splits)
  have sp: "refused_or_run env engine s (speech env engine u model key p s)" for u p s
    unfolding speech_def Let_def
    by (auto split: js.splits intro!: run_intro refused_intro simp: reads_no_499_def Let_def split: option.splits)
  have c: "refused_or_run env engine s (complete_json env engine i u model key p s)" for i u p s
    unfolding complete_json_def Let_def
    by (auto intro!: run_intro refused_intro simp: reads_no_499_def split: option.splits)
  show ?thesis
    unfolding buildOpenAiDialectHandler_def Let_def
    using t sp c by (auto split: option.splits)
qed


text \<open>A provider that answers 499 of its own accord is taken for an aborted transport.\<close>

lemma upstream_499_is_aborted:
  assumes "run_request env engine external rq read = (result, sent)" "be_fetch env rq = (cs, Fetched 499 ctype body)"
  shows "\<exists>m. result = BackendError 499 m"
  using assms by (auto simp: run_request_def upstream_failure_def)

text \<open>An intent that names a member every object inherits is forwarded to the provider.\<close>

lemma inherited_intent_forwarded: "intent_path env ''toString'' = Some (be_inherited env ''toString'')"
  by (simp add: intent_path_def INTENT_TO_PATH_def inherited_names_def AUDIO_TRANSCRIBE_INTENT_def AUDIO_SPEECH_INTENT_def
      SAFETY_MODERATE_INTENT_def)

section \<open>What reaches the provider\<close>

lemma fold_update:
  "distinct (map fst kvs) \<Longrightarrow> map_of (fold (\<lambda>(k, x) acc. AList.update k x acc) kvs base) k =
     (case map_of kvs k of Some v \<Rightarrow> Some v | None \<Rightarrow> map_of base k)"
proof (induction kvs arbitrary: base)
  case (Cons kv kvs)
  obtain k' x where kv: "kv = (k', x)" by (cases kv)
  have "map_of kvs k' = None" using Cons.prems kv by (simp add: map_of_eq_None_iff)
  with Cons kv show ?case by (auto simp: map_of_js_set split: option.splits)
qed simp

definition plain_object :: "js \<Rightarrow> bool" where
  "plain_object v = (\<exists>kvs. v = JObj kvs \<and> distinct (map fst kvs))"

lemma copied_object: "plain_object v \<Longrightarrow> own_property (JObj (spread [] v)) k = own_property v k"
  by (cases "case v of JObj kvs \<Rightarrow> map_of kvs k | _ \<Rightarrow> None") (auto simp: plain_object_def spread_def fold_update)

definition JSON_INTENTS :: "string list" where
  "JSON_INTENTS = [''urn:iicp:intent:llm:chat:v1'', ''urn:iicp:intent:llm:completion:v1'', ''urn:iicp:intent:llm:embedding:v1'',
     SAFETY_MODERATE_INTENT]"

lemma json_intent:
  assumes "i \<in> set JSON_INTENTS"
  shows "\<exists>path. map_of INTENT_TO_PATH i = Some path \<and> i \<noteq> AUDIO_TRANSCRIBE_INTENT \<and> i \<noteq> AUDIO_SPEECH_INTENT"
  using assms
  by (auto simp: JSON_INTENTS_def INTENT_TO_PATH_def AUDIO_TRANSCRIBE_INTENT_def AUDIO_SPEECH_INTENT_def SAFETY_MODERATE_INTENT_def)

lemma dialect_body_fields:
  assumes "plain_object payload"
  shows "own_property (JObj (dialect_body payload model)) k =
    (if k = ''model'' \<and> own_property payload ''model'' = JUndef then js_option model else own_property payload k)"
proof (cases model)
  case None
  then show ?thesis using copied_object [OF assms] by (simp add: dialect_body_def js_option_def)
next
  case (Some m)
  have u: "own_property (JObj (AList.update ''model'' (JStr m) b)) k = (if k = ''model'' then JStr m else own_property (JObj b) k)" for b
    by (simp add: map_of_js_set)
  show ?thesis
    unfolding dialect_body_def Let_def Some option.case copied_object [OF assms] if_distrib [of "\<lambda>b. own_property (JObj b) k"] u
    by (auto simp: js_option_def)
qed

text \<open>
  C36 A task of a JSON intent reaches the provider as it is: at most one request is sent, to the
  intent's path, with every field of the payload and the model of the payload or else of the
  backend; a request without a model is sent only where none is needed; and what the task gives
  back is the JSON of an answer of status 2xx, or an error.
\<close>

theorem dialect_forwards_payload:
  assumes "buildOpenAiDialectHandler env engine url model key task = (out, sent)"
    and "bt_intent task = JStr intent" "intent \<in> set JSON_INTENTS" "plain_object (bt_payload task)"
  shows "case sent of
      None \<Rightarrow> \<exists>m. out = BackendError 400 m
    | Some rq \<Rightarrow> \<exists>path body. map_of INTENT_TO_PATH intent = Some path \<and>
        bq_url rq = strip_suffix (CHR ''/'') url @ path \<and> bq_body rq = JsonBody body \<and>
        (\<forall>k. own_property body k = (if k = ''model'' \<and> own_property (bt_payload task) ''model'' = JUndef
           then js_option model else own_property (bt_payload task) k)) \<and>
        (truthy (own_property body ''model'') \<or> intent = SAFETY_MODERATE_INTENT) \<and>
        (\<forall>v. out = BackendResult v \<longleftrightarrow> (\<exists>events code ctype text. be_fetch env rq = (events, Fetched code ctype (Some text)) \<and>
           code \<in> {200..299} \<and> be_parse env text = Some v))"
proof -
  obtain path where p: "map_of INTENT_TO_PATH intent = Some path"
    "intent \<noteq> AUDIO_TRANSCRIBE_INTENT" "intent \<noteq> AUDIO_SPEECH_INTENT"
    using json_intent [OF assms(3)] by blast
  have "\<not> bad_payload (bt_payload task)" using assms(4) by (auto simp: plain_object_def bad_payload_def)
  then have c: "complete_json env engine intent (strip_suffix (CHR ''/'') url @ path) model key (bt_payload task) (bt_abortSignal task) =
      (out, sent)"
    using assms(1,2) p by (simp add: buildOpenAiDialectHandler_def intent_path_def)
  let ?body = "JObj (dialect_body (bt_payload task) model)"
  note fields = dialect_body_fields [OF assms(4), of model]
  show ?thesis
  proof (cases "\<not> truthy (own_property ?body ''model'') \<and> intent \<notin> set MODEL_OPTIONAL_INTENTS")
    case True
    with c show ?thesis by (auto simp: complete_json_def Let_def)
  next
    case False
    with c obtain rq where rq: "sent = Some rq" "bq_url rq = strip_suffix (CHR ''/'') url @ path" "bq_body rq = JsonBody ?body"
      and r: "out = fst (run_request env engine (bt_abortSignal task) rq
        (\<lambda>_ bytes. case (case bytes of None \<Rightarrow> None | Some b \<Rightarrow> be_parse env b) of
           None \<Rightarrow> BackendError 502 (engine @ '': upstream returned non-JSON'') | Some v \<Rightarrow> BackendResult v))"
      by (auto simp: complete_json_def run_request_def Let_def simp del: own_property.simps)
    have "out = BackendResult v \<longleftrightarrow> (\<exists>events code ctype text. be_fetch env rq = (events, Fetched code ctype (Some text)) \<and>
           code \<in> {200..299} \<and> be_parse env text = Some v)" for v
      unfolding r by (cases "be_fetch env rq"; cases "snd (be_fetch env rq)")
        (auto simp: run_request_def transportFailure_def upstream_failure_def split: option.splits)
    moreover have "truthy (own_property ?body ''model'') \<or> intent = SAFETY_MODERATE_INTENT"
      using False by (simp add: MODEL_OPTIONAL_INTENTS_def)
    ultimately show ?thesis
      unfolding rq(1) option.case using rq(2,3) p(1) fields by blast
  qed
qed

text \<open>The Messages API has its own timer only: the signal of a cancelled task changes nothing.\<close>

lemma anthropic_ignores_signal: "anthropicHandler env opts (task\<lparr>bt_abortSignal := s\<rparr>) = anthropicHandler env opts task"
  by (simp add: anthropicHandler_def)

section \<open>Examples\<close>

definition sample_backend :: backend_env where
  "sample_backend = \<lparr>be_runtime = \<lparr>rt_string = \<lambda>_. [], rt_number = \<lambda>_. NaN\<rparr>,
     be_parse = \<lambda>t. if t = ''yes'' then Some (JStr ''done'') else None, be_stringify = \<lambda>_. [], be_to_base64 = \<lambda>s. s,
     be_from_base64 = \<lambda>s. s, be_inherited = \<lambda>s. s, be_fetch = \<lambda>_. ([], Fetched 200 None (Some ''yes''))\<rparr>"

definition sample_chat_task :: backend_task where
  "sample_chat_task = \<lparr>bt_task_id = Some ''t'', bt_intent = JStr ''urn:iicp:intent:llm:chat:v1'',
     bt_payload = JObj [(''messages'', JArr [])], bt_abortSignal = None\<rparr>"

definition sample_world :: backend_world where
  "sample_world = (\<lambda>_. ([CancelTask ''t'' ''running'', TimeoutFires], FetchRejects ''aborted'', []))"

lemma sample_cancelled:
  "fst (withBackendCancellation (\<lambda>e. buildOpenAiDialectHandler e ''vllm'' ''http://h/v1'' (Some ''m'') []) sample_backend
     sample_world 1 sample_chat_task new_registry) = BackendError 499 ''vllm: backend request cancelled''"
  by code_simp


theorem dialect_forwards_payload_witness:
  "\<exists>out rq body. buildOpenAiDialectHandler sample_backend ''vllm'' ''http://h/v1/'' (Some ''m'') [] sample_chat_task = (out, Some rq) \<and>
     bq_body rq = JsonBody body \<and> own_property body ''model'' = JStr ''m'' \<and> out = BackendResult (JStr ''done'')"
proof -
  have "fst (buildOpenAiDialectHandler sample_backend ''vllm'' ''http://h/v1/'' (Some ''m'') [] sample_chat_task) = BackendResult (JStr ''done'')"
    by code_simp
  then obtain sent where s: "buildOpenAiDialectHandler sample_backend ''vllm'' ''http://h/v1/'' (Some ''m'') [] sample_chat_task =
      (BackendResult (JStr ''done''), sent)" by (metis prod.collapse)
  have t: "bt_intent sample_chat_task = JStr ''urn:iicp:intent:llm:chat:v1''" "''urn:iicp:intent:llm:chat:v1'' \<in> set JSON_INTENTS"
    "plain_object (bt_payload sample_chat_task)" "own_property (bt_payload sample_chat_task) ''model'' = JUndef"
    by (simp_all add: sample_chat_task_def JSON_INTENTS_def plain_object_def)
  from dialect_forwards_payload [OF s t(1-3)] t(4) s show ?thesis
    by (cases sent) (auto simp: js_option_def simp del: own_property.simps)
qed

end
