(* ===== verification/Tunnel.thy ===== *)
theory Tunnel imports JsText begin

text \<open>
  The quick tunnel of \<open>src/tunnel.ts\<close>: the opening of a tunnel (the host-wide pacing, the lease
  that keeps other nodes of the host from opening one at the same time, the child process and its
  output) and the watchdog that keeps it alive. A process, the file system and the clock are what
  the events say of them; times are milliseconds.
\<close>

definition MAX_RESPAWNS :: nat where "MAX_RESPAWNS = 3"
definition TUNNEL_HEALTH_MAX_FAILS :: nat where "TUNNEL_HEALTH_MAX_FAILS = 2"
definition TUNNEL_DEAD_RETRY_INITIAL_MS :: nat where "TUNNEL_DEAD_RETRY_INITIAL_MS = 30000"
definition TUNNEL_DEAD_RETRY_MAX_MS :: nat where "TUNNEL_DEAD_RETRY_MAX_MS = 300000"
definition TUNNEL_RATE_LIMIT_COOLDOWN_MS :: rat where "TUNNEL_RATE_LIMIT_COOLDOWN_MS = 15 * 60000"
definition TUNNEL_CREATE_MIN_INTERVAL_MS :: rat where "TUNNEL_CREATE_MIN_INTERVAL_MS = 120000"
definition TUNNEL_CREATE_LEASE_MS :: rat where "TUNNEL_CREATE_LEASE_MS = 45000"
definition TUNNEL_CREATE_JITTER_MAX_MS :: rat where "TUNNEL_CREATE_JITTER_MAX_MS = 15000"

definition deadRetryDelayMs :: "int \<Rightarrow> nat" where
  "deadRetryDelayMs attempt =
     (let e = nat (max 0 (min (attempt - 1) 4)) in min (TUNNEL_DEAD_RETRY_INITIAL_MS * 2 ^ e) TUNNEL_DEAD_RETRY_MAX_MS)"

section \<open>Settings\<close>

text \<open>
  A number of seconds in the environment, as \<open>parseInt\<close> or \<open>parseFloat\<close> reads it; \<open>None\<close> when
  that is no finite number. Whether zero counts is up to the setting.
\<close>

definition seconds_setting :: "(string \<Rightarrow> rat option) \<Rightarrow> bool \<Rightarrow> rat \<Rightarrow> string option \<Rightarrow> rat" where
  "seconds_setting parse zero_counts d raw =
     (case raw of
        None \<Rightarrow> d
      | Some t \<Rightarrow>
          if t = [] then d
          else (case parse t of None \<Rightarrow> d | Some s \<Rightarrow> if 0 < s \<or> zero_counts \<and> s = 0 then s * 1000 else d))"

record tunnel_settings =
  ts_rateLimitCooldownMs :: rat
  ts_createMinIntervalMs :: rat
  ts_createLeaseMs :: rat
  ts_createJitterMaxMs :: rat
  ts_waitForCapacity :: bool

definition tunnel_settings_from :: "(string \<Rightarrow> rat option) \<Rightarrow> (string \<Rightarrow> rat option) \<Rightarrow> (string \<Rightarrow> string option) \<Rightarrow> tunnel_settings" where
  "tunnel_settings_from parseInt parseFloat env =
     \<lparr>ts_rateLimitCooldownMs = seconds_setting parseInt False TUNNEL_RATE_LIMIT_COOLDOWN_MS (env ''IICP_TUNNEL_RATE_LIMIT_COOLDOWN_S''),
      ts_createMinIntervalMs = seconds_setting parseInt True TUNNEL_CREATE_MIN_INTERVAL_MS (env ''IICP_TUNNEL_CREATE_MIN_INTERVAL_S''),
      ts_createLeaseMs = seconds_setting parseInt False TUNNEL_CREATE_LEASE_MS (env ''IICP_TUNNEL_CREATE_LEASE_S''),
      ts_createJitterMaxMs = seconds_setting parseFloat True TUNNEL_CREATE_JITTER_MAX_MS (env ''IICP_TUNNEL_CREATE_JITTER_MAX_S''),
      ts_waitForCapacity = (js_lower (js_trim (or_else (env ''IICP_TUNNEL_WAIT_FOR_CAPACITY'') ''1'')) \<notin> set [''0'', ''false'', ''no''])\<rparr>"

section \<open>Pacing\<close>

text \<open>
  The state shared by the nodes of a host: the two files, as the number that reading them gives
  (zero when there is none), in seconds, and the process's own cooldown in milliseconds.
\<close>

record pacing =
  pc_cooldownUntil :: rat
  pc_rateLimitedUntil_s :: rat
  pc_createNotBefore_s :: rat

definition positive_or_zero :: "js_runtime \<Rightarrow> js \<Rightarrow> rat" where
  \<comment> \<open>\<open>readJsonFieldNumber\<close> on the value of the field\<close>
  "positive_or_zero rt v = (case Number_of rt (coalesce v (jint 0)) of Fin q \<Rightarrow> (if 0 < q then q else 0) | _ \<Rightarrow> 0)"

definition persistentRateLimitRemainingMs :: "rat \<Rightarrow> pacing \<Rightarrow> rat \<times> pacing" where
  "persistentRateLimitRemainingMs now pc =
     (let remaining = max 0 (pc_rateLimitedUntil_s pc * 1000 - now)
      in (remaining, if remaining \<le> 0 then pc\<lparr>pc_rateLimitedUntil_s := 0\<rparr> else pc))"

definition quickTunnelRateLimitRemainingMs :: "rat \<Rightarrow> pacing \<Rightarrow> rat \<times> pacing" where
  "quickTunnelRateLimitRemainingMs now pc =
     (let (persistent, pc') = persistentRateLimitRemainingMs now pc
      in (max 0 (max (pc_cooldownUntil pc - now) persistent), pc'))"

definition markQuickTunnelRateLimited :: "tunnel_settings \<Rightarrow> rat \<Rightarrow> pacing \<Rightarrow> pacing" where
  "markQuickTunnelRateLimited cfg now pc =
     (let until = now + ts_rateLimitCooldownMs cfg
      in pc\<lparr>pc_cooldownUntil := until, pc_rateLimitedUntil_s := until / 1000\<rparr>)"

definition quickTunnelCreateGateRemainingMs :: "rat \<Rightarrow> pacing \<Rightarrow> rat \<times> pacing" where
  "quickTunnelCreateGateRemainingMs now pc =
     (let remaining = max 0 (pc_createNotBefore_s pc * 1000 - now)
      in (remaining, if remaining \<le> 0 then pc\<lparr>pc_createNotBefore_s := 0\<rparr> else pc))"

definition markQuickTunnelCreateAttempt :: "tunnel_settings \<Rightarrow> rat \<Rightarrow> pacing \<Rightarrow> pacing" where
  "markQuickTunnelCreateAttempt cfg now pc =
     (if ts_createMinIntervalMs cfg \<le> 0 then pc\<lparr>pc_createNotBefore_s := 0\<rparr>
      else pc\<lparr>pc_createNotBefore_s := (now + ts_createMinIntervalMs cfg) / 1000\<rparr>)"

datatype gate_verdict = GateOpen | GateWait rat | GateRefused string

definition capacity_gate :: "tunnel_settings \<Rightarrow> rat \<Rightarrow> rat \<Rightarrow> pacing \<Rightarrow> gate_verdict \<times> pacing" where
  \<comment> \<open>one round of the loop up to the lease; the second argument is the jitter, in milliseconds\<close>
  "capacity_gate cfg jitter now pc =
     (let (cooldown, pc1) = quickTunnelRateLimitRemainingMs now pc;
          (remaining, reason, pc2) =
            (if cooldown \<le> 0
             then (case quickTunnelCreateGateRemainingMs now pc1 of (r, p) \<Rightarrow> (r, ''paced'', p))
             else (cooldown, ''paused'', pc1))
      in if 0 < remaining
         then (if ts_waitForCapacity cfg then GateWait (max 0 remaining + jitter) else GateRefused reason, pc2)
         else (GateOpen, pc2))"

section \<open>The lease\<close>

text \<open>
  The lock file, as the system calls of several nodes see it. A node creates it exclusively, writes
  the expiry into it, reads it when it finds it there, and removes it when it takes it for expired
  or when its own tunnel is open. A file has a number, so that a node that writes into the file it
  created does not touch one that was put in its place; a file that holds no expiry yet reads as
  zero.
\<close>

record lock_file =
  lk_number :: nat
  lk_expires_s :: "rat option"

datatype lease_point = LeaseIdle | LeaseTry nat | LeaseWrite nat | LeaseRead nat | LeaseStale nat | LeaseHeld nat | LeaseDenied

record lease_host =
  lh_lock :: "lock_file option"
  lh_next :: nat
  lh_node :: "nat \<Rightarrow> lease_point"

datatype lease_call = StartLease | OpenExclusive | WriteExpiry | ReadExpiry | UnlinkStale | CloseLease

definition move :: "nat \<Rightarrow> lease_point \<Rightarrow> lease_host \<Rightarrow> lease_host" where
  "move node p h = h\<lparr>lh_node := (lh_node h)(node := p)\<rparr>"

definition lease_step :: "tunnel_settings \<Rightarrow> rat \<Rightarrow> nat \<times> lease_call \<Rightarrow> lease_host \<Rightarrow> lease_host" where
  \<comment> \<open>a call that the node is not at changes nothing\<close>
  "lease_step cfg now x h =
     (case x of (node, call) \<Rightarrow>
      case (call, lh_node h node) of
        (StartLease, LeaseIdle) \<Rightarrow> move node (LeaseTry 0) h
      | (StartLease, LeaseDenied) \<Rightarrow> move node (LeaseTry 0) h
      | (OpenExclusive, LeaseTry i) \<Rightarrow>
          (case lh_lock h of
             None \<Rightarrow> move node (LeaseWrite (lh_next h))
                       (h\<lparr>lh_lock := Some \<lparr>lk_number = lh_next h, lk_expires_s = None\<rparr>, lh_next := Suc (lh_next h)\<rparr>)
           | Some _ \<Rightarrow> move node (LeaseRead i) h)
      | (WriteExpiry, LeaseWrite f) \<Rightarrow>
          move node (LeaseHeld f)
            (h\<lparr>lh_lock := (case lh_lock h of
                 Some l \<Rightarrow> if lk_number l = f then Some (l\<lparr>lk_expires_s := Some ((now + ts_createLeaseMs cfg) / 1000)\<rparr>) else Some l
               | None \<Rightarrow> None)\<rparr>)
      | (ReadExpiry, LeaseRead i) \<Rightarrow>
          (let expires = (case lh_lock h of None \<Rightarrow> 0 | Some l \<Rightarrow> (case lk_expires_s l of None \<Rightarrow> 0 | Some e \<Rightarrow> max 0 e))
           in if 0 < max 0 (expires * 1000 - now) then move node LeaseDenied h else move node (LeaseStale i) h)
      | (UnlinkStale, LeaseStale i) \<Rightarrow>
          move node (if i < 1 then LeaseTry (Suc i) else LeaseDenied) (h\<lparr>lh_lock := None\<rparr>)
      | (CloseLease, LeaseHeld f) \<Rightarrow> move node LeaseIdle (h\<lparr>lh_lock := None\<rparr>)
      | _ \<Rightarrow> h)"

fun lease_run :: "tunnel_settings \<Rightarrow> (rat \<times> nat \<times> lease_call) list \<Rightarrow> lease_host \<Rightarrow> lease_host" where
  "lease_run cfg [] h = h"
| "lease_run cfg ((now, x) # xs) h = lease_run cfg xs (lease_step cfg now x h)"

definition idle_host :: lease_host where
  "idle_host = \<lparr>lh_lock = None, lh_next = 0, lh_node = \<lambda>_. LeaseIdle\<rparr>"

section \<open>Opening\<close>

text \<open>\<open>URL_RE\<close>: the first place that holds \<open>https://\<close>, a label and \<open>.trycloudflare.com\<close>.\<close>

definition label_char :: "char \<Rightarrow> bool" where
  "label_char c = (let n = of_char c :: nat in 97 \<le> n \<and> n \<le> 122 \<or> 48 \<le> n \<and> n \<le> 57 \<or> n = 45)"

definition url_here :: "string \<Rightarrow> string option" where
  "url_here t =
     (if \<not> starts_with t ''https://'' then None
      else let label = takeWhile label_char (drop 8 t) in
        if label \<noteq> [] \<and> starts_with (drop (8 + length label) t) ''.trycloudflare.com''
        then Some (''https://'' @ label @ ''.trycloudflare.com'') else None)"

fun find_url :: "string \<Rightarrow> string option" where
  "find_url [] = None"
| "find_url (c # t) = (case url_here (c # t) of Some u \<Rightarrow> Some u | None \<Rightarrow> find_url t)"

definition cloudflaredOutputIsRateLimited :: "string list \<Rightarrow> bool" where
  "cloudflaredOutputIsRateLimited lines =
     (let joined = js_lower (concat (map (\<lambda>l. l @ '' '') lines))
      in contains joined ''429'' \<or> contains joined ''too many requests'' \<or> contains joined ''error code: 1015'' \<or>
         contains joined ''rate limit'')"

text \<open>
  The child's events: a piece of its output, its end, a failure to start it, and the timeout of the
  start. The settlement is the URL, or the failure and whether it was recognised as a rate limit.
\<close>

datatype child_event = ChildOutput string | ChildEnds | ChildError | StartTimeout

datatype settlement = TunnelUp string | TunnelFailed bool

record tunnel_opening =
  op_settled :: "settlement list"
  op_lastLines :: "string list"
  op_leaseOpen :: bool
  op_killed :: bool

definition new_opening :: tunnel_opening where
  "new_opening = \<lparr>op_settled = [], op_lastLines = [], op_leaseOpen = True, op_killed = False\<rparr>"

definition output_lines :: "string \<Rightarrow> string list" where
  \<comment> \<open>\<open>split(/\r?\n/)\<close>, trimmed, without the empty ones\<close>
  "output_lines t = filter (\<lambda>l. l \<noteq> []) (map js_trim (split_on newline t))"

definition settle :: "settlement \<Rightarrow> tunnel_opening \<Rightarrow> tunnel_opening" where
  "settle s op = op\<lparr>op_settled := op_settled op @ [s], op_leaseOpen := False\<rparr>"

definition opening_step :: "child_event \<Rightarrow> tunnel_opening \<Rightarrow> tunnel_opening" where
  "opening_step e op =
     (if op_settled op \<noteq> [] then op
      else case e of
        ChildOutput t \<Rightarrow>
          (let op1 = op\<lparr>op_lastLines := keep_last 6 (op_lastLines op @ output_lines t)\<rparr>
           in case find_url t of None \<Rightarrow> op1 | Some u \<Rightarrow> settle (TunnelUp u) op1)
      | ChildEnds \<Rightarrow> settle (TunnelFailed (cloudflaredOutputIsRateLimited (op_lastLines op))) op
      | ChildError \<Rightarrow> settle (TunnelFailed False) op
      | StartTimeout \<Rightarrow> settle (TunnelFailed (cloudflaredOutputIsRateLimited (op_lastLines op))) (op\<lparr>op_killed := True\<rparr>))"

section \<open>The watchdog\<close>

datatype tunnel_state = Ready | Twilight | Recovering | Dead

text \<open>Where a recovery waits: for a tunnel to open, for the delay after a dead state, for the new URL to answer.\<close>

datatype recovery = Opening | Delaying | Verifying

record tunnel_watch =
  tw_process :: nat
  tw_url :: string
  tw_armed :: "nat list"        \<comment> \<open>children whose end starts a recovery\<close>
  tw_exitCode :: "nat list"     \<comment> \<open>children that ended with an exit code\<close>
  tw_gone :: "nat list"         \<comment> \<open>children that ended\<close>
  tw_killed :: "nat list"       \<comment> \<open>children that were sent a signal\<close>
  tw_closed :: bool
  tw_respawns :: nat
  tw_healthFails :: nat
  tw_deadRetries :: nat
  tw_state :: tunnel_state
  tw_recoveries :: "(nat \<times> recovery) list"
  tw_nextRecovery :: nat
  tw_probes :: nat              \<comment> \<open>probes of the health timer that are not answered yet\<close>

record watch_options =
  wo_elastic :: bool
  wo_deadRetry :: "tunnel_watch \<Rightarrow> bool"   \<comment> \<open>whether \<open>onDeadAction\<close> says retry\<close>

datatype watch_output = StateIs tunnel_state | Spawns | NewUrl string | IsDead

definition new_watch :: "nat \<Rightarrow> string \<Rightarrow> tunnel_watch" where
  "new_watch process url =
     \<lparr>tw_process = process, tw_url = url, tw_armed = [process], tw_exitCode = [], tw_gone = [], tw_killed = [],
      tw_closed = False, tw_respawns = 0, tw_healthFails = 0, tw_deadRetries = 0, tw_state = Ready,
      tw_recoveries = [], tw_nextRecovery = 0, tw_probes = 0\<rparr>"

type_synonym watched = "tunnel_watch \<times> watch_output list"

definition tell :: "watch_output \<Rightarrow> watched \<Rightarrow> watched" where
  "tell x w = (fst w, snd w @ [x])"

definition on_watch :: "(tunnel_watch \<Rightarrow> tunnel_watch) \<Rightarrow> watched \<Rightarrow> watched" where
  "on_watch f w = (f (fst w), snd w)"

definition setState :: "tunnel_state \<Rightarrow> watched \<Rightarrow> watched" where
  "setState s w = (if tw_state (fst w) = s then w else tell (StateIs s) (on_watch (tw_state_update (\<lambda>_. s)) w))"

definition running :: "tunnel_watch \<Rightarrow> bool" where
  \<comment> \<open>\<open>process.exitCode === null && !process.killed\<close>\<close>
  "running tw = (tw_process tw \<notin> set (tw_exitCode tw) \<and> tw_process tw \<notin> set (tw_killed tw))"

definition kill_process :: "tunnel_watch \<Rightarrow> tunnel_watch" where
  "kill_process tw =
     (if running tw \<and> tw_process tw \<notin> set (tw_gone tw) then tw\<lparr>tw_killed := tw_process tw # tw_killed tw\<rparr> else tw)"

text \<open>A recovery of its own number goes on waiting or is over.\<close>

definition recovery_waits :: "nat \<Rightarrow> recovery option \<Rightarrow> tunnel_watch \<Rightarrow> tunnel_watch" where
  "recovery_waits i p tw =
     tw\<lparr>tw_recoveries := (case p of None \<Rightarrow> AList.delete i (tw_recoveries tw) | Some r \<Rightarrow> AList.update i r (tw_recoveries tw))\<rparr>"

definition handleDead :: "watch_options \<Rightarrow> nat \<Rightarrow> watched \<Rightarrow> watched" where
  "handleDead opts i w =
     (let w1 = tell IsDead (setState Dead w) in
      if wo_deadRetry opts (fst w1)
      then on_watch (\<lambda>tw. recovery_waits i (Some Delaying) (tw\<lparr>tw_deadRetries := Suc (tw_deadRetries tw)\<rparr>)) w1
      else on_watch (recovery_waits i None) w1)"

definition recover_round :: "watch_options \<Rightarrow> nat \<Rightarrow> watched \<Rightarrow> watched" where
  \<comment> \<open>from the head of the loop to the next wait\<close>
  "recover_round opts i w =
     (if tw_closed (fst w) then on_watch (recovery_waits i None) w
      else
        let w1 = on_watch (\<lambda>tw. tw\<lparr>tw_respawns := Suc (tw_respawns tw)\<rparr>) w in
        if tw_respawns (fst w1) > MAX_RESPAWNS then handleDead opts i w1
        else tell Spawns (on_watch (recovery_waits i (Some Opening)) w1))"

datatype watch_event = HealthTick | ProbeAnswer bool | ChildExits nat bool | OpenDone nat nat string | OpenFails nat
  | DelayOver nat | VerifyDone nat bool | CloseTunnel

definition probe_answer :: "bool \<Rightarrow> watched \<Rightarrow> watched" where
  "probe_answer ok w =
     (if ok then setState Ready (on_watch (\<lambda>tw. tw\<lparr>tw_healthFails := 0, tw_respawns := 0, tw_deadRetries := 0\<rparr>) w)
      else
        let w1 = setState Twilight (on_watch (\<lambda>tw. tw\<lparr>tw_healthFails := Suc (tw_healthFails tw)\<rparr>) w) in
        if TUNNEL_HEALTH_MAX_FAILS \<le> tw_healthFails (fst w1)
        then on_watch (\<lambda>tw. kill_process (tw\<lparr>tw_healthFails := 0\<rparr>)) (setState Recovering w1)
        else w1)"

definition child_exits :: "watch_options \<Rightarrow> nat \<Rightarrow> bool \<Rightarrow> watched \<Rightarrow> watched" where
  \<comment> \<open>the flag says that the child ended with an exit code, not by a signal\<close>
  "child_exits opts c coded w =
     (let tw = fst w;
          tw1 = tw\<lparr>tw_armed := filter (\<lambda>x. x \<noteq> c) (tw_armed tw), tw_gone := c # tw_gone tw,
                   tw_exitCode := (if coded then c # tw_exitCode tw else tw_exitCode tw)\<rparr>
      in if c \<notin> set (tw_armed tw) then w
         else if tw_closed tw then (tw1, snd w)
         else
           let i = tw_nextRecovery tw1 in
           recover_round opts i (setState Recovering (tw1\<lparr>tw_nextRecovery := Suc i\<rparr>, snd w)))"

definition open_done :: "watch_options \<Rightarrow> nat \<Rightarrow> nat \<Rightarrow> string \<Rightarrow> watched \<Rightarrow> watched" where
  "open_done opts i c url w =
     (let w1 = on_watch (\<lambda>tw. tw\<lparr>tw_process := c, tw_url := url, tw_armed := c # tw_armed tw\<rparr>) w in
      if wo_elastic opts then on_watch (recovery_waits i (Some Verifying)) w1
      else tell (NewUrl url) (on_watch (\<lambda>tw. recovery_waits i None (tw\<lparr>tw_deadRetries := 0\<rparr>)) w1))"

definition verify_done :: "nat \<Rightarrow> bool \<Rightarrow> watched \<Rightarrow> watched" where
  "verify_done i ok w =
     (if ok
      then
        let w1 = setState Ready (on_watch (\<lambda>tw. tw\<lparr>tw_respawns := 0, tw_deadRetries := 0\<rparr>) w)
        in tell (NewUrl (tw_url (fst w1))) (on_watch (recovery_waits i None) w1)
      else on_watch (\<lambda>tw. recovery_waits i None (kill_process tw)) w)"

definition delay_over :: "watch_options \<Rightarrow> nat \<Rightarrow> watched \<Rightarrow> watched" where
  "delay_over opts i w =
     (if tw_closed (fst w) then on_watch (recovery_waits i None) w
      else recover_round opts i (setState Recovering (on_watch (\<lambda>tw. tw\<lparr>tw_respawns := 0, tw_healthFails := 0\<rparr>) w)))"

definition close_tunnel :: "tunnel_watch \<Rightarrow> tunnel_watch" where
  "close_tunnel tw = (if tw_closed tw then tw else kill_process (tw\<lparr>tw_closed := True\<rparr>))"

definition waits_at :: "nat \<Rightarrow> recovery \<Rightarrow> tunnel_watch \<Rightarrow> bool" where
  "waits_at i r tw = (map_of (tw_recoveries tw) i = Some r)"

definition watch_step :: "watch_options \<Rightarrow> watch_event \<Rightarrow> watched \<Rightarrow> watched" where
  \<comment> \<open>an event that nothing waits for changes nothing\<close>
  "watch_step opts e w =
     (case e of
        HealthTick \<Rightarrow>
          if tw_closed (fst w) \<or> \<not> running (fst w) then w
          else on_watch (\<lambda>tw. tw\<lparr>tw_probes := Suc (tw_probes tw)\<rparr>) w
      | ProbeAnswer ok \<Rightarrow>
          if tw_probes (fst w) = 0 then w
          else probe_answer ok (on_watch (\<lambda>tw. tw\<lparr>tw_probes := tw_probes tw - 1\<rparr>) w)
      | ChildExits c coded \<Rightarrow> child_exits opts c coded w
      | OpenDone i c url \<Rightarrow> if waits_at i Opening (fst w) then open_done opts i c url w else w
      | OpenFails i \<Rightarrow> if waits_at i Opening (fst w) then handleDead opts i w else w
      | DelayOver i \<Rightarrow> if waits_at i Delaying (fst w) then delay_over opts i w else w
      | VerifyDone i ok \<Rightarrow> if waits_at i Verifying (fst w) then verify_done i ok w else w
      | CloseTunnel \<Rightarrow> on_watch close_tunnel w)"

fun watch_run :: "watch_options \<Rightarrow> watch_event list \<Rightarrow> watched \<Rightarrow> watched" where
  "watch_run opts [] w = w"
| "watch_run opts (e # es) w = watch_run opts es (watch_step opts e w)"

end
