(* ===== verification/TunnelSafety.thy ===== *)
theory TunnelSafety imports Tunnel begin

text \<open>
  What the quick tunnel promises: the watchdog over any run of its events, the opening of a tunnel
  over any output of its child, and what the host-wide lease excludes.
\<close>

section \<open>The watchdog\<close>

text \<open>The steps of the watchdog, and what each helper does to the parts the invariant looks at.\<close>

lemmas watch_defs = tell_def on_watch_def setState_def

lemma tell_simps [simp]: "fst (tell x w) = fst w" "snd (tell x w) = snd w @ [x]"
  by (simp_all add: tell_def)

lemma on_watch_simps [simp]: "fst (on_watch f w) = f (fst w)" "snd (on_watch f w) = snd w"
  by (simp_all add: on_watch_def)

lemma setState_simps [simp]:
  "tw_process (fst (setState s w)) = tw_process (fst w)" "tw_armed (fst (setState s w)) = tw_armed (fst w)"
  "tw_closed (fst (setState s w)) = tw_closed (fst w)" "tw_respawns (fst (setState s w)) = tw_respawns (fst w)"
  "tw_recoveries (fst (setState s w)) = tw_recoveries (fst w)" "tw_healthFails (fst (setState s w)) = tw_healthFails (fst w)"
  "tw_url (fst (setState s w)) = tw_url (fst w)" "tw_probes (fst (setState s w)) = tw_probes (fst w)"
  by (simp_all add: setState_def)

lemma waits_simps [simp]:
  "tw_process (recovery_waits i p tw) = tw_process tw" "tw_armed (recovery_waits i p tw) = tw_armed tw"
  "tw_closed (recovery_waits i p tw) = tw_closed tw" "tw_respawns (recovery_waits i p tw) = tw_respawns tw"
  "tw_url (recovery_waits i p tw) = tw_url tw"
  "map_of (tw_recoveries (recovery_waits i p tw)) j = (if j = i then p else map_of (tw_recoveries tw) j)"
  by (auto simp: recovery_waits_def map_of_js_set map_of_js_delete split: option.splits)

lemma kill_simps [simp]:
  "tw_process (kill_process tw) = tw_process tw" "tw_armed (kill_process tw) = tw_armed tw"
  "tw_closed (kill_process tw) = tw_closed tw" "tw_respawns (kill_process tw) = tw_respawns tw"
  "tw_recoveries (kill_process tw) = tw_recoveries tw" "tw_url (kill_process tw) = tw_url tw"
  by (simp_all add: kill_process_def)

definition spawns :: "watched \<Rightarrow> nat" where
  "spawns w = length (filter (\<lambda>x. x = Spawns) (snd w))"

lemma spawns_simps [simp]:
  "spawns (tell x w) = spawns w + (if x = Spawns then 1 else 0)" "spawns (on_watch f w) = spawns w"
  "spawns (setState s w) = spawns w" "spawns (tw, outs) = length (filter (\<lambda>x. x = Spawns) outs)"
  by (simp_all add: spawns_def setState_def)

text \<open>
  The tunnel is attended: the end of its process starts a recovery, or one is under way that will
  go on, or it was said to be dead.
\<close>

definition attended :: "watched \<Rightarrow> bool" where
  "attended w = (tw_closed (fst w) \<or> tw_process (fst w) \<in> set (tw_armed (fst w)) \<or> IsDead \<in> set (snd w) \<or>
     (\<exists>i r. map_of (tw_recoveries (fst w)) i = Some r \<and> r \<noteq> Verifying))"

lemma outputs_kept [simp]: "IsDead \<in> set (snd (setState s w)) \<longleftrightarrow> IsDead \<in> set (snd w)"
  by (simp add: setState_def)

lemma handleDead_effect:
  "attended (handleDead opts i w)" "tw_closed (fst (handleDead opts i w)) = tw_closed (fst w)"
  "tw_respawns (fst (handleDead opts i w)) = tw_respawns (fst w)" "spawns (handleDead opts i w) = spawns w"
  by (auto simp: handleDead_def attended_def Let_def)

lemma recover_round_effect:
  "attended (recover_round opts i w)" "tw_closed (fst (recover_round opts i w)) = tw_closed (fst w)"
  "spawns (recover_round opts i w) + min (tw_respawns (fst w)) 3 \<le> spawns w + min (tw_respawns (fst (recover_round opts i w))) 3"
  "tw_closed (fst w) \<Longrightarrow> spawns (recover_round opts i w) = spawns w"
  by (auto simp: recover_round_def Let_def handleDead_effect MAX_RESPAWNS_def)
     (auto simp: attended_def)

text \<open>What restores the budget of respawns: a healthy tunnel, or the end of the delay after a dead state.\<close>

definition restores :: "watch_event \<Rightarrow> bool" where
  "restores e = (e = ProbeAnswer True \<or> (\<exists>i. e = VerifyDone i True) \<or> (\<exists>i. e = DelayOver i))"

lemma attended_cong:
  assumes "attended w" "tw_closed (fst w) \<longrightarrow> tw_closed (fst w')" "tw_process (fst w') = tw_process (fst w)"
    "tw_armed (fst w') = tw_armed (fst w)" "tw_recoveries (fst w') = tw_recoveries (fst w)" "IsDead \<in> set (snd w) \<longrightarrow> IsDead \<in> set (snd w')"
  shows "attended w'"
  using assms by (auto simp: attended_def)

lemma probe_answer_effect:
  "attended w \<Longrightarrow> attended (probe_answer ok w)" "tw_closed (fst (probe_answer ok w)) = tw_closed (fst w)"
  "spawns (probe_answer ok w) = spawns w"
  "tw_respawns (fst (probe_answer ok w)) = (if ok then 0 else tw_respawns (fst w))"
  by (auto simp: probe_answer_def Let_def elim!: attended_cong)

lemma verify_done_effect:
  assumes "waits_at i Verifying (fst w)"
  shows "attended w \<Longrightarrow> attended (verify_done i ok w)" "tw_closed (fst (verify_done i ok w)) = tw_closed (fst w)"
    "spawns (verify_done i ok w) = spawns w"
    "tw_respawns (fst (verify_done i ok w)) = (if ok then 0 else tw_respawns (fst w))"
proof -
  have "(\<exists>j r. map_of (tw_recoveries (fst w)) j = Some r \<and> r \<noteq> Verifying) \<longleftrightarrow>
      (\<exists>j r. j \<noteq> i \<and> map_of (tw_recoveries (fst w)) j = Some r \<and> r \<noteq> Verifying)"
    using assms by (auto simp: waits_at_def) (metis option.inject)
  moreover have "(\<exists>j r. map_of (tw_recoveries (fst (verify_done i ok w))) j = Some r \<and> r \<noteq> Verifying) \<longleftrightarrow>
      (\<exists>j r. j \<noteq> i \<and> map_of (tw_recoveries (fst w)) j = Some r \<and> r \<noteq> Verifying)"
    by (auto simp: verify_done_def Let_def split: if_splits)
  ultimately show "attended w \<Longrightarrow> attended (verify_done i ok w)"
    unfolding attended_def by (simp add: verify_done_def Let_def)
qed (auto simp: verify_done_def Let_def)

lemma open_done_effect:
  "attended (open_done opts i c url w)" "tw_closed (fst (open_done opts i c url w)) = tw_closed (fst w)"
  "spawns (open_done opts i c url w) = spawns w" "tw_respawns (fst (open_done opts i c url w)) = tw_respawns (fst w)"
  by (auto simp: open_done_def Let_def attended_def)

lemma close_effect: "tw_closed (close_tunnel tw)" "tw_respawns (close_tunnel tw) = tw_respawns tw"
  by (simp_all add: close_tunnel_def)

lemma child_exits_effect:
  "attended w \<Longrightarrow> attended (child_exits opts c coded w)" "tw_closed (fst (child_exits opts c coded w)) = tw_closed (fst w)"
  "tw_closed (fst w) \<Longrightarrow> spawns (child_exits opts c coded w) = spawns w"
  "spawns (child_exits opts c coded w) + min (tw_respawns (fst w)) 3 \<le>
     spawns w + min (tw_respawns (fst (child_exits opts c coded w))) 3"
proof -
  let ?w = "setState Recovering (((fst w)\<lparr>tw_armed := filter (\<lambda>x. x \<noteq> c) (tw_armed (fst w)), tw_gone := c # tw_gone (fst w),
      tw_exitCode := (if coded then c # tw_exitCode (fst w) else tw_exitCode (fst w)), tw_nextRecovery := Suc (tw_nextRecovery (fst w))\<rparr>), snd w)"
  have n: "spawns ?w = spawns w" "tw_respawns (fst ?w) = tw_respawns (fst w)" "tw_closed (fst ?w) = tw_closed (fst w)"
    by (simp_all add: spawns_def [of w])
  note r = recover_round_effect [where opts = opts and i = "tw_nextRecovery (fst w)" and w = ?w, unfolded n]
  show "attended w \<Longrightarrow> attended (child_exits opts c coded w)"
    using r(1) by (auto simp: child_exits_def Let_def) (simp_all add: attended_def)
  show "tw_closed (fst (child_exits opts c coded w)) = tw_closed (fst w)"
    using r(2) by (auto simp: child_exits_def Let_def)
  show "tw_closed (fst w) \<Longrightarrow> spawns (child_exits opts c coded w) = spawns w"
    by (auto simp: child_exits_def Let_def spawns_def)
  show "spawns (child_exits opts c coded w) + min (tw_respawns (fst w)) 3 \<le>
     spawns w + min (tw_respawns (fst (child_exits opts c coded w))) 3"
    using r(3) by (auto simp: child_exits_def Let_def spawns_def [of w])
qed

lemma delay_over_effect:
  "attended (delay_over opts i w)" "tw_closed (fst (delay_over opts i w)) = tw_closed (fst w)"
  "tw_closed (fst w) \<Longrightarrow> spawns (delay_over opts i w) = spawns w"
  "spawns (delay_over opts i w) \<le> spawns w + min (tw_respawns (fst (delay_over opts i w))) 3"
  using recover_round_effect [where opts = opts and i = i and w = "setState Recovering (on_watch (\<lambda>tw. tw\<lparr>tw_respawns := 0, tw_healthFails := 0\<rparr>) w)"]
  by (auto simp: delay_over_def attended_def)

lemmas event_effects = probe_answer_effect verify_done_effect open_done_effect close_effect child_exits_effect delay_over_effect
  handleDead_effect

lemma watch_step_attended: "attended w \<Longrightarrow> attended (watch_step opts e w)"
  by (cases e) (auto simp: watch_step_def event_effects intro!: event_effects elim: attended_cong, simp_all add: attended_def close_effect)

lemma watch_step_budget:
  "spawns (watch_step opts e w) + min (tw_respawns (fst w)) 3 \<le>
   spawns w + min (tw_respawns (fst (watch_step opts e w))) 3 + (if restores e then 3 else 0)"
  using child_exits_effect(4) [of opts _ _ w] delay_over_effect(4) [of opts _ w]
  by (cases e) (auto simp: watch_step_def event_effects restores_def add_mono)

lemma watch_step_closed:
  "tw_closed (fst w) \<Longrightarrow> tw_closed (fst (watch_step opts e w)) \<and> spawns (watch_step opts e w) = spawns w"
  by (cases e) (auto simp: watch_step_def event_effects)

lemma watch_run_attended: "attended w \<Longrightarrow> attended (watch_run opts es w)"
  by (induction es arbitrary: w) (simp_all add: watch_step_attended)

lemma watch_run_budget:
  "spawns (watch_run opts es w) + min (tw_respawns (fst w)) 3 \<le>
   spawns w + min (tw_respawns (fst (watch_run opts es w))) 3 + 3 * length (filter restores es)"
proof (induction es arbitrary: w)
  case (Cons e es)
  show ?case using Cons.IH [of "watch_step opts e w"] watch_step_budget [of opts e w] by (simp split: if_splits)
qed simp

lemma watch_run_closed:
  "tw_closed (fst w) \<Longrightarrow> tw_closed (fst (watch_run opts es w)) \<and> spawns (watch_run opts es w) = spawns w"
  using watch_step_closed by (induction es arbitrary: w) fastforce+

lemma watch_run_append: "watch_run opts (es @ fs) w = watch_run opts fs (watch_run opts es w)"
  by (induction es arbitrary: w) simp_all


text \<open>A recovery that succeeds announces the new URL, elastic or not.\<close>

definition plain_options :: "bool \<Rightarrow> bool \<Rightarrow> watch_options" where
  "plain_options elastic retry = \<lparr>wo_elastic = elastic, wo_deadRetry = \<lambda>_. retry\<rparr>"

lemma recovery_announces:
  "snd (watch_run (plain_options True retry) [ChildExits 0 coded, OpenDone 0 1 u, VerifyDone 0 True] (new_watch 0 url, [])) =
     [StateIs Recovering, Spawns, StateIs Ready, NewUrl u]"
  by (simp add: watch_step_def child_exits_def new_watch_def recover_round_def setState_def tell_def on_watch_def Let_def
      MAX_RESPAWNS_def recovery_waits_def waits_at_def open_done_def verify_done_def plain_options_def)

text \<open>A tunnel closed while a new one opens adopts it all the same: the URL is announced, the child lives on.\<close>

lemma closed_tunnel_adopts:
  "case watch_run (plain_options False retry) [ChildExits 0 True, CloseTunnel, OpenDone 0 1 u] (new_watch 0 url, []) of
     (tw, outs) \<Rightarrow> tw_closed tw \<and> NewUrl u \<in> set outs \<and> tw_process tw = 1 \<and> running tw \<and>
       watch_step (plain_options False retry) CloseTunnel (tw, outs) = (tw, outs)"
  by (simp add: watch_step_def child_exits_def new_watch_def recover_round_def setState_def tell_def on_watch_def Let_def
      MAX_RESPAWNS_def recovery_waits_def waits_at_def open_done_def plain_options_def close_tunnel_def kill_process_def running_def)

text \<open>One opening that fails is enough to be dead: the other respawns of the budget are not tried.\<close>

lemma first_failure_is_dead:
  "case watch_run (plain_options elastic False) [ChildExits 0 True, OpenFails 0] (new_watch 0 url, []) of
     (tw, outs) \<Rightarrow> IsDead \<in> set outs \<and> tw_respawns tw = 1 \<and> tw_recoveries tw = []"
  by (simp add: watch_step_def child_exits_def new_watch_def recover_round_def setState_def tell_def on_watch_def Let_def
      MAX_RESPAWNS_def recovery_waits_def waits_at_def handleDead_def plain_options_def)

lemma dead_retry_bounds: "30000 \<le> deadRetryDelayMs n \<and> deadRetryDelayMs n \<le> 300000"
proof -
  have "(1 :: nat) \<le> 2 ^ e" for e by simp
  then show ?thesis by (auto simp: deadRetryDelayMs_def TUNNEL_DEAD_RETRY_INITIAL_MS_def TUNNEL_DEAD_RETRY_MAX_MS_def Let_def)
qed

section \<open>Opening\<close>

fun opening_run :: "child_event list \<Rightarrow> tunnel_opening \<Rightarrow> tunnel_opening" where
  "opening_run [] op = op"
| "opening_run (e # es) op = opening_run es (opening_step e op)"

definition opening_ok :: "tunnel_opening \<Rightarrow> bool" where
  "opening_ok op = (length (op_settled op) \<le> 1 \<and> (op_leaseOpen op \<longleftrightarrow> op_settled op = []) \<and> length (op_lastLines op) \<le> 6)"

lemma opening_ok_run: "opening_ok op \<Longrightarrow> opening_ok (opening_run es op)"
proof (induction es arbitrary: op)
  case (Cons e es)
  have "opening_ok (opening_step e op)"
    using Cons.prems by (auto simp: opening_ok_def opening_step_def settle_def Let_def length_keep_last split: child_event.splits option.splits)
  then show ?case using Cons.IH by simp
qed simp

lemma url_here_shape:
  "url_here t = Some u \<Longrightarrow> \<exists>label. label \<noteq> [] \<and> list_all label_char label \<and> u = ''https://'' @ label @ ''.trycloudflare.com'' \<and> starts_with t u"
proof -
  assume u: "url_here t = Some u"
  then obtain t' where t: "t = ''https://'' @ t'" by (auto simp: url_here_def starts_with_iff split: if_splits)
  let ?l = "takeWhile label_char t'"
  have d: "drop 8 t = t'" by (simp add: t)
  then have "drop (8 + length ?l) t = dropWhile label_char t'"
    unfolding dropWhile_eq_drop by (simp only: drop_drop [symmetric] add.commute [of 8])
  note d = d this
  with u d obtain r where "?l \<noteq> []" "dropWhile label_char t' = ''.trycloudflare.com'' @ r" "u = ''https://'' @ ?l @ ''.trycloudflare.com''"
    by (auto simp: url_here_def Let_def starts_with_iff split: if_splits)
  moreover have "list_all label_char ?l" by (auto simp: list_all_iff dest: set_takeWhileD)
  moreover have "''https://'' @ ?l @ dropWhile label_char t' = t" by (simp add: t)
  ultimately have "t = u @ r" by simp
  then have "starts_with t u" unfolding starts_with_iff by blast
  with \<open>?l \<noteq> []\<close> \<open>list_all label_char ?l\<close> \<open>u = ''https://'' @ ?l @ ''.trycloudflare.com''\<close> show ?thesis by blast
qed

lemma find_url_shape:
  "find_url t = Some u \<Longrightarrow> \<exists>label. label \<noteq> [] \<and> list_all label_char label \<and> u = ''https://'' @ label @ ''.trycloudflare.com'' \<and> contains t u"
proof (induction t)
  case (Cons c t)
  then show ?case by (cases "url_here (c # t)") (auto dest: url_here_shape)
qed simp

definition from_output :: "child_event list \<Rightarrow> settlement \<Rightarrow> bool" where
  "from_output es s = (case s of
     TunnelFailed _ \<Rightarrow> True
   | TunnelUp u \<Rightarrow> (\<exists>t label. ChildOutput t \<in> set es \<and> contains t u \<and> label \<noteq> [] \<and> list_all label_char label \<and>
       u = ''https://'' @ label @ ''.trycloudflare.com''))"

lemma opening_run_settled: "op_settled op \<noteq> [] \<Longrightarrow> opening_run es op = op"
  by (induction es) (simp_all add: opening_step_def)

lemma opening_run_from_output:
  "op_settled op = [] \<Longrightarrow> list_all (from_output es) (op_settled (opening_run es op))"
proof (induction es arbitrary: op)
  case (Cons e es)
  have step: "list_all (from_output (e # es)) (op_settled (opening_step e op))"
    using Cons.prems find_url_shape
    by (fastforce simp: opening_step_def settle_def Let_def from_output_def split: child_event.splits option.splits)
  have mono: "from_output es s \<Longrightarrow> from_output (e # es) s" for s
    by (auto simp: from_output_def split: settlement.splits)
  show ?case
  proof (cases "op_settled (opening_step e op) = []")
    case True
    then show ?thesis using Cons.IH mono by (auto simp: list_all_iff)
  next
    case False
    then show ?thesis using step by (simp add: opening_run_settled)
  qed
qed simp

text \<open>
  The opening of a tunnel settles at most once, whatever the child writes and however its end,
  a failure to start and the timeout fall together; the host-wide lease is given back exactly when it
  settles; the URL it gives is one the child has written, a label under \<open>trycloudflare.com\<close>;
  and it settles as soon as the child ends, cannot start or takes too long.
\<close>

lemma opening_settles_once:
  "(case opening_run es new_opening of op \<Rightarrow>
     length (op_settled op) \<le> 1 \<and> (op_leaseOpen op \<longleftrightarrow> op_settled op = []) \<and> list_all (from_output es) (op_settled op) \<and>
     (set es \<inter> {ChildEnds, ChildError, StartTimeout} \<noteq> {} \<longrightarrow> op_settled op \<noteq> []))"
proof -
  have ends: "set es \<inter> {ChildEnds, ChildError, StartTimeout} \<noteq> {} \<Longrightarrow> op_settled (opening_run es op) \<noteq> []" for op
  proof (induction es arbitrary: op)
    case (Cons e es)
    show ?case
    proof (cases "op_settled (opening_step e op) = []")
      case True
      then have "e \<notin> {ChildEnds, ChildError, StartTimeout}" by (auto simp: opening_step_def settle_def split: if_splits)
      with Cons.prems have "set es \<inter> {ChildEnds, ChildError, StartTimeout} \<noteq> {}" by auto
      with Cons.IH show ?thesis by simp
    next
      case False
      then show ?thesis by (simp add: opening_run_settled)
    qed
  qed simp
  have "opening_ok (opening_run es new_opening)"
    by (rule opening_ok_run) (simp add: opening_ok_def new_opening_def)
  then show ?thesis
    using opening_run_from_output [of new_opening es] ends [of new_opening]
    by (simp add: opening_ok_def) (simp add: new_opening_def)
qed

text \<open>A URL that the child writes in two pieces is not found.\<close>

lemma cut_url_missed:
  "op_settled (opening_run [ChildOutput ''https://a-b.trycloud'', ChildOutput ''flare.com''] new_opening) = []"
  by code_simp

section \<open>The lease\<close>

text \<open>Taking over a lock that was found expired is the one step that can break the exclusion.\<close>

definition takes_over :: "rat \<times> nat \<times> lease_call \<Rightarrow> bool" where
  "takes_over x = (snd (snd x) = UnlinkStale)"

definition owns :: "lease_host \<Rightarrow> nat \<Rightarrow> bool" where
  "owns h node = (\<exists>f. lh_node h node = LeaseWrite f \<or> lh_node h node = LeaseHeld f)"

definition lease_inv :: "lease_host \<Rightarrow> bool" where
  "lease_inv h = (\<forall>n. owns h n \<longrightarrow> lh_lock h \<noteq> None \<and> (\<forall>m. owns h m \<longrightarrow> m = n))"

lemma lease_step_inv: "lease_inv h \<Longrightarrow> \<not> takes_over (now, x) \<Longrightarrow> lease_inv (lease_step cfg now x h)"
  by (cases x; cases "snd x"; cases "lh_node h (fst x)"; cases "lh_lock h")
    (auto simp: lease_inv_def owns_def lease_step_def move_def takes_over_def Let_def split: if_splits)

lemma lease_exclusive:
  "lease_inv h \<Longrightarrow> list_all (\<lambda>x. \<not> takes_over x) xs \<Longrightarrow> lease_inv (lease_run cfg xs h)"
  by (induction xs arbitrary: h) (auto simp: lease_step_inv)

text \<open>
  A node that looks at the lock between its creation and the writing of the expiry takes it for
  expired, removes it and creates its own: two nodes hold the lease at once.
\<close>

definition default_settings :: tunnel_settings where
  "default_settings = \<lparr>ts_rateLimitCooldownMs = 900000, ts_createMinIntervalMs = 120000, ts_createLeaseMs = 45000,
     ts_createJitterMaxMs = 15000, ts_waitForCapacity = True\<rparr>"

lemma two_nodes_hold_the_lease:
  "case lease_run default_settings
      [(0, 1, StartLease), (0, 1, OpenExclusive), (0, 2, StartLease), (0, 2, OpenExclusive), (0, 2, ReadExpiry),
       (0, 2, UnlinkStale), (0, 1, WriteExpiry), (0, 2, OpenExclusive), (0, 2, WriteExpiry)] idle_host of
     h \<Rightarrow> lh_node h 1 = LeaseHeld 0 \<and> lh_node h 2 = LeaseHeld 1"
  by (simp add: lease_step_def move_def idle_host_def default_settings_def Let_def)

end
