(* ===== verification/NatDetection.thy ===== *)
theory NatDetection imports EndpointSecurity CanonicalJson begin

text \<open>
  The detection of the address at which the node can be reached: \<open>src/nat_detection.ts\<close>. What the
  host and the network answer (the interfaces, the resolver, the mapping library, the datagrams
  and documents of the gateway, the tunnel programs) is a record of functions of the question;
  the answers of the local network may differ from one attempt to the next. The dash and the arrow
  of the log lines are written in ASCII.
\<close>

section \<open>Texts\<close>

definition decimal :: "string \<Rightarrow> nat" where
  "decimal s = foldl (\<lambda>acc c. acc * 10 + (of_char c - 48)) 0 s"

definition digit_char :: "char \<Rightarrow> bool" where
  "digit_char c = (let n = of_char c :: nat in 48 \<le> n \<and> n \<le> 57)"

text \<open>\<open>parseInt(s, 10)\<close>; \<open>None\<close> is \<open>NaN\<close>.\<close>

definition parse_int10 :: "string \<Rightarrow> int option" where
  "parse_int10 s =
     (let t = dropWhile js_space s;
          neg = starts_with t ''-'';
          u = (if starts_with t ''-'' \<or> starts_with t ''+'' then tl t else t);
          ds = takeWhile digit_char u
      in if ds = [] then None else Some (if neg then - int (decimal ds) else int (decimal ds)))"

text \<open>The first group of an address: \<open>parseInt(addr.split(":")[0], 16)\<close> for a text without sign or prefix.\<close>

definition hex_value :: "char \<Rightarrow> nat" where
  "hex_value c = (let n = of_char c :: nat in if n \<le> 57 then n - 48 else if n \<le> 70 then n - 55 else n - 87)"

definition first_hextet :: "string \<Rightarrow> nat" where
  \<comment> \<open>\<open>NaN & mask\<close> is zero, as is \<open>0 & mask\<close>\<close>
  "first_hextet addr =
     foldl (\<lambda>acc c. acc * 16 + hex_value c) 0 (takeWhile any_hex (dropWhile js_space (hd (split_on (CHR '':'') addr))))"

definition is_gua :: "string \<Rightarrow> bool" where
  \<comment> \<open>\<open>(first & 0xe000) === 0x2000\<close>: the three upper bits of sixteen are 001\<close>
  "is_gua addr = (first_hextet addr div 0x2000 mod 8 = 1)"

definition ci_starts :: "string \<Rightarrow> string \<Rightarrow> bool" where
  "ci_starts s p = starts_with (js_lower s) (js_lower p)"

fun until_tag :: "string \<Rightarrow> string \<Rightarrow> (string \<times> string) option" where
  \<comment> \<open>the text before and after the first occurrence of the tag\<close>
  "until_tag tag [] = None"
| "until_tag tag (c # cs) =
     (if ci_starts (c # cs) tag then Some ([], drop (length tag) (c # cs))
      else map_option (\<lambda>(b, rest). (c # b, rest)) (until_tag tag cs))"

lemma until_tag_shorter: "until_tag tag s = Some (b, rest) \<Longrightarrow> length rest \<le> length s"
  by (induction s arbitrary: b) (auto split: if_splits)

lemma until_tag_shorter2: "until_tag tag s = Some (b, rest) \<Longrightarrow> tag \<noteq> [] \<Longrightarrow> length rest < length s"
  by (induction s arbitrary: b) (auto split: if_splits)

text \<open>\<open>/<service>([\s\S]*?)<\/service>/gi\<close>\<close>

function service_blocks :: "string \<Rightarrow> string list" where
  "service_blocks xml =
     (case until_tag ''<service>'' xml of
        None \<Rightarrow> []
      | Some (_, inner) \<Rightarrow>
          (case until_tag ''</service>'' inner of
             None \<Rightarrow> []
           | Some (block, rest) \<Rightarrow> block # service_blocks rest))"
  by pat_completeness auto
termination
proof (relation "measure length")
  fix xml :: string and hit a inner hit' block rest
  assume "until_tag ''<service>'' xml = Some hit" "(a, inner) = hit"
    "until_tag ''</service>'' inner = Some hit'" "(block, rest) = hit'"
  then have "length inner \<le> length xml" "length rest < length inner"
    using until_tag_shorter [of "''<service>''"] until_tag_shorter2 [of "''</service>''"] by (metis, fastforce)
  then show "(rest, xml) \<in> measure length" by simp
qed simp

declare service_blocks.simps [simp del]

text \<open>\<open>block.match(/<tag>([^<]+)<\/tag>/i)\<close>\<close>

fun tag_text :: "string \<Rightarrow> string \<Rightarrow> string option" where
  "tag_text tag [] = None"
| "tag_text tag (c # cs) =
     (let r = drop (length tag + 2) (c # cs); t = takeWhile (\<lambda>x. x \<noteq> CHR ''<'') r in
      if ci_starts (c # cs) (''<'' @ tag @ ''>'') \<and> t \<noteq> [] \<and> ci_starts (drop (length t) r) (''</'' @ tag @ ''>'')
      then Some t else tag_text tag cs)"

text \<open>\<open>/<([A-Za-z][A-Za-z0-9_]*)>([^<]*)<\/\1>/g\<close>, the wrappers left out.\<close>

definition name_char :: "char \<Rightarrow> bool" where
  "name_char c = (word_char c \<or> c = CHR ''_'')"

definition field_here :: "string \<Rightarrow> (string \<times> string) option" where
  "field_here s =
     (let name = takeWhile name_char (tl s);
          r = drop (length name + 2) s;
          t = takeWhile (\<lambda>x. x \<noteq> CHR ''<'') r
      in if starts_with s ''<'' \<and> name \<noteq> [] \<and> \<not> digit_char (hd name) \<and> hd name \<noteq> CHR ''_'' \<and>
            starts_with (drop (length name + 1) s) ''>'' \<and> starts_with (drop (length t) r) (''</'' @ name @ ''>'')
         then Some (name, t) else None)"

function soap_fields :: "string \<Rightarrow> (string \<times> string) list" where
  "soap_fields [] = []"
| "soap_fields (c # cs) =
     (case field_here (c # cs) of
        None \<Rightarrow> soap_fields cs
      | Some (name, t) \<Rightarrow>
          (if name \<in> set [''Envelope'', ''Body''] then [] else [(name, t)]) @
          soap_fields (drop (2 * length name + length t + 4) cs))"
  by pat_completeness auto
termination by (relation "measure length") auto

definition soap_result :: "string \<Rightarrow> (string, string) jsmap" where
  "soap_result body = fold (\<lambda>(k, v) m. AList.update k v m) (soap_fields body) []"

section \<open>The host and the network\<close>

record nic =
  ni_family :: string
  ni_address :: string
  ni_internal :: bool

text \<open>
  What the local network answers during one attempt: the datagrams that come back on a search, the
  device description at an address, and the reply to a SOAP request (\<open>None\<close> when the request
  fails or the status is not a success).
\<close>

record lan =
  la_ssdp :: "string \<Rightarrow> string list"
  la_document :: "string \<Rightarrow> string option"
  la_soap :: "string \<Rightarrow> string \<Rightarrow> string \<Rightarrow> string option"

text \<open>
  The mapping library, when it is installed: the router's external address or the text of an
  error, and the outcome of a mapping of a port to itself.
\<close>

record upnp_client =
  uc_externalIp :: "string + string"
  uc_portMapping :: "nat \<Rightarrow> bool"

record host =
  ho_parse_url :: "string \<Rightarrow> url option"
  ho_resolve_url :: "string \<Rightarrow> string \<Rightarrow> string + string"
  ho_isIPv6 :: "string \<Rightarrow> bool"
  ho_nics :: "nic list"
  ho_platform :: string
  ho_ifconfig :: "string option"
  ho_v6_bind :: "nat \<Rightarrow> string option"
  ho_v6_status :: "string \<Rightarrow> nat option"
  ho_reverse :: "string \<Rightarrow> string list option"
  ho_probe :: "string \<Rightarrow> string option"
  ho_env :: "string \<Rightarrow> string option"
  ho_ngrok :: "(string option \<times> string option) list option"
  ho_tailscale_status :: "string option"
  ho_tailscale_serve :: "(string \<times> bool) list option"
  ho_upnp :: "string + upnp_client"
  ho_upnp_late :: bool
  ho_lan :: "nat \<Rightarrow> lan"

section \<open>Public addresses\<close>

definition isIPv4 :: "string \<Rightarrow> bool" where
  "isIPv4 s = (parse_v4 s \<noteq> None)"

definition isNonPublicIpv4 :: "string \<Rightarrow> bool" where
  "isNonPublicIpv4 ip =
     (if \<not> isIPv4 ip then False
      else case map decimal (split_on (CHR ''.'') ip) of
        [a, b, c, d] \<Rightarrow>
          a = 0 \<or> a = 127 \<or> a = 10 \<or> a = 172 \<and> 16 \<le> b \<and> b \<le> 31 \<or> a = 192 \<and> b = 168 \<or> a = 169 \<and> b = 254 \<or>
          224 \<le> a \<or> a = 100 \<and> 64 \<le> b \<and> b \<le> 127 \<or> a = 192 \<and> b = 0 \<and> c = 2 \<or> a = 198 \<and> (b = 18 \<or> b = 19) \<or>
          a = 198 \<and> b = 51 \<and> c = 100 \<or> a = 203 \<and> b = 0 \<and> c = 113
      | _ \<Rightarrow> False)"

definition isNonPublicIpv6 :: "(string \<Rightarrow> bool) \<Rightarrow> string \<Rightarrow> bool" where
  "isNonPublicIpv6 isIPv6 ip =
     (if \<not> isIPv6 ip then False
      else let lower = js_lower ip in
        lower = ''::1'' \<or> lower = ''::'' \<or> list_ex (starts_with lower) [''fe8'', ''fe9'', ''fea'', ''feb'', ''fc'', ''fd''])"

definition looksRoutable :: "host \<Rightarrow> string \<Rightarrow> bool" where
  "looksRoutable h u =
     (case ho_parse_url h u of
        None \<Rightarrow> False
      | Some parsed \<Rightarrow>
          let name = js_lower (url_hostname parsed) in
          if name = [] then False
          else if name \<in> set [''localhost'', ''0.0.0.0'', ''::1'', ''::''] then False
          else if list_ex (ends_with name) [''.localhost'', ''.local'', ''.test'', ''.example'', ''.invalid'', ''.lan'', ''.internal'']
          then False
          else if isIPv4 name \<or> ho_isIPv6 h name
          then \<not> isNonPublicIpv4 name \<and> \<not> isNonPublicIpv6 (ho_isIPv6 h) name
          else contains name ''.'')"

definition detectPublicV4OnInterfaces :: "nic list \<Rightarrow> string option" where
  "detectPublicV4OnInterfaces nics =
     map_option ni_address
       (List.find (\<lambda>e. ni_family e = ''IPv4'' \<and> \<not> ni_internal e \<and> \<not> isNonPublicIpv4 (ni_address e)) nics)"

text \<open>
  \<open>/\b(\d{1,3}\.\d{1,3}\.\d{1,3}\.\d{1,3})\b/\<close>: a match starts where a digit follows no letter,
  digit or underscore, and ends before none of them.
\<close>

definition short_run :: "string \<Rightarrow> (string \<times> string) option" where
  "short_run s =
     (let ds = takeWhile digit_char s in
      if ds \<noteq> [] \<and> length ds \<le> 3 then Some (ds, drop (length ds) s) else None)"

definition dot_run :: "string \<Rightarrow> (string \<times> string) option" where
  "dot_run s = (if starts_with s ''.'' then map_option (\<lambda>(ds, r). (CHR ''.'' # ds, r)) (short_run (tl s)) else None)"

definition dotted_here :: "string \<Rightarrow> string option" where
  "dotted_here s =
     (case short_run s of None \<Rightarrow> None | Some (a, r1) \<Rightarrow>
      (case dot_run r1 of None \<Rightarrow> None | Some (b, r2) \<Rightarrow>
       (case dot_run r2 of None \<Rightarrow> None | Some (c, r3) \<Rightarrow>
        (case dot_run r3 of None \<Rightarrow> None | Some (d, r4) \<Rightarrow>
           if r4 \<noteq> [] \<and> name_char (hd r4) then None else Some (a @ b @ c @ d)))))"

fun dotted_in :: "bool \<Rightarrow> string \<Rightarrow> string option" where
  \<comment> \<open>the flag: the character before is a letter, a digit or an underscore\<close>
  "dotted_in inside [] = None"
| "dotted_in inside (c # cs) =
     (case (if inside then None else dotted_here (c # cs)) of
        Some t \<Rightarrow> Some t
      | None \<Rightarrow> dotted_in (name_char c) cs)"

definition probeExternalIp :: "host \<Rightarrow> string \<Rightarrow> string option" where
  "probeExternalIp h u =
     (case ho_probe h u of
        None \<Rightarrow> None
      | Some body \<Rightarrow>
          (case dotted_in False body of
             None \<Rightarrow> None
           | Some candidate \<Rightarrow> if \<not> isIPv4 candidate \<or> isNonPublicIpv4 candidate then None else Some candidate))"

definition CGNAT_HINTS :: "string list" where
  "CGNAT_HINTS = [''cgn'', ''cgnat'', ''ds-lite'', ''dslite'', ''nat64'']"

definition SHARED_HINTS :: "string list" where
  "SHARED_HINTS = [''shared'']"

fun cgnat_warning :: "string \<Rightarrow> string list \<Rightarrow> string option" where
  "cgnat_warning ip [] = None"
| "cgnat_warning ip (raw # raws) =
     (let hostname = js_lower raw in
      if list_ex (contains hostname) CGNAT_HINTS
      then Some (''reverse-DNS for '' @ ip @ '' = '' @ json_string hostname @ '' suggests CGNAT - UPnP mapping likely not externally reachable'')
      else if list_ex (contains hostname) SHARED_HINTS
      then Some (''reverse-DNS for '' @ ip @ '' = '' @ json_string hostname @ '' suggests shared/CGNAT infrastructure - verify external reachability'')
      else cgnat_warning ip raws)"

definition detectCgnat :: "host \<Rightarrow> string \<Rightarrow> string option" where
  "detectCgnat h ip = (case ho_reverse h ip of None \<Rightarrow> None | Some names \<Rightarrow> cgnat_warning ip names)"

section \<open>IPv6 addresses of the host\<close>

definition listGlobalIpv6Addresses :: "nic list \<Rightarrow> string list" where
  "listGlobalIpv6Addresses nics =
     sort (remdups (filter is_gua
       (map (\<lambda>e. hd (split_on (CHR ''%'') (ni_address e)))
         (filter (\<lambda>e. ni_family e = ''IPv6'' \<and> \<not> ni_internal e) nics))))"

definition js_words :: "string \<Rightarrow> string list" where
  \<comment> \<open>\<open>line.split(/\s+/)\<close> of a trimmed, non-empty line\<close>
  "js_words s = filter (\<lambda>w. w \<noteq> []) (split_on (CHR '' '') (map (\<lambda>c. if js_space c then CHR '' '' else c) s))"

fun join_space :: "string list \<Rightarrow> string" where
  "join_space [] = []"
| "join_space [w] = w"
| "join_space (w # ws) = w @ '' '' @ join_space ws"

datatype gua_class = CurrentTemp | Secured | Other

definition ifconfig_gua :: "string \<Rightarrow> (string \<times> gua_class) option" where
  \<comment> \<open>the address of a line of \<open>ifconfig\<close>, and what its flags make of it\<close>
  "ifconfig_gua raw =
     (let line = js_trim raw; parts = js_words line in
      if \<not> starts_with line ''inet6 '' \<or> length parts < 2 then None
      else
        let addr = hd (split_on (CHR ''%'') (parts ! 1)); flags = js_lower (join_space (drop 2 parts)) in
        if addr = [] \<or> \<not> is_gua addr then None
        else Some (addr,
          if contains flags ''deprecated'' then Other
          else if contains flags ''secured'' then Secured
          else if contains flags ''temporary'' \<or> contains flags ''autoconf'' then CurrentTemp
          else Other))"

definition first_occurrences :: "'a list \<Rightarrow> 'a list" where
  \<comment> \<open>\<open>Array.from(new Set(xs))\<close>\<close>
  "first_occurrences xs = rev (remdups (rev xs))"

definition rankedGlobalIpv6Candidates :: "host \<Rightarrow> string list" where
  "rankedGlobalIpv6Candidates h =
     (if ho_platform h = ''darwin'' then
        (case ho_ifconfig h of
           None \<Rightarrow> listGlobalIpv6Addresses (ho_nics h)
         | Some out \<Rightarrow>
             let found = List.map_filter ifconfig_gua (split_on (char_of (10 :: nat)) out) in
             first_occurrences (concat (map (\<lambda>k. map fst (filter (\<lambda>f. snd f = k) found)) [CurrentTemp, Secured, Other])))
      else listGlobalIpv6Addresses (ho_nics h))"

definition isPrivacyV6 :: "string \<Rightarrow> bool" where
  "isPrivacyV6 addr = (if length (split_on (CHR '':'') addr) < 4 then False else \<not> contains (js_lower addr) ''ff:fe'')"

record ipv6_profile =
  ip6_globalV6Available :: bool
  ip6_stableV6Available :: bool
  ip6_addresses :: "string list"
  ip6_listenerV6Ok :: bool
  ip6_externalV6Reachable :: bool
  ip6_pinholeActive :: "bool option"
  ip6_pinholeUniqueId :: "int option option"
  ip6_pinholeLeaseSeconds :: "nat option"
  ip6_pinholeInboundAllowed :: "bool option"
  ip6_error :: "string option"

text \<open>The outcome of binding a socket is the text of the error, or \<open>None\<close> when the port is bound.\<close>

definition detectIpv6 :: "host \<Rightarrow> nat \<Rightarrow> ipv6_profile" where
  "detectIpv6 h bindPort =
     (let addresses = listGlobalIpv6Addresses (ho_nics h); available = (addresses \<noteq> []) in
      \<lparr>ip6_globalV6Available = available,
       ip6_stableV6Available = list_ex (\<lambda>a. \<not> isPrivacyV6 a) addresses,
       ip6_addresses = addresses,
       ip6_listenerV6Ok = (ho_v6_bind h bindPort = None),
       ip6_externalV6Reachable = (available \<and> ho_v6_status h ''https://api6.ipify.org'' = Some 200),
       ip6_pinholeActive = None, ip6_pinholeUniqueId = None, ip6_pinholeLeaseSeconds = None,
       ip6_pinholeInboundAllowed = None, ip6_error = ho_v6_bind h bindPort\<rparr>)"

section \<open>Services of the gateway\<close>

definition nonspace_run :: "string \<Rightarrow> string" where
  "nonspace_run s = takeWhile (\<lambda>c. \<not> js_space c) (dropWhile js_space s)"

fun ssdp_header :: "bool \<Rightarrow> string \<Rightarrow> bool \<Rightarrow> string \<Rightarrow> string option" where
  \<comment> \<open>\<open>/name:\s*(\S+)/i\<close>, with \<open>^\<close> and the flag \<open>m\<close> when the first argument is true; the third says
     whether a line starts here\<close>
  "ssdp_header anchored name at_start [] = None"
| "ssdp_header anchored name at_start (c # cs) =
     (if (anchored \<longrightarrow> at_start) \<and> ci_starts (c # cs) (name @ '':'') \<and> nonspace_run (drop (length name + 1) (c # cs)) \<noteq> []
      then Some (nonspace_run (drop (length name + 1) (c # cs)))
      else ssdp_header anchored name (c = char_of (10 :: nat) \<or> c = char_of (13 :: nat)) cs)"

definition ssdp_hit :: "string \<Rightarrow> string option" where
  \<comment> \<open>the location of a datagram that also names its service type\<close>
  "ssdp_hit t =
     (case (ssdp_header False ''LOCATION'' True t, ssdp_header True ''ST'' True t) of
        (Some location, Some st) \<Rightarrow> Some location | _ \<Rightarrow> None)"

definition ssdpDiscover :: "lan \<Rightarrow> string \<Rightarrow> string list" where
  "ssdpDiscover l serviceType = List.map_filter ssdp_hit (la_ssdp l serviceType)"

record gateway_service =
  gs_controlURL :: string
  gs_serviceType :: string

definition service_of_block :: "string \<Rightarrow> gateway_service option" where
  "service_of_block block =
     (case (tag_text ''serviceType'' block, tag_text ''controlURL'' block) of
        (Some ty, Some ctrl) \<Rightarrow> Some \<lparr>gs_controlURL = js_trim ctrl, gs_serviceType = js_trim ty\<rparr>
      | _ \<Rightarrow> None)"

text \<open>A service with its address made absolute; the resolution of a URL may throw.\<close>

definition absolute_control :: "host \<Rightarrow> string \<Rightarrow> gateway_service \<Rightarrow> string + gateway_service option" where
  "absolute_control h deviceUrl svc =
     (if ci_starts (gs_controlURL svc) ''http://'' \<or> ci_starts (gs_controlURL svc) ''https://'' then Inr (Some svc)
      else case ho_resolve_url h deviceUrl (gs_controlURL svc) of
        Inl e \<Rightarrow> Inl e
      | Inr u \<Rightarrow> Inr (Some (svc\<lparr>gs_controlURL := u\<rparr>)))"

definition fetch_service :: "host \<Rightarrow> lan \<Rightarrow> (string \<Rightarrow> bool) \<Rightarrow> string \<Rightarrow> string + gateway_service option" where
  "fetch_service h l wanted deviceUrl =
     (case la_document l deviceUrl of
        None \<Rightarrow> Inr None
      | Some xml \<Rightarrow>
          (case List.find (\<lambda>svc. wanted (gs_serviceType svc)) (List.map_filter service_of_block (service_blocks xml)) of
             None \<Rightarrow> Inr None
           | Some svc \<Rightarrow> absolute_control h deviceUrl svc))"

definition fetchWanConnectionService :: "host \<Rightarrow> lan \<Rightarrow> string \<Rightarrow> string \<Rightarrow> string + gateway_service option" where
  "fetchWanConnectionService h l deviceUrl expectedType = fetch_service h l (\<lambda>ty. ty = expectedType) deviceUrl"

definition fetchFirewallService :: "host \<Rightarrow> lan \<Rightarrow> string \<Rightarrow> string + gateway_service option" where
  "fetchFirewallService h l deviceUrl = fetch_service h l (\<lambda>ty. contains ty ''WANIPv6FirewallControl'') deviceUrl"

text \<open>A SOAP request: the address, the action header and the envelope.\<close>

definition quoted :: "string \<Rightarrow> string" where
  "quoted s = CHR 0x22 # s @ [CHR 0x22]"

definition soap_envelope :: "string \<Rightarrow> string \<Rightarrow> (string \<times> string) list \<Rightarrow> string" where
  "soap_envelope serviceType action args =
     ''<?xml version='' @ quoted ''1.0'' @ ''?>'' @ [char_of (10 :: nat)] @
     ''<s:Envelope xmlns:s='' @ quoted ''http://schemas.xmlsoap.org/soap/envelope/'' @ '' s:encodingStyle='' @
     quoted ''http://schemas.xmlsoap.org/soap/encoding/'' @ ''><s:Body><u:'' @ action @ '' xmlns:u='' @ quoted serviceType @ ''>'' @
     concat (map (\<lambda>(k, v). ''<'' @ k @ ''>'' @ v @ ''</'' @ k @ ''>'') args) @
     ''</u:'' @ action @ ''></s:Body></s:Envelope>''"

definition soapCall :: "lan \<Rightarrow> gateway_service \<Rightarrow> string \<Rightarrow> (string \<times> string) list \<Rightarrow> (string, string) jsmap option" where
  "soapCall l svc action args =
     map_option soap_result
       (la_soap l (gs_controlURL svc) (quoted (gs_serviceType svc @ ''#'' @ action)) (soap_envelope (gs_serviceType svc) action args))"

section \<open>Port mappings\<close>

definition pickLocalV4ForGateway :: "host \<Rightarrow> string \<Rightarrow> string option" where
  "pickLocalV4ForGateway h deviceUrl =
     (case ho_parse_url h deviceUrl of
        None \<Rightarrow> None
      | Some base \<Rightarrow>
          (case split_on (CHR ''.'') (url_hostname base) of
             a # b # c # d # rest \<Rightarrow>
               if list_all (\<lambda>s. s \<noteq> [] \<and> all_digits s) [a, b, c] then
                 map_option ni_address
                   (List.find (\<lambda>e. ni_family e = ''IPv4'' \<and> \<not> ni_internal e \<and>
                       starts_with (ni_address e) (a @ ''.'' @ b @ ''.'' @ c @ ''.'')) (ho_nics h))
               else None
           | _ \<Rightarrow> None))"

definition WAN_SERVICES :: "string list" where
  "WAN_SERVICES =
     [''urn:schemas-upnp-org:service:WANIPConnection:2'', ''urn:schemas-upnp-org:service:WANIPConnection:1'',
      ''urn:schemas-upnp-org:service:WANPPPConnection:1'']"

definition assigned_port :: "(string, string) jsmap option \<Rightarrow> int" where
  \<comment> \<open>\<open>NaN\<close> is no positive number either\<close>
  "assigned_port reply =
     (case reply of None \<Rightarrow> 0 | Some r \<Rightarrow> or_else (parse_int10 (or_else (map_of r ''NewReservedPort'') ''0'')) 0)"

fun add_any_hits :: "host \<Rightarrow> lan \<Rightarrow> string \<Rightarrow> nat \<Rightarrow> string \<Rightarrow> nat \<Rightarrow> string list \<Rightarrow> string + nat option" where
  "add_any_hits h l st internalPort description leaseSeconds [] = Inr None"
| "add_any_hits h l st internalPort description leaseSeconds (hit # hits) =
     (case fetchWanConnectionService h l hit st of
        Inl e \<Rightarrow> Inl e
      | Inr None \<Rightarrow> add_any_hits h l st internalPort description leaseSeconds hits
      | Inr (Some svc) \<Rightarrow>
          (case pickLocalV4ForGateway h hit of
             None \<Rightarrow> add_any_hits h l st internalPort description leaseSeconds hits
           | Some localV4 \<Rightarrow>
               let assigned = assigned_port (soapCall l svc ''AddAnyPortMapping''
                     [(''NewRemoteHost'', ''''), (''NewExternalPort'', digits internalPort), (''NewProtocol'', ''TCP''),
                      (''NewInternalPort'', digits internalPort), (''NewInternalClient'', localV4), (''NewEnabled'', ''1''),
                      (''NewPortMappingDescription'', description), (''NewLeaseDuration'', digits leaseSeconds)])
               in if 0 < assigned then Inr (Some (nat assigned))
                  else add_any_hits h l st internalPort description leaseSeconds hits))"

fun add_any_services :: "host \<Rightarrow> lan \<Rightarrow> nat \<Rightarrow> string \<Rightarrow> nat \<Rightarrow> string list \<Rightarrow> string + nat option" where
  "add_any_services h l internalPort description leaseSeconds [] = Inr None"
| "add_any_services h l internalPort description leaseSeconds (st # sts) =
     (case add_any_hits h l st internalPort description leaseSeconds (ssdpDiscover l st) of
        Inr None \<Rightarrow> add_any_services h l internalPort description leaseSeconds sts
      | answer \<Rightarrow> answer)"

definition tryAddAnyPortMapping :: "host \<Rightarrow> lan \<Rightarrow> nat \<Rightarrow> string \<Rightarrow> nat \<Rightarrow> string + nat option" where
  "tryAddAnyPortMapping h l internalPort description leaseSeconds =
     add_any_services h l internalPort description leaseSeconds WAN_SERVICES"

definition map_one :: "host \<Rightarrow> upnp_client \<Rightarrow> nat \<Rightarrow> lan \<Rightarrow> nat \<Rightarrow> string + nat option" where
  "map_one h client leaseSeconds l internal =
     (if uc_portMapping client internal then Inr (Some internal)
      else tryAddAnyPortMapping h l internal (''iicp-client (ADR-041 tier-1) '' @ digits internal) leaseSeconds)"

record upnp_result =
  un_success :: bool
  un_externalIp :: "string option"
  un_externalPort :: "nat option"
  un_mappedPorts :: "nat list"
  un_portMapping :: "(nat, nat) jsmap option"
  un_igdDevice :: "string option"
  un_error :: "string option"

definition upnp_refused :: "string option \<Rightarrow> string \<Rightarrow> upnp_result" where
  "upnp_refused ip e =
     \<lparr>un_success = False, un_externalIp = ip, un_externalPort = None, un_mappedPorts = [], un_portMapping = None,
      un_igdDevice = None, un_error = Some e\<rparr>"

fun map_extra :: "host \<Rightarrow> upnp_client \<Rightarrow> nat \<Rightarrow> nat \<Rightarrow> nat list \<Rightarrow> nat list \<Rightarrow> (nat, nat) jsmap \<Rightarrow>
  string + nat list \<times> (nat, nat) jsmap" where
  \<comment> \<open>the second number counts the attempts\<close>
  "map_extra h client leaseSeconds k [] mapped m = Inr (mapped, m)"
| "map_extra h client leaseSeconds k (extra # extras) mapped m =
     (case map_one h client leaseSeconds (ho_lan h k) extra of
        Inl e \<Rightarrow> Inl e
      | Inr None \<Rightarrow> map_extra h client leaseSeconds (Suc k) extras mapped m
      | Inr (Some assigned) \<Rightarrow>
          map_extra h client leaseSeconds (Suc k) extras (mapped @ [extra]) (AList.update extra assigned m))"

definition tryUpnpMapping :: "host \<Rightarrow> nat list \<Rightarrow> nat \<Rightarrow> string + upnp_result" where
  "tryUpnpMapping h internalPorts leaseSeconds =
     (case internalPorts of
        [] \<Rightarrow> Inr (upnp_refused None ''no ports specified'')
      | primary # extras \<Rightarrow>
          (case ho_upnp h of
             Inl msg \<Rightarrow> Inl (''ImportError: nat-upnp not installed - install with: npm install nat-upnp ('' @ msg @ '')'')
           | Inr client \<Rightarrow>
               (case uc_externalIp client of
                  Inl msg \<Rightarrow> Inr (upnp_refused None (''externalIp failed: '' @ msg))
                | Inr ip \<Rightarrow>
                    (case map_one h client leaseSeconds (ho_lan h 0) primary of
                       Inl e \<Rightarrow> Inl e
                     | Inr None \<Rightarrow>
                         Inr (upnp_refused (Some ip) (''portMapping + AddAnyPortMapping both failed for primary port '' @ digits primary))
                     | Inr (Some assigned) \<Rightarrow>
                         (case map_extra h client leaseSeconds 1 extras [primary] [(primary, assigned)] of
                            Inl e \<Rightarrow> Inl e
                          | Inr (mapped, m) \<Rightarrow>
                              Inr \<lparr>un_success = True, un_externalIp = Some ip, un_externalPort = Some assigned,
                                   un_mappedPorts = mapped, un_portMapping = Some m, un_igdDevice = None, un_error = None\<rparr>)))))"

section \<open>Pinholes in the IPv6 firewall\<close>

definition FIREWALL_SERVICE :: string where
  "FIREWALL_SERVICE = ''urn:schemas-upnp-org:service:WANIPv6FirewallControl:1''"

record pinhole =
  ph_uniqueId :: "int option"
  ph_leaseSeconds :: nat

text \<open>A pinhole that was opened is allowed inbound; \<open>None\<close> as its number is \<open>NaN\<close>.\<close>

fun pinhole_on :: "host \<Rightarrow> lan \<Rightarrow> string \<Rightarrow> nat \<Rightarrow> nat \<Rightarrow> nat \<Rightarrow> string list \<Rightarrow> string + pinhole option" where
  "pinhole_on h l internalV6 internalPort lease protocol [] = Inr None"
| "pinhole_on h l internalV6 internalPort lease protocol (hit # hits) =
     (case fetchFirewallService h l hit of
        Inl e \<Rightarrow> Inl e
      | Inr None \<Rightarrow> pinhole_on h l internalV6 internalPort lease protocol hits
      | Inr (Some svc) \<Rightarrow>
          let firewall = soapCall l svc ''GetFirewallStatus'' [] in
          if or_else (map_of (or_else firewall []) ''InboundPinholeAllowed'') ''0'' \<noteq> ''1'' then Inr None
          else (case soapCall l svc ''AddPinhole''
              [(''RemoteHost'', ''''), (''RemotePort'', ''0''), (''InternalClient'', internalV6), (''InternalPort'', digits internalPort),
               (''Protocol'', digits protocol), (''LeaseTime'', digits lease)] of
            None \<Rightarrow> Inr None
          | Some r \<Rightarrow> Inr (Some \<lparr>ph_uniqueId = parse_int10 (or_else (map_of r ''UniqueID'') ''0''), ph_leaseSeconds = lease\<rparr>)))"

definition tryUpnpIpv6Pinhole :: "host \<Rightarrow> lan \<Rightarrow> string \<Rightarrow> nat \<Rightarrow> nat \<Rightarrow> nat \<Rightarrow> string + pinhole option" where
  "tryUpnpIpv6Pinhole h l internalV6 internalPort lease protocol =
     pinhole_on h l internalV6 internalPort lease protocol (ssdpDiscover l FIREWALL_SERVICE)"

definition TCP_PROTOCOL :: nat where "TCP_PROTOCOL = 6"

fun firewall_request :: "host \<Rightarrow> lan \<Rightarrow> string \<Rightarrow> (string \<times> string) list \<Rightarrow> string list \<Rightarrow> string + bool" where
  "firewall_request h l action args [] = Inr False"
| "firewall_request h l action args (hit # hits) =
     (case fetchFirewallService h l hit of
        Inl e \<Rightarrow> Inl e
      | Inr None \<Rightarrow> firewall_request h l action args hits
      | Inr (Some svc) \<Rightarrow> if soapCall l svc action args \<noteq> None then Inr True else firewall_request h l action args hits)"

definition deleteIpv6Pinhole :: "host \<Rightarrow> lan \<Rightarrow> string \<Rightarrow> string + bool" where
  \<comment> \<open>the identifier as it is printed\<close>
  "deleteIpv6Pinhole h l uniqueId =
     firewall_request h l ''DeletePinhole'' [(''UniqueID'', uniqueId)] (ssdpDiscover l FIREWALL_SERVICE)"

definition renewIpv6Pinhole :: "host \<Rightarrow> lan \<Rightarrow> string \<Rightarrow> nat \<Rightarrow> string + bool" where
  "renewIpv6Pinhole h l uniqueId newLeaseSeconds =
     firewall_request h l ''UpdatePinhole'' [(''UniqueID'', uniqueId), (''NewLeaseTime'', digits newLeaseSeconds)]
       (ssdpDiscover l FIREWALL_SERVICE)"

text \<open>\<open>/^(https?):\/\/\[([0-9a-fA-F:]+)\](?::(\d+))?/\<close>\<close>

definition v6_endpoint :: "string \<Rightarrow> (string \<times> string \<times> nat option) option" where
  "v6_endpoint endpoint =
     (let scheme = (if starts_with endpoint ''https'' then ''https'' else ''http'');
          rest = drop (length scheme) endpoint;
          v6 = takeWhile (\<lambda>c. any_hex c \<or> c = CHR '':'') (drop 4 rest);
          tail = drop (length v6 + 5) rest;
          port = takeWhile digit_char (tl tail)
      in if starts_with endpoint scheme \<and> starts_with rest ''://['' \<and> v6 \<noteq> [] \<and> starts_with (drop (length v6 + 4) rest) '']''
         then Some (scheme, v6, if starts_with tail '':'' \<and> port \<noteq> [] then Some (decimal port) else None)
         else None)"

record pinhole_open_result =
  po_pinholeActive :: bool
  po_pinhole :: "pinhole option"
  po_rewrittenEndpoint :: "string option"

fun first_pinhole :: "host \<Rightarrow> nat \<Rightarrow> nat \<Rightarrow> string list \<Rightarrow> string + (string \<times> pinhole) option" where
  \<comment> \<open>the first number counts the attempts\<close>
  "first_pinhole h k portInUrl [] = Inr None"
| "first_pinhole h k portInUrl (cand # cands) =
     (case tryUpnpIpv6Pinhole h (ho_lan h k) cand portInUrl 3600 TCP_PROTOCOL of
        Inl e \<Rightarrow> Inl e
      | Inr None \<Rightarrow> first_pinhole h (Suc k) portInUrl cands
      | Inr (Some r) \<Rightarrow> Inr (Some (cand, r)))"

definition no_pinhole :: pinhole_open_result where
  "no_pinhole = \<lparr>po_pinholeActive = False, po_pinhole = None, po_rewrittenEndpoint = None\<rparr>"

definition tryOpenV6PinholeForEndpoint :: "host \<Rightarrow> string \<Rightarrow> nat \<Rightarrow> string + pinhole_open_result" where
  "tryOpenV6PinholeForEndpoint h endpoint bindPort =
     (case v6_endpoint endpoint of
        None \<Rightarrow> Inr no_pinhole
      | Some (scheme, v6Host, port) \<Rightarrow>
          let portInUrl = or_else port bindPort in
          if \<not> is_gua v6Host then Inr no_pinhole
          else (case first_pinhole h 0 portInUrl (v6Host # filter (\<lambda>c. c \<noteq> v6Host) (rankedGlobalIpv6Candidates h)) of
            Inl e \<Rightarrow> Inl e
          | Inr None \<Rightarrow> Inr no_pinhole
          | Inr (Some (chosen, r)) \<Rightarrow>
              Inr \<lparr>po_pinholeActive = True, po_pinhole = Some r,
                   po_rewrittenEndpoint =
                     (if chosen \<noteq> v6Host then Some (scheme @ ''://['' @ chosen @ '']:'' @ digits portInUrl) else None)\<rparr>))"

section \<open>The cascade\<close>

datatype transport_method = Direct | Upnp_mapped | Stun_hole_punch | Turn_relay | External_tunnel | Unreachable

record nat_profile =
  np_tier :: nat
  np_transportMethod :: transport_method
  np_publicEndpoint :: "string option"
  np_transportEndpoint :: "string option"
  np_internalEndpoint :: "string option"
  np_operatorGuidance :: "string option"
  np_detectionLog :: "string list"
  np_ipv6 :: "ipv6_profile option"

definition newProfile :: "nat \<Rightarrow> transport_method \<Rightarrow> nat_profile" where
  "newProfile tier method =
     \<lparr>np_tier = tier, np_transportMethod = method, np_publicEndpoint = None, np_transportEndpoint = None,
      np_internalEndpoint = None, np_operatorGuidance = None, np_detectionLog = [], np_ipv6 = None\<rparr>"

definition isReachable :: "nat_profile \<Rightarrow> bool" where
  "isReachable p = (np_tier p \<le> 3 \<and> or_else (np_publicEndpoint p) [] \<noteq> [])"

record nat_options =
  no_bindHost :: string
  no_bindPort :: nat
  no_operatorPublicEndpoint :: "string option"
  no_upnpLeaseSeconds :: nat
  no_timeoutMs :: nat
  no_externalIpProbeUrl :: "string option"
  no_transportPort :: "nat option"
  no_detectV6 :: bool

definition nat_note :: "string \<Rightarrow> nat_profile \<Rightarrow> nat_profile" where
  "nat_note line p = p\<lparr>np_detectionLog := np_detectionLog p @ [line]\<rparr>"

definition bool_text :: "bool \<Rightarrow> string" where
  "bool_text b = (if b then ''true'' else ''false'')"

text \<open>Each tier either settles the profile (\<open>Inl\<close>) or hands the log on (\<open>Inr\<close>).\<close>

definition settled_profile :: "nat_profile \<Rightarrow> nat_profile \<Rightarrow> string \<Rightarrow> nat_profile" where
  \<comment> \<open>a new profile with the internal endpoint and the log of the old one\<close>
  "settled_profile result p endpoint =
     result\<lparr>np_publicEndpoint := Some endpoint, np_internalEndpoint := np_internalEndpoint p, np_detectionLog := np_detectionLog p\<rparr>"

definition qualify_v6 :: "host \<Rightarrow> nat_options \<Rightarrow> nat_profile \<Rightarrow> nat_profile" where
  "qualify_v6 h opts p =
     (if no_detectV6 opts then
        let v6 = detectIpv6 h (no_bindPort opts) in
        nat_note (''ipv6: global='' @ bool_text (ip6_globalV6Available v6) @ '' stable='' @ bool_text (ip6_stableV6Available v6) @
            '' listener='' @ bool_text (ip6_listenerV6Ok v6) @ '' reachable_out='' @ bool_text (ip6_externalV6Reachable v6))
          (p\<lparr>np_ipv6 := Some v6\<rparr>)
      else p)"

definition operator_tier :: "host \<Rightarrow> nat_options \<Rightarrow> nat_profile \<Rightarrow> nat_profile + nat_profile" where
  "operator_tier h opts p =
     (let e = or_else (no_operatorPublicEndpoint opts) [] in
      if e = [] then Inr p
      else if looksRoutable h e
      then Inl (settled_profile (newProfile 0 Direct) (nat_note (''tier-0: operator-configured public_endpoint='' @ json_string e) p) e)
      else Inr (nat_note (''tier-0: operator-configured public_endpoint='' @ json_string e @
          '' non-routable - falling through to tier-1 UPnP'') p))"

definition interface_tier :: "host \<Rightarrow> nat_options \<Rightarrow> nat_profile \<Rightarrow> nat_profile + nat_profile" where
  "interface_tier h opts p =
     (case detectPublicV4OnInterfaces (ho_nics h) of
        None \<Rightarrow> Inr p
      | Some ip \<Rightarrow>
          let autoUrl = ''http://'' @ ip @ '':'' @ digits (no_bindPort opts);
              noted = nat_note (''tier-0: auto-detected public IPv4 on local interface -> '' @ json_string autoUrl) p
          in Inl ((settled_profile (newProfile 0 Direct) noted autoUrl)\<lparr>np_ipv6 := np_ipv6 p\<rparr>))"

definition best_gua :: "string list \<Rightarrow> string" where
  "best_gua addresses =
     (case List.find (\<lambda>a. \<not> isPrivacyV6 a) addresses of Some a \<Rightarrow> a | None \<Rightarrow> (case addresses of a # _ \<Rightarrow> a | [] \<Rightarrow> []))"

definition gua_tier :: "host \<Rightarrow> nat_options \<Rightarrow> nat_profile \<Rightarrow> nat_profile + nat_profile" where
  "gua_tier h opts p =
     (case np_ipv6 p of
        None \<Rightarrow> Inr p
      | Some v6 \<Rightarrow>
          let gua = best_gua (ip6_addresses v6) in
          if \<not> (ip6_globalV6Available v6 \<and> ip6_listenerV6Ok v6) \<or> gua = [] then Inr p
          else
            let autoUrl = ''http://['' @ gua @ '']:'' @ digits (no_bindPort opts);
                noted = nat_note (''tier-0: auto-detected stable global IPv6 GUA -> '' @ json_string autoUrl @
                    '' (direct IPv6; inbound depends on an open v6 firewall)'') p
            in Inl ((settled_profile (newProfile 0 Direct) noted autoUrl)\<lparr>np_ipv6 := np_ipv6 p\<rparr>))"

definition wants_transport :: "nat option \<Rightarrow> nat \<Rightarrow> bool" where
  \<comment> \<open>\<open>transportPort && transportPort !== bindPort\<close>\<close>
  "wants_transport transportPort bindPort = (or_else transportPort 0 \<noteq> 0 \<and> transportPort \<noteq> Some bindPort)"

definition uid_text :: "int option \<Rightarrow> string" where
  "uid_text uid = (case uid of None \<Rightarrow> ''NaN'' | Some n \<Rightarrow> (if n < 0 then ''-'' else '''') @ digits (nat \<bar>n\<bar>))"

definition pinhole_attempt :: "host \<Rightarrow> lan \<Rightarrow> string \<Rightarrow> nat \<Rightarrow> nat_profile \<Rightarrow> ipv6_profile \<Rightarrow> nat_profile \<times> ipv6_profile" where
  "pinhole_attempt h l addr bindPort p v6 =
     (case tryUpnpIpv6Pinhole h l addr bindPort 3600 TCP_PROTOCOL of
        Inr (Some pin) \<Rightarrow>
          (nat_note (''tier-1-ipv6: AddPinhole OK - uid='' @ uid_text (ph_uniqueId pin) @ '' lease='' @ digits (ph_leaseSeconds pin) @ ''s'') p,
           v6\<lparr>ip6_pinholeActive := Some True, ip6_pinholeUniqueId := Some (ph_uniqueId pin),
              ip6_pinholeLeaseSeconds := Some (ph_leaseSeconds pin), ip6_pinholeInboundAllowed := Some True\<rparr>)
      | Inr None \<Rightarrow>
          (nat_note (''tier-1-ipv6: AddPinhole declined or no WANIPv6FirewallControl IGD found - operator must open inbound TCP/'' @
              digits bindPort @ '' manually'') p,
           v6\<lparr>ip6_pinholeActive := Some False\<rparr>)
      | Inl msg \<Rightarrow> (nat_note (''tier-1-ipv6: pinhole attempt error: '' @ msg) p, v6\<lparr>ip6_pinholeActive := Some False\<rparr>))"

definition tryIpv6Fallback :: "host \<Rightarrow> lan \<Rightarrow> nat_profile \<Rightarrow> nat \<Rightarrow> nat option \<Rightarrow> nat_profile option" where
  "tryIpv6Fallback h l p bindPort transportPort =
     (case np_ipv6 p of
        None \<Rightarrow> None
      | Some v6 \<Rightarrow>
          if \<not> ip6_globalV6Available v6 \<or> \<not> ip6_externalV6Reachable v6 then None
          else
            let v6Addr = (case ip6_addresses v6 of a # _ \<Rightarrow> a | [] \<Rightarrow> ''undefined'');
                publicUrl = ''http://['' @ v6Addr @ '']:'' @ digits bindPort;
                noted = nat_note (''tier-1-ipv6: advertising '' @ publicUrl @
                    '' (verified outbound v6; attempting UPnP IGDv2 pinhole - #343)'') p;
                (tried, v6') = pinhole_attempt h l v6Addr bindPort noted v6
            in Some ((settled_profile (newProfile 1 Direct) tried publicUrl)
                \<lparr>np_transportEndpoint := (if wants_transport transportPort bindPort
                     then Some (''iicp://['' @ v6Addr @ '']:'' @ digits (or_else transportPort 0)) else None),
                 np_ipv6 := Some v6',
                 np_operatorGuidance := Some
                   (''Advertising IPv6 GUA '' @ v6Addr @ ''. Inbound IPv4 isn'' @ [CHR 0x27] @ ''t available (no UPnP success / CGNAT), but your IPv6 surface is routable. '' @
                    (if ip6_pinholeActive v6' = Some True
                     then ''UPnP IPv6 pinhole opened (uid='' @ uid_text (or_else (ip6_pinholeUniqueId v6') None) @ ''). ''
                     else ''Router firewall pinhole not opened - manual rule may be required. '') @
                    ''The directory will Layer-2 dial-back to verify.'')\<rparr>))"

text \<open>The mapping, cut off by the timeout, and what the log says when it fails.\<close>

definition ports_to_map :: "nat_options \<Rightarrow> nat list" where
  "ports_to_map opts =
     no_bindPort opts # (if wants_transport (no_transportPort opts) (no_bindPort opts) then [or_else (no_transportPort opts) 0] else [])"

definition upnp_attempt :: "host \<Rightarrow> nat_options \<Rightarrow> nat_profile \<Rightarrow> nat_profile \<times> upnp_result option" where
  "upnp_attempt h opts p =
     (case (if ho_upnp_late h then Inl ''timeout'' else tryUpnpMapping h (ports_to_map opts) (no_upnpLeaseSeconds opts)) of
        Inr r \<Rightarrow> (p, Some r)
      | Inl msg \<Rightarrow>
          (nat_note
             (if starts_with msg ''ImportError:'' then ''tier-1: nat-upnp library not installed: '' @ drop 13 msg
              else if msg = ''timeout'' then ''tier-1: UPnP discovery timed out after '' @ digits (no_timeoutMs opts) @ ''ms''
              else ''tier-1: UPnP error: '' @ msg) p, None))"

definition no_wan_ip :: "string option \<Rightarrow> bool" where
  "no_wan_ip ip = (or_else ip [] = [] \<or> ip = Some ''0.0.0.0'')"

definition wan_ip :: "host \<Rightarrow> nat_options \<Rightarrow> string option \<Rightarrow> nat_profile \<Rightarrow> nat_profile \<times> string option" where
  \<comment> \<open>the router's address, or the probed one where it has none\<close>
  "wan_ip h opts ip p =
     (let probeUrl = or_else (no_externalIpProbeUrl opts) [] in
      if \<not> no_wan_ip ip \<or> probeUrl = [] then (p, ip)
      else case probeExternalIp h probeUrl of
        Some probed \<Rightarrow> (nat_note (''tier-1: external IP probe '' @ json_string probeUrl @ '' returned '' @ probed) p, Some probed)
      | None \<Rightarrow> (nat_note (''tier-1: external IP probe '' @ json_string probeUrl @ '' returned no valid IPv4'') p, ip))"

definition no_wan_guidance :: "nat \<Rightarrow> string" where
  "no_wan_guidance bindPort =
     ''UPnP mapped port '' @ digits bindPort @ '' but the router did not return its WAN IP. '' @
     ''Set externalIpProbeUrl to an HTTPS probe service (e.g. https://api.ipify.org) OR set publicEndpoint manually.''"

definition cgnat_guidance :: "string \<Rightarrow> string" where
  "cgnat_guidance ip =
     ''WARNING: your WAN IP '' @ ip @ '' appears to be inside a carrier-grade NAT pool (reverse-DNS suggests CGNAT). '' @
     ''UPnP-mapped ports are typically not reachable from the internet in this case. Options: (a) ask your ISP for a '' @
     ''native IPv4 lease, (b) use an external tunnel (Cloudflare Tunnel, tailscale funnel), (c) switch to IPv6 if your network supports it.''"

definition external_port :: "upnp_result \<Rightarrow> nat \<Rightarrow> nat" where
  "external_port r port = (case un_portMapping r of None \<Rightarrow> port | Some m \<Rightarrow> or_else (map_of m port) port)"

definition mapped_profile :: "nat_options \<Rightarrow> upnp_result \<Rightarrow> string \<Rightarrow> nat_profile \<Rightarrow> nat_profile" where
  "mapped_profile opts r ip p =
     (let bindPort = no_bindPort opts; transport = or_else (no_transportPort opts) 0;
          publicUrl = ''http://'' @ ip @ '':'' @ digits (external_port r bindPort)
      in if wants_transport (no_transportPort opts) bindPort \<and> transport \<in> set (un_mappedPorts r)
         then
           let transportUrl = ''iicp://'' @ ip @ '':'' @ digits (external_port r transport) in
           (settled_profile (newProfile 1 Upnp_mapped)
             (nat_note (''tier-1: UPnP mapped '' @ digits bindPort @ ''->'' @ digits (external_port r bindPort) @ '' ('' @ publicUrl @
                '') AND '' @ digits transport @ ''->'' @ digits (external_port r transport) @ '' ('' @ transportUrl @
                '') (spec v0.7.0 dual-endpoint; AddAnyPortMapping used if ext!=internal)'') p) publicUrl)
             \<lparr>np_transportEndpoint := Some transportUrl\<rparr>
         else settled_profile (newProfile 1 Upnp_mapped)
             (nat_note (''tier-1: UPnP mapped '' @ digits bindPort @ ''->'' @ digits (external_port r bindPort) @ '' ('' @ publicUrl @ '')'') p)
             publicUrl)"

definition FALLBACK_ATTEMPT :: nat where
  \<comment> \<open>two attempts at most are made for the ports\<close>
  "FALLBACK_ATTEMPT = 2"

definition mapped_tier :: "host \<Rightarrow> nat_options \<Rightarrow> upnp_result \<Rightarrow> nat_profile \<Rightarrow> nat_profile" where
  "mapped_tier h opts r p =
     (let (p', ip') = wan_ip h opts (un_externalIp r) p; ip = or_else ip' [] in
      if no_wan_ip ip' then p'\<lparr>np_operatorGuidance := Some (no_wan_guidance (no_bindPort opts))\<rparr>
      else case detectCgnat h ip of
        None \<Rightarrow> mapped_profile opts r ip p'
      | Some warning \<Rightarrow>
          let noted = nat_note (''tier-1: '' @ warning) p' in
          (case tryIpv6Fallback h (ho_lan h FALLBACK_ATTEMPT) noted (no_bindPort opts) (no_transportPort opts) of
             Some v6 \<Rightarrow> v6
           | None \<Rightarrow> noted\<lparr>np_operatorGuidance := Some (cgnat_guidance ip)\<rparr>))"

section \<open>External tunnels\<close>

definition TUNNEL_VARIABLES :: "string list" where
  "TUNNEL_VARIABLES = [''IICP_TUNNEL_URL'', ''TUNNEL_URL'', ''CLOUDFLARE_TUNNEL_URL'']"

definition https_url :: "string \<Rightarrow> bool" where
  "https_url u = starts_with u ''https://''"

definition port_suffix :: "nat \<Rightarrow> string" where
  "port_suffix n = '':'' @ digits n"

definition detectNgrokTunnel :: "host \<Rightarrow> nat \<Rightarrow> string option" where
  "detectNgrokTunnel h bindPort =
     (case ho_ngrok h of
        None \<Rightarrow> None
      | Some tunnels \<Rightarrow>
          let secure = filter (\<lambda>t. https_url (or_else (fst t) [])) tunnels in
          (case List.find (\<lambda>t. contains (or_else (snd t) []) (port_suffix bindPort)) secure of
             Some t \<Rightarrow> fst t
           | None \<Rightarrow> (case secure of [] \<Rightarrow> None | t # _ \<Rightarrow> fst t)))"

definition detectTailscaleFunnel :: "host \<Rightarrow> nat \<Rightarrow> string option" where
  "detectTailscaleFunnel h bindPort =
     (case ho_tailscale_status h of
        None \<Rightarrow> None
      | Some name \<Rightarrow>
          let dnsName = strip_suffix (CHR ''.'') name in
          if dnsName = [] then None
          else case ho_tailscale_serve h of
            None \<Rightarrow> None
          | Some tcp \<Rightarrow>
              if list_ex (\<lambda>(src, funnel). funnel \<and> contains src (port_suffix bindPort)) tcp
              then Some (''https://'' @ dnsName @ (if bindPort \<noteq> 443 \<and> bindPort \<noteq> 80 then port_suffix bindPort else ''''))
              else None)"

definition detectExternalTunnel :: "host \<Rightarrow> nat \<Rightarrow> string option" where
  "detectExternalTunnel h bindPort =
     (case List.find https_url (map (\<lambda>v. or_else (ho_env h v) []) TUNNEL_VARIABLES) of
        Some u \<Rightarrow> Some u
      | None \<Rightarrow>
          let ngrok = detectNgrokTunnel h bindPort in
          if or_else ngrok [] \<noteq> [] then ngrok else detectTailscaleFunnel h bindPort)"

definition no_mapping_guidance :: string where
  "no_mapping_guidance =
     ''No automatic port mapping available. Options:'' @ [char_of (10 :: nat)] @
     ''  1. Configure your router to forward an external port to this host'' @ [char_of (10 :: nat)] @
     ''  2. Set publicEndpoint to your real external URL'' @ [char_of (10 :: nat)] @
     ''  3. Run `ngrok http <port>` or `cloudflared tunnel --url http://localhost:<port>` and export IICP_TUNNEL_URL=<the https URL>'' @
     [char_of (10 :: nat)] @ ''See iicp.network/docs/nat-aware-adapter-setup.md for the details.''"

definition unmapped_tier :: "host \<Rightarrow> nat_options \<Rightarrow> upnp_result option \<Rightarrow> nat_profile \<Rightarrow> nat_profile" where
  "unmapped_tier h opts upnp p =
     (let noted = nat_note (case upnp of
              None \<Rightarrow> ''tier-1: UPnP discovery returned nothing (SSDP broadcast filtered? library missing?)''
            | Some r \<Rightarrow>
                (case un_igdDevice r of
                   None \<Rightarrow> ''tier-1: no IGD device responded - '' @ or_else (un_error r) ''undefined''
                 | Some igd \<Rightarrow> ''tier-1: IGD found ('' @ igd @ '') but mapping refused - '' @ or_else (un_error r) ''undefined'')) p
      in case tryIpv6Fallback h (ho_lan h FALLBACK_ATTEMPT) noted (no_bindPort opts) (no_transportPort opts) of
        Some v6 \<Rightarrow> v6
      | None \<Rightarrow>
          (case detectExternalTunnel h (no_bindPort opts) of
             Some tunnelUrl \<Rightarrow>
               if tunnelUrl \<noteq> [] then
                 settled_profile (newProfile 1 External_tunnel)
                   (nat_note (''tier-4: external tunnel auto-detected -> '' @ json_string tunnelUrl) noted) tunnelUrl
               else noted\<lparr>np_operatorGuidance := Some no_mapping_guidance\<rparr>
           | None \<Rightarrow> noted\<lparr>np_operatorGuidance := Some no_mapping_guidance\<rparr>))"

definition upnp_tier :: "host \<Rightarrow> nat_options \<Rightarrow> nat_profile \<Rightarrow> nat_profile" where
  "upnp_tier h opts p =
     (let (p', upnp) = upnp_attempt h opts p in
      case upnp of
        Some r \<Rightarrow> if un_success r then mapped_tier h opts r p' else unmapped_tier h opts upnp p'
      | None \<Rightarrow> unmapped_tier h opts None p')"

definition or_settled :: "nat_profile + nat_profile \<Rightarrow> (nat_profile \<Rightarrow> nat_profile) \<Rightarrow> nat_profile" where
  "or_settled t k = (case t of Inl settled \<Rightarrow> settled | Inr p \<Rightarrow> k p)"

definition detectNat :: "host \<Rightarrow> nat_options \<Rightarrow> nat_profile" where
  "detectNat h opts =
     (let p = (newProfile 4 Unreachable)\<lparr>np_internalEndpoint :=
                 Some (''http://'' @ no_bindHost opts @ '':'' @ digits (no_bindPort opts))\<rparr> in
      or_settled (operator_tier h opts (qualify_v6 h opts p)) (\<lambda>p.
        or_settled (interface_tier h opts p) (\<lambda>p.
          or_settled (gua_tier h opts p) (upnp_tier h opts))))"

end
