(* ===== verification/Exposure.thy ===== *)
theory Exposure imports NatDetection begin

text \<open>
  What the node makes of a detected address: its classification (\<open>src/qualify.ts\<close>) and the
  part of \<open>src/node.ts\<close> that takes a profile over and keeps a pinhole open until the shutdown.
  After them, what a detected address rests on.
\<close>

section \<open>Classification\<close>

datatype exposure_mode =
    Outbound_only | Ipv4_public_direct | Ipv4_cgnat_blocked | Ipv6_direct_firewall_required
  | Ipv6_direct_pinhole_available | Relay_required | Tunnel_required | Dual_stack_available

record ipv4_qualification =
  q4_publicIp :: "string option"
  q4_cgnat :: bool
  q4_upnpMapped :: bool

record ipv6_qualification =
  q6_routable :: bool
  q6_pinholeOk :: bool
  q6_address :: "string option"

record service_qualification =
  sq_exposureMode :: exposure_mode
  sq_ipv4 :: ipv4_qualification
  sq_ipv6 :: ipv6_qualification
  sq_publicEndpoint :: "string option"
  sq_transportEndpoint :: "string option"
  sq_recommendation :: string

text \<open>\<open>/https?:\/\/([^:/]+)/\<close>\<close>

definition host_run :: "string \<Rightarrow> string" where
  "host_run s = takeWhile (\<lambda>c. c \<noteq> CHR '':'' \<and> c \<noteq> CHR ''/'') s"

fun extractIp :: "string \<Rightarrow> string option" where
  "extractIp [] = None"
| "extractIp (c # cs) =
     (if starts_with (c # cs) ''http://'' \<and> host_run (drop 7 (c # cs)) \<noteq> [] then Some (host_run (drop 7 (c # cs)))
      else if starts_with (c # cs) ''https://'' \<and> host_run (drop 8 (c # cs)) \<noteq> [] then Some (host_run (drop 8 (c # cs)))
      else extractIp cs)"

definition cgnat_line :: "string \<Rightarrow> bool" where
  \<comment> \<open>\<open>/cgnat|ds-lite|carrier-grade/i\<close>\<close>
  "cgnat_line l = list_ex (contains (js_lower l)) [''cgnat'', ''ds-lite'', ''carrier-grade'']"

definition deriveExposureMode :: "nat_profile \<Rightarrow> ipv4_qualification \<Rightarrow> ipv6_qualification \<Rightarrow> exposure_mode" where
  "deriveExposureMode p v4 v6 =
     (let e = or_else (np_publicEndpoint p) []; ipv4Ok = (e \<noteq> [] \<and> \<not> contains e ''['') in
      if np_tier p = 3 then Relay_required
      else if np_tier p = 2 \<or> np_transportMethod p = External_tunnel then Tunnel_required
      else if np_tier p = 4 \<or> e = [] then (if q4_cgnat v4 then Ipv4_cgnat_blocked else Outbound_only)
      else if ipv4Ok \<and> q6_routable v6 \<and> q6_pinholeOk v6 then Dual_stack_available
      else if \<not> ipv4Ok \<and> q6_routable v6
      then (if q6_pinholeOk v6 then Ipv6_direct_pinhole_available else Ipv6_direct_firewall_required)
      else Ipv4_public_direct)"

fun RECOMMENDATIONS :: "exposure_mode \<Rightarrow> string" where
  "RECOMMENDATIONS Ipv4_public_direct = ''Direct IPv4 connection available. No additional setup needed.''"
| "RECOMMENDATIONS Dual_stack_available = ''Dual-stack (IPv4 + IPv6) available. Consumers can reach you on either path.''"
| "RECOMMENDATIONS Ipv6_direct_pinhole_available = ''IPv6 direct connection available with firewall pinhole. IPv4 unreachable.''"
| "RECOMMENDATIONS Ipv6_direct_firewall_required = ''IPv6 address routable but firewall is blocking. Open the relevant port.''"
| "RECOMMENDATIONS Relay_required = ''Behind CGNAT or strict firewall - use relay mode (iicp-node --relay-worker-endpoint).''"
| "RECOMMENDATIONS Tunnel_required = ''External tunnel detected (ngrok/Tailscale). Advertise the tunnel URL as public endpoint.''"
| "RECOMMENDATIONS Ipv4_cgnat_blocked = ''Carrier-grade NAT detected. Relay mode is the recommended path.''"
| "RECOMMENDATIONS Outbound_only = ''No inbound connectivity detected. Set --public-endpoint manually or use relay mode.''"

definition buildRecommendation :: "exposure_mode \<Rightarrow> nat_profile \<Rightarrow> string" where
  "buildRecommendation mode p =
     (let guidance = or_else (np_operatorGuidance p) [] in
      if guidance = [] then RECOMMENDATIONS mode else RECOMMENDATIONS mode @ '' '' @ guidance)"

text \<open>
  A profile has no field \<open>pinholeOk\<close>, the one that is looked for, unless a caller added it: \<open>added\<close>
  says what it then holds.
\<close>

definition qualifyService :: "bool option \<Rightarrow> nat_profile \<Rightarrow> service_qualification" where
  "qualifyService added p =
     (let v4 = \<lparr>q4_publicIp = extractIp (or_else (np_publicEndpoint p) []),
                q4_cgnat = list_ex cgnat_line (np_detectionLog p),
                q4_upnpMapped = (np_transportMethod p = Upnp_mapped)\<rparr>;
          v6 = \<lparr>q6_routable = (case np_ipv6 p of None \<Rightarrow> False | Some v6 \<Rightarrow> ip6_globalV6Available v6),
                q6_pinholeOk = (np_ipv6 p \<noteq> None \<and> added = Some True),
                q6_address = (case np_ipv6 p of None \<Rightarrow> None
                  | Some v6 \<Rightarrow> (case ip6_addresses v6 of [] \<Rightarrow> None | a # _ \<Rightarrow> Some a))\<rparr>;
          mode = deriveExposureMode p v4 v6
      in \<lparr>sq_exposureMode = mode, sq_ipv4 = v4, sq_ipv6 = v6, sq_publicEndpoint = np_publicEndpoint p,
          sq_transportEndpoint = np_transportEndpoint p, sq_recommendation = buildRecommendation mode p\<rparr>)"

definition qualifyServiceAsync :: "host \<Rightarrow> string option \<Rightarrow> nat option \<Rightarrow> nat option \<Rightarrow> bool option \<Rightarrow> nat option \<Rightarrow> service_qualification" where
  "qualifyServiceAsync h bindHost bindPort transportPort detectV6 timeoutMs =
     qualifyService None (detectNat h
       \<lparr>no_bindHost = or_else bindHost ''0.0.0.0'', no_bindPort = or_else bindPort 8020, no_operatorPublicEndpoint = None,
        no_upnpLeaseSeconds = 3600, no_timeoutMs = or_else timeoutMs 15000, no_externalIpProbeUrl = None,
        no_transportPort = Some (or_else transportPort 9484), no_detectV6 = or_else detectV6 True\<rparr>)"

section \<open>The node\<close>

record nat_node =
  nn_endpoint :: string
  nn_transportEndpoint :: "string option"
  nn_transportMethod :: "transport_method option"
  nn_natType :: "string option"
  nn_transportMetadata :: "(nat \<times> string list) option"
  nn_pinholeUid :: "int option option"
  nn_pinholeLeaseSeconds :: rat
  nn_renewalAfterMs :: "rat option"

definition schedulePinholeRenewal :: "nat_node \<Rightarrow> nat_node" where
  \<comment> \<open>a pending timer is replaced\<close>
  "schedulePinholeRenewal n = n\<lparr>nn_renewalAfterMs := Some (max (nn_pinholeLeaseSeconds n / 2) 60 * 1000)\<rparr>"

definition adopt_pinhole :: "ipv6_profile option \<Rightarrow> nat_node \<Rightarrow> nat_node" where
  "adopt_pinhole v6 n =
     (case v6 of
        None \<Rightarrow> n
      | Some v \<Rightarrow>
          (case (ip6_pinholeActive v, ip6_pinholeUniqueId v) of
             (Some True, Some uid) \<Rightarrow>
               let lease = or_else (ip6_pinholeLeaseSeconds v) 0;
                   n' = n\<lparr>nn_pinholeUid := Some uid\<rparr>
               in schedulePinholeRenewal (if 0 < lease then n'\<lparr>nn_pinholeLeaseSeconds := of_nat lease\<rparr> else n')
           | _ \<Rightarrow> n))"

definition applyNatProfile :: "nat_profile \<Rightarrow> nat_node \<Rightarrow> nat_node" where
  "applyNatProfile p n =
     adopt_pinhole (np_ipv6 p)
       (n\<lparr>nn_endpoint := (if isReachable p then or_else (np_publicEndpoint p) [] else nn_endpoint n),
          nn_transportEndpoint := (if or_else (np_transportEndpoint p) [] \<noteq> [] then np_transportEndpoint p else nn_transportEndpoint n),
          nn_transportMethod := (if np_transportMethod p \<noteq> Unreachable then Some (np_transportMethod p) else nn_transportMethod n),
          nn_natType := Some (or_else (nn_natType n) ''unknown''),
          nn_transportMetadata := Some (np_tier p, case np_detectionLog p of [] \<Rightarrow> [] | lines \<Rightarrow> [last lines])\<rparr>)"

text \<open>
  The timer has two steps: it fires and asks for the renewal (the number asked for, when one is
  tracked), and the answer comes (\<open>None\<close> when it threw). Between them the node may revoke.
\<close>

definition renewal_fires :: "nat_node \<Rightarrow> nat_node \<times> int option option" where
  "renewal_fires n = (n\<lparr>nn_renewalAfterMs := None\<rparr>, nn_pinholeUid n)"

definition renewal_answered :: "bool option \<Rightarrow> nat_node \<Rightarrow> nat_node" where
  "renewal_answered ok n =
     (case ok of
        Some False \<Rightarrow> schedulePinholeRenewal (n\<lparr>nn_pinholeLeaseSeconds := max (nn_pinholeLeaseSeconds n) 120\<rparr>)
      | _ \<Rightarrow> schedulePinholeRenewal n)"

definition revokePinhole :: "nat_node \<Rightarrow> nat_node \<times> int option option" where
  \<comment> \<open>the number of the pinhole to delete\<close>
  "revokePinhole n = (n\<lparr>nn_renewalAfterMs := None, nn_pinholeUid := None\<rparr>, nn_pinholeUid n)"

section \<open>What an advertised address rests on\<close>

text \<open>The four sources of a public address, as properties of the host.\<close>

definition public_interface :: "host \<Rightarrow> string \<Rightarrow> bool" where
  "public_interface h ip =
     list_ex (\<lambda>e. ni_family e = ''IPv4'' \<and> \<not> ni_internal e \<and> ni_address e = ip \<and> \<not> isNonPublicIpv4 ip) (ho_nics h)"

definition own_gua :: "host \<Rightarrow> string \<Rightarrow> bool" where
  "own_gua h a =
     list_ex (\<lambda>e. ni_family e = ''IPv6'' \<and> \<not> ni_internal e \<and> a = hd (split_on (CHR ''%'') (ni_address e)) \<and> is_gua a) (ho_nics h)"

definition router_address :: "host \<Rightarrow> nat_options \<Rightarrow> string \<Rightarrow> bool" where
  "router_address h opts ip =
     ((case ho_upnp h of
         Inl _ \<Rightarrow> False
       | Inr client \<Rightarrow> uc_externalIp client = Inr ip \<and> ip \<noteq> [] \<and> ip \<noteq> ''0.0.0.0'') \<or>
      probeExternalIp h (or_else (no_externalIpProbeUrl opts) []) = Some ip)"

definition forwarded :: "host \<Rightarrow> nat_options \<Rightarrow> nat \<Rightarrow> nat \<Rightarrow> nat \<Rightarrow> bool" where
  \<comment> \<open>the \<open>k\<close>th attempt got the external port for the internal one\<close>
  "forwarded h opts k internal ext =
     (case ho_upnp h of
        Inl _ \<Rightarrow> False
      | Inr client \<Rightarrow> map_one h client (no_upnpLeaseSeconds opts) (ho_lan h k) internal = Inr (Some ext))"

definition tunnel_known :: "host \<Rightarrow> nat_options \<Rightarrow> string \<Rightarrow> bool" where
  "tunnel_known h opts u = (detectExternalTunnel h (no_bindPort opts) = Some u \<and> https_url u)"

definition justified :: "host \<Rightarrow> nat_options \<Rightarrow> transport_method \<Rightarrow> string \<Rightarrow> bool" where
  "justified h opts method u =
     (let port = '':'' @ digits (no_bindPort opts) in
      case method of
        Direct \<Rightarrow>
          no_operatorPublicEndpoint opts = Some u \<and> looksRoutable h u \<or>
          (\<exists>ip. u = ''http://'' @ ip @ port \<and> public_interface h ip) \<or>
          (\<exists>a. u = ''http://['' @ a @ '']'' @ port \<and> own_gua h a \<and> no_detectV6 opts \<and>
               (ho_v6_bind h (no_bindPort opts) = None \<or> ho_v6_status h ''https://api6.ipify.org'' = Some 200))
      | Upnp_mapped \<Rightarrow>
          (\<exists>ip ext. u = ''http://'' @ ip @ '':'' @ digits ext \<and> router_address h opts ip \<and>
               forwarded h opts 0 (no_bindPort opts) ext \<and> detectCgnat h ip = None)
      | External_tunnel \<Rightarrow> tunnel_known h opts u
      | _ \<Rightarrow> False)"

text \<open>What every tier keeps: a settled profile is justified, and an open one has no endpoint yet.\<close>

definition open_profile :: "host \<Rightarrow> nat_options \<Rightarrow> nat_profile \<Rightarrow> bool" where
  "open_profile h opts p =
     (np_tier p = 4 \<and> np_transportMethod p = Unreachable \<and> np_publicEndpoint p = None \<and> np_transportEndpoint p = None \<and>
      (case np_ipv6 p of None \<Rightarrow> True | Some v6 \<Rightarrow> no_detectV6 opts \<and> v6 = detectIpv6 h (no_bindPort opts)))"

definition sound_profile :: "host \<Rightarrow> nat_options \<Rightarrow> nat_profile \<Rightarrow> bool" where
  "sound_profile h opts p =
     (case np_publicEndpoint p of
        None \<Rightarrow> np_tier p = 4 \<and> np_transportMethod p = Unreachable \<and> np_transportEndpoint p = None \<and> or_else (np_operatorGuidance p) [] \<noteq> []
      | Some u \<Rightarrow> np_tier p \<le> 1 \<and> u \<noteq> [] \<and> justified h opts (np_transportMethod p) u)"

lemma open_profile_note [simp]: "open_profile h opts (nat_note l p) = open_profile h opts p"
  by (simp add: open_profile_def nat_note_def)

lemma settled_profile_fields [simp]:
  "np_tier (settled_profile r p e) = np_tier r" "np_transportMethod (settled_profile r p e) = np_transportMethod r"
  "np_publicEndpoint (settled_profile r p e) = Some e"
  by (simp_all add: settled_profile_def)

lemma newProfile_fields [simp]:
  "np_tier (newProfile t m) = t" "np_transportMethod (newProfile t m) = m"
  by (simp_all add: newProfile_def)

lemma find_some: "List.find P xs = Some x \<Longrightarrow> x \<in> set xs \<and> P x"
  by (induction xs) (auto split: if_splits)

lemma listGlobal_own: "a \<in> set (listGlobalIpv6Addresses (ho_nics h)) \<Longrightarrow> own_gua h a"
  by (auto simp: listGlobalIpv6Addresses_def own_gua_def list_ex_iff)

lemma best_gua_own: "best_gua as \<noteq> [] \<Longrightarrow> best_gua as \<in> set as"
  by (auto simp: best_gua_def dest: find_some split: option.splits list.splits)

lemma public_interface_found: "detectPublicV4OnInterfaces (ho_nics h) = Some ip \<Longrightarrow> public_interface h ip"
  by (auto simp: detectPublicV4OnInterfaces_def public_interface_def list_ex_iff dest!: find_some)

lemma operator_tier_sound:
  assumes "open_profile h opts p"
  shows "case operator_tier h opts p of Inl s \<Rightarrow> sound_profile h opts s | Inr q \<Rightarrow> open_profile h opts q"
  using assms by (cases "no_operatorPublicEndpoint opts") (auto simp: operator_tier_def Let_def sound_profile_def justified_def)

lemma interface_tier_sound:
  assumes "open_profile h opts p"
  shows "case interface_tier h opts p of Inl s \<Rightarrow> sound_profile h opts s | Inr q \<Rightarrow> open_profile h opts q"
  using assms by (auto simp: interface_tier_def Let_def sound_profile_def justified_def dest: public_interface_found split: option.split)

lemma gua_tier_sound:
  assumes "open_profile h opts p"
  shows "case gua_tier h opts p of Inl s \<Rightarrow> sound_profile h opts s | Inr q \<Rightarrow> open_profile h opts q"
proof (cases "np_ipv6 p")
  case None
  then show ?thesis using assms by (simp add: gua_tier_def)
next
  case (Some v6)
  then have v6: "v6 = detectIpv6 h (no_bindPort opts)" "no_detectV6 opts" using assms by (simp_all add: open_profile_def)
  have gua: "own_gua h (best_gua (ip6_addresses v6))" if "best_gua (ip6_addresses v6) \<noteq> []"
    using best_gua_own [OF that] listGlobal_own by (simp add: v6 detectIpv6_def Let_def)
  have bound: "ip6_listenerV6Ok v6 \<Longrightarrow> ho_v6_bind h (no_bindPort opts) = None" by (simp add: v6 detectIpv6_def Let_def)
  show ?thesis using assms Some gua bound v6(2)
    by (auto simp: gua_tier_def Let_def sound_profile_def justified_def)
qed

lemma fallback_sound:
  assumes "tryIpv6Fallback h l p (no_bindPort opts) tp = Some q" "open_profile h opts p"
  shows "sound_profile h opts q"
proof (cases "np_ipv6 p")
  case None
  then show ?thesis using assms(1) by (simp add: tryIpv6Fallback_def)
next
  case (Some v6)
  then have v6: "v6 = detectIpv6 h (no_bindPort opts)" "no_detectV6 opts" using assms(2) by (simp_all add: open_profile_def)
  have usable: "ip6_globalV6Available v6" "ip6_externalV6Reachable v6"
    using assms(1) Some by (auto simp: tryIpv6Fallback_def split: if_splits)
  then have ne: "ip6_addresses v6 \<noteq> []" and out: "ho_v6_status h ''https://api6.ipify.org'' = Some 200"
    by (simp_all add: v6 detectIpv6_def Let_def)
  then obtain a as where a: "ip6_addresses v6 = a # as" by (cases "ip6_addresses v6") auto
  have own: "own_gua h a" using a listGlobal_own [of a h] by (simp add: v6 detectIpv6_def Let_def)
  have "np_tier q = 1 \<and> np_transportMethod q = Direct \<and>
    np_publicEndpoint q = Some (''http://['' @ a @ '']'' @ '':'' @ digits (no_bindPort opts))"
    using assms(1) Some a usable by (auto simp: tryIpv6Fallback_def Let_def split: prod.splits)
  then show ?thesis using own out v6(2) by (auto simp: sound_profile_def justified_def Let_def)
qed

lemma probed_not_empty: "probeExternalIp h u = Some ip \<Longrightarrow> \<not> no_wan_ip (Some ip)"
  by (auto simp: probeExternalIp_def no_wan_ip_def isNonPublicIpv4_def isIPv4_def decimal_def parse_v4_def split: option.splits if_splits)

lemma probed_needs_url: "probeExternalIp h u = Some ip \<Longrightarrow> isIPv4 ip \<and> \<not> isNonPublicIpv4 ip"
  by (auto simp: probeExternalIp_def split: option.splits if_splits)

lemma map_extra_keeps:
  "map_extra h client lease k extras mapped m = Inr (mapped', m') \<Longrightarrow> b \<notin> set extras \<Longrightarrow> map_of m' b = map_of m b"
  by (induction h client lease k extras mapped m rule: map_extra.induct) (auto simp: update_conv' split: sum.splits option.splits)

lemma upnp_success:
  assumes "tryUpnpMapping h (b # extras) lease = Inr r" "un_success r" "b \<notin> set extras"
  shows "\<exists>client ip ext. ho_upnp h = Inr client \<and> uc_externalIp client = Inr ip \<and> un_externalIp r = Some ip \<and>
    map_one h client lease (ho_lan h 0) b = Inr (Some ext) \<and> external_port r b = ext"
  using assms
  by (auto simp: tryUpnpMapping_def upnp_refused_def external_port_def map_extra_keeps split: sum.splits option.splits)

lemma ports_to_map_distinct: "ports_to_map opts = no_bindPort opts # extras \<Longrightarrow> no_bindPort opts \<notin> set extras"
  by (cases "no_transportPort opts") (auto simp: ports_to_map_def wants_transport_def)

lemma wan_ip_router:
  assumes "wan_ip h opts (Some ip) p = (p', ip')" "ho_upnp h = Inr client" "uc_externalIp client = Inr ip" "\<not> no_wan_ip ip'"
  shows "router_address h opts (or_else ip' [])"
proof (cases "no_wan_ip (Some ip)")
  case False
  then have "ip' = Some ip" using assms(1) by (simp add: wan_ip_def Let_def)
  then show ?thesis using False assms(2,3) by (simp add: router_address_def no_wan_ip_def)
next
  case True
  then have "ip' \<noteq> Some ip" using assms(4) by auto
  then obtain probed where "probeExternalIp h (or_else (no_externalIpProbeUrl opts) []) = Some probed" "ip' = Some probed"
    using assms(1) by (auto simp: wan_ip_def Let_def split: if_splits option.splits)
  then show ?thesis by (simp add: router_address_def)
qed

lemma wan_ip_open: "wan_ip h opts ip p = (p', ip') \<Longrightarrow> open_profile h opts p \<Longrightarrow> open_profile h opts p'"
  by (auto simp: wan_ip_def Let_def split: if_splits option.splits)

lemma mapped_profile_fields:
  "np_tier (mapped_profile opts r ip p) = 1" "np_transportMethod (mapped_profile opts r ip p) = Upnp_mapped"
  "np_publicEndpoint (mapped_profile opts r ip p) = Some (''http://'' @ ip @ '':'' @ digits (external_port r (no_bindPort opts)))"
  by (simp_all add: mapped_profile_def Let_def)

lemma guidance_given:
  "open_profile h opts p \<Longrightarrow> g \<noteq> [] \<Longrightarrow> sound_profile h opts (p\<lparr>np_operatorGuidance := Some g\<rparr>)"
  by (simp add: open_profile_def sound_profile_def)

lemma guidance_texts [simp]: "no_wan_guidance n \<noteq> []" "cgnat_guidance ip \<noteq> []" "no_mapping_guidance \<noteq> []"
  by (simp_all add: no_wan_guidance_def cgnat_guidance_def no_mapping_guidance_def)

lemma mapped_tier_sound:
  assumes "open_profile h opts p" "tryUpnpMapping h (ports_to_map opts) (no_upnpLeaseSeconds opts) = Inr r" "un_success r"
  shows "sound_profile h opts (mapped_tier h opts r p)"
proof -
  obtain extras where ports: "ports_to_map opts = no_bindPort opts # extras" by (simp add: ports_to_map_def)
  obtain client ip ext where up: "ho_upnp h = Inr client" "uc_externalIp client = Inr ip" "un_externalIp r = Some ip"
    "map_one h client (no_upnpLeaseSeconds opts) (ho_lan h 0) (no_bindPort opts) = Inr (Some ext)"
    "external_port r (no_bindPort opts) = ext"
    using upnp_success assms(2,3) ports_to_map_distinct [OF ports] unfolding ports by metis
  obtain p' ip' where w: "wan_ip h opts (Some ip) p = (p', ip')" by fastforce
  have op: "open_profile h opts p'" using w assms(1) by (rule wan_ip_open)
  show ?thesis
  proof (cases "no_wan_ip ip'")
    case True
    then show ?thesis using w up op by (simp add: mapped_tier_def guidance_given)
  next
    case False
    have router: "router_address h opts (or_else ip' [])" using w up(1,2) False by (rule wan_ip_router)
    show ?thesis
    proof (cases "detectCgnat h (or_else ip' [])")
      case None
      then have "sound_profile h opts (mapped_profile opts r (or_else ip' []) p')"
        using router up(1,4,5) by (auto simp: sound_profile_def justified_def forwarded_def mapped_profile_fields)
      then show ?thesis using w up(3) False None by (simp add: mapped_tier_def Let_def)
    next
      case (Some warning)
      then show ?thesis using w up(3) False op
        by (auto simp: mapped_tier_def Let_def guidance_given dest: fallback_sound split: option.split)
    qed
  qed
qed

lemma ngrok_https: "detectNgrokTunnel h n = Some u \<Longrightarrow> https_url u"
  by (auto simp: detectNgrokTunnel_def Let_def filter_eq_Cons_iff dest!: find_some split: option.splits list.splits)

lemma tunnel_https: "detectExternalTunnel h n = Some u \<Longrightarrow> https_url u"
  by (auto simp: detectExternalTunnel_def Let_def detectTailscaleFunnel_def https_url_def starts_with_def
      dest!: find_some ngrok_https split: option.splits if_splits)

lemma unmapped_tier_sound:
  assumes "open_profile h opts p"
  shows "sound_profile h opts (unmapped_tier h opts upnp p)"
proof -
  have tunnel: "sound_profile h opts (settled_profile (newProfile 1 External_tunnel) q u)"
    if "detectExternalTunnel h (no_bindPort opts) = Some u" "u \<noteq> []" for q u
    using that by (simp add: sound_profile_def justified_def tunnel_known_def tunnel_https)
  obtain line where "unmapped_tier h opts upnp p = (let noted = nat_note line p
      in case tryIpv6Fallback h (ho_lan h FALLBACK_ATTEMPT) noted (no_bindPort opts) (no_transportPort opts) of
        Some v6 \<Rightarrow> v6
      | None \<Rightarrow>
          (case detectExternalTunnel h (no_bindPort opts) of
             Some tunnelUrl \<Rightarrow>
               if tunnelUrl \<noteq> [] then
                 settled_profile (newProfile 1 External_tunnel)
                   (nat_note (''tier-4: external tunnel auto-detected -> '' @ json_string tunnelUrl) noted) tunnelUrl
               else noted\<lparr>np_operatorGuidance := Some no_mapping_guidance\<rparr>
           | None \<Rightarrow> noted\<lparr>np_operatorGuidance := Some no_mapping_guidance\<rparr>))"
    unfolding unmapped_tier_def by blast
  moreover have "open_profile h opts (nat_note line p)" using assms by simp
  ultimately show ?thesis
    by (auto simp: Let_def guidance_given tunnel [unfolded One_nat_def] dest: fallback_sound split: option.split)
qed

lemma upnp_tier_sound:
  assumes "open_profile h opts p"
  shows "sound_profile h opts (upnp_tier h opts p)"
proof -
  obtain p' upnp where a: "upnp_attempt h opts p = (p', upnp)" by fastforce
  have op: "open_profile h opts p'" using a assms by (auto simp: upnp_attempt_def split: sum.splits)
  have r: "tryUpnpMapping h (ports_to_map opts) (no_upnpLeaseSeconds opts) = Inr r" if "upnp = Some r" for r
    using a that by (auto simp: upnp_attempt_def split: sum.splits if_splits)
  show ?thesis using a op r by (auto simp: upnp_tier_def intro: mapped_tier_sound unmapped_tier_sound split: option.split)
qed

lemma qualify_v6_open:
  "open_profile h opts ((newProfile 4 Unreachable)\<lparr>np_internalEndpoint := e\<rparr>) \<and>
   (np_ipv6 p = None \<longrightarrow> open_profile h opts p \<longrightarrow> open_profile h opts (qualify_v6 h opts p))"
  by (simp add: open_profile_def newProfile_def qualify_v6_def Let_def nat_note_def)

lemma or_settled_sound:
  assumes "case t of Inl s \<Rightarrow> Q s | Inr q \<Rightarrow> R q" "\<And>q. R q \<Longrightarrow> Q (k q)"
  shows "Q (or_settled t k)"
  using assms by (simp add: or_settled_def split: sum.splits)

lemma detectNat_sound: "sound_profile h opts (detectNat h opts)"
proof -
  define p where "p = (newProfile 4 Unreachable)\<lparr>np_internalEndpoint :=
    Some (''http://'' @ no_bindHost opts @ '':'' @ digits (no_bindPort opts))\<rparr>"
  have "open_profile h opts (qualify_v6 h opts p)"
    using qualify_v6_open [of h opts "Some (''http://'' @ no_bindHost opts @ '':'' @ digits (no_bindPort opts))" p]
    by (simp add: p_def newProfile_def)
  note settled = or_settled_sound [where Q = "sound_profile h opts" and R = "open_profile h opts"]
  have gua: "sound_profile h opts (or_settled (gua_tier h opts q) (upnp_tier h opts))" if "open_profile h opts q" for q
    using gua_tier_sound [OF that] upnp_tier_sound by (rule settled)
  have v4: "sound_profile h opts (or_settled (interface_tier h opts q) (\<lambda>p. or_settled (gua_tier h opts p) (upnp_tier h opts)))"
    if "open_profile h opts q" for q
    using interface_tier_sound [OF that] gua by (rule settled)
  show ?thesis unfolding detectNat_def Let_def p_def [symmetric]
    using operator_tier_sound [OF \<open>open_profile h opts (qualify_v6 h opts p)\<close>] v4 by (rule settled)
qed


text \<open>A node takes over an endpoint only from a justified profile, and keeps its own otherwise.\<close>

lemma applied_endpoint:
  "nn_endpoint (applyNatProfile (detectNat h opts) n) =
     (case np_publicEndpoint (detectNat h opts) of None \<Rightarrow> nn_endpoint n | Some u \<Rightarrow> u)"
proof -
  have keeps: "nn_endpoint (adopt_pinhole v n') = nn_endpoint n'" for v n'
    by (auto simp: adopt_pinhole_def schedulePinholeRenewal_def Let_def split: option.splits bool.splits)
  show ?thesis using detectNat_sound [of h opts] by (auto simp: applyNatProfile_def keeps sound_profile_def isReachable_def split: option.splits)
qed

section \<open>The public addresses of two checks\<close>

text \<open>
  The private addresses of the detection are the blocked ones of the provider check, apart from
  192.0.0.0/24: an address of that block, which a host behind DS-Lite has on its interface, is
  advertised, and the clients of this package refuse it.
\<close>

lemma split_on_not_nil [simp]: "split_on c s \<noteq> []"
  by (induction s) (auto split: list.splits)

lemma v4_segment_decimal: "v4_segment s = Some n \<Longrightarrow> decimal s = n \<and> n \<le> 255"
  by (auto simp: v4_segment_def decimal_def Let_def split: if_splits)

lemma parse_v4_parts:
  assumes "parse_v4 ip = Some n"
  obtains a b c d where "map decimal (split_on (CHR ''.'') ip) = [a, b, c, d]" "n = v4_of_octets a b c d"
    "a \<le> 255" "b \<le> 255" "c \<le> 255" "d \<le> 255"
proof -
  obtain w x y z a b c d where s: "split_on (CHR ''.'') ip = [w, x, y, z]"
    and p: "v4_segment w = Some a" "v4_segment x = Some b" "v4_segment y = Some c" "v4_segment z = Some d"
    and n: "n = v4_of_octets a b c d"
    using assms by (auto simp: parse_v4_def split: list.splits option.splits)
  show ?thesis using that [of a b c d] s n p [THEN v4_segment_decimal] by simp
qed

lemma subnet_octets:
  assumes "b \<le> 255" "c \<le> 255" "d \<le> 255"
  shows "v4_of_octets a b c d div 16777216 = a" "v4_of_octets a b c d div 268435456 = a div 16"
    "v4_of_octets a b c d div 65536 = a * 256 + b" "v4_of_octets a b c d div 4194304 = a * 4 + b div 64"
    "v4_of_octets a b c d div 1048576 = a * 16 + b div 16" "v4_of_octets a b c d div 131072 = a * 128 + b div 2"
    "v4_of_octets a b c d div 256 = (a * 256 + b) * 256 + c"
  using assms by (simp_all add: v4_of_octets_def)

lemma octet_and_part:
  assumes "(b :: nat) < m" "y < m"
  shows "a * m + b = x * m + y \<longleftrightarrow> a = x \<and> b = y"
proof
  assume eq: "a * m + b = x * m + y"
  have "(a * m + b) div m = a" "(x * m + y) div m = x" using assms by simp_all
  then show "a = x \<and> b = y" using eq by auto
qed simp

lemma two_octets: "b \<le> 255 \<Longrightarrow> y \<le> 255 \<Longrightarrow> a * 256 + b = x * 256 + y \<longleftrightarrow> a = x \<and> b = (y :: nat)"
  using octet_and_part [of b 256 y] by simp

lemma three_octets:
  "b \<le> 255 \<Longrightarrow> y \<le> 255 \<Longrightarrow> c \<le> 255 \<Longrightarrow> z \<le> 255 \<Longrightarrow>
   65536 * a + b * 256 + c = 65536 * x + y * 256 + z \<longleftrightarrow> a = x \<and> b = y \<and> c = (z :: nat)"
  using two_octets [of c z "a * 256 + b" "x * 256 + y"] two_octets [of b y a x] by (simp add: algebra_simps)

text \<open>Each block of the list, as a condition on the octets.\<close>

lemma blocks_by_octets:
  assumes "b \<le> 255" "c \<le> 255" "d \<le> 255"
  shows "in_subnet 32 (v4_of_octets a b c d) (v4_of_octets x 0 0 0, 8) \<longleftrightarrow> a = x"
    "in_subnet 32 (v4_of_octets a b c d) (v4_of_octets x 0 0 0, 4) \<longleftrightarrow> a div 16 = x div 16"
    "y \<le> 255 \<Longrightarrow> in_subnet 32 (v4_of_octets a b c d) (v4_of_octets x y 0 0, 16) \<longleftrightarrow> a = x \<and> b = y"
    "y \<le> 255 \<Longrightarrow> in_subnet 32 (v4_of_octets a b c d) (v4_of_octets x y 0 0, 10) \<longleftrightarrow> a = x \<and> b div 64 = y div 64"
    "y \<le> 255 \<Longrightarrow> in_subnet 32 (v4_of_octets a b c d) (v4_of_octets x y 0 0, 12) \<longleftrightarrow> a = x \<and> b div 16 = y div 16"
    "y \<le> 255 \<Longrightarrow> in_subnet 32 (v4_of_octets a b c d) (v4_of_octets x y 0 0, 15) \<longleftrightarrow> a = x \<and> b div 2 = y div 2"
    "y \<le> 255 \<Longrightarrow> z \<le> 255 \<Longrightarrow> in_subnet 32 (v4_of_octets a b c d) (v4_of_octets x y z 0, 24) \<longleftrightarrow> a = x \<and> b = y \<and> c = z"
  using assms
  by (simp_all add: in_subnet_def subnet_octets octet_and_part two_octets three_octets)

lemma octet_ranges:
  assumes "a \<le> (255 :: nat)"
  shows "(16 \<le> b \<and> b \<le> 31) = (b div 16 = (1 :: nat))" "(224 \<le> a) = (a div 16 = 14 \<or> a div 16 = 15)"
    "(64 \<le> b \<and> b \<le> 127) = (b div 64 = 1)" "(b = 18 \<or> b = 19) = (b div 2 = 9)"
proof -
  show "(16 \<le> b \<and> b \<le> 31) = (b div 16 = 1)" using div_nat_eqI [of 16 1 b] by auto
  show "(64 \<le> b \<and> b \<le> 127) = (b div 64 = 1)" using div_nat_eqI [of 64 1 b] by auto
  show "(b = 18 \<or> b = 19) = (b div 2 = 9)" using div_nat_eqI [of 2 9 b] by auto
  show "(224 \<le> a) = (a div 16 = 14 \<or> a div 16 = 15)" using assms div_nat_eqI [of 16 14 a] div_nat_eqI [of 16 15 a] by auto
qed

lemma nonpublic_is_blocked:
  assumes "parse_v4 ip = Some n"
  shows "isNonPublicIpv4 ip \<longleftrightarrow> \<not> v4_allowed n \<and> \<not> in_subnet 32 n (v4_of_octets 192 0 0 0, 24)"
proof -
  obtain a b c d where parts: "map decimal (split_on (CHR ''.'') ip) = [a, b, c, d]" and n: "n = v4_of_octets a b c d"
    and le: "a \<le> 255" "b \<le> 255" "c \<le> 255" "d \<le> 255"
    using assms by (rule parse_v4_parts)
  have ip: "isNonPublicIpv4 ip \<longleftrightarrow> a = 0 \<or> a = 127 \<or> a = 10 \<or> a = 172 \<and> b div 16 = 1 \<or> a = 192 \<and> b = 168 \<or>
      a = 169 \<and> b = 254 \<or> a div 16 = 14 \<or> a div 16 = 15 \<or> a = 100 \<and> b div 64 = 1 \<or> a = 192 \<and> b = 0 \<and> c = 2 \<or>
      a = 198 \<and> b div 2 = 9 \<or> a = 198 \<and> b = 51 \<and> c = 100 \<or> a = 203 \<and> b = 0 \<and> c = 113"
  proof -
    note ranges = octet_ranges [OF le(1)]
    have "isNonPublicIpv4 ip \<longleftrightarrow> a = 0 \<or> a = 127 \<or> a = 10 \<or> a = 172 \<and> 16 \<le> b \<and> b \<le> 31 \<or> a = 192 \<and> b = 168 \<or>
        a = 169 \<and> b = 254 \<or> 224 \<le> a \<or> a = 100 \<and> 64 \<le> b \<and> b \<le> 127 \<or> a = 192 \<and> b = 0 \<and> c = 2 \<or>
        a = 198 \<and> (b = 18 \<or> b = 19) \<or> a = 198 \<and> b = 51 \<and> c = 100 \<or> a = 203 \<and> b = 0 \<and> c = 113"
      using parts assms by (simp add: isNonPublicIpv4_def isIPv4_def)
    then show ?thesis unfolding ranges by (simp only: disj_assoc)
  qed
  have "\<not> v4_allowed n \<longleftrightarrow> isNonPublicIpv4 ip \<or> a = 192 \<and> b = 0 \<and> c = 0"
    unfolding ip v4_allowed_def blocked_v4_def n by (simp add: blocks_by_octets le conj_ac disj_ac)
  moreover have "in_subnet 32 n (v4_of_octets 192 0 0 0, 24) \<longleftrightarrow> a = 192 \<and> b = 0 \<and> c = 0"
    by (simp add: blocks_by_octets le n)
  moreover have "\<not> isNonPublicIpv4 ip" if "a = 192 \<and> b = 0 \<and> c = 0" using that by (simp add: ip)
  ultimately show ?thesis by blast
qed

section \<open>Limits of the detection\<close>

text \<open>
  The parser leaves an IPv6 host in its brackets, so the operator's own IPv6 endpoint is never found
  routable: it is neither an address nor a name with a dot.
\<close>

lemma bracketed_endpoint_refused:
  assumes "ho_parse_url h u = Some parsed" "url_hostname parsed = CHR ''['' # rest"
    "\<not> ho_isIPv6 h (js_lower (url_hostname parsed))" "\<not> contains (js_lower rest) ''.''"
  shows "\<not> looksRoutable h u"
proof -
  have low: "js_lower (CHR ''['' # rest) = CHR ''['' # js_lower rest" by (simp add: js_lower_def js_lower_char_def)
  have "v4_segment (CHR ''['' # s) = None" for s by (simp add: v4_segment_def all_digits_def)
  then have "parse_v4 (CHR ''['' # js_lower rest) = None" by (auto simp: parse_v4_def split: list.splits option.splits)
  moreover have "\<not> contains (CHR ''['' # js_lower rest) ''.''" using assms(4) by (simp add: starts_with_def)
  ultimately show ?thesis using assms(1-3) low by (auto simp: looksRoutable_def Let_def isIPv4_def)
qed

lemma bracketed_endpoint_refused_example:
  "\<not> looksRoutable
     (\<lparr>ho_parse_url = (\<lambda>u. Some \<lparr>url_protocol = ''http:'', url_username = [], url_password = [], url_hostname = ''[2001:db8::7]'',
         url_port = ''8020'', url_origin = u\<rparr>),
       ho_resolve_url = (\<lambda>b r. Inr r), ho_isIPv6 = (\<lambda>s. s = ''2001:db8::7''), ho_nics = [], ho_platform = ''linux'', ho_ifconfig = None,
       ho_v6_bind = (\<lambda>p. None), ho_v6_status = (\<lambda>u. None), ho_reverse = (\<lambda>ip. None), ho_probe = (\<lambda>u. None),
       ho_env = (\<lambda>v. None), ho_ngrok = None, ho_tailscale_status = None, ho_tailscale_serve = None, ho_upnp = Inl '''',
       ho_upnp_late = False, ho_lan = (\<lambda>k. \<lparr>la_ssdp = (\<lambda>st. []), la_document = (\<lambda>u. None), la_soap = (\<lambda>u a b. None)\<rparr>)\<rparr>)
     ''http://[2001:db8::7]:8020''"
  by (rule bracketed_endpoint_refused) (auto simp: js_lower_def js_lower_char_def starts_with_def)

text \<open>The address that the router reports is advertised without the check of the other tiers.\<close>

lemma router_address_unchecked:
  assumes "tryUpnpMapping h (ports_to_map opts) (no_upnpLeaseSeconds opts) = Inr r" "un_success r"
    "un_externalIp r = Some ip" "\<not> no_wan_ip (Some ip)" "detectCgnat h ip = None"
  shows "np_publicEndpoint (mapped_tier h opts r p) = Some (''http://'' @ ip @ '':'' @ digits (external_port r (no_bindPort opts)))"
  using assms by (simp add: mapped_tier_def wan_ip_def Let_def mapped_profile_fields)

text \<open>No result of a mapping names a device: the message about a refusing router is never logged.\<close>

lemma no_device_named: "tryUpnpMapping h ports lease = Inr r \<Longrightarrow> un_igdDevice r = None"
  by (auto simp: tryUpnpMapping_def upnp_refused_def split: list.splits sum.splits option.splits)

text \<open>A mapped profile, an operator's and a tunnel's carry no IPv6 part, though the probe ran.\<close>

lemma mapped_forgets_v6: "np_ipv6 (mapped_profile opts r ip p) = None"
  by (simp add: mapped_profile_def settled_profile_def newProfile_def nat_note_def Let_def)

lemma operator_forgets_v6: "operator_tier h opts p = Inl q \<Longrightarrow> np_ipv6 q = None"
  by (auto simp: operator_tier_def settled_profile_def newProfile_def Let_def split: if_splits)

text \<open>
  No detected profile is classified as reachable over both stacks or through an open pinhole, as the
  flag that is looked for is no field of a profile.
\<close>

lemma pinhole_never_seen:
  "sq_exposureMode (qualifyService None p) \<notin> {Dual_stack_available, Ipv6_direct_pinhole_available}"
  by (simp add: qualifyService_def deriveExposureMode_def Let_def)

text \<open>The public address of an IPv6 endpoint is cut at its first colon.\<close>

lemma v6_address_cut: "extractIp ''http://[2001:db8::7]:8020'' = Some ''[2001''"
  by (simp add: starts_with_def host_run_def)

text \<open>A port is found inside a longer one.\<close>

lemma tunnel_port_inside:
  "detectNgrokTunnel (h\<lparr>ho_ngrok := Some [(Some ''https://a.example'', Some ''localhost:8020''), (Some ''https://b.example'', Some ''localhost:802'')]\<rparr>) 802
     = Some ''https://a.example''"
proof -
  have "digits 802 = ''802''" by (simp add: digits.simps char_of_def bit_iff_odd)
  then show ?thesis by (simp add: detectNgrokTunnel_def https_url_def starts_with_def port_suffix_def)
qed

text \<open>A renewal that is refused is asked again no sooner than one that succeeded, and one at half of the lease.\<close>

lemma retry_is_not_sooner:
  "the (nn_renewalAfterMs (renewal_answered (Some True) n)) \<le> the (nn_renewalAfterMs (renewal_answered (Some False) n))"
  by (simp add: renewal_answered_def schedulePinholeRenewal_def)

text \<open>An answer that comes after the node revoked its pinhole arms the timer again; then it asks for nothing.\<close>

lemma revoked_timer_comes_back:
  "nn_renewalAfterMs (renewal_answered ok (fst (revokePinhole n))) \<noteq> None \<and>
   snd (renewal_fires (renewal_answered ok (fst (revokePinhole n)))) = None"
  by (simp add: renewal_answered_def schedulePinholeRenewal_def revokePinhole_def renewal_fires_def split: option.split bool.split)

section \<open>Pinholes\<close>

text \<open>
  A pinhole is opened only where the router said that inbound pinholes are allowed and answered the
  request; an endpoint is rewritten only to another global address of the host that got one.
\<close>

lemma pinhole_allowed:
  assumes "pinhole_on h l addr port lease protocol hits = Inr (Some r)"
  shows "\<exists>hit svc firewall. hit \<in> set hits \<and> fetchFirewallService h l hit = Inr (Some svc) \<and>
    soapCall l svc ''GetFirewallStatus'' [] = Some firewall \<and> map_of firewall ''InboundPinholeAllowed'' = Some ''1'' \<and>
    ph_leaseSeconds r = lease"
  using assms
proof (induction hits)
  case (Cons hit hits)
  show ?case
  proof (cases "fetchFirewallService h l hit")
    case (Inr answer)
    show ?thesis
    proof (cases answer)
      case None
      then show ?thesis using Cons Inr by auto
    next
      case (Some svc)
      define firewall where "firewall = soapCall l svc ''GetFirewallStatus'' []"
      have "map_of (or_else firewall []) ''InboundPinholeAllowed'' = Some ''1''" "ph_leaseSeconds r = lease"
        using Cons.prems Inr Some
        by (cases "map_of (or_else firewall []) ''InboundPinholeAllowed''";
            auto simp: firewall_def Let_def split: if_splits option.splits)+
      moreover then obtain m where "firewall = Some m" by (cases firewall) auto
      ultimately show ?thesis using Inr Some firewall_def by auto
    qed
  qed (use Cons.prems in simp)
qed simp

lemma first_pinhole_candidate:
  "first_pinhole h k port cands = Inr (Some (chosen, r)) \<Longrightarrow>
   chosen \<in> set cands \<and> (\<exists>j. tryUpnpIpv6Pinhole h (ho_lan h j) chosen port 3600 TCP_PROTOCOL = Inr (Some r))"
  by (induction h k port cands rule: first_pinhole.induct) (auto split: sum.splits option.splits)

lemma ranked_guas:
  assumes "c \<in> set (rankedGlobalIpv6Candidates h)"
  shows "is_gua c"
proof -
  have line: "is_gua (fst f)" if "ifconfig_gua raw = Some f" for raw f
    using that by (auto simp: ifconfig_gua_def Let_def split: if_splits)
  have "\<exists>raw. ifconfig_gua raw = Some f" if "f \<in> set (List.map_filter ifconfig_gua raws)" for f raws
    using that by (auto simp: List.map_filter_def)
  then show ?thesis using assms line
    by (auto simp: rankedGlobalIpv6Candidates_def listGlobalIpv6Addresses_def first_occurrences_def Let_def
        split: if_splits option.splits) force+
qed

lemma rewritten_endpoint_has_pinhole:
  assumes "tryOpenV6PinholeForEndpoint h endpoint bindPort = Inr r" "po_rewrittenEndpoint r = Some u"
  shows "\<exists>scheme chosen port j pin. u = scheme @ ''://['' @ chosen @ '']:'' @ digits port \<and> is_gua chosen \<and>
    chosen \<in> set (rankedGlobalIpv6Candidates h) \<and>
    tryUpnpIpv6Pinhole h (ho_lan h j) chosen port 3600 TCP_PROTOCOL = Inr (Some pin) \<and> po_pinhole r = Some pin"
proof -
  obtain scheme v6Host given where e: "v6_endpoint endpoint = Some (scheme, v6Host, given)"
    using assms by (cases "v6_endpoint endpoint") (auto simp: tryOpenV6PinholeForEndpoint_def no_pinhole_def)
  define port where "port = or_else given bindPort"
  obtain chosen pin where f: "first_pinhole h 0 port (v6Host # filter (\<lambda>c. c \<noteq> v6Host) (rankedGlobalIpv6Candidates h)) = Inr (Some (chosen, pin))"
    and r: "chosen \<noteq> v6Host" "u = scheme @ ''://['' @ chosen @ '']:'' @ digits port" "po_pinhole r = Some pin"
    using assms e
    by (auto simp: tryOpenV6PinholeForEndpoint_def no_pinhole_def Let_def port_def split: option.splits sum.splits if_splits)
  obtain j where "tryUpnpIpv6Pinhole h (ho_lan h j) chosen port 3600 TCP_PROTOCOL = Inr (Some pin)"
    "chosen \<in> set (rankedGlobalIpv6Candidates h)"
    using first_pinhole_candidate [OF f] r(1) by auto
  then show ?thesis using r ranked_guas by metis
qed

end
