(* ===== verification/Confidential.thy ===== *)
theory Confidential imports TaskPipeline SubmissionSafety begin

text \<open>
  The encryption between a consumer and a node: \<open>src/confidentiality.ts\<close>. The primitives of
  \<open>node:crypto\<close> (X25519, HMAC-SHA256, AES-256-GCM, SHA-256), base64url and \<open>JSON\<close> are parameters;
  the key derivation and the layout of the envelopes are the code's. Buffers are texts of bytes.
  At the end a consumer of \<open>Submission\<close> and a node of \<open>TaskPipeline\<close> are put together.
\<close>

section \<open>Primitives\<close>

record cx_primitives =
  cy_runtime :: js_runtime
  cy_b64 :: "string \<Rightarrow> string"
  cy_unb64 :: "string \<Rightarrow> string"
  cy_sha256_hex :: "string \<Rightarrow> string"
  cy_public :: "string \<Rightarrow> string"
  cy_dh :: "string \<Rightarrow> string \<Rightarrow> string option"
  cy_hmac :: "string \<Rightarrow> string \<Rightarrow> string"
  cy_seal :: "string \<Rightarrow> string \<Rightarrow> string \<Rightarrow> string \<Rightarrow> string \<times> string"
  cy_open :: "string \<Rightarrow> string \<Rightarrow> string \<Rightarrow> string \<Rightarrow> string \<Rightarrow> string option"
  cy_stringify :: "js \<Rightarrow> string option"
  cy_parse :: "string \<Rightarrow> js option"
  cy_thrown :: string

text \<open>
  \<open>cy_dh\<close> takes the raw private and the raw public key and is \<open>None\<close> when one is refused;
  \<open>cy_seal key nonce aad plain\<close> gives the ciphertext and the tag; \<open>cy_thrown\<close> is the text of what
  the primitives throw.
\<close>

section \<open>Keys\<close>

partial_function (option) hkdf_expand ::
  "(string \<Rightarrow> string \<Rightarrow> string) \<Rightarrow> string \<Rightarrow> string \<Rightarrow> nat \<Rightarrow> nat \<Rightarrow> string \<Rightarrow> string \<Rightarrow> string option" where
  "hkdf_expand hmac prk info len i t out =
     (if len \<le> length out then Some (take len out)
      else let t' = hmac prk (t @ info @ [char_of i]) in hkdf_expand hmac prk info len (Suc i) t' (out @ t'))"

definition hkdfSha256 :: "cx_primitives \<Rightarrow> string \<Rightarrow> string \<Rightarrow> string \<Rightarrow> nat \<Rightarrow> string option" where
  "hkdfSha256 c ikm salt info len = hkdf_expand (cy_hmac c) (cy_hmac c salt ikm) info len 1 [] []"

definition REQ_INFO_PREFIX :: string where "REQ_INFO_PREFIX = ''IICP-CX-v1''"
definition RESP_INFO_PREFIX :: string where "RESP_INFO_PREFIX = ''IICP-CX-RESP-v1''"

definition publicKeyFromRaw :: "cx_primitives \<Rightarrow> string \<Rightarrow> cx_key" where
  "publicKeyFromRaw c raw =
     \<lparr>ck_algorithm = JStr ''X25519'', ck_encoding = JStr ''base64url'', ck_key = JStr (cy_b64 c raw),
      ck_key_id = JStr (''cx-'' @ take 16 (cy_sha256_hex c raw)), ck_features = None\<rparr>"

text \<open>The key files: what is stored under a name is the private and the public key in base64url.\<close>

definition cxKeyName :: "cx_primitives \<Rightarrow> string \<Rightarrow> string \<Rightarrow> string" where
  "cxKeyName c nodeId endpoint =
     (let stable = (if nodeId \<noteq> [] then nodeId else if endpoint \<noteq> [] then endpoint else ''default'')
      in take 24 (cy_sha256_hex c stable) @ ''.json'')"

definition loadOrCreateNodeCxKey ::
  "cx_primitives \<Rightarrow> string \<Rightarrow> string \<Rightarrow> string \<Rightarrow> (string, string \<times> string) jsmap \<Rightarrow>
   (cx_key \<times> string \<times> string) \<times> (string, string \<times> string) jsmap" where
  \<comment> \<open>the fourth argument is the fresh private key, should one be made\<close>
  "loadOrCreateNodeCxKey c nodeId endpoint fresh files =
     (case map_of files (cxKeyName c nodeId endpoint) of
        Some (private, public) \<Rightarrow>
          ((publicKeyFromRaw c (cy_unb64 c public), cy_unb64 c private, cy_unb64 c public), files)
      | None \<Rightarrow>
          let private = cy_unb64 c (cy_b64 c fresh); public = cy_unb64 c (cy_b64 c (cy_public c fresh)) in
          ((publicKeyFromRaw c public, private, public),
           AList.update (cxKeyName c nodeId endpoint) (cy_b64 c private, cy_b64 c public) files))"

section \<open>Requests\<close>

definition agreement :: "cx_primitives \<Rightarrow> string \<Rightarrow> js \<Rightarrow> string option" where
  \<comment> \<open>a key that is no text is refused\<close>
  "agreement c private key = (case key of JStr x \<Rightarrow> cy_dh c private (cy_unb64 c x) | _ \<Rightarrow> None)"

definition encryptPayloadWithContext ::
  "cx_primitives \<Rightarrow> string \<Rightarrow> string \<Rightarrow> js \<Rightarrow> cx_key \<Rightarrow> string \<Rightarrow> string \<Rightarrow> string + js \<times> string" where
  \<comment> \<open>the second and third argument are the ephemeral private key and the nonce that are drawn\<close>
  "encryptPayloadWithContext c ephemeral nonce payload key taskId intent =
     (if ck_algorithm key \<noteq> JStr ''X25519''
      then Inl (''Unsupported cx_public_key algorithm: '' @ String_of (cy_runtime c) (ck_algorithm key))
      else case agreement c ephemeral (ck_key key) of
        None \<Rightarrow> Inl (cy_thrown c)
      | Some sharedSecret \<Rightarrow>
          (case (hkdfSha256 c sharedSecret nonce (REQ_INFO_PREFIX @ taskId @ intent) 32, cy_stringify c payload) of
             (Some keyMaterial, Some payloadJson) \<Rightarrow>
               let aad = taskId @ ''|'' @ intent;
                   (ciphertext, tag) = cy_seal c keyMaterial nonce aad payloadJson
               in Inr (JObj
                    [(''version'', jint 1), (''recipient_key_id'', ck_key_id key),
                     (''kem_ciphertext'', JStr (cy_b64 c (cy_unb64 c (cy_b64 c (cy_public c ephemeral))))),
                     (''encrypted_body'', JStr (cy_b64 c (ciphertext @ tag))), (''nonce'', JStr (cy_b64 c nonce)),
                     (''aad'', JStr (cy_b64 c aad)), (''plaintext_size'', jint (int (length payloadJson)))], sharedSecret)
           | _ \<Rightarrow> Inl (cy_thrown c)))"

fun split_at :: "char \<Rightarrow> string \<Rightarrow> (string \<times> string) option" where
  \<comment> \<open>what is before and after the first occurrence\<close>
  "split_at c [] = None"
| "split_at c (x # xs) = (if x = c then Some ([], xs) else map_option (\<lambda>(a, b). (x # a, b)) (split_at c xs))"

definition aad_parts :: "string \<Rightarrow> string \<times> string" where
  \<comment> \<open>without a bar, \<open>indexOf\<close> is -1: the last character is cut off the one, the other is whole\<close>
  "aad_parts aad = (case split_at (CHR ''|'') aad of Some p \<Rightarrow> p | None \<Rightarrow> (butlast aad, aad))"

definition body_parts :: "string \<Rightarrow> string \<times> string" where
  "body_parts b = (take (length b - 16) b, drop (length b - 16) b)"

definition decryptPayloadWithContext :: "cx_primitives \<Rightarrow> string \<Rightarrow> js \<Rightarrow> string + js \<times> string" where
  "decryptPayloadWithContext c private conf =
     (let text = (\<lambda>k. cy_unb64 c (String_of (cy_runtime c) (own_property conf k))) in
      case cy_dh c private (text ''kem_ciphertext'') of
        None \<Rightarrow> Inl (cy_thrown c)
      | Some sharedSecret \<Rightarrow>
          let nonce = text ''nonce''; aad = text ''aad''; (taskId, intent) = aad_parts aad;
              (ciphertext, tag) = body_parts (text ''encrypted_body'')
          in (case hkdfSha256 c sharedSecret nonce (REQ_INFO_PREFIX @ taskId @ intent) 32 of
                None \<Rightarrow> Inl (cy_thrown c)
              | Some keyMaterial \<Rightarrow>
                  (case cy_open c keyMaterial nonce aad ciphertext tag of
                     None \<Rightarrow> Inl (cy_thrown c)
                   | Some plain \<Rightarrow>
                       (case cy_parse c plain of None \<Rightarrow> Inl (cy_thrown c) | Some payload \<Rightarrow> Inr (payload, sharedSecret)))))"

section \<open>Responses\<close>

definition encryptResponse :: "cx_primitives \<Rightarrow> string \<Rightarrow> js \<Rightarrow> string \<Rightarrow> string \<Rightarrow> js option" where
  "encryptResponse c nonce response sharedSecret taskId =
     (case (hkdfSha256 c sharedSecret nonce (RESP_INFO_PREFIX @ taskId) 32, cy_stringify c response) of
        (Some key, Some responseJson) \<Rightarrow>
          let (ct, tag) = cy_seal c key nonce (taskId @ ''|resp'') responseJson in
          Some (JObj [(''version'', jint 1), (''nonce'', JStr (cy_b64 c nonce)), (''encrypted_body'', JStr (cy_b64 c (ct @ tag)))])
      | _ \<Rightarrow> None)"

definition decryptResponse :: "cx_primitives \<Rightarrow> js \<Rightarrow> string \<Rightarrow> string \<Rightarrow> js option" where
  "decryptResponse c env sharedSecret taskId =
     (let text = (\<lambda>k. cy_unb64 c (String_of (cy_runtime c) (own_property env k)));
          nonce = text ''nonce''; (ct, tag) = body_parts (text ''encrypted_body'')
      in case hkdfSha256 c sharedSecret nonce (RESP_INFO_PREFIX @ taskId) 32 of
           None \<Rightarrow> None
         | Some key \<Rightarrow>
             (case cy_open c key nonce (taskId @ ''|resp'') ct tag of None \<Rightarrow> None | Some plain \<Rightarrow> cy_parse c plain))"

section \<open>What is asked of the primitives\<close>

text \<open>
  Documented facts of the primitives: base64url decodes what it encoded; both sides of a key
  agreement get the same secret; HMAC-SHA256 gives 32 bytes; AES-256-GCM has a tag of 16 bytes and
  opens what it sealed.
\<close>

definition cx_laws :: "cx_primitives \<Rightarrow> bool" where
  "cx_laws c =
     ((\<forall>s. cy_unb64 c (cy_b64 c s) = s) \<and>
      (\<forall>a b s. cy_dh c a (cy_public c b) = Some s \<longrightarrow> cy_dh c b (cy_public c a) = Some s) \<and>
      (\<forall>k m. length (cy_hmac c k m) = 32) \<and>
      (\<forall>k n a p ct tag. cy_seal c k n a p = (ct, tag) \<longrightarrow> length tag = 16 \<and> cy_open c k n a ct tag = Some p))"

text \<open>A value that survives \<open>JSON.stringify\<close> and \<open>JSON.parse\<close>.\<close>

definition json_faithful :: "cx_primitives \<Rightarrow> js \<Rightarrow> bool" where
  "json_faithful c v = (case cy_stringify c v of None \<Rightarrow> False | Some t \<Rightarrow> cy_parse c t = Some v)"

lemma cx_lawsD:
  assumes "cx_laws c"
  shows "cy_unb64 c (cy_b64 c s) = s"
    "cy_dh c a (cy_public c b) = Some k \<Longrightarrow> cy_dh c b (cy_public c a) = Some k"
    "length (cy_hmac c x m) = 32"
    "cy_seal c x n d p = (ct, tag) \<Longrightarrow> length tag = 16 \<and> cy_open c x n d ct tag = Some p"
  using assms unfolding cx_laws_def by blast+

section \<open>The key derivation ends\<close>

lemma hkdf_expand_ends:
  assumes "\<And>k m. length (hmac k m) = 32"
  shows "\<exists>key. hkdf_expand hmac prk info len i t out = Some key \<and> length key = len"
proof (induction "len - length out" arbitrary: i t out rule: less_induct)
  case less
  show ?case
  proof (cases "len \<le> length out")
    case False
    define t' where "t' = hmac prk (t @ info @ [char_of i])"
    have "len - length (out @ t') < len - length out" using False assms by (simp add: t'_def)
    from less.hyps [OF this] show ?thesis
      using False by (subst hkdf_expand.simps) (simp add: t'_def [symmetric] Let_def)
  qed (simp add: hkdf_expand.simps)
qed

lemma hkdf_ends: "cx_laws c \<Longrightarrow> \<exists>key. hkdfSha256 c ikm salt info len = Some key \<and> length key = len"
  using hkdf_expand_ends [of "cy_hmac c"] by (simp add: hkdfSha256_def cx_lawsD)

lemma labels_differ: "REQ_INFO_PREFIX @ x \<noteq> RESP_INFO_PREFIX @ y"
  by (simp add: REQ_INFO_PREFIX_def RESP_INFO_PREFIX_def)

section \<open>Round trips\<close>

lemma split_at_first: "CHR ''|'' \<notin> set a \<Longrightarrow> split_at (CHR ''|'') (a @ CHR ''|'' # b) = Some (a, b)"
  by (induction a) auto

lemma body_parts_tag: "length tag = 16 \<Longrightarrow> body_parts (ct @ tag) = (ct, tag)"
  by (simp add: body_parts_def)

lemma payload_opens:
  assumes laws: "cx_laws c" and bar: "CHR ''|'' \<notin> set taskId" and json: "json_faithful c payload"
    and alg: "ck_algorithm key = JStr ''X25519''" and key: "ck_key key = JStr (cy_b64 c (cy_public c private))"
    and dh: "cy_dh c ephemeral (cy_public c private) = Some secret"
  obtains envelope where
    "encryptPayloadWithContext c ephemeral nonce payload key taskId intent = Inr (JObj envelope, secret)"
    "decryptPayloadWithContext c private (JObj envelope) = Inr (payload, secret)"
proof -
  note unb = cx_lawsD(1) [OF laws]
  obtain k where k: "hkdfSha256 c secret nonce (REQ_INFO_PREFIX @ taskId @ intent) 32 = Some k"
    using hkdf_ends [OF laws] by blast
  obtain t where t: "cy_stringify c payload = Some t" "cy_parse c t = Some payload"
    using json by (auto simp: json_faithful_def split: option.splits)
  obtain ct tag where seal: "cy_seal c k nonce (taskId @ ''|'' @ intent) t = (ct, tag)" by fastforce
  have opens: "length tag = 16" "cy_open c k nonce (taskId @ ''|'' @ intent) ct tag = Some t"
    using cx_lawsD(4) [OF laws seal] by auto
  have their_side: "cy_dh c private (cy_public c ephemeral) = Some secret" using cx_lawsD(2) [OF laws dh] .
  have parts: "aad_parts (taskId @ ''|'' @ intent) = (taskId, intent)"
    using bar by (simp add: aad_parts_def split_at_first)
  show ?thesis
  proof
    show "encryptPayloadWithContext c ephemeral nonce payload key taskId intent = Inr (JObj
        [(''version'', jint 1), (''recipient_key_id'', ck_key_id key), (''kem_ciphertext'', JStr (cy_b64 c (cy_public c ephemeral))),
         (''encrypted_body'', JStr (cy_b64 c (ct @ tag))), (''nonce'', JStr (cy_b64 c nonce)),
         (''aad'', JStr (cy_b64 c (taskId @ ''|'' @ intent))), (''plaintext_size'', jint (int (length t)))], secret)"
      using alg key dh k t seal by (simp add: encryptPayloadWithContext_def agreement_def unb)
    show "decryptPayloadWithContext c private (JObj
        [(''version'', jint 1), (''recipient_key_id'', ck_key_id key), (''kem_ciphertext'', JStr (cy_b64 c (cy_public c ephemeral))),
         (''encrypted_body'', JStr (cy_b64 c (ct @ tag))), (''nonce'', JStr (cy_b64 c nonce)),
         (''aad'', JStr (cy_b64 c (taskId @ ''|'' @ intent))), (''plaintext_size'', jint (int (length t)))]) = Inr (payload, secret)"
      using their_side k t(2) opens parts by (simp add: decryptPayloadWithContext_def unb body_parts_tag)
  qed
qed

lemma response_opens:
  assumes laws: "cx_laws c" and json: "json_faithful c response"
  obtains envelope where "encryptResponse c nonce response secret taskId = Some (JObj envelope)"
    "decryptResponse c (JObj envelope) secret taskId = Some response"
proof -
  note unb = cx_lawsD(1) [OF laws]
  obtain k where k: "hkdfSha256 c secret nonce (RESP_INFO_PREFIX @ taskId) 32 = Some k" using hkdf_ends [OF laws] by blast
  obtain t where t: "cy_stringify c response = Some t" "cy_parse c t = Some response"
    using json by (auto simp: json_faithful_def split: option.splits)
  obtain ct tag where seal: "cy_seal c k nonce (taskId @ ''|resp'') t = (ct, tag)" by fastforce
  have opens: "length tag = 16" "cy_open c k nonce (taskId @ ''|resp'') ct tag = Some t"
    using cx_lawsD(4) [OF laws seal] by auto
  show ?thesis
  proof
    show "encryptResponse c nonce response secret taskId =
        Some (JObj [(''version'', jint 1), (''nonce'', JStr (cy_b64 c nonce)), (''encrypted_body'', JStr (cy_b64 c (ct @ tag)))])"
      using k t(1) seal by (simp add: encryptResponse_def)
    show "decryptResponse c (JObj [(''version'', jint 1), (''nonce'', JStr (cy_b64 c nonce)), (''encrypted_body'', JStr (cy_b64 c (ct @ tag)))])
        secret taskId = Some response"
      using k t(2) opens by (simp add: decryptResponse_def unb body_parts_tag)
  qed
qed

section \<open>A consumer and a node\<close>

text \<open>
  The consumer with these primitives: for the \<open>idx\<close>-th candidate it draws an ephemeral key and a
  nonce. The node has a private key and draws a nonce for its response.
\<close>

definition cx_consumer :: "cx_primitives \<Rightarrow> (nat \<Rightarrow> string \<times> string) \<Rightarrow> submit_env \<Rightarrow> submit_env" where
  "cx_consumer c draws env =
     env\<lparr>sb_encrypt := (\<lambda>idx payload key taskId intent.
           case encryptPayloadWithContext c (fst (draws idx)) (snd (draws idx)) payload key taskId intent of
             Inl _ \<Rightarrow> None | Inr sealed \<Rightarrow> Some sealed),
         sb_decrypt := decryptResponse c\<rparr>"

definition cx_node :: "cx_primitives \<Rightarrow> string \<Rightarrow> string \<Rightarrow> (js \<Rightarrow> byte list option) \<Rightarrow> cx_env" where
  "cx_node c private nonce stringify =
     \<lparr>cx_decrypt = decryptPayloadWithContext c private,
      cx_encrypt = (\<lambda>response secret taskId. encryptResponse c nonce response secret (String_of (cy_runtime c) taskId)),
      cx_stringify = stringify\<rparr>"

text \<open>A node that publishes its key, and that it seals responses.\<close>

definition cx_route :: "cx_primitives \<Rightarrow> string \<Rightarrow> route_node \<Rightarrow> bool" where
  "cx_route c private n =
     (rn_cx_key n = Some (publicKeyFromRaw c (cy_public c private)\<lparr>ck_features := Some [RESPONSE_ENCRYPTION]\<rparr>))"

text \<open>The exchange: the body for the node, the task as the handler sees it, the answer, and what the consumer reads.\<close>

definition cx_exchange ::
  "cx_primitives \<Rightarrow> string \<Rightarrow> string \<Rightarrow> (nat \<Rightarrow> string \<times> string) \<Rightarrow> (js \<Rightarrow> byte list option) \<Rightarrow> task_config \<Rightarrow>
   submit_env \<Rightarrow> client_task \<Rightarrow> string \<Rightarrow> nat \<Rightarrow> route_node \<Rightarrow> js \<Rightarrow> js \<Rightarrow> (js \<times> js) option" where
  "cx_exchange c private nonce draws stringify cfg env req taskId idx n payload result =
     (case candidate_body (cx_consumer c draws env) req taskId idx n payload of
        Inl _ \<Rightarrow> None
      | Inr (body, sealed) \<Rightarrow>
          (case open_task cfg (cx_node c private nonce stringify) body of
             Inl _ \<Rightarrow> None
           | Inr (opened, secret) \<Rightarrow>
               let rt = \<lparr>rt_task = opened, rt_taskId = JStr taskId, rt_secret = secret, rt_t0 = 0\<rparr> in
               (case final_response (cx_node c private nonce stringify) rt result of
                  None \<Rightarrow> None
                | Some answer \<Rightarrow>
                    (case open_response (cx_consumer c draws env) sealed taskId answer of
                       Inl _ \<Rightarrow> None
                     | Inr read \<Rightarrow> Some (own_property opened ''payload'', read)))))"

lemma cx_names_kept: "own_property (JObj (AList.update k v kvs)) j = (if j = k then v else own_property (JObj kvs) j)"
  by (simp add: update_conv')

text \<open>
  C39 The encryption between a consumer and a node is transparent: when the node publishes its key
  and that it seals responses, the payload reaches the node's handler as the consumer gave it, the
  handler's result is sent sealed, and the consumer reads exactly the completed response. The task
  id must have no bar, the payload and the response must survive JSON, and the consumer's key
  agreement must succeed.
\<close>
theorem confidential_exchange:
  assumes laws: "cx_laws c" and bar: "CHR ''|'' \<notin> set taskId" and key: "tc_hasCxKey cfg" and route: "cx_route c private n"
    and dh: "cy_dh c (fst (draws idx)) (cy_public c private) \<noteq> None" and json: "json_faithful c payload"
    and answer: "json_faithful c (JObj (AList.update ''generated_by_ai'' (JBool True)
      (spread [(''task_id'', JStr taskId), (''status'', JStr ''completed'')] result)))"
  shows "cx_exchange c private nonce draws stringify cfg env req taskId idx n payload result =
    Some (payload, JObj (AList.update ''generated_by_ai'' (JBool True)
      (spread [(''task_id'', JStr taskId), (''status'', JStr ''completed'')] result)))"
proof -
  define pub where "pub = publicKeyFromRaw c (cy_public c private)\<lparr>ck_features := Some [RESPONSE_ENCRYPTION]\<rparr>"
  have pub: "ck_algorithm pub = JStr ''X25519''" "ck_key pub = JStr (cy_b64 c (cy_public c private))"
    "ck_features pub = Some [RESPONSE_ENCRYPTION]" by (simp_all add: pub_def publicKeyFromRaw_def)
  have n: "rn_cx_key n = Some pub" using route by (simp add: cx_route_def pub_def)
  obtain secret where s: "cy_dh c (fst (draws idx)) (cy_public c private) = Some secret" using dh by blast
  obtain envelope where enc: "encryptPayloadWithContext c (fst (draws idx)) (snd (draws idx)) payload pub taskId (tr_intent req)
      = Inr (JObj envelope, secret)" and dec: "decryptPayloadWithContext c private (JObj envelope) = Inr (payload, secret)"
    using payload_opens [OF laws bar json pub(1,2) s] by metis
  define response where "response = JObj (AList.update ''generated_by_ai'' (JBool True)
      (spread [(''task_id'', JStr taskId), (''status'', JStr ''completed'')] result))"
  obtain sealed where enc2: "encryptResponse c nonce response secret taskId = Some (JObj sealed)"
    and dec2: "decryptResponse c (JObj sealed) secret taskId = Some response"
    using response_opens [OF laws] answer unfolding response_def by metis
  define kvs where "kvs = [(''task_id'', JStr taskId), (''intent'', JStr (tr_intent req)),
      (''constraints'', projectExecutionConstraints (tr_constraints req)), (''iicp_conf'', JObj envelope),
      (''cx_response_encryption'', JStr ''required'')] @ nonempty_field ''source_node_id'' (tr_source_node_id req)"
  have body: "candidate_body (cx_consumer c draws env) req taskId idx n payload =
      Inr (JObj kvs, Some \<lparr>sl_secret = secret, sl_require_response = True\<rparr>)"
    using n pub(3) enc by (simp add: candidate_body_def cx_consumer_def kvs_def)
  have fields: "own_property (JObj kvs) ''iicp_conf'' = JObj envelope" "own_property (JObj kvs) ''payload'' = JUndef"
    "own_property (JObj kvs) ''cx_response_encryption'' = JStr ''required''"
    by (auto simp: kvs_def nonempty_field_def split: option.splits)
  define opened where "opened = JObj (AList.update ''_cx_encrypted'' (JBool True) (AList.update ''payload'' payload kvs))"
  have op: "open_task cfg (cx_node c private nonce stringify) (JObj kvs) = Inr (opened, Some secret)"
    using key fields dec by (simp add: open_task_def encrypted_request_def cx_node_def opened_def)
  have seen: "own_property opened ''payload'' = payload" "wants_encryption opened"
    using fields(3) by (simp_all add: opened_def wants_encryption_def cx_names_kept del: own_property.simps)
  have final: "final_response (cx_node c private nonce stringify)
      \<lparr>rt_task = opened, rt_taskId = JStr taskId, rt_secret = Some secret, rt_t0 = 0\<rparr> result =
      Some (JObj [(''task_id'', JStr taskId), (''status'', JStr ''encrypted''), (''iicp_conf_resp'', JObj sealed)])"
    using seen(2) enc2 by (simp add: final_response_def completed_response_def cx_node_def response_def)
  have "open_response (cx_consumer c draws env) (Some \<lparr>sl_secret = secret, sl_require_response = True\<rparr>) taskId
      (JObj [(''task_id'', JStr taskId), (''status'', JStr ''encrypted''), (''iicp_conf_resp'', JObj sealed)]) = Inr response"
    using dec2 by (simp add: open_response_def cx_consumer_def response_def)
  then show ?thesis using body op final seen(1) by (simp add: cx_exchange_def Let_def response_def)
qed

definition sample_primitives :: cx_primitives where
  "sample_primitives =
     \<lparr>cy_runtime = \<lparr>rt_string = \<lambda>_. [], rt_number = \<lambda>_. NaN\<rparr>, cy_b64 = (\<lambda>s. s), cy_unb64 = (\<lambda>s. s), cy_sha256_hex = (\<lambda>s. s),
      cy_public = (\<lambda>s. s), cy_dh = (\<lambda>a b. Some (sort (a @ b))), cy_hmac = (\<lambda>k m. take 32 (k @ m @ replicate 32 (CHR ''h''))),
      cy_seal = (\<lambda>k n a p. (p, replicate 16 (CHR ''t''))),
      cy_open = (\<lambda>k n a ct tag. if tag = replicate 16 (CHR ''t'') then Some ct else None),
      cy_stringify = (\<lambda>v. Some (if v = JObj [] then ''p'' else ''r'')),
      cy_parse = (\<lambda>t. Some (if t = ''p'' then JObj [] else JObj [(''task_id'', JStr ''t1''), (''status'', JStr ''completed''),
        (''result'', JStr ''ok''), (''generated_by_ai'', JBool True)])), cy_thrown = ''error''\<rparr>"

lemma sample_primitives_laws: "cx_laws sample_primitives"
proof -
  have "sort (a @ b) = sort (b @ a)" for a b :: string by (simp add: properties_for_sort)
  then show ?thesis by (auto simp: cx_laws_def sample_primitives_def)
qed

text \<open>
  An exchange with these: the payload is an empty object, the result says ok.
\<close>
lemma confidential_exchange_witness:
  "cx_exchange sample_primitives ''k'' ''n'' (\<lambda>_. (''e'', ''m'')) (\<lambda>_. Some []) (sample_config\<lparr>tc_hasCxKey := True\<rparr>)
     sample_submit SubmissionSafety.sample_request ''t1'' 0
     (Discovery.sample_node\<lparr>rn_cx_key := Some (publicKeyFromRaw sample_primitives (cy_public sample_primitives ''k'')\<lparr>ck_features := Some [RESPONSE_ENCRYPTION]\<rparr>)\<rparr>)
     (JObj []) (JObj [(''result'', JStr ''ok'')]) =
   Some (JObj [], JObj [(''task_id'', JStr ''t1''), (''status'', JStr ''completed''), (''result'', JStr ''ok''), (''generated_by_ai'', JBool True)])"
proof -
  have r: "JObj (AList.update ''generated_by_ai'' (JBool True)
      (spread [(''task_id'', JStr ''t1''), (''status'', JStr ''completed'')] (JObj [(''result'', JStr ''ok'')]))) =
      JObj [(''task_id'', JStr ''t1''), (''status'', JStr ''completed''), (''result'', JStr ''ok''), (''generated_by_ai'', JBool True)]"
    by (simp add: spread_def)
  show ?thesis unfolding r [symmetric]
    by (rule confidential_exchange [OF sample_primitives_laws])
      (simp_all add: sample_config_def cx_route_def json_faithful_def sample_primitives_def r)
qed

section \<open>Limits\<close>

text \<open>
  The node takes the task id and the intent from the envelope's own associated data, cut at the
  first bar. A task id with a bar is cut in the wrong place, and the key derived from the parts is
  another one.
\<close>

lemma bar_in_task_id:
  "aad_parts (''a|b'' @ ''|'' @ ''urn:x'') = (''a'', ''b|urn:x'') \<and>
   REQ_INFO_PREFIX @ ''a'' @ ''b|urn:x'' \<noteq> REQ_INFO_PREFIX @ ''a|b'' @ ''urn:x''"
  by (simp add: aad_parts_def)

text \<open>
  Nothing compares the data of the envelope with the request around it: an envelope that a relay
  puts under another task id or intent opens just the same.
\<close>

lemma envelope_not_bound:
  assumes "open_task cfg cx (JObj kvs) = Inr (opened, Some secret)" "encrypted_request (JObj kvs)" "k \<in> {''task_id'', ''intent''}"
  shows "\<exists>opened'. open_task cfg cx (JObj (AList.update k v kvs)) = Inr (opened', Some secret) \<and>
    own_property opened' ''payload'' = own_property opened ''payload'' \<and> own_property opened' k = v"
proof -
  have other: "encrypted_request (JObj (AList.update k v kvs))"
    "own_property (JObj (AList.update k v kvs)) ''iicp_conf'' = own_property (JObj kvs) ''iicp_conf''"
    using assms(2,3) by (auto simp: encrypted_request_def update_conv')
  obtain payload where d: "cx_decrypt cx (own_property (JObj kvs) ''iicp_conf'') = Inr (payload, secret)" "tc_hasCxKey cfg"
    and o: "opened = JObj (AList.update ''_cx_encrypted'' (JBool True) (AList.update ''payload'' payload kvs))"
    using assms(1,2) by (auto simp: open_task_def simp del: own_property.simps split: if_splits sum.splits)
  show ?thesis using assms(3) d other o
    by (auto simp: open_task_def cx_names_kept simp del: own_property.simps)
qed

text \<open>A node finds its key again under the same name.\<close>

lemma key_is_found_again:
  assumes "cx_laws c" "loadOrCreateNodeCxKey c nodeId endpoint fresh files = (key, files')"
  shows "loadOrCreateNodeCxKey c nodeId endpoint fresh' files' = (key, files')"
  using assms(2) cx_lawsD(1) [OF assms(1)]
  by (auto simp: loadOrCreateNodeCxKey_def Let_def update_conv' split: option.splits)

end
