(* ===== verification/SelfUpdate.thy ===== *)
theory SelfUpdate imports NatDetection begin

text \<open>
  The node's updating of itself: \<open>src/updater.ts\<close>. The registry's answer, the package manager and
  the clock are arguments; the state file is the value that parsing it gives, when it is there. The
  texts of instants and their parser are parameters; times are milliseconds.
\<close>

section \<open>Versions\<close>

definition plain_number :: "string \<Rightarrow> bool" where
  \<comment> \<open>\<open>/^(0|[1-9]\d*)$/\<close>\<close>
  "plain_number s = (s = ''0'' \<or> s \<noteq> [] \<and> all_digits s \<and> hd s \<noteq> CHR ''0'')"

definition parseVersion :: "string \<Rightarrow> (nat \<times> nat \<times> nat) option" where
  "parseVersion v =
     (case split_on (CHR ''.'') (js_trim v) of
        [a, b, c] \<Rightarrow> if list_all plain_number [a, b, c] then Some (decimal a, decimal b, decimal c) else None
      | _ \<Rightarrow> None)"

definition version_less :: "nat \<times> nat \<times> nat \<Rightarrow> nat \<times> nat \<times> nat \<Rightarrow> bool" where
  \<comment> \<open>the loop over the three parts\<close>
  "version_less x y =
     (case (x, y) of ((a, b, c), (a', b', c')) \<Rightarrow>
        if a < a' then True else if a' < a then False
        else if b < b' then True else if b' < b then False
        else if c < c' then True else False)"

definition isOutdated :: "string \<Rightarrow> string \<Rightarrow> bool" where
  "isOutdated current latest =
     (case (parseVersion current, parseVersion latest) of (Some x, Some y) \<Rightarrow> version_less x y | _ \<Rightarrow> False)"

definition latestNpmVersion :: "(bool \<times> string option) option \<Rightarrow> string option" where
  \<comment> \<open>whether the status is good and the version of the answer; \<open>None\<close> when something threw\<close>
  "latestNpmVersion answer = (case answer of Some (True, v) \<Rightarrow> v | _ \<Rightarrow> None)"

record update_verdict =
  uv_current :: string
  uv_latest :: "string option"
  uv_outdated :: bool
  uv_command :: "string option"

definition checkUpdate :: "string \<Rightarrow> string option \<Rightarrow> update_verdict" where
  "checkUpdate current latest =
     (let newer = (case latest of None \<Rightarrow> False | Some l \<Rightarrow> isOutdated current l) in
      \<lparr>uv_current = current, uv_latest = latest, uv_outdated = newer,
       uv_command = (if newer then Some (''npm install -g @iicp/client@'' @ the latest @ '' --registry=https://registry.npmjs.org'') else None)\<rparr>)"

section \<open>The state that outlives the process\<close>

record update_state =
  us_version :: "string option"
  us_result :: "string option"
  us_failures :: int
  us_retryAt :: "string option"

record updater =
  up_state :: update_state
  up_file :: "js option"
  up_latestSeen :: "string option"
  up_checkedAt :: "int option"
  up_errorClass :: "string option"

definition text_or_none :: "js \<Rightarrow> string option" where
  "text_or_none v = (case v of JStr s \<Rightarrow> Some s | _ \<Rightarrow> None)"

definition loadUpdateState :: "updater \<Rightarrow> updater" where
  "loadUpdateState u =
     (case up_file u of
        None \<Rightarrow> u
      | Some value \<Rightarrow>
          if nullish value then u
          else
            let result = text_or_none (own_property value ''sdk_update_last_result'') in
            u\<lparr>up_state :=
               \<lparr>us_version = text_or_none (own_property value ''sdk_update_last_attempted_version''),
                us_result = (if result \<in> {Some ''success'', Some ''failed''} then result else None),
                us_failures = (case own_property value ''sdk_update_consecutive_failures'' of
                    JNum (Fin q) \<Rightarrow> if of_int \<lfloor>q\<rfloor> = q \<and> 0 \<le> q then \<lfloor>q\<rfloor> else 0
                  | _ \<Rightarrow> 0),
                us_retryAt = text_or_none (own_property value ''sdk_update_next_retry_at'')\<rparr>\<rparr>)"

definition optional_text :: "string option \<Rightarrow> js" where
  "optional_text v = (case v of None \<Rightarrow> JNull | Some s \<Rightarrow> JStr s)"

definition state_json :: "update_state \<Rightarrow> (string \<times> js) list" where
  "state_json s =
     [(''sdk_update_last_attempted_version'', optional_text (us_version s)), (''sdk_update_last_result'', optional_text (us_result s)),
      (''sdk_update_consecutive_failures'', jint (us_failures s)), (''sdk_update_next_retry_at'', optional_text (us_retryAt s))]"

definition persistUpdateState :: "bool \<Rightarrow> updater \<Rightarrow> bool \<times> updater" where
  \<comment> \<open>the file is replaced as a whole, or kept when a step fails\<close>
  "persistUpdateState written u = (written, if written then u\<lparr>up_file := Some (JObj (state_json (up_state u)))\<rparr> else u)"

section \<open>Settings\<close>

definition DEFAULT_AUTO_UPDATE_INTERVAL_S :: int where "DEFAULT_AUTO_UPDATE_INTERVAL_S = 3600"

definition autoUpdateEnabled :: "string option \<Rightarrow> bool" where
  "autoUpdateEnabled v = (js_lower (js_trim (or_else v ''1'')) \<notin> set [''0'', ''false'', ''no'', ''off''])"

definition autoUpdateIntervalMs :: "string option \<Rightarrow> int \<Rightarrow> int" where
  "autoUpdateIntervalMs v defaultS =
     (case v of
        None \<Rightarrow> max 300 defaultS
      | Some t \<Rightarrow> (case parse_int10 t of Some n \<Rightarrow> max 300 n | None \<Rightarrow> defaultS)) * 1000"

definition autoUpdateInitialDelayMs :: "int \<Rightarrow> int" where
  "autoUpdateInitialDelayMs intervalMs = min intervalMs (5 * 60000)"

text \<open>What a tick uses of the environment: the interval, the texts of instants and their parser.\<close>

record update_env =
  ue_intervalMs :: int
  ue_iso :: "int \<Rightarrow> string"
  ue_dateParse :: "string \<Rightarrow> int option"

definition retryDelayMs :: "int \<Rightarrow> int \<Rightarrow> int" where
  "retryDelayMs intervalMs failures = min 86400000 (intervalMs * 2 ^ nat (min (max (failures - 1) 0) 5))"

section \<open>One tick\<close>

definition candidateRetryBlocked :: "update_env \<Rightarrow> string \<Rightarrow> int \<Rightarrow> updater \<Rightarrow> bool \<times> updater" where
  "candidateRetryBlocked e version now u =
     (let u' = loadUpdateState u; s = up_state u' in
      (us_version s = Some version \<and> us_result s = Some ''failed'' \<and>
       (case ue_dateParse e (or_else (us_retryAt s) []) of None \<Rightarrow> False | Some retryAt \<Rightarrow> now < retryAt), u'))"

definition recordUpdateResult :: "update_env \<Rightarrow> string \<Rightarrow> bool \<Rightarrow> string option \<Rightarrow> int \<Rightarrow> bool \<Rightarrow> updater \<Rightarrow> updater" where
  "recordUpdateResult e version success errorClass now written u =
     (let u' = loadUpdateState u;
          failures = (if success then 0 else if us_version (up_state u') = Some version then us_failures (up_state u') + 1 else 1);
          s = \<lparr>us_version = Some version, us_result = Some (if success then ''success'' else ''failed''), us_failures = failures,
               us_retryAt = (if success then None else Some (ue_iso e (now + retryDelayMs (ue_intervalMs e) failures)))\<rparr>;
          (ok, u'') = persistUpdateState written (u'\<lparr>up_state := s, up_errorClass := errorClass\<rparr>)
      in if ok then u'' else u''\<lparr>up_errorClass := Some ''update_state_write_failed''\<rparr>)"

definition npmInstallArgs :: "string \<Rightarrow> string list option" where
  "npmInstallArgs version =
     (if parseVersion version = None then None
      else Some [''install'', ''-g'', ''@iicp/client@'' @ version, ''--registry=https://registry.npmjs.org'', ''--ignore-scripts''])"

text \<open>What happens to the child: the first event settles the promise. \<open>None\<close> as the code of an exit is a signal.\<close>

datatype install_event = ChildError | ChildExit "nat option" | ChildTimeout

definition performSelfUpdate :: "string \<Rightarrow> bool \<Rightarrow> install_event list \<Rightarrow> bool option" where
  \<comment> \<open>\<open>None\<close>: not settled yet; the second argument says whether the child could be started\<close>
  "performSelfUpdate version spawned events =
     (if npmInstallArgs version = None \<or> \<not> spawned then Some False
      else case events of
        [] \<Rightarrow> None
      | ev # _ \<Rightarrow> Some (ev = ChildExit (Some 0)))"

datatype update_action = Disabled | Unknown | Current | Backoff | Upgraded | UpgradeFailed

definition autoUpdateTick ::
  "update_env \<Rightarrow> string \<Rightarrow> string option \<Rightarrow> bool \<Rightarrow> (string \<Rightarrow> bool) \<Rightarrow> int \<Rightarrow> bool \<Rightarrow> updater \<Rightarrow> update_action \<times> updater" where
  "autoUpdateTick e current latest enabled upgrade now written u =
     (let u = u\<lparr>up_latestSeen := latest, up_checkedAt := Some now,
                up_errorClass := (if latest = None then Some ''latest_unknown'' else None)\<rparr> in
      if \<not> enabled then (Disabled, u)
      else case latest of
        None \<Rightarrow> (Unknown, u)
      | Some version \<Rightarrow>
          if \<not> isOutdated current version then (Current, u)
          else
            let (blocked, u) = candidateRetryBlocked e version now u in
            if blocked then (Backoff, u)
            else if upgrade version then (Upgraded, recordUpdateResult e version True None now written u)
            else (UpgradeFailed, recordUpdateResult e version False (Some ''package_install_failed'') now written u))"

definition recordUpdateCheck :: "string option \<Rightarrow> string option \<Rightarrow> int \<Rightarrow> updater \<Rightarrow> updater" where
  "recordUpdateCheck latest errorClass now u =
     u\<lparr>up_latestSeen := latest, up_checkedAt := Some now, up_errorClass := errorClass\<rparr>"

definition autoUpdateStatusPayload :: "update_env \<Rightarrow> bool \<Rightarrow> updater \<Rightarrow> (string \<times> js) list" where
  \<comment> \<open>an interval is a whole number of seconds\<close>
  "autoUpdateStatusPayload e enabled u =
     (let u' = loadUpdateState u in
      [(''auto_update_enabled'', JBool enabled), (''auto_update_interval_s'', jint (ue_intervalMs e div 1000)),
       (''sdk_latest_seen'', optional_text (up_latestSeen u')),
       (''sdk_update_last_checked_at'', case up_checkedAt u' of None \<Rightarrow> JNull | Some t \<Rightarrow> JStr (ue_iso e t)),
       (''sdk_update_error_class'', optional_text (up_errorClass u'))] @ state_json (up_state u'))"

section \<open>Newer is an order\<close>

text \<open>
  So a node never goes back, and no two versions replace each other in turn.
\<close>

lemma version_less_iff: "version_less x y \<longleftrightarrow> fst x < fst y \<or> fst x = fst y \<and> (fst (snd x) < fst (snd y) \<or>
    fst (snd x) = fst (snd y) \<and> snd (snd x) < snd (snd y))"
  by (cases x; cases y) (auto simp: version_less_def)

lemma isOutdated_irrefl: "\<not> isOutdated v v"
  by (auto simp: isOutdated_def version_less_iff split: option.splits)

lemma isOutdated_trans: "isOutdated a b \<Longrightarrow> isOutdated b c \<Longrightarrow> isOutdated a c"
  by (auto simp: isOutdated_def version_less_iff split: option.splits)

lemma isOutdated_asym: "isOutdated a b \<Longrightarrow> \<not> isOutdated b a"
  using isOutdated_trans isOutdated_irrefl by blast

lemma only_stable_versions: "isOutdated current v \<Longrightarrow> npmInstallArgs v \<noteq> None"
  by (auto simp: isOutdated_def npmInstallArgs_def split: option.splits)

section \<open>The state file\<close>

lemma up_defaults [simp]: "nullish (JObj kvs) = False"
  by (simp add: nullish_def)

lemma text_of_optional [simp]: "text_or_none (optional_text v) = v"
  by (cases v) (simp_all add: text_or_none_def optional_text_def)

definition update_state_ok :: "update_state \<Rightarrow> bool" where
  "update_state_ok s = (us_result s \<in> {None, Some ''success'', Some ''failed''} \<and> 0 \<le> us_failures s)"

lemma state_reloads:
  assumes "update_state_ok s" "up_file u = Some (JObj (state_json s))"
  shows "loadUpdateState u = u\<lparr>up_state := s\<rparr>"
  using assms by (auto simp: loadUpdateState_def state_json_def update_state_ok_def Let_def)

lemma load_keeps_file [simp]: "up_file (loadUpdateState u) = up_file u"
  by (simp add: loadUpdateState_def Let_def split: option.split)

lemma loaded_ok: "update_state_ok (up_state u) \<Longrightarrow> update_state_ok (up_state (loadUpdateState u))"
  by (auto simp: loadUpdateState_def update_state_ok_def Let_def split: option.split js.split number.split)

section \<open>Backing off\<close>

text \<open>
  A failed attempt is on file: the version, the number of failures in a row and the instant before
  which it is not tried again.
\<close>

definition failed_until :: "update_env \<Rightarrow> string \<Rightarrow> int \<Rightarrow> updater \<Rightarrow> bool" where
  "failed_until e version t u =
     (\<exists>k. 1 \<le> k \<and> up_file u = Some (JObj (state_json
        \<lparr>us_version = Some version, us_result = Some ''failed'', us_failures = k, us_retryAt = Some (ue_iso e t)\<rparr>)))"

lemma failure_is_filed:
  assumes "update_state_ok (up_state u)"
  shows "\<exists>k\<ge>1. failed_until e version (now + retryDelayMs (ue_intervalMs e) k)
    (recordUpdateResult e version False errorClass now True u)"
proof -
  have "0 \<le> us_failures (up_state (loadUpdateState u))" using loaded_ok [OF assms] by (simp add: update_state_ok_def)
  define k where "k = (if us_version (up_state (loadUpdateState u)) = Some version
      then us_failures (up_state (loadUpdateState u)) + 1 else 1)"
  have "1 \<le> k" using \<open>0 \<le> _\<close> by (simp add: k_def)
  moreover have "up_file (recordUpdateResult e version False errorClass now True u) = Some (JObj (state_json
      \<lparr>us_version = Some version, us_result = Some ''failed'', us_failures = k,
       us_retryAt = Some (ue_iso e (now + retryDelayMs (ue_intervalMs e) k))\<rparr>))"
    by (simp add: recordUpdateResult_def persistUpdateState_def k_def Let_def)
  ultimately show ?thesis unfolding failed_until_def by blast
qed

lemma blocked_until:
  assumes "failed_until e version t u" "\<And>x. ue_dateParse e (ue_iso e x) = Some x" "now < t"
  shows "fst (candidateRetryBlocked e version now u)"
proof -
  obtain k where k: "1 \<le> k" and f: "up_file u = Some (JObj (state_json
      \<lparr>us_version = Some version, us_result = Some ''failed'', us_failures = k, us_retryAt = Some (ue_iso e t)\<rparr>))"
    using assms(1) by (auto simp: failed_until_def)
  have "loadUpdateState u = u\<lparr>up_state :=
      \<lparr>us_version = Some version, us_result = Some ''failed'', us_failures = k, us_retryAt = Some (ue_iso e t)\<rparr>\<rparr>"
    using k by (intro state_reloads [OF _ f]) (simp add: update_state_ok_def)
  then show ?thesis using assms(2,3) by (simp add: candidateRetryBlocked_def Let_def)
qed

lemma retry_delay_bounds:
  assumes "300000 \<le> i"
  shows "300000 \<le> retryDelayMs i k" "retryDelayMs i k \<le> 86400000"
proof -
  have "i * 1 \<le> i * 2 ^ nat (min (max (k - 1) 0) 5)" using assms by (intro mult_left_mono) auto
  then have "300000 \<le> i * 2 ^ nat (min (max (k - 1) 0) 5)" using assms by linarith
  then show "300000 \<le> retryDelayMs i k" by (simp add: retryDelayMs_def)
qed (simp add: retryDelayMs_def)

lemma retry_delay_grows: "0 \<le> i \<Longrightarrow> k \<le> k' \<Longrightarrow> retryDelayMs i k \<le> retryDelayMs i k'"
  unfolding retryDelayMs_def by (intro min.mono order_refl mult_left_mono power_increasing nat_mono) auto

text \<open>
  A run of ticks: the instant, what the registry names as the latest, whether the installation
  would succeed and whether the state could be written.
\<close>

type_synonym tick = "int \<times> string option \<times> bool \<times> bool"

fun ticks :: "update_env \<Rightarrow> string \<Rightarrow> bool \<Rightarrow> tick list \<Rightarrow> updater \<Rightarrow> update_action list \<times> updater" where
  "ticks e current enabled [] u = ([], u)"
| "ticks e current enabled ((now, latest, ok, written) # ts) u =
     (let (a, u') = autoUpdateTick e current latest enabled (\<lambda>_. ok) now written u;
          (as, u'') = ticks e current enabled ts u'
      in (a # as, u''))"

definition attempts_install :: "update_action \<Rightarrow> bool" where
  "attempts_install a = (a \<in> {Upgraded, UpgradeFailed})"

lemma quiet_tick_keeps_file:
  assumes "autoUpdateTick e current latest enabled upgrade now written u = (a, u')" "\<not> attempts_install a"
  shows "up_file u' = up_file u"
  using assms by (auto simp: autoUpdateTick_def candidateRetryBlocked_def attempts_install_def Let_def split: option.splits if_splits)

lemma blocked_tick:
  assumes "failed_until e version t u" "\<And>x. ue_dateParse e (ue_iso e x) = Some x" "now < t" "latest \<in> {None, Some version}"
    "autoUpdateTick e current latest enabled upgrade now written u = (a, u')"
  shows "\<not> attempts_install a \<and> failed_until e version t u'"
proof -
  define v where "v = u\<lparr>up_latestSeen := latest, up_checkedAt := Some now, up_errorClass := (if latest = None then Some ''latest_unknown'' else None)\<rparr>"
  have "failed_until e version t v" using assms(1) by (simp add: failed_until_def v_def)
  then have "fst (candidateRetryBlocked e version now v)" using assms(2,3) by (rule blocked_until)
  then have quiet: "\<not> attempts_install a" using assms(4,5)
    by (auto simp: autoUpdateTick_def attempts_install_def v_def [symmetric] Let_def case_prod_unfold split: if_splits)
  then have "up_file u' = up_file u" using assms(5) by (rule quiet_tick_keeps_file [rotated])
  then show ?thesis using quiet assms(1) by (simp add: failed_until_def)
qed

lemma blocked_ticks:
  assumes "failed_until e version t u" "\<And>x. ue_dateParse e (ue_iso e x) = Some x"
    "list_all (\<lambda>(now, latest, _). now < t \<and> latest \<in> {None, Some version}) ts"
  shows "list_all (\<lambda>a. \<not> attempts_install a) (fst (ticks e current enabled ts u))"
  using assms(1,3)
proof (induction ts arbitrary: u)
  case (Cons x ts)
  obtain now latest ok written where x: "x = (now, latest, ok, written)" by (cases x)
  obtain a u' where a: "autoUpdateTick e current latest enabled (\<lambda>_. ok) now written u = (a, u')" by fastforce
  have "\<not> attempts_install a \<and> failed_until e version t u'"
    using blocked_tick [OF Cons.prems(1) assms(2) _ _ a] Cons.prems(2) by (simp add: x)
  then show ?case using Cons.IH [of u'] Cons.prems(2) by (simp add: x a case_prod_unfold Let_def)
qed simp

text \<open>
  C40 A failed update is not tried again too soon, also after a restart of the process. When a tick
  tried to install a version and failed, and the failure was written, no tick before the retry
  instant installs anything as long as the registry names that version or does not answer; the
  retry instant is between five minutes and a day later. What a tick does install is strictly newer
  than the running version and a plain stable release.
\<close>
theorem failed_update_backs_off:
  assumes parse: "\<And>x. ue_dateParse e (ue_iso e x) = Some x" and interval: "300000 \<le> ue_intervalMs e"
    and ok: "update_state_ok (up_state u)"
    and tick: "autoUpdateTick e current (Some version) enabled upgrade now True u = (UpgradeFailed, u')"
  shows "isOutdated current version \<and> npmInstallArgs version \<noteq> None \<and>
    (\<exists>retry. now + 300000 \<le> retry \<and> retry \<le> now + 86400000 \<and>
      (\<forall>restarted ts. up_file restarted = up_file u' \<and>
         list_all (\<lambda>(t, latest, _). t < retry \<and> latest \<in> {None, Some version}) ts \<longrightarrow>
         list_all (\<lambda>a. \<not> attempts_install a) (fst (ticks e current enabled ts restarted))))"
proof -
  have newer: "isOutdated current version" using tick by (simp add: autoUpdateTick_def Let_def split: if_splits)
  define v where "v = u\<lparr>up_latestSeen := Some version, up_checkedAt := Some now, up_errorClass := None\<rparr>"
  have u': "u' = recordUpdateResult e version False (Some ''package_install_failed'') now True (loadUpdateState v)"
    using tick by (auto simp: autoUpdateTick_def candidateRetryBlocked_def v_def Let_def split: if_splits)
  have "update_state_ok (up_state (loadUpdateState v))" using ok by (intro loaded_ok) (simp add: v_def)
  then obtain k where "failed_until e version (now + retryDelayMs (ue_intervalMs e) k) u'"
    unfolding u' using failure_is_filed by metis
  moreover have "\<And>restarted t. failed_until e version t u' \<Longrightarrow> up_file restarted = up_file u' \<Longrightarrow> failed_until e version t restarted"
    by (simp add: failed_until_def)
  ultimately have "\<forall>restarted ts. up_file restarted = up_file u' \<and>
      list_all (\<lambda>(t, latest, _). t < now + retryDelayMs (ue_intervalMs e) k \<and> latest \<in> {None, Some version}) ts \<longrightarrow>
      list_all (\<lambda>a. \<not> attempts_install a) (fst (ticks e current enabled ts restarted))"
    using blocked_ticks parse by meson
  moreover have "300000 \<le> retryDelayMs (ue_intervalMs e) k \<and> retryDelayMs (ue_intervalMs e) k \<le> 86400000"
    using retry_delay_bounds [OF interval] by blast
  ultimately show ?thesis using newer only_stable_versions [OF newer]
    by (intro conjI exI [of _ "now + retryDelayMs (ue_intervalMs e) k"]) simp_all
qed

definition sample_update_env :: update_env where
  "sample_update_env = \<lparr>ue_intervalMs = 3600000, ue_iso = (\<lambda>t. if t < 0 then CHR ''-'' # replicate (nat (- t)) (CHR ''x'') else replicate (nat t) (CHR ''x'')),
     ue_dateParse = (\<lambda>s. Some (if starts_with s ''-'' then - int (length s - 1) else int (length s)))\<rparr>"

definition sample_updater :: updater where
  "sample_updater = \<lparr>up_state = \<lparr>us_version = None, us_result = None, us_failures = 0, us_retryAt = None\<rparr>, up_file = None,
     up_latestSeen = None, up_checkedAt = None, up_errorClass = None\<rparr>"

lemma sample_versions: "isOutdated ''1.2.3'' ''1.2.4''"
  by (simp add: isOutdated_def parseVersion_def js_trim_def js_space_def plain_number_def all_digits_def decimal_def version_less_def)

lemma failed_update_backs_off_witness:
  "\<exists>u' retry. autoUpdateTick sample_update_env ''1.2.3'' (Some ''1.2.4'') True (\<lambda>_. False) 0 True sample_updater = (UpgradeFailed, u') \<and>
     300000 \<le> retry \<and>
     fst (ticks sample_update_env ''1.2.3'' True [(retry - 1, Some ''1.2.4'', True, True)] u') = [Backoff]"
proof -
  have parse: "ue_dateParse sample_update_env (ue_iso sample_update_env x) = Some x" for x
    by (cases "nat x") (auto simp: sample_update_env_def starts_with_def)
  obtain u' where tick: "autoUpdateTick sample_update_env ''1.2.3'' (Some ''1.2.4'') True (\<lambda>_. False) 0 True sample_updater = (UpgradeFailed, u')"
    by (simp add: autoUpdateTick_def candidateRetryBlocked_def loadUpdateState_def sample_updater_def sample_versions Let_def)
  have "300000 \<le> ue_intervalMs sample_update_env" "update_state_ok (up_state sample_updater)"
    by (simp_all add: sample_update_env_def sample_updater_def update_state_ok_def)
  from failed_update_backs_off [OF parse this tick] obtain retry where r: "300000 \<le> retry"
    and quiet: "\<forall>restarted ts. up_file restarted = up_file u' \<and>
         list_all (\<lambda>(t, latest, _). t < retry \<and> latest \<in> {None, Some ''1.2.4''}) ts \<longrightarrow>
         list_all (\<lambda>a. \<not> attempts_install a) (fst (ticks sample_update_env ''1.2.3'' True ts restarted))"
    by auto
  obtain a u'' where a: "autoUpdateTick sample_update_env ''1.2.3'' (Some ''1.2.4'') True (\<lambda>_. True) (retry - 1) True u' = (a, u'')" by fastforce
  have "list_all (\<lambda>a. \<not> attempts_install a) (fst (ticks sample_update_env ''1.2.3'' True [(retry - 1, Some ''1.2.4'', True, True)] u'))"
    by (rule quiet [rule_format]) simp
  then have "\<not> attempts_install a" by (simp add: a)
  then have "a = Backoff" using a
    by (auto simp: autoUpdateTick_def attempts_install_def sample_versions candidateRetryBlocked_def Let_def split: if_splits)
  then show ?thesis using tick r a by auto
qed

section \<open>Limits\<close>

text \<open>A version with a suffix is no version, rather than one without its suffix.\<close>

lemma suffix_refused: "parseVersion ''1.2.3-rc1'' = None"
  by (simp add: parseVersion_def js_trim_def js_space_def plain_number_def all_digits_def)

text \<open>
  After a success nothing holds the next tick back: where the restarted process is still the old
  version (another installation comes first on the path), it installs and restarts at every tick.
\<close>

lemma installed_again:
  assumes "autoUpdateTick e current (Some version) True (\<lambda>_. True) now True u = (Upgraded, u')"
  shows "fst (autoUpdateTick e current (Some version) True (\<lambda>_. True) later written u') = Upgraded"
proof -
  have newer: "isOutdated current version" using assms by (simp add: autoUpdateTick_def Let_def split: if_splits)
  define s where "s = \<lparr>us_version = Some version, us_result = Some ''success'', us_failures = 0, us_retryAt = None\<rparr>"
  have "up_file u' = Some (JObj (state_json s))"
    using assms newer by (auto simp: autoUpdateTick_def candidateRetryBlocked_def recordUpdateResult_def persistUpdateState_def s_def Let_def split: if_splits)
  then have "loadUpdateState (u'\<lparr>up_latestSeen := x, up_checkedAt := y, up_errorClass := z\<rparr>) =
      u'\<lparr>up_latestSeen := x, up_checkedAt := y, up_errorClass := z, up_state := s\<rparr>" for x y z
    using state_reloads [of s "u'\<lparr>up_latestSeen := x, up_checkedAt := y, up_errorClass := z\<rparr>"] by (simp add: update_state_ok_def s_def)
  then show ?thesis using newer by (simp add: autoUpdateTick_def candidateRetryBlocked_def s_def Let_def)
qed

text \<open>
  A failure that cannot be written is forgotten when an older state is on file: the next tick reads
  that file over what the process knew.
\<close>

lemma unwritten_failure_forgotten:
  assumes "autoUpdateTick e current (Some version) True (\<lambda>_. False) now False u = (UpgradeFailed, u')"
    "up_file u = Some (JObj (state_json s))" "update_state_ok s" "us_version s \<noteq> Some version"
  shows "fst (autoUpdateTick e current (Some version) True (\<lambda>_. False) now False u') = UpgradeFailed"
proof -
  have newer: "isOutdated current version" using assms(1) by (simp add: autoUpdateTick_def Let_def split: if_splits)
  have "up_file u' = Some (JObj (state_json s))"
    using assms(1,2) newer by (auto simp: autoUpdateTick_def candidateRetryBlocked_def recordUpdateResult_def persistUpdateState_def Let_def split: if_splits)
  then have "loadUpdateState (u'\<lparr>up_latestSeen := x, up_checkedAt := y, up_errorClass := z\<rparr>) =
      u'\<lparr>up_latestSeen := x, up_checkedAt := y, up_errorClass := z, up_state := s\<rparr>" for x y z
    using state_reloads [OF assms(3), of "u'\<lparr>up_latestSeen := x, up_checkedAt := y, up_errorClass := z\<rparr>"] by simp
  then show ?thesis using newer assms(4) by (simp add: autoUpdateTick_def candidateRetryBlocked_def Let_def)
qed

end
