(* ===== verification/Spec2Isabelle.thy ===== *)
theory Spec2Isabelle
  imports TtlCache Gate Availability Framing FrameStream ResponseSequence Lifecycle LifecyclePolicies Admission
    CanonicalJson TrustBundle RateLimit RelayStream RelaySession RelayServer Tickets
    Routing Peers BackendStability EndpointSecurity HttpResource TaskPipeline Policies NativeRpc RelayWorker Capabilities NodeHealth
    Discovery RuntimeIdentity Submission SubmissionSafety Gateway GatewaySafety BackendStream StreamDelivery Backends BackendSafety
    Tunnel TunnelSafety NatDetection Exposure Confidential SelfUpdate
begin

text \<open>
  The IICP client SDK (TypeScript), \<open>src/src\<close>: under construction.
\<close>

end
